(* ===== verification/Prelude.thy ===== *)
theory Prelude
  imports Main "HOL-Library.Char_ord" "HOL-Library.List_Lexorder" "HOL-Library.Product_Lexorder"
begin

section \<open>Shared vocabulary of the development\<close>

text \<open>
  This theory holds what every component uses: Go errors as values, points in time, the text
  form in which SQLite stores and compares them, tables as lists of rows, and the generic list
  lemmas the component proofs share.
\<close>

subsection \<open>Errors as values\<close>

text \<open>
  A Go function that returns \<open>(T, error)\<close> becomes a function into \<open>go_error + T\<close>.
  \<open>Errorf\<close> keeps the format string and the arguments that the source formats (the text
  \<open>fmt\<close> would print is not computed); \<open>Sentinel\<close> is a package-level error value
  that callers compare with \<open>errors.Is\<close>.
\<close>

datatype go_error =
    Errorf string "go_arg list"
  | Sentinel string
and go_arg = ArgS string | ArgI int | ArgE go_error

text \<open>Text that the source builds with \<open>fmt.Sprintf\<close> is kept in the same form.\<close>

type_synonym fmt_text = go_error

type_synonym 'a result = "go_error + 'a"

definition ErrNotFound :: go_error where "ErrNotFound = Sentinel ''ErrNotFound''"
definition ErrTokenInvalid :: go_error where "ErrTokenInvalid = Sentinel ''ErrTokenInvalid''"
definition ErrSiteChanged :: go_error where "ErrSiteChanged = Sentinel ''ErrSiteChanged''"
definition ErrSiteDeleting :: go_error where "ErrSiteDeleting = Sentinel ''ErrSiteDeleting''"
definition ErrUninstallActive :: go_error where "ErrUninstallActive = Sentinel ''ErrUninstallActive''"
definition ErrUninstallNotActive :: go_error where "ErrUninstallNotActive = Sentinel ''ErrUninstallNotActive''"
definition ErrNodeAssigned :: go_error where "ErrNodeAssigned = Sentinel ''ErrNodeAssigned''"
definition ErrSiteTaskActive :: go_error where "ErrSiteTaskActive = Sentinel ''ErrSiteTaskActive''"
definition ErrNodeUpgradeActive :: go_error where "ErrNodeUpgradeActive = Sentinel ''ErrNodeUpgradeActive''"
definition ErrNodeOperationActive :: go_error where "ErrNodeOperationActive = Sentinel ''ErrNodeOperationActive''"
definition ErrUpgradeRetryNotReady :: go_error where "ErrUpgradeRetryNotReady = Sentinel ''ErrUpgradeRetryNotReady''"
definition ErrUpgradeRolloutActive :: go_error where "ErrUpgradeRolloutActive = Sentinel ''ErrUpgradeRolloutActive''"
definition ErrUpgradeRolloutConflict :: go_error where
  "ErrUpgradeRolloutConflict = Sentinel ''ErrUpgradeRolloutConflict''"
definition ErrNoRows :: go_error where "ErrNoRows = Sentinel ''sql.ErrNoRows''"

definition err :: "string \<Rightarrow> go_error" where
  "err s = Errorf s []"

fun is_ok :: "'e + 'a \<Rightarrow> bool" where
  "is_ok (Inl _) = False"
| "is_ok (Inr _) = True"

lemma is_ok_iff: "is_ok r \<longleftrightarrow> (\<exists>x. r = Inr x)"
  by (cases r) auto

text \<open>
  When a chain of checks or of calls succeeds: no check fired and every call succeeded. With these
  rules the simplifier turns \<open>f x = Inr y\<close> into the conditions of the successful path, without
  splitting cases.
\<close>

lemma check_eq_Inr [simp]: "(if b then Inl e else r) = Inr x \<longleftrightarrow> \<not> b \<and> r = Inr x"
  by auto

lemma call_eq_Inr [simp]:
  "(case r of Inl e \<Rightarrow> Inl e | Inr y \<Rightarrow> f y) = Inr x \<longleftrightarrow> (\<exists>y. r = Inr y \<and> f y = Inr x)"
  by (cases r) auto

lemma lookup_eq_Inr [simp]:
  "(case m of None \<Rightarrow> Inl e | Some y \<Rightarrow> f y) = Inr x \<longleftrightarrow> (\<exists>y. m = Some y \<and> f y = Inr x)"
  by (cases m) auto

named_theorems go_err \<open>definitions of the sentinel errors\<close>

lemmas [go_err] = ErrNotFound_def ErrTokenInvalid_def ErrSiteChanged_def ErrSiteDeleting_def
  ErrUninstallActive_def ErrUninstallNotActive_def ErrNodeAssigned_def ErrSiteTaskActive_def ErrNodeUpgradeActive_def ErrNodeOperationActive_def ErrUpgradeRetryNotReady_def
  ErrUpgradeRolloutActive_def ErrUpgradeRolloutConflict_def ErrNoRows_def err_def

text \<open>
  The contract of the \<open>Normalize...\<close> functions: what they accept satisfies \<open>ok\<close>, and
  they leave a value that satisfies \<open>ok\<close> alone.
\<close>

locale normalizer =
  fixes norm :: "'a \<Rightarrow> 'e + 'a"
    and ok :: "'a \<Rightarrow> bool"
  assumes norm_ok: "norm x = Inr y \<Longrightarrow> ok y"
    and ok_norm: "ok y \<Longrightarrow> norm y = Inr y"
begin

lemma idempotent: "norm x = Inr y \<Longrightarrow> norm y = Inr y"
  by (blast intro: ok_norm norm_ok)

lemma fixpoint_iff: "norm y = Inr y \<longleftrightarrow> ok y"
  by (blast intro: ok_norm norm_ok)

lemma range_iff: "(\<exists>x. norm x = Inr y) \<longleftrightarrow> ok y"
  by (blast intro: ok_norm norm_ok)

end

subsection \<open>Time\<close>

text \<open>
  A \<open>time.Time\<close> is the number of nanoseconds since the Unix epoch; a \<open>time.Duration\<close> is a
  number of nanoseconds. \<open>zero_time\<close> is the zero value (1 January of the year 1, UTC).
  \<open>time_sub\<close> is \<open>Time.Sub\<close>, which saturates at the bounds of a 64-bit duration.
\<close>

type_synonym time = int
type_synonym duration = int

definition second :: duration where "second = 1000000000"
definition minute :: duration where "minute = 60 * second"

definition zero_time :: time where "zero_time = - (62135596800 * 1000000000)"

definition is_zero_time :: "time \<Rightarrow> bool" where
  "is_zero_time t \<longleftrightarrow> t = zero_time"

definition time_sub :: "time \<Rightarrow> time \<Rightarrow> duration" where
  "time_sub a b = max (- (2 ^ 63)) (min (2 ^ 63 - 1) (a - b))"

lemma time_sub_exact: "\<bar>a - b\<bar> < 2 ^ 63 \<Longrightarrow> time_sub a b = a - b"
  by (simp add: time_sub_def)

lemma time_sub_ge_iff: "c \<le> 2 ^ 63 - 1 \<Longrightarrow> - (2 ^ 63) < c \<Longrightarrow> c \<le> time_sub a b \<longleftrightarrow> c \<le> a - b"
  by (auto simp: time_sub_def)

lemma time_sub_le_iff: "c < 2 ^ 63 - 1 \<Longrightarrow> - (2 ^ 63) \<le> c \<Longrightarrow> time_sub a b \<le> c \<longleftrightarrow> a - b \<le> c"
  by (auto simp: time_sub_def)

subsection \<open>Time stamps as SQLite compares them\<close>

text \<open>
  The store writes a time with \<open>stamp\<close> (\<open>time.RFC3339Nano\<close> in UTC) and lets SQLite compare
  the texts byte by byte. The part up to the whole second has a fixed width for the years 0 to 9999
  and orders like the second it names, so \<open>stamp\<close> keeps it as that number; the rest is the
  fraction without its trailing zeros (and without the point when it is 0) and the letter Z. Rows
  hold the time itself (\<open>stamp_inject\<close> below: two times have the same text only if they are
  equal); a comparison that SQL makes is \<open>text_le\<close> or \<open>text_less\<close>.
\<close>

fun frac_digits :: "nat \<Rightarrow> int \<Rightarrow> string" where
  "frac_digits 0 n = []"
| "frac_digits (Suc k) n =
     (if n = 0 then []
      else char_of (48 + nat (n div 10 ^ k)) # frac_digits k (n mod 10 ^ k))"

definition frac_text :: "int \<Rightarrow> string" where
  "frac_text n = (if n = 0 then ''Z'' else ''.'' @ frac_digits 9 n @ ''Z'')"

definition stamp :: "time \<Rightarrow> int \<times> string" where
  "stamp t = (t div second, frac_text (t mod second))"

definition text_le :: "time \<Rightarrow> time \<Rightarrow> bool" where
  "text_le a b \<longleftrightarrow> stamp a \<le> stamp b"

definition text_less :: "time \<Rightarrow> time \<Rightarrow> bool" where
  "text_less a b \<longleftrightarrow> stamp a < stamp b"

lemma digit_char_inject:
  "0 \<le> a \<Longrightarrow> a < 10 \<Longrightarrow> 0 \<le> b \<Longrightarrow> b < 10 \<Longrightarrow>
    char_of (48 + nat a) = (char_of (48 + nat b) :: char) \<longleftrightarrow> a = b"
proof -
  assume "0 \<le> a" "a < 10" "0 \<le> b" "b < 10"
  moreover from this have "(48 + nat a) mod 256 = 48 + nat a" "(48 + nat b) mod 256 = 48 + nat b"
    by auto
  ultimately show ?thesis
    by (metis add_left_cancel nat_eq_iff2 of_char_of)
qed

lemma int_div_less: "x < q * d \<Longrightarrow> 0 < d \<Longrightarrow> x div d < q" for x d q :: int
proof (rule ccontr)
  assume x: "x < q * d" and d: "0 < d" and "\<not> x div d < q"
  then have "q * d \<le> x div d * d" by (simp add: mult_right_mono)
  moreover have "x div d * d + x mod d = x" by (rule div_mult_mod_eq)
  moreover have "0 \<le> x mod d" using d by simp
  ultimately show False using x by linarith
qed

lemma frac_digits_inject:
  "0 \<le> m \<Longrightarrow> m < 10 ^ k \<Longrightarrow> 0 \<le> n \<Longrightarrow> n < 10 ^ k \<Longrightarrow>
    frac_digits k m = frac_digits k n \<Longrightarrow> m = n"
proof (induction k arbitrary: m n)
  case 0
  then show ?case by simp
next
  case (Suc k)
  show ?case
  proof (cases "m = 0 \<or> n = 0")
    case True
    with Suc.prems show ?thesis by (auto split: if_splits)
  next
    case False
    have dig: "0 \<le> x div 10 ^ k" "x div 10 ^ k < 10" if "0 \<le> x" "x < 10 ^ Suc k" for x :: int
      using that by (simp_all add: pos_imp_zdiv_nonneg_iff int_div_less)
    from False Suc.prems(5) have
      hd: "char_of (48 + nat (m div 10 ^ k)) = (char_of (48 + nat (n div 10 ^ k)) :: char)" and
      tl: "frac_digits k (m mod 10 ^ k) = frac_digits k (n mod 10 ^ k)"
      by auto
    have "m div 10 ^ k = n div 10 ^ k"
      by (rule digit_char_inject [THEN iffD1, OF _ _ _ _ hd]) (use dig Suc.prems(1-4) in blast)+
    moreover have "m mod 10 ^ k = n mod 10 ^ k"
      using tl by (intro Suc.IH) auto
    ultimately show ?thesis by (metis div_mult_mod_eq)
  qed
qed

lemma frac_text_inject:
  "0 \<le> m \<Longrightarrow> m < second \<Longrightarrow> 0 \<le> n \<Longrightarrow> n < second \<Longrightarrow> frac_text m = frac_text n \<Longrightarrow> m = n"
  using frac_digits_inject [of m 9 n]
  by (auto simp: frac_text_def second_def split: if_splits)

lemma stamp_inject: "stamp a = stamp b \<longleftrightarrow> a = b"
proof
  assume *: "stamp a = stamp b"
  have "0 < second" by (simp add: second_def)
  then have "a mod second = b mod second"
    using * by (intro frac_text_inject) (auto simp: stamp_def)
  with * show "a = b"
    by (metis (no_types, lifting) stamp_def Pair_inject div_mult_mod_eq)
qed simp

lemma text_le_refl [simp]: "text_le a a"
  by (simp add: text_le_def)

lemma text_le_linear: "text_le a b \<or> text_le b a"
  by (auto simp: text_le_def)

lemma text_le_trans: "text_le a b \<Longrightarrow> text_le b c \<Longrightarrow> text_le a c"
  by (auto simp: text_le_def)

lemma text_le_antisym: "text_le a b \<Longrightarrow> text_le b a \<Longrightarrow> a = b"
  by (auto simp: text_le_def stamp_inject dest: antisym)

lemma text_less_le: "text_less a b \<longleftrightarrow> \<not> text_le b a"
  by (auto simp: text_le_def text_less_def)

lemma text_le_second: "text_le a b \<Longrightarrow> a div second \<le> b div second"
  by (auto simp: text_le_def stamp_def less_eq_prod_def)

text \<open>
  Texts order like times whenever the times lie in different seconds; inside one second they need
  not (\<open>text_le_not_monotone\<close> in the root theory).
\<close>

lemma text_le_if_second_less: "a div second < b div second \<Longrightarrow> text_le a b"
  by (auto simp: text_le_def stamp_def less_eq_prod_def)

lemma second_pos: "0 < second"
  by (simp add: second_def)

lemma text_le_if_far: "a + second \<le> b \<Longrightarrow> text_le a b"
proof (rule text_le_if_second_less)
  assume "a + second \<le> b"
  then have "(a + second) div second \<le> b div second"
    by (rule zdiv_mono1 [OF _ second_pos])
  moreover have "(a + second) div second = a div second + 1"
    using second_pos by (metis div_add_self2 less_irrefl)
  ultimately show "a div second < b div second" by simp
qed

lemma text_le_imp_near: "text_le a b \<Longrightarrow> a < b + second"
proof (rule ccontr)
  assume le: "text_le a b" and "\<not> a < b + second"
  then have "text_le b a" by (intro text_le_if_far) simp
  with le have "a = b" by (blast intro: text_le_antisym)
  with \<open>\<not> a < b + second\<close> show False using second_pos by simp
qed

subsection \<open>Tables as lists of rows\<close>

text \<open>
  A table is the list of its rows in the order they were inserted. \<open>find_row\<close> is a query that
  scans at most one row, \<open>update_rows\<close> an UPDATE with a WHERE clause, \<open>count_rows\<close> the
  number of rows the clause selects (\<open>RowsAffected\<close>), \<open>delete_rows\<close> a DELETE.
  \<open>upsert\<close> is an INSERT with ON CONFLICT (key) DO UPDATE.
\<close>

definition find_row :: "('r \<Rightarrow> bool) \<Rightarrow> 'r list \<Rightarrow> 'r option" where
  "find_row P rows = List.find P rows"

definition update_rows :: "('r \<Rightarrow> bool) \<Rightarrow> ('r \<Rightarrow> 'r) \<Rightarrow> 'r list \<Rightarrow> 'r list" where
  "update_rows P f rows = map (\<lambda>r. if P r then f r else r) rows"

definition count_rows :: "('r \<Rightarrow> bool) \<Rightarrow> 'r list \<Rightarrow> nat" where
  "count_rows P rows = length (filter P rows)"

definition delete_rows :: "('r \<Rightarrow> bool) \<Rightarrow> 'r list \<Rightarrow> 'r list" where
  "delete_rows P rows = filter (\<lambda>r. \<not> P r) rows"

definition upsert :: "('r \<Rightarrow> 'k) \<Rightarrow> 'r \<Rightarrow> 'r list \<Rightarrow> 'r list" where
  "upsert key r rows =
     (if key r \<in> key ` set rows then map (\<lambda>x. if key x = key r then r else x) rows else rows @ [r])"

named_theorems table_simps \<open>rewriting of queries and updates of a table\<close>

lemma find_row_Nil [simp]: "find_row P [] = None"
  by (simp add: find_row_def)

lemma find_row_Cons [simp]: "find_row P (r # rs) = (if P r then Some r else find_row P rs)"
  by (simp add: find_row_def)

lemma find_row_None: "find_row P rows = None \<longleftrightarrow> (\<forall>r \<in> set rows. \<not> P r)"
  by (induction rows) auto

lemma find_row_SomeD: "find_row P rows = Some r \<Longrightarrow> r \<in> set rows \<and> P r"
  by (induction rows) (auto split: if_splits)

lemma find_row_append:
  "find_row P (xs @ ys) = (case find_row P xs of None \<Rightarrow> find_row P ys | Some r \<Rightarrow> Some r)"
  by (induction xs) auto

lemma update_rows_Nil [simp]: "update_rows P f [] = []"
  by (simp add: update_rows_def)

lemma update_rows_Cons [simp]:
  "update_rows P f (r # rs) = (if P r then f r else r) # update_rows P f rs"
  by (simp add: update_rows_def)

lemma length_update_rows [simp]: "length (update_rows P f rows) = length rows"
  by (simp add: update_rows_def)

lemma map_key_update_rows [table_simps]:
  "(\<And>r. P r \<Longrightarrow> key (f r) = key r) \<Longrightarrow> map key (update_rows P f rows) = map key rows"
  by (induction rows) auto

lemma set_update_rows:
  "set (update_rows P f rows) = {if P r then f r else r |r. r \<in> set rows}"
  by (induction rows) auto

lemma find_row_update_rows [table_simps]:
  "(\<And>r. P r \<Longrightarrow> Q (f r) = Q r) \<Longrightarrow>
    find_row Q (update_rows P f rows) = map_option (\<lambda>r. if P r then f r else r) (find_row Q rows)"
  by (induction rows) auto

lemma count_rows_0: "count_rows P rows = 0 \<longleftrightarrow> (\<forall>r \<in> set rows. \<not> P r)"
  by (simp add: count_rows_def filter_empty_conv)

lemma count_rows_Nil [simp]: "count_rows P [] = 0"
  by (simp add: count_rows_def)

lemma count_rows_Cons [simp]: "count_rows P (r # rs) = (if P r then Suc (count_rows P rs) else count_rows P rs)"
  by (simp add: count_rows_def)

lemma count_rows_append [simp]: "count_rows P (xs @ ys) = count_rows P xs + count_rows P ys"
  by (simp add: count_rows_def)

lemma update_rows_none [table_simps]: "\<forall>r \<in> set rows. \<not> P r \<Longrightarrow> update_rows P f rows = rows"
  by (induction rows) auto

lemma delete_rows_Nil [simp]: "delete_rows P [] = []"
  by (simp add: delete_rows_def)

lemma delete_rows_Cons [simp]: "delete_rows P (r # rs) = (if P r then delete_rows P rs else r # delete_rows P rs)"
  by (simp add: delete_rows_def)

lemma set_delete_rows [simp]: "set (delete_rows P rows) = {r \<in> set rows. \<not> P r}"
  by (auto simp: delete_rows_def)

lemma distinct_key_delete_rows: "distinct (map key rows) \<Longrightarrow> distinct (map key (delete_rows P rows))"
  by (simp add: delete_rows_def distinct_map_filter)

lemma count_rows_key_le_1: "distinct (map key rows) \<Longrightarrow> count_rows (\<lambda>r. key r = k) rows \<le> 1"
  by (induction rows) (auto simp: count_rows_0 image_iff Suc_le_eq order_le_less)

lemma find_row_key_unique:
  "distinct (map key rows) \<Longrightarrow> r \<in> set rows \<Longrightarrow> find_row (\<lambda>x. key x = key r) rows = Some r"
  by (induction rows) (auto simp: image_iff)

lemma find_row_upsert_same [table_simps]: "find_row (\<lambda>x. key x = key r) (upsert key r rows) = Some r"
proof -
  have "find_row (\<lambda>x. key x = key r) (map (\<lambda>x. if key x = key r then r else x) rows) = Some r"
    if "key r \<in> key ` set rows"
    using that by (induction rows) auto
  moreover have "find_row (\<lambda>x. key x = key r) (rows @ [r]) = Some r" if "key r \<notin> key ` set rows"
    using that by (auto simp: find_row_append image_iff split: option.split dest!: find_row_SomeD)
  ultimately show ?thesis by (simp add: upsert_def)
qed

lemma find_row_upsert_other [table_simps]:
  "k \<noteq> key r \<Longrightarrow> find_row (\<lambda>x. key x = k) (upsert key r rows) = find_row (\<lambda>x. key x = k) rows"
proof -
  assume k: "k \<noteq> key r"
  have "find_row (\<lambda>x. key x = k) (map (\<lambda>x. if key x = key r then r else x) rows)
      = find_row (\<lambda>x. key x = k) rows"
    using k by (induction rows) auto
  moreover have "find_row (\<lambda>x. key x = k) (rows @ [r]) = find_row (\<lambda>x. key x = k) rows"
    using k by (simp add: find_row_append split: option.split)
  ultimately show ?thesis by (simp add: upsert_def)
qed

lemma distinct_upsert: "distinct (map key rows) \<Longrightarrow> distinct (map key (upsert key r rows))"
proof -
  have "map key (map (\<lambda>x. if key x = key r then r else x) rows) = map key rows"
    by (induction rows) auto
  then show "distinct (map key rows) \<Longrightarrow> ?thesis"
    by (simp add: upsert_def del: map_map)
qed

text \<open>\<open>ORDER BY\<close> keeps the order of rows with equal keys, so it does not change what a query on a key finds.\<close>

lemma find_row_filter: "find_row P rows = (case filter P rows of [] \<Rightarrow> None | r # _ \<Rightarrow> Some r)"
  by (induction rows) auto

lemma find_row_sort_key: "find_row (\<lambda>r. key r = k) (sort_key key rows) = find_row (\<lambda>r. key r = k) rows"
  by (simp add: find_row_filter sort_key_stable)

lemma find_row_map: "find_row P (map f rows) = map_option f (find_row (\<lambda>r. P (f r)) rows)"
  by (induction rows) auto

subsection \<open>Lists\<close>

text \<open>
  The idiom "skip what a map called \<open>seen\<close> already holds" keeps the first occurrence of each
  element, in order.
\<close>

fun dedup :: "'a set \<Rightarrow> 'a list \<Rightarrow> 'a list" where
  "dedup seen [] = []"
| "dedup seen (x # xs) = (if x \<in> seen then dedup seen xs else x # dedup (insert x seen) xs)"

lemma set_dedup: "set (dedup seen xs) = set xs - seen"
  by (induction seen xs rule: dedup.induct) auto

lemma distinct_dedup: "distinct (dedup seen xs)"
  by (induction seen xs rule: dedup.induct) (auto simp: set_dedup)

lemma dedup_distinct: "distinct xs \<Longrightarrow> set xs \<inter> seen = {} \<Longrightarrow> dedup seen xs = xs"
  by (induction seen xs rule: dedup.induct) auto

lemma length_dedup_le: "length (dedup seen xs) \<le> length xs"
  by (induction seen xs rule: dedup.induct) auto

lemma dedup_idem: "dedup {} (dedup {} xs) = dedup {} xs"
  by (simp add: dedup_distinct distinct_dedup)

end
