(* ===== verification/Domain_Types.thy ===== *)
theory Domain_Types
  imports Prelude
begin

section \<open>The data model of internal/domain\<close>

text \<open>
  The structs and string enumerations of \<open>internal/domain/domain.go\<close> that the modelled
  components use. A Go pointer field is an \<open>option\<close>, a slice a list, an \<open>int\<close> or \<open>int64\<close>
  an \<open>int\<close>. String types whose values the code compares with constants only are datatypes; where
  the code handles arbitrary text (an origin's HTTP version, which users type) the field stays a
  string. Field names carry a prefix of their struct, because record selectors are global.
\<close>

subsection \<open>Nodes\<close>

datatype node_status =
  NodePending | NodeActive | NodeDraining | NodeRevoked | NodeUninstalling | NodeUninstalled

datatype task_status =
  TaskQueued | TaskDispatching | TaskApplying | TaskSucceeded | TaskPartial | TaskFailed | TaskRolledBack

record nginx_capacity =
  WorkerProcesses :: int
  WorkerConnections :: int
  WorkerRlimitNoFile :: int

record node =
  nd_ID :: string
  nd_Name :: string
  nd_PublicIPv4 :: string
  nd_PublicIPv6 :: string
  nd_CacheMaxSizeGB :: "int option"
  nd_NginxCapacity :: nginx_capacity
  nd_Status :: node_status
  nd_MonitorAutoPaused :: bool
  nd_Capabilities :: "string list"
  nd_AgentVersion :: string
  nd_AgentSHA256 :: string
  nd_NginxVersion :: string
  nd_NginxSHA256 :: string
  nd_ActiveUpgradeID :: string
  nd_LastHeartbeatAt :: "time option"
  nd_AppliedVersion :: int
  nd_LastError :: string
  nd_CreatedAt :: time
  nd_UpdatedAt :: time

record cache_storage_usage =
  csu_UsedBytes :: int
  csu_TotalBytes :: int
  csu_CollectedAt :: time

definition ValidCacheStorageUsage :: "cache_storage_usage \<Rightarrow> bool" where
  "ValidCacheStorageUsage usage \<longleftrightarrow>
     0 \<le> csu_UsedBytes usage \<and> csu_UsedBytes usage \<le> 2 ^ 60 \<and>
     0 < csu_TotalBytes usage \<and> csu_TotalBytes usage \<le> 2 ^ 60 \<and>
     \<not> is_zero_time (csu_CollectedAt usage)"

subsection \<open>Sites\<close>

record origin =
  og_URL :: string
  og_HostHeader :: string
  og_TLSServerName :: string
  og_HTTPVersion :: string
  og_HealthCheckMethod :: string
  og_HealthCheckPath :: string
  og_WireGuardTunnelID :: string
  og_Enabled :: bool

definition OriginHTTPVersionHTTP1 :: string where "OriginHTTPVersionHTTP1 = ''http1''"
definition OriginHTTPVersionHTTP2 :: string where "OriginHTTPVersionHTTP2 = ''http2''"
definition OriginHTTPVersionH2C :: string where "OriginHTTPVersionH2C = ''h2c''"
definition OriginHealthCheckMethodHEAD :: string where "OriginHealthCheckMethodHEAD = ''HEAD''"
definition OriginHealthCheckMethodGET :: string where "OriginHealthCheckMethodGET = ''GET''"
definition DefaultOriginHealthCheckPath :: string where "DefaultOriginHealthCheckPath = ''/''"

record tcp_forward =
  tf_Name :: string
  tf_ListenPort :: int
  tf_ListenTLS :: bool
  tf_UpstreamHost :: string
  tf_UpstreamPort :: int
  tf_UpstreamTLS :: bool
  tf_UpstreamTLSServerName :: string
  tf_ConnectTimeoutSeconds :: int
  tf_IdleTimeoutSeconds :: int

datatype cache_invalidation_scope =
  CacheInvalidationFull | CacheInvalidationURL | CacheInvalidationPrefix | CacheInvalidationOther string

record cache_invalidation_rule =
  cir_Scope :: cache_invalidation_scope
  cir_Value :: string
  cir_Generation :: int

record cache_warmup =
  cw_ID :: string
  cw_SiteID :: string
  cw_Host :: string
  cw_Paths :: "string list"
  cw_CreatedAt :: time

record site =
  st_ID :: string
  st_Name :: string
  st_ZoneID :: string
  st_Domains :: "string list"
  st_Nodes :: "string list"
  st_BackupNodes :: "string list"
  st_PrimaryOrigin :: origin
  st_BackupOrigin :: "origin option"
  st_StreamPaths :: "string list"
  st_Passthrough :: bool
  st_RequestBodyBuffering :: bool
  st_OriginResponseBuffering :: bool
  st_DynamicCompressionEnabled :: bool
  st_CompressionExcludedMIMETypes :: "string list"
  st_HTTP3Enabled :: bool
  st_ClientMaxBodySizeMB :: int
  st_ClientKeepaliveTimeoutSeconds :: int
  st_ReadWriteTimeoutSeconds :: int
  st_DNSTTLSeconds :: "int option"
  st_IPv6Enabled :: bool
  st_TCPOnly :: bool
  st_TCPForwards :: "tcp_forward list"
  st_CacheMaxSizeGB :: "int option"
  st_CacheGeneration :: int
  st_CacheInvalidations :: "cache_invalidation_rule list"
  st_CacheWarmups :: "cache_warmup list"
  st_ConfigVersion :: int
  st_Published :: bool
  st_Enabled :: bool
  st_Deleting :: bool
  st_CreatedAt :: time
  st_UpdatedAt :: time

definition AssignedNodeIDs :: "site \<Rightarrow> string list" where
  "AssignedNodeIDs s = st_Nodes s @ st_BackupNodes s"

definition DefaultDNSTTLSeconds :: int where "DefaultDNSTTLSeconds = 60"

subsection \<open>Deployment tasks and apply reports\<close>

datatype task_kind = KindPublishSite | KindDrainSite | KindDeleteSite | KindOther string

record deployment_task =
  dt_ID :: string
  dt_Kind :: task_kind
  dt_SiteID :: string
  dt_Status :: task_status
  dt_Detail :: fmt_text
  dt_DeadlineAt :: "time option"
  dt_CreatedAt :: time
  dt_UpdatedAt :: time

datatype apply_status = ApplySucceeded | ApplyFailed | ApplyOther string

record port_conflict =
  pc_Protocol :: string
  pc_Port :: int
  pc_PID :: int
  pc_Process :: string

record apply_report =
  ar_Version :: int
  ar_Status :: apply_status
  ar_Code :: string
  ar_Detail :: string
  ar_PortConflicts :: "port_conflict list"

datatype publish_node_status =
  PublishNodePending | PublishNodeSucceeded | PublishNodeFailed | PublishNodeTimedOut

text \<open>
  The parts of a node's desired state that the modelled control-plane code reads; the rendered
  configuration text stays a string, certificates stay ciphertext.
\<close>

record desired_state =
  ds_Version :: int
  ds_NginxConfig :: string
  ds_PublicPorts :: "int list option"
  ds_CacheMaxBytes :: int

subsection \<open>Node upgrades\<close>

datatype node_upgrade_status =
  NodeUpgradeQueued | NodeUpgradeApplying | NodeUpgradeSucceeded | NodeUpgradeFailed

record node_upgrade_task =
  nu_ID :: string
  nu_NodeID :: string
  nu_Status :: node_upgrade_status
  nu_SourceSHA256 :: string
  nu_TargetSHA256 :: string
  nu_SourceNginxSHA256 :: string
  nu_TargetNginxSHA256 :: string
  nu_ErrorCode :: string
  nu_Detail :: string
  nu_DeadlineAt :: time
  nu_StartedAt :: "time option"
  nu_CompletedAt :: "time option"
  nu_CreatedAt :: time
  nu_UpdatedAt :: time

record upgrade_artifact =
  ua_URL :: string
  ua_SHA256 :: string

record node_upgrade_instruction =
  ui_TaskID :: string
  ui_DeadlineAt :: time
  ui_Binary :: upgrade_artifact
  ui_Installer :: upgrade_artifact
  ui_AgentService :: upgrade_artifact
  ui_UpdaterService :: upgrade_artifact
  ui_NginxBundle :: "upgrade_artifact option"
  ui_NginxService :: "upgrade_artifact option"

record node_upgrade_report =
  ur_TaskID :: string
  ur_Status :: "node_upgrade_status option"
  ur_ErrorCode :: string
  ur_Detail :: string
  ur_InstalledSHA256 :: string
  ur_InstalledNginxSHA256 :: string

end
