(* ===== verification/Store_State.thy ===== *)
theory Store_State
  imports Domain_Types
begin

section \<open>The tables of internal/store\<close>

text \<open>
  The rows of the SQLite tables that the modelled operations read and write, and the record
  \<open>store\<close> of all tables: the state that \<open>*Store\<close> methods pass along. A method becomes a function
  from \<open>store\<close> to a result and a new \<open>store\<close>; a method that fails leaves the tables as they were,
  because its transaction is rolled back. \<open>now()\<close> is an argument (one reading of the clock per
  operation), and so is each identifier that \<open>uuid.NewString\<close> (package google/uuid) generates.
\<close>

subsection \<open>Rows\<close>

record node_row = node +
  nd_CertFingerprint :: "string option"

datatype score_gate = ScoreUnknown | ScoreAllowed | ScoreBlocked
datatype schedule_gate = ScheduleOpen | ScheduleClosed

record smart_window =
  sw_Weekdays :: "int list"
  sw_Start :: string
  sw_End :: string

record smart_policy =
  sp_NodeID :: string
  sp_Enabled :: bool
  sp_ScoreEnabled :: bool
  sp_ScorePauseBelow :: int
  sp_ScorePauseRounds :: int
  sp_ScoreResumeAt :: int
  sp_ScoreResumeRounds :: int
  sp_ScoreGate :: score_gate
  sp_ScoreLowStreak :: int
  sp_ScoreRecoveryStreak :: int
  sp_ScheduleEnabled :: bool
  sp_ScheduleWindows :: "smart_window list"
  sp_ScheduleGate :: schedule_gate
  sp_UpdatedAt :: time

record monitoring_status =
  ms_NodeID :: string
  ms_Score :: int
  ms_ConsecutiveAbnormal :: int
  ms_LastCheckedAt :: time
  ms_UpdatedAt :: time

record node_health =
  nh_NodeID :: string
  nh_ConsecutiveFailures :: int
  nh_ConsecutiveSuccesses :: int
  nh_DNSEligible :: bool
  nh_LastCheckedAt :: "time option"
  nh_LastError :: string

text \<open>A row of \<open>site_node_health\<close> holds two counters, one for each address family.\<close>

record site_health_row =
  sh_SiteID :: string
  sh_NodeID :: string
  sh_ConsecutiveFailures :: int
  sh_ConsecutiveSuccesses :: int
  sh_DNSEligible :: bool
  sh_LastCheckedAt :: "time option"
  sh_LastError :: string
  sh6_ConsecutiveFailures :: int
  sh6_ConsecutiveSuccesses :: int
  sh6_DNSEligible :: bool
  sh6_LastCheckedAt :: "time option"
  sh6_LastError :: string

record enrollment_token =
  et_TokenHash :: string
  et_NodeID :: string
  et_ExpiresAt :: time
  et_UsedAt :: "time option"
  et_CreatedAt :: time

datatype uninstall_status =
  NodeUninstallPreparing | NodeUninstallReady | NodeUninstallRunning | NodeUninstallFailed |
  NodeUninstallSucceeded | NodeUninstallForced | NodeUninstallCanceled

record uninstall_job =
  uj_NodeID :: string
  uj_Status :: uninstall_status
  uj_PreviousStatus :: node_status
  uj_TokenExpiresAt :: "time option"
  uj_ReadyAt :: time
  uj_AffectedSiteIDs :: "string list"
  uj_Detail :: string
  uj_Forced :: bool
  uj_StartedAt :: "time option"
  uj_CompletedAt :: "time option"
  uj_CreatedAt :: time
  uj_UpdatedAt :: time

text \<open>A row of \<open>node_uninstall_jobs\<close>: the job and the digest of its token, which is never read back.\<close>

record uninstall_row = uninstall_job +
  uj_TokenHash :: "string option"

datatype deletion_phase =
  SiteDeletionWithdrawingDNS | SiteDeletionWaitingForEdges | SiteDeletionFinalizing | SiteDeletionPhaseOther string

record site_deletion_job =
  sd_SiteID :: string
  sd_TaskID :: string
  sd_Phase :: deletion_phase
  sd_Actor :: string
  sd_RemoteAddr :: string
  sd_CreatedAt :: time
  sd_UpdatedAt :: time

record publish_task_node =
  ptn_TaskID :: string
  ptn_NodeID :: string
  ptn_TargetVersion :: int
  ptn_Status :: publish_node_status
  ptn_ErrorCode :: string
  ptn_Detail :: string
  ptn_PortConflicts :: "port_conflict list"
  ptn_ReportedAt :: "time option"

record node_state_row =
  ns_NodeID :: string
  ns_State :: desired_state
  ns_Certificates :: string
  ns_UpdatedAt :: time

record site_publication =
  sp_Site :: site
  sp_CertificateCiphertext :: string
  sp_KeyCiphertext :: string
  sp_CertificateNotAfter :: "time option"
  sp_DNSTTLSeconds :: int
  sp_PublishedAt :: time

record site_node_drain =
  dr_ID :: string
  dr_SiteID :: string
  dr_NodeID :: string
  dr_Site :: site
  dr_CertificateCiphertext :: string
  dr_KeyCiphertext :: string
  dr_CertificateNotAfter :: "time option"
  dr_DNSTTLSeconds :: int
  dr_DNSReadyAt :: "time option"
  dr_RemoveAfter :: "time option"
  dr_CleanupTaskID :: "string option"
  dr_CreatedAt :: time
  dr_UpdatedAt :: time

record certificate_row =
  ce_SiteID :: string
  ce_Certificate :: string
  ce_Key :: string
  ce_NotAfter :: "time option"

text \<open>A row of \<open>node_upgrade_tasks\<close>: the task and the artifacts its node is to install.\<close>

record upgrade_row = node_upgrade_task +
  nu_Instruction :: node_upgrade_instruction

datatype rollout_state = RolloutRunning | RolloutPaused | RolloutCancelled | RolloutSucceeded

datatype member_state =
  MemberPending | MemberUpgrading | MemberVerifying | MemberSucceeded | MemberFailed | MemberSkipped

record rollout_member =
  rm_NodeID :: string
  rm_Name :: string
  rm_State :: member_state
  rm_TaskID :: string
  rm_Detail :: string
  rm_HealthySince :: "time option"
  rm_LastObservedAt :: "time option"
  rm_VerificationStartedAt :: "time option"

record upgrade_rollout =
  ro_ID :: string
  ro_State :: rollout_state
  ro_Revision :: int
  ro_MaxParallel :: int
  ro_HealthWindowSeconds :: int
  ro_TargetAgentSHA256 :: string
  ro_TargetNginxSHA256 :: string
  ro_Detail :: fmt_text
  ro_Members :: "rollout_member list"
  ro_CreatedAt :: time
  ro_UpdatedAt :: time

text \<open>A row of \<open>node_upgrade_rollouts\<close>: the rollout (its JSON body) and the frozen instructions.\<close>

record rollout_row =
  rr_Rollout :: upgrade_rollout
  rr_Instructions :: "(string \<times> node_upgrade_instruction) list"

record auth_attempt =
  aa_Scope :: string
  aa_KeyHash :: string
  aa_AttemptedAt :: time

record session_row =
  se_UserID :: string
  se_TokenHash :: string
  se_CSRFToken :: string
  se_AuthMethod :: string
  se_AuthenticatorID :: string
  se_AuthenticatedAt :: "time option"
  se_ElevatedUntil :: "time option"
  se_ExpiresAt :: time
  se_CreatedAt :: time

record admin_user =
  au_ID :: string
  au_PasswordHash :: string
  au_TOTPSecret :: string
  au_PasskeyEnabled :: bool
  au_LastTOTPCounter :: "int option"
  au_CreatedAt :: time
  au_UpdatedAt :: time

record recovery_code =
  rc_CodeHash :: string
  rc_UserID :: string
  rc_UsedAt :: "time option"
  rc_CreatedAt :: time

record webauthn_user =
  wu_RPID :: string
  wu_UserID :: string
  wu_UserHandle :: string
  wu_CreatedAt :: time

record passkey_credential =
  pk_ID :: string
  pk_RPID :: string
  pk_UserID :: string
  pk_Name :: string
  pk_Ciphertext :: string
  pk_LastUsedAt :: "time option"
  pk_CreatedAt :: time
  pk_UpdatedAt :: time

record webauthn_challenge =
  wc_Purpose :: string
  wc_UserID :: string
  wc_RPID :: string
  wc_Label :: string
  wc_SessionJSON :: string
  wc_ExpiresAt :: time

record webauthn_challenge_row = webauthn_challenge +
  wc_TokenHash :: string
  wc_CreatedAt :: time

text \<open>The row of \<open>control_settings\<close>: the two defaults that publication and DNS read.\<close>

record control_settings =
  cs_DNSDefaultTTLSeconds :: int
  cs_CacheDefaultSizeGB :: int

subsection \<open>The store\<close>

record store =
  nodes :: "node_row list"
  smart_routing :: "smart_policy list"
  monitoring :: "monitoring_status list"
  node_healths :: "node_health list"
  site_healths :: "site_health_row list"
  enrollment_tokens :: "enrollment_token list"
  uninstall_jobs :: "uninstall_row list"
  upgrade_tasks :: "upgrade_row list"
  rollouts :: "rollout_row list"
  deployment_tasks :: "deployment_task list"
  publish_nodes :: "publish_task_node list"
  node_states :: "node_state_row list"
  sites :: "site list"
  site_domains :: "(string \<times> string) list"
  certificates :: "certificate_row list"
  publications :: "site_publication list"
  drains :: "site_node_drain list"
  site_deletions :: "site_deletion_job list"
  auth_attempts :: "auth_attempt list"
  sessions :: "session_row list"
  admins :: "admin_user list"
  recovery_codes :: "recovery_code list"
  webauthn_users :: "webauthn_user list"
  passkeys :: "passkey_credential list"
  challenges :: "webauthn_challenge_row list"
  settings_row :: "control_settings option"

definition empty_store :: store where
  "empty_store = \<lparr>nodes = [], smart_routing = [], monitoring = [], node_healths = [],
     site_healths = [], enrollment_tokens = [], uninstall_jobs = [], upgrade_tasks = [],
     rollouts = [], deployment_tasks = [], publish_nodes = [], node_states = [], sites = [],
     site_domains = [], certificates = [], publications = [], drains = [], site_deletions = [], auth_attempts = [],
     sessions = [], admins = [], recovery_codes = [], webauthn_users = [], passkeys = [],
     challenges = [], settings_row = None\<rparr>"

subsection \<open>Queries that several components make\<close>

definition find_node :: "store \<Rightarrow> string \<Rightarrow> node_row option" where
  "find_node s nodeID = find_row (\<lambda>n. nd_ID n = nodeID) (nodes s)"

definition active_task_status :: "task_status \<Rightarrow> bool" where
  "active_task_status st \<longleftrightarrow> st = TaskQueued \<or> st = TaskDispatching \<or> st = TaskApplying"

definition active_upgrade_status :: "node_upgrade_status \<Rightarrow> bool" where
  "active_upgrade_status st \<longleftrightarrow> st = NodeUpgradeQueued \<or> st = NodeUpgradeApplying"

definition active_uninstall :: "store \<Rightarrow> string \<Rightarrow> bool" where
  "active_uninstall s nodeID \<longleftrightarrow>
     list_ex (\<lambda>j. uj_NodeID j = nodeID \<and>
       uj_Status j \<in> {NodeUninstallPreparing, NodeUninstallReady, NodeUninstallRunning, NodeUninstallFailed})
     (uninstall_jobs s)"

definition HasActiveNodeUpgrade :: "store \<Rightarrow> string \<Rightarrow> bool" where
  "HasActiveNodeUpgrade s nodeID \<longleftrightarrow>
     list_ex (\<lambda>t. nu_NodeID t = nodeID \<and> active_upgrade_status (nu_Status t)) (upgrade_tasks s)"

definition HasActiveNodePublication :: "store \<Rightarrow> string \<Rightarrow> bool" where
  "HasActiveNodePublication s nodeID \<longleftrightarrow>
     list_ex (\<lambda>p. ptn_NodeID p = nodeID \<and> ptn_Status p = PublishNodePending \<and>
       list_ex (\<lambda>t. dt_ID t = ptn_TaskID p \<and> active_task_status (dt_Status t)) (deployment_tasks s))
     (publish_nodes s)"

definition DesiredVersion :: "store \<Rightarrow> string \<Rightarrow> int" where
  "DesiredVersion s nodeID =
     (case find_row (\<lambda>r. ns_NodeID r = nodeID) (node_states s) of
        None \<Rightarrow> 0
      | Some r \<Rightarrow> ds_Version (ns_State r))"

definition NodeState :: "store \<Rightarrow> string \<Rightarrow> desired_state result" where
  "NodeState s nodeID =
     (case find_row (\<lambda>r. ns_NodeID r = nodeID) (node_states s) of
        None \<Rightarrow> Inl ErrNotFound
      | Some r \<Rightarrow> Inr (ns_State r))"

text \<open>\<open>ORDER BY created_at DESC LIMIT 1\<close>: the latest of the rows a clause selects (texts are compared).\<close>

fun latest :: "('r \<Rightarrow> time) \<Rightarrow> 'r list \<Rightarrow> 'r option" where
  "latest created [] = None"
| "latest created (r # rs) =
     (case latest created rs of
        None \<Rightarrow> Some r
      | Some r' \<Rightarrow> if text_less (created r) (created r') then Some r' else Some r)"

lemma latest_None [simp]: "latest c rs = None \<longleftrightarrow> rs = []"
  by (cases rs) (auto split: option.split)

lemma latest_in: "latest c rs = Some r \<Longrightarrow> r \<in> set rs"
  by (induction rs arbitrary: r) (auto split: option.splits if_splits)

lemma latest_max: "latest c rs = Some r \<Longrightarrow> x \<in> set rs \<Longrightarrow> text_le (c x) (c r)"
proof (induction rs arbitrary: r)
  case Nil
  then show ?case by simp
next
  case (Cons a rs)
  show ?case
  proof (cases "latest c rs")
    case None
    with Cons.prems show ?thesis by auto
  next
    case (Some b)
    with Cons.prems Cons.IH [OF Some] show ?thesis
      by (auto simp: text_less_le split: if_splits dest: text_le_trans text_le_linear [THEN disjE])
        (metis text_le_linear text_le_trans)+
  qed
qed

end
