(* ===== verification/Smart_Routing.thy ===== *)
theory Smart_Routing
  imports Store_State
begin

section \<open>Smart routing (internal/store/smart\_routing.go)\<close>

text \<open>
  Every node has a policy with two gates. The score gate closes after a number of monitoring rounds
  below a threshold and opens after a number of rounds at or above another (\<open>advanceSmartRoutingScore\<close>);
  the schedule gate follows weekly windows in the time zone Asia/Shanghai. A node that a gate blocks is
  drained automatically, and only a node that was drained automatically is resumed
  (\<open>reconcileSmartRoutingNodeTx\<close>).
\<close>

subsection \<open>Configuration\<close>

definition SmartRoutingMaxWindows :: nat where "SmartRoutingMaxWindows = 32"
definition SmartRoutingMaxRounds :: int where "SmartRoutingMaxRounds = 120"
definition SmartRoutingDefaultScore :: int where "SmartRoutingDefaultScore = 80"
definition SmartRoutingDefaultLowRounds :: int where "SmartRoutingDefaultLowRounds = 4"
definition SmartRoutingMinResumeRounds :: int where "SmartRoutingMinResumeRounds = 3"

named_theorems routing_consts \<open>the constants of smart routing\<close>

lemmas [routing_consts] = SmartRoutingMaxWindows_def SmartRoutingMaxRounds_def
  SmartRoutingDefaultScore_def SmartRoutingDefaultLowRounds_def SmartRoutingMinResumeRounds_def

record smart_score_config =
  sc_Enabled :: bool
  sc_PauseBelowScore :: int
  sc_PauseAfterRounds :: int
  sc_ResumeAtScore :: int
  sc_ResumeAfterRounds :: int

record smart_schedule_config =
  ss_Enabled :: bool
  ss_Windows :: "smart_window list"

record smart_config =
  cf_Enabled :: bool
  cf_Score :: smart_score_config
  cf_Schedule :: smart_schedule_config

record smart_transition =
  tr_NodeID :: string
  tr_PreviousStatus :: node_status
  tr_NodeStatus :: node_status
  tr_StatusChanged :: bool
  tr_PreviousAutoPaused :: bool
  tr_AutoPaused :: bool
  tr_AutoPausedChanged :: bool
  tr_PreviousScoreGate :: score_gate
  tr_ScoreGate :: score_gate
  tr_ScoreGateChanged :: bool
  tr_PreviousScheduleGate :: schedule_gate
  tr_ScheduleGate :: schedule_gate
  tr_ScheduleGateChanged :: bool
  tr_BlockedBy :: "string list"

definition DefaultSmartRoutingConfig :: smart_config where
  "DefaultSmartRoutingConfig =
     \<lparr>cf_Enabled = True,
      cf_Score = \<lparr>sc_Enabled = True, sc_PauseBelowScore = SmartRoutingDefaultScore,
        sc_PauseAfterRounds = SmartRoutingDefaultLowRounds,
        sc_ResumeAtScore = SmartRoutingDefaultScore,
        sc_ResumeAfterRounds = SmartRoutingMinResumeRounds\<rparr>,
      cf_Schedule = \<lparr>ss_Enabled = False, ss_Windows = []\<rparr>\<rparr>"

subsection \<open>Windows\<close>

definition digit_of :: "char \<Rightarrow> int" where
  "digit_of c = int (of_char c) - 48"

definition digit_char :: "char \<Rightarrow> bool" where
  "digit_char c \<longleftrightarrow> 0 \<le> digit_of c \<and> digit_of c \<le> 9"

definition smartRoutingMinute :: "string \<Rightarrow> int option" where
  "smartRoutingMinute v =
     (if length v \<noteq> 5 \<or> v ! 2 \<noteq> CHR '':'' \<or> \<not> digit_char (v ! 0) \<or> \<not> digit_char (v ! 1)
         \<or> \<not> digit_char (v ! 3) \<or> \<not> digit_char (v ! 4) then None
      else let hour = digit_of (v ! 0) * 10 + digit_of (v ! 1);
               mins = digit_of (v ! 3) * 10 + digit_of (v ! 4)
           in if hour > 23 \<or> mins > 59 then None else Some (hour * 60 + mins))"

text \<open>
  The inner loop over the weekdays of one window: the first invalid weekday is an error, a repeated
  one is skipped, the rest is sorted.
\<close>

fun normalize_weekdays :: "int \<Rightarrow> int set \<Rightarrow> int list \<Rightarrow> int list result" where
  "normalize_weekdays index seen [] = Inr []"
| "normalize_weekdays index seen (d # ds) =
     (if d < 1 \<or> d > 7 then Inl (Errorf ''schedule window %d has an invalid weekday'' [ArgI (index + 1)])
      else if d \<in> seen then normalize_weekdays index seen ds
      else case normalize_weekdays index (insert d seen) ds of
          Inl e \<Rightarrow> Inl e
        | Inr ds' \<Rightarrow> Inr (d # ds'))"

definition normalize_window :: "int \<Rightarrow> smart_window \<Rightarrow> smart_window result" where
  "normalize_window index w =
     (if sw_Weekdays w = [] then
        Inl (Errorf ''schedule window %d requires at least one weekday'' [ArgI (index + 1)])
      else if smartRoutingMinute (sw_Start w) = None then
        Inl (Errorf ''schedule window %d has an invalid start time'' [ArgI (index + 1)])
      else if smartRoutingMinute (sw_End w) = None then
        Inl (Errorf ''schedule window %d has an invalid end time'' [ArgI (index + 1)])
      else case normalize_weekdays index {} (sw_Weekdays w) of
          Inl e \<Rightarrow> Inl e
        | Inr ds \<Rightarrow> Inr \<lparr>sw_Weekdays = sort ds, sw_Start = sw_Start w, sw_End = sw_End w\<rparr>)"

fun normalize_windows :: "int \<Rightarrow> smart_window list \<Rightarrow> smart_window list result" where
  "normalize_windows index [] = Inr []"
| "normalize_windows index (w # ws) =
     (case normalize_window index w of
        Inl e \<Rightarrow> Inl e
      | Inr w' \<Rightarrow> (case normalize_windows (index + 1) ws of
            Inl e \<Rightarrow> Inl e
          | Inr ws' \<Rightarrow> Inr (w' # ws')))"

definition NormalizeSmartRoutingConfig :: "smart_config \<Rightarrow> smart_config result" where
  "NormalizeSmartRoutingConfig input =
     (let sc = cf_Score input; sched = cf_Schedule input in
      if sc_PauseBelowScore sc < 1 \<or> sc_PauseBelowScore sc > 100 then
        Inl (err ''score pause threshold must be between 1 and 100'')
      else if sc_ResumeAtScore sc < 1 \<or> sc_ResumeAtScore sc > 100 then
        Inl (err ''score resume threshold must be between 1 and 100'')
      else if sc_ResumeAtScore sc < sc_PauseBelowScore sc then
        Inl (err ''score resume threshold must not be lower than pause threshold'')
      else if sc_PauseAfterRounds sc < 1 \<or> sc_PauseAfterRounds sc > SmartRoutingMaxRounds then
        Inl (Errorf ''score pause rounds must be between 1 and %d'' [ArgI SmartRoutingMaxRounds])
      else if sc_ResumeAfterRounds sc < SmartRoutingMinResumeRounds
          \<or> sc_ResumeAfterRounds sc > SmartRoutingMaxRounds then
        Inl (Errorf ''score resume rounds must be between %d and %d''
          [ArgI SmartRoutingMinResumeRounds, ArgI SmartRoutingMaxRounds])
      else if length (ss_Windows sched) > SmartRoutingMaxWindows then
        Inl (Errorf ''schedule supports at most %d windows'' [ArgI (int SmartRoutingMaxWindows)])
      else if cf_Enabled input \<and> \<not> sc_Enabled sc \<and> \<not> ss_Enabled sched then
        Inl (err ''enabled smart routing requires at least one enabled rule'')
      else if ss_Enabled sched \<and> ss_Windows sched = [] then
        Inl (err ''enabled schedule requires at least one window'')
      else case normalize_windows 0 (ss_Windows sched) of
          Inl e \<Rightarrow> Inl e
        | Inr ws \<Rightarrow> Inr (input\<lparr>cf_Schedule := sched\<lparr>ss_Windows := ws\<rparr>\<rparr>))"

subsection \<open>The schedule\<close>

text \<open>
  \<open>time.In\<close> with the fixed zone UTC+8: the local clock is the instant shifted by eight hours. The
  epoch was a Thursday, weekday 4 of the ISO numbering 1 (Monday) to 7 (Sunday).
\<close>

definition local_second :: "time \<Rightarrow> int" where
  "local_second at = at div second + 8 * 60 * 60"

definition local_minute :: "time \<Rightarrow> int" where
  "local_minute at = local_second at mod 86400 div 60"

definition local_day :: "time \<Rightarrow> int" where
  "local_day at = local_second at div 86400"

definition iso_weekday_of_day :: "int \<Rightarrow> int" where
  "iso_weekday_of_day d = (d + 3) mod 7 + 1"

fun containsWeekday :: "int list \<Rightarrow> int \<Rightarrow> bool" where
  "containsWeekday [] wanted = False"
| "containsWeekday (d # ds) wanted = (d = wanted \<or> containsWeekday ds wanted)"

definition window_allows :: "int \<Rightarrow> int \<Rightarrow> int \<Rightarrow> smart_window \<Rightarrow> bool" where
  "window_allows weekday previousWeekday minute_of_day w =
     (case (smartRoutingMinute (sw_Start w), smartRoutingMinute (sw_End w)) of
        (Some start, Some finish) \<Rightarrow>
          start = finish \<and> containsWeekday (sw_Weekdays w) weekday
          \<or> finish > start \<and> containsWeekday (sw_Weekdays w) weekday
              \<and> minute_of_day \<ge> start \<and> minute_of_day < finish
          \<or> finish < start \<and> (containsWeekday (sw_Weekdays w) weekday \<and> minute_of_day \<ge> start
              \<or> containsWeekday (sw_Weekdays w) previousWeekday \<and> minute_of_day < finish)
      | _ \<Rightarrow> False)"

definition SmartRoutingScheduleAllows :: "time \<Rightarrow> smart_window list \<Rightarrow> bool" where
  "SmartRoutingScheduleAllows at windows =
     (let minute_of_day = local_minute at;
          weekday = iso_weekday_of_day (local_day at);
          previousWeekday = (if weekday - 1 = 0 then 7 else weekday - 1)
      in list_ex (window_allows weekday previousWeekday minute_of_day) windows)"

text \<open>
  The next instant at which the schedule changes: the starts and ends of the windows of the ten days
  from yesterday on, those after \<open>at\<close>, in order; the first whose verdict differs from the current one.
\<close>

definition day_start :: "int \<Rightarrow> time" where
  "day_start d = (d * 86400 - 8 * 60 * 60) * second"

definition window_candidates :: "time \<Rightarrow> int \<Rightarrow> smart_window \<Rightarrow> time list" where
  "window_candidates at windowDay w =
     (if \<not> containsWeekday (sw_Weekdays w) (iso_weekday_of_day windowDay) then []
      else case (smartRoutingMinute (sw_Start w), smartRoutingMinute (sw_End w)) of
          (Some start, Some finish) \<Rightarrow>
            (let startAt = (if finish = start then day_start windowDay
                            else day_start windowDay + start * minute);
                 endAt = (if finish = start then day_start (windowDay + 1)
                          else if finish < start then day_start (windowDay + 1) + finish * minute
                          else day_start windowDay + finish * minute)
             in (if startAt > at then [startAt] else []) @ (if endAt > at then [endAt] else []))
        | _ \<Rightarrow> [])"

definition transition_candidates :: "time \<Rightarrow> smart_window list \<Rightarrow> time list" where
  "transition_candidates at windows =
     concat (map (\<lambda>offset. concat (map (window_candidates at (local_day at + offset)) windows)) [-1..8])"

definition SmartRoutingNextTransition :: "time \<Rightarrow> smart_window list \<Rightarrow> time option" where
  "SmartRoutingNextTransition at windows =
     (if windows = [] then None
      else List.find (\<lambda>c. SmartRoutingScheduleAllows c windows \<noteq> SmartRoutingScheduleAllows at windows)
             (sort (transition_candidates at windows)))"

subsection \<open>Policies\<close>

definition policy_Config :: "smart_policy \<Rightarrow> smart_config" where
  "policy_Config p =
     \<lparr>cf_Enabled = sp_Enabled p,
      cf_Score = \<lparr>sc_Enabled = sp_ScoreEnabled p, sc_PauseBelowScore = sp_ScorePauseBelow p,
        sc_PauseAfterRounds = sp_ScorePauseRounds p, sc_ResumeAtScore = sp_ScoreResumeAt p,
        sc_ResumeAfterRounds = sp_ScoreResumeRounds p\<rparr>,
      cf_Schedule = \<lparr>ss_Enabled = sp_ScheduleEnabled p, ss_Windows = sp_ScheduleWindows p\<rparr>\<rparr>"

definition BlockedBy :: "smart_policy \<Rightarrow> string list" where
  "BlockedBy p =
     (if \<not> sp_Enabled p then []
      else (if sp_ScoreEnabled p \<and> sp_ScoreGate p = ScoreBlocked then [''score''] else [])
         @ (if sp_ScheduleEnabled p \<and> sp_ScheduleGate p = ScheduleClosed then [''schedule''] else []))"

definition advanceSmartRoutingScore :: "smart_policy \<Rightarrow> int \<Rightarrow> smart_policy" where
  "advanceSmartRoutingScore p score =
     (case sp_ScoreGate p of
        ScoreBlocked \<Rightarrow>
          (if score \<ge> sp_ScoreResumeAt p then
             (if sp_ScoreRecoveryStreak p + 1 \<ge> max (sp_ScoreResumeRounds p) SmartRoutingMinResumeRounds
              then p\<lparr>sp_ScoreLowStreak := 0, sp_ScoreGate := ScoreAllowed, sp_ScoreRecoveryStreak := 0\<rparr>
              else p\<lparr>sp_ScoreLowStreak := 0, sp_ScoreRecoveryStreak := sp_ScoreRecoveryStreak p + 1\<rparr>)
           else p\<lparr>sp_ScoreLowStreak := 0, sp_ScoreRecoveryStreak := 0\<rparr>)
      | _ \<Rightarrow>
          (if score < sp_ScorePauseBelow p then
             (if sp_ScoreLowStreak p + 1 \<ge> sp_ScorePauseRounds p
              then p\<lparr>sp_ScoreRecoveryStreak := 0, sp_ScoreGate := ScoreBlocked, sp_ScoreLowStreak := 0\<rparr>
              else p\<lparr>sp_ScoreRecoveryStreak := 0, sp_ScoreLowStreak := sp_ScoreLowStreak p + 1\<rparr>)
           else p\<lparr>sp_ScoreRecoveryStreak := 0, sp_ScoreLowStreak := 0, sp_ScoreGate := ScoreAllowed\<rparr>))"

definition schedule_gate_at :: "time \<Rightarrow> bool \<Rightarrow> smart_window list \<Rightarrow> schedule_gate" where
  "schedule_gate_at at enabled windows =
     (if \<not> enabled \<or> SmartRoutingScheduleAllows at windows then ScheduleOpen else ScheduleClosed)"

text \<open>The default policy row, and its insertion when a node has none yet.\<close>

definition default_policy :: "string \<Rightarrow> time \<Rightarrow> smart_policy" where
  "default_policy nodeID createdAt =
     (let c = DefaultSmartRoutingConfig in
      \<lparr>sp_NodeID = nodeID, sp_Enabled = cf_Enabled c, sp_ScoreEnabled = sc_Enabled (cf_Score c),
       sp_ScorePauseBelow = sc_PauseBelowScore (cf_Score c),
       sp_ScorePauseRounds = sc_PauseAfterRounds (cf_Score c),
       sp_ScoreResumeAt = sc_ResumeAtScore (cf_Score c),
       sp_ScoreResumeRounds = sc_ResumeAfterRounds (cf_Score c),
       sp_ScoreGate = ScoreUnknown, sp_ScoreLowStreak = 0, sp_ScoreRecoveryStreak = 0,
       sp_ScheduleEnabled = False, sp_ScheduleWindows = [], sp_ScheduleGate = ScheduleOpen,
       sp_UpdatedAt = createdAt\<rparr>)"

definition find_policy :: "store \<Rightarrow> string \<Rightarrow> smart_policy option" where
  "find_policy s nodeID = find_row (\<lambda>p. sp_NodeID p = nodeID) (smart_routing s)"

definition insertDefaultSmartRoutingPolicyTx :: "store \<Rightarrow> string \<Rightarrow> time \<Rightarrow> store" where
  "insertDefaultSmartRoutingPolicyTx s nodeID createdAt =
     (case find_policy s nodeID of
        None \<Rightarrow> s\<lparr>smart_routing := smart_routing s @ [default_policy nodeID createdAt]\<rparr>
      | Some _ \<Rightarrow> s)"

definition ensureSmartRoutingPolicyTx :: "store \<Rightarrow> string \<Rightarrow> time \<Rightarrow> store result" where
  "ensureSmartRoutingPolicyTx s nodeID createdAt =
     (if find_node s nodeID = None then Inl ErrNotFound
      else Inr (insertDefaultSmartRoutingPolicyTx s nodeID createdAt))"

subsection \<open>Draining and resuming a node\<close>

text \<open>The status and the automatic-pause flag that a policy's verdict gives a node.\<close>

definition next_node_status :: "node_status \<Rightarrow> bool \<Rightarrow> string list \<Rightarrow> node_status \<times> bool" where
  "next_node_status status autoPaused blockedBy =
     (case status of
        NodeActive \<Rightarrow> if blockedBy \<noteq> [] then (NodeDraining, True) else (NodeActive, False)
      | NodeDraining \<Rightarrow> if autoPaused \<and> blockedBy = [] then (NodeActive, False) else (NodeDraining, autoPaused)
      | _ \<Rightarrow> (status, False))"

definition reconcileSmartRoutingNodeTx ::
    "store \<Rightarrow> smart_policy \<Rightarrow> smart_transition \<Rightarrow> time \<Rightarrow> (store \<times> smart_transition) result" where
  "reconcileSmartRoutingNodeTx s p tr at =
     (case find_node s (sp_NodeID p) of
        None \<Rightarrow> Inl ErrNotFound
      | Some n \<Rightarrow>
          (let blockedBy = BlockedBy p;
               (nextStatus, nextAuto) = next_node_status (nd_Status n) (nd_MonitorAutoPaused n) blockedBy;
               tr' = tr\<lparr>tr_PreviousStatus := nd_Status n, tr_PreviousAutoPaused := nd_MonitorAutoPaused n,
                        tr_NodeStatus := nextStatus, tr_AutoPaused := nextAuto,
                        tr_StatusChanged := nextStatus \<noteq> nd_Status n,
                        tr_AutoPausedChanged := nextAuto \<noteq> nd_MonitorAutoPaused n,
                        tr_BlockedBy := blockedBy\<rparr>
           in Inr (if tr_StatusChanged tr' \<or> tr_AutoPausedChanged tr'
                   then s\<lparr>nodes := update_rows (\<lambda>r. nd_ID r = sp_NodeID p)
                            (\<lambda>r. r\<lparr>nd_Status := nextStatus, nd_MonitorAutoPaused := nextAuto,
                                   nd_UpdatedAt := at\<rparr>) (nodes s)\<rparr>
                   else s, tr')))"

definition empty_transition :: "string \<Rightarrow> smart_policy \<Rightarrow> smart_policy \<Rightarrow> smart_transition" where
  "empty_transition nodeID before after =
     \<lparr>tr_NodeID = nodeID, tr_PreviousStatus = NodePending, tr_NodeStatus = NodePending,
      tr_StatusChanged = False, tr_PreviousAutoPaused = False, tr_AutoPaused = False,
      tr_AutoPausedChanged = False,
      tr_PreviousScoreGate = sp_ScoreGate before, tr_ScoreGate = sp_ScoreGate after,
      tr_ScoreGateChanged = (sp_ScoreGate before \<noteq> sp_ScoreGate after),
      tr_PreviousScheduleGate = sp_ScheduleGate before, tr_ScheduleGate = sp_ScheduleGate after,
      tr_ScheduleGateChanged = (sp_ScheduleGate before \<noteq> sp_ScheduleGate after), tr_BlockedBy = []\<rparr>"

subsection \<open>The operations of the store\<close>

definition with_config :: "smart_policy \<Rightarrow> smart_config \<Rightarrow> smart_policy" where
  "with_config p c = p\<lparr>sp_Enabled := cf_Enabled c, sp_ScoreEnabled := sc_Enabled (cf_Score c),
     sp_ScorePauseBelow := sc_PauseBelowScore (cf_Score c),
     sp_ScorePauseRounds := sc_PauseAfterRounds (cf_Score c),
     sp_ScoreResumeAt := sc_ResumeAtScore (cf_Score c),
     sp_ScoreResumeRounds := sc_ResumeAfterRounds (cf_Score c),
     sp_ScheduleEnabled := ss_Enabled (cf_Schedule c),
     sp_ScheduleWindows := ss_Windows (cf_Schedule c)\<rparr>"

text \<open>
  The score gate after a change of the score configuration: a blocked gate stays blocked, any other
  starts again as unknown and takes the latest score into account if it is fresh.
\<close>

definition reset_score_gate :: "store \<Rightarrow> string \<Rightarrow> smart_policy \<Rightarrow> time \<Rightarrow> duration \<Rightarrow> smart_policy" where
  "reset_score_gate s nodeID next at scoreFreshAfter =
     (let p = next\<lparr>sp_ScoreLowStreak := 0, sp_ScoreRecoveryStreak := 0\<rparr> in
      if \<not> sp_ScoreEnabled p then p\<lparr>sp_ScoreGate := ScoreAllowed\<rparr>
      else if sp_ScoreGate p = ScoreBlocked then p
      else let q = p\<lparr>sp_ScoreGate := ScoreUnknown\<rparr> in
        (case find_row (\<lambda>m. ms_NodeID m = nodeID) (monitoring s) of
           None \<Rightarrow> q
         | Some m \<Rightarrow>
             if scoreFreshAfter \<le> 0 \<or> \<not> ms_LastCheckedAt m < at - scoreFreshAfter
             then advanceSmartRoutingScore q (ms_Score m) else q))"

definition next_policy ::
    "store \<Rightarrow> string \<Rightarrow> smart_policy \<Rightarrow> smart_config \<Rightarrow> time \<Rightarrow> duration \<Rightarrow> smart_policy" where
  "next_policy s nodeID current config at scoreFreshAfter =
     (let p = with_config current config;
          q = (if cf_Score (policy_Config current) \<noteq> cf_Score config
               then reset_score_gate s nodeID p at scoreFreshAfter else p)
      in q\<lparr>sp_ScheduleGate := schedule_gate_at at (sp_ScheduleEnabled q) (sp_ScheduleWindows q)\<rparr>)"

definition UpdateSmartRoutingPolicy ::
    "store \<Rightarrow> string \<Rightarrow> smart_config \<Rightarrow> time \<Rightarrow> duration
      \<Rightarrow> (store \<times> smart_policy \<times> smart_transition \<times> bool) result" where
  "UpdateSmartRoutingPolicy s nodeID input at scoreFreshAfter =
     (case NormalizeSmartRoutingConfig input of
        Inl e \<Rightarrow> Inl e
      | Inr config \<Rightarrow>
          (case ensureSmartRoutingPolicyTx s nodeID at of
             Inl e \<Rightarrow> Inl e
           | Inr s1 \<Rightarrow>
               (case find_policy s1 nodeID of
                  None \<Rightarrow> Inl ErrNotFound
                | Some current \<Rightarrow>
                    (let changed = (policy_Config current \<noteq> config);
                         next = next_policy s1 nodeID current config at scoreFreshAfter;
                         tr = empty_transition nodeID current next;
                         write = (changed \<or> tr_ScoreGateChanged tr \<or> tr_ScheduleGateChanged tr);
                         next' = (if write then next\<lparr>sp_UpdatedAt := at\<rparr> else next);
                         s2 = (if write then s1\<lparr>smart_routing :=
                                 update_rows (\<lambda>p. sp_NodeID p = nodeID) (\<lambda>_. next') (smart_routing s1)\<rparr>
                               else s1)
                     in case reconcileSmartRoutingNodeTx s2 next' tr at of
                          Inl e \<Rightarrow> Inl e
                        | Inr (s3, tr') \<Rightarrow> Inr (s3, next', tr', changed)))))"

text \<open>One round of the loop of \<open>ReconcileSmartRouting\<close>, and the loop over a snapshot of the policies.\<close>

definition reconcile_policy :: "store \<Rightarrow> smart_policy \<Rightarrow> time \<Rightarrow> (store \<times> smart_transition) result" where
  "reconcile_policy s policy at =
     (let p = policy\<lparr>sp_ScheduleGate :=
            schedule_gate_at at (sp_ScheduleEnabled policy) (sp_ScheduleWindows policy)\<rparr>;
          tr = empty_transition (sp_NodeID policy) policy p;
          s1 = (if tr_ScheduleGateChanged tr
                then s\<lparr>smart_routing := update_rows (\<lambda>r. sp_NodeID r = sp_NodeID policy)
                        (\<lambda>r. r\<lparr>sp_ScheduleGate := sp_ScheduleGate p, sp_UpdatedAt := at\<rparr>)
                        (smart_routing s)\<rparr>
                else s)
      in reconcileSmartRoutingNodeTx s1 p tr at)"

fun reconcile_policies :: "store \<Rightarrow> smart_policy list \<Rightarrow> time \<Rightarrow> (store \<times> smart_transition list) result" where
  "reconcile_policies s [] at = Inr (s, [])"
| "reconcile_policies s (p # ps) at =
     (case reconcile_policy s p at of
        Inl e \<Rightarrow> Inl e
      | Inr (s1, tr) \<Rightarrow>
          (case reconcile_policies s1 ps at of
             Inl e \<Rightarrow> Inl e
           | Inr (s2, trs) \<Rightarrow>
               Inr (s2, if tr_ScheduleGateChanged tr \<or> tr_StatusChanged tr \<or> tr_AutoPausedChanged tr
                        then tr # trs else trs)))"

definition ReconcileSmartRouting :: "store \<Rightarrow> time \<Rightarrow> (store \<times> smart_transition list) result" where
  "ReconcileSmartRouting s at = reconcile_policies s (sort_key sp_NodeID (smart_routing s)) at"

subsection \<open>Normalising the configuration\<close>

definition window_ok :: "smart_window \<Rightarrow> bool" where
  "window_ok w \<longleftrightarrow> sw_Weekdays w \<noteq> [] \<and> sorted (sw_Weekdays w) \<and> distinct (sw_Weekdays w)
     \<and> (\<forall>d \<in> set (sw_Weekdays w). 1 \<le> d \<and> d \<le> 7)
     \<and> smartRoutingMinute (sw_Start w) \<noteq> None \<and> smartRoutingMinute (sw_End w) \<noteq> None"

definition smart_config_ok :: "smart_config \<Rightarrow> bool" where
  "smart_config_ok c \<longleftrightarrow>
     (let sc = cf_Score c; sched = cf_Schedule c in
      1 \<le> sc_PauseBelowScore sc \<and> sc_PauseBelowScore sc \<le> sc_ResumeAtScore sc \<and> sc_ResumeAtScore sc \<le> 100
      \<and> 1 \<le> sc_PauseAfterRounds sc \<and> sc_PauseAfterRounds sc \<le> 120
      \<and> 3 \<le> sc_ResumeAfterRounds sc \<and> sc_ResumeAfterRounds sc \<le> 120
      \<and> length (ss_Windows sched) \<le> 32
      \<and> (cf_Enabled c \<longrightarrow> sc_Enabled sc \<or> ss_Enabled sched)
      \<and> (ss_Enabled sched \<longrightarrow> ss_Windows sched \<noteq> [])
      \<and> (\<forall>w \<in> set (ss_Windows sched). window_ok w))"

lemma normalize_weekdays_ok:
  "normalize_weekdays i seen ds = Inr ds' \<Longrightarrow>
    ds' = dedup seen ds \<and> (\<forall>d \<in> set ds. d \<in> seen \<or> 1 \<le> d \<and> d \<le> 7)"
proof (induction i seen ds arbitrary: ds' rule: normalize_weekdays.induct)
  case (2 i seen d ds)
  show ?case
  proof (cases "d \<in> seen")
    case True
    with 2 show ?thesis by auto
  next
    case False
    with "2.prems" obtain es where es: "normalize_weekdays i (insert d seen) ds = Inr es"
      and ds': "ds' = d # es" and d: "1 \<le> d" "d \<le> 7"
      by (auto simp: not_less)
    from False d "2.IH"(2) [OF _ False es] have "es = dedup (insert d seen) ds"
      "\<forall>d' \<in> set ds. d' = d \<or> d' \<in> seen \<or> 1 \<le> d' \<and> d' \<le> 7"
      by auto
    with False d ds' show ?thesis by auto
  qed
qed simp

lemma normalize_weekdays_fix:
  "\<forall>d \<in> set ds. 1 \<le> d \<and> d \<le> 7 \<Longrightarrow> normalize_weekdays i seen ds = Inr (dedup seen ds)"
  by (induction i seen ds rule: normalize_weekdays.induct) auto

lemma normalize_window_ok:
  assumes "normalize_window i w = Inr w'"
  shows "window_ok w'"
proof -
  from assms obtain ds where ds: "normalize_weekdays i {} (sw_Weekdays w) = Inr ds"
    and w': "w' = \<lparr>sw_Weekdays = sort ds, sw_Start = sw_Start w, sw_End = sw_End w\<rparr>"
    and w: "sw_Weekdays w \<noteq> []" "smartRoutingMinute (sw_Start w) \<noteq> None" "smartRoutingMinute (sw_End w) \<noteq> None"
    unfolding normalize_window_def by (simp del: not_None_eq) blast
  from normalize_weekdays_ok [OF ds] have dd: "ds = dedup {} (sw_Weekdays w)"
    and range: "\<forall>d \<in> set (sw_Weekdays w). 1 \<le> d \<and> d \<le> 7" by auto
  have "set ds = set (sw_Weekdays w)" "distinct ds"
    by (simp_all add: dd set_dedup distinct_dedup)
  moreover from this(1) w(1) have "ds \<noteq> []" by auto
  moreover have "length (sort ds) = length ds" by simp
  then have "sort ds \<noteq> [] \<longleftrightarrow> ds \<noteq> []" by (metis length_0_conv)
  ultimately show ?thesis using range w(2,3) by (simp add: window_ok_def w')
qed

lemma normalize_window_fix: "window_ok w \<Longrightarrow> normalize_window i w = Inr w"
  by (auto simp: window_ok_def normalize_window_def normalize_weekdays_fix dedup_distinct sorted_sort_id)

lemma normalize_windows_ok:
  "normalize_windows i ws = Inr ws' \<Longrightarrow> length ws' = length ws \<and> (\<forall>w \<in> set ws'. window_ok w)"
  by (induction i ws arbitrary: ws' rule: normalize_windows.induct)
    (auto split: sum.splits dest: normalize_window_ok)

lemma normalize_windows_fix: "\<forall>w \<in> set ws. window_ok w \<Longrightarrow> normalize_windows i ws = Inr ws"
  by (induction i ws rule: normalize_windows.induct) (auto simp: normalize_window_fix)

lemma NormalizeSmartRoutingConfig_ok:
  "NormalizeSmartRoutingConfig c = Inr c' \<Longrightarrow> smart_config_ok c'"
  unfolding NormalizeSmartRoutingConfig_def Let_def routing_consts
  by (simp add: not_less) (auto simp: smart_config_ok_def Let_def dest: normalize_windows_ok)

lemma NormalizeSmartRoutingConfig_fix:
  "smart_config_ok c \<Longrightarrow> NormalizeSmartRoutingConfig c = Inr c"
  by (simp add: NormalizeSmartRoutingConfig_def smart_config_ok_def Let_def routing_consts
      normalize_windows_fix not_less)

interpretation smart_norm: normalizer NormalizeSmartRoutingConfig smart_config_ok
  by unfold_locales (auto intro: NormalizeSmartRoutingConfig_ok NormalizeSmartRoutingConfig_fix)

end
