(* ===== verification/Smart_Schedule.thy ===== *)
theory Smart_Schedule
  imports Smart_Routing
begin

section \<open>What the weekly schedule means\<close>

text \<open>
  The abstract specification of the schedule is a set of intervals of absolute time: each window has
  one interval for each day it names. \<open>allows_iff_interval\<close> shows that the minute arithmetic of
  \<open>SmartRoutingScheduleAllows\<close> decides membership in their union; the facts about
  \<open>SmartRoutingNextTransition\<close> follow from that.
\<close>

subsection \<open>Local clock arithmetic\<close>

lemma le_div_iff: "0 < k \<Longrightarrow> q \<le> t div k \<longleftrightarrow> q * k \<le> t" for k q t :: int
proof
  assume k: "0 < k" and "q \<le> t div k"
  then have "q * k \<le> t div k * k" by simp
  also have "\<dots> \<le> t" using div_mult_mod_eq [of t k] pos_mod_sign [OF k, of t] by linarith
  finally show "q * k \<le> t" .
next
  assume k: "0 < k" and "q * k \<le> t"
  then have "q * k div k \<le> t div k" by (intro zdiv_mono1)
  then show "q \<le> t div k" using k by simp
qed

lemma minute_start_le_iff: "day_start d + m * minute \<le> t \<longleftrightarrow> d * 86400 + m * 60 \<le> local_second t"
proof -
  have "day_start d + m * minute = (d * 86400 - 28800 + m * 60) * second"
    by (simp add: day_start_def minute_def algebra_simps)
  then show ?thesis
    using le_div_iff [OF second_pos, of "d * 86400 - 28800 + m * 60" t] by (auto simp: local_second_def)
qed

lemma local_second_split: "local_second t = local_day t * 86400 + local_second t mod 86400"
  by (simp add: local_day_def)

lemma minute_of_day_le_iff: "m \<le> local_minute t \<longleftrightarrow> day_start (local_day t) + m * minute \<le> t"
  unfolding minute_start_le_iff local_minute_def
  using local_second_split [of t] le_div_iff [of 60 m "local_second t mod 86400"] by auto

lemma minute_of_day_less_iff: "local_minute t < m \<longleftrightarrow> t < day_start (local_day t) + m * minute"
  using minute_of_day_le_iff [of m t] by (simp add: not_le [symmetric])

lemma local_day_bounds: "day_start (local_day t) \<le> t" "t < day_start (local_day t + 1)"
proof -
  have "0 \<le> local_second t mod 86400" "local_second t mod 86400 < 86400" by simp_all
  then show "day_start (local_day t) \<le> t" "t < day_start (local_day t + 1)"
    using local_second_split [of t] minute_start_le_iff [of "local_day t" 0 t]
      minute_start_le_iff [of "local_day t + 1" 0 t] by auto
qed

lemma day_start_mono: "d \<le> e \<Longrightarrow> day_start d \<le> day_start e"
  by (simp add: day_start_def second_def)

lemma day_start_Suc: "day_start (d + 1) = day_start d + 1440 * minute"
  by (simp add: day_start_def minute_def algebra_simps)

lemma local_day_eq: "day_start d \<le> t \<Longrightarrow> t < day_start (d + 1) \<Longrightarrow> local_day t = d"
  using local_day_bounds [of t]
  by (auto simp: day_start_def second_def)

lemma smartRoutingMinute_range: "smartRoutingMinute v = Some m \<Longrightarrow> 0 \<le> m \<and> m < 1440"
  by (auto simp: smartRoutingMinute_def digit_char_def Let_def split: if_splits)

subsection \<open>Windows as intervals\<close>

definition window_start :: "smart_window \<Rightarrow> int \<Rightarrow> time" where
  "window_start w d =
     (case (smartRoutingMinute (sw_Start w), smartRoutingMinute (sw_End w)) of
        (Some start, Some finish) \<Rightarrow> if finish = start then day_start d else day_start d + start * minute
      | _ \<Rightarrow> day_start d)"

definition window_finish :: "smart_window \<Rightarrow> int \<Rightarrow> time" where
  "window_finish w d =
     (case (smartRoutingMinute (sw_Start w), smartRoutingMinute (sw_End w)) of
        (Some start, Some finish) \<Rightarrow>
          if finish = start then day_start (d + 1)
          else if finish < start then day_start (d + 1) + finish * minute
          else day_start d + finish * minute
      | _ \<Rightarrow> day_start d)"

definition window_on :: "smart_window \<Rightarrow> int \<Rightarrow> bool" where
  "window_on w d \<longleftrightarrow> containsWeekday (sw_Weekdays w) (iso_weekday_of_day d)
     \<and> smartRoutingMinute (sw_Start w) \<noteq> None \<and> smartRoutingMinute (sw_End w) \<noteq> None"

definition in_interval :: "smart_window \<Rightarrow> int \<Rightarrow> time \<Rightarrow> bool" where
  "in_interval w d t \<longleftrightarrow> window_on w d \<and> window_start w d \<le> t \<and> t < window_finish w d"

lemma minute_pos: "0 < minute"
  by (simp add: minute_def second_def)

lemma window_bounds:
  assumes "window_on w d"
  shows "day_start d \<le> window_start w d" "window_start w d < day_start (d + 1)"
    "day_start d < window_finish w d" "window_finish w d < day_start (d + 2)"
proof -
  from assms obtain a b where ab: "smartRoutingMinute (sw_Start w) = Some a" "smartRoutingMinute (sw_End w) = Some b"
    by (auto simp: window_on_def)
  note r = smartRoutingMinute_range [OF ab(1)] smartRoutingMinute_range [OF ab(2)]
  have d2: "day_start (d + 2) = day_start d + 2880 * minute"
    by (simp add: day_start_def minute_def algebra_simps)
  have m: "0 \<le> a * minute" "0 \<le> b * minute" "a * minute < 1440 * minute" "b * minute < 1440 * minute"
    using r minute_pos by (simp_all add: zero_le_mult_iff)
  have pos: "0 < b * minute" if "0 < b" using that minute_pos by simp
  show "day_start d \<le> window_start w d" "window_start w d < day_start (d + 1)"
    using m minute_pos by (simp_all add: window_start_def ab day_start_Suc)
  show "day_start d < window_finish w d"
    using m(2) minute_pos pos r
    by (auto simp: window_finish_def ab day_start_Suc not_less order_le_less intro: add_pos_nonneg)
  show "window_finish w d < day_start (d + 2)"
    using m minute_pos by (simp add: window_finish_def ab d2 day_start_Suc)
qed

lemma previous_weekday:
  "(if iso_weekday_of_day d - 1 = 0 then 7 else iso_weekday_of_day d - 1) = iso_weekday_of_day (d - 1)"
  unfolding iso_weekday_of_day_def by presburger

lemma window_allows_iff:
  "window_allows (iso_weekday_of_day (local_day t)) (iso_weekday_of_day (local_day t - 1)) (local_minute t) w
    \<longleftrightarrow> in_interval w (local_day t) t \<or> in_interval w (local_day t - 1) t"
proof (cases "smartRoutingMinute (sw_Start w) = None \<or> smartRoutingMinute (sw_End w) = None")
  case True
  then show ?thesis
    by (auto simp: window_allows_def in_interval_def window_on_def split: option.split)
next
  case False
  then obtain a b where ab: "smartRoutingMinute (sw_Start w) = Some a" "smartRoutingMinute (sw_End w) = Some b"
    by auto
  have r: "0 \<le> a" "a < 1440" "0 \<le> b" "b < 1440"
    using smartRoutingMinute_range [OF ab(1)] smartRoutingMinute_range [OF ab(2)] by auto
  let ?d = "local_day t"
  have today: "day_start ?d \<le> t" "t < day_start ?d + 1440 * minute"
    using local_day_bounds [of t] by (simp_all add: day_start_Suc)
  have yest: "day_start (?d - 1 + 1) = day_start ?d" by simp
  define A where "A = a * minute"
  define B where "B = b * minute"
  define D where "D = 1440 * minute"
  have m: "A < D" "B < D" "0 \<le> A" "0 \<le> B"
    using r minute_pos by (simp_all add: A_def B_def D_def zero_le_mult_iff)
  have prev: "day_start (?d - 1) = day_start ?d - 1440 * minute"
    using day_start_Suc [of "?d - 1"] by simp
  note defs = window_allows_def ab in_interval_def window_on_def window_start_def window_finish_def
    minute_of_day_le_iff minute_of_day_less_iff day_start_Suc prev
    A_def [symmetric] B_def [symmetric] D_def [symmetric]
  note today = today [folded D_def]
  consider "a = b" | "a < b" | "b < a" by linarith
  then show ?thesis
  proof cases
    case 1
    with today m show ?thesis by (auto simp: defs)
  next
    case 2
    then have "A < B" using minute_pos by (simp add: A_def B_def)
    with 2 today m show ?thesis by (auto simp: defs)
  next
    case 3
    then have "B < A" using minute_pos by (simp add: A_def B_def)
    with 3 today m show ?thesis by (auto simp: defs)
  qed
qed

lemma interval_days: "in_interval w d t \<Longrightarrow> d = local_day t \<or> d = local_day t - 1"
proof -
  assume "in_interval w d t"
  then have on: "window_on w d" and t: "window_start w d \<le> t" "t < window_finish w d"
    by (auto simp: in_interval_def)
  from t window_bounds [OF on] have "day_start d \<le> t" "t < day_start (d + 2)" by linarith+
  with local_day_bounds [of t] show ?thesis
    by (auto simp: day_start_def second_def)
qed

lemma allows_iff_interval:
  "SmartRoutingScheduleAllows t ws \<longleftrightarrow> (\<exists>w \<in> set ws. \<exists>d. in_interval w d t)"
  unfolding SmartRoutingScheduleAllows_def Let_def previous_weekday list_ex_iff window_allows_iff
  by (blast dest: interval_days)

subsection \<open>The schedule repeats every week\<close>

definition week :: duration where "week = 7 * 1440 * minute"

lemma day_start_week: "day_start (d + 7) = day_start d + week"
  by (simp add: day_start_def week_def minute_def algebra_simps)

lemma day_start_week': "day_start (d + 8) = day_start (1 + d) + week"
  using day_start_week [of "d + 1"] by (simp add: algebra_simps)

lemma in_interval_week: "in_interval w (d + 7) (t + week) \<longleftrightarrow> in_interval w d t"
proof -
  have "iso_weekday_of_day (d + 7) = iso_weekday_of_day d"
    unfolding iso_weekday_of_day_def by presburger
  then have "window_on w (d + 7) \<longleftrightarrow> window_on w d" by (simp add: window_on_def)
  moreover have "window_start w (d + 7) = window_start w d + week"
    by (simp add: window_start_def day_start_week split: option.split)
  moreover have "window_finish w (d + 7) = window_finish w d + week"
    by (simp add: window_finish_def day_start_week day_start_week' add.commute split: option.split)
  ultimately show ?thesis by (simp add: in_interval_def)
qed

lemma allows_week: "SmartRoutingScheduleAllows (t + week) ws \<longleftrightarrow> SmartRoutingScheduleAllows t ws"
proof -
  have "(\<exists>d. in_interval w d (t + week)) \<longleftrightarrow> (\<exists>d. in_interval w d t)" for w
    using in_interval_week [of w _ t] by (metis diff_add_cancel)
  then show ?thesis by (simp add: allows_iff_interval)
qed

lemma allows_weeks: "SmartRoutingScheduleAllows (t + int n * week) ws \<longleftrightarrow> SmartRoutingScheduleAllows t ws"
proof (induction n)
  case (Suc n)
  have "t + int (Suc n) * week = (t + int n * week) + week" by (simp add: algebra_simps)
  with Suc show ?case by (simp only: allows_week)
qed simp

lemma week_pos: "0 < week"
  by (simp add: week_def minute_pos)

lemma mod_week_bounds: "0 \<le> x \<Longrightarrow> 0 \<le> x mod week \<and> x mod week \<le> week \<and> x mod week \<le> x"
  using week_pos by (simp add: less_imp_le zmod_le_nonneg_dividend)

lemma allows_mod_week:
  assumes "0 \<le> t - at"
  shows "SmartRoutingScheduleAllows t ws = SmartRoutingScheduleAllows (at + (t - at) mod week) ws"
proof -
  have n: "int (nat ((t - at) div week)) = (t - at) div week"
    using assms week_pos by (simp add: pos_imp_zdiv_nonneg_iff)
  have "t = at + (t - at) mod week + (t - at) div week * week"
    using mod_mult_div_eq [of "t - at" week] by (simp add: mult.commute)
  then have "t = at + (t - at) mod week + int (nat ((t - at) div week)) * week"
    unfolding n .
  then show ?thesis using allows_weeks by metis
qed

subsection \<open>The next transition\<close>

lemma window_candidates_set:
  "set (window_candidates at d w) =
     {c. window_on w d \<and> (c = window_start w d \<or> c = window_finish w d) \<and> at < c}"
  by (auto simp: window_candidates_def window_on_def window_start_def window_finish_def Let_def
      split: option.split)

lemma transition_candidates_set:
  "set (transition_candidates at ws) =
     {c. at < c \<and> (\<exists>w \<in> set ws. \<exists>d \<in> {local_day at - 1..local_day at + 8}.
        window_on w d \<and> (c = window_start w d \<or> c = window_finish w d))}"
proof -
  have "set (transition_candidates at ws) =
      (\<Union>k \<in> {-1..8}. \<Union>w \<in> set ws. set (window_candidates at (local_day at + k) w))"
    by (simp add: transition_candidates_def)
  also have "\<dots> = {c. at < c \<and> (\<exists>w \<in> set ws. \<exists>d \<in> {local_day at - 1..local_day at + 8}.
        window_on w d \<and> (c = window_start w d \<or> c = window_finish w d))}" (is "?L = ?R")
  proof
    show "?L \<subseteq> ?R"
    proof
      fix c assume "c \<in> ?L"
      then obtain k w where "k \<in> {-1..8}" "w \<in> set ws" "c \<in> set (window_candidates at (local_day at + k) w)"
        by blast
      moreover from this(1) have "local_day at + k \<in> {local_day at - 1..local_day at + 8}" by simp
      ultimately show "c \<in> ?R" unfolding window_candidates_set by blast
    qed
    show "?R \<subseteq> ?L"
    proof
      fix c assume "c \<in> ?R"
      then obtain w d where w: "w \<in> set ws" and d: "d \<in> {local_day at - 1..local_day at + 8}"
        and c: "at < c" "window_on w d" "c = window_start w d \<or> c = window_finish w d" by auto
      from d have "d - local_day at \<in> {-1..8}" by auto
      moreover from c have "c \<in> set (window_candidates at (local_day at + (d - local_day at)) w)"
        by (simp add: window_candidates_set)
      ultimately show "c \<in> ?L" using w by blast
    qed
  qed
  finally show ?thesis .
qed

text \<open>Between two instants at which the verdict differs there is a candidate.\<close>

lemma change_has_boundary:
  assumes "in_interval w d t \<noteq> in_interval w d u" and "t < u"
  shows "window_on w d \<and> (\<exists>c. (c = window_start w d \<or> c = window_finish w d) \<and> t < c \<and> c \<le> u)"
  using assms by (auto simp: in_interval_def not_le not_less)

lemma boundary_between:
  assumes "SmartRoutingScheduleAllows t ws \<noteq> SmartRoutingScheduleAllows u ws"
    and "at \<le> t" and "t < u" and "u \<le> at + week"
  shows "\<exists>c \<in> set (transition_candidates at ws). t < c \<and> c \<le> u"
proof -
  from assms(1) obtain w d where w: "w \<in> set ws" and "in_interval w d t \<noteq> in_interval w d u"
    by (auto simp: allows_iff_interval)
  with change_has_boundary [OF _ assms(3)] obtain c where c: "window_on w d"
    "c = window_start w d \<or> c = window_finish w d" "t < c" "c \<le> u" by metis
  from \<open>in_interval w d t \<noteq> in_interval w d u\<close>
  have "d \<in> {local_day t, local_day t - 1, local_day u, local_day u - 1}"
    using interval_days by blast
  moreover have "local_day at \<le> local_day t"
    using assms(2) local_day_bounds [of at] local_day_bounds [of t]
    by (auto simp: day_start_def second_def)
  moreover have "local_day t \<le> local_day u"
    using assms(3) local_day_bounds [of t] local_day_bounds [of u]
    by (auto simp: day_start_def second_def)
  moreover have "local_day u \<le> local_day at + 7"
    using assms(4) local_day_bounds [of at] local_day_bounds [of u]
    by (auto simp: day_start_def second_def week_def minute_def)
  ultimately have "d \<in> {local_day at - 1..local_day at + 8}" by auto
  with w c(1,2) have "\<exists>w \<in> set ws. \<exists>d \<in> {local_day at - 1..local_day at + 8}.
      window_on w d \<and> (c = window_start w d \<or> c = window_finish w d)" by blast
  with c(3) assms(2) have "c \<in> set (transition_candidates at ws)"
    unfolding transition_candidates_set by simp
  with c(3,4) show ?thesis by blast
qed

lemma constant_without_hit:
  assumes nohit: "\<forall>c \<in> set (transition_candidates at ws). c \<le> u \<longrightarrow>
      SmartRoutingScheduleAllows c ws = SmartRoutingScheduleAllows at ws"
    and "at \<le> u" and "u \<le> at + week"
  shows "SmartRoutingScheduleAllows u ws = SmartRoutingScheduleAllows at ws"
proof (rule ccontr)
  let ?A = "\<lambda>x. SmartRoutingScheduleAllows x ws"
  assume diff: "?A u \<noteq> ?A at"
  let ?S = "{c \<in> insert at (set (transition_candidates at ws)). c \<le> u}"
  have fin: "finite ?S" and ne: "?S \<noteq> {}" using assms(2) by auto
  define m where "m = Max ?S"
  have m: "m \<in> ?S" using Max_in [OF fin ne] by (simp add: m_def)
  then have same: "?A m = ?A at" and "at \<le> m"
    using nohit by (auto simp: transition_candidates_set)
  with diff have "?A m \<noteq> ?A u" and "m < u" using m by (auto simp: order_le_less)
  with boundary_between [of m ws u at] \<open>at \<le> m\<close> assms(3)
  obtain c where c: "c \<in> set (transition_candidates at ws)" "m < c" "c \<le> u" by blast
  then have "c \<in> ?S" by auto
  with Max_ge [OF fin this] c(2) show False by (simp add: m_def)
qed

lemma find_Some_first:
  assumes "List.find P xs = Some c" and "sorted xs"
  shows "c \<in> set xs \<and> P c \<and> (\<forall>x \<in> set xs. x < c \<longrightarrow> \<not> P x)"
  using assms by (induction xs) (auto split: if_splits)

lemma next_transition_Some:
  assumes "SmartRoutingNextTransition at ws = Some c"
  shows "at < c" and "SmartRoutingScheduleAllows c ws \<noteq> SmartRoutingScheduleAllows at ws"
    and "\<forall>t. at \<le> t \<and> t < c \<longrightarrow> SmartRoutingScheduleAllows t ws = SmartRoutingScheduleAllows at ws"
proof -
  let ?A = "\<lambda>x. SmartRoutingScheduleAllows x ws"
  from assms have find: "List.find (\<lambda>c. ?A c \<noteq> ?A at) (sort (transition_candidates at ws)) = Some c"
    by (auto simp: SmartRoutingNextTransition_def split: if_splits)
  note first = find_Some_first [OF find sorted_sort]
  then show "at < c" "?A c \<noteq> ?A at" by (auto simp: transition_candidates_set)
  show "\<forall>t. at \<le> t \<and> t < c \<longrightarrow> ?A t = ?A at"
  proof (intro allI impI)
    fix t assume t: "at \<le> t \<and> t < c"
    show "?A t = ?A at"
    proof (cases "t \<le> at + week")
      case True
      with t first show ?thesis by (intro constant_without_hit) auto
    next
      case False
      \<comment> \<open>the whole first week is constant, so every later week is\<close>
      have len: "0 \<le> t - at" using t by simp
      let ?r = "at + (t - at) mod week"
      have "?A t = ?A ?r" using allows_mod_week [OF len] by simp
      moreover have "at \<le> ?r" "?r \<le> at + week" "?r \<le> t"
        using mod_week_bounds [OF len] by auto
      then have "?A ?r = ?A at" using t first by (intro constant_without_hit) auto
      ultimately show ?thesis by simp
    qed
  qed
qed

lemma next_transition_None:
  assumes "SmartRoutingNextTransition at ws = None" and "at \<le> t"
  shows "SmartRoutingScheduleAllows t ws = SmartRoutingScheduleAllows at ws"
proof (cases "ws = []")
  case True
  then show ?thesis by (simp add: SmartRoutingScheduleAllows_def)
next
  case False
  let ?A = "\<lambda>x. SmartRoutingScheduleAllows x ws"
  from assms(1) False have nohit: "\<forall>c \<in> set (transition_candidates at ws). ?A c = ?A at"
    by (simp add: SmartRoutingNextTransition_def find_None_iff)
  have len: "0 \<le> t - at" using assms(2) by simp
  let ?r = "at + (t - at) mod week"
  have "?A t = ?A ?r" using allows_mod_week [OF len] by simp
  also have "\<dots> = ?A at"
    using nohit mod_week_bounds [OF len] by (intro constant_without_hit) auto
  finally show ?thesis .
qed

end
