(* ===== verification/Monitoring_Rounds.thy ===== *)
theory Monitoring_Rounds
  imports Smart_Routing
begin

section \<open>Rounds of monitoring (internal/store/monitoring.go)\<close>

text \<open>
  A node probes every enabled monitoring target and reports a round of results. \<open>RecordMonitoringRound\<close>
  scores the round, moves the score gate of the node's policy and drains or resumes the node;
  \<open>resetMonitoringStateTx\<close> forgets streaks and scores when the set of targets changes. Of a result the model
  keeps the target and the time. The validation of results (\<open>valid\<close>) and the score, which the source computes in
  floating point from attempts and latencies (\<open>score\<close>), are arguments: what follows holds for any of
  them. \<open>targetIDs\<close> are the enabled targets, sorted as the query sorts them. The last results, which are
  only listed, are left out, and so are success rate and latency of a status row.
\<close>

definition MonitoringHealthyScore :: int where "MonitoringHealthyScore = 80"

definition ErrMonitoringTargetsChanged :: go_error where
  "ErrMonitoringTargetsChanged = Sentinel ''ErrMonitoringTargetsChanged''"

definition ErrMonitoringReportStale :: go_error where
  "ErrMonitoringReportStale = Sentinel ''ErrMonitoringReportStale''"

record monitoring_probe_result =
  mp_TargetID :: string
  mp_CheckedAt :: time

definition monitoringResultsMatchTargets :: "monitoring_probe_result list \<Rightarrow> string list \<Rightarrow> bool" where
  "monitoringResultsMatchTargets results targetIDs \<longleftrightarrow> length results = length targetIDs
     \<and> (let reported = sort (map mp_TargetID results) in reported = targetIDs \<and> distinct_adj reported)"

text \<open>\<open>LastCheckedAt\<close> of \<open>scoreMonitoringRound\<close>: the latest time of a result.\<close>

definition round_checked_at :: "monitoring_probe_result list \<Rightarrow> time" where
  "round_checked_at results =
     foldl (\<lambda>at r. if at < mp_CheckedAt r then mp_CheckedAt r else at) (mp_CheckedAt (hd results)) results"

definition find_monitoring :: "store \<Rightarrow> string \<Rightarrow> monitoring_status option" where
  "find_monitoring s nodeID = find_row (\<lambda>m. ms_NodeID m = nodeID) (monitoring s)"

definition RecordMonitoringRound ::
    "(monitoring_probe_result \<Rightarrow> bool) \<Rightarrow> (monitoring_probe_result list \<Rightarrow> int) \<Rightarrow> store \<Rightarrow> string
      \<Rightarrow> monitoring_probe_result list \<Rightarrow> string list \<Rightarrow> time \<Rightarrow> time \<Rightarrow> (store \<times> smart_transition) result" where
  "RecordMonitoringRound valid score s nodeID results targetIDs recordedAt writtenAt =
     (if \<not> list_all valid results then Inl (err ''invalid monitoring probe result'')
      else if targetIDs = [] \<or> \<not> monitoringResultsMatchTargets results targetIDs
      then Inl ErrMonitoringTargetsChanged
      else case ensureSmartRoutingPolicyTx s nodeID recordedAt of
        Inl e \<Rightarrow> Inl e
      | Inr s1 \<Rightarrow>
          (case find_policy s1 nodeID of
             None \<Rightarrow> Inl ErrNotFound
           | Some policy \<Rightarrow>
               (let prior = find_monitoring s1 nodeID;
                    priorAbnormal = (case prior of None \<Rightarrow> 0 | Some m \<Rightarrow> ms_ConsecutiveAbnormal m);
                    checkedAt = round_checked_at results;
                    v = score results;
                    abnormal = (if v < MonitoringHealthyScore then priorAbnormal + 1 else 0);
                    p = (if sp_ScoreEnabled policy
                         then (advanceSmartRoutingScore policy v)\<lparr>sp_UpdatedAt := recordedAt\<rparr> else policy);
                    tr = empty_transition nodeID policy p;
                    s2 = (if sp_ScoreEnabled policy
                          then s1\<lparr>smart_routing := update_rows (\<lambda>r. sp_NodeID r = nodeID)
                                 (\<lambda>r. r\<lparr>sp_ScoreGate := sp_ScoreGate p, sp_ScoreLowStreak := sp_ScoreLowStreak p,
                                       sp_ScoreRecoveryStreak := sp_ScoreRecoveryStreak p,
                                       sp_UpdatedAt := sp_UpdatedAt p\<rparr>) (smart_routing s1)\<rparr>
                          else s1)
                in if (case prior of None \<Rightarrow> False | Some m \<Rightarrow> \<not> ms_LastCheckedAt m < checkedAt)
                   then Inl ErrMonitoringReportStale
                   else case reconcileSmartRoutingNodeTx s2 p tr recordedAt of
                     Inl e \<Rightarrow> Inl e
                   | Inr (s3, tr') \<Rightarrow>
                       Inr (s3\<lparr>monitoring := upsert ms_NodeID
                                 \<lparr>ms_NodeID = nodeID, ms_Score = v, ms_ConsecutiveAbnormal = abnormal,
                                  ms_LastCheckedAt = checkedAt, ms_UpdatedAt = writtenAt\<rparr> (monitoring s3)\<rparr>, tr'))))"

definition resetMonitoringStateTx :: "store \<Rightarrow> time \<Rightarrow> store" where
  "resetMonitoringStateTx s at =
     s\<lparr>smart_routing := update_rows (\<lambda>p. sp_ScoreLowStreak p \<noteq> 0 \<or> sp_ScoreRecoveryStreak p \<noteq> 0)
         (\<lambda>p. p\<lparr>sp_ScoreLowStreak := 0, sp_ScoreRecoveryStreak := 0, sp_UpdatedAt := at\<rparr>) (smart_routing s),
       monitoring := []\<rparr>"

end
