(* ===== verification/Samples.thy ===== *)
theory Samples
  imports Store_State
begin

section \<open>Concrete values for the witnesses\<close>

text \<open>One node and one site, and stores that hold them; every witness evaluates on these.\<close>

definition sample_node :: "string \<Rightarrow> node_row" where
  "sample_node i = \<lparr>nd_ID = i, nd_Name = i, nd_PublicIPv4 = ''192.0.2.1'', nd_PublicIPv6 = [],
     nd_CacheMaxSizeGB = None,
     nd_NginxCapacity = \<lparr>WorkerProcesses = 0, WorkerConnections = 4096, WorkerRlimitNoFile = 65536\<rparr>,
     nd_Status = NodeActive, nd_MonitorAutoPaused = False, nd_Capabilities = [], nd_AgentVersion = [],
     nd_AgentSHA256 = [], nd_NginxVersion = [], nd_NginxSHA256 = [], nd_ActiveUpgradeID = [],
     nd_LastHeartbeatAt = None, nd_AppliedVersion = 0, nd_LastError = [], nd_CreatedAt = 0, nd_UpdatedAt = 0,
     nd_CertFingerprint = None\<rparr>"

definition sample_origin :: origin where
  "sample_origin = \<lparr>og_URL = ''https://origin.example'', og_HostHeader = [], og_TLSServerName = [],
     og_HTTPVersion = ''http1'', og_HealthCheckMethod = ''HEAD'', og_HealthCheckPath = ''/'',
     og_WireGuardTunnelID = [], og_Enabled = True\<rparr>"

definition sample_site :: site where
  "sample_site = \<lparr>st_ID = ''s1'', st_Name = ''site'', st_ZoneID = ''z1'', st_Domains = [''a.example''],
     st_Nodes = [''n1''], st_BackupNodes = [], st_PrimaryOrigin = sample_origin, st_BackupOrigin = None,
     st_StreamPaths = [], st_Passthrough = False, st_RequestBodyBuffering = True,
     st_OriginResponseBuffering = True, st_DynamicCompressionEnabled = True,
     st_CompressionExcludedMIMETypes = [], st_HTTP3Enabled = False, st_ClientMaxBodySizeMB = 128,
     st_ClientKeepaliveTimeoutSeconds = 120, st_ReadWriteTimeoutSeconds = 120, st_DNSTTLSeconds = None,
     st_IPv6Enabled = False, st_TCPOnly = False, st_TCPForwards = [], st_CacheMaxSizeGB = None,
     st_CacheGeneration = 1, st_CacheInvalidations = [], st_CacheWarmups = [], st_ConfigVersion = 1,
     st_Published = True, st_Enabled = True, st_Deleting = False, st_CreatedAt = 0, st_UpdatedAt = 0\<rparr>"

definition one_node_store :: store where
  "one_node_store = empty_store\<lparr>nodes := [sample_node ''n1'']\<rparr>"

definition one_site_store :: store where
  "one_site_store = one_node_store\<lparr>sites := [sample_site]\<rparr>"

lemmas sample_defs = sample_node_def sample_origin_def sample_site_def one_node_store_def
  one_site_store_def empty_store_def

end
