(* ===== verification/Hysteresis.thy ===== *)
theory Hysteresis
  imports Prelude
begin

section \<open>A gate with two thresholds\<close>

text \<open>
  Four parts of the control plane decide whether a node may serve by the same scheme: after a number
  of consecutive bad observations the gate goes down, after a number of consecutive good ones it comes
  up again. The locale states what an observer relies on; its lemmas say exactly which sequences of
  observations move the gate. It is interpreted on node health, site health, site health over IPv6
  (\<open>Node_Health\<close>) and on the score gate of smart routing (\<open>Smart_Reconcile\<close>).
\<close>

locale hysteresis =
  fixes step :: "'c \<Rightarrow> 'o \<Rightarrow> 'c"
    and up :: "'c \<Rightarrow> bool"
    and streak :: "'c \<Rightarrow> nat"  \<comment> \<open>observations in a row against the current position\<close>
    and against :: "'c \<Rightarrow> bool \<Rightarrow> 'o \<Rightarrow> bool"  \<comment> \<open>observations against a position\<close>
    and limit :: "'c \<Rightarrow> bool \<Rightarrow> nat"  \<comment> \<open>observations needed to leave the position\<close>
    and wf :: "'c \<Rightarrow> bool"
  assumes wf_step: "wf c \<Longrightarrow> wf (step c ob)"
    and limit_step: "wf c \<Longrightarrow> limit (step c ob) = limit c"
    and against_step: "wf c \<Longrightarrow> against (step c ob) = against c"
    and streak_less: "wf c \<Longrightarrow> streak c < limit c (up c)"
    and stays: "wf c \<Longrightarrow> \<not> against c (up c) ob \<Longrightarrow> up (step c ob) = up c \<and> streak (step c ob) = 0"
    and counts: "wf c \<Longrightarrow> against c (up c) ob \<Longrightarrow> Suc (streak c) < limit c (up c) \<Longrightarrow>
                   up (step c ob) = up c \<and> streak (step c ob) = Suc (streak c)"
    and flips: "wf c \<Longrightarrow> against c (up c) ob \<Longrightarrow> \<not> Suc (streak c) < limit c (up c) \<Longrightarrow>
                   up (step c ob) \<noteq> up c \<and> streak (step c ob) = 0"
begin

abbreviation run :: "'c \<Rightarrow> 'o list \<Rightarrow> 'c" where
  "run c os \<equiv> foldl step c os"

lemma run_invariant: "wf c \<Longrightarrow> wf (run c os) \<and> limit (run c os) = limit c \<and> against (run c os) = against c"
  by (induction os arbitrary: c) (auto simp: wf_step limit_step against_step fun_eq_iff)

text \<open>One observation agreeing with the position clears the streak; one is never enough to flip it
  unless the streak is complete.\<close>

lemma step_up_iff: "wf c \<Longrightarrow> up (step c ob) \<noteq> up c \<longleftrightarrow> against c (up c) ob \<and> Suc (streak c) = limit c (up c)"
proof -
  assume wf: "wf c"
  show ?thesis
  proof (cases "Suc (streak c) < limit c (up c)")
    case True
    then show ?thesis using stays [OF wf, of ob] counts [OF wf _ True, of ob] by auto
  next
    case False
    then have "Suc (streak c) = limit c (up c)" using streak_less [OF wf] by simp
    then show ?thesis using stays [OF wf] flips [OF wf _ False] by auto
  qed
qed

text \<open>A run of observations all against the position keeps it until the run is long enough.\<close>

lemma run_against:
  assumes "wf c" and "\<forall>ob \<in> set os. against c (up c) ob" and "streak c + length os < limit c (up c)"
  shows "up (run c os) = up c \<and> streak (run c os) = streak c + length os"
  using assms
proof (induction os arbitrary: c)
  case Nil
  then show ?case by simp
next
  case (Cons ob' os)
  have ag: "against c (up c) ob'" using Cons.prems by simp
  have st: "up (step c ob') = up c" "streak (step c ob') = Suc (streak c)"
    using counts [OF Cons.prems(1) ag] Cons.prems(3) by simp_all
  have "\<forall>ob \<in> set os. against (step c ob') (up (step c ob')) ob"
    using Cons.prems(1,2) by (simp add: against_step st)
  moreover have "streak (step c ob') + length os < limit (step c ob') (up (step c ob'))"
    using Cons.prems(1,3) by (simp add: st limit_step)
  ultimately show ?case
    using Cons.IH [OF wf_step [OF Cons.prems(1)]] by (simp add: st)
qed

lemma run_flip:
  assumes "wf c" and "\<forall>ob \<in> set os. against c (up c) ob" and "streak c + length os = limit c (up c)" and "os \<noteq> []"
  shows "up (run c os) \<noteq> up c \<and> streak (run c os) = 0"
proof -
  from assms(4) obtain us ob' where os: "os = us @ [ob']" by (cases os rule: rev_cases) auto
  have us: "up (run c us) = up c" "streak (run c us) = streak c + length us"
    using run_against [of c us] assms(1-3) by (auto simp: os)
  note inv = run_invariant [OF assms(1), of us]
  have "against (run c us) (up (run c us)) ob'"
    using assms(1,2) inv by (simp add: os us)
  moreover have "\<not> Suc (streak (run c us)) < limit (run c us) (up (run c us))"
    using assms(3) inv by (simp add: os us)
  ultimately show ?thesis
    using flips [of "run c us" ob'] inv by (simp add: os us)
qed

text \<open>
  Exactly which sequences move the gate: those that hold \<open>limit\<close> observations against its position
  in a row (the streak it starts with counts for a run at the beginning).
\<close>

lemma leaves_imp_run:
  assumes "wf c" and "up (run c os) \<noteq> up c"
  shows "\<exists>us vs ws. os = us @ vs @ ws \<and> (\<forall>ob \<in> set vs. against c (up c) ob)
           \<and> (length vs = limit c (up c) \<or> us = [] \<and> streak c + length vs = limit c (up c))"
  using assms
proof (induction os arbitrary: c)
  case Nil
  then show ?case by simp
next
  case (Cons ob' os)
  let ?d = "step c ob'"
  show ?case
  proof (cases "up ?d = up c")
    case False
    with Cons.prems(1) have "against c (up c) ob'" "streak c + 1 = limit c (up c)"
      using step_up_iff by auto
    then show ?thesis
      by (intro exI [of _ "[]"] exI [of _ "[ob']"] exI [of _ os]) simp
  next
    case True
    with Cons.prems(2) have "up (run ?d os) \<noteq> up ?d" by simp
    from Cons.IH [OF wf_step [OF Cons.prems(1)] this]
    obtain us vs ws where d: "os = us @ vs @ ws" "\<forall>x \<in> set vs. against ?d (up ?d) x"
      "length vs = limit ?d (up ?d) \<or> us = [] \<and> streak ?d + length vs = limit ?d (up ?d)" by blast
    have ag: "against ?d (up ?d) x = against c (up c) x" for x
      using Cons.prems(1) True by (simp add: against_step)
    have lim: "limit ?d (up ?d) = limit c (up c)"
      using Cons.prems(1) True by (simp add: limit_step)
    show ?thesis
    proof (cases "length vs = limit c (up c)")
      case True
      with d ag show ?thesis
        by (intro exI [of _ "ob' # us"] exI [of _ vs] exI [of _ ws]) simp
    next
      case False
      with d lim have us: "us = []" "streak ?d + length vs = limit c (up c)" "streak ?d \<noteq> 0" by auto
      then have "against c (up c) ob'" using stays [OF Cons.prems(1), of ob'] by auto
      then have "streak ?d = Suc (streak c)" "against c (up c) ob'"
        using Cons.prems(1) True counts [of c ob'] flips [of c ob'] by auto
      with us d ag show ?thesis
        by (intro exI [of _ "[]"] exI [of _ "ob' # vs"] exI [of _ ws]) simp
    qed
  qed
qed

lemma run_imp_leaves:
  assumes wf: "wf c" and os: "os = us @ vs @ ws"
    and len: "length vs = limit c (up c)" and vs: "\<forall>ob \<in> set vs. against c (up c) ob"
  shows "\<exists>n. up (run c (take n os)) \<noteq> up c"
proof (cases "up (run c us) = up c")
  case False
  then show ?thesis by (intro exI [of _ "length us"]) (simp add: os)
next
  case True
  let ?d = "run c us"
  note inv = run_invariant [OF wf, of us]
  let ?k = "limit c (up c) - streak ?d"
  have less: "streak ?d < limit c (up c)" using streak_less [of ?d] inv True by simp
  have ag: "against ?d (up ?d) x = against c (up c) x" for x using inv True wf by simp
  have "\<forall>x \<in> set (take ?k vs). against ?d (up ?d) x" using vs ag by (auto dest: in_set_takeD)
  moreover have "streak ?d + length (take ?k vs) = limit ?d (up ?d)" using less len inv True by simp
  moreover have "take ?k vs \<noteq> []" using less len by auto
  ultimately have "up (run ?d (take ?k vs)) \<noteq> up c"
    using run_flip [of ?d] inv True by simp
  then show ?thesis using len by (intro exI [of _ "length us + ?k"]) (simp add: os)
qed

lemma leaves_iff:
  assumes wf: "wf c" and clear: "streak c = 0"
  shows "(\<exists>n. up (run c (take n os)) \<noteq> up c) \<longleftrightarrow>
     (\<exists>us vs ws. os = us @ vs @ ws \<and> length vs = limit c (up c) \<and> (\<forall>ob \<in> set vs. against c (up c) ob))"
proof
  assume "\<exists>n. up (run c (take n os)) \<noteq> up c"
  then obtain n us vs ws where "take n os = us @ vs @ ws" "\<forall>ob \<in> set vs. against c (up c) ob"
    "length vs = limit c (up c)"
    using leaves_imp_run [OF wf] clear by fastforce
  moreover from this(1) have "os = us @ vs @ (ws @ drop n os)"
    by (metis append.assoc append_take_drop_id)
  ultimately show "\<exists>us vs ws. os = us @ vs @ ws \<and> length vs = limit c (up c) \<and> (\<forall>ob \<in> set vs. against c (up c) ob)"
    by blast
next
  assume "\<exists>us vs ws. os = us @ vs @ ws \<and> length vs = limit c (up c) \<and> (\<forall>ob \<in> set vs. against c (up c) ob)"
  then show "\<exists>n. up (run c (take n os)) \<noteq> up c" using run_imp_leaves [OF wf] by blast
qed

end

end
