(* ===== verification/Smart_Reconcile.thy ===== *)
theory Smart_Reconcile
  imports Smart_Schedule Monitoring_Rounds Samples Hysteresis
begin

section \<open>Smart routing: the gates and the nodes they drain\<close>

text \<open>
  The score gate is an instance of the two-threshold gate. \<open>ReconcileSmartRouting\<close> walks over a
  snapshot of the policies and updates rows one by one; \<open>reconciled\<close> says what it leaves in the
  tables, row by row, and \<open>ReconcileSmartRouting_reconciled\<close> proves that it does. The rest of the
  theory follows the status of nodes over every sequence of smart routing operations.
\<close>

subsection \<open>The score gate\<close>

definition score_limit :: "smart_policy \<Rightarrow> bool \<Rightarrow> nat" where
  "score_limit p open = nat (if open then sp_ScorePauseRounds p else max (sp_ScoreResumeRounds p) 3)"

definition score_against :: "smart_policy \<Rightarrow> bool \<Rightarrow> int \<Rightarrow> bool" where
  "score_against p open score = (if open then score < sp_ScorePauseBelow p else sp_ScoreResumeAt p \<le> score)"

definition score_streak :: "smart_policy \<Rightarrow> nat" where
  "score_streak p = nat (if sp_ScoreGate p = ScoreBlocked then sp_ScoreRecoveryStreak p else sp_ScoreLowStreak p)"

definition score_policy_ok :: "smart_policy \<Rightarrow> bool" where
  "score_policy_ok p \<longleftrightarrow> 1 \<le> sp_ScorePauseRounds p
     \<and> (if sp_ScoreGate p = ScoreBlocked
        then sp_ScoreLowStreak p = 0 \<and> 0 \<le> sp_ScoreRecoveryStreak p
           \<and> sp_ScoreRecoveryStreak p < max (sp_ScoreResumeRounds p) 3
        else sp_ScoreRecoveryStreak p = 0 \<and> 0 \<le> sp_ScoreLowStreak p
           \<and> sp_ScoreLowStreak p < sp_ScorePauseRounds p)"

lemmas score_defs = advanceSmartRoutingScore_def score_limit_def score_against_def score_streak_def
  score_policy_ok_def SmartRoutingMinResumeRounds_def

lemma advance_config [simp]:
  "sp_ScorePauseRounds (advanceSmartRoutingScore p v) = sp_ScorePauseRounds p"
  "sp_ScoreResumeRounds (advanceSmartRoutingScore p v) = sp_ScoreResumeRounds p"
  "sp_ScorePauseBelow (advanceSmartRoutingScore p v) = sp_ScorePauseBelow p"
  "sp_ScoreResumeAt (advanceSmartRoutingScore p v) = sp_ScoreResumeAt p"
  "sp_NodeID (advanceSmartRoutingScore p v) = sp_NodeID p"
  "policy_Config (advanceSmartRoutingScore p v) = policy_Config p"
  "sp_ScheduleGate (advanceSmartRoutingScore p v) = sp_ScheduleGate p"
  by (cases "sp_ScoreGate p"; simp add: advanceSmartRoutingScore_def policy_Config_def)+

lemma advance_ok: "score_policy_ok p \<Longrightarrow> score_policy_ok (advanceSmartRoutingScore p v)"
  by (cases "sp_ScoreGate p") (auto simp: score_defs)

interpretation score_gate: hysteresis advanceSmartRoutingScore "\<lambda>p. sp_ScoreGate p \<noteq> ScoreBlocked"
  score_streak score_against score_limit score_policy_ok
proof
  fix p :: smart_policy and v :: int
  assume p: "score_policy_ok p"
  show "score_policy_ok (advanceSmartRoutingScore p v)" using p by (rule advance_ok)
  show "score_limit (advanceSmartRoutingScore p v) = score_limit p"
    "score_against (advanceSmartRoutingScore p v) = score_against p"
    by (simp_all add: score_limit_def score_against_def fun_eq_iff)
  show "score_streak p < score_limit p (sp_ScoreGate p \<noteq> ScoreBlocked)"
    using p by (auto simp: score_streak_def score_limit_def score_policy_ok_def)
next
  fix p :: smart_policy and v :: int
  assume p: "score_policy_ok p" and ag: "\<not> score_against p (sp_ScoreGate p \<noteq> ScoreBlocked) v"
  then show "(sp_ScoreGate (advanceSmartRoutingScore p v) \<noteq> ScoreBlocked) = (sp_ScoreGate p \<noteq> ScoreBlocked)
    \<and> score_streak (advanceSmartRoutingScore p v) = 0"
    by (cases "sp_ScoreGate p") (auto simp: score_defs)
next
  fix p :: smart_policy and v :: int
  assume p: "score_policy_ok p" and ag: "score_against p (sp_ScoreGate p \<noteq> ScoreBlocked) v"
    and "Suc (score_streak p) < score_limit p (sp_ScoreGate p \<noteq> ScoreBlocked)"
  then show "(sp_ScoreGate (advanceSmartRoutingScore p v) \<noteq> ScoreBlocked) = (sp_ScoreGate p \<noteq> ScoreBlocked)
    \<and> score_streak (advanceSmartRoutingScore p v) = Suc (score_streak p)"
    by (cases "sp_ScoreGate p") (auto simp: score_defs)
next
  fix p :: smart_policy and v :: int
  assume p: "score_policy_ok p" and ag: "score_against p (sp_ScoreGate p \<noteq> ScoreBlocked) v"
    and "\<not> Suc (score_streak p) < score_limit p (sp_ScoreGate p \<noteq> ScoreBlocked)"
  then show "(sp_ScoreGate (advanceSmartRoutingScore p v) \<noteq> ScoreBlocked) \<noteq> (sp_ScoreGate p \<noteq> ScoreBlocked)
    \<and> score_streak (advanceSmartRoutingScore p v) = 0"
    by (cases "sp_ScoreGate p") (auto simp: score_defs)
qed

text \<open>
  From a clear streak, a sequence of monitoring scores closes an open score gate exactly when it
  holds \<open>PauseAfterRounds\<close> scores below the pause threshold in a row, and opens a closed one exactly
  when it holds \<open>ResumeAfterRounds\<close> (never fewer than three) scores at the resume threshold or above
  in a row.
\<close>

theorem score_gate_moves_iff:
  assumes "score_policy_ok p" and "score_streak p = 0"
  shows "(\<exists>n. (sp_ScoreGate (foldl advanceSmartRoutingScore p (take n scores)) = ScoreBlocked)
              \<noteq> (sp_ScoreGate p = ScoreBlocked))
    \<longleftrightarrow> (\<exists>us vs ws. scores = us @ vs @ ws
          \<and> (if sp_ScoreGate p = ScoreBlocked
             then int (length vs) = max (sp_ScoreResumeRounds p) 3 \<and> (\<forall>v \<in> set vs. sp_ScoreResumeAt p \<le> v)
             else int (length vs) = sp_ScorePauseRounds p \<and> (\<forall>v \<in> set vs. v < sp_ScorePauseBelow p)))"
proof -
  have len: "length vs = nat k \<longleftrightarrow> int (length vs) = k" if "0 \<le> k" for k and vs :: "int list"
    using that by auto
  have "1 \<le> sp_ScorePauseRounds p" using assms(1) by (simp add: score_policy_ok_def)
  then show ?thesis
    using score_gate.leaves_iff [OF assms, of scores]
    by (cases "sp_ScoreGate p = ScoreBlocked") (simp_all add: score_limit_def score_against_def len)
qed

lemma score_gate_moves_iff_witness:
  "\<exists>n. (sp_ScoreGate (foldl advanceSmartRoutingScore (default_policy ''n1'' 0) (take n [90, 50, 79, 10, 0, 99])) = ScoreBlocked)
     \<noteq> (sp_ScoreGate (default_policy ''n1'' 0) = ScoreBlocked)"
proof -
  define scores :: "int list" where "scores = [90, 50, 79, 10, 0, 99]"
  have "scores = [90] @ [50, 79, 10, 0] @ [99]" by (simp add: scores_def)
  moreover have "int (length [50, 79, 10, 0 :: int]) = 4 \<and> (\<forall>v \<in> set [50, 79, 10, 0 :: int]. v < 80)" by simp
  ultimately have "\<exists>us vs ws. scores = us @ vs @ ws \<and> int (length vs) = 4 \<and> (\<forall>v \<in> set vs. v < 80)" by blast
  moreover have "score_policy_ok (default_policy ''n1'' 0)" "score_streak (default_policy ''n1'' 0) = 0"
    "sp_ScoreGate (default_policy ''n1'' 0) \<noteq> ScoreBlocked" "sp_ScorePauseRounds (default_policy ''n1'' 0) = 4"
    "sp_ScorePauseBelow (default_policy ''n1'' 0) = 80"
    by (simp_all add: score_policy_ok_def score_streak_def default_policy_def Let_def
        DefaultSmartRoutingConfig_def routing_consts)
  ultimately show ?thesis
    using score_gate_moves_iff [of "default_policy ''n1'' 0" scores] unfolding scores_def [symmetric] by simp
qed

subsection \<open>What a reconciliation leaves\<close>

definition reconciled_policy :: "time \<Rightarrow> smart_policy \<Rightarrow> smart_policy" where
  "reconciled_policy at p =
     (let g = schedule_gate_at at (sp_ScheduleEnabled p) (sp_ScheduleWindows p) in
      if sp_ScheduleGate p \<noteq> g then p\<lparr>sp_ScheduleGate := g, sp_UpdatedAt := at\<rparr> else p)"

definition ruled_node :: "time \<Rightarrow> smart_policy \<Rightarrow> node_row \<Rightarrow> node_row" where
  "ruled_node at p n =
     (let (st, auto) = next_node_status (nd_Status n) (nd_MonitorAutoPaused n) (BlockedBy p) in
      if st \<noteq> nd_Status n \<or> auto \<noteq> nd_MonitorAutoPaused n
      then n\<lparr>nd_Status := st, nd_MonitorAutoPaused := auto, nd_UpdatedAt := at\<rparr> else n)"

definition reconciled_node :: "store \<Rightarrow> time \<Rightarrow> node_row \<Rightarrow> node_row" where
  "reconciled_node s at n =
     (case find_policy s (nd_ID n) of
        None \<Rightarrow> n
      | Some p \<Rightarrow> ruled_node at (reconciled_policy at p) n)"

definition reconciled :: "store \<Rightarrow> time \<Rightarrow> store" where
  "reconciled s at = s\<lparr>nodes := map (reconciled_node s at) (nodes s),
                       smart_routing := map (reconciled_policy at) (smart_routing s)\<rparr>"

text \<open>What the schema guarantees: primary keys are unique and a policy belongs to a node.\<close>

definition routing_wf :: "store \<Rightarrow> bool" where
  "routing_wf s \<longleftrightarrow> distinct (map nd_ID (nodes s)) \<and> distinct (map sp_NodeID (smart_routing s))
     \<and> (\<forall>p \<in> set (smart_routing s). \<exists>n \<in> set (nodes s). nd_ID n = sp_NodeID p)"

lemma reconciled_policy_ID [simp]: "sp_NodeID (reconciled_policy at p) = sp_NodeID p"
  by (simp add: reconciled_policy_def Let_def)

lemma reconciled_policy_gate [simp]:
  "sp_ScheduleGate (reconciled_policy at p) = schedule_gate_at at (sp_ScheduleEnabled p) (sp_ScheduleWindows p)"
  "sp_ScheduleEnabled (reconciled_policy at p) = sp_ScheduleEnabled p"
  "sp_ScheduleWindows (reconciled_policy at p) = sp_ScheduleWindows p"
  by (simp_all add: reconciled_policy_def Let_def)

lemma reconciled_policy_idem [simp]: "reconciled_policy at (reconciled_policy at p) = reconciled_policy at p"
  by (simp add: reconciled_policy_def [of at "reconciled_policy at p"])

lemma ruled_node_ID [simp]: "nd_ID (ruled_node at p n) = nd_ID n"
  by (simp add: ruled_node_def split: prod.split)

lemma reconciled_node_ID [simp]: "nd_ID (reconciled_node s at n) = nd_ID n"
  by (simp add: reconciled_node_def split: option.split)

lemma next_node_status_idem:
  "next_node_status st a b = (st', a') \<Longrightarrow> next_node_status st' a' b = (st', a')"
  by (auto simp: next_node_status_def split: node_status.splits if_splits)

lemma ruled_node_fields:
  "nd_Status (ruled_node at p n) = fst (next_node_status (nd_Status n) (nd_MonitorAutoPaused n) (BlockedBy p))"
  "nd_MonitorAutoPaused (ruled_node at p n) = snd (next_node_status (nd_Status n) (nd_MonitorAutoPaused n) (BlockedBy p))"
  by (auto simp: ruled_node_def split: prod.splits)

text \<open>Does the verdict change anything?\<close>

definition node_changed :: "smart_policy \<Rightarrow> node_row \<Rightarrow> bool" where
  "node_changed p n \<longleftrightarrow>
     next_node_status (nd_Status n) (nd_MonitorAutoPaused n) (BlockedBy p) \<noteq> (nd_Status n, nd_MonitorAutoPaused n)"

lemma ruled_node_unchanged: "\<not> node_changed p n \<Longrightarrow> ruled_node at p n = n"
  by (simp add: node_changed_def ruled_node_def)

lemma not_changed_after: "\<not> node_changed p (ruled_node at p n)"
  unfolding node_changed_def ruled_node_fields
  by (metis next_node_status_idem prod.collapse)

lemma ruled_node_idem [simp]: "ruled_node at' p (ruled_node at p n) = ruled_node at p n"
  by (rule ruled_node_unchanged) (rule not_changed_after)

lemma update_rows_map: "update_rows P f (map g rows) = map (\<lambda>r. if P (g r) then f (g r) else g r) rows"
  by (simp add: update_rows_def)

text \<open>One call of \<open>reconcileSmartRoutingNodeTx\<close> rewrites the one row of the policy's node.\<close>

lemma reconcileSmartRoutingNodeTx_ruled:
  assumes "distinct (map nd_ID (nodes s))" and "\<exists>n \<in> set (nodes s). nd_ID n = sp_NodeID p"
  shows "\<exists>tr'. reconcileSmartRoutingNodeTx s p tr at =
      Inr (s\<lparr>nodes := map (\<lambda>n. if nd_ID n = sp_NodeID p then ruled_node at p n else n) (nodes s)\<rparr>, tr')
    \<and> tr_ScheduleGateChanged tr' = tr_ScheduleGateChanged tr
    \<and> (\<forall>n \<in> set (nodes s). nd_ID n = sp_NodeID p \<longrightarrow>
         (tr_StatusChanged tr' \<or> tr_AutoPausedChanged tr' \<longleftrightarrow> node_changed p n))"
proof -
  from assms(2) obtain n where n: "n \<in> set (nodes s)" "nd_ID n = sp_NodeID p" by blast
  with assms(1) have found: "find_node s (sp_NodeID p) = Some n"
    using find_row_key_unique [of nd_ID "nodes s" n] by (simp add: find_node_def)
  have uniq: "m = n" if "m \<in> set (nodes s)" "nd_ID m = sp_NodeID p" for m
    using find_row_key_unique [OF assms(1) that(1)] found that(2) by (simp add: find_node_def)
  obtain st auto where v: "next_node_status (nd_Status n) (nd_MonitorAutoPaused n) (BlockedBy p) = (st, auto)"
    by fastforce
  have ruled: "ruled_node at p n = (if st \<noteq> nd_Status n \<or> auto \<noteq> nd_MonitorAutoPaused n
      then n\<lparr>nd_Status := st, nd_MonitorAutoPaused := auto, nd_UpdatedAt := at\<rparr> else n)"
    by (simp add: ruled_node_def v)
  let ?rows = "map (\<lambda>n. if nd_ID n = sp_NodeID p then ruled_node at p n else n) (nodes s)"
  have rows: "?rows = (if st \<noteq> nd_Status n \<or> auto \<noteq> nd_MonitorAutoPaused n
      then update_rows (\<lambda>r. nd_ID r = sp_NodeID p)
             (\<lambda>r. r\<lparr>nd_Status := st, nd_MonitorAutoPaused := auto, nd_UpdatedAt := at\<rparr>) (nodes s)
      else nodes s)"
    using uniq ruled by (auto simp: update_rows_def intro!: map_cong [OF refl] map_idI)
  have chg: "node_changed p m \<longleftrightarrow> st \<noteq> nd_Status n \<or> auto \<noteq> nd_MonitorAutoPaused n"
    if "m \<in> set (nodes s)" "nd_ID m = sp_NodeID p" for m
    unfolding uniq [OF that] node_changed_def v by auto
  show ?thesis
    unfolding rows by (simp add: reconcileSmartRoutingNodeTx_def found v Let_def chg)
qed

text \<open>The state after the policies of the nodes in \<open>D\<close> have been reconciled.\<close>

definition reconciled_upto :: "store \<Rightarrow> time \<Rightarrow> string set \<Rightarrow> store" where
  "reconciled_upto s at D = s\<lparr>
     nodes := map (\<lambda>n. if nd_ID n \<in> D then reconciled_node s at n else n) (nodes s),
     smart_routing := map (\<lambda>p. if sp_NodeID p \<in> D then reconciled_policy at p else p) (smart_routing s)\<rparr>"

lemma find_policy_in:
  "routing_wf s \<Longrightarrow> p \<in> set (smart_routing s) \<Longrightarrow> find_policy s (sp_NodeID p) = Some p"
  unfolding routing_wf_def find_policy_def by (blast intro: find_row_key_unique)

lemma map_ID_cond [simp]:
  "(\<And>r. key (f r) = key r) \<Longrightarrow> map (key \<circ> (\<lambda>r. if P r then f r else r)) rows = map key rows"
  by (induction rows) auto

lemma reconcile_policy_upto:
  assumes wf: "routing_wf s" and p: "p \<in> set (smart_routing s)" and new: "sp_NodeID p \<notin> D"
  shows "\<exists>tr. reconcile_policy (reconciled_upto s at D) p at =
       Inr (reconciled_upto s at (insert (sp_NodeID p) D), tr)
     \<and> (tr_ScheduleGateChanged tr \<or> tr_StatusChanged tr \<or> tr_AutoPausedChanged tr \<longleftrightarrow>
          reconciled_policy at p \<noteq> p \<or>
          (\<exists>n \<in> set (nodes s). nd_ID n = sp_NodeID p \<and> node_changed (reconciled_policy at p) n))"
proof -
  let ?g = "schedule_gate_at at (sp_ScheduleEnabled p) (sp_ScheduleWindows p)"
  define q where "q = p\<lparr>sp_ScheduleGate := ?g\<rparr>"
  let ?sD = "reconciled_upto s at D"
  define s1 where "s1 = (if sp_ScheduleGate p \<noteq> ?g
             then ?sD\<lparr>smart_routing := update_rows (\<lambda>r. sp_NodeID r = sp_NodeID p)
                        (\<lambda>r. r\<lparr>sp_ScheduleGate := ?g, sp_UpdatedAt := at\<rparr>) (smart_routing ?sD)\<rparr>
             else ?sD)"
  have qID [simp]: "sp_NodeID q = sp_NodeID p" by (simp add: q_def)
  have uniq: "r = p" if "r \<in> set (smart_routing s)" "sp_NodeID r = sp_NodeID p" for r
    using find_policy_in [OF wf that(1)] find_policy_in [OF wf p] that(2) by (metis option.inject)
  have pol: "smart_routing s1 = smart_routing (reconciled_upto s at (insert (sp_NodeID p) D))"
  proof -
    have "(if sp_ScheduleGate p \<noteq> ?g \<and> sp_NodeID r = sp_NodeID p
           then r\<lparr>sp_ScheduleGate := ?g, sp_UpdatedAt := at\<rparr>
           else if sp_NodeID r \<in> D then reconciled_policy at r else r)
        = (if sp_NodeID r \<in> insert (sp_NodeID p) D then reconciled_policy at r else r)"
      if r: "r \<in> set (smart_routing s)" for r
    proof (cases "sp_NodeID r = sp_NodeID p")
      case True
      with uniq [OF r] new show ?thesis by (simp add: reconciled_policy_def Let_def)
    qed simp
    moreover have "smart_routing s1 = map (\<lambda>r. if sp_ScheduleGate p \<noteq> ?g \<and> sp_NodeID r = sp_NodeID p
           then r\<lparr>sp_ScheduleGate := ?g, sp_UpdatedAt := at\<rparr>
           else if sp_NodeID r \<in> D then reconciled_policy at r else r) (smart_routing s)"
      using new by (auto simp: s1_def reconciled_upto_def update_rows_map)
    ultimately show ?thesis by (simp add: reconciled_upto_def)
  qed
  have blocked: "BlockedBy q = BlockedBy (reconciled_policy at p)"
    by (auto simp: q_def BlockedBy_def reconciled_policy_def Let_def)
  then have ruled: "ruled_node at q = ruled_node at (reconciled_policy at p)"
    "node_changed q = node_changed (reconciled_policy at p)"
    by (simp_all add: fun_eq_iff ruled_node_def node_changed_def)
  have nodes1: "nodes s1 = nodes ?sD" by (simp add: s1_def)
  have rec: "reconciled_node s at n = ruled_node at (reconciled_policy at p) n" if "nd_ID n = sp_NodeID p" for n
    using find_policy_in [OF wf p] that by (simp add: reconciled_node_def)
  have nds: "map (\<lambda>n. if nd_ID n = sp_NodeID q then ruled_node at q n else n) (nodes s1)
      = nodes (reconciled_upto s at (insert (sp_NodeID p) D))"
    unfolding nodes1 ruled using new by (auto simp: reconciled_upto_def rec)
  have ids: "map nd_ID (nodes ?sD) = map nd_ID (nodes s)"
    by (simp add: reconciled_upto_def)
  have "sp_NodeID p \<in> set (map nd_ID (nodes s))" using wf p by (force simp: routing_wf_def)
  then have "\<exists>n \<in> set (nodes s1). nd_ID n = sp_NodeID q"
    unfolding nodes1 ids [symmetric] by auto
  moreover have "distinct (map nd_ID (nodes s1))"
    unfolding nodes1 ids using wf by (simp add: routing_wf_def)
  ultimately have "distinct (map nd_ID (nodes s1))" "\<exists>n \<in> set (nodes s1). nd_ID n = sp_NodeID q"
    by blast+
  from reconcileSmartRoutingNodeTx_ruled [OF this, of "empty_transition (sp_NodeID p) p q" at]
  obtain tr where tr: "reconcileSmartRoutingNodeTx s1 q (empty_transition (sp_NodeID p) p q) at =
      Inr (s1\<lparr>nodes := nodes (reconciled_upto s at (insert (sp_NodeID p) D))\<rparr>, tr)"
    "tr_ScheduleGateChanged tr = tr_ScheduleGateChanged (empty_transition (sp_NodeID p) p q)"
    "\<forall>n \<in> set (nodes s1). nd_ID n = sp_NodeID p \<longrightarrow>
       (tr_StatusChanged tr \<or> tr_AutoPausedChanged tr \<longleftrightarrow> node_changed (reconciled_policy at p) n)"
    unfolding nds unfolding ruled qID by blast
  have chg: "tr_ScheduleGateChanged (empty_transition (sp_NodeID p) p q) = (sp_ScheduleGate p \<noteq> ?g)"
    by (simp add: empty_transition_def q_def)
  note gate = tr(2) [unfolded chg]
  have gq: "sp_ScheduleGate q = ?g" by (simp add: q_def)
  have "reconcile_policy ?sD p at = reconcileSmartRoutingNodeTx s1 q (empty_transition (sp_NodeID p) p q) at"
    unfolding reconcile_policy_def Let_def q_def [symmetric] chg gq s1_def [symmetric] ..
  note tr1 = tr(1) [folded this]
  have "s1\<lparr>nodes := nodes (reconciled_upto s at (insert (sp_NodeID p) D))\<rparr>
      = s1\<lparr>nodes := nodes (reconciled_upto s at (insert (sp_NodeID p) D)), smart_routing := smart_routing s1\<rparr>"
    by simp
  also have "\<dots> = reconciled_upto s at (insert (sp_NodeID p) D)"
    unfolding pol by (simp add: s1_def reconciled_upto_def)
  finally have "reconcile_policy ?sD p at = Inr (reconciled_upto s at (insert (sp_NodeID p) D), tr)"
    using tr1 by simp
  moreover have "reconciled_policy at p \<noteq> p \<longleftrightarrow> sp_ScheduleGate p \<noteq> ?g"
    by (auto simp: reconciled_policy_def Let_def dest: arg_cong [of _ _ sp_ScheduleGate])
  moreover have "tr_StatusChanged tr \<or> tr_AutoPausedChanged tr \<longleftrightarrow>
      (\<exists>n \<in> set (nodes s). nd_ID n = sp_NodeID p \<and> node_changed (reconciled_policy at p) n)"
  proof -
    have same: "n \<in> set (nodes s1) \<and> nd_ID n = sp_NodeID p \<longleftrightarrow> n \<in> set (nodes s) \<and> nd_ID n = sp_NodeID p" for n
      unfolding nodes1 using new by (auto simp: reconciled_upto_def split: if_splits)
    from wf p obtain n where "n \<in> set (nodes s)" "nd_ID n = sp_NodeID p" by (auto simp: routing_wf_def)
    with tr(3) same show ?thesis by blast
  qed
  ultimately show ?thesis using gate by blast
qed

lemma reconcile_policies_upto:
  assumes "routing_wf s" and "set ps \<subseteq> set (smart_routing s)" and "distinct (map sp_NodeID ps)"
    and "sp_NodeID ` set ps \<inter> D = {}"
  shows "\<exists>trs. reconcile_policies (reconciled_upto s at D) ps at =
       Inr (reconciled_upto s at (D \<union> sp_NodeID ` set ps), trs)
     \<and> (trs = [] \<longleftrightarrow> (\<forall>p \<in> set ps. reconciled_policy at p = p \<and>
          (\<forall>n \<in> set (nodes s). nd_ID n = sp_NodeID p \<longrightarrow> \<not> node_changed (reconciled_policy at p) n)))"
  using assms(2-4)
proof (induction ps arbitrary: D)
  case Nil
  then show ?case by simp
next
  case (Cons p ps)
  then obtain tr where tr: "reconcile_policy (reconciled_upto s at D) p at =
       Inr (reconciled_upto s at (insert (sp_NodeID p) D), tr)"
    "tr_ScheduleGateChanged tr \<or> tr_StatusChanged tr \<or> tr_AutoPausedChanged tr \<longleftrightarrow>
          reconciled_policy at p \<noteq> p \<or>
          (\<exists>n \<in> set (nodes s). nd_ID n = sp_NodeID p \<and> node_changed (reconciled_policy at p) n)"
    using reconcile_policy_upto [OF assms(1), of p D at] by auto
  from Cons.prems have "set ps \<subseteq> set (smart_routing s)" "distinct (map sp_NodeID ps)"
    "sp_NodeID ` set ps \<inter> insert (sp_NodeID p) D = {}" by auto
  from Cons.IH [OF this] obtain trs where trs: "reconcile_policies (reconciled_upto s at (insert (sp_NodeID p) D)) ps at =
       Inr (reconciled_upto s at (insert (sp_NodeID p) D \<union> sp_NodeID ` set ps), trs)"
     "trs = [] \<longleftrightarrow> (\<forall>p \<in> set ps. reconciled_policy at p = p \<and>
          (\<forall>n \<in> set (nodes s). nd_ID n = sp_NodeID p \<longrightarrow> \<not> node_changed (reconciled_policy at p) n))"
    by blast
  show ?case
  proof (intro exI conjI)
    show "reconcile_policies (reconciled_upto s at D) (p # ps) at =
        Inr (reconciled_upto s at (D \<union> sp_NodeID ` set (p # ps)),
             if tr_ScheduleGateChanged tr \<or> tr_StatusChanged tr \<or> tr_AutoPausedChanged tr then tr # trs else trs)"
      by (simp add: tr(1) trs(1))
  qed (use tr(2) trs(2) in auto)
qed

lemma reconciled_upto_empty [simp]: "reconciled_upto s at {} = s"
  by (simp add: reconciled_upto_def)

lemma reconciled_upto_all: "reconciled_upto s at (sp_NodeID ` set (smart_routing s)) = reconciled s at"
proof -
  have "reconciled_node s at n = n" if "nd_ID n \<notin> sp_NodeID ` set (smart_routing s)" for n
    using that by (auto simp: reconciled_node_def find_policy_def image_iff split: option.split dest!: find_row_SomeD)
  then show ?thesis by (auto simp: reconciled_upto_def reconciled_def)
qed

lemma ReconcileSmartRouting_reconciled:
  assumes "routing_wf s"
  shows "\<exists>trs. ReconcileSmartRouting s at = Inr (reconciled s at, trs)
     \<and> (trs = [] \<longleftrightarrow> (\<forall>p \<in> set (smart_routing s). reconciled_policy at p = p \<and>
          (\<forall>n \<in> set (nodes s). nd_ID n = sp_NodeID p \<longrightarrow> \<not> node_changed (reconciled_policy at p) n)))"
proof -
  have "distinct (map sp_NodeID (sort_key sp_NodeID (smart_routing s)))"
    using assms by (simp add: routing_wf_def distinct_map)
  then show ?thesis
    using reconcile_policies_upto [OF assms, of "sort_key sp_NodeID (smart_routing s)" "{}" at]
    by (simp add: ReconcileSmartRouting_def reconciled_upto_all)
qed

lemma reconciled_wf: "routing_wf s \<Longrightarrow> routing_wf (reconciled s at)"
  by (auto simp: routing_wf_def reconciled_def comp_def)

lemma find_policy_reconciled:
  "find_policy (reconciled s at) n = map_option (reconciled_policy at) (find_policy s n)"
proof -
  have "find_row (\<lambda>p. sp_NodeID p = n) (map (reconciled_policy at) ps) =
      map_option (reconciled_policy at) (find_row (\<lambda>p. sp_NodeID p = n) ps)" for ps
    by (induction ps) auto
  then show ?thesis by (simp add: find_policy_def reconciled_def)
qed

lemma reconciled_idem: "reconciled (reconciled s at) at = reconciled s at"
proof -
  have "reconciled_node (reconciled s at) at (reconciled_node s at n) = reconciled_node s at n" for n
    by (simp add: reconciled_node_def find_policy_reconciled split: option.split)
  then show ?thesis by (simp add: reconciled_def)
qed

text \<open>
  C1: \<open>ReconcileSmartRouting\<close> never fails on a well-formed store and leaves exactly \<open>reconciled\<close>: every
  policy's schedule gate agrees with its windows, and every node has the status its policy demands.
  A second run at the same instant finds nothing to do.
\<close>

theorem reconcile_reaches_fixpoint:
  assumes "routing_wf s"
  shows "(\<exists>trs. ReconcileSmartRouting s at = Inr (reconciled s at, trs))
    \<and> ReconcileSmartRouting (reconciled s at) at = Inr (reconciled s at, [])"
proof -
  have "reconciled_policy at p = p \<and>
      (\<forall>n \<in> set (nodes (reconciled s at)). nd_ID n = sp_NodeID p \<longrightarrow> \<not> node_changed (reconciled_policy at p) n)"
    if p: "p \<in> set (smart_routing (reconciled s at))" for p
  proof -
    from p obtain q where q: "q \<in> set (smart_routing s)" "p = reconciled_policy at q"
      by (auto simp: reconciled_def)
    have "\<not> node_changed p (reconciled_node s at n)" if "nd_ID n = sp_NodeID q" for n
      using find_policy_in [OF assms q(1)] that q(2) by (simp add: reconciled_node_def not_changed_after)
    with q(2) show ?thesis by (auto simp: reconciled_def)
  qed
  then have "ReconcileSmartRouting (reconciled s at) at = Inr (reconciled (reconciled s at) at, [])"
    using ReconcileSmartRouting_reconciled [OF reconciled_wf [OF assms], of at at] by blast
  then show ?thesis
    using ReconcileSmartRouting_reconciled [OF assms, of at] unfolding reconciled_idem by blast
qed

definition routed_store :: store where
  "routed_store = one_node_store\<lparr>smart_routing := [(default_policy ''n1'' 0)\<lparr>sp_ScoreGate := ScoreBlocked\<rparr>]\<rparr>"

lemma routed_store_wf: "routing_wf routed_store"
  by (simp add: routing_wf_def routed_store_def sample_defs default_policy_def Let_def)

lemma reconcile_reaches_fixpoint_witness:
  "ReconcileSmartRouting (reconciled routed_store 7) 7 = Inr (reconciled routed_store 7, [])
    \<and> map nd_Status (nodes (reconciled routed_store 7)) = [NodeDraining]"
  using reconcile_reaches_fixpoint [OF routed_store_wf, of 7]
  by (simp add: reconciled_def reconciled_node_def find_policy_def routed_store_def sample_defs
      default_policy_def Let_def DefaultSmartRoutingConfig_def ruled_node_def BlockedBy_def
      reconciled_policy_def schedule_gate_at_def next_node_status_def)

subsection \<open>Sequences of operations\<close>

text \<open>
  What writes policies and what acts on them: changes by an administrator, the periodic reconciliation, the
  rounds of monitoring that nodes report, and changes of the set of monitoring targets.
\<close>

inductive routing_step :: "store \<Rightarrow> store \<Rightarrow> bool" where
  update: "UpdateSmartRoutingPolicy s n c at fresh = Inr (s', p, tr, changed) \<Longrightarrow> routing_step s s'"
| reconcile: "ReconcileSmartRouting s at = Inr (s', trs) \<Longrightarrow> routing_step s s'"
| round: "RecordMonitoringRound valid score s n results targets at at' = Inr (s', tr) \<Longrightarrow> routing_step s s'"
| targets: "routing_step s (resetMonitoringStateTx s at)"

text \<open>A node that smart routing has no say over: an administrator drained it, or it does not serve at all.\<close>

definition hands_off :: "node_row \<Rightarrow> bool" where
  "hands_off n \<longleftrightarrow> \<not> (nd_Status n = NodeActive \<or> nd_Status n = NodeDraining \<and> nd_MonitorAutoPaused n)"

definition node_kept :: "node_row \<Rightarrow> node_row \<Rightarrow> bool" where
  "node_kept n m \<longleftrightarrow> nd_ID m = nd_ID n \<and>
     (hands_off n \<longrightarrow> nd_Status m = nd_Status n \<and> hands_off m) \<and>
     (\<not> hands_off n \<longrightarrow> \<not> hands_off m)"

lemma node_kept_refl [simp]: "node_kept n n"
  by (simp add: node_kept_def)

lemma node_kept_trans: "node_kept a b \<Longrightarrow> node_kept b c \<Longrightarrow> node_kept a c"
  by (auto simp: node_kept_def)

lemma node_kept_ruled: "node_kept n (ruled_node at p n)"
  by (auto simp: node_kept_def hands_off_def ruled_node_fields next_node_status_def split: node_status.splits)

lemma node_kept_reconciled: "node_kept n (reconciled_node s at n)"
  by (simp add: reconciled_node_def node_kept_ruled split: option.split)

definition update_policy_row :: "store \<Rightarrow> string \<Rightarrow> smart_policy \<Rightarrow> store" where
  "update_policy_row s nodeID p =
     s\<lparr>smart_routing := update_rows (\<lambda>p. sp_NodeID p = nodeID) (\<lambda>_. p) (smart_routing s)\<rparr>"

lemma next_policy_ID [simp]: "sp_NodeID (next_policy s n p c at fresh) = sp_NodeID p"
  by (simp add: next_policy_def Let_def reset_score_gate_def with_config_def split: option.split)

lemma find_policy_ID: "find_policy s n = Some p \<Longrightarrow> sp_NodeID p = n"
  by (auto simp: find_policy_def dest: find_row_SomeD)

lemma insert_policy_wf:
  assumes "routing_wf s" and "find_node s n \<noteq> None"
  shows "routing_wf (insertDefaultSmartRoutingPolicyTx s n at)"
proof -
  from assms(2) have "\<exists>r \<in> set (nodes s). nd_ID r = n"
    by (auto simp: find_node_def find_row_None)
  with assms(1) show ?thesis
    by (auto simp: routing_wf_def insertDefaultSmartRoutingPolicyTx_def default_policy_def Let_def
        find_policy_def find_row_None image_iff split: option.split)
qed

lemma insert_policy_nodes [simp]: "nodes (insertDefaultSmartRoutingPolicyTx s n at) = nodes s"
  by (simp add: insertDefaultSmartRoutingPolicyTx_def split: option.split)

lemma update_policy_row_wf:
  assumes "routing_wf s" and "sp_NodeID p = n"
  shows "routing_wf (update_policy_row s n p)"
proof -
  have "map sp_NodeID (update_rows (\<lambda>p. sp_NodeID p = n) (\<lambda>_. p) (smart_routing s)) = map sp_NodeID (smart_routing s)"
    using assms(2) by (intro map_key_update_rows) simp
  with assms show ?thesis
    by (auto simp: routing_wf_def update_policy_row_def set_update_rows split: if_splits)
qed

lemma UpdateSmartRoutingPolicy_cases:
  assumes wf: "routing_wf s" and upd: "UpdateSmartRoutingPolicy s n input at fresh = Inr (s', p, tr, changed)"
  obtains s2 config current where "NormalizeSmartRoutingConfig input = Inr config"
    and "find_policy (insertDefaultSmartRoutingPolicyTx s n at) n = Some current"
    and "p = next_policy (insertDefaultSmartRoutingPolicyTx s n at) n current config at fresh
        \<or> p = (next_policy (insertDefaultSmartRoutingPolicyTx s n at) n current config at fresh)\<lparr>sp_UpdatedAt := at\<rparr>"
    and "routing_wf s2" and "nodes s2 = nodes s"
    and "s' = s2\<lparr>nodes := map (\<lambda>m. if nd_ID m = n then ruled_node at p m else m) (nodes s)\<rparr>"
    and "smart_routing s2 = update_rows (\<lambda>p. sp_NodeID p = n) (\<lambda>_. p)
            (smart_routing (insertDefaultSmartRoutingPolicyTx s n at))
        \<or> p = current \<and> s2 = insertDefaultSmartRoutingPolicyTx s n at"
    and "changed \<longleftrightarrow> policy_Config current \<noteq> config"
proof -
  let ?s1 = "insertDefaultSmartRoutingPolicyTx s n at"
  from upd obtain config where config: "NormalizeSmartRoutingConfig input = Inr config"
    by (auto simp: UpdateSmartRoutingPolicy_def)
  from upd config have node: "find_node s n \<noteq> None"
    by (auto simp: UpdateSmartRoutingPolicy_def ensureSmartRoutingPolicyTx_def split: if_splits)
  then have ens: "ensureSmartRoutingPolicyTx s n at = Inr ?s1" by (auto simp: ensureSmartRoutingPolicyTx_def)
  from upd config ens obtain current where cur: "find_policy ?s1 n = Some current"
    by (auto simp: UpdateSmartRoutingPolicy_def)
  have curID: "sp_NodeID current = n" using cur by (rule find_policy_ID)
  define next' where "next' = next_policy ?s1 n current config at fresh"
  define tr0 where "tr0 = empty_transition n current next'"
  define wr where "wr = (policy_Config current \<noteq> config \<or> tr_ScoreGateChanged tr0 \<or> tr_ScheduleGateChanged tr0)"
  define q where "q = (if wr then next'\<lparr>sp_UpdatedAt := at\<rparr> else next')"
  define s2 where "s2 = (if wr then update_policy_row ?s1 n q else ?s1)"
  have qID: "sp_NodeID q = n" by (simp add: q_def next'_def curID)
  have tx: "(case reconcileSmartRoutingNodeTx s2 q tr0 at of Inl e \<Rightarrow> Inl e
      | Inr (s3, tr') \<Rightarrow> Inr (s3, q, tr', policy_Config current \<noteq> config)) = Inr (s', p, tr, changed)"
    using upd unfolding UpdateSmartRoutingPolicy_def config ens cur sum.case option.case Let_def
      next'_def [symmetric] tr0_def [symmetric] wr_def [symmetric] q_def [symmetric]
      update_policy_row_def [symmetric] s2_def [symmetric] .
  have wf1: "routing_wf ?s1" using wf node by (rule insert_policy_wf)
  then have wf2: "routing_wf s2"
    using qID by (simp add: s2_def update_policy_row_wf)
  have n2: "nodes s2 = nodes s" by (simp add: s2_def update_policy_row_def)
  have "\<exists>m \<in> set (nodes s2). nd_ID m = sp_NodeID q"
    using node unfolding n2 qID by (auto simp: find_node_def find_row_None)
  from reconcileSmartRoutingNodeTx_ruled [OF _ this, of tr0 at] wf2 tx
  have s': "s' = s2\<lparr>nodes := map (\<lambda>m. if nd_ID m = n then ruled_node at q m else m) (nodes s)\<rparr>"
    and p: "p = q" and changed: "changed \<longleftrightarrow> policy_Config current \<noteq> config"
    by (auto simp: routing_wf_def n2 qID)
  show ?thesis
  proof (rule that [OF config cur _ wf2 n2 s' [folded p] _ changed])
    show "p = next_policy ?s1 n current config at fresh \<or>
        p = (next_policy ?s1 n current config at fresh)\<lparr>sp_UpdatedAt := at\<rparr>"
      by (simp add: p q_def next'_def)
    show "smart_routing s2 = update_rows (\<lambda>p. sp_NodeID p = n) (\<lambda>_. p) (smart_routing ?s1)
        \<or> p = current \<and> s2 = ?s1"
    proof (cases wr)
      case True
      then show ?thesis by (simp add: s2_def update_policy_row_def p)
    next
      case False
      then have same: "policy_Config current = config" "sp_ScheduleGate next' = sp_ScheduleGate current"
        by (auto simp: wr_def tr0_def empty_transition_def)
      have "with_config current config = current"
        using same(1) by (auto simp: with_config_def policy_Config_def)
      then have "next' = current"
        using same by (auto simp: next'_def next_policy_def Let_def)
      with False show ?thesis by (simp add: p q_def s2_def)
    qed
  qed
qed

lemma routing_wf_map_nodes:
  assumes "routing_wf t" and h: "\<And>m. nd_ID (h m) = nd_ID m"
  shows "routing_wf (t\<lparr>nodes := map h (nodes t)\<rparr>)"
proof -
  have "map nd_ID (map h (nodes t)) = map nd_ID (nodes t)" by (simp add: comp_def h)
  with assms show ?thesis by (auto simp: routing_wf_def comp_def)
qed

text \<open>A round of monitoring writes the policy of its node, rules that node and stores the score.\<close>

lemma policy_row_fields:
  assumes "find_policy s n = Some p" and "distinct (map sp_NodeID (smart_routing s))"
  shows "update_rows (\<lambda>r. sp_NodeID r = n) (\<lambda>r. r\<lparr>sp_ScoreGate := g, sp_ScoreLowStreak := l,
           sp_ScoreRecoveryStreak := c, sp_UpdatedAt := u\<rparr>) (smart_routing s)
       = update_rows (\<lambda>r. sp_NodeID r = n) (\<lambda>_. p\<lparr>sp_ScoreGate := g, sp_ScoreLowStreak := l,
           sp_ScoreRecoveryStreak := c, sp_UpdatedAt := u\<rparr>) (smart_routing s)"
proof -
  have "r = p" if "r \<in> set (smart_routing s)" "sp_NodeID r = n" for r
    using assms find_row_key_unique [OF assms(2) that(1)] that(2) by (simp add: find_policy_def)
  then show ?thesis by (auto simp: update_rows_def)
qed

lemma advance_row: "p\<lparr>sp_ScoreGate := sp_ScoreGate (advanceSmartRoutingScore p v),
    sp_ScoreLowStreak := sp_ScoreLowStreak (advanceSmartRoutingScore p v),
    sp_ScoreRecoveryStreak := sp_ScoreRecoveryStreak (advanceSmartRoutingScore p v), sp_UpdatedAt := at\<rparr>
  = (advanceSmartRoutingScore p v)\<lparr>sp_UpdatedAt := at\<rparr>"
  by (cases "sp_ScoreGate p") (simp_all add: advanceSmartRoutingScore_def)

lemma RecordMonitoringRound_cases:
  assumes wf: "routing_wf s" and rec: "RecordMonitoringRound valid score s n results targets at at' = Inr (s', tr)"
  obtains p v s2 where "find_policy (insertDefaultSmartRoutingPolicyTx s n at) n = Some p"
    and "s2 = insertDefaultSmartRoutingPolicyTx s n at
      \<or> s2 = update_policy_row (insertDefaultSmartRoutingPolicyTx s n at) n
               ((advanceSmartRoutingScore p v)\<lparr>sp_UpdatedAt := at\<rparr>)"
    and "routing_wf s2" and "nodes s2 = nodes s" and "smart_routing s' = smart_routing s2"
    and "\<exists>q. nodes s' = map (\<lambda>m. if nd_ID m = n then ruled_node at q m else m) (nodes s)"
proof -
  let ?s1 = "insertDefaultSmartRoutingPolicyTx s n at"
  from rec have node: "find_node s n \<noteq> None" and ens: "ensureSmartRoutingPolicyTx s n at = Inr ?s1"
    by (auto simp: RecordMonitoringRound_def ensureSmartRoutingPolicyTx_def split: if_splits)
  from rec ens obtain p where p: "find_policy ?s1 n = Some p"
    by (auto simp: RecordMonitoringRound_def split: if_splits)
  have wf1: "routing_wf ?s1" using wf node by (rule insert_policy_wf)
  have pID: "sp_NodeID p = n" using p by (rule find_policy_ID)
  define q where "q = (if sp_ScoreEnabled p
    then (advanceSmartRoutingScore p (score results))\<lparr>sp_UpdatedAt := at\<rparr> else p)"
  define s2 where "s2 = (if sp_ScoreEnabled p then update_policy_row ?s1 n q else ?s1)"
  have qID: "sp_NodeID q = n" by (simp add: q_def pID)
  have "distinct (map sp_NodeID (smart_routing ?s1))" using wf1 by (simp add: routing_wf_def)
  note row = policy_row_fields [OF p this]
  have s2: "(if sp_ScoreEnabled p then ?s1\<lparr>smart_routing := update_rows (\<lambda>r. sp_NodeID r = n)
      (\<lambda>r. r\<lparr>sp_ScoreGate := sp_ScoreGate q, sp_ScoreLowStreak := sp_ScoreLowStreak q,
            sp_ScoreRecoveryStreak := sp_ScoreRecoveryStreak q, sp_UpdatedAt := sp_UpdatedAt q\<rparr>) (smart_routing ?s1)\<rparr>
      else ?s1) = s2"
    by (simp add: s2_def q_def row advance_row update_policy_row_def)
  from rec obtain s3 tr' where tx: "reconcileSmartRoutingNodeTx s2 q (empty_transition n p q) at = Inr (s3, tr')"
    and s': "smart_routing s' = smart_routing s3" "nodes s' = nodes s3"
    unfolding RecordMonitoringRound_def ens sum.case p option.case Let_def q_def [symmetric] s2 check_eq_Inr call_eq_Inr
    by auto
  have wf2: "routing_wf s2" using wf1 qID by (simp add: s2_def update_policy_row_wf)
  have n2: "nodes s2 = nodes s" by (simp add: s2_def update_policy_row_def)
  have "\<exists>m \<in> set (nodes s2). nd_ID m = sp_NodeID q"
    using node unfolding n2 qID by (auto simp: find_node_def find_row_None)
  from reconcileSmartRoutingNodeTx_ruled [OF _ this, of "empty_transition n p q" at] wf2 tx
  have s3: "s3 = s2\<lparr>nodes := map (\<lambda>m. if nd_ID m = n then ruled_node at q m else m) (nodes s)\<rparr>"
    by (auto simp: routing_wf_def n2 qID)
  show ?thesis
  proof (rule that [OF p _ wf2 n2])
    show "s2 = ?s1 \<or> s2 = update_policy_row ?s1 n ((advanceSmartRoutingScore p (score results))\<lparr>sp_UpdatedAt := at\<rparr>)"
      by (simp add: s2_def q_def)
    show "smart_routing s' = smart_routing s2" by (simp add: s' s3)
    show "\<exists>q. nodes s' = map (\<lambda>m. if nd_ID m = n then ruled_node at q m else m) (nodes s)"
      by (auto simp: s' s3)
  qed
qed

lemma routing_step_wf_kept:
  assumes "routing_step s s'" and wf: "routing_wf s"
  shows "routing_wf s' \<and> (\<exists>h. nodes s' = map h (nodes s) \<and> (\<forall>m. node_kept m (h m)))"
  using assms
proof (cases rule: routing_step.cases)
  case (update n c at fresh p tr changed)
  from wf update show ?thesis
  proof (rule UpdateSmartRoutingPolicy_cases)
    fix s2
    assume "routing_wf s2" "nodes s2 = nodes s"
      "s' = s2\<lparr>nodes := map (\<lambda>m. if nd_ID m = n then ruled_node at p m else m) (nodes s)\<rparr>"
    moreover from this have "routing_wf s'"
      using routing_wf_map_nodes [of s2 "\<lambda>m. if nd_ID m = n then ruled_node at p m else m"] by simp
    ultimately show ?thesis
      by (intro conjI exI [of _ "\<lambda>m. if nd_ID m = n then ruled_node at p m else m"])
        (simp_all add: node_kept_ruled)
  qed
next
  case (reconcile at trs)
  then have "s' = reconciled s at" using ReconcileSmartRouting_reconciled [OF wf, of at] by auto
  then show ?thesis
    using reconciled_wf [OF wf, of at]
    by (auto simp: reconciled_def node_kept_reconciled intro!: exI [of _ "reconciled_node s at"])
next
  case (round valid score n results targets at at' tr)
  from wf round show ?thesis
  proof (rule RecordMonitoringRound_cases)
    fix s2
    assume s2: "routing_wf s2" "smart_routing s' = smart_routing s2"
      and "\<exists>q. nodes s' = map (\<lambda>m. if nd_ID m = n then ruled_node at q m else m) (nodes s)"
    then obtain q where q: "nodes s' = map (\<lambda>m. if nd_ID m = n then ruled_node at q m else m) (nodes s)" by blast
    assume "nodes s2 = nodes s"
    with s2 q have "routing_wf s'"
      using routing_wf_map_nodes [of s2 "\<lambda>m. if nd_ID m = n then ruled_node at q m else m"]
      by (simp add: routing_wf_def)
    with q show ?thesis
      by (intro conjI exI [of _ "\<lambda>m. if nd_ID m = n then ruled_node at q m else m"]) (simp_all add: node_kept_ruled)
  qed
next
  case (targets at)
  then have "map sp_NodeID (smart_routing s') = map sp_NodeID (smart_routing s)" "nodes s' = nodes s"
    by (simp_all add: resetMonitoringStateTx_def map_key_update_rows)
  moreover from targets have "\<exists>q \<in> set (smart_routing s). sp_NodeID q = sp_NodeID p" if "p \<in> set (smart_routing s')" for p
    using that by (auto simp: resetMonitoringStateTx_def set_update_rows)
  ultimately show ?thesis
    using wf by (force simp: routing_wf_def intro!: exI [of _ id])
qed

lemma find_node_map:
  "(\<And>m. nd_ID (h m) = nd_ID m) \<Longrightarrow> nodes s' = map h (nodes s) \<Longrightarrow>
    find_node s' n = map_option h (find_node s n)"
proof -
  assume h: "\<And>m. nd_ID (h m) = nd_ID m" and n: "nodes s' = map h (nodes s)"
  have "find_row (\<lambda>r. nd_ID r = n) (map h rows) = map_option h (find_row (\<lambda>r. nd_ID r = n) rows)" for rows
    by (induction rows) (auto simp: h)
  with n show ?thesis by (simp add: find_node_def)
qed

lemma routing_step_kept:
  assumes "routing_step s s'" and "routing_wf s" and "find_node s n = Some r"
  shows "\<exists>r'. find_node s' n = Some r' \<and> node_kept r r'"
proof -
  from routing_step_wf_kept [OF assms(1,2)] obtain h where
    h: "nodes s' = map h (nodes s)" "\<And>m. node_kept m (h m)" by blast
  then have "\<And>m. nd_ID (h m) = nd_ID m" by (simp add: node_kept_def)
  with find_node_map [OF this h(1), of n] h(2) assms(3) show ?thesis by auto
qed

text \<open>
  C3: however configuration changes, reconciliations, rounds of monitoring and changes of the monitoring
  targets alternate, a node that an administrator drained
  (or that is pending, revoked or being uninstalled) keeps its status, and a node that smart routing may
  drain stays one it may also resume: automatic draining never turns into a manual drain.
\<close>

theorem manual_drain_is_respected:
  assumes "routing_step\<^sup>*\<^sup>* s s'" and "routing_wf s" and "find_node s n = Some r"
  shows "\<exists>r'. find_node s' n = Some r' \<and> (hands_off r \<longrightarrow> nd_Status r' = nd_Status r)
           \<and> (hands_off r' \<longleftrightarrow> hands_off r)"
proof -
  from assms(1,2) have "routing_wf s' \<and> (\<exists>r'. find_node s' n = Some r' \<and> node_kept r r')"
  proof (induction rule: rtranclp_induct)
    case base
    with assms(3) show ?case by auto
  next
    case (step t u)
    then show ?case using routing_step_kept routing_step_wf_kept by (meson node_kept_trans)
  qed
  then show ?thesis by (auto simp: node_kept_def)
qed

lemma manual_drain_is_respected_witness:
  "\<exists>r'. find_node (reconciled routed_store 7) ''n1'' = Some r' \<and> hands_off r' = hands_off (sample_node ''n1'')"
proof -
  have "routing_step routed_store (reconciled routed_store 7)"
    using ReconcileSmartRouting_reconciled [OF routed_store_wf, of 7] by (blast intro: routing_step.reconcile)
  then have "routing_step\<^sup>*\<^sup>* routed_store (reconciled routed_store 7)" by blast
  moreover have "find_node routed_store ''n1'' = Some (sample_node ''n1'')"
    by (simp add: find_node_def routed_store_def sample_defs)
  ultimately show ?thesis using manual_drain_is_respected [OF _ routed_store_wf] by blast
qed

text \<open>Well-formed policies: the streaks fit the thresholds and the configuration is normalised.\<close>

definition policies_ok :: "store \<Rightarrow> bool" where
  "policies_ok s \<longleftrightarrow> (\<forall>p \<in> set (smart_routing s). score_policy_ok p \<and> smart_config_ok (policy_Config p))"

lemma policy_Config_state [simp]:
  "policy_Config (p\<lparr>sp_UpdatedAt := at\<rparr>) = policy_Config p"
  "policy_Config (p\<lparr>sp_ScheduleGate := g\<rparr>) = policy_Config p"
  "policy_Config (p\<lparr>sp_ScoreGate := sg\<rparr>) = policy_Config p"
  "policy_Config (p\<lparr>sp_ScoreLowStreak := l\<rparr>) = policy_Config p"
  "policy_Config (p\<lparr>sp_ScoreRecoveryStreak := r\<rparr>) = policy_Config p"
  by (simp_all add: policy_Config_def)

lemma policy_Config_with_config: "policy_Config (with_config p c) = c"
  by (simp add: policy_Config_def with_config_def)

lemma policy_Config_reset: "policy_Config (reset_score_gate s n p at fresh) = policy_Config p"
  by (simp add: reset_score_gate_def Let_def split: option.split)

lemma next_policy_Config: "policy_Config (next_policy s n p c at fresh) = c"
  by (simp add: next_policy_def Let_def policy_Config_reset policy_Config_with_config)

lemma score_policy_ok_irrelevant [simp]:
  "score_policy_ok (p\<lparr>sp_UpdatedAt := at\<rparr>) = score_policy_ok p"
  "score_policy_ok (p\<lparr>sp_ScheduleGate := g\<rparr>) = score_policy_ok p"
  by (simp_all add: score_policy_ok_def)

lemma reset_score_gate_ok:
  "1 \<le> sp_ScorePauseRounds p \<Longrightarrow> score_policy_ok (reset_score_gate s n p at fresh)"
proof -
  assume "1 \<le> sp_ScorePauseRounds p"
  then have ok: "score_policy_ok (p\<lparr>sp_ScoreLowStreak := 0, sp_ScoreRecoveryStreak := 0, sp_ScoreGate := g\<rparr>)"
    "score_policy_ok (p\<lparr>sp_ScoreLowStreak := 0, sp_ScoreRecoveryStreak := 0\<rparr>)" for g
    by (auto simp: score_policy_ok_def)
  then show ?thesis
    by (simp add: reset_score_gate_def Let_def advance_ok split: option.split)
qed

lemma next_policy_score_ok:
  assumes "score_policy_ok p" and "smart_config_ok c"
  shows "score_policy_ok (next_policy s n p c at fresh)"
proof (cases "cf_Score (policy_Config p) = cf_Score c")
  case True
  then have "sc_PauseAfterRounds (cf_Score c) = sp_ScorePauseRounds p"
    "sc_ResumeAfterRounds (cf_Score c) = sp_ScoreResumeRounds p"
    by (auto simp: policy_Config_def dest: sym)
  then have "score_policy_ok (with_config p c)"
    using assms(1) by (simp add: score_policy_ok_def with_config_def)
  with True show ?thesis by (simp add: next_policy_def Let_def)
next
  case False
  have "1 \<le> sp_ScorePauseRounds (with_config p c)"
    using assms(2) by (simp add: with_config_def smart_config_ok_def Let_def)
  from reset_score_gate_ok [OF this] False show ?thesis by (simp add: next_policy_def Let_def)
qed

lemma default_policy_ok: "score_policy_ok (default_policy n at)" "smart_config_ok (policy_Config (default_policy n at))"
  by (simp_all add: score_policy_ok_def default_policy_def Let_def DefaultSmartRoutingConfig_def routing_consts
      policy_Config_def smart_config_ok_def)

lemma insert_policy_ok: "policies_ok s \<Longrightarrow> policies_ok (insertDefaultSmartRoutingPolicyTx s n at)"
  by (auto simp: policies_ok_def insertDefaultSmartRoutingPolicyTx_def default_policy_ok split: option.split)

lemma update_policies_ok:
  assumes wf: "routing_wf s" and ok: "policies_ok s"
    and upd: "UpdateSmartRoutingPolicy s n c at fresh = Inr (s', p, tr, changed)"
  shows "policies_ok s'"
  using wf upd
proof (rule UpdateSmartRoutingPolicy_cases)
  fix s2 config current
  let ?s1 = "insertDefaultSmartRoutingPolicyTx s n at"
  assume config: "NormalizeSmartRoutingConfig c = Inr config"
    and cur: "find_policy ?s1 n = Some current"
    and p: "p = next_policy ?s1 n current config at fresh
        \<or> p = (next_policy ?s1 n current config at fresh)\<lparr>sp_UpdatedAt := at\<rparr>"
    and s': "s' = s2\<lparr>nodes := map (\<lambda>m. if nd_ID m = n then ruled_node at p m else m) (nodes s)\<rparr>"
    and s2: "smart_routing s2 = update_rows (\<lambda>p. sp_NodeID p = n) (\<lambda>_. p) (smart_routing ?s1)
        \<or> p = current \<and> s2 = ?s1"
  have ok1: "policies_ok ?s1" using ok by (rule insert_policy_ok)
  from cur have "current \<in> set (smart_routing ?s1)" by (auto simp: find_policy_def dest: find_row_SomeD)
  with ok1 have "score_policy_ok current" by (simp add: policies_ok_def)
  moreover have "smart_config_ok config" using config by (rule smart_norm.norm_ok)
  ultimately have "score_policy_ok p \<and> smart_config_ok (policy_Config p)"
    using p by (auto simp: next_policy_score_ok next_policy_Config)
  with ok1 s2 have "policies_ok s2" by (auto simp: policies_ok_def set_update_rows)
  then show ?thesis by (simp add: s' policies_ok_def)
qed

text \<open>
  Every sequence of smart routing operations keeps the policies well-formed: the configuration in
  the table is always a normalised one and the streaks stay below the number of rounds that moves the
  gate.
\<close>

theorem policies_stay_well_formed:
  assumes "routing_step\<^sup>*\<^sup>* s s'" and "routing_wf s" and "policies_ok s"
  shows "routing_wf s' \<and> policies_ok s'"
  using assms
proof (induction rule: rtranclp_induct)
  case base
  then show ?case by blast
next
  case (step t u)
  then have t: "routing_wf t" "policies_ok t" by blast+
  from step.hyps(2) have "policies_ok u"
  proof (cases rule: routing_step.cases)
    case (update n c at fresh p tr changed)
    with t show ?thesis by (blast intro: update_policies_ok)
  next
    case (reconcile at trs)
    then have "u = reconciled t at" using ReconcileSmartRouting_reconciled [OF t(1), of at] by auto
    moreover have "score_policy_ok (reconciled_policy at p) = score_policy_ok p"
      "policy_Config (reconciled_policy at p) = policy_Config p" for p
      by (simp_all add: reconciled_policy_def Let_def score_policy_ok_def policy_Config_def)
    ultimately show ?thesis using t(2) by (auto simp: policies_ok_def reconciled_def)
  next
    case (round valid score n results targets at at' tr)
    from t(1) round show ?thesis
    proof (rule RecordMonitoringRound_cases)
      fix p v s2
      let ?s1 = "insertDefaultSmartRoutingPolicyTx t n at"
      assume p: "find_policy ?s1 n = Some p" and u: "smart_routing u = smart_routing s2"
        and s2: "s2 = ?s1 \<or> s2 = update_policy_row ?s1 n ((advanceSmartRoutingScore p v)\<lparr>sp_UpdatedAt := at\<rparr>)"
      have ok1: "policies_ok ?s1" using t(2) by (rule insert_policy_ok)
      with p have "score_policy_ok p" "smart_config_ok (policy_Config p)"
        by (auto simp: policies_ok_def find_policy_def dest: find_row_SomeD)
      with ok1 s2 have "policies_ok s2" by (auto simp: policies_ok_def update_policy_row_def set_update_rows advance_ok)
      with u show ?thesis by (simp add: policies_ok_def)
    qed
  next
    case (targets at)
    have "score_policy_ok (p\<lparr>sp_ScoreLowStreak := 0, sp_ScoreRecoveryStreak := 0, sp_UpdatedAt := at\<rparr>)"
      if "score_policy_ok p" for p
      using that by (auto simp: score_policy_ok_def)
    with targets t(2) show ?thesis
      by (auto simp: policies_ok_def resetMonitoringStateTx_def set_update_rows)
  qed
  with routing_step_wf_kept [OF step.hyps(2) t(1)] show ?case by blast
qed

lemma policies_stay_well_formed_witness: "policies_ok (reconciled routed_store 7)"
proof -
  have "routing_step routed_store (reconciled routed_store 7)"
    using ReconcileSmartRouting_reconciled [OF routed_store_wf, of 7] by (blast intro: routing_step.reconcile)
  then have "routing_step\<^sup>*\<^sup>* routed_store (reconciled routed_store 7)" by blast
  moreover have "policies_ok routed_store"
    by (simp add: policies_ok_def routed_store_def score_policy_ok_def default_policy_def Let_def
        DefaultSmartRoutingConfig_def routing_consts policy_Config_def smart_config_ok_def)
  ultimately show ?thesis using policies_stay_well_formed [OF _ routed_store_wf] by blast
qed

text \<open>
  A successful \<open>UpdateSmartRoutingPolicy\<close> stores the normalised configuration, sets the schedule
  gate for the instant, leaves the other policies alone, and leaves the node in the status that the
  stored policy demands.
\<close>

theorem update_takes_effect:
  assumes wf: "routing_wf s" and upd: "UpdateSmartRoutingPolicy s n c at fresh = Inr (s', p, tr, changed)"
  shows "NormalizeSmartRoutingConfig c = Inr (policy_Config p) \<and> find_policy s' n = Some p
    \<and> sp_ScheduleGate p = schedule_gate_at at (sp_ScheduleEnabled p) (sp_ScheduleWindows p)
    \<and> (\<forall>m. m \<noteq> n \<longrightarrow> find_policy s' m = find_policy s m)
    \<and> (\<exists>r. find_node s' n = Some r
         \<and> next_node_status (nd_Status r) (nd_MonitorAutoPaused r) (BlockedBy p) = (nd_Status r, nd_MonitorAutoPaused r))"
  using wf upd
proof (rule UpdateSmartRoutingPolicy_cases)
  fix s2 config current
  let ?s1 = "insertDefaultSmartRoutingPolicyTx s n at"
  assume config: "NormalizeSmartRoutingConfig c = Inr config"
    and cur: "find_policy ?s1 n = Some current"
    and p: "p = next_policy ?s1 n current config at fresh
        \<or> p = (next_policy ?s1 n current config at fresh)\<lparr>sp_UpdatedAt := at\<rparr>"
    and s': "s' = s2\<lparr>nodes := map (\<lambda>m. if nd_ID m = n then ruled_node at p m else m) (nodes s)\<rparr>"
    and s2: "smart_routing s2 = update_rows (\<lambda>p. sp_NodeID p = n) (\<lambda>_. p) (smart_routing ?s1)
        \<or> p = current \<and> s2 = ?s1"
  have pID: "sp_NodeID p = n" using p find_policy_ID [OF cur] by auto
  have pol: "find_policy s2 n = Some p \<and> (\<forall>m. m \<noteq> n \<longrightarrow> find_policy s2 m = find_policy ?s1 m)"
    using s2 cur pID by (auto simp: find_policy_def find_row_update_rows map_option_case split: option.split
        dest: find_row_SomeD)
  have "find_policy ?s1 m = find_policy s m" if "m \<noteq> n" for m
    using that by (auto simp: insertDefaultSmartRoutingPolicyTx_def find_policy_def find_row_append
        default_policy_def Let_def split: option.split)
  with pol have 1: "find_policy s' n = Some p \<and> (\<forall>m. m \<noteq> n \<longrightarrow> find_policy s' m = find_policy s m)"
    by (simp add: s' find_policy_def)
  have 2: "policy_Config p = config" using p by (auto simp: next_policy_Config)
  have 3: "sp_ScheduleGate p = schedule_gate_at at (sp_ScheduleEnabled p) (sp_ScheduleWindows p)"
    using p by (auto simp: next_policy_def Let_def)
  from upd have "find_node s n \<noteq> None"
    by (auto simp: UpdateSmartRoutingPolicy_def ensureSmartRoutingPolicyTx_def)
  then obtain r where r: "find_node s n = Some r" by blast
  then have "nd_ID r = n" by (auto simp: find_node_def dest: find_row_SomeD)
  moreover have "find_node s' n = map_option (\<lambda>m. if nd_ID m = n then ruled_node at p m else m) (find_node s n)"
    by (rule find_node_map) (simp_all add: s')
  ultimately have "find_node s' n = Some (ruled_node at p r)" using r by simp
  with not_changed_after [of p at r] have "\<exists>r. find_node s' n = Some r
      \<and> next_node_status (nd_Status r) (nd_MonitorAutoPaused r) (BlockedBy p) = (nd_Status r, nd_MonitorAutoPaused r)"
    by (auto simp: node_changed_def)
  with 1 2 3 config show ?thesis by blast
qed

lemma update_takes_effect_witness:
  "\<exists>s' p tr changed. UpdateSmartRoutingPolicy routed_store ''n1'' DefaultSmartRoutingConfig 7 0 = Inr (s', p, tr, changed)
     \<and> find_policy s' ''n1'' = Some p"
proof -
  have "is_ok (UpdateSmartRoutingPolicy routed_store ''n1'' DefaultSmartRoutingConfig 7 0)"
    by code_simp
  then obtain s' p tr changed where
    "UpdateSmartRoutingPolicy routed_store ''n1'' DefaultSmartRoutingConfig 7 0 = Inr (s', p, tr, changed)"
    by (auto simp: is_ok_iff)
  with update_takes_effect [OF routed_store_wf this] show ?thesis by blast
qed

subsection \<open>The next transition\<close>

text \<open>
  C2: \<open>SmartRoutingNextTransition\<close> returns the first later instant at which the verdict of the schedule
  differs from the one now; when it returns nothing, the verdict never changes again.
\<close>

theorem next_transition_is_the_first_change:
  "case SmartRoutingNextTransition at ws of
     Some c \<Rightarrow> at < c \<and> SmartRoutingScheduleAllows c ws \<noteq> SmartRoutingScheduleAllows at ws
        \<and> (\<forall>t \<in> {at..<c}. SmartRoutingScheduleAllows t ws = SmartRoutingScheduleAllows at ws)
   | None \<Rightarrow> (\<forall>t \<in> {at..}. SmartRoutingScheduleAllows t ws = SmartRoutingScheduleAllows at ws)"
proof (cases "SmartRoutingNextTransition at ws")
  case None
  show ?thesis unfolding None option.case using next_transition_None [OF None] by blast
next
  case (Some c)
  show ?thesis unfolding Some option.case atLeastLessThan_iff Ball_def
    using next_transition_Some [OF Some] by blast
qed

lemma next_transition_is_the_first_change_witness:
  "SmartRoutingNextTransition 0 [\<lparr>sw_Weekdays = [4], sw_Start = ''09:00'', sw_End = ''18:00''\<rparr>] = Some (3600 * second)
   \<and> \<not> SmartRoutingScheduleAllows (1800 * second) [\<lparr>sw_Weekdays = [4], sw_Start = ''09:00'', sw_End = ''18:00''\<rparr>]"
proof -
  define ws where "ws = [\<lparr>sw_Weekdays = [4], sw_Start = ''09:00'', sw_End = ''18:00''\<rparr>]"
  have nxt: "SmartRoutingNextTransition 0 ws = Some (3600 * second)" and closed: "\<not> SmartRoutingScheduleAllows 0 ws"
    unfolding ws_def by code_simp+
  have "1800 * second \<in> {0..<3600 * second}" by (simp add: second_def)
  then have "SmartRoutingScheduleAllows (1800 * second) ws = SmartRoutingScheduleAllows 0 ws"
    using next_transition_is_the_first_change [of 0 ws, unfolded nxt option.case] by blast
  with nxt closed show ?thesis unfolding ws_def [symmetric] by blast
qed

end
