(* ===== verification/Go_Strings.thy ===== *)
theory Go_Strings
  imports Prelude
begin

section \<open>Go strings\<close>

text \<open>
  A Go string is a list of bytes, a \<open>string\<close> of HOL, so \<open>length\<close> is \<open>len\<close>. The
  functions of the packages \<open>strings\<close>, \<open>strconv\<close> and \<open>unicode\<close> that the program
  calls are modelled on bytes: white space and control characters above ASCII are recognised by
  their UTF-8 encodings. \<open>ToLower\<close> maps ASCII letters and the two other code points whose lower
  case is an ASCII letter (U+0130 and U+212A); it leaves other non-ASCII text alone. The program
  uses its result only where it is then compared with ASCII text or checked to be ASCII, so the
  difference cannot be observed.
\<close>

definition byte_of :: "char \<Rightarrow> nat" where
  "byte_of c = of_char c"

subsection \<open>Classes of characters\<close>

definition is_digit :: "char \<Rightarrow> bool" where
  "is_digit c \<longleftrightarrow> 48 \<le> byte_of c \<and> byte_of c \<le> 57"

definition is_lower :: "char \<Rightarrow> bool" where
  "is_lower c \<longleftrightarrow> 97 \<le> byte_of c \<and> byte_of c \<le> 122"

definition is_upper :: "char \<Rightarrow> bool" where
  "is_upper c \<longleftrightarrow> 65 \<le> byte_of c \<and> byte_of c \<le> 90"

definition is_ctl_byte :: "char \<Rightarrow> bool" where
  "is_ctl_byte c \<longleftrightarrow> byte_of c < 32 \<or> byte_of c = 127"

text \<open>\<open>unicode.IsControl\<close> holds of U+0000 to U+001F and U+007F to U+009F; the last 32 are the byte
  C2 followed by 80 to 9F.\<close>

fun containsControl :: "string \<Rightarrow> bool" where
  "containsControl [] = False"
| "containsControl [c] = is_ctl_byte c"
| "containsControl (c # d # s) =
     (is_ctl_byte c \<or> byte_of c = 194 \<and> 128 \<le> byte_of d \<and> byte_of d \<le> 159 \<or> containsControl (d # s))"

subsection \<open>Prefixes, suffixes, parts\<close>

fun HasPrefix :: "string \<Rightarrow> string \<Rightarrow> bool" where
  "HasPrefix s [] = True"
| "HasPrefix [] (p # ps) = False"
| "HasPrefix (c # s) (p # ps) = (c = p \<and> HasPrefix s ps)"

definition HasSuffix :: "string \<Rightarrow> string \<Rightarrow> bool" where
  "HasSuffix s p \<longleftrightarrow> HasPrefix (rev s) (rev p)"

definition TrimPrefix :: "string \<Rightarrow> string \<Rightarrow> string" where
  "TrimPrefix s p = (if HasPrefix s p then drop (length p) s else s)"

definition TrimSuffix :: "string \<Rightarrow> string \<Rightarrow> string" where
  "TrimSuffix s p = (if HasSuffix s p then take (length s - length p) s else s)"

fun Contains :: "string \<Rightarrow> string \<Rightarrow> bool" where
  "Contains [] p = (p = [])"
| "Contains (c # s) p = (HasPrefix (c # s) p \<or> Contains s p)"

definition ContainsAny :: "string \<Rightarrow> string \<Rightarrow> bool" where
  "ContainsAny s chars \<longleftrightarrow> list_ex (\<lambda>c. c \<in> set chars) s"

text \<open>\<open>strings.Split\<close> with a separator of one byte.\<close>

fun Split :: "string \<Rightarrow> char \<Rightarrow> string list" where
  "Split [] sep = [[]]"
| "Split (c # s) sep =
     (if c = sep then [] # Split s sep
      else (case Split s sep of [] \<Rightarrow> [[c]] | p # ps \<Rightarrow> (c # p) # ps))"

text \<open>\<open>strings.Cut\<close> at the first occurrence of a byte; None when there is none.\<close>

fun Cut :: "string \<Rightarrow> char \<Rightarrow> (string \<times> string) option" where
  "Cut [] sep = None"
| "Cut (c # s) sep = (if c = sep then Some ([], s)
     else case Cut s sep of None \<Rightarrow> None | Some (a, b) \<Rightarrow> Some (c # a, b))"

subsection \<open>White space\<close>

text \<open>The number of bytes of the white-space character a string begins with, 0 for none.\<close>

fun space_prefix :: "nat list \<Rightarrow> nat" where
  "space_prefix (b # rest) =
     (if 9 \<le> b \<and> b \<le> 13 \<or> b = 32 then 1
      else (case rest of
        [] \<Rightarrow> 0
      | c # rest' \<Rightarrow>
          if b = 194 \<and> (c = 133 \<or> c = 160) then 2
          else (case rest' of
            [] \<Rightarrow> 0
          | d # _ \<Rightarrow>
              if b = 225 \<and> c = 154 \<and> d = 128 \<or>
                 b = 226 \<and> c = 128 \<and> (128 \<le> d \<and> d \<le> 138 \<or> d = 168 \<or> d = 169 \<or> d = 175) \<or>
                 b = 226 \<and> c = 129 \<and> d = 159 \<or> b = 227 \<and> c = 128 \<and> d = 128
              then 3 else 0)))"
| "space_prefix [] = 0"

definition leading_space :: "string \<Rightarrow> nat" where
  "leading_space s = space_prefix (map byte_of (take 3 s))"

definition trailing_space :: "string \<Rightarrow> nat" where
  "trailing_space s =
     (if leading_space (drop (length s - 1) s) = 1 \<and> s \<noteq> [] then 1
      else if 2 \<le> length s \<and> leading_space (drop (length s - 2) s) = 2 then 2
      else if 3 \<le> length s \<and> leading_space (drop (length s - 3) s) = 3 then 3 else 0)"

function TrimLeftSpace :: "string \<Rightarrow> string" where
  "TrimLeftSpace s =
     (if s = [] \<or> leading_space s = 0 then s else TrimLeftSpace (drop (leading_space s) s))"
  by pat_completeness auto
termination
  by (relation "measure length") auto

function TrimRightSpace :: "string \<Rightarrow> string" where
  "TrimRightSpace s =
     (if s = [] \<or> trailing_space s = 0 then s
      else TrimRightSpace (take (length s - trailing_space s) s))"
  by pat_completeness auto
termination
  by (relation "measure length") auto

declare TrimLeftSpace.simps [simp del] TrimRightSpace.simps [simp del]

definition TrimSpace :: "string \<Rightarrow> string" where
  "TrimSpace s = TrimRightSpace (TrimLeftSpace s)"

subsection \<open>Case\<close>

definition lower_byte :: "char \<Rightarrow> char" where
  "lower_byte c = (if is_upper c then char_of (byte_of c + 32) else c)"

definition upper_byte :: "char \<Rightarrow> char" where
  "upper_byte c = (if is_lower c then char_of (byte_of c - 32) else c)"

fun ToLower :: "string \<Rightarrow> string" where
  "ToLower [] = []"
| "ToLower (c # s) =
     (if HasPrefix (c # s) [CHR 0xC4, CHR 0xB0] then CHR ''i'' # ToLower (drop 1 s)
      else if HasPrefix (c # s) [CHR 0xE2, CHR 0x84, CHR 0xAA] then CHR ''k'' # ToLower (drop 2 s)
      else lower_byte c # ToLower s)"

definition EqualFold :: "string \<Rightarrow> string \<Rightarrow> bool" where
  "EqualFold s t \<longleftrightarrow> ToLower s = ToLower t"

text \<open>\<open>ToUpper\<close>, for results that are then compared with GET and HEAD: none of the letters of those
  two words is the upper case of a code point above ASCII.\<close>

definition ToUpper :: "string \<Rightarrow> string" where
  "ToUpper s = map upper_byte s"

subsection \<open>Numbers\<close>

text \<open>\<open>strconv.Atoi\<close> for values in the range of a 64-bit integer; longer numbers are an error, as in Go.\<close>

fun digits_value :: "string \<Rightarrow> int \<Rightarrow> int option" where
  "digits_value [] acc = Some acc"
| "digits_value (c # s) acc =
     (if is_digit c then digits_value s (acc * 10 + int (byte_of c - 48)) else None)"

definition Atoi :: "string \<Rightarrow> int option" where
  "Atoi s =
     (let (sign, ds) = (case s of
          [] \<Rightarrow> (1, [])
        | c # rest \<Rightarrow> if c = CHR ''-'' then (- 1, rest) else if c = CHR ''+'' then (1, rest) else (1, s))
      in if ds = [] then None
         else (case digits_value ds 0 of
             None \<Rightarrow> None
           | Some n \<Rightarrow> if - (2 ^ 63) \<le> sign * n \<and> sign * n < 2 ^ 63 then Some (sign * n) else None))"

subsection \<open>Facts\<close>

lemma HasPrefix_iff: "HasPrefix s p \<longleftrightarrow> (\<exists>t. s = p @ t)"
  by (induction s p rule: HasPrefix.induct) auto

lemma HasSuffix_iff: "HasSuffix s p \<longleftrightarrow> (\<exists>t. s = t @ p)"
  unfolding HasSuffix_def HasPrefix_iff
  by (metis rev_append rev_rev_ident)

lemma Split_single: "c \<notin> set a \<Longrightarrow> Split a c = [a]"
  by (induction a) auto

lemma Split_append: "c \<notin> set a \<Longrightarrow> Split (a @ c # b) c = a # Split b c"
  by (induction a) auto

lemma Split_not_Nil [simp]: "Split s c \<noteq> []"
  by (induction s c rule: Split.induct) (auto split: list.split)

lemma space_prefix_take: "space_prefix (take n bs) = 0 \<or> space_prefix (take n bs) = space_prefix bs"
proof -
  have "n = 0 \<or> n = 1 \<or> n = 2 \<or> (\<exists>m. n = Suc (Suc (Suc m)))" by presburger
  moreover have "bs = [] \<or> (\<exists>a. bs = [a]) \<or> (\<exists>a b. bs = [a, b]) \<or> (\<exists>a b c r. bs = a # b # c # r)"
    by (metis neq_Nil_conv)
  ultimately show ?thesis by (auto simp: numeral_2_eq_2 split: if_splits)
qed

lemma leading_space_Nil [simp]: "leading_space [] = 0"
  by (simp add: leading_space_def)

lemma leading_space_take: "leading_space s = 0 \<Longrightarrow> leading_space (take n s) = 0"
proof -
  assume "leading_space s = 0"
  moreover have "take 3 (take n s) = take n (take 3 s)" by (simp add: min.commute)
  ultimately show ?thesis
    using space_prefix_take [of n "map byte_of (take 3 s)"]
    by (auto simp: leading_space_def take_map)
qed

lemma leading_space_TrimLeftSpace: "leading_space (TrimLeftSpace s) = 0"
  by (induction s rule: TrimLeftSpace.induct)
    (subst TrimLeftSpace.simps, auto)

lemma TrimLeftSpace_fixed: "leading_space s = 0 \<Longrightarrow> TrimLeftSpace s = s"
  by (subst TrimLeftSpace.simps) simp

lemma trailing_space_Nil [simp]: "trailing_space [] = 0"
  by (simp add: trailing_space_def)

lemma trailing_space_TrimRightSpace: "trailing_space (TrimRightSpace s) = 0"
proof (induction s rule: TrimRightSpace.induct)
  case (1 s)
  show ?case
  proof (cases "s = [] \<or> trailing_space s = 0")
    case True
    then have "TrimRightSpace s = s" by (subst TrimRightSpace.simps) simp
    with True show ?thesis by auto
  next
    case False
    with 1 show ?thesis by (subst TrimRightSpace.simps) simp
  qed
qed

lemma TrimRightSpace_fixed: "trailing_space s = 0 \<Longrightarrow> TrimRightSpace s = s"
  by (subst TrimRightSpace.simps) simp

lemma TrimRightSpace_prefix: "\<exists>n. TrimRightSpace s = take n s"
proof (induction s rule: TrimRightSpace.induct)
  case (1 s)
  show ?case
  proof (cases "s = [] \<or> trailing_space s = 0")
    case True
    then show ?thesis
      by (subst TrimRightSpace.simps) (metis append_Nil2 take_all_iff order_refl)
  next
    case False
    with 1 obtain n where "TrimRightSpace (take (length s - trailing_space s) s) =
        take n (take (length s - trailing_space s) s)" by blast
    with False show ?thesis by (subst TrimRightSpace.simps) (auto simp: min.commute)
  qed
qed

lemma TrimSpace_idem [simp]: "TrimSpace (TrimSpace s) = TrimSpace s"
proof -
  obtain n where n: "TrimRightSpace (TrimLeftSpace s) = take n (TrimLeftSpace s)"
    using TrimRightSpace_prefix by blast
  then have "leading_space (TrimSpace s) = 0"
    by (simp add: TrimSpace_def leading_space_take leading_space_TrimLeftSpace)
  then have "TrimLeftSpace (TrimSpace s) = TrimSpace s"
    by (rule TrimLeftSpace_fixed)
  moreover have "TrimRightSpace (TrimSpace s) = TrimSpace s"
    unfolding TrimSpace_def by (intro TrimRightSpace_fixed trailing_space_TrimRightSpace)
  ultimately show ?thesis by (simp add: TrimSpace_def)
qed

lemma TrimSpace_Nil [simp]: "TrimSpace [] = []"
  by (simp add: TrimSpace_def TrimLeftSpace.simps TrimRightSpace.simps)

lemma length_TrimLeftSpace: "length (TrimLeftSpace s) \<le> length s"
proof (induction s rule: TrimLeftSpace.induct)
  case (1 s)
  then show ?case by (subst TrimLeftSpace.simps) (auto intro: le_trans)
qed

lemma length_TrimSpace: "length (TrimSpace s) \<le> length s"
  using TrimRightSpace_prefix [of "TrimLeftSpace s"] length_TrimLeftSpace [of s]
  by (auto simp: TrimSpace_def)

end
