(* ===== verification/Publish_Tasks.thy ===== *)
theory Publish_Tasks
  imports Samples Go_Strings
begin

section \<open>Publication tasks and drain cleanup (internal/store/store.go, site\_node\_drains.go)\<close>

text \<open>
  A publication (or the cleanup of a drained node) is a row of \<open>deployment_tasks\<close> with one row of
  \<open>publish_task_nodes\<close> for each node that has to apply the new configuration. Edge reports and
  heartbeats confirm nodes, a deadline gives up on the rest, and the outcome of all nodes closes the
  task. A cleanup task that closes also deletes or releases the drains it owns.
\<close>

subsection \<open>Tasks\<close>

fun task_status_text :: "task_status \<Rightarrow> string" where
  "task_status_text TaskQueued = ''queued''"
| "task_status_text TaskDispatching = ''dispatching''"
| "task_status_text TaskApplying = ''applying''"
| "task_status_text TaskSucceeded = ''succeeded''"
| "task_status_text TaskPartial = ''partial''"
| "task_status_text TaskFailed = ''failed''"
| "task_status_text TaskRolledBack = ''rolled_back''"

definition find_task :: "store \<Rightarrow> string \<Rightarrow> deployment_task option" where
  "find_task s taskID = find_row (\<lambda>t. dt_ID t = taskID) (deployment_tasks s)"

definition UpdateTask :: "store \<Rightarrow> string \<Rightarrow> task_status \<Rightarrow> fmt_text \<Rightarrow> time \<Rightarrow> store result" where
  "UpdateTask s taskID status detail now =
     (if count_rows (\<lambda>t. dt_ID t = taskID) (deployment_tasks s) \<noteq> 1 then Inl ErrNotFound
      else Inr (s\<lparr>deployment_tasks := update_rows (\<lambda>t. dt_ID t = taskID)
             (\<lambda>t. t\<lparr>dt_Status := status, dt_Detail := detail, dt_UpdatedAt := now\<rparr>) (deployment_tasks s)\<rparr>))"

definition GetTask :: "store \<Rightarrow> string \<Rightarrow> deployment_task result" where
  "GetTask s taskID = (case find_task s taskID of None \<Rightarrow> Inl ErrNotFound | Some t \<Rightarrow> Inr t)"

definition ActivePublishTask :: "store \<Rightarrow> string \<Rightarrow> deployment_task result" where
  "ActivePublishTask s siteID =
     (case latest dt_CreatedAt (filter (\<lambda>t. dt_SiteID t = siteID \<and> dt_Kind t = KindPublishSite
             \<and> active_task_status (dt_Status t)) (deployment_tasks s)) of
        None \<Rightarrow> Inl ErrNotFound
      | Some t \<Rightarrow> Inr t)"

definition LatestPublishTask :: "store \<Rightarrow> string \<Rightarrow> deployment_task result" where
  "LatestPublishTask s siteID =
     (case latest dt_CreatedAt (filter (\<lambda>t. dt_SiteID t = siteID \<and> dt_Kind t = KindPublishSite)
             (deployment_tasks s)) of
        None \<Rightarrow> Inl ErrNotFound
      | Some t \<Rightarrow> Inr t)"

subsection \<open>Targets\<close>

record publish_target =
  tg_NodeID :: string
  tg_TargetVersion :: int

definition constraint_error :: go_error where
  "constraint_error = err ''constraint failed''"

definition pending_row :: "string \<Rightarrow> publish_target \<Rightarrow> publish_task_node" where
  "pending_row taskID t =
     \<lparr>ptn_TaskID = taskID, ptn_NodeID = tg_NodeID t, ptn_TargetVersion = tg_TargetVersion t,
      ptn_Status = PublishNodePending, ptn_ErrorCode = [], ptn_Detail = [], ptn_PortConflicts = [],
      ptn_ReportedAt = None\<rparr>"

text \<open>The insert fails on a duplicate key and on a task or node that does not exist.\<close>

fun insert_targets :: "store \<Rightarrow> string \<Rightarrow> publish_target list \<Rightarrow> store result" where
  "insert_targets s taskID [] = Inr s"
| "insert_targets s taskID (t # ts) =
     (if tg_NodeID t = [] \<or> tg_TargetVersion t < 1 then Inl (err ''invalid publish task node target'')
      else if list_ex (\<lambda>p. ptn_TaskID p = taskID \<and> ptn_NodeID p = tg_NodeID t) (publish_nodes s)
          \<or> find_task s taskID = None \<or> find_node s (tg_NodeID t) = None
        then Inl constraint_error
      else insert_targets (s\<lparr>publish_nodes := publish_nodes s @ [pending_row taskID t]\<rparr>) taskID ts)"

definition createPublishTaskNodesTx :: "store \<Rightarrow> string \<Rightarrow> publish_target list \<Rightarrow> store result" where
  "createPublishTaskNodesTx s taskID targets =
     (if targets \<noteq> [] \<and> TrimSpace taskID = [] then
        Inl (err ''publish task node targets are missing a task ID'')
      else insert_targets s taskID targets)"

definition CreatePublishTaskNodes :: "store \<Rightarrow> string \<Rightarrow> publish_target list \<Rightarrow> store result" where
  "CreatePublishTaskNodes s taskID targets =
     (if targets = [] then Inr s else createPublishTaskNodesTx s taskID targets)"

subsection \<open>Reports of the edge\<close>

definition task_active_of_kinds :: "store \<Rightarrow> task_kind set \<Rightarrow> string \<Rightarrow> bool" where
  "task_active_of_kinds s kinds taskID \<longleftrightarrow>
     list_ex (\<lambda>t. dt_ID t = taskID \<and> dt_Kind t \<in> kinds \<and> active_task_status (dt_Status t)) (deployment_tasks s)"

definition RecordPublishApply :: "store \<Rightarrow> string \<Rightarrow> apply_report \<Rightarrow> time \<Rightarrow> store result" where
  "RecordPublishApply s nodeID report now =
     (if ar_Version report < 1 \<or> (ar_Status report \<noteq> ApplySucceeded \<and> ar_Status report \<noteq> ApplyFailed)
      then Inl (err ''invalid edge apply report'')
      else Inr (s\<lparr>publish_nodes := update_rows
             (\<lambda>p. ptn_NodeID p = nodeID \<and> ptn_TargetVersion p \<le> ar_Version report
                \<and> ptn_Status p = PublishNodePending
                \<and> task_active_of_kinds s {KindPublishSite, KindDeleteSite, KindDrainSite} (ptn_TaskID p))
             (\<lambda>p. p\<lparr>ptn_Status := (if ar_Status report = ApplySucceeded then PublishNodeSucceeded
                                    else PublishNodeFailed),
                    ptn_ErrorCode := ar_Code report, ptn_Detail := ar_Detail report,
                    ptn_PortConflicts := ar_PortConflicts report, ptn_ReportedAt := Some now\<rparr>)
             (publish_nodes s)\<rparr>))"

subsection \<open>Drains that a cleanup task owns\<close>

definition finishDrainCleanupTx :: "store \<Rightarrow> string \<Rightarrow> task_status \<Rightarrow> time \<Rightarrow> store result" where
  "finishDrainCleanupTx s taskID status updatedAt =
     (if status = TaskSucceeded then
        Inr (s\<lparr>drains := delete_rows (\<lambda>d. dr_CleanupTaskID d = Some taskID) (drains s)\<rparr>)
      else if status \<in> {TaskPartial, TaskFailed, TaskRolledBack} then
        (let kept = delete_rows (\<lambda>d. dr_CleanupTaskID d = Some taskID \<and>
               list_ex (\<lambda>p. ptn_TaskID p = taskID \<and> ptn_NodeID p = dr_NodeID d
                          \<and> ptn_Status p = PublishNodeSucceeded) (publish_nodes s)) (drains s)
         in Inr (s\<lparr>drains := update_rows (\<lambda>d. dr_CleanupTaskID d = Some taskID)
                    (\<lambda>d. d\<lparr>dr_CleanupTaskID := None, dr_UpdatedAt := updatedAt\<rparr>) kept\<rparr>))
      else Inl (Errorf ''drain cleanup task %s has non-terminal status %s'' [ArgS taskID, ArgS (task_status_text status)]))"

definition completeDrainCleanup :: "store \<Rightarrow> string \<Rightarrow> task_status \<Rightarrow> fmt_text \<Rightarrow> time \<Rightarrow> store result" where
  "completeDrainCleanup s taskID status detail now =
     (let hit = (\<lambda>t. dt_ID t = taskID \<and> dt_Kind t = KindDrainSite \<and> active_task_status (dt_Status t)) in
      if count_rows hit (deployment_tasks s) = 0 then Inr s
      else finishDrainCleanupTx
             (s\<lparr>deployment_tasks := update_rows hit
                  (\<lambda>t. t\<lparr>dt_Status := status, dt_Detail := detail, dt_UpdatedAt := now\<rparr>)
                  (deployment_tasks s)\<rparr>) taskID status now)"

definition FinishDrainCleanup :: "store \<Rightarrow> string \<Rightarrow> task_status \<Rightarrow> time \<Rightarrow> store result" where
  "FinishDrainCleanup s taskID status now = finishDrainCleanupTx s taskID status now"

fun finish_each :: "store \<Rightarrow> deployment_task list \<Rightarrow> time \<Rightarrow> store result" where
  "finish_each s [] now = Inr s"
| "finish_each s (t # ts) now =
     (case FinishDrainCleanup s (dt_ID t) (dt_Status t) now of
        Inl e \<Rightarrow> Inl e
      | Inr s' \<Rightarrow> finish_each s' ts now)"

definition reconcileDrainTaskFinalizations :: "store \<Rightarrow> time \<Rightarrow> store result" where
  "reconcileDrainTaskFinalizations s now =
     finish_each s (sort_key (\<lambda>t. stamp (dt_UpdatedAt t))
       (filter (\<lambda>t. dt_Kind t = KindDrainSite
           \<and> dt_Status t \<in> {TaskSucceeded, TaskPartial, TaskFailed, TaskRolledBack}
           \<and> list_ex (\<lambda>d. dr_CleanupTaskID d = Some (dt_ID t)) (drains s)) (deployment_tasks s))) now"

subsection \<open>Closing tasks\<close>

definition publishTaskOutcome :: "nat \<Rightarrow> nat \<Rightarrow> nat \<Rightarrow> task_status \<times> fmt_text" where
  "publishTaskOutcome tot succeeded failed =
     (if succeeded = tot then
        (TaskSucceeded, Errorf ''configuration applied by %d active edge node(s)'' [ArgI (int succeeded)])
      else if succeeded > 0 then
        (TaskPartial, Errorf ''configuration applied by %d of %d active edge node(s)''
           [ArgI (int succeeded), ArgI (int tot)])
      else (TaskFailed, Errorf ''%d edge node(s) did not apply the configuration'' [ArgI (int failed)]))"

definition task_rows :: "store \<Rightarrow> string \<Rightarrow> publish_task_node list" where
  "task_rows s taskID = filter (\<lambda>p. ptn_TaskID p = taskID) (publish_nodes s)"

definition task_total :: "store \<Rightarrow> string \<Rightarrow> nat" where
  "task_total s taskID = length (task_rows s taskID)"

definition task_pending :: "store \<Rightarrow> string \<Rightarrow> nat" where
  "task_pending s taskID = count_rows (\<lambda>p. ptn_Status p = PublishNodePending) (task_rows s taskID)"

definition task_succeeded :: "store \<Rightarrow> string \<Rightarrow> nat" where
  "task_succeeded s taskID = count_rows (\<lambda>p. ptn_Status p = PublishNodeSucceeded) (task_rows s taskID)"

definition task_failed :: "store \<Rightarrow> string \<Rightarrow> nat" where
  "task_failed s taskID =
     count_rows (\<lambda>p. ptn_Status p \<in> {PublishNodeFailed, PublishNodeTimedOut}) (task_rows s taskID)"

definition node_applied :: "store \<Rightarrow> publish_task_node \<Rightarrow> bool" where
  "node_applied s p \<longleftrightarrow>
     list_ex (\<lambda>n. nd_ID n = ptn_NodeID p \<and> nd_AppliedVersion n \<ge> ptn_TargetVersion p) (nodes s)"

definition confirm_applied :: "store \<Rightarrow> string \<Rightarrow> time \<Rightarrow> store" where
  "confirm_applied s taskID now = s\<lparr>publish_nodes := update_rows
     (\<lambda>p. ptn_TaskID p = taskID \<and> ptn_Status p = PublishNodePending \<and> node_applied s p)
     (\<lambda>p. p\<lparr>ptn_Status := PublishNodeSucceeded, ptn_ErrorCode := [],
            ptn_Detail := ''edge confirmed applied version'', ptn_PortConflicts := [],
            ptn_ReportedAt := Some now\<rparr>) (publish_nodes s)\<rparr>"

definition time_out_pending :: "store \<Rightarrow> string \<Rightarrow> store" where
  "time_out_pending s taskID = s\<lparr>publish_nodes := update_rows
     (\<lambda>p. ptn_TaskID p = taskID \<and> ptn_Status p = PublishNodePending)
     (\<lambda>p. p\<lparr>ptn_Status := PublishNodeTimedOut, ptn_ErrorCode := ''confirmation_timeout'',
            ptn_Detail := ''edge did not confirm the target configuration before the publish deadline''\<rparr>)
     (publish_nodes s)\<rparr>"

definition close_task :: "store \<Rightarrow> string \<Rightarrow> task_kind \<Rightarrow> task_status \<times> fmt_text \<Rightarrow> time \<Rightarrow> store result" where
  "close_task s taskID kind outcome now =
     (if kind = KindDrainSite then completeDrainCleanup s taskID (fst outcome) (snd outcome) now
      else UpdateTask s taskID (fst outcome) (snd outcome) now)"

definition reconcilePublishTask :: "store \<Rightarrow> string \<Rightarrow> task_kind \<Rightarrow> time option \<Rightarrow> time \<Rightarrow> store result" where
  "reconcilePublishTask s taskID kind deadline now =
     (let s1 = confirm_applied s taskID now;
          tot = task_total s1 taskID; pending = task_pending s1 taskID;
          succeeded = task_succeeded s1 taskID; failed = task_failed s1 taskID
      in if tot = 0 then
           (case deadline of
              None \<Rightarrow> Inr s1
            | Some d \<Rightarrow>
                if \<not> d > now
                then close_task s1 taskID kind
                       (TaskFailed, err ''task did not create edge confirmation targets; retry'') now
                else Inr s1)
         else if pending > 0 \<and> (case deadline of None \<Rightarrow> False | Some d \<Rightarrow> d > now) then Inr s1
         else
           (let s2 = (if pending > 0 then time_out_pending s1 taskID else s1);
                failed' = (if pending > 0 then failed + pending else failed)
            in close_task s2 taskID kind (publishTaskOutcome tot succeeded failed') now))"

definition confirm_late :: "store \<Rightarrow> deployment_task \<Rightarrow> time \<Rightarrow> store \<times> nat" where
  "confirm_late s task now =
     (let hit = (\<lambda>p. ptn_TaskID p = dt_ID task \<and> ptn_Status p \<in> {PublishNodeFailed, PublishNodeTimedOut}
             \<and> (case LatestPublishTask s (dt_SiteID task) of Inl _ \<Rightarrow> False | Inr t \<Rightarrow> ptn_TaskID p = dt_ID t)
             \<and> node_applied s p)
      in (s\<lparr>publish_nodes := update_rows hit
              (\<lambda>p. p\<lparr>ptn_Status := PublishNodeSucceeded, ptn_ErrorCode := [],
                     ptn_Detail := ''edge confirmed applied version after publish completion'',
                     ptn_PortConflicts := [], ptn_ReportedAt := Some now\<rparr>) (publish_nodes s)\<rparr>,
          count_rows hit (publish_nodes s)))"

definition reconcileLatePublishConfirmations :: "store \<Rightarrow> deployment_task \<Rightarrow> time \<Rightarrow> (store \<times> bool) result" where
  "reconcileLatePublishConfirmations s task now =
     (if dt_Kind task \<noteq> KindPublishSite \<or> (dt_Status task \<noteq> TaskPartial \<and> dt_Status task \<noteq> TaskFailed)
      then Inr (s, False)
      else
        (let (s1, changed) = confirm_late s task now;
             tot = task_total s1 (dt_ID task); pending = task_pending s1 (dt_ID task);
             outcome = publishTaskOutcome tot (task_succeeded s1 (dt_ID task)) (task_failed s1 (dt_ID task))
         in if tot = 0 \<or> pending > 0 then Inr (s1, False)
            else if changed = 0 \<and> dt_Status task = fst outcome \<and> dt_Detail task = snd outcome
              then Inr (s1, False)
            else case UpdateTask s1 (dt_ID task) (fst outcome) (snd outcome) now of
                Inl e \<Rightarrow> Inl e
              | Inr s2 \<Rightarrow> Inr (s2, True)))"

fun reconcile_tasks :: "store \<Rightarrow> deployment_task list \<Rightarrow> time \<Rightarrow> store result" where
  "reconcile_tasks s [] now = Inr s"
| "reconcile_tasks s (t # ts) now =
     (case reconcilePublishTask s (dt_ID t) (dt_Kind t) (dt_DeadlineAt t) now of
        Inl e \<Rightarrow> Inl e
      | Inr s' \<Rightarrow> reconcile_tasks s' ts now)"

fun reconcile_late :: "store \<Rightarrow> deployment_task list \<Rightarrow> time \<Rightarrow> store result" where
  "reconcile_late s [] now = Inr s"
| "reconcile_late s (t # ts) now =
     (case reconcileLatePublishConfirmations s t now of
        Inl e \<Rightarrow> Inl e
      | Inr (s', _) \<Rightarrow> reconcile_late s' ts now)"

definition newer_task :: "deployment_task \<Rightarrow> deployment_task \<Rightarrow> bool" where
  "newer_task newer task \<longleftrightarrow> dt_SiteID newer = dt_SiteID task \<and> dt_Kind newer = KindPublishSite
     \<and> (text_less (dt_CreatedAt task) (dt_CreatedAt newer)
        \<or> dt_CreatedAt newer = dt_CreatedAt task \<and> dt_ID newer > dt_ID task)"

definition latest_closed :: "store \<Rightarrow> deployment_task list" where
  "latest_closed s = filter (\<lambda>task. dt_Kind task = KindPublishSite \<and> dt_Status task \<in> {TaskPartial, TaskFailed}
     \<and> \<not> list_ex (\<lambda>newer. newer_task newer task) (deployment_tasks s)) (deployment_tasks s)"

definition ReconcilePublishTasks :: "store \<Rightarrow> time \<Rightarrow> store result" where
  "ReconcilePublishTasks s now =
     (case reconcile_tasks s (sort_key (\<lambda>t. stamp (dt_CreatedAt t))
             (filter (\<lambda>t. dt_Kind t \<in> {KindPublishSite, KindDrainSite} \<and> active_task_status (dt_Status t))
                (deployment_tasks s))) now of
        Inl e \<Rightarrow> Inl e
      | Inr s1 \<Rightarrow>
          (case reconcileDrainTaskFinalizations s1 now of
             Inl e \<Rightarrow> Inl e
           | Inr s2 \<Rightarrow> reconcile_late s2 (latest_closed s2) now))"

subsection \<open>Queueing tasks\<close>

text \<open>
  INSERT OR IGNORE against the partial unique indexes: the row is dropped when the site already has an
  active task of the kind (or the generated identifier is taken). The loop tries twice, with a fresh
  identifier each time.
\<close>

definition insert_task_or_ignore :: "store \<Rightarrow> deployment_task \<Rightarrow> store \<times> bool" where
  "insert_task_or_ignore s t =
     (if list_ex (\<lambda>x. dt_ID x = dt_ID t \<or>
           dt_SiteID x = dt_SiteID t \<and> dt_Kind x = dt_Kind t \<and> active_task_status (dt_Status x)) (deployment_tasks s)
      then (s, False)
      else (s\<lparr>deployment_tasks := deployment_tasks s @ [t]\<rparr>, True))"

definition queued_task :: "task_kind \<Rightarrow> string \<Rightarrow> string \<Rightarrow> string \<Rightarrow> time \<Rightarrow> time \<Rightarrow> deployment_task" where
  "queued_task kind detail newID siteID deadline created =
     \<lparr>dt_ID = newID, dt_Kind = kind, dt_SiteID = siteID, dt_Status = TaskQueued, dt_Detail = err detail,
      dt_DeadlineAt = Some deadline, dt_CreatedAt = created, dt_UpdatedAt = created\<rparr>"

definition active_task_of :: "task_kind \<Rightarrow> store \<Rightarrow> string \<Rightarrow> deployment_task option" where
  "active_task_of kind s siteID = latest dt_CreatedAt (filter (\<lambda>t. dt_SiteID t = siteID \<and> dt_Kind t = kind
     \<and> active_task_status (dt_Status t)) (deployment_tasks s))"

fun queue_task :: "task_kind \<Rightarrow> string \<Rightarrow> go_error \<Rightarrow> store \<Rightarrow> string list \<Rightarrow> string \<Rightarrow> time \<Rightarrow> time
    \<Rightarrow> (store \<times> deployment_task \<times> bool) result" where
  "queue_task kind detail retry s [] siteID deadline now = Inl retry"
| "queue_task kind detail retry s (newID # newIDs) siteID deadline now =
     (let t = queued_task kind detail newID siteID deadline now;
          (s', inserted) = insert_task_or_ignore s t
      in if inserted then Inr (s', t, True)
         else case active_task_of kind s siteID of
             Some existing \<Rightarrow> Inr (s, existing, False)
           | None \<Rightarrow> queue_task kind detail retry s newIDs siteID deadline now)"

definition CreateOrGetActivePublishTask ::
    "store \<Rightarrow> string \<times> string \<Rightarrow> string \<Rightarrow> time \<Rightarrow> time \<Rightarrow> (store \<times> deployment_task \<times> bool) result" where
  "CreateOrGetActivePublishTask s newIDs siteID deadline now =
     (if TrimSpace siteID = [] then Inl (err ''site ID is required'')
      else if (case find_row (\<lambda>x. st_ID x = siteID) (sites s) of None \<Rightarrow> False | Some x \<Rightarrow> st_Deleting x)
        then Inl ErrSiteDeleting
      else case ReconcilePublishTasks s now of
          Inl e \<Rightarrow> Inl e
        | Inr s1 \<Rightarrow> queue_task KindPublishSite ''building node configurations''
            (err ''publish task changed while being queued; retry request'') s1 [fst newIDs, snd newIDs]
            siteID deadline now)"

definition CreateOrGetActiveDrainTask ::
    "store \<Rightarrow> string \<times> string \<Rightarrow> string \<Rightarrow> time \<Rightarrow> time \<Rightarrow> (store \<times> deployment_task \<times> bool) result" where
  "CreateOrGetActiveDrainTask s newIDs siteID deadline now =
     (if TrimSpace siteID = [] then Inl (err ''site ID is required'')
      else queue_task KindDrainSite ''preparing expired node drain cleanup''
            (err ''drain cleanup task changed while being queued; retry request'') s [fst newIDs, snd newIDs]
            siteID deadline now)"

end
