(* ===== verification/Limits.thy ===== *)
theory Limits
  imports Domain_Types
begin

section \<open>Numeric limits (internal/domain/validate.go)\<close>

text \<open>
  The settings that are numbers: each has a default for the value 0 and a range or a list of allowed
  values. Every \<open>Normalize...\<close> function is an instance of the contract \<open>normalizer\<close>.
\<close>

definition MinDNSTTLSeconds :: int where "MinDNSTTLSeconds = 60"
definition MaxDNSTTLSeconds :: int where "MaxDNSTTLSeconds = 300"
definition DefaultCacheMaxSizeGB :: int where "DefaultCacheMaxSizeGB = 1"
definition MinCacheMaxSizeGB :: int where "MinCacheMaxSizeGB = 1"
definition MaxCacheMaxSizeGB :: int where "MaxCacheMaxSizeGB = 1024"
definition DefaultClientMaxBodySizeMB :: int where "DefaultClientMaxBodySizeMB = 128"
definition MaxClientMaxBodySizeMB :: int where "MaxClientMaxBodySizeMB = 1024"
definition DefaultClientKeepaliveTimeoutSeconds :: int where "DefaultClientKeepaliveTimeoutSeconds = 120"
definition DefaultReadWriteTimeoutSeconds :: int where "DefaultReadWriteTimeoutSeconds = 120"
definition DefaultTCPConnectTimeoutSeconds :: int where "DefaultTCPConnectTimeoutSeconds = 10"
definition DefaultTCPIdleTimeoutSeconds :: int where "DefaultTCPIdleTimeoutSeconds = 300"
definition MaxTCPForwardsPerSite :: int where "MaxTCPForwardsPerSite = 32"
definition DefaultNginxWorkerProcesses :: int where "DefaultNginxWorkerProcesses = 0"
definition DefaultNginxWorkerConnections :: int where "DefaultNginxWorkerConnections = 4096"
definition DefaultNginxWorkerRlimitNoFile :: int where "DefaultNginxWorkerRlimitNoFile = 65536"
definition MinNginxWorkerConnections :: int where "MinNginxWorkerConnections = 256"
definition MaxNginxWorkerConnections :: int where "MaxNginxWorkerConnections = 65535"
definition MinNginxWorkerRlimitNoFile :: int where "MinNginxWorkerRlimitNoFile = 1024"
definition MaxNginxWorkerRlimitNoFile :: int where "MaxNginxWorkerRlimitNoFile = DefaultNginxWorkerRlimitNoFile"
definition MaxNginxWorkerProcesses :: int where "MaxNginxWorkerProcesses = 128"

named_theorems limit_defs \<open>the constants of this theory\<close>

lemmas [limit_defs] = MinDNSTTLSeconds_def MaxDNSTTLSeconds_def DefaultDNSTTLSeconds_def
  DefaultCacheMaxSizeGB_def MinCacheMaxSizeGB_def MaxCacheMaxSizeGB_def DefaultClientMaxBodySizeMB_def
  MaxClientMaxBodySizeMB_def DefaultClientKeepaliveTimeoutSeconds_def DefaultReadWriteTimeoutSeconds_def
  DefaultTCPConnectTimeoutSeconds_def DefaultTCPIdleTimeoutSeconds_def MaxTCPForwardsPerSite_def
  DefaultNginxWorkerProcesses_def DefaultNginxWorkerConnections_def DefaultNginxWorkerRlimitNoFile_def
  MinNginxWorkerConnections_def MaxNginxWorkerConnections_def MinNginxWorkerRlimitNoFile_def
  MaxNginxWorkerRlimitNoFile_def MaxNginxWorkerProcesses_def

text \<open>A validator returns an error or nothing.\<close>

definition ValidateClientMaxBodySizeMB :: "int \<Rightarrow> unit result" where
  "ValidateClientMaxBodySizeMB v =
     (if v = DefaultClientMaxBodySizeMB \<or> v = 256 \<or> v = 512 \<or> v = MaxClientMaxBodySizeMB then Inr ()
      else Inl (err ''client max body size must be one of 128, 256, 512, or 1024 MiB''))"

definition NormalizeClientMaxBodySizeMB :: "int \<Rightarrow> int result" where
  "NormalizeClientMaxBodySizeMB value =
     (let v = (if value = 0 then DefaultClientMaxBodySizeMB else value) in
      case ValidateClientMaxBodySizeMB v of Inl e \<Rightarrow> Inl e | Inr _ \<Rightarrow> Inr v)"

definition ValidateClientKeepaliveTimeoutSeconds :: "int \<Rightarrow> unit result" where
  "ValidateClientKeepaliveTimeoutSeconds v =
     (if v < 15 \<or> v > 3600 then Inl (err ''client keepalive timeout must be between 15 and 3600 seconds'')
      else Inr ())"

definition NormalizeClientKeepaliveTimeoutSeconds :: "int \<Rightarrow> int result" where
  "NormalizeClientKeepaliveTimeoutSeconds value =
     (let v = (if value = 0 then DefaultClientKeepaliveTimeoutSeconds else value) in
      case ValidateClientKeepaliveTimeoutSeconds v of Inl e \<Rightarrow> Inl e | Inr _ \<Rightarrow> Inr v)"

definition ValidateReadWriteTimeoutSeconds :: "int \<Rightarrow> unit result" where
  "ValidateReadWriteTimeoutSeconds v =
     (if v \<in> {120, 360, 900, 1800, 3600} then Inr ()
      else Inl (err ''read/write timeout must be one of 120, 360, 900, 1800, or 3600 seconds''))"

definition NormalizeReadWriteTimeoutSeconds :: "int \<Rightarrow> int result" where
  "NormalizeReadWriteTimeoutSeconds value =
     (let v = (if value = 0 then DefaultReadWriteTimeoutSeconds else value) in
      case ValidateReadWriteTimeoutSeconds v of Inl e \<Rightarrow> Inl e | Inr _ \<Rightarrow> Inr v)"

definition DefaultNginxCapacity :: nginx_capacity where
  "DefaultNginxCapacity = \<lparr>WorkerProcesses = DefaultNginxWorkerProcesses,
     WorkerConnections = DefaultNginxWorkerConnections, WorkerRlimitNoFile = DefaultNginxWorkerRlimitNoFile\<rparr>"

definition NormalizeNginxCapacity :: "nginx_capacity \<Rightarrow> nginx_capacity result" where
  "NormalizeNginxCapacity value =
     (let v1 = (if WorkerConnections value = 0 then value\<lparr>WorkerConnections := DefaultNginxWorkerConnections\<rparr> else value);
          v = (if WorkerRlimitNoFile v1 = 0 then v1\<lparr>WorkerRlimitNoFile := DefaultNginxWorkerRlimitNoFile\<rparr> else v1)
      in if WorkerProcesses v < 0 \<or> WorkerProcesses v > MaxNginxWorkerProcesses then
           Inl (Errorf ''Nginx worker processes must be auto or between 1 and %d'' [ArgI MaxNginxWorkerProcesses])
         else if WorkerConnections v < MinNginxWorkerConnections \<or> WorkerConnections v > MaxNginxWorkerConnections then
           Inl (Errorf ''Nginx worker connections must be between %d and %d''
                  [ArgI MinNginxWorkerConnections, ArgI MaxNginxWorkerConnections])
         else if WorkerRlimitNoFile v < MinNginxWorkerRlimitNoFile \<or> WorkerRlimitNoFile v > MaxNginxWorkerRlimitNoFile then
           Inl (Errorf ''Nginx worker file limit must be between %d and %d''
                  [ArgI MinNginxWorkerRlimitNoFile, ArgI MaxNginxWorkerRlimitNoFile])
         else if WorkerRlimitNoFile v < WorkerConnections v then
           Inl (err ''Nginx worker file limit must be at least the worker connection count'')
         else Inr v)"

definition ValidateDNSTTLSeconds :: "int \<Rightarrow> unit result" where
  "ValidateDNSTTLSeconds v =
     (if v < MinDNSTTLSeconds \<or> v > MaxDNSTTLSeconds then
        Inl (Errorf ''DNS TTL must be between %d and %d seconds'' [ArgI MinDNSTTLSeconds, ArgI MaxDNSTTLSeconds])
      else Inr ())"

definition ValidateCacheMaxSizeGB :: "int \<Rightarrow> unit result" where
  "ValidateCacheMaxSizeGB v =
     (if v < MinCacheMaxSizeGB \<or> v > MaxCacheMaxSizeGB then
        Inl (Errorf ''cache maximum size must be between %d and %d GB'' [ArgI MinCacheMaxSizeGB, ArgI MaxCacheMaxSizeGB])
      else Inr ())"

definition EffectiveNodeCacheMaxSizeGB :: "node \<Rightarrow> int \<Rightarrow> int result" where
  "EffectiveNodeCacheMaxSizeGB n defaultSize =
     (case ValidateCacheMaxSizeGB defaultSize of Inl e \<Rightarrow> Inl e
      | Inr _ \<Rightarrow>
         (case nd_CacheMaxSizeGB n of
            None \<Rightarrow> Inr defaultSize
          | Some v \<Rightarrow>
              (case ValidateCacheMaxSizeGB v of Inl e \<Rightarrow> Inl e | Inr _ \<Rightarrow> Inr v)))"

subsection \<open>What normalisation yields\<close>

lemma NormalizeClientMaxBodySizeMB_Inr:
  "NormalizeClientMaxBodySizeMB v = Inr w \<longleftrightarrow> w = (if v = 0 then 128 else v) \<and> w \<in> {128, 256, 512, 1024}"
  by (auto simp: NormalizeClientMaxBodySizeMB_def ValidateClientMaxBodySizeMB_def limit_defs Let_def)

lemma NormalizeClientKeepaliveTimeoutSeconds_Inr:
  "NormalizeClientKeepaliveTimeoutSeconds v = Inr w \<longleftrightarrow> w = (if v = 0 then 120 else v) \<and> 15 \<le> w \<and> w \<le> 3600"
  by (auto simp: NormalizeClientKeepaliveTimeoutSeconds_def ValidateClientKeepaliveTimeoutSeconds_def
      limit_defs Let_def)

lemma NormalizeReadWriteTimeoutSeconds_Inr:
  "NormalizeReadWriteTimeoutSeconds v = Inr w \<longleftrightarrow>
     w = (if v = 0 then 120 else v) \<and> w \<in> {120, 360, 900, 1800, 3600}"
  by (auto simp: NormalizeReadWriteTimeoutSeconds_def ValidateReadWriteTimeoutSeconds_def limit_defs Let_def)

definition nginx_capacity_ok :: "nginx_capacity \<Rightarrow> bool" where
  "nginx_capacity_ok c \<longleftrightarrow> 0 \<le> WorkerProcesses c \<and> WorkerProcesses c \<le> 128
     \<and> 256 \<le> WorkerConnections c \<and> WorkerConnections c \<le> 65535
     \<and> 1024 \<le> WorkerRlimitNoFile c \<and> WorkerRlimitNoFile c \<le> 65536
     \<and> WorkerConnections c \<le> WorkerRlimitNoFile c"

lemma NormalizeNginxCapacity_ok: "NormalizeNginxCapacity c = Inr d \<Longrightarrow> nginx_capacity_ok d"
  by (auto simp: NormalizeNginxCapacity_def nginx_capacity_ok_def limit_defs Let_def split: if_splits)

lemma NormalizeNginxCapacity_fixed: "nginx_capacity_ok c \<Longrightarrow> NormalizeNginxCapacity c = Inr c"
  by (simp add: NormalizeNginxCapacity_def nginx_capacity_ok_def limit_defs)

text \<open>The contract of the normalizing functions, on each of them.\<close>

interpretation body_size: normalizer NormalizeClientMaxBodySizeMB "\<lambda>v. v \<in> {128, 256, 512, 1024}"
  by unfold_locales (auto simp: NormalizeClientMaxBodySizeMB_Inr)

interpretation keepalive: normalizer NormalizeClientKeepaliveTimeoutSeconds "\<lambda>v. 15 \<le> v \<and> v \<le> 3600"
  by unfold_locales (simp_all add: NormalizeClientKeepaliveTimeoutSeconds_Inr)

interpretation timeout: normalizer NormalizeReadWriteTimeoutSeconds "\<lambda>v. v \<in> {120, 360, 900, 1800, 3600}"
  by unfold_locales (auto simp: NormalizeReadWriteTimeoutSeconds_Inr)

interpretation capacity: normalizer NormalizeNginxCapacity nginx_capacity_ok
  by unfold_locales (simp_all add: NormalizeNginxCapacity_ok NormalizeNginxCapacity_fixed)

end
