(* ===== verification/Publication.thy ===== *)
theory Publication
  imports Publish_Tasks Limits
begin

section \<open>Publications and site drains (internal/store/publication.go, site\_node\_drains.go)\<close>

text \<open>
  A publication is the configuration of a site that the edge nodes should serve, an immutable copy of
  the draft in \<open>sites\<close>. Committing one is a single transaction: it saves the copy, the desired states
  of the nodes and their confirmation targets, moves the claims on the domain names, cancels the drains
  of nodes that serve the site again and records a drain (a snapshot of the old configuration) for each
  node that leaves it. A drain goes through three stages: it waits for DNS to leave the node, then for
  the time of the DNS answers to run out, then a cleanup task removes it.
\<close>

subsection \<open>Inputs\<close>

record node_state_update =
  nsu_NodeID :: string
  nsu_State :: desired_state
  nsu_Certificates :: string

record drain_input =
  di_ID :: string
  di_SiteID :: string
  di_NodeID :: string
  di_Site :: site
  di_CertificateCiphertext :: string
  di_KeyCiphertext :: string
  di_CertificateNotAfter :: "time option"
  di_DNSTTLSeconds :: int

record drain_key =
  dk_SiteID :: string
  dk_NodeID :: string

subsection \<open>Reading\<close>

definition find_site :: "store \<Rightarrow> string \<Rightarrow> site option" where
  "find_site s siteID = find_row (\<lambda>x. st_ID x = siteID) (sites s)"

definition SitePublication :: "store \<Rightarrow> string \<Rightarrow> site_publication result" where
  "SitePublication s siteID =
     (case find_row (\<lambda>p. st_ID (sp_Site p) = siteID) (publications s) of
        None \<Rightarrow> Inl ErrNotFound
      | Some p \<Rightarrow> Inr p)"

definition SitePublicationCurrent :: "store \<Rightarrow> string \<Rightarrow> time \<Rightarrow> bool result" where
  "SitePublicationCurrent s siteID publishedAt =
     (if TrimSpace siteID = [] then Inl (err ''site ID is required'')
      else if is_zero_time publishedAt then Inl (err ''publication timestamp is required'')
      else Inr (list_ex (\<lambda>p. st_ID (sp_Site p) = siteID \<and> sp_PublishedAt p = publishedAt) (publications s)))"

text \<open>Text columns order by their bytes.\<close>

definition ListSitePublications :: "store \<Rightarrow> site_publication list" where
  "ListSitePublications s = sort_key (\<lambda>p. st_ID (sp_Site p)) (publications s)"

definition deployed_before :: "store \<Rightarrow> site \<Rightarrow> bool" where
  "deployed_before s x \<longleftrightarrow>
     list_ex (\<lambda>t. dt_SiteID t = st_ID x \<and> dt_Kind t = KindPublishSite
       \<and> (dt_Status t \<in> {TaskSucceeded, TaskPartial}
          \<or> list_ex (\<lambda>p. ptn_TaskID p = dt_ID t) (publish_nodes s))) (deployment_tasks s)"

definition legacy_site :: "store \<Rightarrow> site \<Rightarrow> bool" where
  "legacy_site s x \<longleftrightarrow>
     \<not> list_ex (\<lambda>p. st_ID (sp_Site p) = st_ID x) (publications s) \<and> deployed_before s x"

definition CheckPublicationMigrationSafety :: "store \<Rightarrow> string \<Rightarrow> unit result" where
  "CheckPublicationMigrationSafety s excludedSiteID =
     (case sort_key st_Name (filter (\<lambda>x. st_ID x \<noteq> excludedSiteID \<and> legacy_site s x) (sites s)) of
        [] \<Rightarrow> Inr ()
      | x # _ \<Rightarrow> Inl (Errorf ''site %s has legacy deployed state without a published snapshot; publish it before rebuilding edge configuration''
                       [ArgS (st_Name x)]))"

definition PublicationMigrationRequired :: "store \<Rightarrow> string \<Rightarrow> bool" where
  "PublicationMigrationRequired s siteID \<longleftrightarrow> list_ex (\<lambda>x. st_ID x = siteID \<and> legacy_site s x) (sites s)"

text \<open>
  The row of the settings, checked when it is read; the SMTP, backup and branding columns, which the
  modelled code does not use, are left out.
\<close>

definition ControlSettings :: "store \<Rightarrow> control_settings result" where
  "ControlSettings s =
     (case settings_row s of
        None \<Rightarrow> Inr \<lparr>cs_DNSDefaultTTLSeconds = DefaultDNSTTLSeconds, cs_CacheDefaultSizeGB = DefaultCacheMaxSizeGB\<rparr>
      | Some r \<Rightarrow>
          (case ValidateDNSTTLSeconds (cs_DNSDefaultTTLSeconds r) of
             Inl e \<Rightarrow> Inl (Errorf ''stored DNS TTL: %w'' [ArgE e])
           | Inr _ \<Rightarrow>
               (case ValidateCacheMaxSizeGB (cs_CacheDefaultSizeGB r) of
                  Inl e \<Rightarrow> Inl (Errorf ''stored cache default: %w'' [ArgE e])
                | Inr _ \<Rightarrow> Inr r)))"

subsection \<open>Steps of the commit\<close>

definition upgradedNodeIDs :: "node_state_update list \<Rightarrow> publish_target list \<Rightarrow> string list" where
  "upgradedNodeIDs updates targets = map nsu_NodeID updates @ map tg_NodeID targets"

text \<open>The first node with an upgrade decides; a repeated node, which the source skips, has none.\<close>

fun ensureNodesNotUpgradingTx :: "store \<Rightarrow> string list \<Rightarrow> unit result" where
  "ensureNodesNotUpgradingTx s [] = Inr ()"
| "ensureNodesNotUpgradingTx s (nodeID # nodeIDs) =
     (if nodeID \<noteq> [] \<and> HasActiveNodeUpgrade s nodeID
      then Inl (Errorf ''node %s: %w'' [ArgS nodeID, ArgE ErrNodeUpgradeActive])
      else ensureNodesNotUpgradingTx s nodeIDs)"

definition state_row :: "node_state_update \<Rightarrow> time \<Rightarrow> node_state_row" where
  "state_row u updatedAt = \<lparr>ns_NodeID = nsu_NodeID u, ns_State = nsu_State u,
     ns_Certificates = nsu_Certificates u, ns_UpdatedAt = updatedAt\<rparr>"

fun saveNodeStatesTx :: "store \<Rightarrow> node_state_update list \<Rightarrow> time \<Rightarrow> store result" where
  "saveNodeStatesTx s [] updatedAt = Inr s"
| "saveNodeStatesTx s (u # us) updatedAt =
     (if nsu_NodeID u = [] then Inl (err ''node state is missing a node ID'')
      else if find_node s (nsu_NodeID u) = None then Inl constraint_error
      else saveNodeStatesTx (s\<lparr>node_states := upsert ns_NodeID (state_row u updatedAt) (node_states s)\<rparr>) us updatedAt)"

definition SaveNodeStates :: "store \<Rightarrow> node_state_update list \<Rightarrow> time \<Rightarrow> store result" where
  "SaveNodeStates s updates now = (if updates = [] then Inr s else saveNodeStatesTx s updates now)"

text \<open>The copy takes the certificate as it is now and keeps the DNS lifetime of its predecessor.\<close>

definition new_publication :: "store \<Rightarrow> site \<Rightarrow> time \<Rightarrow> site_publication" where
  "new_publication s x publishedAt =
     (let c = find_row (\<lambda>c. ce_SiteID c = st_ID x) (certificates s);
          ttl = (case find_row (\<lambda>p. st_ID (sp_Site p) = st_ID x) (publications s) of
                   None \<Rightarrow> 0 | Some p \<Rightarrow> if sp_DNSTTLSeconds p > 0 then sp_DNSTTLSeconds p else 0)
      in \<lparr>sp_Site = x,
          sp_CertificateCiphertext = (case c of None \<Rightarrow> [] | Some r \<Rightarrow> ce_Certificate r),
          sp_KeyCiphertext = (case c of None \<Rightarrow> [] | Some r \<Rightarrow> ce_Key r),
          sp_CertificateNotAfter = (case c of None \<Rightarrow> None | Some r \<Rightarrow> ce_NotAfter r),
          sp_DNSTTLSeconds = ttl, sp_PublishedAt = publishedAt\<rparr>)"

definition saveSitePublicationTx :: "store \<Rightarrow> site \<Rightarrow> time \<Rightarrow> store" where
  "saveSitePublicationTx s x publishedAt =
     s\<lparr>publications := upsert (\<lambda>p. st_ID (sp_Site p)) (new_publication s x publishedAt) (publications s)\<rparr>"

text \<open>
  Cancelling a drain fails its cleanup task, if that is still active, and deletes the drain. Recording
  one does nothing when the node already drains the site; otherwise a known identifier, or a site or
  node that does not exist, is a violated constraint. \<open>fresh\<close> are the generated identifiers.
\<close>

definition drain_at :: "drain_key \<Rightarrow> site_node_drain \<Rightarrow> bool" where
  "drain_at key d \<longleftrightarrow> dr_SiteID d = dk_SiteID key \<and> dr_NodeID d = dk_NodeID key"

definition cancel_drain :: "store \<Rightarrow> drain_key \<Rightarrow> time \<Rightarrow> store" where
  "cancel_drain s key updatedAt =
     (let s1 = (case find_row (drain_at key) (drains s) of
            None \<Rightarrow> s
          | Some d \<Rightarrow>
              s\<lparr>deployment_tasks := update_rows
                  (\<lambda>t. Some (dt_ID t) = dr_CleanupTaskID d \<and> active_task_status (dt_Status t))
                  (\<lambda>t. t\<lparr>dt_Status := TaskFailed, dt_Detail := err ''drain cleanup superseded by a new publication'',
                         dt_UpdatedAt := updatedAt\<rparr>) (deployment_tasks s)\<rparr>)
      in s1\<lparr>drains := delete_rows (drain_at key) (drains s1)\<rparr>)"

fun cancelSiteNodeDrainsTx :: "store \<Rightarrow> drain_key list \<Rightarrow> time \<Rightarrow> store result" where
  "cancelSiteNodeDrainsTx s [] updatedAt = Inr s"
| "cancelSiteNodeDrainsTx s (key # keys) updatedAt =
     (if dk_SiteID key = [] \<or> dk_NodeID key = [] then Inl (err ''invalid site node drain key'')
      else cancelSiteNodeDrainsTx (cancel_drain s key updatedAt) keys updatedAt)"

definition drain_row :: "drain_input \<Rightarrow> string \<Rightarrow> time \<Rightarrow> site_node_drain" where
  "drain_row inp fresh updatedAt =
     \<lparr>dr_ID = (if di_ID inp = [] then fresh else di_ID inp), dr_SiteID = di_SiteID inp, dr_NodeID = di_NodeID inp,
      dr_Site = di_Site inp, dr_CertificateCiphertext = di_CertificateCiphertext inp,
      dr_KeyCiphertext = di_KeyCiphertext inp, dr_CertificateNotAfter = di_CertificateNotAfter inp,
      dr_DNSTTLSeconds = (if di_DNSTTLSeconds inp < 1 then DefaultDNSTTLSeconds else di_DNSTTLSeconds inp),
      dr_DNSReadyAt = None, dr_RemoveAfter = None, dr_CleanupTaskID = None,
      dr_CreatedAt = updatedAt, dr_UpdatedAt = updatedAt\<rparr>"

fun createSiteNodeDrainsTx :: "store \<Rightarrow> drain_input list \<Rightarrow> (nat \<Rightarrow> string) \<Rightarrow> time \<Rightarrow> store result" where
  "createSiteNodeDrainsTx s [] fresh updatedAt = Inr s"
| "createSiteNodeDrainsTx s (inp # inps) fresh updatedAt =
     (if di_SiteID inp = [] \<or> di_NodeID inp = [] \<or> st_ID (di_Site inp) = [] \<or> di_SiteID inp \<noteq> st_ID (di_Site inp)
      then Inl (err ''invalid site node drain snapshot'')
      else if list_ex (\<lambda>d. dr_SiteID d = di_SiteID inp \<and> dr_NodeID d = di_NodeID inp) (drains s)
        then createSiteNodeDrainsTx s inps (\<lambda>i. fresh (Suc i)) updatedAt
      else if list_ex (\<lambda>d. dr_ID d = dr_ID (drain_row inp (fresh 0) updatedAt)) (drains s)
          \<or> find_site s (di_SiteID inp) = None \<or> find_node s (di_NodeID inp) = None
        then Inl constraint_error
      else createSiteNodeDrainsTx (s\<lparr>drains := drains s @ [drain_row inp (fresh 0) updatedAt]\<rparr>) inps
             (\<lambda>i. fresh (Suc i)) updatedAt)"

text \<open>\<open>site_domains\<close> holds pairs of a domain name and the site that claims it; the name is its key.\<close>

fun claim_each :: "store \<Rightarrow> string \<Rightarrow> string list \<Rightarrow> store result" where
  "claim_each s siteID [] = Inr s"
| "claim_each s siteID (d # ds) =
     (if list_ex (\<lambda>c. fst c = d) (site_domains s) \<or> find_site s siteID = None
      then Inl (Errorf ''domain %s is already assigned to another site: %w'' [ArgS d, ArgE constraint_error])
      else claim_each (s\<lparr>site_domains := site_domains s @ [(d, siteID)]\<rparr>) siteID ds)"

definition claimDomains :: "store \<Rightarrow> string \<Rightarrow> string list \<Rightarrow> store result" where
  "claimDomains s siteID domains = claim_each s siteID (dedup {} domains)"

definition replaceSiteDomainClaims :: "store \<Rightarrow> string \<Rightarrow> string list \<Rightarrow> store result" where
  "replaceSiteDomainClaims s siteID domains =
     claimDomains (s\<lparr>site_domains := delete_rows (\<lambda>c. snd c = siteID) (site_domains s)\<rparr>) siteID domains"

definition publishedSiteDomains :: "store \<Rightarrow> string \<Rightarrow> string list" where
  "publishedSiteDomains s siteID =
     (case find_row (\<lambda>p. st_ID (sp_Site p) = siteID) (publications s) of
        None \<Rightarrow> [] | Some p \<Rightarrow> st_Domains (sp_Site p))"

definition reset_ipv6_health :: "store \<Rightarrow> string \<Rightarrow> store" where
  "reset_ipv6_health s siteID = s\<lparr>site_healths := update_rows (\<lambda>h. sh_SiteID h = siteID)
     (\<lambda>h. h\<lparr>sh6_ConsecutiveFailures := 0, sh6_ConsecutiveSuccesses := 0, sh6_DNSEligible := False,
            sh6_LastCheckedAt := None, sh6_LastError := []\<rparr>) (site_healths s)\<rparr>"

definition mark_published :: "store \<Rightarrow> string \<Rightarrow> time \<Rightarrow> store result" where
  "mark_published s siteID publishedAt =
     (if count_rows (\<lambda>x. st_ID x = siteID \<and> \<not> st_Deleting x) (sites s) \<noteq> 1 then Inl ErrNotFound
      else Inr (s\<lparr>sites := update_rows (\<lambda>x. st_ID x = siteID \<and> \<not> st_Deleting x)
             (\<lambda>x. x\<lparr>st_Published := True, st_UpdatedAt := publishedAt\<rparr>) (sites s)\<rparr>))"

subsection \<open>The commit\<close>

text \<open>
  \<open>stage_publication\<close> is the part of the transaction after its checks; a failure anywhere leaves the
  store as it was.
\<close>

definition stage_publication :: "store \<Rightarrow> site \<Rightarrow> string \<Rightarrow> node_state_update list \<Rightarrow> publish_target list \<Rightarrow>
    drain_input list \<Rightarrow> drain_key list \<Rightarrow> (nat \<Rightarrow> string) \<Rightarrow> time \<Rightarrow> store result" where
  "stage_publication s x publishTaskID updates targets inps keys fresh now =
     (case createPublishTaskNodesTx s publishTaskID targets of Inl e \<Rightarrow> Inl e | Inr s1 \<Rightarrow>
      case saveNodeStatesTx (saveSitePublicationTx s1 x now) updates now of Inl e \<Rightarrow> Inl e | Inr s2 \<Rightarrow>
      case cancelSiteNodeDrainsTx s2 keys now of Inl e \<Rightarrow> Inl e | Inr s3 \<Rightarrow>
      createSiteNodeDrainsTx s3 inps fresh now)"

definition previous_ipv6 :: "store \<Rightarrow> string \<Rightarrow> bool" where
  "previous_ipv6 s siteID = (case find_row (\<lambda>p. st_ID (sp_Site p) = siteID) (publications s) of
     None \<Rightarrow> False | Some p \<Rightarrow> st_IPv6Enabled (sp_Site p))"

definition CommitSitePublicationWithDrains :: "store \<Rightarrow> string \<Rightarrow> int \<Rightarrow> string \<Rightarrow> node_state_update list \<Rightarrow>
    publish_target list \<Rightarrow> drain_input list \<Rightarrow> drain_key list \<Rightarrow> (nat \<Rightarrow> string) \<Rightarrow> time \<Rightarrow> (store \<times> site) result" where
  "CommitSitePublicationWithDrains s siteID expectedConfigVersion publishTaskID updates targets inps keys fresh now =
     (case find_site s siteID of
        None \<Rightarrow> Inl ErrNotFound
      | Some draft \<Rightarrow>
          if st_Deleting draft then Inl ErrSiteDeleting
          else if expectedConfigVersion \<noteq> 0 \<and> st_ConfigVersion draft \<noteq> expectedConfigVersion then Inl ErrSiteChanged
          else
            (case ensureNodesNotUpgradingTx s (upgradedNodeIDs updates targets) of
               Inl e \<Rightarrow> Inl e
             | Inr _ \<Rightarrow>
                 (let x = draft\<lparr>st_Published := True, st_UpdatedAt := now\<rparr> in
                  case stage_publication s x publishTaskID updates targets inps keys fresh now of
                    Inl e \<Rightarrow> Inl e
                  | Inr s1 \<Rightarrow>
                      (case replaceSiteDomainClaims s1 (st_ID x) (st_Domains x) of
                         Inl e \<Rightarrow> Inl e
                       | Inr s2 \<Rightarrow>
                           (case mark_published (if st_IPv6Enabled x \<noteq> previous_ipv6 s (st_ID x)
                                   then reset_ipv6_health s2 (st_ID x) else s2) (st_ID x) now of
                              Inl e \<Rightarrow> Inl e
                            | Inr s3 \<Rightarrow> Inr (s3, x))))))"

definition CommitSitePublication :: "store \<Rightarrow> string \<Rightarrow> int \<Rightarrow> string \<Rightarrow> node_state_update list \<Rightarrow>
    publish_target list \<Rightarrow> time \<Rightarrow> (store \<times> site) result" where
  "CommitSitePublication s siteID expectedConfigVersion publishTaskID updates targets now =
     CommitSitePublicationWithDrains s siteID expectedConfigVersion publishTaskID updates targets [] [] (\<lambda>_. []) now"

definition MarkSitePublished :: "store \<Rightarrow> string \<Rightarrow> time \<Rightarrow> (store \<times> site) result" where
  "MarkSitePublished s siteID now = CommitSitePublication s siteID 0 [] [] [] now"

subsection \<open>The stages of a drain\<close>

text \<open>A row with a lifetime below 1 reads as the default.\<close>

definition read_drain :: "site_node_drain \<Rightarrow> site_node_drain" where
  "read_drain d = (if dr_DNSTTLSeconds d < 1 then d\<lparr>dr_DNSTTLSeconds := DefaultDNSTTLSeconds\<rparr> else d)"

definition ListSiteNodeDrains :: "store \<Rightarrow> site_node_drain list" where
  "ListSiteNodeDrains s = map read_drain (sort_key (\<lambda>d. (dr_SiteID d, dr_NodeID d)) (drains s))"

definition ListSiteNodeDrainsForSite :: "store \<Rightarrow> string \<Rightarrow> site_node_drain list" where
  "ListSiteNodeDrainsForSite s siteID =
     map read_drain (sort_key dr_NodeID (filter (\<lambda>d. dr_SiteID d = siteID) (drains s)))"

definition due_drain :: "time \<Rightarrow> site_node_drain \<Rightarrow> bool" where
  "due_drain at d \<longleftrightarrow> (case dr_RemoveAfter d of None \<Rightarrow> False | Some t \<Rightarrow> text_le t at) \<and> dr_CleanupTaskID d = None"

definition ListDueSiteNodeDrains :: "store \<Rightarrow> time \<Rightarrow> site_node_drain list" where
  "ListDueSiteNodeDrains s at =
     map read_drain (sort_key (\<lambda>d. (stamp (the (dr_RemoveAfter d)), dr_SiteID d, dr_NodeID d))
       (filter (due_drain at) (drains s)))"

definition SiteNodeDrainsConverging :: "store \<Rightarrow> string \<Rightarrow> bool" where
  "SiteNodeDrainsConverging s siteID \<longleftrightarrow>
     list_ex (\<lambda>d. dr_SiteID d = siteID \<and> dr_DNSReadyAt d = None \<and>
       (case find_node s (dr_NodeID d) of
          None \<Rightarrow> True
        | Some n \<Rightarrow> nd_Status n = NodeActive \<and>
            (case find_row (\<lambda>r. ns_NodeID r = dr_NodeID d) (node_states s) of
               None \<Rightarrow> True
             | Some r \<Rightarrow> nd_AppliedVersion n < ds_Version (ns_State r)))) (drains s)"

text \<open>\<open>removal_time\<close> is the arithmetic of \<open>time.Duration\<close>, which wraps at 64 bits.\<close>

definition wrap64 :: "int \<Rightarrow> int" where
  "wrap64 x = (x + 2 ^ 63) mod 2 ^ 64 - 2 ^ 63"

definition removal_time :: "time \<Rightarrow> int \<Rightarrow> duration \<Rightarrow> time" where
  "removal_time readyAt ttl grace = readyAt + wrap64 (wrap64 (ttl * second) + grace)"

definition effective_ttls :: "int \<Rightarrow> int \<Rightarrow> int \<times> int" where
  "effective_ttls providerTTL drainTTL =
     (let p = (if providerTTL < 1 then DefaultDNSTTLSeconds else providerTTL);
          d = (if drainTTL < 1 then p else drainTTL)
      in (p, if d < p then p else d))"

definition start_drains :: "string \<Rightarrow> time \<Rightarrow> int \<Rightarrow> duration \<Rightarrow> site_node_drain list \<Rightarrow> site_node_drain list" where
  "start_drains siteID readyAt ttl grace =
     update_rows (\<lambda>d. dr_SiteID d = siteID \<and> dr_DNSReadyAt d = None)
       (\<lambda>d. d\<lparr>dr_DNSTTLSeconds := ttl, dr_DNSReadyAt := Some readyAt,
              dr_RemoveAfter := Some (removal_time readyAt ttl grace), dr_UpdatedAt := readyAt\<rparr>)"

definition MarkSiteNodeDrainsDNSReadyForPublication :: "store \<Rightarrow> string \<Rightarrow> time \<Rightarrow> time \<Rightarrow> int \<Rightarrow> int \<Rightarrow> duration
    \<Rightarrow> (store \<times> nat \<times> bool) result" where
  "MarkSiteNodeDrainsDNSReadyForPublication s siteID publishedAt readyAt providerTTL drainTTL grace =
     (if TrimSpace siteID = [] then Inl (err ''site ID is required'')
      else if is_zero_time publishedAt then Inl (err ''publication timestamp is required'')
      else if grace < 0 then Inl (err ''drain grace cannot be negative'')
      else
        (let (p, d) = effective_ttls providerTTL drainTTL;
             hit = (\<lambda>q. st_ID (sp_Site q) = siteID \<and> sp_PublishedAt q = publishedAt);
             n = count_rows hit (publications s)
         in if n = 0 then Inr (s, 0, False)
            else if n \<noteq> 1 then Inl (Errorf ''publication %s matched %d rows'' [ArgS siteID, ArgI (int n)])
            else Inr (s\<lparr>publications := update_rows hit (\<lambda>q. q\<lparr>sp_DNSTTLSeconds := p\<rparr>) (publications s),
                        drains := start_drains siteID readyAt d grace (drains s)\<rparr>,
                      count_rows (\<lambda>x. dr_SiteID x = siteID \<and> dr_DNSReadyAt x = None) (drains s), True)))"

definition MarkSiteNodeDrainsDNSReadyWithTTLs :: "store \<Rightarrow> string \<Rightarrow> time \<Rightarrow> int \<Rightarrow> int \<Rightarrow> duration
    \<Rightarrow> (store \<times> nat) result" where
  "MarkSiteNodeDrainsDNSReadyWithTTLs s siteID readyAt providerTTL drainTTL grace =
     (if TrimSpace siteID = [] then Inl (err ''site ID is required'')
      else case SitePublication s siteID of
        Inl e \<Rightarrow> Inl e
      | Inr p \<Rightarrow>
          (case MarkSiteNodeDrainsDNSReadyForPublication s siteID (sp_PublishedAt p) readyAt providerTTL drainTTL grace of
             Inl e \<Rightarrow> Inl e
           | Inr (s', changed, current) \<Rightarrow> if \<not> current then Inl ErrSiteChanged else Inr (s', changed)))"

definition MarkSiteNodeDrainsDNSReady :: "store \<Rightarrow> string \<Rightarrow> time \<Rightarrow> int \<Rightarrow> duration \<Rightarrow> (store \<times> nat) result" where
  "MarkSiteNodeDrainsDNSReady s siteID readyAt ttlSeconds grace =
     MarkSiteNodeDrainsDNSReadyWithTTLs s siteID readyAt ttlSeconds ttlSeconds grace"

fun claim_drains :: "store \<Rightarrow> string \<Rightarrow> string list \<Rightarrow> time \<Rightarrow> store result" where
  "claim_drains s taskID [] now = Inr s"
| "claim_drains s taskID (i # ids) now =
     (let hit = (\<lambda>d. dr_ID d = i \<and> due_drain now d) in
      if TrimSpace i = [] then Inl (err ''drain cleanup contains an empty drain ID'')
      else if count_rows hit (drains s) > 0 \<and> find_task s taskID = None then Inl constraint_error
      else if count_rows hit (drains s) \<noteq> 1 then Inl (Errorf ''drain %s is no longer eligible for cleanup'' [ArgS i])
      else claim_drains (s\<lparr>drains := update_rows hit
             (\<lambda>d. d\<lparr>dr_CleanupTaskID := Some taskID, dr_UpdatedAt := now\<rparr>) (drains s)\<rparr>) taskID ids now)"

definition StageDrainCleanup :: "store \<Rightarrow> string \<Rightarrow> string list \<Rightarrow> node_state_update list \<Rightarrow> publish_target list
    \<Rightarrow> time \<Rightarrow> store result" where
  "StageDrainCleanup s taskID drainIDs updates targets now =
     (if TrimSpace taskID = [] \<or> drainIDs = [] then Inl (err ''drain cleanup is missing task or drain IDs'')
      else case ensureNodesNotUpgradingTx s (upgradedNodeIDs updates targets) of Inl e \<Rightarrow> Inl e | Inr _ \<Rightarrow>
      case claim_drains s taskID drainIDs now of Inl e \<Rightarrow> Inl e | Inr s1 \<Rightarrow>
      case createPublishTaskNodesTx s1 taskID targets of Inl e \<Rightarrow> Inl e | Inr s2 \<Rightarrow>
      case saveNodeStatesTx s2 updates now of Inl e \<Rightarrow> Inl e | Inr s3 \<Rightarrow>
      Inr (s3\<lparr>deployment_tasks := update_rows (\<lambda>t. dt_ID t = taskID \<and> active_task_status (dt_Status t))
             (\<lambda>t. t\<lparr>dt_Status := TaskApplying, dt_Detail := err ''waiting for edge confirmation of expired drain removal'',
                    dt_UpdatedAt := now\<rparr>) (deployment_tasks s3)\<rparr>))"

definition applied_without_task :: "store \<Rightarrow> site_node_drain \<Rightarrow> bool" where
  "applied_without_task s d \<longleftrightarrow> dr_CleanupTaskID d = None \<and>
     list_ex (\<lambda>n. nd_ID n = dr_NodeID d \<and> nd_Status n = NodeActive \<and>
       list_ex (\<lambda>r. ns_NodeID r = nd_ID n \<and> nd_AppliedVersion n \<ge> ds_Version (ns_State r)) (node_states s)) (nodes s)"

definition PruneAppliedSiteNodeDrains :: "store \<Rightarrow> string list \<Rightarrow> store \<times> nat" where
  "PruneAppliedSiteNodeDrains s drainIDs =
     (let hit = (\<lambda>d. dr_ID d \<in> set drainIDs \<and> applied_without_task s d)
      in (s\<lparr>drains := delete_rows hit (drains s)\<rparr>, count_rows hit (drains s)))"

end
