(* ===== verification/Publisher.thy ===== *)
theory Publisher
  imports Publication
begin

section \<open>Preparing a publication (internal/control/publisher.go)\<close>

text \<open>
  Before a commit the publisher collects what every affected node will serve: the published copies of
  the other sites, the new draft, and a snapshot for every node that still drains. It decides which
  drains the commit creates and cancels. Rendering that material to the text of an Nginx configuration
  (\<open>renderNodeStateUpdates\<close> and \<open>internal/nginx\<close>) is not modelled: the desired states and targets
  it yields are arguments of the commit. \<open>sort.Slice\<close> orders the material by site and leaves the order
  of equal sites open; the model keeps the order of collection, so no property depends on it.
\<close>

record publication_material =
  pm_Site :: site
  pm_CertificateCiphertext :: string
  pm_KeyCiphertext :: string
  pm_NodeIDs :: "string list option"
  pm_AllowExpired :: bool

record prepared_publication =
  pp_materials :: "publication_material list"
  pp_affected :: "string list"
  pp_drains :: "drain_input list"
  pp_cancelDrains :: "drain_key list"

definition SiteNeedsCertificate :: "site \<Rightarrow> bool" where
  "SiteNeedsCertificate x \<longleftrightarrow> \<not> st_TCPOnly x \<or> list_ex tf_ListenTLS (st_TCPForwards x)"

definition Certificate :: "store \<Rightarrow> string \<Rightarrow> certificate_row result" where
  "Certificate s siteID =
     (case find_row (\<lambda>c. ce_SiteID c = siteID) (certificates s) of None \<Rightarrow> Inl ErrNotFound | Some c \<Rightarrow> Inr c)"

definition published_material :: "site_publication \<Rightarrow> publication_material" where
  "published_material p = \<lparr>pm_Site = sp_Site p, pm_CertificateCiphertext = sp_CertificateCiphertext p,
     pm_KeyCiphertext = sp_KeyCiphertext p, pm_NodeIDs = None, pm_AllowExpired = False\<rparr>"

definition drain_material :: "site_node_drain \<Rightarrow> publication_material" where
  "drain_material d = \<lparr>pm_Site = dr_Site d, pm_CertificateCiphertext = dr_CertificateCiphertext d,
     pm_KeyCiphertext = dr_KeyCiphertext d, pm_NodeIDs = Some [dr_NodeID d], pm_AllowExpired = True\<rparr>"

definition input_material :: "drain_input \<Rightarrow> publication_material" where
  "input_material i = \<lparr>pm_Site = di_Site i, pm_CertificateCiphertext = di_CertificateCiphertext i,
     pm_KeyCiphertext = di_KeyCiphertext i, pm_NodeIDs = Some [di_NodeID i], pm_AllowExpired = True\<rparr>"

definition publicationMaterials :: "site_publication list \<Rightarrow> publication_material list" where
  "publicationMaterials ps = map published_material (filter (\<lambda>p. \<not> st_Deleting (sp_Site p)) ps)"

definition publicationMaterialsWithDrains :: "site_publication list \<Rightarrow> site_node_drain list \<Rightarrow> string set
    \<Rightarrow> publication_material list" where
  "publicationMaterialsWithDrains ps ds excluded =
     publicationMaterials ps @ map drain_material (filter (\<lambda>d. dr_CleanupTaskID d = None \<and> dr_ID d \<notin> excluded) ds)"

text \<open>The lifetime that answers naming the old node may still have.\<close>

definition previous_ttl :: "store \<Rightarrow> site_publication \<Rightarrow> int result" where
  "previous_ttl s prev =
     (let t = (if sp_DNSTTLSeconds prev < 1 then DefaultDNSTTLSeconds else sp_DNSTTLSeconds prev) in
      case st_DNSTTLSeconds (sp_Site prev) of
        Some v \<Rightarrow>
          if v > 0 then Inr (max v t)
          else (case ControlSettings s of
              Inl e \<Rightarrow> Inl (Errorf ''read DNS TTL for site %s drain: %w'' [ArgS (st_ID (sp_Site prev)), ArgE e])
            | Inr c \<Rightarrow> Inr (max (cs_DNSDefaultTTLSeconds c) t))
      | None \<Rightarrow>
          (case ControlSettings s of
              Inl e \<Rightarrow> Inl (Errorf ''read DNS TTL for site %s drain: %w'' [ArgS (st_ID (sp_Site prev)), ArgE e])
            | Inr c \<Rightarrow> Inr (max (cs_DNSDefaultTTLSeconds c) t)))"

definition drain_input_for :: "site_publication \<Rightarrow> int \<Rightarrow> string \<Rightarrow> drain_input" where
  "drain_input_for prev ttl nodeID =
     \<lparr>di_ID = [], di_SiteID = st_ID (sp_Site prev), di_NodeID = nodeID, di_Site = sp_Site prev,
      di_CertificateCiphertext = sp_CertificateCiphertext prev, di_KeyCiphertext = sp_KeyCiphertext prev,
      di_CertificateNotAfter = sp_CertificateNotAfter prev, di_DNSTTLSeconds = ttl\<rparr>"

text \<open>The drain that the map \<open>existingDrains\<close> of the site holds for a node.\<close>

definition existing_drain :: "store \<Rightarrow> string \<Rightarrow> string \<Rightarrow> site_node_drain option" where
  "existing_drain s siteID nodeID = find_row (\<lambda>d. dr_NodeID d = nodeID) (ListSiteNodeDrainsForSite s siteID)"

definition leaving_drains :: "store \<Rightarrow> site \<Rightarrow> site_publication option \<Rightarrow> drain_input list result" where
  "leaving_drains s target previous =
     (case previous of
        None \<Rightarrow> Inr []
      | Some prev \<Rightarrow>
          (case previous_ttl s prev of
             Inl e \<Rightarrow> Inl e
           | Inr ttl \<Rightarrow> Inr (map (drain_input_for prev ttl)
               (filter (\<lambda>nodeID. nodeID \<notin> set (AssignedNodeIDs target) \<and> existing_drain s (st_ID target) nodeID = None)
                  (AssignedNodeIDs (sp_Site prev))))))"

definition cancelled_keys :: "store \<Rightarrow> site \<Rightarrow> drain_key list" where
  "cancelled_keys s target =
     map (\<lambda>nodeID. \<lparr>dk_SiteID = st_ID target, dk_NodeID = nodeID\<rparr>)
       (filter (\<lambda>nodeID. existing_drain s (st_ID target) nodeID \<noteq> None) (AssignedNodeIDs target))"

definition target_material :: "store \<Rightarrow> site \<Rightarrow> publication_material result" where
  "target_material s target =
     (case Certificate s (st_ID target) of
        Inl e \<Rightarrow>
          if e \<noteq> ErrNotFound then Inl e
          else if st_Enabled target \<and> SiteNeedsCertificate target
            then Inl (Errorf ''site %s needs a certificate before it can be published'' [ArgS (st_Name target)])
          else Inr \<lparr>pm_Site = target, pm_CertificateCiphertext = [], pm_KeyCiphertext = [],
                    pm_NodeIDs = None, pm_AllowExpired = False\<rparr>
      | Inr c \<Rightarrow> Inr \<lparr>pm_Site = target, pm_CertificateCiphertext = ce_Certificate c, pm_KeyCiphertext = ce_Key c,
                    pm_NodeIDs = None, pm_AllowExpired = False\<rparr>)"

text \<open>What the site itself contributes: its material, the drains to create and to cancel.\<close>

definition site_contribution :: "store \<Rightarrow> site \<Rightarrow> site_publication option \<Rightarrow> bool
    \<Rightarrow> (publication_material list \<times> drain_input list \<times> drain_key list) result" where
  "site_contribution s target previous removing =
     (if removing then Inr ([], [], [])
      else case target_material s target of Inl e \<Rightarrow> Inl e | Inr m \<Rightarrow>
      case leaving_drains s target previous of Inl e \<Rightarrow> Inl e | Inr ds \<Rightarrow>
      Inr ([m], ds, cancelled_keys s target))"

definition cancelled_ids :: "store \<Rightarrow> site \<Rightarrow> bool \<Rightarrow> string list" where
  "cancelled_ids s target removing =
     map dr_ID (filter (\<lambda>d. removing \<or> dr_NodeID d \<in> set (AssignedNodeIDs target))
       (ListSiteNodeDrainsForSite s (st_ID target)))"

definition kept_drains :: "store \<Rightarrow> site \<Rightarrow> bool \<Rightarrow> site_node_drain list" where
  "kept_drains s target removing =
     filter (\<lambda>d. dr_ID d \<notin> set (cancelled_ids s target removing) \<and> dr_CleanupTaskID d = None) (ListSiteNodeDrains s)"

definition affected_nodes :: "store \<Rightarrow> site \<Rightarrow> site_publication option \<Rightarrow> bool \<Rightarrow> string list" where
  "affected_nodes s target previous removing =
     (case previous of None \<Rightarrow> [] | Some p \<Rightarrow> AssignedNodeIDs (sp_Site p)) @ AssignedNodeIDs target
     @ (if removing then map dr_NodeID (ListSiteNodeDrainsForSite s (st_ID target)) else [])
     @ (if PublicationMigrationRequired s (st_ID target) then map nd_ID (nodes s) else [])"

definition prepareNodeStatesWithDrains :: "store \<Rightarrow> string \<Rightarrow> bool \<Rightarrow> prepared_publication result" where
  "prepareNodeStatesWithDrains s siteID removing =
     (case CheckPublicationMigrationSafety s (if removing then [] else siteID) of Inl e \<Rightarrow> Inl e | Inr _ \<Rightarrow>
      case find_site s siteID of None \<Rightarrow> Inl ErrNotFound | Some target \<Rightarrow>
      if \<not> removing \<and> st_Deleting target then Inl ErrSiteDeleting
      else
        (let ps = ListSitePublications s;
             previous = find_row (\<lambda>p. st_ID (sp_Site p) = siteID) ps;
             others = filter (\<lambda>p. st_ID (sp_Site p) \<noteq> siteID) ps
         in case site_contribution s target previous removing of Inl e \<Rightarrow> Inl e
            | Inr (own, ds, keys) \<Rightarrow>
                Inr \<lparr>pp_materials = publicationMaterials others @ own @ map input_material ds
                       @ map drain_material (kept_drains s target removing),
                     pp_affected = affected_nodes s target previous removing,
                     pp_drains = ds, pp_cancelDrains = keys\<rparr>))"

text \<open>\<open>publishSite\<close>: what was rendered from the prepared material is committed with its drains.\<close>

definition publishSite :: "store \<Rightarrow> string \<Rightarrow> string \<Rightarrow> int \<Rightarrow>
    (prepared_publication \<Rightarrow> (node_state_update list \<times> publish_target list) result) \<Rightarrow> (nat \<Rightarrow> string) \<Rightarrow> time \<Rightarrow>
    (store \<times> publish_target list) result" where
  "publishSite s siteID publishTaskID expectedConfigVersion renderNodeStateUpdates fresh now =
     (case prepareNodeStatesWithDrains s siteID False of Inl e \<Rightarrow> Inl e | Inr p \<Rightarrow>
      case renderNodeStateUpdates p of Inl e \<Rightarrow> Inl e | Inr (updates, targets) \<Rightarrow>
      case CommitSitePublicationWithDrains s siteID expectedConfigVersion publishTaskID updates targets
             (pp_drains p) (pp_cancelDrains p) fresh now of
        Inl e \<Rightarrow> Inl e
      | Inr (s', _) \<Rightarrow> Inr (s', targets))"

end
