(* ===== verification/Publication_Facts.thy ===== *)
theory Publication_Facts
  imports Publisher
begin

section \<open>Properties of publications\<close>

text \<open>
  First what each step of the commit changes, then the three promises of a publication: no node stops
  serving a site without a drain, no node that serves a site drains it, and a domain name belongs to at
  most one site.
\<close>

subsection \<open>Frames of the steps\<close>

lemma insert_targets_frame: "insert_targets s i ts = Inr s' \<Longrightarrow> \<exists>ps. s' = s\<lparr>publish_nodes := ps\<rparr>"
proof (induction s i ts rule: insert_targets.induct)
  case (1 s taskID)
  then show ?case by (auto intro: exI [of _ "publish_nodes s"])
next
  case (2 s taskID t ts)
  then obtain ps where "s' = s\<lparr>publish_nodes := publish_nodes s @ [pending_row taskID t]\<rparr>\<lparr>publish_nodes := ps\<rparr>"
    by (auto split: if_splits)
  then show ?case by auto
qed

lemma createPublishTaskNodesTx_frame:
  "createPublishTaskNodesTx s i ts = Inr s' \<Longrightarrow> \<exists>ps. s' = s\<lparr>publish_nodes := ps\<rparr>"
  by (auto simp: createPublishTaskNodesTx_def intro: insert_targets_frame)

lemma saveNodeStatesTx_frame: "saveNodeStatesTx s us t = Inr s' \<Longrightarrow> \<exists>ns. s' = s\<lparr>node_states := ns\<rparr>"
proof (induction s us t rule: saveNodeStatesTx.induct)
  case (1 s t)
  then show ?case by (auto intro: exI [of _ "node_states s"])
next
  case (2 s u us t)
  then obtain ns where "s' = s\<lparr>node_states := upsert ns_NodeID (state_row u t) (node_states s)\<rparr>\<lparr>node_states := ns\<rparr>"
    by (auto split: if_splits)
  then show ?case by auto
qed

lemma cancel_drain_frame:
  "\<exists>ts. cancel_drain s k t = s\<lparr>deployment_tasks := ts, drains := delete_rows (drain_at k) (drains s)\<rparr>
     \<and> map dt_ID ts = map dt_ID (deployment_tasks s)"
  by (auto simp: cancel_drain_def Let_def map_key_update_rows split: option.split
      intro: exI [of _ "deployment_tasks s"])

lemma delete_rows_twice: "delete_rows P (delete_rows Q rs) = delete_rows (\<lambda>r. Q r \<or> P r) rs"
  by (simp add: delete_rows_def conj_commute)

lemma cancelSiteNodeDrainsTx_frame:
  "cancelSiteNodeDrainsTx s ks t = Inr s' \<Longrightarrow>
     \<exists>ts. s' = s\<lparr>deployment_tasks := ts, drains := delete_rows (\<lambda>d. \<exists>k \<in> set ks. drain_at k d) (drains s)\<rparr>
       \<and> map dt_ID ts = map dt_ID (deployment_tasks s)"
proof (induction s ks t rule: cancelSiteNodeDrainsTx.induct)
  case (1 s t)
  then show ?case by (auto simp: delete_rows_def intro: exI [of _ "deployment_tasks s"])
next
  case (2 s k ks t)
  obtain ts where c: "cancel_drain s k t = s\<lparr>deployment_tasks := ts, drains := delete_rows (drain_at k) (drains s)\<rparr>"
    "map dt_ID ts = map dt_ID (deployment_tasks s)"
    using cancel_drain_frame by blast
  from 2 obtain ts' where "s' = cancel_drain s k t
      \<lparr>deployment_tasks := ts', drains := delete_rows (\<lambda>d. \<exists>k \<in> set ks. drain_at k d) (drains (cancel_drain s k t))\<rparr>"
      "map dt_ID ts' = map dt_ID (deployment_tasks (cancel_drain s k t))"
    by (auto split: if_splits)
  then show ?case by (auto simp: c delete_rows_twice)
qed

text \<open>The drains that are recorded: one for each input whose node does not drain the site yet.\<close>

definition drain_key_of :: "site_node_drain \<Rightarrow> string \<times> string" where
  "drain_key_of d = (dr_SiteID d, dr_NodeID d)"

lemma createSiteNodeDrainsTx_frame:
  "createSiteNodeDrainsTx s inps fresh t = Inr s' \<Longrightarrow>
     \<exists>ds. s' = s\<lparr>drains := drains s @ ds\<rparr>
       \<and> (\<forall>d \<in> set ds. \<exists>i \<in> set inps. \<exists>f. d = drain_row i f t)
       \<and> (\<forall>i \<in> set inps. (di_SiteID i, di_NodeID i) \<in> drain_key_of ` set (drains s @ ds))
       \<and> (distinct (map drain_key_of (drains s)) \<longrightarrow> distinct (map drain_key_of (drains s @ ds)))"
proof (induction s inps fresh t rule: createSiteNodeDrainsTx.induct)
  case (1 s fresh t)
  then show ?case by (auto intro: exI [of _ "[]"])
next
  case (2 s i inps fresh t)
  show ?case
  proof (cases "list_ex (\<lambda>d. dr_SiteID d = di_SiteID i \<and> dr_NodeID d = di_NodeID i) (drains s)")
    case True
    then have "(di_SiteID i, di_NodeID i) \<in> drain_key_of ` set (drains s)"
      by (force simp: list_ex_iff drain_key_of_def)
    moreover have step: "createSiteNodeDrainsTx s inps (\<lambda>i. fresh (Suc i)) t = Inr s'"
      and nb: "\<not> (di_SiteID i = [] \<or> di_NodeID i = [] \<or> st_ID (di_Site i) = [] \<or> di_SiteID i \<noteq> st_ID (di_Site i))"
      using 2(3) True by (simp_all split: if_splits)
    obtain ds where ds: "s' = s\<lparr>drains := drains s @ ds\<rparr>"
       "\<forall>d \<in> set ds. \<exists>i \<in> set inps. \<exists>f. d = drain_row i f t"
       "\<forall>i \<in> set inps. (di_SiteID i, di_NodeID i) \<in> drain_key_of ` set (drains s @ ds)"
       "distinct (map drain_key_of (drains s)) \<longrightarrow> distinct (map drain_key_of (drains s @ ds))"
      using 2(1) [OF nb True step] by (elim exE conjE) (rule that)
    ultimately have "\<forall>j \<in> set (i # inps). (di_SiteID j, di_NodeID j) \<in> drain_key_of ` set (drains s @ ds)" by auto
    with ds show ?thesis by (intro exI [of _ ds]) simp
  next
    case False
    let ?d = "drain_row i (fresh 0) t"
    have key: "drain_key_of ?d = (di_SiteID i, di_NodeID i)" by (simp add: drain_key_of_def drain_row_def)
    with False have new: "drain_key_of ?d \<notin> drain_key_of ` set (drains s)"
      by (auto simp: list_ex_iff drain_key_of_def)
    from 2(3) False have step: "createSiteNodeDrainsTx (s\<lparr>drains := drains s @ [?d]\<rparr>) inps (\<lambda>i. fresh (Suc i)) t = Inr s'"
      by (simp split: if_splits)
    have "\<not> (di_SiteID i = [] \<or> di_NodeID i = [] \<or> st_ID (di_Site i) = [] \<or> di_SiteID i \<noteq> st_ID (di_Site i))"
      "\<not> (list_ex (\<lambda>d. dr_ID d = dr_ID ?d) (drains s) \<or> find_site s (di_SiteID i) = None \<or> find_node s (di_NodeID i) = None)"
      using 2(3) False by (auto split: if_splits)
    from 2(2) [OF this(1) False this(2) step] obtain ds where
      ds: "s' = s\<lparr>drains := drains s @ ?d # ds\<rparr>"
       "\<forall>d \<in> set ds. \<exists>i \<in> set inps. \<exists>f. d = drain_row i f t"
       "\<forall>i \<in> set inps. (di_SiteID i, di_NodeID i) \<in> drain_key_of ` set (drains s @ ?d # ds)"
       "distinct (map drain_key_of (drains s @ [?d])) \<longrightarrow> distinct (map drain_key_of (drains s @ ?d # ds))"
      by (elim exE conjE) (rule that, simp_all)
    have "\<forall>d \<in> set (?d # ds). \<exists>j \<in> set (i # inps). \<exists>f. d = drain_row j f t" using ds(2) by auto
    moreover have "\<forall>j \<in> set (i # inps). (di_SiteID j, di_NodeID j) \<in> drain_key_of ` set (drains s @ ?d # ds)"
      using ds(3) key by (metis image_eqI in_set_conv_decomp set_ConsD)
    moreover have "distinct (map drain_key_of (drains s)) \<longrightarrow> distinct (map drain_key_of (drains s @ ?d # ds))"
      using ds(4) new by auto
    ultimately show ?thesis using ds(1) by (intro exI [of _ "?d # ds"]) blast
  qed
qed

lemma claim_each_frame:
  "claim_each s siteID ds = Inr s' \<Longrightarrow> s' = s\<lparr>site_domains := site_domains s @ map (\<lambda>d. (d, siteID)) ds\<rparr>
     \<and> (\<forall>d \<in> set ds. d \<notin> fst ` set (site_domains s)) \<and> distinct ds"
proof (induction s siteID ds rule: claim_each.induct)
  case (2 s siteID d ds)
  then have "claim_each (s\<lparr>site_domains := site_domains s @ [(d, siteID)]\<rparr>) siteID ds = Inr s'"
    "d \<notin> fst ` set (site_domains s)" by (auto simp: list_ex_iff split: if_splits)
  with 2 show ?case by (force split: if_splits)
qed simp

lemma replaceSiteDomainClaims_frame:
  assumes "replaceSiteDomainClaims s siteID ds = Inr s'"
  shows "s' = s\<lparr>site_domains := delete_rows (\<lambda>c. snd c = siteID) (site_domains s) @ map (\<lambda>d. (d, siteID)) (dedup {} ds)\<rparr>
     \<and> (\<forall>d \<in> set ds. \<forall>c \<in> set (site_domains s). fst c = d \<longrightarrow> snd c = siteID)"
  using claim_each_frame [OF assms [unfolded replaceSiteDomainClaims_def claimDomains_def]]
  by (force simp: set_dedup)

subsection \<open>The commit as a whole\<close>

lemma CommitSitePublicationWithDrains_Inr:
  assumes "CommitSitePublicationWithDrains s siteID v task updates targets inps keys fresh now = Inr (s', x)"
  obtains draft ps ns ts ds hs ss where
    "find_site s siteID = Some draft" "\<not> st_Deleting draft" "x = draft\<lparr>st_Published := True, st_UpdatedAt := now\<rparr>"
    "s' = s\<lparr>publish_nodes := ps, publications := upsert (\<lambda>p. st_ID (sp_Site p)) (new_publication s x now) (publications s),
        node_states := ns, deployment_tasks := ts, drains := delete_rows (\<lambda>d. \<exists>k \<in> set keys. drain_at k d) (drains s) @ ds,
        site_domains := delete_rows (\<lambda>c. snd c = siteID) (site_domains s) @ map (\<lambda>d. (d, siteID)) (dedup {} (st_Domains draft)),
        site_healths := hs, sites := ss\<rparr>"
    "ss = update_rows (\<lambda>x. st_ID x = siteID \<and> \<not> st_Deleting x)
             (\<lambda>x. x\<lparr>st_Published := True, st_UpdatedAt := now\<rparr>) (sites s)"
    "\<forall>d \<in> set ds. \<exists>i \<in> set inps. \<exists>f. d = drain_row i f now"
    "\<forall>i \<in> set inps. (di_SiteID i, di_NodeID i) \<in> drain_key_of ` set (drains s')"
    "distinct (map drain_key_of (drains s)) \<longrightarrow> distinct (map drain_key_of (drains s'))"
    "\<forall>d \<in> set (st_Domains draft). \<forall>c \<in> set (site_domains s). fst c = d \<longrightarrow> snd c = siteID"
    "createPublishTaskNodesTx s task targets = Inr (s\<lparr>publish_nodes := ps\<rparr>)"
    "map dt_ID ts = map dt_ID (deployment_tasks s)"
proof -
  obtain draft where draft: "find_site s siteID = Some draft"
    using assms by (cases "find_site s siteID") (simp_all add: CommitSitePublicationWithDrains_def)
  then have id: "st_ID draft = siteID" by (auto simp: find_site_def dest: find_row_SomeD)
  define y where "y = draft\<lparr>st_Published := True, st_UpdatedAt := now\<rparr>"
  have y: "st_ID y = siteID" "st_Domains y = st_Domains draft" by (simp_all add: y_def id)
  from assms obtain s1 s2 where live: "\<not> st_Deleting draft"
    and s1: "stage_publication s y task updates targets inps keys fresh now = Inr s1"
    and s2: "replaceSiteDomainClaims s1 siteID (st_Domains draft) = Inr s2"
    and s': "mark_published (if st_IPv6Enabled y \<noteq> previous_ipv6 s siteID then reset_ipv6_health s2 siteID else s2)
        siteID now = Inr s'" and x: "x = y"
    unfolding CommitSitePublicationWithDrains_def draft option.case Let_def y_def [symmetric] y
      check_eq_Inr call_eq_Inr sum.inject prod.inject by (elim exE conjE) (rule that, assumption, assumption, assumption, erule subst, assumption, erule sym)
  from s1 obtain sa sb sc where
    sa: "createPublishTaskNodesTx s task targets = Inr sa"
    and sb: "saveNodeStatesTx (saveSitePublicationTx sa y now) updates now = Inr sb"
    and sc: "cancelSiteNodeDrainsTx sb keys now = Inr sc"
    and sd: "createSiteNodeDrainsTx sc inps fresh now = Inr s1" by (auto simp: stage_publication_def)
  obtain ps where ps: "sa = s\<lparr>publish_nodes := ps\<rparr>" using createPublishTaskNodesTx_frame [OF sa] by blast
  obtain ns where ns: "sb = saveSitePublicationTx sa y now\<lparr>node_states := ns\<rparr>" using saveNodeStatesTx_frame [OF sb] by blast
  obtain ts where ts: "sc = sb\<lparr>deployment_tasks := ts, drains := delete_rows (\<lambda>d. \<exists>k \<in> set keys. drain_at k d) (drains sb)\<rparr>"
    and tids: "map dt_ID ts = map dt_ID (deployment_tasks sb)"
    using cancelSiteNodeDrainsTx_frame [OF sc] by blast
  obtain ds where ds: "s1 = sc\<lparr>drains := drains sc @ ds\<rparr>"
       "\<forall>d \<in> set ds. \<exists>i \<in> set inps. \<exists>f. d = drain_row i f now"
       "\<forall>i \<in> set inps. (di_SiteID i, di_NodeID i) \<in> drain_key_of ` set (drains sc @ ds)"
       "distinct (map drain_key_of (drains sc)) \<longrightarrow> distinct (map drain_key_of (drains sc @ ds))"
    using createSiteNodeDrainsTx_frame [OF sd] by blast
  note cl = replaceSiteDomainClaims_frame [OF s2]
  have np: "new_publication sa y now = new_publication s y now" by (simp add: new_publication_def ps)
  define hs where "hs = site_healths (if st_IPv6Enabled y \<noteq> previous_ipv6 s siteID then reset_ipv6_health s2 siteID else s2)"
  have h: "(if st_IPv6Enabled y \<noteq> previous_ipv6 s siteID then reset_ipv6_health s2 siteID else s2) = s2\<lparr>site_healths := hs\<rparr>"
    by (simp add: hs_def reset_ipv6_health_def)
  have fin: "s' = s2\<lparr>site_healths := hs, sites := update_rows (\<lambda>x. st_ID x = siteID \<and> \<not> st_Deleting x)
             (\<lambda>x. x\<lparr>st_Published := True, st_UpdatedAt := now\<rparr>) (sites s2)\<rparr>"
    using s' unfolding h by (auto simp: mark_published_def)
  have drains: "drains s' = delete_rows (\<lambda>d. \<exists>k \<in> set keys. drain_at k d) (drains s) @ ds" "drains sc @ ds = drains s'"
    by (simp_all add: fin cl ds ts ns ps saveSitePublicationTx_def)
  have dist: "distinct (map drain_key_of (drains s)) \<longrightarrow> distinct (map drain_key_of (drains s'))"
    using ds(4) distinct_key_delete_rows [of drain_key_of "drains s"] unfolding drains(2)
    by (simp add: ts ns ps saveSitePublicationTx_def)
  have tid: "map dt_ID ts = map dt_ID (deployment_tasks s)" using tids by (simp add: ns ps saveSitePublicationTx_def)
  have eq: "s' = s\<lparr>publish_nodes := ps, publications := upsert (\<lambda>p. st_ID (sp_Site p)) (new_publication s y now) (publications s),
        node_states := ns, deployment_tasks := ts, drains := delete_rows (\<lambda>d. \<exists>k \<in> set keys. drain_at k d) (drains s) @ ds,
        site_domains := delete_rows (\<lambda>c. snd c = siteID) (site_domains s) @ map (\<lambda>d. (d, siteID)) (dedup {} (st_Domains draft)),
        site_healths := hs, sites := update_rows (\<lambda>x. st_ID x = siteID \<and> \<not> st_Deleting x)
             (\<lambda>x. x\<lparr>st_Published := True, st_UpdatedAt := now\<rparr>) (sites s)\<rparr>"
    by (simp add: fin cl ds(1) ts ns ps np [unfolded ps] saveSitePublicationTx_def)
  have claims: "\<forall>d \<in> set (st_Domains draft). \<forall>c \<in> set (site_domains s). fst c = d \<longrightarrow> snd c = siteID"
    using cl by (simp add: ds(1) ts ns ps saveSitePublicationTx_def)
  show ?thesis
    by (rule that [OF draft live x [unfolded y_def] eq [folded x] refl ds(2) ds(3) [unfolded drains(2)] dist claims
          sa [unfolded ps] tid])
qed

subsection \<open>What preparing finds\<close>

lemma read_drain_key [simp]: "dr_NodeID (read_drain d) = dr_NodeID d" "dr_SiteID (read_drain d) = dr_SiteID d"
  by (simp_all add: read_drain_def)

lemma existing_drain_None:
  "existing_drain s siteID n = None \<longleftrightarrow> (siteID, n) \<notin> drain_key_of ` set (drains s)"
  by (auto simp: existing_drain_def ListSiteNodeDrainsForSite_def find_row_None drain_key_of_def)

lemma previous_publication:
  "find_row (\<lambda>p. st_ID (sp_Site p) = siteID) (ListSitePublications s)
     = find_row (\<lambda>p. st_ID (sp_Site p) = siteID) (publications s)"
  by (simp add: ListSitePublications_def find_row_sort_key)

lemma prepareNodeStatesWithDrains_Inr:
  assumes "prepareNodeStatesWithDrains s siteID False = Inr p"
  obtains target where "find_site s siteID = Some target" "st_ID target = siteID" "\<not> st_Deleting target"
    "leaving_drains s target (find_row (\<lambda>p. st_ID (sp_Site p) = siteID) (publications s)) = Inr (pp_drains p)"
    "pp_cancelDrains p = cancelled_keys s target"
proof -
  obtain target where t: "find_site s siteID = Some target"
    using assms by (cases "find_site s siteID") (simp_all add: prepareNodeStatesWithDrains_def split: sum.splits)
  then have "st_ID target = siteID" by (auto simp: find_site_def dest: find_row_SomeD)
  with assms show ?thesis
    by (auto simp: prepareNodeStatesWithDrains_def t previous_publication site_contribution_def Let_def intro: that [OF t]
        split: sum.splits if_splits)
qed

lemma publishSite_Inr:
  assumes "publishSite s siteID task v render fresh now = Inr (s', targets)"
  obtains p updates x where "prepareNodeStatesWithDrains s siteID False = Inr p" "render p = Inr (updates, targets)"
    "CommitSitePublicationWithDrains s siteID v task updates targets (pp_drains p) (pp_cancelDrains p) fresh now = Inr (s', x)"
  using assms by (auto simp: publishSite_def split: sum.splits)

lemma drain_at_cancelled_keys:
  "(\<exists>k \<in> set (cancelled_keys s target). drain_at k d) \<longleftrightarrow>
     dr_SiteID d = st_ID target \<and> dr_NodeID d \<in> set (AssignedNodeIDs target)
     \<and> existing_drain s (st_ID target) (dr_NodeID d) \<noteq> None"
  by (auto simp: cancelled_keys_def drain_at_def)

text \<open>Everything a publication does to the publications and the drains, in one rule.\<close>

text \<open>
  A lifetime that covers every lifetime under which the old address may have been given out: the one DNS was
  last written with, the one the site asks for, and for a site that asks for none the default of the
  control settings.
\<close>

definition covers_ttl :: "store \<Rightarrow> site_publication \<Rightarrow> int \<Rightarrow> bool" where
  "covers_ttl s prev ttl \<longleftrightarrow> 1 \<le> ttl \<and> sp_DNSTTLSeconds prev \<le> ttl
     \<and> (sp_DNSTTLSeconds prev < 1 \<longrightarrow> DefaultDNSTTLSeconds \<le> ttl)
     \<and> (case st_DNSTTLSeconds (sp_Site prev) of
          Some t \<Rightarrow> t \<le> ttl \<and> (t \<le> 0 \<longrightarrow> (\<exists>c. ControlSettings s = Inr c \<and> cs_DNSDefaultTTLSeconds c \<le> ttl))
        | None \<Rightarrow> \<exists>c. ControlSettings s = Inr c \<and> cs_DNSDefaultTTLSeconds c \<le> ttl)"

definition fresh_drain :: "store \<Rightarrow> site_publication \<Rightarrow> site_node_drain \<Rightarrow> bool" where
  "fresh_drain s prev d \<longleftrightarrow> dr_Site d = sp_Site prev \<and> dr_CertificateCiphertext d = sp_CertificateCiphertext prev
     \<and> dr_KeyCiphertext d = sp_KeyCiphertext prev \<and> dr_CertificateNotAfter d = sp_CertificateNotAfter prev
     \<and> covers_ttl s prev (dr_DNSTTLSeconds d)
     \<and> dr_DNSReadyAt d = None \<and> dr_RemoveAfter d = None \<and> dr_CleanupTaskID d = None"

lemma covers_ttl_pos: "covers_ttl s prev ttl \<Longrightarrow> \<not> ttl < 1"
  by (simp add: covers_ttl_def)

lemma previous_ttl_covers: "previous_ttl s prev = Inr ttl \<Longrightarrow> covers_ttl s prev ttl"
  by (auto simp: covers_ttl_def previous_ttl_def Let_def DefaultDNSTTLSeconds_def split: option.splits if_splits sum.splits)

lemma in_leaving_drains:
  "leaving_drains s target previous = Inr ds \<Longrightarrow> i \<in> set ds \<longleftrightarrow>
     (\<exists>prev ttl n. previous = Some prev \<and> previous_ttl s prev = Inr ttl \<and> i = drain_input_for prev ttl n
        \<and> n \<in> set (AssignedNodeIDs (sp_Site prev)) \<and> n \<notin> set (AssignedNodeIDs target)
        \<and> existing_drain s (st_ID target) n = None)"
  by (auto simp: leaving_drains_def split: option.splits sum.splits)

lemma SitePublication_Inr:
  "SitePublication s siteID = Inr p \<longleftrightarrow> find_row (\<lambda>p. st_ID (sp_Site p) = siteID) (publications s) = Some p"
  by (simp add: SitePublication_def split: option.splits)

lemma publishSite_effect:
  assumes "publishSite s siteID task v render fresh now = Inr (s', targets)"
  obtains target ds where
    "find_site s siteID = Some target" "st_ID target = siteID"
    "publications s' = upsert (\<lambda>p. st_ID (sp_Site p))
        (new_publication s (target\<lparr>st_Published := True, st_UpdatedAt := now\<rparr>) now) (publications s)"
    "drains s' = delete_rows (\<lambda>d. dr_SiteID d = siteID \<and> dr_NodeID d \<in> set (AssignedNodeIDs target)) (drains s) @ ds"
    "\<forall>d \<in> set ds. dr_SiteID d = siteID \<and> dr_NodeID d \<notin> set (AssignedNodeIDs target)
       \<and> (\<exists>prev. SitePublication s siteID = Inr prev \<and> fresh_drain s prev d)"
    "\<forall>prev n. SitePublication s siteID = Inr prev \<longrightarrow> n \<in> set (AssignedNodeIDs (sp_Site prev)) \<longrightarrow>
       n \<notin> set (AssignedNodeIDs target) \<longrightarrow> (siteID, n) \<in> drain_key_of ` set (drains s')"
    "distinct (map drain_key_of (drains s)) \<longrightarrow> distinct (map drain_key_of (drains s'))"
    "map dt_ID (deployment_tasks s') = map dt_ID (deployment_tasks s)"
proof -
  obtain p updates x where p: "prepareNodeStatesWithDrains s siteID False = Inr p"
    and c: "CommitSitePublicationWithDrains s siteID v task updates targets (pp_drains p) (pp_cancelDrains p) fresh now = Inr (s', x)"
    using publishSite_Inr [OF assms] by blast
  obtain target where t: "find_site s siteID = Some target" "st_ID target = siteID"
    and ld: "leaving_drains s target (find_row (\<lambda>p. st_ID (sp_Site p) = siteID) (publications s)) = Inr (pp_drains p)"
    and ck: "pp_cancelDrains p = cancelled_keys s target"
    using prepareNodeStatesWithDrains_Inr [OF p] by blast
  obtain draft ps ns ts ds hs ss where com: "find_site s siteID = Some draft"
    "x = draft\<lparr>st_Published := True, st_UpdatedAt := now\<rparr>"
    "s' = s\<lparr>publish_nodes := ps, publications := upsert (\<lambda>p. st_ID (sp_Site p)) (new_publication s x now) (publications s),
        node_states := ns, deployment_tasks := ts,
        drains := delete_rows (\<lambda>d. \<exists>k \<in> set (pp_cancelDrains p). drain_at k d) (drains s) @ ds,
        site_domains := delete_rows (\<lambda>c. snd c = siteID) (site_domains s) @ map (\<lambda>d. (d, siteID)) (dedup {} (st_Domains draft)),
        site_healths := hs, sites := ss\<rparr>"
    and new: "\<forall>d \<in> set ds. \<exists>i \<in> set (pp_drains p). \<exists>f. d = drain_row i f now"
    and all: "\<forall>i \<in> set (pp_drains p). (di_SiteID i, di_NodeID i) \<in> drain_key_of ` set (drains s')"
    and dist: "distinct (map drain_key_of (drains s)) \<longrightarrow> distinct (map drain_key_of (drains s'))"
    and tid: "map dt_ID ts = map dt_ID (deployment_tasks s)"
    by (rule CommitSitePublicationWithDrains_Inr [OF c]) (rule that)
  have del: "delete_rows (\<lambda>d. \<exists>k \<in> set (pp_cancelDrains p). drain_at k d) (drains s)
      = delete_rows (\<lambda>d. dr_SiteID d = siteID \<and> dr_NodeID d \<in> set (AssignedNodeIDs target)) (drains s)"
    unfolding delete_rows_def ck drain_at_cancelled_keys t(2)
    by (rule filter_cong) (auto simp: existing_drain_None drain_key_of_def image_iff)
  have dr: "drains s' = delete_rows (\<lambda>d. dr_SiteID d = siteID \<and> dr_NodeID d \<in> set (AssignedNodeIDs target)) (drains s) @ ds"
    by (simp add: com(3) del)
  have inp: "i \<in> set (pp_drains p) \<longleftrightarrow> (\<exists>prev ttl n. SitePublication s siteID = Inr prev \<and> previous_ttl s prev = Inr ttl
      \<and> i = drain_input_for prev ttl n \<and> n \<in> set (AssignedNodeIDs (sp_Site prev))
      \<and> n \<notin> set (AssignedNodeIDs target) \<and> existing_drain s siteID n = None)" for i
    using in_leaving_drains [OF ld, of i] by (simp only: t(2) SitePublication_Inr)
  have pid: "st_ID (sp_Site prev) = siteID" if "SitePublication s siteID = Inr prev" for prev
    using that by (auto simp: SitePublication_def split: option.splits dest: find_row_SomeD)
  have fr: "\<forall>d \<in> set ds. dr_SiteID d = siteID \<and> dr_NodeID d \<notin> set (AssignedNodeIDs target)
       \<and> (\<exists>prev. SitePublication s siteID = Inr prev \<and> fresh_drain s prev d)"
  proof
    fix d assume "d \<in> set ds"
    then obtain i f prev ttl n where "d = drain_row i f now" "SitePublication s siteID = Inr prev"
      "previous_ttl s prev = Inr ttl" "i = drain_input_for prev ttl n" "n \<notin> set (AssignedNodeIDs target)"
      using new inp by blast
    then show "dr_SiteID d = siteID \<and> dr_NodeID d \<notin> set (AssignedNodeIDs target)
       \<and> (\<exists>prev. SitePublication s siteID = Inr prev \<and> fresh_drain s prev d)"
      using previous_ttl_covers [of s prev ttl] pid [of prev]
      by (auto simp: drain_row_def drain_input_for_def fresh_drain_def dest: covers_ttl_pos)
  qed
  have cov: "(siteID, n) \<in> drain_key_of ` set (drains s')"
    if prev: "SitePublication s siteID = Inr prev" and n: "n \<in> set (AssignedNodeIDs (sp_Site prev))"
      "n \<notin> set (AssignedNodeIDs target)" for prev n
  proof (cases "existing_drain s siteID n = None")
    case True
    obtain ttl where "previous_ttl s prev = Inr ttl"
      using ld prev by (auto simp: leaving_drains_def SitePublication_def split: option.splits sum.splits)
    with prev n True inp have "drain_input_for prev ttl n \<in> set (pp_drains p)" by blast
    with all pid [OF prev] show ?thesis by (force simp: drain_input_for_def)
  next
    case False
    then have "(siteID, n) \<in> drain_key_of ` set (drains s)" by (simp add: existing_drain_None)
    then obtain d where "d \<in> set (drains s)" "drain_key_of d = (siteID, n)" by (metis imageE)
    with n(2) have "d \<in> set (drains s')" by (auto simp: dr drain_key_of_def)
    with \<open>drain_key_of d = (siteID, n)\<close> show ?thesis by force
  qed
  have tgt: "draft = target" using com(1) t(1) by simp
  show ?thesis
    by (rule that [OF t _ dr fr _ dist]) (use cov tid in \<open>auto simp: com(2,3) tgt\<close>)
qed

end
