(* ===== verification/Publish_Facts.thy ===== *)
theory Publish_Facts
  imports Publish_Tasks
begin

section \<open>What reconciling publication tasks guarantees\<close>

text \<open>
  Every operation of the reconciliation is an \<open>advance\<close>: tasks and targets stay the same rows, closed
  tasks stay closed, confirmed targets stay confirmed, and a drain disappears only with evidence that
  its node applied the new configuration. The relation is reflexive and transitive, so one lemma for
  each operation gives the property of the whole run.
\<close>

subsection \<open>The relation\<close>

definition same_task :: "deployment_task \<Rightarrow> deployment_task \<Rightarrow> bool" where
  "same_task t t' \<longleftrightarrow> dt_ID t' = dt_ID t \<and> dt_Kind t' = dt_Kind t \<and> dt_SiteID t' = dt_SiteID t
     \<and> dt_DeadlineAt t' = dt_DeadlineAt t \<and> dt_CreatedAt t' = dt_CreatedAt t"

definition same_target :: "publish_task_node \<Rightarrow> publish_task_node \<Rightarrow> bool" where
  "same_target p p' \<longleftrightarrow> ptn_TaskID p' = ptn_TaskID p \<and> ptn_NodeID p' = ptn_NodeID p
     \<and> ptn_TargetVersion p' = ptn_TargetVersion p
     \<and> (ptn_Status p = PublishNodeSucceeded \<longrightarrow> ptn_Status p' = PublishNodeSucceeded)"

definition all_confirmed :: "store \<Rightarrow> string \<Rightarrow> bool" where
  "all_confirmed s taskID \<longleftrightarrow> task_rows s taskID \<noteq> []
     \<and> (\<forall>p \<in> set (task_rows s taskID). ptn_Status p = PublishNodeSucceeded)"

definition row_confirmed :: "store \<Rightarrow> string \<Rightarrow> string \<Rightarrow> bool" where
  "row_confirmed s taskID nodeID \<longleftrightarrow>
     (\<exists>p \<in> set (task_rows s taskID). ptn_NodeID p = nodeID \<and> ptn_Status p = PublishNodeSucceeded)"

definition task_done :: "store \<Rightarrow> string \<Rightarrow> bool" where
  "task_done s taskID \<longleftrightarrow> (\<exists>t \<in> set (deployment_tasks s). dt_ID t = taskID \<and> dt_Status t = TaskSucceeded)"

text \<open>Why a drain may go: its node, or every node of its cleanup task, confirmed the removal.\<close>

definition may_go :: "store \<Rightarrow> store \<Rightarrow> site_node_drain \<Rightarrow> bool" where
  "may_go s s' d \<longleftrightarrow> (\<exists>taskID. dr_CleanupTaskID d = Some taskID
     \<and> (row_confirmed s' taskID (dr_NodeID d) \<or> all_confirmed s' taskID \<or> task_done s taskID))"

definition kept_drain :: "time \<Rightarrow> site_node_drain \<Rightarrow> site_node_drain \<Rightarrow> bool" where
  "kept_drain now d d' \<longleftrightarrow> d' = d \<or> d' = d\<lparr>dr_CleanupTaskID := None, dr_UpdatedAt := now\<rparr>"

definition advance_tasks :: "store \<Rightarrow> store \<Rightarrow> bool" where
  "advance_tasks s s' \<longleftrightarrow> (\<exists>h. deployment_tasks s' = map h (deployment_tasks s) \<and> (\<forall>t. same_task t (h t)
     \<and> (\<not> active_task_status (dt_Status t) \<longrightarrow> \<not> active_task_status (dt_Status (h t)))
     \<and> (dt_Status (h t) = TaskSucceeded \<longrightarrow> dt_Status t = TaskSucceeded \<or> all_confirmed s' (dt_ID t))))"

definition advance_targets :: "store \<Rightarrow> store \<Rightarrow> bool" where
  "advance_targets s s' \<longleftrightarrow> (\<exists>g. publish_nodes s' = map g (publish_nodes s) \<and> (\<forall>p. same_target p (g p)))"

definition advance_drains :: "time \<Rightarrow> store \<Rightarrow> store \<Rightarrow> bool" where
  "advance_drains now s s' \<longleftrightarrow>
     (\<forall>d' \<in> set (drains s'). \<exists>d \<in> set (drains s). kept_drain now d d')
     \<and> (\<forall>d \<in> set (drains s). (\<exists>d' \<in> set (drains s'). kept_drain now d d') \<or> may_go s s' d)"

definition advance :: "time \<Rightarrow> store \<Rightarrow> store \<Rightarrow> bool" where
  "advance now s s' \<longleftrightarrow> advance_tasks s s' \<and> advance_targets s s' \<and> advance_drains now s s' \<and> nodes s' = nodes s"

lemma same_task_refl [simp]: "same_task t t" by (simp add: same_task_def)
lemma same_target_refl [simp]: "same_target p p" by (simp add: same_target_def)
lemma kept_drain_refl [simp]: "kept_drain now d d" by (simp add: kept_drain_def)

lemma set_task_rows: "set (task_rows s i) = {p \<in> set (publish_nodes s). ptn_TaskID p = i}"
  by (auto simp: task_rows_def)

lemma all_confirmed_mono: "advance_targets s s' \<Longrightarrow> all_confirmed s i \<Longrightarrow> all_confirmed s' i"
  unfolding advance_targets_def all_confirmed_def same_target_def set_empty [symmetric] set_task_rows
  by fastforce

lemma row_confirmed_mono: "advance_targets s s' \<Longrightarrow> row_confirmed s i n \<Longrightarrow> row_confirmed s' i n"
  unfolding advance_targets_def row_confirmed_def same_target_def set_task_rows by fastforce

lemma advance_drains_same: "drains s' = drains s \<Longrightarrow> advance_drains now s s'"
  unfolding advance_drains_def by (metis kept_drain_refl)

lemma advance_refl [simp]: "advance now s s"
  unfolding advance_def advance_tasks_def advance_targets_def
  by (auto intro!: exI [of _ "\<lambda>x. x"] advance_drains_same)

lemma task_done_step: "advance_tasks s s' \<Longrightarrow> task_done s' i \<Longrightarrow> task_done s i \<or> all_confirmed s' i"
  unfolding advance_tasks_def task_done_def same_task_def by fastforce

lemma advance_trans:
  assumes 1: "advance now s s'" and 2: "advance now s' s''"
  shows "advance now s s''"
proof -
  have t2: "advance_targets s' s''" using 2 by (simp add: advance_def)
  have tasks: "advance_tasks s s''"
  proof -
    from 1 2 obtain h h' where
      h: "deployment_tasks s' = map h (deployment_tasks s)" "\<And>t. same_task t (h t)"
        "\<And>t. \<not> active_task_status (dt_Status t) \<longrightarrow> \<not> active_task_status (dt_Status (h t))"
        "\<And>t. dt_Status (h t) = TaskSucceeded \<longrightarrow> dt_Status t = TaskSucceeded \<or> all_confirmed s' (dt_ID t)" and
      h': "deployment_tasks s'' = map h' (deployment_tasks s')" "\<And>t. same_task t (h' t)"
        "\<And>t. \<not> active_task_status (dt_Status t) \<longrightarrow> \<not> active_task_status (dt_Status (h' t))"
        "\<And>t. dt_Status (h' t) = TaskSucceeded \<longrightarrow> dt_Status t = TaskSucceeded \<or> all_confirmed s'' (dt_ID t)"
      unfolding advance_def advance_tasks_def by blast
    show ?thesis unfolding advance_tasks_def
    proof (intro exI [of _ "h' \<circ> h"] conjI allI)
      show "deployment_tasks s'' = map (h' \<circ> h) (deployment_tasks s)" by (simp add: h(1) h'(1))
      fix t
      show "same_task t ((h' \<circ> h) t)" using h(2) [of t] h'(2) [of "h t"] by (simp add: same_task_def)
      show "\<not> active_task_status (dt_Status t) \<longrightarrow> \<not> active_task_status (dt_Status ((h' \<circ> h) t))"
        using h(3) [of t] h'(3) [of "h t"] by simp
      have "dt_ID (h t) = dt_ID t" using h(2) [of t] by (simp add: same_task_def)
      then show "dt_Status ((h' \<circ> h) t) = TaskSucceeded \<longrightarrow> dt_Status t = TaskSucceeded \<or> all_confirmed s'' (dt_ID t)"
        using h(4) [of t] h'(4) [of "h t"] all_confirmed_mono [OF t2] by auto
    qed
  qed
  have targets: "advance_targets s s''"
  proof -
    from 1 2 obtain g g' where "publish_nodes s' = map g (publish_nodes s)" "\<And>p. same_target p (g p)"
      "publish_nodes s'' = map g' (publish_nodes s')" "\<And>p. same_target p (g' p)"
      unfolding advance_def advance_targets_def by blast
    then show ?thesis unfolding advance_targets_def
      by (intro exI [of _ "g' \<circ> g"]) (auto simp: same_target_def)
  qed
  have kept_trans: "kept_drain now d d' \<Longrightarrow> kept_drain now d' d'' \<Longrightarrow> kept_drain now d d''" for d d' d''
    by (auto simp: kept_drain_def)
  have d1: "advance_drains now s s'" and d2: "advance_drains now s' s''" using 1 2 by (auto simp: advance_def)
  have "\<exists>d \<in> set (drains s). kept_drain now d d''" if "d'' \<in> set (drains s'')" for d''
    using d1 d2 that kept_trans unfolding advance_drains_def by metis
  moreover have "(\<exists>d'' \<in> set (drains s''). kept_drain now d d'') \<or> may_go s s'' d" if d: "d \<in> set (drains s)" for d
  proof -
    consider d' where "d' \<in> set (drains s')" "kept_drain now d d'" | "may_go s s' d"
      using d1 d unfolding advance_drains_def by blast
    then show ?thesis
    proof cases
      case 1
      then consider d'' where "d'' \<in> set (drains s'')" "kept_drain now d' d''" | "may_go s' s'' d'"
        using d2 unfolding advance_drains_def by blast
      then show ?thesis
      proof cases
        case 2
        then have "d' = d" using \<open>kept_drain now d d'\<close> by (auto simp: kept_drain_def may_go_def)
        with 2 have "may_go s' s'' d" by simp
        moreover have "advance_tasks s s'" using assms(1) by (simp add: advance_def)
        ultimately have "may_go s s'' d"
          unfolding may_go_def using task_done_step all_confirmed_mono [OF t2] by blast
        then show ?thesis ..
      qed (use \<open>kept_drain now d d'\<close> kept_trans in blast)
    next
      case 2
      then show ?thesis
        unfolding may_go_def using row_confirmed_mono [OF t2] all_confirmed_mono [OF t2] by blast
    qed
  qed
  ultimately have "advance_drains now s s''" by (simp add: advance_drains_def)
  with tasks targets 1 2 show ?thesis by (simp add: advance_def)
qed

subsection \<open>Each operation advances\<close>

definition tasks_wf :: "store \<Rightarrow> bool" where
  "tasks_wf s \<longleftrightarrow> distinct (map dt_ID (deployment_tasks s))"

definition closed_in :: "store \<Rightarrow> string \<Rightarrow> bool" where
  "closed_in s taskID \<longleftrightarrow>
     (\<forall>t \<in> set (deployment_tasks s). dt_ID t = taskID \<longrightarrow> \<not> active_task_status (dt_Status t))"

lemma tasks_wf_advance: "advance now s s' \<Longrightarrow> tasks_wf s \<Longrightarrow> tasks_wf s'"
proof -
  assume "advance now s s'" and wf: "tasks_wf s"
  then obtain h where "deployment_tasks s' = map h (deployment_tasks s)" "\<And>t. same_task t (h t)"
    unfolding advance_def advance_tasks_def by blast
  then have "map dt_ID (deployment_tasks s') = map dt_ID (deployment_tasks s)"
    by (auto simp: same_task_def)
  with wf show ?thesis by (simp add: tasks_wf_def)
qed

lemma closed_in_advance: "advance now s s' \<Longrightarrow> closed_in s i \<Longrightarrow> closed_in s' i"
  unfolding advance_def advance_tasks_def closed_in_def same_task_def by fastforce

lemma advance_only_targets:
  assumes "\<And>p. P p \<Longrightarrow> same_target p (f p)"
  shows "advance now s (s\<lparr>publish_nodes := update_rows P f (publish_nodes s)\<rparr>)"
proof -
  have "advance_targets s (s\<lparr>publish_nodes := update_rows P f (publish_nodes s)\<rparr>)"
    unfolding advance_targets_def using assms
    by (intro exI [of _ "\<lambda>p. if P p then f p else p"]) (simp add: update_rows_def)
  moreover have "advance_tasks s (s\<lparr>publish_nodes := update_rows P f (publish_nodes s)\<rparr>)"
    unfolding advance_tasks_def by (intro exI [of _ "\<lambda>t. t"]) simp
  ultimately show ?thesis by (simp add: advance_def advance_drains_same)
qed

lemma confirm_applied_advance: "advance now s (confirm_applied s i at)"
  unfolding confirm_applied_def by (rule advance_only_targets) (simp add: same_target_def)

lemma time_out_pending_advance: "advance now s (time_out_pending s i)"
  unfolding time_out_pending_def by (rule advance_only_targets) (simp add: same_target_def)

lemma confirm_late_advance: "advance now s (fst (confirm_late s t at))"
  unfolding confirm_late_def Let_def fst_conv by (rule advance_only_targets) (simp add: same_target_def)

lemma RecordPublishApply_advance: "RecordPublishApply s n r at = Inr s' \<Longrightarrow> advance now s s'"
  by (auto simp: RecordPublishApply_def same_target_def intro!: advance_only_targets)

lemma count_one: "tasks_wf s \<Longrightarrow> t \<in> set (deployment_tasks s) \<Longrightarrow>
    count_rows (\<lambda>x. dt_ID x = dt_ID t) (deployment_tasks s) = 1"
  using count_rows_key_le_1 [of dt_ID "deployment_tasks s" "dt_ID t"] count_rows_0 [of "\<lambda>x. dt_ID x = dt_ID t" "deployment_tasks s"]
  by (auto simp: tasks_wf_def le_Suc_eq)

lemma update_tasks_advance:
  assumes "\<not> active_task_status status" and "status = TaskSucceeded \<Longrightarrow> \<forall>t. P t \<longrightarrow> all_confirmed s (dt_ID t)"
  shows "advance now s (s\<lparr>deployment_tasks := update_rows P
           (\<lambda>t. t\<lparr>dt_Status := status, dt_Detail := detail, dt_UpdatedAt := at\<rparr>) (deployment_tasks s)\<rparr>)"
    (is "advance now s ?s'")
proof -
  have "all_confirmed ?s' = all_confirmed s" by (simp add: all_confirmed_def fun_eq_iff task_rows_def)
  with assms have "advance_tasks s ?s'"
    unfolding advance_tasks_def
    by (intro exI [of _ "\<lambda>t. if P t then t\<lparr>dt_Status := status, dt_Detail := detail, dt_UpdatedAt := at\<rparr> else t"])
      (auto simp: update_rows_def same_task_def)
  moreover have "advance_targets s ?s'"
    unfolding advance_targets_def by (intro exI [of _ "\<lambda>p. p"]) simp
  ultimately show ?thesis by (simp add: advance_def advance_drains_same)
qed

lemma ball_update_rows:
  "(\<forall>x \<in> set (update_rows P f rows). Q x) \<longleftrightarrow> (\<forall>r \<in> set rows. Q (if P r then f r else r))"
  by (induction rows) auto

lemma in_update_rows: "r \<in> set rows \<Longrightarrow> (if P r then f r else r) \<in> set (update_rows P f rows)"
  by (induction rows) auto

lemma closed_after_update:
  assumes "\<not> active_task_status status"
    and "\<forall>t \<in> set (deployment_tasks s). dt_ID t = i \<and> active_task_status (dt_Status t) \<longrightarrow> P t"
  shows "closed_in (s\<lparr>deployment_tasks := update_rows P
           (\<lambda>t. t\<lparr>dt_Status := status, dt_Detail := detail, dt_UpdatedAt := at\<rparr>) (deployment_tasks s)\<rparr>) i"
  using assms by (auto simp: closed_in_def ball_update_rows)

lemma UpdateTask_advance:
  assumes wf: "tasks_wf s" and t: "t \<in> set (deployment_tasks s)" "dt_ID t = i"
    and st: "\<not> active_task_status status" "status = TaskSucceeded \<Longrightarrow> all_confirmed s i"
  shows "\<exists>s'. UpdateTask s i status detail at = Inr s' \<and> advance now s s' \<and> closed_in s' i
           \<and> publish_nodes s' = publish_nodes s"
  using count_one [OF wf t(1)] update_tasks_advance [OF st(1), of "\<lambda>t. dt_ID t = i" s now at detail] st t(2)
    closed_after_update [OF st(1), of s i "\<lambda>t. dt_ID t = i" at detail]
  by (simp add: UpdateTask_def)

definition terminal_status :: "task_status \<Rightarrow> bool" where
  "terminal_status st \<longleftrightarrow> st \<in> {TaskSucceeded, TaskPartial, TaskFailed, TaskRolledBack}"

lemma terminal_iff: "terminal_status st \<longleftrightarrow> \<not> active_task_status st"
  by (cases st) (auto simp: terminal_status_def active_task_status_def)

lemma finish_advance:
  assumes "terminal_status st" and fin: "st = TaskSucceeded \<Longrightarrow> all_confirmed s i \<or> task_done s i"
  shows "\<exists>s'. finishDrainCleanupTx s i st now = Inr s' \<and> advance now s s'
           \<and> deployment_tasks s' = deployment_tasks s \<and> publish_nodes s' = publish_nodes s"
proof -
  have "advance_tasks s (s\<lparr>drains := ds\<rparr>)" "advance_targets s (s\<lparr>drains := ds\<rparr>)" for ds
    unfolding advance_tasks_def advance_targets_def by (auto intro!: exI [of _ "\<lambda>x. x"])
  moreover have "all_confirmed (s\<lparr>drains := ds\<rparr>) = all_confirmed s" "row_confirmed (s\<lparr>drains := ds\<rparr>) = row_confirmed s" for ds
    by (simp_all add: all_confirmed_def row_confirmed_def fun_eq_iff task_rows_def)
  ultimately have adv: "advance now s (s\<lparr>drains := ds\<rparr>)"
    if "\<forall>d' \<in> set ds. \<exists>d \<in> set (drains s). kept_drain now d d'"
      "\<forall>d \<in> set (drains s). (\<exists>d' \<in> set ds. kept_drain now d d') \<or> (dr_CleanupTaskID d = Some i \<and>
         (row_confirmed s i (dr_NodeID d) \<or> all_confirmed s i \<or> task_done s i))" for ds
    using that unfolding advance_def advance_drains_def may_go_def by simp blast
  show ?thesis
  proof (cases "st = TaskSucceeded")
    case True
    with fin have "advance now s (s\<lparr>drains := delete_rows (\<lambda>d. dr_CleanupTaskID d = Some i) (drains s)\<rparr>)"
      by (intro adv) (simp_all, metis kept_drain_refl, metis kept_drain_refl)
    with True show ?thesis by (simp add: finishDrainCleanupTx_def)
  next
    case False
    have row: "list_ex (\<lambda>p. ptn_TaskID p = i \<and> ptn_NodeID p = dr_NodeID d \<and> ptn_Status p = PublishNodeSucceeded)
        (publish_nodes s) \<longleftrightarrow> row_confirmed s i (dr_NodeID d)" for d
      by (auto simp: row_confirmed_def set_task_rows list_ex_iff)
    let ?kept = "delete_rows (\<lambda>d. dr_CleanupTaskID d = Some i \<and> row_confirmed s i (dr_NodeID d)) (drains s)"
    let ?rel = "\<lambda>d. d\<lparr>dr_CleanupTaskID := None, dr_UpdatedAt := now\<rparr>"
    let ?ds = "update_rows (\<lambda>d. dr_CleanupTaskID d = Some i) ?rel ?kept"
    have "advance now s (s\<lparr>drains := ?ds\<rparr>)"
    proof (intro adv ballI)
      fix d' assume "d' \<in> set ?ds"
      then obtain d where "d \<in> set (drains s)" "d' = (if dr_CleanupTaskID d = Some i then ?rel d else d)"
        by (auto simp: update_rows_def)
      then show "\<exists>d \<in> set (drains s). kept_drain now d d'"
        by (metis kept_drain_def)
    next
      fix d assume d: "d \<in> set (drains s)"
      show "(\<exists>d' \<in> set ?ds. kept_drain now d d') \<or> (dr_CleanupTaskID d = Some i \<and>
         (row_confirmed s i (dr_NodeID d) \<or> all_confirmed s i \<or> task_done s i))"
      proof (cases "dr_CleanupTaskID d = Some i \<and> row_confirmed s i (dr_NodeID d)")
        case False
        then have "d \<in> set ?kept" using d by (simp only: set_delete_rows mem_Collect_eq) blast
        then have "(if dr_CleanupTaskID d = Some i then ?rel d else d) \<in> set ?ds"
          by (rule in_update_rows)
        moreover have "kept_drain now d (if dr_CleanupTaskID d = Some i then ?rel d else d)"
          by (simp add: kept_drain_def)
        ultimately show ?thesis by blast
      qed blast
    qed
    moreover have "finishDrainCleanupTx s i st now = Inr (s\<lparr>drains := ?ds\<rparr>)"
      using assms(1) False by (simp add: finishDrainCleanupTx_def terminal_status_def Let_def row)
    ultimately show ?thesis by simp
  qed
qed

lemma completeDrainCleanup_advance:
  assumes st: "terminal_status status" "status = TaskSucceeded \<Longrightarrow> all_confirmed s i"
    and drain: "\<forall>t \<in> set (deployment_tasks s). dt_ID t = i \<longrightarrow> dt_Kind t = KindDrainSite"
  shows "\<exists>s'. completeDrainCleanup s i status detail now = Inr s' \<and> advance now s s' \<and> closed_in s' i
           \<and> publish_nodes s' = publish_nodes s"
proof -
  let ?hit = "\<lambda>t. dt_ID t = i \<and> dt_Kind t = KindDrainSite \<and> active_task_status (dt_Status t)"
  let ?s1 = "s\<lparr>deployment_tasks := update_rows ?hit
      (\<lambda>t. t\<lparr>dt_Status := status, dt_Detail := detail, dt_UpdatedAt := now\<rparr>) (deployment_tasks s)\<rparr>"
  show ?thesis
  proof (cases "count_rows ?hit (deployment_tasks s) = 0")
    case True
    then have "closed_in s i" using drain by (auto simp: count_rows_0 closed_in_def)
    with True show ?thesis by (simp add: completeDrainCleanup_def Let_def)
  next
    case False
    have adv1: "advance now s ?s1"
      using st by (intro update_tasks_advance) (auto simp: terminal_iff)
    have closed1: "closed_in ?s1 i"
      using st(1) drain by (intro closed_after_update) (auto simp: terminal_iff)
    have "all_confirmed ?s1 i \<longleftrightarrow> all_confirmed s i" by (simp add: all_confirmed_def task_rows_def)
    with st have "\<exists>s'. finishDrainCleanupTx ?s1 i status now = Inr s' \<and> advance now ?s1 s'
           \<and> deployment_tasks s' = deployment_tasks ?s1 \<and> publish_nodes s' = publish_nodes ?s1"
      by (intro finish_advance) auto
    then obtain s' where s': "finishDrainCleanupTx ?s1 i status now = Inr s'" "advance now ?s1 s'"
      "publish_nodes s' = publish_nodes ?s1" by blast
    from s'(2) closed1 have "closed_in s' i" by (rule closed_in_advance)
    moreover have "advance now s s'" using adv1 s'(2) by (rule advance_trans)
    ultimately show ?thesis using False s' by (simp add: completeDrainCleanup_def Let_def)
  qed
qed

lemma close_task_advance:
  assumes wf: "tasks_wf s" and t: "t \<in> set (deployment_tasks s)" "dt_ID t = i" "dt_Kind t = kind"
    and st: "terminal_status (fst oc)" "fst oc = TaskSucceeded \<Longrightarrow> all_confirmed s i"
  shows "\<exists>s'. close_task s i kind oc now = Inr s' \<and> advance now s s' \<and> closed_in s' i
           \<and> publish_nodes s' = publish_nodes s"
proof (cases "kind = KindDrainSite")
  case True
  have "r = t" if "r \<in> set (deployment_tasks s)" "dt_ID r = i" for r
    using wf that t by (metis find_row_key_unique option.inject tasks_wf_def)
  then have "\<forall>r \<in> set (deployment_tasks s). dt_ID r = i \<longrightarrow> dt_Kind r = KindDrainSite"
    using True t(3) by blast
  with st have "\<exists>s'. completeDrainCleanup s i (fst oc) (snd oc) now = Inr s' \<and> advance now s s'
      \<and> closed_in s' i \<and> publish_nodes s' = publish_nodes s"
    by (intro completeDrainCleanup_advance) auto
  with True show ?thesis by (simp add: close_task_def)
next
  case False
  with wf t st show ?thesis
    unfolding close_task_def using UpdateTask_advance [of s t i "fst oc" "snd oc" now now]
    by (simp add: terminal_iff)
qed

lemma count_rows_le: "count_rows P rows \<le> length rows"
  by (simp add: count_rows_def)

lemma count_rows_length: "count_rows P rows = length rows \<longleftrightarrow> (\<forall>r \<in> set rows. P r)"
proof (induction rows)
  case (Cons a rows)
  then show ?case using count_rows_le [of P rows] by auto
qed simp

lemma outcome_terminal [simp]: "terminal_status (fst (publishTaskOutcome a b c))"
  by (simp add: publishTaskOutcome_def terminal_status_def)

lemma outcome_succeeded: "fst (publishTaskOutcome a b c) = TaskSucceeded \<longleftrightarrow> b = a"
  by (simp add: publishTaskOutcome_def)

lemma task_succeeded_all: "task_succeeded s i = task_total s i \<Longrightarrow> task_total s i \<noteq> 0 \<Longrightarrow> all_confirmed s i"
  by (auto simp: task_succeeded_def task_total_def count_rows_length all_confirmed_def)

lemma pending_not_all: "task_pending s i > 0 \<Longrightarrow> task_succeeded s i \<noteq> task_total s i"
proof
  assume "task_pending s i > 0" and "task_succeeded s i = task_total s i"
  then obtain p where "p \<in> set (task_rows s i)" "ptn_Status p = PublishNodePending"
    using count_rows_0 [of "\<lambda>p. ptn_Status p = PublishNodePending" "task_rows s i"]
    by (auto simp: task_pending_def)
  moreover have "\<forall>p \<in> set (task_rows s i). ptn_Status p = PublishNodeSucceeded"
    using \<open>task_succeeded s i = task_total s i\<close> by (simp add: task_succeeded_def task_total_def count_rows_length)
  ultimately show False by auto
qed

lemma confirm_applied_tasks [simp]:
  "deployment_tasks (confirm_applied s i at) = deployment_tasks s"
  "deployment_tasks (time_out_pending s i) = deployment_tasks s"
  "deployment_tasks (fst (confirm_late s t at)) = deployment_tasks s"
  by (simp_all add: confirm_applied_def time_out_pending_def confirm_late_def Let_def)

text \<open>The state just before a task is closed, and the outcome it is closed with.\<close>

definition before_close :: "store \<Rightarrow> string \<Rightarrow> time \<Rightarrow> store" where
  "before_close s i now =
     (let s1 = confirm_applied s i now in if task_pending s1 i > 0 then time_out_pending s1 i else s1)"

lemma reconcilePublishTask_cases:
  obtains (waits) "reconcilePublishTask s i kind deadline now = Inr (confirm_applied s i now)"
      "\<And>d. deadline = Some d \<Longrightarrow> now < d"
    | (no_targets) d where "deadline = Some d" "d \<le> now" "task_total (confirm_applied s i now) i = 0"
      "reconcilePublishTask s i kind deadline now = close_task (confirm_applied s i now) i kind
         (TaskFailed, err ''task did not create edge confirmation targets; retry'') now"
    | (no_deadline) "deadline = None" "task_total (confirm_applied s i now) i = 0"
      "reconcilePublishTask s i kind deadline now = Inr (confirm_applied s i now)"
    | (closes) f where "task_total (confirm_applied s i now) i \<noteq> 0"
      "reconcilePublishTask s i kind deadline now = close_task (before_close s i now) i kind
         (publishTaskOutcome (task_total (confirm_applied s i now) i) (task_succeeded (confirm_applied s i now) i) f) now"
proof (cases "task_total (confirm_applied s i now) i = 0")
  case True
  show ?thesis
  proof (cases deadline)
    case None
    with True show ?thesis by (intro no_deadline) (simp_all add: reconcilePublishTask_def Let_def)
  next
    case (Some d)
    show ?thesis
    proof (cases "d \<le> now")
      case le: True
      with True Some show ?thesis by (intro no_targets) (simp_all add: reconcilePublishTask_def Let_def)
    next
      case False
      with True Some show ?thesis by (intro waits) (simp_all add: reconcilePublishTask_def Let_def)
    qed
  qed
next
  case False
  show ?thesis
  proof (cases "task_pending (confirm_applied s i now) i > 0 \<and> (case deadline of None \<Rightarrow> False | Some d \<Rightarrow> d > now)")
    case True
    with False show ?thesis
      by (intro waits) (auto simp: reconcilePublishTask_def Let_def split: option.splits)
  next
    case go: False
    with False show ?thesis
      by (intro closes) (simp_all only: reconcilePublishTask_def Let_def before_close_def if_False not_False_eq_True)
  qed
qed

lemma reconcilePublishTask_advance:
  assumes wf: "tasks_wf s" and t: "t \<in> set (deployment_tasks s)" "dt_ID t = i" "dt_Kind t = kind"
  shows "\<exists>s'. reconcilePublishTask s i kind deadline now = Inr s' \<and> advance now s s'
           \<and> ((\<exists>d. deadline = Some d \<and> d \<le> now) \<longrightarrow> closed_in s' i)"
proof (rule reconcilePublishTask_cases [of s i kind deadline now])
  let ?s1 = "confirm_applied s i now"
  have adv1: "advance now s ?s1" by (rule confirm_applied_advance)
  have wf1: "tasks_wf ?s1" using tasks_wf_advance [OF adv1 wf] .
  have t1: "t \<in> set (deployment_tasks ?s1)" using t by simp
  {
    assume "reconcilePublishTask s i kind deadline now = Inr ?s1" "\<And>d. deadline = Some d \<Longrightarrow> now < d"
    then show ?thesis using adv1 by fastforce
  next
    fix d assume *: "reconcilePublishTask s i kind deadline now = close_task ?s1 i kind
         (TaskFailed, err ''task did not create edge confirmation targets; retry'') now"
    have "terminal_status TaskFailed" by (simp add: terminal_status_def)
    with close_task_advance [OF wf1 t1 t(2,3), of "(TaskFailed, err ''task did not create edge confirmation targets; retry'')" now] *
    show ?thesis using advance_trans [OF adv1] by auto
  next
    assume "deadline = None" "reconcilePublishTask s i kind deadline now = Inr ?s1"
    then show ?thesis using adv1 by simp
  next
    fix f
    let ?o = "publishTaskOutcome (task_total ?s1 i) (task_succeeded ?s1 i) f"
    assume tot: "task_total ?s1 i \<noteq> 0"
      and *: "reconcilePublishTask s i kind deadline now = close_task (before_close s i now) i kind ?o now"
    have adv2: "advance now s (before_close s i now)"
      unfolding before_close_def Let_def using adv1 time_out_pending_advance advance_trans by auto
    have wf2: "tasks_wf (before_close s i now)" using tasks_wf_advance [OF adv2 wf] .
    have t2: "t \<in> set (deployment_tasks (before_close s i now))"
      using t by (simp add: before_close_def Let_def)
    have "all_confirmed (before_close s i now) i" if "fst ?o = TaskSucceeded"
      using that tot task_succeeded_all [of ?s1 i] pending_not_all [of ?s1 i]
      by (auto simp: outcome_succeeded before_close_def Let_def)
    with close_task_advance [OF wf2 t2 t(2,3), of ?o now] *
    show ?thesis using advance_trans [OF adv2] by auto
  }
qed

lemma reconcile_tasks_advance:
  assumes "tasks_wf s"
    and "\<forall>x \<in> set ts. \<exists>t \<in> set (deployment_tasks s). dt_ID t = dt_ID x \<and> dt_Kind t = dt_Kind x"
  shows "\<exists>s'. reconcile_tasks s ts now = Inr s' \<and> advance now s s'
           \<and> (\<forall>x \<in> set ts. (\<exists>d. dt_DeadlineAt x = Some d \<and> d \<le> now) \<longrightarrow> closed_in s' (dt_ID x))"
  using assms
proof (induction ts arbitrary: s)
  case Nil
  then show ?case by simp
next
  case (Cons x ts)
  from Cons.prems(2) obtain t where t: "t \<in> set (deployment_tasks s)" "dt_ID t = dt_ID x" "dt_Kind t = dt_Kind x"
    by auto
  from reconcilePublishTask_advance [OF Cons.prems(1) t, of "dt_DeadlineAt x" now]
  obtain s1 where s1: "reconcilePublishTask s (dt_ID x) (dt_Kind x) (dt_DeadlineAt x) now = Inr s1"
    "advance now s s1" "(\<exists>d. dt_DeadlineAt x = Some d \<and> d \<le> now) \<longrightarrow> closed_in s1 (dt_ID x)" by blast
  have "\<forall>x \<in> set ts. \<exists>t \<in> set (deployment_tasks s1). dt_ID t = dt_ID x \<and> dt_Kind t = dt_Kind x"
  proof
    fix y assume "y \<in> set ts"
    then obtain u where "u \<in> set (deployment_tasks s)" "dt_ID u = dt_ID y" "dt_Kind u = dt_Kind y"
      using Cons.prems(2) by auto
    with s1(2) show "\<exists>t \<in> set (deployment_tasks s1). dt_ID t = dt_ID y \<and> dt_Kind t = dt_Kind y"
      unfolding advance_def advance_tasks_def same_task_def by fastforce
  qed
  from Cons.IH [OF tasks_wf_advance [OF s1(2) Cons.prems(1)] this]
  obtain s2 where s2: "reconcile_tasks s1 ts now = Inr s2" "advance now s1 s2"
    "\<forall>x \<in> set ts. (\<exists>d. dt_DeadlineAt x = Some d \<and> d \<le> now) \<longrightarrow> closed_in s2 (dt_ID x)" by blast
  with s1 closed_in_advance [OF s2(2)] advance_trans [OF s1(2) s2(2)] show ?case by auto
qed

lemma finish_each_advance:
  assumes "\<forall>x \<in> set ts. terminal_status (dt_Status x) \<and> (dt_Status x = TaskSucceeded \<longrightarrow> task_done s (dt_ID x))"
  shows "\<exists>s'. finish_each s ts now = Inr s' \<and> advance now s s'"
  using assms
proof (induction ts arbitrary: s)
  case Nil
  then show ?case by simp
next
  case (Cons x ts)
  then have "terminal_status (dt_Status x)" "dt_Status x = TaskSucceeded \<Longrightarrow> all_confirmed s (dt_ID x) \<or> task_done s (dt_ID x)"
    by auto
  from finish_advance [OF this, of now] obtain s1 where s1: "finishDrainCleanupTx s (dt_ID x) (dt_Status x) now = Inr s1"
    "advance now s s1" "deployment_tasks s1 = deployment_tasks s" by blast
  with Cons.prems have "\<forall>x \<in> set ts. terminal_status (dt_Status x) \<and> (dt_Status x = TaskSucceeded \<longrightarrow> task_done s1 (dt_ID x))"
    by (simp add: task_done_def)
  from Cons.IH [OF this] s1 advance_trans show ?case by (auto simp: FinishDrainCleanup_def)
qed

lemma finalizations_advance: "\<exists>s'. reconcileDrainTaskFinalizations s now = Inr s' \<and> advance now s s'"
  unfolding reconcileDrainTaskFinalizations_def
  by (rule finish_each_advance) (auto simp: terminal_status_def task_done_def)

lemma reconcile_late_one:
  assumes wf: "tasks_wf s" and t: "u \<in> set (deployment_tasks s)" "dt_ID u = dt_ID x"
  shows "\<exists>s' b. reconcileLatePublishConfirmations s x now = Inr (s', b) \<and> advance now s s'"
proof -
  obtain s1 n where late: "confirm_late s x now = (s1, n)" by fastforce
  have adv1: "advance now s s1" using confirm_late_advance [of now s x now] by (simp add: late)
  let ?o = "publishTaskOutcome (task_total s1 (dt_ID x)) (task_succeeded s1 (dt_ID x)) (task_failed s1 (dt_ID x))"
  have u1: "u \<in> set (deployment_tasks s1)"
    using confirm_applied_tasks(3) [of s x now] t(1) by (simp add: late)
  have "\<exists>s'. UpdateTask s1 (dt_ID x) (fst ?o) (snd ?o) now = Inr s' \<and> advance now s1 s'"
    if "task_total s1 (dt_ID x) \<noteq> 0"
    using UpdateTask_advance [OF tasks_wf_advance [OF adv1 wf] u1 t(2), of "fst ?o" "snd ?o" now now]
      task_succeeded_all [of s1 "dt_ID x"] that
    by (auto simp: terminal_iff [symmetric] outcome_succeeded)
  with adv1 show ?thesis
    by (auto simp: reconcileLatePublishConfirmations_def late Let_def intro: advance_trans)
qed

lemma reconcile_late_advance:
  assumes "tasks_wf s" and "\<forall>x \<in> set ts. \<exists>t \<in> set (deployment_tasks s). dt_ID t = dt_ID x"
  shows "\<exists>s'. reconcile_late s ts now = Inr s' \<and> advance now s s'"
  using assms
proof (induction ts arbitrary: s)
  case Nil
  then show ?case by simp
next
  case (Cons x ts)
  from Cons.prems(2) obtain u where "u \<in> set (deployment_tasks s)" "dt_ID u = dt_ID x" by auto
  from reconcile_late_one [OF Cons.prems(1) this, of now]
  obtain s1 b where s1: "reconcileLatePublishConfirmations s x now = Inr (s1, b)" "advance now s s1" by blast
  have "\<forall>x \<in> set ts. \<exists>t \<in> set (deployment_tasks s1). dt_ID t = dt_ID x"
    using Cons.prems(2) s1(2) unfolding advance_def advance_tasks_def same_task_def by fastforce
  from Cons.IH [OF tasks_wf_advance [OF s1(2) Cons.prems(1)] this] s1 advance_trans
  show ?case by fastforce
qed

lemma ReconcilePublishTasks_advance:
  assumes "tasks_wf s"
  shows "\<exists>s'. ReconcilePublishTasks s now = Inr s' \<and> advance now s s'
    \<and> (\<forall>t \<in> set (deployment_tasks s). dt_Kind t \<in> {KindPublishSite, KindDrainSite} \<and>
         (\<exists>d. dt_DeadlineAt t = Some d \<and> d \<le> now) \<longrightarrow> closed_in s' (dt_ID t))"
proof -
  let ?act = "filter (\<lambda>t. dt_Kind t \<in> {KindPublishSite, KindDrainSite} \<and> active_task_status (dt_Status t))
                (deployment_tasks s)"
  let ?ts = "sort_key (\<lambda>t. stamp (dt_CreatedAt t)) ?act"
  have "\<forall>x \<in> set ?ts. \<exists>t \<in> set (deployment_tasks s). dt_ID t = dt_ID x \<and> dt_Kind t = dt_Kind x" by auto
  from reconcile_tasks_advance [OF assms this, of now] obtain s1 where
    s1: "reconcile_tasks s ?ts now = Inr s1" "advance now s s1"
    "\<forall>x \<in> set ?ts. (\<exists>d. dt_DeadlineAt x = Some d \<and> d \<le> now) \<longrightarrow> closed_in s1 (dt_ID x)" by blast
  from finalizations_advance [of s1 now] obtain s2 where
    s2: "reconcileDrainTaskFinalizations s1 now = Inr s2" "advance now s1 s2" by blast
  have wf2: "tasks_wf s2" using assms s1(2) s2(2) by (blast intro: tasks_wf_advance)
  have "\<forall>x \<in> set (latest_closed s2). \<exists>t \<in> set (deployment_tasks s2). dt_ID t = dt_ID x"
    by (auto simp: latest_closed_def)
  from reconcile_late_advance [OF wf2 this, of now] obtain s3 where
    s3: "reconcile_late s2 (latest_closed s2) now = Inr s3" "advance now s2 s3" by blast
  have "closed_in s3 (dt_ID t)" if t: "t \<in> set (deployment_tasks s)" "dt_Kind t \<in> {KindPublishSite, KindDrainSite}"
    "\<exists>d. dt_DeadlineAt t = Some d \<and> d \<le> now" for t
  proof (cases "active_task_status (dt_Status t)")
    case True
    with t s1(3) have "closed_in s1 (dt_ID t)" by auto
    then show ?thesis using s2(2) s3(2) closed_in_advance by blast
  next
    case False
    have "r = t" if "r \<in> set (deployment_tasks s)" "dt_ID r = dt_ID t" for r
      using assms that t(1) by (metis find_row_key_unique option.inject tasks_wf_def)
    with False have "closed_in s (dt_ID t)" by (auto simp: closed_in_def)
    then show ?thesis using s1(2) s2(2) s3(2) closed_in_advance by blast
  qed
  moreover have "ReconcilePublishTasks s now = Inr s3"
    by (simp only: ReconcilePublishTasks_def s1(1) s2(1) s3(1) sum.case)
  moreover have "advance now s s3" using s1(2) s2(2) s3(2) advance_trans by blast
  ultimately show ?thesis by blast
qed

subsection \<open>Only the task's own rows change\<close>

definition rows_local :: "string \<Rightarrow> store \<Rightarrow> store \<Rightarrow> bool" where
  "rows_local i s s' \<longleftrightarrow> (\<exists>g. publish_nodes s' = map g (publish_nodes s)
     \<and> (\<forall>p. ptn_TaskID (g p) = ptn_TaskID p \<and> (ptn_TaskID p \<noteq> i \<longrightarrow> g p = p)))"

definition tasks_local :: "string \<Rightarrow> store \<Rightarrow> store \<Rightarrow> bool" where
  "tasks_local i s s' \<longleftrightarrow> (\<exists>h. deployment_tasks s' = map h (deployment_tasks s)
     \<and> (\<forall>t. dt_ID (h t) = dt_ID t \<and> (dt_ID t \<noteq> i \<longrightarrow> h t = t)))"

lemma rows_local_refl: "publish_nodes s' = publish_nodes s \<Longrightarrow> rows_local i s s'"
  unfolding rows_local_def by (intro exI [of _ "\<lambda>p. p"]) simp

lemma tasks_local_refl: "deployment_tasks s' = deployment_tasks s \<Longrightarrow> tasks_local i s s'"
  unfolding tasks_local_def by (intro exI [of _ "\<lambda>p. p"]) simp

lemma rows_local_trans: "rows_local i s s' \<Longrightarrow> rows_local i s' s'' \<Longrightarrow> rows_local i s s''"
proof -
  assume "rows_local i s s'" and "rows_local i s' s''"
  then obtain g g' where
    "publish_nodes s' = map g (publish_nodes s)" "\<forall>p. ptn_TaskID (g p) = ptn_TaskID p \<and> (ptn_TaskID p \<noteq> i \<longrightarrow> g p = p)"
    "publish_nodes s'' = map g' (publish_nodes s')" "\<forall>p. ptn_TaskID (g' p) = ptn_TaskID p \<and> (ptn_TaskID p \<noteq> i \<longrightarrow> g' p = p)"
    unfolding rows_local_def by blast
  then show ?thesis unfolding rows_local_def by (intro exI [of _ "g' \<circ> g"]) simp
qed

lemma rows_local_update:
  assumes "\<And>p. P p \<Longrightarrow> ptn_TaskID p = i" and "\<And>p. ptn_TaskID (f p) = ptn_TaskID p"
  shows "rows_local i s (s\<lparr>publish_nodes := update_rows P f (publish_nodes s)\<rparr>)"
  unfolding rows_local_def using assms
  by (intro exI [of _ "\<lambda>p. if P p then f p else p"]) (auto simp: update_rows_def)

lemma rows_local_ops:
  "rows_local i s (confirm_applied s i now)" "rows_local i s (time_out_pending s i)"
  "rows_local (dt_ID t) s (fst (confirm_late s t now))"
  unfolding confirm_applied_def time_out_pending_def confirm_late_def Let_def fst_conv
  by (rule rows_local_update; simp)+

lemma rows_local_before_close: "rows_local i s (before_close s i now)"
  unfolding before_close_def Let_def
  using rows_local_ops(1) rows_local_trans [OF rows_local_ops(1) rows_local_ops(2)] by simp

lemma tasks_local_update:
  assumes "\<And>t. P t \<Longrightarrow> dt_ID t = i" and "\<And>t. dt_ID (f t) = dt_ID t"
  shows "tasks_local i s (s\<lparr>deployment_tasks := update_rows P f (deployment_tasks s)\<rparr>)"
  unfolding tasks_local_def using assms
  by (intro exI [of _ "\<lambda>p. if P p then f p else p"]) (auto simp: update_rows_def)

lemma finish_tables:
  "finishDrainCleanupTx s i st now = Inr s' \<Longrightarrow>
    deployment_tasks s' = deployment_tasks s \<and> publish_nodes s' = publish_nodes s \<and> nodes s' = nodes s"
  by (auto simp: finishDrainCleanupTx_def Let_def split: if_splits)

lemma UpdateTask_tables:
  assumes "UpdateTask s i st detail now = Inr s'"
  shows "tasks_local i s s' \<and> publish_nodes s' = publish_nodes s \<and>
    (\<forall>t \<in> set (deployment_tasks s'). dt_ID t = i \<longrightarrow> dt_Status t = st)"
proof -
  from assms have s': "s' = s\<lparr>deployment_tasks := update_rows (\<lambda>t. dt_ID t = i)
      (\<lambda>t. t\<lparr>dt_Status := st, dt_Detail := detail, dt_UpdatedAt := now\<rparr>) (deployment_tasks s)\<rparr>"
    by (simp add: UpdateTask_def)
  show ?thesis
    unfolding s' by (intro conjI tasks_local_update) (simp_all add: ball_update_rows)
qed

lemma completeDrainCleanup_tables:
  assumes "completeDrainCleanup s i st detail now = Inr s'"
  shows "tasks_local i s s' \<and> publish_nodes s' = publish_nodes s"
proof -
  let ?P = "\<lambda>t. dt_ID t = i \<and> dt_Kind t = KindDrainSite \<and> active_task_status (dt_Status t)"
  let ?s1 = "s\<lparr>deployment_tasks := update_rows ?P
      (\<lambda>t. t\<lparr>dt_Status := st, dt_Detail := detail, dt_UpdatedAt := now\<rparr>) (deployment_tasks s)\<rparr>"
  have "tasks_local i s ?s1" by (rule tasks_local_update) simp_all
  moreover have "s' = s \<or> deployment_tasks s' = deployment_tasks ?s1 \<and> publish_nodes s' = publish_nodes ?s1"
    using assms finish_tables [of ?s1 i st now s'] by (auto simp: completeDrainCleanup_def Let_def split: if_splits)
  ultimately show ?thesis
    using tasks_local_refl [of s s i] by (elim disjE) (simp_all add: tasks_local_def)
qed

lemma close_task_tables:
  "close_task s i kind oc now = Inr s' \<Longrightarrow> tasks_local i s s' \<and> publish_nodes s' = publish_nodes s
     \<and> (kind \<noteq> KindDrainSite \<longrightarrow> (\<forall>t \<in> set (deployment_tasks s'). dt_ID t = i \<longrightarrow> dt_Status t = fst oc))"
  using UpdateTask_tables completeDrainCleanup_tables by (auto simp: close_task_def split: if_splits)

lemma tasks_local_eq: "deployment_tasks r = deployment_tasks s \<Longrightarrow> tasks_local i r s' \<Longrightarrow> tasks_local i s s'"
  by (simp add: tasks_local_def)

lemma rows_local_eq: "publish_nodes s' = publish_nodes r \<Longrightarrow> rows_local i s r \<Longrightarrow> rows_local i s s'"
  by (simp add: rows_local_def)

lemma reconcilePublishTask_local:
  assumes "reconcilePublishTask s i kind dl now = Inr s'"
  shows "tasks_local i s s' \<and> rows_local i s s'"
proof -
  let ?s1 = "confirm_applied s i now"
  have d: "deployment_tasks ?s1 = deployment_tasks s" "deployment_tasks (before_close s i now) = deployment_tasks s"
    by (simp_all add: before_close_def Let_def)
  have closed: ?thesis if "reconcilePublishTask s i kind dl now = close_task r i kind oc now"
    "deployment_tasks r = deployment_tasks s" "rows_local i s r" for r oc
    using close_task_tables [of r i kind oc now s'] tasks_local_eq [OF that(2)] rows_local_eq that assms by metis
  have waits: ?thesis if "reconcilePublishTask s i kind dl now = Inr ?s1"
    using that assms d(1) rows_local_ops(1) by (metis tasks_local_refl sum.inject(2))
  show ?thesis
    by (rule reconcilePublishTask_cases [of s i kind dl now])
      (use waits closed d rows_local_ops(1) rows_local_before_close in blast)+
qed

end
