(* ===== verification/Publish_Properties.thy ===== *)
theory Publish_Properties
  imports Publish_Facts
begin

section \<open>Properties of publication tasks\<close>

text \<open>
  The outcome of a closed publication always matches the outcomes of its nodes (\<open>settled\<close>), deadlines
  close tasks, and drains go only when the edge confirmed their removal.
\<close>

subsection \<open>Settled tasks\<close>

definition task_outcome :: "store \<Rightarrow> string \<Rightarrow> task_status" where
  "task_outcome s i = fst (publishTaskOutcome (task_total s i) (task_succeeded s i) 0)"

definition settled_task :: "store \<Rightarrow> deployment_task \<Rightarrow> bool" where
  "settled_task s t \<longleftrightarrow> (task_total s (dt_ID t) \<noteq> 0 \<longrightarrow>
     task_pending s (dt_ID t) = 0 \<and> dt_Status t = task_outcome s (dt_ID t))"

text \<open>Of the tasks with an identifier in \<open>K\<close>, every closed publication is settled.\<close>

definition settled :: "string set \<Rightarrow> store \<Rightarrow> bool" where
  "settled K s \<longleftrightarrow> (\<forall>t \<in> set (deployment_tasks s). dt_ID t \<in> K \<and>
     dt_Kind t = KindPublishSite \<and> \<not> active_task_status (dt_Status t) \<longrightarrow> settled_task s t)"

lemma outcome_fst: "fst (publishTaskOutcome a b c) = fst (publishTaskOutcome a b d)"
  by (simp add: publishTaskOutcome_def)

lemma task_rows_local:
  assumes "rows_local i s s'" and "j \<noteq> i"
  shows "task_rows s' j = task_rows s j"
proof -
  from assms(1) obtain g where g: "publish_nodes s' = map g (publish_nodes s)"
    "\<forall>p. ptn_TaskID (g p) = ptn_TaskID p \<and> (ptn_TaskID p \<noteq> i \<longrightarrow> g p = p)"
    unfolding rows_local_def by blast
  have "filter (\<lambda>p. ptn_TaskID p = j) (map g ps) = filter (\<lambda>p. ptn_TaskID p = j) ps" for ps
    using g(2) assms(2) by (induction ps) auto
  then show ?thesis by (simp add: task_rows_def g(1))
qed

lemma task_total_local:
  assumes "rows_local i s s'"
  shows "task_total s' j = task_total s j"
proof -
  from assms obtain g where g: "publish_nodes s' = map g (publish_nodes s)" "\<forall>p. ptn_TaskID (g p) = ptn_TaskID p"
    unfolding rows_local_def by blast
  have "length (filter (\<lambda>p. ptn_TaskID p = j) (map g ps)) = length (filter (\<lambda>p. ptn_TaskID p = j) ps)" for ps
    using g(2) by (induction ps) auto
  then show ?thesis by (simp add: task_total_def task_rows_def g(1))
qed

lemma settled_task_rows: "task_rows s' (dt_ID t) = task_rows s (dt_ID t) \<Longrightarrow> settled_task s' t = settled_task s t"
  by (simp add: settled_task_def task_outcome_def task_total_def task_pending_def task_succeeded_def)

text \<open>An operation that touches one task keeps every other task settled.\<close>

lemma settled_local:
  assumes "settled K s" and "tasks_local i s s'" and "rows_local i s s'"
    and own: "\<And>t. t \<in> set (deployment_tasks s') \<Longrightarrow> dt_ID t = i \<Longrightarrow> dt_Kind t = KindPublishSite \<Longrightarrow>
      \<not> active_task_status (dt_Status t) \<Longrightarrow> i \<in> K \<Longrightarrow> settled_task s' t"
  shows "settled K s'"
  unfolding settled_def
proof (intro ballI impI)
  fix t assume t: "t \<in> set (deployment_tasks s')"
    "dt_ID t \<in> K \<and> dt_Kind t = KindPublishSite \<and> \<not> active_task_status (dt_Status t)"
  show "settled_task s' t"
  proof (cases "dt_ID t = i")
    case False
    from assms(2) obtain h where h: "deployment_tasks s' = map h (deployment_tasks s)"
      "\<forall>t. dt_ID (h t) = dt_ID t \<and> (dt_ID t \<noteq> i \<longrightarrow> h t = t)" unfolding tasks_local_def by blast
    with t(1) obtain u where "u \<in> set (deployment_tasks s)" "t = h u" by auto
    with h(2) False have "t \<in> set (deployment_tasks s)" by auto
    with assms(1) t(2) have "settled_task s t" by (simp add: settled_def)
    with settled_task_rows [OF task_rows_local [OF assms(3) False]] show ?thesis by simp
  qed (use own t in blast)
qed

lemma confirm_applied_none:
  assumes "task_pending s i = 0"
  shows "confirm_applied s i now = s"
proof -
  have "\<forall>p \<in> set (publish_nodes s). \<not> (ptn_TaskID p = i \<and> ptn_Status p = PublishNodePending \<and> node_applied s p)"
    using assms by (auto simp: task_pending_def count_rows_0 set_task_rows)
  then show ?thesis by (simp add: confirm_applied_def update_rows_none)
qed

lemma time_out_rows:
  "task_rows (time_out_pending s i) i = map (\<lambda>p. if ptn_Status p = PublishNodePending
     then p\<lparr>ptn_Status := PublishNodeTimedOut, ptn_ErrorCode := ''confirmation_timeout'',
            ptn_Detail := ''edge did not confirm the target configuration before the publish deadline''\<rparr> else p) (task_rows s i)"
proof -
  have gen: "filter (\<lambda>p. ptn_TaskID p = i) (update_rows (\<lambda>p. ptn_TaskID p = i \<and> ptn_Status p = PublishNodePending) f ps)
      = map (\<lambda>p. if ptn_Status p = PublishNodePending then f p else p) (filter (\<lambda>p. ptn_TaskID p = i) ps)"
    if "\<And>p. ptn_TaskID (f p) = ptn_TaskID p" for f ps
    by (induction ps) (auto simp: that)
  show ?thesis by (simp add: task_rows_def time_out_pending_def gen)
qed

lemma time_out_counts:
  "task_total (time_out_pending s i) i = task_total s i"
  "task_pending (time_out_pending s i) i = 0"
  "task_succeeded (time_out_pending s i) i = task_succeeded s i"
proof -
  show "task_total (time_out_pending s i) i = task_total s i"
    by (simp add: task_total_def time_out_rows)
  show "task_pending (time_out_pending s i) i = 0"
    by (auto simp: task_pending_def time_out_rows count_rows_0)
  have gen: "count_rows (\<lambda>p. ptn_Status p = PublishNodeSucceeded)
      (map (\<lambda>p. if ptn_Status p = PublishNodePending then f p else p) ps)
    = count_rows (\<lambda>p. ptn_Status p = PublishNodeSucceeded) ps"
    if "\<And>p. ptn_Status (f p) = PublishNodeTimedOut" for f ps
    by (induction ps) (auto simp: that)
  show "task_succeeded (time_out_pending s i) i = task_succeeded s i"
    by (simp add: task_succeeded_def time_out_rows gen)
qed

lemma before_close_counts:
  "task_total (before_close s i now) i = task_total (confirm_applied s i now) i"
  "task_pending (before_close s i now) i = 0"
  "task_succeeded (before_close s i now) i = task_succeeded (confirm_applied s i now) i"
  by (simp_all add: before_close_def Let_def time_out_counts)

lemma settled_task_eq_rows:
  "publish_nodes s' = publish_nodes s \<Longrightarrow> settled_task s' t = settled_task s t"
  by (rule settled_task_rows) (simp add: task_rows_def)

lemma reconcilePublishTask_settled:
  assumes wf: "tasks_wf s" and settled: "settled K s"
    and t: "t \<in> set (deployment_tasks s)" "dt_ID t = i" "dt_Kind t = kind"
    and run: "reconcilePublishTask s i kind dl now = Inr s'"
  shows "settled K s'"
proof (rule settled_local [OF settled])
  show "tasks_local i s s'" "rows_local i s s'" using reconcilePublishTask_local [OF run] by blast+
  fix u assume u: "u \<in> set (deployment_tasks s')" "dt_ID u = i" "dt_Kind u = KindPublishSite"
    "\<not> active_task_status (dt_Status u)" and K: "i \<in> K"
  obtain s'' where "reconcilePublishTask s i kind dl now = Inr s''" "advance now s s''"
    using reconcilePublishTask_advance [OF wf t, of dl now] by blast
  with run have adv: "advance now s s'" by simp
  then obtain u0 where u0: "u0 \<in> set (deployment_tasks s)" "same_task u0 u"
    using u(1) unfolding advance_def advance_tasks_def by auto
  then have "u0 = t"
    using wf t(1,2) u(2) by (metis find_row_key_unique option.inject tasks_wf_def same_task_def)
  with u0(2) u(3) t(3) have kind: "kind \<noteq> KindDrainSite" by (simp add: same_task_def)
  have waits: "settled_task s' u" if "reconcilePublishTask s i kind dl now = Inr (confirm_applied s i now)"
  proof -
    from that run have s': "s' = confirm_applied s i now" by simp
    with u(1) have u': "u \<in> set (deployment_tasks s)" by simp
    show ?thesis
    proof (cases "task_total s i = 0")
      case True
      have "task_total s' i = 0"
        using True task_total_local [OF rows_local_ops(1)] by (simp add: s')
      then show ?thesis using u(2) by (simp add: settled_task_def)
    next
      case False
      have "settled_task s u" using settled u' u(2-4) K by (simp add: settled_def)
      with False u(2) have "task_pending s i = 0" by (simp add: settled_task_def)
      with \<open>settled_task s u\<close> s' show ?thesis by (simp add: confirm_applied_none)
    qed
  qed
  show "settled_task s' u"
  proof (rule reconcilePublishTask_cases [of s i kind dl now])
    fix d assume "task_total (confirm_applied s i now) i = 0" and
      "reconcilePublishTask s i kind dl now = close_task (confirm_applied s i now) i kind
         (TaskFailed, err ''task did not create edge confirmation targets; retry'') now"
    with run have "publish_nodes s' = publish_nodes (confirm_applied s i now)"
      using close_task_tables by metis
    then have "task_total s' i = 0"
      using \<open>task_total (confirm_applied s i now) i = 0\<close> by (simp add: task_total_def task_rows_def)
    then show ?thesis using u(2) by (simp add: settled_task_def)
  next
    fix f
    let ?oc = "publishTaskOutcome (task_total (confirm_applied s i now) i) (task_succeeded (confirm_applied s i now) i) f"
    assume "reconcilePublishTask s i kind dl now = close_task (before_close s i now) i kind ?oc now"
    with run have rows: "publish_nodes s' = publish_nodes (before_close s i now)"
      and status: "dt_Status u = fst ?oc"
      using close_task_tables [of "before_close s i now" i kind ?oc now s'] kind u(1,2) by auto
    have "settled_task (before_close s i now) u"
      using u(2) status outcome_fst
      by (simp add: settled_task_def before_close_counts task_outcome_def)
    with settled_task_eq_rows [OF rows] show ?thesis by simp
  qed (use waits in blast)+
qed

lemma reconcile_tasks_settled:
  assumes "tasks_wf s" and "settled K s"
    and "\<forall>x \<in> set ts. \<exists>t \<in> set (deployment_tasks s). dt_ID t = dt_ID x \<and> dt_Kind t = dt_Kind x"
    and "reconcile_tasks s ts now = Inr s'"
  shows "settled K s'"
  using assms
proof (induction ts arbitrary: s)
  case Nil
  then show ?case by simp
next
  case (Cons x ts)
  from Cons.prems(3) obtain t where t: "t \<in> set (deployment_tasks s)" "dt_ID t = dt_ID x" "dt_Kind t = dt_Kind x"
    by auto
  from Cons.prems(4) obtain s1 where s1: "reconcilePublishTask s (dt_ID x) (dt_Kind x) (dt_DeadlineAt x) now = Inr s1"
    "reconcile_tasks s1 ts now = Inr s'" by auto
  with reconcilePublishTask_advance [OF Cons.prems(1) t, of "dt_DeadlineAt x" now] have adv: "advance now s s1" by auto
  have "\<forall>x \<in> set ts. \<exists>t \<in> set (deployment_tasks s1). dt_ID t = dt_ID x \<and> dt_Kind t = dt_Kind x"
    using Cons.prems(3) adv unfolding advance_def advance_tasks_def same_task_def by fastforce
  with Cons.IH [OF tasks_wf_advance [OF adv Cons.prems(1)]]
    reconcilePublishTask_settled [OF Cons.prems(1,2) t s1(1)] s1(2) show ?case by blast
qed

lemma finish_each_tables:
  "finish_each s ts now = Inr s' \<Longrightarrow> deployment_tasks s' = deployment_tasks s \<and> publish_nodes s' = publish_nodes s"
proof (induction ts arbitrary: s)
  case (Cons x ts)
  then show ?case using finish_tables by (auto simp: FinishDrainCleanup_def)
qed simp

lemma settled_tables:
  "deployment_tasks s' = deployment_tasks s \<Longrightarrow> publish_nodes s' = publish_nodes s \<Longrightarrow> settled K s' = settled K s"
  using settled_task_eq_rows [of s' s] by (simp add: settled_def)

lemma late_local:
  assumes "reconcileLatePublishConfirmations s x now = Inr (s', b)"
  shows "tasks_local (dt_ID x) s s' \<and> rows_local (dt_ID x) s s'"
proof -
  let ?s1 = "fst (confirm_late s x now)"
  have loc1: "rows_local (dt_ID x) s ?s1" "deployment_tasks ?s1 = deployment_tasks s"
    using rows_local_ops(3) [of x s now] confirm_applied_tasks(3) [of s x now] by simp_all
  from assms have "s' = s \<or> s' = ?s1 \<or> (\<exists>st d. UpdateTask ?s1 (dt_ID x) st d now = Inr s')"
    by (auto simp: reconcileLatePublishConfirmations_def Let_def split: if_splits sum.splits prod.splits)
  then show ?thesis
  proof (elim disjE exE)
    fix st d assume "UpdateTask ?s1 (dt_ID x) st d now = Inr s'"
    note tab = UpdateTask_tables [OF this]
    with tasks_local_eq [OF loc1(2)] rows_local_eq [OF _ loc1(1), of s'] show ?thesis by blast
  qed (simp_all add: tasks_local_refl rows_local_refl loc1)
qed

lemma late_settled:
  assumes wf: "tasks_wf s" and settled: "settled K s"
    and u: "u \<in> set (deployment_tasks s)" "dt_ID u = dt_ID x" "dt_Kind u = KindPublishSite"
      "\<not> active_task_status (dt_Status u)"
    and run: "reconcileLatePublishConfirmations s x now = Inr (s', b)"
  shows "settled K s'"
proof (cases "dt_ID x \<notin> K \<or> dt_Kind x \<noteq> KindPublishSite \<or> (dt_Status x \<noteq> TaskPartial \<and> dt_Status x \<noteq> TaskFailed)")
  case True
  then show ?thesis
  proof (elim disjE)
    assume "dt_ID x \<notin> K"
    then show ?thesis using settled_local [OF settled] late_local [OF run] by blast
  qed (use run settled in \<open>auto simp: reconcileLatePublishConfirmations_def\<close>)
next
  case False
  then have K: "dt_ID x \<in> K" and go: "\<not> (dt_Kind x \<noteq> KindPublishSite \<or> dt_Status x \<noteq> TaskPartial \<and> dt_Status x \<noteq> TaskFailed)"
    by blast+
  let ?i = "dt_ID x"
  obtain s1 n where late: "confirm_late s x now = (s1, n)" by fastforce
  then have s1: "s1 = fst (confirm_late s x now)" by simp
  have loc1: "rows_local ?i s s1" "deployment_tasks s1 = deployment_tasks s"
    using rows_local_ops(3) [of x s now] confirm_applied_tasks(3) [of s x now] by (simp_all add: s1)
  have pend: "task_pending s1 ?i = 0" if "task_total s1 ?i \<noteq> 0"
  proof -
    have "task_total s ?i \<noteq> 0"
      using that task_total_local [OF loc1(1)] by simp
    with settled u K have "task_pending s ?i = 0" by (auto simp: settled_def settled_task_def)
    then show ?thesis
      by (auto simp: task_pending_def count_rows_0 set_task_rows s1 confirm_late_def Let_def set_update_rows split: if_splits)
  qed
  let ?oc = "publishTaskOutcome (task_total s1 ?i) (task_succeeded s1 ?i) (task_failed s1 ?i)"
  have R: "reconcileLatePublishConfirmations s x now =
      (if task_total s1 ?i = 0 \<or> task_pending s1 ?i > 0 then Inr (s1, False)
       else if n = 0 \<and> dt_Status x = fst ?oc \<and> dt_Detail x = snd ?oc then Inr (s1, False)
       else case UpdateTask s1 ?i (fst ?oc) (snd ?oc) now of Inl e \<Rightarrow> Inl e | Inr s2 \<Rightarrow> Inr (s2, True))"
    unfolding reconcileLatePublishConfirmations_def if_not_P [OF go] late prod.case Let_def ..
  consider (none) "task_total s1 ?i = 0" "s' = s1"
    | (same) "task_total s1 ?i \<noteq> 0" "n = 0" "s' = s1"
    | (upd) "task_total s1 ?i \<noteq> 0" "UpdateTask s1 ?i (fst ?oc) (snd ?oc) now = Inr s'"
  proof (cases "task_total s1 ?i = 0")
    case True
    with run R have "s' = s1" by simp
    with True none show ?thesis by blast
  next
    case tot: False
    show ?thesis
    proof (cases "n = 0 \<and> dt_Status x = fst ?oc \<and> dt_Detail x = snd ?oc")
      case True
      have "reconcileLatePublishConfirmations s x now = Inr (s1, False)" unfolding R if_P [OF True] by simp
      with run have "s' = s1" by simp
      with True tot same show ?thesis by blast
    next
      case go: False
      have "reconcileLatePublishConfirmations s x now =
          (case UpdateTask s1 ?i (fst ?oc) (snd ?oc) now of Inl e \<Rightarrow> Inl e | Inr s2 \<Rightarrow> Inr (s2, True))"
        unfolding R if_not_P [OF go] using tot pend [OF tot] by simp
      with run have "UpdateTask s1 ?i (fst ?oc) (snd ?oc) now = Inr s'" by simp
      with tot upd show ?thesis by blast
    qed
  qed
  then show ?thesis
  proof cases
    case none
    have "settled_task s1 t" if "dt_ID t = ?i" for t using none(1) that by (simp add: settled_task_def)
    with settled_local [OF settled tasks_local_refl [OF loc1(2)] loc1(1)] none(2) show ?thesis by simp
  next
    case same
    have "s1 = s"
    proof -
      from same(2) late have "snd (confirm_late s x now) = 0" by simp
      then show ?thesis by (simp add: s1 confirm_late_def Let_def count_rows_0 update_rows_none)
    qed
    with same(3) settled show ?thesis by simp
  next
    case upd
    note tab = UpdateTask_tables [OF upd(2)]
    have rows: "publish_nodes s' = publish_nodes s1" using tab by blast
    have "settled_task s' t" if "t \<in> set (deployment_tasks s')" "dt_ID t = ?i" for t
    proof -
      have "dt_Status t = fst ?oc" using tab that by blast
      with that(2) pend [OF upd(1)] have "settled_task s1 t"
        using outcome_fst by (simp add: settled_task_def task_outcome_def)
      with settled_task_eq_rows [OF rows] show ?thesis by simp
    qed
    moreover have "tasks_local ?i s s'" using tab tasks_local_eq [OF loc1(2)] by blast
    moreover have "rows_local ?i s s'" using rows loc1(1) by (rule rows_local_eq)
    ultimately show ?thesis using settled_local [OF settled] by blast
  qed
qed

lemma reconcile_late_settled:
  assumes "tasks_wf s" and "settled K s"
    and "\<forall>x \<in> set ts. \<exists>u \<in> set (deployment_tasks s). dt_ID u = dt_ID x \<and> dt_Kind u = KindPublishSite
           \<and> \<not> active_task_status (dt_Status u)"
    and "reconcile_late s ts now = Inr s'"
  shows "settled K s'"
  using assms
proof (induction ts arbitrary: s)
  case Nil
  then show ?case by simp
next
  case (Cons x ts)
  from Cons.prems(3) obtain u where u: "u \<in> set (deployment_tasks s)" "dt_ID u = dt_ID x"
    "dt_Kind u = KindPublishSite" "\<not> active_task_status (dt_Status u)" by auto
  from Cons.prems(4) obtain s1 b where s1: "reconcileLatePublishConfirmations s x now = Inr (s1, b)"
    "reconcile_late s1 ts now = Inr s'" by (auto split: sum.splits)
  with reconcile_late_one [OF Cons.prems(1) u(1,2), of now] have adv: "advance now s s1" by auto
  have "\<forall>x \<in> set ts. \<exists>u \<in> set (deployment_tasks s1). dt_ID u = dt_ID x \<and> dt_Kind u = KindPublishSite
           \<and> \<not> active_task_status (dt_Status u)"
  proof
    fix y assume "y \<in> set ts"
    then obtain v where "v \<in> set (deployment_tasks s)" "dt_ID v = dt_ID y" "dt_Kind v = KindPublishSite"
      "\<not> active_task_status (dt_Status v)" using Cons.prems(3) by auto
    with adv show "\<exists>u \<in> set (deployment_tasks s1). dt_ID u = dt_ID y \<and> dt_Kind u = KindPublishSite
           \<and> \<not> active_task_status (dt_Status u)"
      unfolding advance_def advance_tasks_def same_task_def by fastforce
  qed
  with Cons.IH [OF tasks_wf_advance [OF adv Cons.prems(1)] late_settled [OF Cons.prems(1,2) u s1(1)]] s1(2)
  show ?case by blast
qed

lemma ReconcilePublishTasks_settled:
  assumes wf: "tasks_wf s" and settled: "settled K s" and run: "ReconcilePublishTasks s now = Inr s'"
  shows "settled K s'"
proof -
  let ?ts = "sort_key (\<lambda>t. stamp (dt_CreatedAt t))
             (filter (\<lambda>t. dt_Kind t \<in> {KindPublishSite, KindDrainSite} \<and> active_task_status (dt_Status t))
                (deployment_tasks s))"
  from run obtain s1 s2 where s1: "reconcile_tasks s ?ts now = Inr s1"
    and s2: "reconcileDrainTaskFinalizations s1 now = Inr s2"
    and s3: "reconcile_late s2 (latest_closed s2) now = Inr s'"
    by (auto simp: ReconcilePublishTasks_def)
  have in_s: "\<forall>x \<in> set ?ts. \<exists>t \<in> set (deployment_tasks s). dt_ID t = dt_ID x \<and> dt_Kind t = dt_Kind x" by auto
  have "settled K s1" using reconcile_tasks_settled [OF wf settled in_s s1] .
  moreover have "settled K s2 = settled K s1"
    using s2 finish_each_tables by (auto simp: reconcileDrainTaskFinalizations_def intro!: settled_tables)
  ultimately have set2: "settled K s2" by simp
  have "advance now s s1" using reconcile_tasks_advance [OF wf in_s, of now] s1 by auto
  moreover have "advance now s1 s2" using finalizations_advance [of s1 now] s2 by auto
  ultimately have wf2: "tasks_wf s2" using wf tasks_wf_advance by blast
  have "\<forall>x \<in> set (latest_closed s2). \<exists>u \<in> set (deployment_tasks s2). dt_ID u = dt_ID x \<and> dt_Kind u = KindPublishSite
           \<and> \<not> active_task_status (dt_Status u)"
    by (auto simp: latest_closed_def active_task_status_def)
  from reconcile_late_settled [OF wf2 set2 this s3] show ?thesis .
qed

subsection \<open>Reports\<close>

lemma RecordPublishApply_settled:
  assumes wf: "tasks_wf s" and settled: "settled K s" and run: "RecordPublishApply s n r now = Inr s'"
  shows "settled K s'"
proof -
  let ?P = "\<lambda>p. ptn_NodeID p = n \<and> ptn_TargetVersion p \<le> ar_Version r
                \<and> ptn_Status p = PublishNodePending
                \<and> task_active_of_kinds s {KindPublishSite, KindDeleteSite, KindDrainSite} (ptn_TaskID p)"
  from run obtain f where s': "s' = s\<lparr>publish_nodes := update_rows ?P f (publish_nodes s)\<rparr>"
    and f: "\<And>p. ptn_TaskID (f p) = ptn_TaskID p"
    by (auto simp: RecordPublishApply_def)
  have "task_rows s' (dt_ID t) = task_rows s (dt_ID t)"
    if t: "t \<in> set (deployment_tasks s)" "\<not> active_task_status (dt_Status t)" for t
  proof -
    have "u = t" if "u \<in> set (deployment_tasks s)" "dt_ID u = dt_ID t" for u
      using wf that t(1) by (metis find_row_key_unique option.inject tasks_wf_def)
    with t(2) have no: "\<not> task_active_of_kinds s K (dt_ID t)" for K
      by (auto simp: task_active_of_kinds_def list_ex_iff)
    have "filter (\<lambda>p. ptn_TaskID p = dt_ID t) (update_rows ?P f ps) = filter (\<lambda>p. ptn_TaskID p = dt_ID t) ps" for ps
      by (induction ps) (auto simp: f no)
    then show ?thesis by (simp add: s' task_rows_def)
  qed
  then have "settled_task s' t" if "t \<in> set (deployment_tasks s)" "dt_ID t \<in> K" "dt_Kind t = KindPublishSite"
    "\<not> active_task_status (dt_Status t)" for t
    using settled that settled_task_rows [of s' t s] unfolding settled_def by blast
  moreover have "deployment_tasks s' = deployment_tasks s" by (simp add: s')
  ultimately show ?thesis unfolding settled_def by simp
qed

subsection \<open>Queueing\<close>

lemma queue_task_settled:
  assumes "settled K s" and "queue_task kind detail retry s ids i dl now = Inr (s', t, b)"
  shows "settled K s' \<and> (tasks_wf s \<longrightarrow> tasks_wf s')"
  using assms
proof (induction ids)
  case (Cons x ids)
  let ?t = "queued_task kind detail x i dl now"
  show ?case
  proof (cases "snd (insert_task_or_ignore s ?t)")
    case True
    then have ins: "insert_task_or_ignore s ?t = (s\<lparr>deployment_tasks := deployment_tasks s @ [?t]\<rparr>, True)"
      and fresh: "x \<notin> dt_ID ` set (deployment_tasks s)"
      by (auto simp: insert_task_or_ignore_def list_ex_iff queued_task_def image_iff split: if_splits)
    with Cons.prems(2) have s': "s' = s\<lparr>deployment_tasks := deployment_tasks s @ [?t]\<rparr>"
      by (auto simp: Let_def)
    have "settled_task s' u = settled_task s u" for u by (rule settled_task_eq_rows) (simp add: s')
    with Cons.prems(1) have "settled K s'"
      by (simp add: settled_def s' queued_task_def active_task_status_def)
    moreover have "tasks_wf s \<longrightarrow> tasks_wf s'" using fresh by (simp add: tasks_wf_def s' queued_task_def)
    ultimately show ?thesis by blast
  next
    case False
    then have "insert_task_or_ignore s ?t = (s, False)" by (simp add: insert_task_or_ignore_def split: if_splits)
    with Cons show ?thesis by (cases "active_task_of kind s i") (simp_all add: Let_def)
  qed
qed simp

lemma queue_task_wf: "queue_task kind detail retry s ids i dl now = Inr (s', t, b) \<Longrightarrow> tasks_wf s \<Longrightarrow> tasks_wf s'"
proof (induction ids)
  case (Cons x ids)
  obtain s1 ins where i1: "insert_task_or_ignore s (queued_task kind detail x i dl now) = (s1, ins)" by (metis surj_pair)
  then have "tasks_wf s1" using Cons.prems(2)
    by (fastforce simp: insert_task_or_ignore_def tasks_wf_def list_ex_iff image_iff split: if_splits)
  with Cons i1 show ?case by (auto simp: Let_def split: if_splits option.splits)
qed simp

subsection \<open>The life of publication tasks\<close>

text \<open>
  What happens to the tables of publications: sites queue tasks, the publisher adds targets to a task and
  sets its status (neither of which looks at the status the task has), edges report, heartbeats change the
  nodes (any change of them is allowed here), and the health loop reconciles. \<open>W\<close> has the identifiers
  of the tasks that the publisher writes during the history.
\<close>

inductive publish_step :: "string set \<Rightarrow> store \<Rightarrow> store \<Rightarrow> bool" for W where
  queue: "CreateOrGetActivePublishTask s ids i dl now = Inr (s', t, b) \<Longrightarrow> publish_step W s s'"
| queue_drain: "CreateOrGetActiveDrainTask s ids i dl now = Inr (s', t, b) \<Longrightarrow> publish_step W s s'"
| targets: "CreatePublishTaskNodes s i ts = Inr s' \<Longrightarrow> i \<in> W \<Longrightarrow> publish_step W s s'"
| update: "UpdateTask s i status detail now = Inr s' \<Longrightarrow> i \<in> W \<Longrightarrow> publish_step W s s'"
| report: "RecordPublishApply s n r now = Inr s' \<Longrightarrow> publish_step W s s'"
| heartbeat: "publish_step W s (s\<lparr>nodes := ns\<rparr>)"
| reconcile: "ReconcilePublishTasks s now = Inr s' \<Longrightarrow> publish_step W s s'"

lemma UpdateTask_wf: "UpdateTask s i st d now = Inr s' \<Longrightarrow> tasks_wf s \<Longrightarrow> tasks_wf s'"
  by (auto simp: UpdateTask_def tasks_wf_def map_key_update_rows split: if_splits)

lemma insert_targets_tables:
  "insert_targets s i ts = Inr s' \<Longrightarrow> deployment_tasks s' = deployment_tasks s \<and>
     (\<exists>ps. publish_nodes s' = publish_nodes s @ ps \<and> (\<forall>p \<in> set ps. ptn_TaskID p = i))"
proof (induction s i ts rule: insert_targets.induct)
  case (2 s i t ts)
  then have "deployment_tasks s' = deployment_tasks s \<and> (\<exists>ps. publish_nodes s' = (publish_nodes s @ [pending_row i t]) @ ps
      \<and> (\<forall>p \<in> set ps. ptn_TaskID p = i))" by (simp split: if_splits)
  then obtain ps where "deployment_tasks s' = deployment_tasks s"
    "publish_nodes s' = publish_nodes s @ (pending_row i t # ps)" "\<forall>p \<in> set ps. ptn_TaskID p = i" by auto
  then show ?case by (intro conjI exI [of _ "pending_row i t # ps"]) (simp_all add: pending_row_def)
qed simp

lemma publish_step_settled:
  assumes "publish_step W s s'" and "tasks_wf s" and "settled (- W) s"
  shows "tasks_wf s' \<and> settled (- W) s'"
  using assms
proof (cases rule: publish_step.cases)
  case (queue ids i dl now t b)
  then obtain s1 where s1: "ReconcilePublishTasks s now = Inr s1"
    "queue_task KindPublishSite ''building node configurations''
            (err ''publish task changed while being queued; retry request'') s1 [fst ids, snd ids] i dl now = Inr (s', t, b)"
    unfolding CreateOrGetActivePublishTask_def check_eq_Inr call_eq_Inr by blast
  with assms(2,3) ReconcilePublishTasks_settled ReconcilePublishTasks_advance [of s now] tasks_wf_advance
  have "settled (- W) s1" "tasks_wf s1" by (blast, metis sum.inject(2))
  with queue_task_settled s1(2) show ?thesis by blast
next
  case (queue_drain ids i dl now t b)
  then have "queue_task KindDrainSite ''preparing expired node drain cleanup''
            (err ''drain cleanup task changed while being queued; retry request'') s [fst ids, snd ids] i dl now
      = Inr (s', t, b)"
    unfolding CreateOrGetActiveDrainTask_def check_eq_Inr by blast
  with assms(2,3) queue_task_settled show ?thesis by blast
next
  case (targets i ts)
  have tab: "deployment_tasks s' = deployment_tasks s \<and>
     (\<exists>ps. publish_nodes s' = publish_nodes s @ ps \<and> (\<forall>p \<in> set ps. ptn_TaskID p = i))"
  proof (cases "ts = []")
    case True
    with targets(1) show ?thesis by (simp add: CreatePublishTaskNodes_def)
  next
    case False
    with targets(1) have "insert_targets s i ts = Inr s'"
      by (simp add: CreatePublishTaskNodes_def createPublishTaskNodesTx_def)
    then show ?thesis by (rule insert_targets_tables)
  qed
  have "task_rows s' (dt_ID t) = task_rows s (dt_ID t)" if "dt_ID t \<notin> W" for t
    using tab that targets(2) by (auto simp: task_rows_def filter_empty_conv)
  then have "settled_task s' t" if "t \<in> set (deployment_tasks s)" "dt_ID t \<in> - W" "dt_Kind t = KindPublishSite"
    "\<not> active_task_status (dt_Status t)" for t
    using assms(3) that settled_task_rows [of s' t s] unfolding settled_def by blast
  then have "settled (- W) s'" unfolding settled_def using tab by simp
  with tab assms(2) show ?thesis by (simp add: tasks_wf_def)
next
  case (update i status detail now)
  note tab = UpdateTask_tables [OF update(1)]
  have "rows_local i s s'" by (rule rows_local_refl) (use tab in blast)
  with tab update(2) have "settled (- W) s'" using settled_local [OF assms(3), of i s'] by blast
  moreover have "tasks_wf s'" by (rule UpdateTask_wf [OF update(1) assms(2)])
  ultimately show ?thesis by blast
next
  case (report n r now)
  with assms(2,3) RecordPublishApply_settled tasks_wf_advance [OF RecordPublishApply_advance] show ?thesis by blast
next
  case (heartbeat ns)
  have "settled (- W) s' = settled (- W) s" unfolding heartbeat by (rule settled_tables) simp_all
  moreover have "tasks_wf s' = tasks_wf s" unfolding heartbeat by (simp add: tasks_wf_def)
  ultimately show ?thesis using assms(2,3) by blast
next
  case (reconcile now)
  with assms(2,3) ReconcilePublishTasks_settled ReconcilePublishTasks_advance [of s now] tasks_wf_advance
  show ?thesis by (metis sum.inject(2))
qed

text \<open>
  C5: take a publication task that is active, in any store. Over every sequence of queueing, edge reports,
  heartbeats, reconciliations and writes of the publisher to other tasks, whenever the task is found
  closed with targets then none of them is pending, and its status is the outcome of its targets:
  succeeded if all confirmed, partial if some did, failed if none did. The publisher's own writes to the task
  are left out: they do not look at its status.
\<close>

theorem closed_publications_are_settled:
  assumes "tasks_wf s" and "find_task s i = Some t" and "active_task_status (dt_Status t)"
    and "(publish_step (- {i}))\<^sup>*\<^sup>* s s'"
    and "find_task s' i = Some t'" and "dt_Kind t' = KindPublishSite" and "\<not> active_task_status (dt_Status t')"
    and "task_total s' i \<noteq> 0"
  shows "task_pending s' i = 0
    \<and> dt_Status t' = (if task_succeeded s' i = task_total s' i then TaskSucceeded
         else if task_succeeded s' i > 0 then TaskPartial else TaskFailed)"
proof -
  have t: "t \<in> set (deployment_tasks s)" "dt_ID t = i" and t': "t' \<in> set (deployment_tasks s')" "dt_ID t' = i"
    using assms(2,5) by (auto simp: find_task_def dest: find_row_SomeD)
  have "u = t" if "u \<in> set (deployment_tasks s)" "dt_ID u = i" for u
    using assms(1) t that by (metis find_row_key_unique option.inject tasks_wf_def)
  with assms(3) have "settled {i} s" by (auto simp: settled_def)
  with assms(4,1) have "tasks_wf s' \<and> settled {i} s'"
  proof (induction rule: rtranclp_induct)
    case (step y z)
    then show ?case using publish_step_settled [of "- {i}" y z] by simp
  qed simp
  with t' assms(6,7) have "settled_task s' t'" by (simp add: settled_def)
  with assms(8) t'(2) show ?thesis by (simp add: settled_task_def task_outcome_def publishTaskOutcome_def)
qed

text \<open>A store with a publication that waits for one node, and its deadline at the 100th second.\<close>

definition waiting_store :: store where
  "waiting_store = one_site_store\<lparr>
     deployment_tasks := [\<lparr>dt_ID = ''t1'', dt_Kind = KindPublishSite, dt_SiteID = ''s1'', dt_Status = TaskApplying,
       dt_Detail = err ''waiting'', dt_DeadlineAt = Some (100 * second), dt_CreatedAt = 0, dt_UpdatedAt = 0\<rparr>],
     publish_nodes := [pending_row ''t1'' \<lparr>tg_NodeID = ''n1'', tg_TargetVersion = 7\<rparr>]\<rparr>"

lemma waiting_store_wf: "tasks_wf waiting_store"
  by (simp add: tasks_wf_def waiting_store_def)

lemma waiting_store_closes:
  "\<exists>s'. ReconcilePublishTasks waiting_store (100 * second) = Inr s'
     \<and> map dt_Status (deployment_tasks s') = [TaskFailed] \<and> task_total s' ''t1'' = 1"
  by (simp add: waiting_store_def ReconcilePublishTasks_def active_task_status_def reconcilePublishTask_def
      confirm_applied_def node_applied_def one_site_store_def one_node_store_def empty_store_def sample_node_def
      pending_row_def task_total_def task_rows_def task_pending_def task_succeeded_def task_failed_def Let_def
      time_out_pending_def close_task_def publishTaskOutcome_def UpdateTask_def
      reconcileDrainTaskFinalizations_def latest_closed_def reconcileLatePublishConfirmations_def
      confirm_late_def LatestPublishTask_def newer_task_def text_less_def second_def)

lemma waiting_store_advance:
  assumes "ReconcilePublishTasks waiting_store (100 * second) = Inr s'" and "deployment_tasks s' = [t]"
  shows "dt_ID t = ''t1''" and "dt_Kind t = KindPublishSite"
proof -
  obtain s1 where "ReconcilePublishTasks waiting_store (100 * second) = Inr s1" "advance (100 * second) waiting_store s1"
    using ReconcilePublishTasks_advance [OF waiting_store_wf, of "100 * second"] by (elim exE conjE) (rule that)
  with assms(1) have "advance (100 * second) waiting_store s'" by (simp only: sum.inject)
  then obtain h where "deployment_tasks s' = map h (deployment_tasks waiting_store)" "\<And>t. same_task t (h t)"
    unfolding advance_def advance_tasks_def by (elim exE conjE) (rule that, assumption, blast)
  then have "same_task (hd (deployment_tasks waiting_store)) t" using assms(2) by (simp add: waiting_store_def)
  then show "dt_ID t = ''t1''" and "dt_Kind t = KindPublishSite"
    by (simp_all add: same_task_def waiting_store_def)
qed

lemma closed_publications_are_settled_witness:
  "\<exists>s' t. ReconcilePublishTasks waiting_store (100 * second) = Inr s' \<and> find_task s' ''t1'' = Some t
     \<and> task_pending s' ''t1'' = 0 \<and> task_total s' ''t1'' = 1 \<and> dt_Status t = TaskFailed"
proof -
  obtain s' where s': "ReconcilePublishTasks waiting_store (100 * second) = Inr s'"
    "map dt_Status (deployment_tasks s') = [TaskFailed]" "task_total s' ''t1'' = 1"
    using waiting_store_closes by (elim exE conjE) (rule that)
  from s'(2) obtain t where t: "deployment_tasks s' = [t]" "dt_Status t = TaskFailed"
    by (cases "deployment_tasks s'") simp_all
  note id = waiting_store_advance [OF s'(1) t(1)]
  have run: "(publish_step (- {''t1''}))\<^sup>*\<^sup>* waiting_store s'"
    by (rule r_into_rtranclp) (rule publish_step.reconcile [OF s'(1)])
  obtain u where u: "find_task waiting_store ''t1'' = Some u" "active_task_status (dt_Status u)"
    by (simp add: waiting_store_def find_task_def active_task_status_def)
  have found: "find_task s' ''t1'' = Some t" by (simp add: find_task_def t(1) id(1))
  have closed: "\<not> active_task_status (dt_Status t)" by (simp add: t(2) active_task_status_def)
  have rows: "task_total s' ''t1'' \<noteq> 0" by (simp add: s'(3))
  from closed_publications_are_settled [OF waiting_store_wf u run found id(2) closed rows]
  have "task_pending s' ''t1'' = 0" ..
  with s'(1,3) found t(2) show ?thesis by blast
qed

text \<open>
  C6: reconciling at a time at or after the deadline of a publication or of a drain cleanup closes it,
  whatever the edge reported, and the reconciliation itself never fails.
\<close>

theorem deadlines_close_tasks:
  assumes "tasks_wf s" and "t \<in> set (deployment_tasks s)"
    and "dt_Kind t \<in> {KindPublishSite, KindDrainSite}" and "dt_DeadlineAt t = Some d" and "d \<le> now"
  shows "\<exists>s' t'. ReconcilePublishTasks s now = Inr s' \<and> find_task s' (dt_ID t) = Some t'
    \<and> dt_Status t' \<in> {TaskSucceeded, TaskPartial, TaskFailed, TaskRolledBack}"
proof -
  obtain s' where s': "ReconcilePublishTasks s now = Inr s'" "advance now s s'" "closed_in s' (dt_ID t)"
    using ReconcilePublishTasks_advance [OF assms(1), of now] assms(2-5) by blast
  from s'(2) obtain h where h: "\<forall>t. same_task t (h t)" "deployment_tasks s' = map h (deployment_tasks s)"
    unfolding advance_def advance_tasks_def by blast
  define t' where "t' = h t"
  have "t' \<in> set (deployment_tasks s')" "dt_ID t' = dt_ID t"
    using h assms(2) by (simp_all add: t'_def same_task_def)
  moreover from this have "find_task s' (dt_ID t) = Some t'"
    using find_row_key_unique [of dt_ID "deployment_tasks s'" t'] tasks_wf_advance [OF s'(2) assms(1)]
    by (simp add: tasks_wf_def find_task_def)
  ultimately show ?thesis
    using s' terminal_iff [of "dt_Status t'"] by (auto simp: closed_in_def terminal_status_def)
qed

lemma deadlines_close_tasks_witness:
  "\<exists>s' t'. ReconcilePublishTasks waiting_store (100 * second) = Inr s' \<and> find_task s' ''t1'' = Some t'
     \<and> dt_Status t' \<in> {TaskSucceeded, TaskPartial, TaskFailed, TaskRolledBack}"
  using deadlines_close_tasks [OF waiting_store_wf, of "hd (deployment_tasks waiting_store)" "100 * second" "100 * second"]
  by (simp add: waiting_store_def)

text \<open>
  C7: a reconciliation keeps every drain (the snapshot of the old configuration, at most released from
  its cleanup task), except a drain whose cleanup task was confirmed: by the drain's own node, by every
  node of the task, or in a task that had succeeded before. It never invents one.
\<close>

theorem drains_go_only_when_confirmed:
  assumes "tasks_wf s" and "ReconcilePublishTasks s now = Inr s'"
  shows "(\<forall>d' \<in> set (drains s'). \<exists>d \<in> set (drains s). kept_drain now d d')
    \<and> (\<forall>d \<in> set (drains s). (\<exists>d' \<in> set (drains s'). kept_drain now d d')
        \<or> (\<exists>taskID. dr_CleanupTaskID d = Some taskID
             \<and> (row_confirmed s' taskID (dr_NodeID d) \<or> all_confirmed s' taskID \<or> task_done s taskID)))"
  using ReconcilePublishTasks_advance [OF assms(1), of now] assms(2)
  by (auto simp: advance_def advance_drains_def may_go_def)

text \<open>Two nodes drain under one cleanup task; the first has confirmed, the second misses the deadline.\<close>

definition cleanup_drain :: "string \<Rightarrow> site_node_drain" where
  "cleanup_drain n = \<lparr>dr_ID = n, dr_SiteID = ''s1'', dr_NodeID = n, dr_Site = sample_site,
     dr_CertificateCiphertext = [], dr_KeyCiphertext = [], dr_CertificateNotAfter = None, dr_DNSTTLSeconds = 60,
     dr_DNSReadyAt = Some 0, dr_RemoveAfter = Some (5 * second), dr_CleanupTaskID = Some ''t2'',
     dr_CreatedAt = 0, dr_UpdatedAt = 0\<rparr>"

definition cleanup_store :: store where
  "cleanup_store = empty_store\<lparr>nodes := [sample_node ''n1'', sample_node ''n2''],
     deployment_tasks := [\<lparr>dt_ID = ''t2'', dt_Kind = KindDrainSite, dt_SiteID = ''s1'', dt_Status = TaskApplying,
       dt_Detail = err ''waiting'', dt_DeadlineAt = Some (100 * second), dt_CreatedAt = 0, dt_UpdatedAt = 0\<rparr>],
     publish_nodes := [(pending_row ''t2'' \<lparr>tg_NodeID = ''n1'', tg_TargetVersion = 7\<rparr>)\<lparr>ptn_Status := PublishNodeSucceeded\<rparr>,
       pending_row ''t2'' \<lparr>tg_NodeID = ''n2'', tg_TargetVersion = 7\<rparr>],
     drains := [cleanup_drain ''n1'', cleanup_drain ''n2'']\<rparr>"

lemma cleanup_store_reconciles:
  "case ReconcilePublishTasks cleanup_store (100 * second) of Inl _ \<Rightarrow> False
     | Inr s' \<Rightarrow> map dr_NodeID (drains s') = [''n2''] \<and> map dr_CleanupTaskID (drains s') = [None]"
  by code_simp

lemma drains_go_only_when_confirmed_witness:
  "\<exists>s'. ReconcilePublishTasks cleanup_store (100 * second) = Inr s' \<and> map dr_NodeID (drains s') = [''n2'']
     \<and> (\<exists>d' \<in> set (drains s'). kept_drain (100 * second) (cleanup_drain ''n2'') d')
     \<and> (row_confirmed s' ''t2'' ''n1'' \<or> all_confirmed s' ''t2'' \<or> task_done cleanup_store ''t2'')"
proof -
  obtain s' where s': "ReconcilePublishTasks cleanup_store (100 * second) = Inr s'" "map dr_NodeID (drains s') = [''n2'']"
    using cleanup_store_reconciles by (auto split: sum.splits)
  have wf: "tasks_wf cleanup_store" by (simp add: tasks_wf_def cleanup_store_def)
  note all = drains_go_only_when_confirmed [OF wf s'(1)]
  have drains: "set (drains cleanup_store) = {cleanup_drain ''n1'', cleanup_drain ''n2''}" by (simp add: cleanup_store_def)
  from s'(2) obtain d' where d': "drains s' = [d']" "dr_NodeID d' = ''n2''" by auto
  then have "\<not> kept_drain (100 * second) (cleanup_drain ''n1'') d'" by (auto simp: kept_drain_def cleanup_drain_def)
  moreover from this all d'(1) drains have "kept_drain (100 * second) (cleanup_drain ''n2'') d'" by auto
  ultimately show ?thesis using s' all d'(1) drains by (auto simp: cleanup_drain_def)
qed

end
