(* ===== verification/Publication_Properties.thy ===== *)
theory Publication_Properties
  imports Publication_Facts Publish_Properties
begin

section \<open>What a publication promises\<close>

subsection \<open>Concrete publications\<close>

text \<open>
  Site \<open>s1\<close> is published on node \<open>n1\<close>; its draft, when \<open>moved_store\<close>, is assigned to \<open>n2\<close>.
\<close>

definition sample_certificate :: certificate_row where
  "sample_certificate = \<lparr>ce_SiteID = ''s1'', ce_Certificate = ''c'', ce_Key = ''k'', ce_NotAfter = None\<rparr>"

definition sample_publication :: site_publication where
  "sample_publication = \<lparr>sp_Site = sample_site, sp_CertificateCiphertext = ''c'', sp_KeyCiphertext = ''k'',
     sp_CertificateNotAfter = None, sp_DNSTTLSeconds = 120, sp_PublishedAt = 5 * second\<rparr>"

definition publish_task :: "task_status \<Rightarrow> deployment_task" where
  "publish_task status = \<lparr>dt_ID = ''t1'', dt_Kind = KindPublishSite, dt_SiteID = ''s1'', dt_Status = status,
     dt_Detail = err ''d'', dt_DeadlineAt = Some (100 * second), dt_CreatedAt = 0, dt_UpdatedAt = 0\<rparr>"

definition moved_store :: store where
  "moved_store = empty_store\<lparr>nodes := [sample_node ''n1'', sample_node ''n2''],
     sites := [sample_site\<lparr>st_Nodes := [''n2'']\<rparr>], certificates := [sample_certificate],
     publications := [sample_publication], deployment_tasks := [publish_task TaskApplying],
     site_domains := [(''b.example'', ''s2''), (''a.example'', ''s1'')]\<rparr>"

definition no_render :: "prepared_publication \<Rightarrow> (node_state_update list \<times> publish_target list) result" where
  "no_render p = Inr ([], [\<lparr>tg_NodeID = ''n2'', tg_TargetVersion = 1\<rparr>])"

lemmas moved_defs = moved_store_def sample_publication_def sample_certificate_def publish_task_def no_render_def
  sample_node_def sample_origin_def sample_site_def empty_store_def

definition moved_target :: site where
  "moved_target = sample_site\<lparr>st_Nodes := [''n2'']\<rparr>"

lemma moved_publish:
  "is_ok (publishSite moved_store ''s1'' ''t1'' 1 no_render (\<lambda>_. ''d1'') (50 * second))"
  by code_simp

lemma moved_find: "find_site moved_store ''s1'' = Some moved_target"
  by (simp add: find_site_def moved_defs moved_target_def)


subsection \<open>Drains cover the nodes that leave\<close>

definition serving_excludes_draining :: "store \<Rightarrow> bool" where
  "serving_excludes_draining s \<longleftrightarrow> (\<forall>p \<in> set (publications s). \<forall>d \<in> set (drains s).
     dr_SiteID d = st_ID (sp_Site p) \<longrightarrow> dr_NodeID d \<notin> set (AssignedNodeIDs (sp_Site p)))"



subsection \<open>Serving and draining exclude each other\<close>

text \<open>
  The life of publications and drains: publications, edits of drafts and certificates, heartbeats, DNS
  cutovers, cleanups, pruning, and the steps of the publication tasks, where the publisher may write any task.
\<close>

inductive drain_step :: "store \<Rightarrow> store \<Rightarrow> bool" where
  publish: "publishSite s siteID task v render fresh now = Inr (s', targets) \<Longrightarrow> drain_step s s'"
| draft: "drain_step s (s\<lparr>sites := ss, certificates := cs, site_domains := ds, settings_row := c\<rparr>)"
| ready: "MarkSiteNodeDrainsDNSReadyForPublication s siteID at readyAt p d grace = Inr (s', k, b) \<Longrightarrow> drain_step s s'"
| stage: "StageDrainCleanup s task ids updates targets now = Inr s' \<Longrightarrow> drain_step s s'"
| prune: "PruneAppliedSiteNodeDrains s ids = (s', k) \<Longrightarrow> drain_step s s'"
| tasks: "publish_step W s s' \<Longrightarrow> drain_step s s'"

definition drain_stages :: "site_node_drain \<Rightarrow> bool" where
  "drain_stages d \<longleftrightarrow> (dr_RemoveAfter d = None \<longleftrightarrow> dr_DNSReadyAt d = None)
     \<and> (dr_CleanupTaskID d \<noteq> None \<longrightarrow> dr_RemoveAfter d \<noteq> None)"

definition drain_inv :: "store \<Rightarrow> bool" where
  "drain_inv s \<longleftrightarrow> tasks_wf s \<and> serving_excludes_draining s \<and> (\<forall>d \<in> set (drains s). drain_stages d)"

text \<open>Reconciling tasks does not touch publications.\<close>

abbreviation (input) untouched :: "store \<Rightarrow> store \<Rightarrow> bool" where
  "untouched s s' \<equiv> publications s' = publications s \<and> sites s' = sites s \<and> site_deletions s' = site_deletions s"

named_theorems pub_frame \<open>steps that keep the publications, the sites and their deletions\<close>

lemma UpdateTask_pub [pub_frame]: "UpdateTask s i st d t = Inr s' \<Longrightarrow> untouched s s'"
  by (auto simp: UpdateTask_def)

lemma finishDrainCleanupTx_pub [pub_frame]:
  "finishDrainCleanupTx s i st t = Inr s' \<Longrightarrow> untouched s s'"
  by (auto simp: finishDrainCleanupTx_def Let_def split: if_splits)

lemma completeDrainCleanup_pub [pub_frame]:
  "completeDrainCleanup s i st d t = Inr s' \<Longrightarrow> untouched s s'"
  by (auto simp: completeDrainCleanup_def Let_def dest: pub_frame split: if_splits)

lemma close_task_pub [pub_frame]: "close_task s i k oc t = Inr s' \<Longrightarrow> untouched s s'"
  by (auto simp: close_task_def dest: pub_frame split: if_splits)

lemma reconcilePublishTask_pub [pub_frame]:
  "reconcilePublishTask s i k dl t = Inr s' \<Longrightarrow> untouched s s'"
  by (auto simp: reconcilePublishTask_def Let_def confirm_applied_def time_out_pending_def
      dest!: close_task_pub split: if_splits option.splits)

lemma reconcile_tasks_pub [pub_frame]: "reconcile_tasks s ts t = Inr s' \<Longrightarrow> untouched s s'"
  by (induction s ts t rule: reconcile_tasks.induct) (auto dest: reconcilePublishTask_pub)

lemma finish_each_pub [pub_frame]: "finish_each s ts t = Inr s' \<Longrightarrow> untouched s s'"
  by (induction s ts t rule: finish_each.induct) (auto simp: FinishDrainCleanup_def dest: finishDrainCleanupTx_pub)

lemma reconcileLate_pub [pub_frame]:
  "reconcileLatePublishConfirmations s task t = Inr (s', b) \<Longrightarrow> untouched s s'"
  by (auto simp: reconcileLatePublishConfirmations_def confirm_late_def Let_def
      dest!: UpdateTask_pub split: if_splits sum.splits)

lemma reconcile_late_pub [pub_frame]: "reconcile_late s ts t = Inr s' \<Longrightarrow> untouched s s'"
  by (induction s ts t rule: reconcile_late.induct) (auto dest: reconcileLate_pub split: sum.splits)

lemma ReconcilePublishTasks_pub [pub_frame]:
  "ReconcilePublishTasks s t = Inr s' \<Longrightarrow> untouched s s'"
  by (auto simp: ReconcilePublishTasks_def reconcileDrainTaskFinalizations_def
      dest!: reconcile_tasks_pub finish_each_pub reconcile_late_pub)

lemma queue_task_frame: "queue_task k d r s ids i dl t = Inr (s', x, b) \<Longrightarrow> \<exists>ts. s' = s\<lparr>deployment_tasks := ts\<rparr>"
proof (induction ids)
  case (Cons newID ids)
  obtain s1 ins where i1: "insert_task_or_ignore s (queued_task k d newID i dl t) = (s1, ins)" by (metis surj_pair)
  then have f1: "\<exists>ts. s1 = s\<lparr>deployment_tasks := ts\<rparr>"
    by (auto simp: insert_task_or_ignore_def split: if_splits intro: exI [of _ "deployment_tasks s"])
  have f0: "\<exists>ts. s = s\<lparr>deployment_tasks := ts\<rparr>" by (rule exI [of _ "deployment_tasks s"]) simp
  from Cons i1 f1 f0 show ?case by (auto simp: Let_def split: if_splits option.splits)
qed simp

text \<open>A step that keeps the sites of the publications and only weakens or releases drains keeps both.\<close>

definition drains_settle :: "store \<Rightarrow> store \<Rightarrow> bool" where
  "drains_settle s s' \<longleftrightarrow> map sp_Site (publications s') = map sp_Site (publications s)
     \<and> (\<forall>d' \<in> set (drains s'). \<exists>d \<in> set (drains s). dr_SiteID d' = dr_SiteID d \<and> dr_NodeID d' = dr_NodeID d
          \<and> (drain_stages d \<longrightarrow> drain_stages d'))"

lemma drains_settle_refl: "publications s' = publications s \<Longrightarrow> drains s' = drains s \<Longrightarrow> drains_settle s s'"
  by (auto simp: drains_settle_def)

lemma drains_settle_inv:
  assumes "drains_settle s s'" and "serving_excludes_draining s"
  shows "serving_excludes_draining s'"
  unfolding serving_excludes_draining_def
proof (intro ballI impI)
  fix p' d' assume p': "p' \<in> set (publications s')" and d': "d' \<in> set (drains s')" and id: "dr_SiteID d' = st_ID (sp_Site p')"
  have "sp_Site p' \<in> sp_Site ` set (publications s)"
    using assms(1) p' unfolding drains_settle_def by (metis image_eqI set_map)
  then obtain p where "p \<in> set (publications s)" "sp_Site p = sp_Site p'" by auto
  moreover obtain d where "d \<in> set (drains s)" "dr_SiteID d' = dr_SiteID d" "dr_NodeID d' = dr_NodeID d"
    using assms(1) d' unfolding drains_settle_def by metis
  ultimately show "dr_NodeID d' \<notin> set (AssignedNodeIDs (sp_Site p'))"
    using assms(2) id unfolding serving_excludes_draining_def by metis
qed

lemma advance_settles: "advance now s s' \<Longrightarrow> publications s' = publications s \<Longrightarrow> drains_settle s s'"
  by (fastforce simp: advance_def advance_drains_def drains_settle_def kept_drain_def drain_stages_def)

lemma publish_step_settles:
  assumes "publish_step W s s'" and "tasks_wf s"
  shows "drains_settle s s'"
  using assms(1)
proof (cases rule: publish_step.cases)
  case (queue ids i dl now t b)
  then obtain s1 where s1: "ReconcilePublishTasks s now = Inr s1"
    "queue_task KindPublishSite ''building node configurations''
            (err ''publish task changed while being queued; retry request'') s1 [fst ids, snd ids] i dl now = Inr (s', t, b)"
    unfolding CreateOrGetActivePublishTask_def check_eq_Inr call_eq_Inr by (elim exE conjE) (rule that)
  have "drains_settle s s1"
    using ReconcilePublishTasks_advance [OF assms(2), of now] s1(1) ReconcilePublishTasks_pub [OF s1(1)]
    by (auto intro: advance_settles)
  moreover obtain ts where "s' = s1\<lparr>deployment_tasks := ts\<rparr>" using queue_task_frame [OF s1(2)] by blast
  ultimately show ?thesis by (simp add: drains_settle_def)
next
  case (queue_drain ids i dl now t b)
  then obtain ts where "s' = s\<lparr>deployment_tasks := ts\<rparr>"
    unfolding CreateOrGetActiveDrainTask_def check_eq_Inr by (elim conjE) (drule queue_task_frame, erule exE, rule that)
  then show ?thesis by (simp add: drains_settle_refl)
next
  case (targets i ts)
  then have "\<exists>ps. s' = s\<lparr>publish_nodes := ps\<rparr>"
    by (auto simp: CreatePublishTaskNodes_def dest: createPublishTaskNodesTx_frame split: if_splits
        intro: exI [of _ "publish_nodes s"])
  then show ?thesis by (auto intro: drains_settle_refl)
next
  case (update i status detail now)
  then show ?thesis by (auto simp: UpdateTask_def intro: drains_settle_refl)
next
  case (report n r now)
  then show ?thesis by (auto simp: RecordPublishApply_def intro: drains_settle_refl)
next
  case (heartbeat ns)
  then show ?thesis by (simp add: drains_settle_refl)
next
  case (reconcile now)
  then show ?thesis
    using ReconcilePublishTasks_advance [OF assms(2), of now] ReconcilePublishTasks_pub [OF reconcile]
    by (auto intro: advance_settles)
qed

lemma drains_settle_trans: "drains_settle s s1 \<Longrightarrow> drains_settle s1 s' \<Longrightarrow> drains_settle s s'"
  unfolding drains_settle_def by metis

lemma drains_settle_update:
  assumes "map sp_Site (publications s') = map sp_Site (publications s)" and "drains s' = update_rows P f (drains s)"
    and f: "\<And>d. P d \<Longrightarrow> dr_SiteID (f d) = dr_SiteID d \<and> dr_NodeID (f d) = dr_NodeID d \<and> (drain_stages d \<longrightarrow> drain_stages (f d))"
  shows "drains_settle s s'"
  unfolding drains_settle_def assms(2)
proof (intro conjI ballI)
  fix d' assume "d' \<in> set (update_rows P f (drains s))"
  then obtain d where "d \<in> set (drains s)" "d' = (if P d then f d else d)" by (auto simp: set_update_rows)
  with f [of d] show "\<exists>d \<in> set (drains s). dr_SiteID d' = dr_SiteID d \<and> dr_NodeID d' = dr_NodeID d
      \<and> (drain_stages d \<longrightarrow> drain_stages d')" by (intro bexI [of _ d]) auto
qed (rule assms(1))

lemma claim_drains_settle:
  "claim_drains s task ids now = Inr s' \<Longrightarrow> drains_settle s s' \<and> deployment_tasks s' = deployment_tasks s"
proof (induction s task ids now rule: claim_drains.induct)
  case (1 s task now)
  then show ?case by (simp add: drains_settle_refl)
next
  case (2 s task i ids now)
  let ?s1 = "s\<lparr>drains := update_rows (\<lambda>d. dr_ID d = i \<and> due_drain now d)
             (\<lambda>d. d\<lparr>dr_CleanupTaskID := Some task, dr_UpdatedAt := now\<rparr>) (drains s)\<rparr>"
  from 2 have "drains_settle ?s1 s'" "deployment_tasks s' = deployment_tasks s" by (auto simp: Let_def split: if_splits)
  moreover have "drains_settle s ?s1"
    by (rule drains_settle_update) (simp, simp, auto simp: drain_stages_def due_drain_def split: option.splits)
  ultimately show ?case by (blast intro: drains_settle_trans)
qed

lemma StageDrainCleanup_settles:
  assumes "StageDrainCleanup s task ids updates targets now = Inr s'"
  shows "drains_settle s s' \<and> map dt_ID (deployment_tasks s') = map dt_ID (deployment_tasks s)"
proof -
  obtain s1 s2 s3 where "claim_drains s task ids now = Inr s1" "createPublishTaskNodesTx s1 task targets = Inr s2"
    "saveNodeStatesTx s2 updates now = Inr s3"
    and s': "s' = s3\<lparr>deployment_tasks := update_rows (\<lambda>t. dt_ID t = task \<and> active_task_status (dt_Status t))
             (\<lambda>t. t\<lparr>dt_Status := TaskApplying, dt_Detail := err ''waiting for edge confirmation of expired drain removal'',
                    dt_UpdatedAt := now\<rparr>) (deployment_tasks s3)\<rparr>"
    using assms by (auto simp: StageDrainCleanup_def)
  moreover obtain ps where "s2 = s1\<lparr>publish_nodes := ps\<rparr>" using calculation(2) createPublishTaskNodesTx_frame by blast
  moreover obtain ns where "s3 = s2\<lparr>node_states := ns\<rparr>" using calculation(3) saveNodeStatesTx_frame by blast
  ultimately show ?thesis using claim_drains_settle [of s task ids now s1]
    by (simp add: drains_settle_def map_key_update_rows)
qed

lemma MarkDNSReady_settles:
  assumes "MarkSiteNodeDrainsDNSReadyForPublication s siteID at readyAt p d grace = Inr (s', k, b)"
  shows "drains_settle s s' \<and> deployment_tasks s' = deployment_tasks s"
proof -
  have "s' = s \<or> (\<exists>p ttl. s' = s\<lparr>publications := update_rows
        (\<lambda>q. st_ID (sp_Site q) = siteID \<and> sp_PublishedAt q = at) (\<lambda>q. q\<lparr>sp_DNSTTLSeconds := p\<rparr>) (publications s),
      drains := start_drains siteID readyAt ttl grace (drains s)\<rparr>)"
    using assms by (auto simp: MarkSiteNodeDrainsDNSReadyForPublication_def Let_def split: prod.splits if_splits)
  then show ?thesis
  proof (elim disjE exE)
    fix p ttl assume s': "s' = s\<lparr>publications := update_rows
        (\<lambda>q. st_ID (sp_Site q) = siteID \<and> sp_PublishedAt q = at) (\<lambda>q. q\<lparr>sp_DNSTTLSeconds := p\<rparr>) (publications s),
      drains := start_drains siteID readyAt ttl grace (drains s)\<rparr>"
    have "drains_settle s s'"
      by (rule drains_settle_update)
        (simp add: s' map_key_update_rows, simp add: s' start_drains_def, simp add: drain_stages_def)
    then show ?thesis by (simp add: s')
  qed (simp add: drains_settle_refl)
qed

lemma publish_step_wf:
  assumes "publish_step W s s'" and wf: "tasks_wf s"
  shows "tasks_wf s'"
  using assms(1)
proof cases
  case (queue ids i dl now t b)
  then obtain s1 where "ReconcilePublishTasks s now = Inr s1"
    "queue_task KindPublishSite ''building node configurations''
            (err ''publish task changed while being queued; retry request'') s1 [fst ids, snd ids] i dl now = Inr (s', t, b)"
    unfolding CreateOrGetActivePublishTask_def check_eq_Inr call_eq_Inr by (elim exE conjE) (rule that)
  moreover have "tasks_wf s1"
    using ReconcilePublishTasks_advance [OF wf, of now] calculation(1) tasks_wf_advance wf by auto
  ultimately show ?thesis by (blast intro: queue_task_wf)
next
  case (queue_drain ids i dl now t b)
  then show ?thesis
    unfolding CreateOrGetActiveDrainTask_def check_eq_Inr using queue_task_wf wf by blast
next
  case (targets i ts)
  then have "deployment_tasks s' = deployment_tasks s"
    by (auto simp: CreatePublishTaskNodes_def dest: createPublishTaskNodesTx_frame split: if_splits)
  with wf show ?thesis by (simp add: tasks_wf_def)
next
  case (update i status detail now)
  then show ?thesis using UpdateTask_wf wf by blast
next
  case (reconcile now)
  then show ?thesis using ReconcilePublishTasks_advance [OF wf, of now] tasks_wf_advance wf by auto
qed (use wf in \<open>auto simp: tasks_wf_def RecordPublishApply_def\<close>)

lemma publishSite_excludes:
  assumes pub: "publishSite s siteID task v render fresh now = Inr (s', targets)" and inv: "serving_excludes_draining s"
  shows "serving_excludes_draining s'"
proof -
  obtain target ds where e: "st_ID target = siteID"
    "publications s' = upsert (\<lambda>p. st_ID (sp_Site p))
        (new_publication s (target\<lparr>st_Published := True, st_UpdatedAt := now\<rparr>) now) (publications s)"
    "drains s' = delete_rows (\<lambda>d. dr_SiteID d = siteID \<and> dr_NodeID d \<in> set (AssignedNodeIDs target)) (drains s) @ ds"
    "\<forall>d \<in> set ds. dr_SiteID d = siteID \<and> dr_NodeID d \<notin> set (AssignedNodeIDs target)
       \<and> (\<exists>prev. SitePublication s siteID = Inr prev \<and> fresh_drain s prev d)"
    by (rule publishSite_effect [OF pub]) (rule that)
  define new where "new = new_publication s (target\<lparr>st_Published := True, st_UpdatedAt := now\<rparr>) now"
  have new: "st_ID (sp_Site new) = siteID" "AssignedNodeIDs (sp_Site new) = AssignedNodeIDs target"
    by (simp_all add: new_def new_publication_def Let_def e(1) AssignedNodeIDs_def)
  have pubs: "p = new \<or> p \<in> set (publications s) \<and> st_ID (sp_Site p) \<noteq> siteID" if "p \<in> set (publications s')" for p
    using that unfolding e(2) new_def [symmetric] upsert_def
    by (auto simp: new(1) image_iff split: if_splits)
  have dr: "d \<in> set (drains s) \<and> \<not> (dr_SiteID d = siteID \<and> dr_NodeID d \<in> set (AssignedNodeIDs target))
      \<or> dr_SiteID d = siteID \<and> dr_NodeID d \<notin> set (AssignedNodeIDs target)" if "d \<in> set (drains s')" for d
    using that e(4) unfolding e(3) by auto
  show ?thesis
    unfolding serving_excludes_draining_def
  proof (intro ballI impI)
    fix p d assume p: "p \<in> set (publications s')" and d: "d \<in> set (drains s')" and id: "dr_SiteID d = st_ID (sp_Site p)"
    show "dr_NodeID d \<notin> set (AssignedNodeIDs (sp_Site p))"
    proof (cases "p = new")
      case True
      with dr [OF d] id new show ?thesis by metis
    next
      case False
      with pubs [OF p] have "p \<in> set (publications s)" "st_ID (sp_Site p) \<noteq> siteID" by blast+
      with dr [OF d] id inv show ?thesis unfolding serving_excludes_draining_def by metis
    qed
  qed
qed

lemma publishSite_stages:
  assumes "publishSite s siteID task v render fresh now = Inr (s', targets)" and "\<forall>d \<in> set (drains s). drain_stages d"
  shows "(\<forall>d \<in> set (drains s'). drain_stages d) \<and> map dt_ID (deployment_tasks s') = map dt_ID (deployment_tasks s)"
proof -
  obtain target ds where e:
    "drains s' = delete_rows (\<lambda>d. dr_SiteID d = siteID \<and> dr_NodeID d \<in> set (AssignedNodeIDs target)) (drains s) @ ds"
    "\<forall>d \<in> set ds. dr_SiteID d = siteID \<and> dr_NodeID d \<notin> set (AssignedNodeIDs target)
       \<and> (\<exists>prev. SitePublication s siteID = Inr prev \<and> fresh_drain s prev d)"
    "map dt_ID (deployment_tasks s') = map dt_ID (deployment_tasks s)"
    by (rule publishSite_effect [OF assms(1)]) (rule that)
  have "drain_stages d" if "fresh_drain s prev d" for prev d using that by (simp add: fresh_drain_def drain_stages_def)
  with e assms(2) show ?thesis by auto
qed

lemma drain_step_inv:
  assumes "drain_step s s'" and inv: "drain_inv s"
  shows "drain_inv s'"
proof -
  have settle: "drain_inv s'" if "drains_settle s s'" and "tasks_wf s'"
    using that inv drains_settle_inv [OF that(1)] unfolding drain_inv_def drains_settle_def by metis
  from assms(1) show ?thesis
  proof cases
    case (publish siteID task v render fresh now targets)
    then show ?thesis
      using publishSite_excludes [OF publish] publishSite_stages [OF publish] inv by (simp add: drain_inv_def tasks_wf_def)
  next
    case (draft ss cs ds c)
    with inv show ?thesis by (simp add: drain_inv_def tasks_wf_def serving_excludes_draining_def)
  next
    case (ready siteID at readyAt p d grace k b)
    then show ?thesis using MarkDNSReady_settles [OF ready] inv by (intro settle) (auto simp: drain_inv_def tasks_wf_def)
  next
    case (stage task ids updates targets now)
    then show ?thesis using StageDrainCleanup_settles [OF stage] inv by (intro settle) (auto simp: drain_inv_def tasks_wf_def)
  next
    case (prune ids k)
    then show ?thesis using inv
      by (intro settle) (auto simp: PruneAppliedSiteNodeDrains_def Let_def drains_settle_def drain_inv_def tasks_wf_def)
  next
    case tasks
    then show ?thesis using inv publish_step_settles publish_step_wf by (intro settle) (auto simp: drain_inv_def)
  qed
qed

text \<open>
  C9: starting from a store that satisfies it (an empty one does), no sequence of publications, edits,
  heartbeats, DNS cutovers, cleanups, reconciliations and writes to tasks makes a node drain a site it serves;
  and a drain enters its cleanup only after its removal time was set, which happens only together with
  the DNS cutover.
\<close>

theorem serving_nodes_never_drain:
  assumes "drain_step\<^sup>*\<^sup>* s s'" and "drain_inv s"
  shows "serving_excludes_draining s'
    \<and> (\<forall>d \<in> set (drains s'). dr_CleanupTaskID d \<noteq> None \<longrightarrow> dr_RemoveAfter d \<noteq> None \<and> dr_DNSReadyAt d \<noteq> None)"
proof -
  from assms have "drain_inv s'" by (induction rule: rtranclp_induct) (use drain_step_inv in blast)+
  then show ?thesis by (auto simp: drain_inv_def drain_stages_def)
qed

lemma moved_inv: "drain_inv moved_store"
  by (simp add: drain_inv_def tasks_wf_def serving_excludes_draining_def moved_store_def empty_store_def)

lemma serving_nodes_never_drain_witness:
  "\<exists>s' targets. publishSite moved_store ''s1'' ''t1'' 1 no_render (\<lambda>_. ''d1'') (50 * second) = Inr (s', targets)
     \<and> serving_excludes_draining s'"
proof -
  obtain s' targets where pub: "publishSite moved_store ''s1'' ''t1'' 1 no_render (\<lambda>_. ''d1'') (50 * second) = Inr (s', targets)"
    using moved_publish unfolding is_ok_iff by (metis surj_pair)
  then have run: "drain_step\<^sup>*\<^sup>* moved_store s'" by (blast intro: drain_step.publish)
  from serving_nodes_never_drain [OF run moved_inv] pub show ?thesis by blast
qed

subsection \<open>Domain names and refusals\<close>

text \<open>
  C12: a commit makes the site the owner of exactly the domain names of the committed draft, does not
  touch the claims of other sites, and keeps a domain name from having two owners.
\<close>

theorem domains_have_one_owner:
  assumes "CommitSitePublicationWithDrains s siteID v task updates targets inps keys fresh now = Inr (s', x)"
    and "distinct (map fst (site_domains s))"
  shows "distinct (map fst (site_domains s'))
    \<and> {d. (d, siteID) \<in> set (site_domains s')} = set (st_Domains x)
    \<and> (\<forall>d i. i \<noteq> siteID \<longrightarrow> ((d, i) \<in> set (site_domains s') \<longleftrightarrow> (d, i) \<in> set (site_domains s)))"
proof (intro conjI)
  obtain draft where x: "x = draft\<lparr>st_Published := True, st_UpdatedAt := now\<rparr>"
    and sd: "site_domains s' = delete_rows (\<lambda>c. snd c = siteID) (site_domains s) @ map (\<lambda>d. (d, siteID)) (dedup {} (st_Domains draft))"
    and free: "\<forall>d \<in> set (st_Domains draft). \<forall>c \<in> set (site_domains s). fst c = d \<longrightarrow> snd c = siteID"
    by (rule CommitSitePublicationWithDrains_Inr [OF assms(1)]) (rule that, assumption, simp, assumption)
  have doms: "st_Domains x = st_Domains draft" by (simp add: x)
  have "distinct (map fst (map (\<lambda>d. (d, siteID)) (dedup {} (st_Domains draft))))"
    by (simp add: o_def distinct_dedup)
  moreover have "fst ` set (delete_rows (\<lambda>c. snd c = siteID) (site_domains s)) \<inter> set (st_Domains draft) = {}"
    using free by auto
  ultimately show "distinct (map fst (site_domains s'))"
    using distinct_key_delete_rows [OF assms(2)] by (auto simp: sd set_dedup o_def)
  show "{d. (d, siteID) \<in> set (site_domains s')} = set (st_Domains x)" by (auto simp: sd doms set_dedup)
  show "\<forall>d i. i \<noteq> siteID \<longrightarrow> ((d, i) \<in> set (site_domains s') \<longleftrightarrow> (d, i) \<in> set (site_domains s))"
    by (auto simp: sd)
qed

lemma domains_have_one_owner_witness:
  "\<exists>s' x. CommitSitePublicationWithDrains moved_store ''s1'' 1 ''t1'' [] [] [] [] (\<lambda>_. []) 7 = Inr (s', x)
     \<and> distinct (map fst (site_domains s'))"
proof -
  have "is_ok (CommitSitePublicationWithDrains moved_store ''s1'' 1 ''t1'' [] [] [] [] (\<lambda>_. []) 7)" by code_simp
  then obtain s' x where c: "CommitSitePublicationWithDrains moved_store ''s1'' 1 ''t1'' [] [] [] [] (\<lambda>_. []) 7 = Inr (s', x)"
    unfolding is_ok_iff by (metis surj_pair)
  have "distinct (map fst (site_domains moved_store))" by (simp add: moved_store_def)
  from domains_have_one_owner [OF c this] c show ?thesis by blast
qed

lemma ensureNodesNotUpgradingTx_Inr:
  "ensureNodesNotUpgradingTx s ns = Inr u \<longleftrightarrow> (\<forall>n \<in> set ns. n \<noteq> [] \<longrightarrow> \<not> HasActiveNodeUpgrade s n)"
  by (induction ns) auto

text \<open>
  A commit is refused, and so changes nothing, when the site is being deleted, when the draft is not
  the version that was prepared, when a node it touches has an upgrade in progress, or when a domain
  name of the draft belongs to another site; a deleted or changed site is reported as such.
\<close>

theorem commit_refuses:
  assumes "find_site s siteID = Some draft"
    and "st_Deleting draft \<or> v \<noteq> 0 \<and> v \<noteq> st_ConfigVersion draft
      \<or> (\<exists>n \<in> set (upgradedNodeIDs updates targets). n \<noteq> [] \<and> HasActiveNodeUpgrade s n)
      \<or> (\<exists>d \<in> set (st_Domains draft). \<exists>i. i \<noteq> siteID \<and> (d, i) \<in> set (site_domains s))"
  shows "\<exists>e. CommitSitePublicationWithDrains s siteID v task updates targets inps keys fresh now = Inl e
    \<and> (st_Deleting draft \<longrightarrow> e = ErrSiteDeleting)
    \<and> (\<not> st_Deleting draft \<and> v \<noteq> 0 \<and> v \<noteq> st_ConfigVersion draft \<longrightarrow> e = ErrSiteChanged)"
proof (cases "st_Deleting draft \<or> v \<noteq> 0 \<and> v \<noteq> st_ConfigVersion draft")
  case True
  with assms(1) show ?thesis by (auto simp: CommitSitePublicationWithDrains_def)
next
  case False
  have "CommitSitePublicationWithDrains s siteID v task updates targets inps keys fresh now \<noteq> Inr (s', x)" for s' x
  proof
    assume c: "CommitSitePublicationWithDrains s siteID v task updates targets inps keys fresh now = Inr (s', x)"
    then have "\<not> (\<exists>n \<in> set (upgradedNodeIDs updates targets). n \<noteq> [] \<and> HasActiveNodeUpgrade s n)"
      using assms(1) by (auto simp: CommitSitePublicationWithDrains_def ensureNodesNotUpgradingTx_Inr Let_def)
    moreover have "\<forall>d \<in> set (st_Domains draft). \<forall>c \<in> set (site_domains s). fst c = d \<longrightarrow> snd c = siteID"
      by (rule CommitSitePublicationWithDrains_Inr [OF c]) (use assms(1) in simp)
    ultimately show False using assms(2) False by fastforce
  qed
  then obtain e where "CommitSitePublicationWithDrains s siteID v task updates targets inps keys fresh now = Inl e"
    by (metis surj_pair sum.exhaust)
  with False show ?thesis by blast
qed

lemma commit_refuses_witness:
  "CommitSitePublicationWithDrains moved_store ''s1'' 9 ''t1'' [] [] [] [] (\<lambda>_. []) 7 = Inl ErrSiteChanged"
  using commit_refuses [OF moved_find, of 9 "[]" "[]" "''t1''" "[]" "[]" "\<lambda>_. []" 7]
  by (auto simp: moved_target_def sample_site_def)

subsection \<open>Targets of a closed task\<close>

text \<open>
  The commit does not look at the publication task: when the deadline passed during rendering, a
  reconciliation has closed the task, and the targets that the commit then adds to it wait forever.
\<close>

definition stranded :: "store \<Rightarrow> publish_task_node \<Rightarrow> bool" where
  "stranded s p \<longleftrightarrow> p \<in> set (publish_nodes s) \<and> ptn_Status p = PublishNodePending
     \<and> (\<exists>t \<in> set (deployment_tasks s). dt_ID t = ptn_TaskID p)
     \<and> (\<forall>t \<in> set (deployment_tasks s). dt_ID t = ptn_TaskID p \<longrightarrow> \<not> active_task_status (dt_Status t))"

lemma rows_local_keeps: "rows_local i s s' \<Longrightarrow> p \<in> set (publish_nodes s) \<Longrightarrow> ptn_TaskID p \<noteq> i \<Longrightarrow> p \<in> set (publish_nodes s')"
  unfolding rows_local_def by force

lemma reconcile_tasks_keeps:
  "reconcile_tasks s ts now = Inr s' \<Longrightarrow> p \<in> set (publish_nodes s) \<Longrightarrow> \<forall>x \<in> set ts. dt_ID x \<noteq> ptn_TaskID p \<Longrightarrow>
     p \<in> set (publish_nodes s')"
proof (induction s ts now rule: reconcile_tasks.induct)
  case (2 s t ts now)
  then obtain s1 where "reconcilePublishTask s (dt_ID t) (dt_Kind t) (dt_DeadlineAt t) now = Inr s1" "reconcile_tasks s1 ts now = Inr s'"
    by auto
  with 2 rows_local_keeps [of "dt_ID t" s s1 p] reconcilePublishTask_local show ?case by fastforce
qed simp

lemma finish_each_keeps: "finish_each s ts now = Inr s' \<Longrightarrow> publish_nodes s' = publish_nodes s"
  by (induction s ts now rule: finish_each.induct) (auto simp: FinishDrainCleanup_def dest: finish_tables)

lemma late_keeps:
  assumes "reconcileLatePublishConfirmations s task now = Inr (s', b)" and "p \<in> set (publish_nodes s)"
    and "ptn_Status p = PublishNodePending"
  shows "p \<in> set (publish_nodes s')"
proof -
  have "p \<in> set (publish_nodes (fst (confirm_late s task now)))"
    using assms(2,3) by (force simp: confirm_late_def Let_def set_update_rows)
  with assms show ?thesis
    by (auto simp: reconcileLatePublishConfirmations_def Let_def dest!: UpdateTask_tables
        split: if_splits sum.splits prod.splits)
qed

lemma reconcile_late_keeps:
  "reconcile_late s ts now = Inr s' \<Longrightarrow> p \<in> set (publish_nodes s) \<Longrightarrow> ptn_Status p = PublishNodePending \<Longrightarrow>
     p \<in> set (publish_nodes s')"
proof (induction s ts now rule: reconcile_late.induct)
  case (2 s t ts now)
  from 2(2) obtain s1 b where "reconcileLatePublishConfirmations s t now = Inr (s1, b)" "reconcile_late s1 ts now = Inr s'"
    by (auto split: sum.splits)
  with 2 late_keeps [of s t now s1 b p] show ?case by auto
qed simp

lemma stranded_reconcile:
  assumes "tasks_wf s" and "ReconcilePublishTasks s now = Inr s'" and st: "stranded s p"
  shows "stranded s' p"
proof -
  let ?act = "sort_key (\<lambda>t. stamp (dt_CreatedAt t))
      (filter (\<lambda>t. dt_Kind t \<in> {KindPublishSite, KindDrainSite} \<and> active_task_status (dt_Status t)) (deployment_tasks s))"
  obtain s1 s2 where s12: "reconcile_tasks s ?act now = Inr s1" "reconcileDrainTaskFinalizations s1 now = Inr s2"
    "reconcile_late s2 (latest_closed s2) now = Inr s'"
    using assms(2) by (auto simp: ReconcilePublishTasks_def)
  have "p \<in> set (publish_nodes s1)"
    by (rule reconcile_tasks_keeps [OF s12(1)]) (use st in \<open>auto simp: stranded_def\<close>)
  then have "p \<in> set (publish_nodes s')"
    using finish_each_keeps s12(2) reconcile_late_keeps [OF s12(3)] st
    by (simp add: reconcileDrainTaskFinalizations_def stranded_def)
  moreover obtain h where h: "deployment_tasks s' = map h (deployment_tasks s)"
    "\<And>t. dt_ID (h t) = dt_ID t" "\<And>t. \<not> active_task_status (dt_Status t) \<Longrightarrow> \<not> active_task_status (dt_Status (h t))"
    using ReconcilePublishTasks_advance [OF assms(1), of now] assms(2)
    by (auto simp: advance_def advance_tasks_def same_task_def)
  ultimately show ?thesis using st by (auto simp: stranded_def)
qed

lemma stranded_queue:
  assumes "queue_task k d r s ids i dl now = Inr (s', t, b)" and st: "stranded s p"
  shows "stranded s' p"
  using assms
proof (induction ids)
  case (Cons x ids)
  obtain s1 ins where i1: "insert_task_or_ignore s (queued_task k d x i dl now) = (s1, ins)" by (metis surj_pair)
  then have "stranded s1 p" using st
    by (fastforce simp: insert_task_or_ignore_def stranded_def queued_task_def list_ex_iff split: if_splits)
  with Cons i1 st show ?case by (auto simp: Let_def split: if_splits option.splits)
qed simp

lemma update_rows_keeps: "r \<in> set rows \<Longrightarrow> \<not> P r \<Longrightarrow> r \<in> set (update_rows P f rows)"
  by (induction rows) auto

lemma RecordPublishApply_keeps:
  assumes "RecordPublishApply s n r now = Inr s'" and "p \<in> set (publish_nodes s)"
    and "\<And>K. \<not> task_active_of_kinds s K (ptn_TaskID p)"
  shows "p \<in> set (publish_nodes s') \<and> deployment_tasks s' = deployment_tasks s"
  using assms(1) unfolding RecordPublishApply_def check_eq_Inr sum.inject
  by (elim conjE) (auto simp: assms(3) intro!: update_rows_keeps assms(2))

lemma stranded_step:
  assumes "publish_step W s s'" and out: "ptn_TaskID p \<notin> W" and wf: "tasks_wf s" and st: "stranded s p"
  shows "stranded s' p"
  using assms(1)
proof cases
  case (queue ids i dl now t b)
  then obtain s1 where "ReconcilePublishTasks s now = Inr s1"
    "queue_task KindPublishSite ''building node configurations''
            (err ''publish task changed while being queued; retry request'') s1 [fst ids, snd ids] i dl now = Inr (s', t, b)"
    unfolding CreateOrGetActivePublishTask_def check_eq_Inr call_eq_Inr by (elim exE conjE) (rule that)
  then show ?thesis using stranded_reconcile [OF wf _ st] stranded_queue by blast
next
  case (queue_drain ids i dl now t b)
  then show ?thesis unfolding CreateOrGetActiveDrainTask_def check_eq_Inr using stranded_queue st by blast
next
  case (targets i ts)
  then have "deployment_tasks s' = deployment_tasks s \<and> set (publish_nodes s) \<subseteq> set (publish_nodes s')"
    by (auto simp: CreatePublishTaskNodes_def createPublishTaskNodesTx_def dest: insert_targets_tables split: if_splits)
  with st show ?thesis by (auto simp: stranded_def)
next
  case (update i status detail now)
  then have "i \<noteq> ptn_TaskID p" using out by blast
  moreover have "publish_nodes s' = publish_nodes s" and "tasks_local i s s'" using UpdateTask_tables [OF update(1)] by blast+
  moreover from this(2) obtain h where "deployment_tasks s' = map h (deployment_tasks s)"
    "\<And>t. dt_ID (h t) = dt_ID t" "\<And>t. dt_ID t \<noteq> i \<Longrightarrow> h t = t" unfolding tasks_local_def by blast
  ultimately show ?thesis using st by (auto simp: stranded_def)
next
  case (report n r now)
  have "\<not> task_active_of_kinds s K (ptn_TaskID p)" for K
    using st by (auto simp: stranded_def task_active_of_kinds_def list_ex_iff)
  with st RecordPublishApply_keeps [OF report, of p] show ?thesis by (auto simp: stranded_def)
next
  case (heartbeat ns)
  with st show ?thesis by (simp add: stranded_def)
next
  case (reconcile now)
  then show ?thesis using stranded_reconcile [OF wf _ st] by blast
qed

lemma insert_targets_pending:
  "insert_targets s i ts = Inr s' \<Longrightarrow> tg \<in> set ts \<Longrightarrow> pending_row i tg \<in> set (publish_nodes s') \<and> find_task s i \<noteq> None"
proof (induction s i ts rule: insert_targets.induct)
  case (2 s i t ts)
  let ?s1 = "s\<lparr>publish_nodes := publish_nodes s @ [pending_row i t]\<rparr>"
  have s1: "insert_targets ?s1 i ts = Inr s'" "find_task s i \<noteq> None" using 2(2) by (auto split: if_splits)
  have "pending_row i t \<in> set (publish_nodes s')" using insert_targets_tables [OF s1(1)] by auto
  with 2 s1 show ?case by (auto simp: find_task_def split: if_splits)
qed simp

text \<open>
  C13: a target that a commit adds to a task that is already closed is stranded: over every sequence of
  queueing, reports, heartbeats, reconciliations and writes of the publisher to other tasks that follows,
  whatever version the edge reports or applies, it stays pending in a closed task.
\<close>

theorem targets_of_a_closed_task_are_stranded:
  assumes "CommitSitePublicationWithDrains s siteID v task updates targets inps keys fresh now = Inr (s', x)"
    and "tg \<in> set targets" and "\<forall>t \<in> set (deployment_tasks s'). dt_ID t = task \<longrightarrow> \<not> active_task_status (dt_Status t)"
    and "tasks_wf s" and "(publish_step (- {task}))\<^sup>*\<^sup>* s' s''"
  shows "stranded s'' (pending_row task tg)"
proof -
  obtain draft ps ns ts ds hs ss where "find_site s siteID = Some draft" and s': "s' = s\<lparr>publish_nodes := ps,
        publications := upsert (\<lambda>p. st_ID (sp_Site p)) (new_publication s x now) (publications s),
        node_states := ns, deployment_tasks := ts, drains := delete_rows (\<lambda>d. \<exists>k \<in> set keys. drain_at k d) (drains s) @ ds,
        site_domains := delete_rows (\<lambda>c. snd c = siteID) (site_domains s) @ map (\<lambda>d. (d, siteID)) (dedup {} (st_Domains draft)),
        site_healths := hs, sites := ss\<rparr>"
    and t: "map dt_ID ts = map dt_ID (deployment_tasks s)"
    and tx: "createPublishTaskNodesTx s task targets = Inr (s\<lparr>publish_nodes := ps\<rparr>)"
    by (rule CommitSitePublicationWithDrains_Inr [OF assms(1)]) (rule that)
  have c: "createPublishTaskNodesTx s task targets = Inr (s\<lparr>publish_nodes := ps\<rparr>)"
    "publish_nodes s' = ps" "map dt_ID (deployment_tasks s') = map dt_ID (deployment_tasks s)"
    by (rule tx) (simp_all add: s' t)
  have "pending_row task tg \<in> set ps \<and> find_task s task \<noteq> None"
    using insert_targets_pending [OF _ assms(2), of s task "s\<lparr>publish_nodes := ps\<rparr>"] c(1)
    by (simp add: createPublishTaskNodesTx_def)
  moreover from this have "task \<in> set (map dt_ID (deployment_tasks s))"
    by (auto simp: find_task_def dest: find_row_SomeD)
  then have "task \<in> set (map dt_ID (deployment_tasks s'))" by (simp only: c(3))
  then obtain t where "t \<in> set (deployment_tasks s')" "dt_ID t = task" by auto
  ultimately have "stranded s' (pending_row task tg) \<and> tasks_wf s'"
    using assms(3,4) c by (auto simp: stranded_def pending_row_def tasks_wf_def)
  with assms(5) have "stranded s'' (pending_row task tg) \<and> tasks_wf s''"
    by (induction rule: rtranclp_induct)
      (use stranded_step [of "- {task}"] publish_step_wf in \<open>auto simp: pending_row_def\<close>)
  then show ?thesis ..
qed

definition late_store :: store where
  "late_store = moved_store\<lparr>deployment_tasks := [publish_task TaskFailed]\<rparr>"

definition late_report :: apply_report where
  "late_report = \<lparr>ar_Version = 1, ar_Status = ApplySucceeded, ar_Code = [], ar_Detail = [], ar_PortConflicts = []\<rparr>"

lemma targets_of_a_closed_task_are_stranded_witness:
  "\<exists>s' x s''. CommitSitePublicationWithDrains late_store ''s1'' 1 ''t1'' [] [\<lparr>tg_NodeID = ''n2'', tg_TargetVersion = 1\<rparr>]
       [] [] (\<lambda>_. []) 7 = Inr (s', x)
     \<and> RecordPublishApply s' ''n2'' late_report 8 = Inr s''
     \<and> stranded s'' (pending_row ''t1'' \<lparr>tg_NodeID = ''n2'', tg_TargetVersion = 1\<rparr>)"
proof -
  let ?tg = "\<lparr>tg_NodeID = ''n2'', tg_TargetVersion = 1\<rparr>"
  let ?c = "CommitSitePublicationWithDrains late_store ''s1'' 1 ''t1'' [] [?tg] [] [] (\<lambda>_. []) 7"
  have "case ?c of Inl e \<Rightarrow> False | Inr (s', x) \<Rightarrow>
      list_all (\<lambda>t. dt_ID t = ''t1'' \<longrightarrow> \<not> active_task_status (dt_Status t)) (deployment_tasks s')" by code_simp
  then obtain s' x where c: "?c = Inr (s', x)"
    and closed: "\<forall>t \<in> set (deployment_tasks s'). dt_ID t = ''t1'' \<longrightarrow> \<not> active_task_status (dt_Status t)"
    by (auto simp: list_all_iff split: sum.splits)
  obtain s'' where r: "RecordPublishApply s' ''n2'' late_report 8 = Inr s''"
    by (simp add: RecordPublishApply_def late_report_def)
  then have run: "(publish_step (- {''t1''}))\<^sup>*\<^sup>* s' s''" by (blast intro: publish_step.report)
  have "tasks_wf late_store" by (simp add: late_store_def tasks_wf_def)
  from targets_of_a_closed_task_are_stranded [OF c _ closed this run, of ?tg] c r show ?thesis by simp
qed

end
