(* ===== verification/Node_Health.thy ===== *)
theory Node_Health
  imports Samples Hysteresis
begin

section \<open>Health counters (internal/store/store.go, RecordNodeHealth to SiteNodeIPv6Health)\<close>

text \<open>
  Three health checks share one scheme: three failures in a row take a node out of DNS, five
  successes in a row bring it in. The two checks of a site live in one row of \<open>site_node_health\<close>.
  A write for a node or site that does not exist violates a foreign key.
\<close>

definition foreign_key_error :: go_error where
  "foreign_key_error = err ''FOREIGN KEY constraint failed''"

subsection \<open>Nodes\<close>

definition fresh_node_health :: "string \<Rightarrow> node_health" where
  "fresh_node_health nodeID = \<lparr>nh_NodeID = nodeID, nh_ConsecutiveFailures = 0, nh_ConsecutiveSuccesses = 0,
     nh_DNSEligible = False, nh_LastCheckedAt = None, nh_LastError = []\<rparr>"

definition NodeHealth :: "store \<Rightarrow> string \<Rightarrow> node_health" where
  "NodeHealth s nodeID =
     (case find_row (\<lambda>h. nh_NodeID h = nodeID) (node_healths s) of
        None \<Rightarrow> fresh_node_health nodeID
      | Some h \<Rightarrow> h)"

definition advance_node_health :: "node_health \<Rightarrow> bool \<Rightarrow> string \<Rightarrow> node_health" where
  "advance_node_health h healthy lastError =
     (if healthy then
        h\<lparr>nh_ConsecutiveSuccesses := nh_ConsecutiveSuccesses h + 1, nh_ConsecutiveFailures := 0,
          nh_LastError := [],
          nh_DNSEligible := (nh_ConsecutiveSuccesses h + 1 \<ge> 5 \<or> nh_DNSEligible h)\<rparr>
      else
        h\<lparr>nh_ConsecutiveFailures := nh_ConsecutiveFailures h + 1, nh_ConsecutiveSuccesses := 0,
          nh_LastError := lastError,
          nh_DNSEligible := (\<not> nh_ConsecutiveFailures h + 1 \<ge> 3 \<and> nh_DNSEligible h)\<rparr>)"

definition RecordNodeHealth ::
    "store \<Rightarrow> string \<Rightarrow> bool \<Rightarrow> string \<Rightarrow> time \<Rightarrow> (store \<times> node_health) result" where
  "RecordNodeHealth s nodeID healthy lastError now =
     (let h = (advance_node_health (NodeHealth s nodeID) healthy lastError)\<lparr>nh_LastCheckedAt := Some now\<rparr> in
      if find_node s nodeID = None then Inl foreign_key_error
      else Inr (s\<lparr>node_healths := upsert nh_NodeID h (node_healths s)\<rparr>, h))"

subsection \<open>Sites on nodes\<close>

definition fresh_site_health :: "string \<Rightarrow> string \<Rightarrow> site_health_row" where
  "fresh_site_health siteID nodeID =
     \<lparr>sh_SiteID = siteID, sh_NodeID = nodeID, sh_ConsecutiveFailures = 0, sh_ConsecutiveSuccesses = 0,
      sh_DNSEligible = False, sh_LastCheckedAt = None, sh_LastError = [],
      sh6_ConsecutiveFailures = 0, sh6_ConsecutiveSuccesses = 0, sh6_DNSEligible = False,
      sh6_LastCheckedAt = None, sh6_LastError = []\<rparr>"

definition site_health_key :: "site_health_row \<Rightarrow> string \<times> string" where
  "site_health_key h = (sh_SiteID h, sh_NodeID h)"

definition site_health_row_of :: "store \<Rightarrow> string \<Rightarrow> string \<Rightarrow> site_health_row" where
  "site_health_row_of s siteID nodeID =
     (case find_row (\<lambda>h. site_health_key h = (siteID, nodeID)) (site_healths s) of
        None \<Rightarrow> fresh_site_health siteID nodeID
      | Some h \<Rightarrow> h)"

text \<open>The two views of a row that the code returns as \<open>SiteNodeHealth\<close>.\<close>

record site_node_health =
  snh_SiteID :: string
  snh_NodeID :: string
  snh_ConsecutiveFailures :: int
  snh_ConsecutiveSuccesses :: int
  snh_DNSEligible :: bool
  snh_LastCheckedAt :: "time option"
  snh_LastError :: string

definition SiteNodeHealth :: "store \<Rightarrow> string \<Rightarrow> string \<Rightarrow> site_node_health" where
  "SiteNodeHealth s siteID nodeID =
     (let h = site_health_row_of s siteID nodeID in
      \<lparr>snh_SiteID = sh_SiteID h, snh_NodeID = sh_NodeID h,
       snh_ConsecutiveFailures = sh_ConsecutiveFailures h,
       snh_ConsecutiveSuccesses = sh_ConsecutiveSuccesses h, snh_DNSEligible = sh_DNSEligible h,
       snh_LastCheckedAt = sh_LastCheckedAt h, snh_LastError = sh_LastError h\<rparr>)"

definition SiteNodeIPv6Health :: "store \<Rightarrow> string \<Rightarrow> string \<Rightarrow> site_node_health" where
  "SiteNodeIPv6Health s siteID nodeID =
     (let h = site_health_row_of s siteID nodeID in
      \<lparr>snh_SiteID = sh_SiteID h, snh_NodeID = sh_NodeID h,
       snh_ConsecutiveFailures = sh6_ConsecutiveFailures h,
       snh_ConsecutiveSuccesses = sh6_ConsecutiveSuccesses h, snh_DNSEligible = sh6_DNSEligible h,
       snh_LastCheckedAt = sh6_LastCheckedAt h, snh_LastError = sh6_LastError h\<rparr>)"

definition advance_site_health :: "site_node_health \<Rightarrow> bool \<Rightarrow> string \<Rightarrow> site_node_health" where
  "advance_site_health h healthy lastError =
     (if healthy then
        h\<lparr>snh_ConsecutiveSuccesses := snh_ConsecutiveSuccesses h + 1, snh_ConsecutiveFailures := 0,
          snh_LastError := [],
          snh_DNSEligible := (snh_ConsecutiveSuccesses h + 1 \<ge> 5 \<or> snh_DNSEligible h)\<rparr>
      else
        h\<lparr>snh_ConsecutiveFailures := snh_ConsecutiveFailures h + 1, snh_ConsecutiveSuccesses := 0,
          snh_LastError := lastError,
          snh_DNSEligible := (\<not> snh_ConsecutiveFailures h + 1 \<ge> 3 \<and> snh_DNSEligible h)\<rparr>)"

definition write_site_health :: "store \<Rightarrow> string \<Rightarrow> string \<Rightarrow> site_health_row \<Rightarrow> store result" where
  "write_site_health s siteID nodeID row =
     (if find_row (\<lambda>x. st_ID x = siteID) (sites s) = None \<or> find_node s nodeID = None
      then Inl foreign_key_error
      else Inr (s\<lparr>site_healths := upsert site_health_key row (site_healths s)\<rparr>))"

definition RecordSiteNodeHealth ::
    "store \<Rightarrow> string \<Rightarrow> string \<Rightarrow> bool \<Rightarrow> string \<Rightarrow> time \<Rightarrow> (store \<times> site_node_health) result" where
  "RecordSiteNodeHealth s siteID nodeID healthy lastError now =
     (let h = (advance_site_health (SiteNodeHealth s siteID nodeID) healthy lastError)
                \<lparr>snh_LastCheckedAt := Some now\<rparr>;
          row = (site_health_row_of s siteID nodeID)
                \<lparr>sh_ConsecutiveFailures := snh_ConsecutiveFailures h,
                 sh_ConsecutiveSuccesses := snh_ConsecutiveSuccesses h,
                 sh_DNSEligible := snh_DNSEligible h, sh_LastCheckedAt := snh_LastCheckedAt h,
                 sh_LastError := snh_LastError h\<rparr>
      in case write_site_health s siteID nodeID row of
           Inl e \<Rightarrow> Inl e
         | Inr s' \<Rightarrow> Inr (s', h))"

definition RecordSiteNodeIPv6Health ::
    "store \<Rightarrow> string \<Rightarrow> string \<Rightarrow> bool \<Rightarrow> string \<Rightarrow> time \<Rightarrow> (store \<times> site_node_health) result" where
  "RecordSiteNodeIPv6Health s siteID nodeID healthy lastError now =
     (let h = (advance_site_health (SiteNodeIPv6Health s siteID nodeID) healthy lastError)
                \<lparr>snh_LastCheckedAt := Some now\<rparr>;
          row = (site_health_row_of s siteID nodeID)
                \<lparr>sh6_ConsecutiveFailures := snh_ConsecutiveFailures h,
                 sh6_ConsecutiveSuccesses := snh_ConsecutiveSuccesses h,
                 sh6_DNSEligible := snh_DNSEligible h, sh6_LastCheckedAt := snh_LastCheckedAt h,
                 sh6_LastError := snh_LastError h\<rparr>
      in case write_site_health s siteID nodeID row of
           Inl e \<Rightarrow> Inl e
         | Inr s' \<Rightarrow> Inr (s', h))"

subsection \<open>Sequences of checks\<close>

fun record_node_checks :: "store \<Rightarrow> string \<Rightarrow> (bool \<times> string \<times> time) list \<Rightarrow> store result" where
  "record_node_checks s nodeID [] = Inr s"
| "record_node_checks s nodeID ((healthy, lastError, at) # cs) =
     (case RecordNodeHealth s nodeID healthy lastError at of
        Inl e \<Rightarrow> Inl e
      | Inr (s', h) \<Rightarrow> record_node_checks s' nodeID cs)"

text \<open>
  The counters of a row that only these functions have written: one of the two is 0, an eligible row
  has fewer than three failures, an ineligible one fewer than five successes.
\<close>

definition counters_ok :: "bool \<Rightarrow> int \<Rightarrow> int \<Rightarrow> bool" where
  "counters_ok eligible failures successes \<longleftrightarrow>
     0 \<le> failures \<and> 0 \<le> successes \<and> (eligible \<longrightarrow> failures < 3) \<and> (\<not> eligible \<longrightarrow> successes < 5)
     \<and> (failures = 0 \<or> successes = 0)"

definition node_health_ok :: "node_health \<Rightarrow> bool" where
  "node_health_ok h \<longleftrightarrow> counters_ok (nh_DNSEligible h) (nh_ConsecutiveFailures h) (nh_ConsecutiveSuccesses h)"

definition site_node_health_ok :: "site_node_health \<Rightarrow> bool" where
  "site_node_health_ok h \<longleftrightarrow> counters_ok (snh_DNSEligible h) (snh_ConsecutiveFailures h) (snh_ConsecutiveSuccesses h)"

definition node_health_step :: "node_health \<Rightarrow> bool \<times> string \<times> time \<Rightarrow> node_health" where
  "node_health_step h = (\<lambda>(healthy, lastError, at).
     (advance_node_health h healthy lastError)\<lparr>nh_LastCheckedAt := Some at\<rparr>)"

definition site_health_step :: "site_node_health \<Rightarrow> bool \<times> string \<times> time \<Rightarrow> site_node_health" where
  "site_health_step h = (\<lambda>(healthy, lastError, at).
     (advance_site_health h healthy lastError)\<lparr>snh_LastCheckedAt := Some at\<rparr>)"

lemmas health_defs = node_health_step_def advance_node_health_def node_health_ok_def counters_ok_def
  site_health_step_def advance_site_health_def site_node_health_ok_def

interpretation node_gate: hysteresis node_health_step nh_DNSEligible
  "\<lambda>h. nat (if nh_DNSEligible h then nh_ConsecutiveFailures h else nh_ConsecutiveSuccesses h)"
  "\<lambda>h b c. fst c \<noteq> b" "\<lambda>h b. if b then 3 else 5" node_health_ok
  by unfold_locales (auto simp: health_defs split: prod.splits if_splits)

interpretation site_gate: hysteresis site_health_step snh_DNSEligible
  "\<lambda>h. nat (if snh_DNSEligible h then snh_ConsecutiveFailures h else snh_ConsecutiveSuccesses h)"
  "\<lambda>h b c. fst c \<noteq> b" "\<lambda>h b. if b then 3 else 5" site_node_health_ok
  by unfold_locales (auto simp: health_defs split: prod.splits if_splits)

subsection \<open>What the store records\<close>

lemma NodeHealth_upsert:
  "NodeHealth (s\<lparr>node_healths := upsert nh_NodeID h (node_healths s)\<rparr>) n =
     (if n = nh_NodeID h then h else NodeHealth s n)"
  by (auto simp: NodeHealth_def table_simps)

lemma nh_NodeID_NodeHealth [simp]: "nh_NodeID (NodeHealth s n) = n"
  by (auto simp: NodeHealth_def fresh_node_health_def split: option.split dest: find_row_SomeD)

lemma nh_NodeID_step [simp]: "nh_NodeID (node_health_step h c) = nh_NodeID h"
  by (auto simp: node_health_step_def advance_node_health_def split: prod.splits)

lemma RecordNodeHealth_step:
  "find_node s n \<noteq> None \<Longrightarrow> RecordNodeHealth s n healthy e at =
     Inr (s\<lparr>node_healths := upsert nh_NodeID (node_health_step (NodeHealth s n) (healthy, e, at)) (node_healths s)\<rparr>,
          node_health_step (NodeHealth s n) (healthy, e, at))"
  by (auto simp: RecordNodeHealth_def node_health_step_def Let_def)

lemma find_node_node_healths [simp]: "find_node (s\<lparr>node_healths := hs\<rparr>) n = find_node s n"
  by (simp add: find_node_def)

text \<open>Recording a sequence of checks refines running the gate over it.\<close>

lemma record_node_checks_run:
  assumes "find_node s n \<noteq> None"
  shows "\<exists>s'. record_node_checks s n cs = Inr s' \<and> NodeHealth s' n = foldl node_health_step (NodeHealth s n) cs
    \<and> (\<forall>m. m \<noteq> n \<longrightarrow> NodeHealth s' m = NodeHealth s m)"
  using assms
proof (induction cs arbitrary: s)
  case Nil
  then show ?case by simp
next
  case (Cons c cs)
  obtain healthy e at where c: "c = (healthy, e, at)" by (cases c)
  let ?s = "s\<lparr>node_healths := upsert nh_NodeID (node_health_step (NodeHealth s n) c) (node_healths s)\<rparr>"
  have "find_node ?s n \<noteq> None" using Cons.prems by simp
  from Cons.IH [OF this] obtain s' where s': "record_node_checks ?s n cs = Inr s'"
    "NodeHealth s' n = foldl node_health_step (NodeHealth ?s n) cs"
    "\<forall>m. m \<noteq> n \<longrightarrow> NodeHealth s' m = NodeHealth ?s m" by blast
  moreover have "record_node_checks s n (c # cs) = record_node_checks ?s n cs"
    by (simp add: c RecordNodeHealth_step [OF Cons.prems])
  ultimately show ?case by (auto simp: NodeHealth_upsert)
qed

text \<open>
  C4: the DNS eligibility of a node, as the store keeps it over any sequence of health checks, changes
  exactly when the sequence holds three failures in a row (for an eligible node) or five successes in a
  row (for an ineligible one); nothing less moves it.
\<close>

theorem node_dns_gate:
  assumes "find_node s n \<noteq> None" and "node_health_ok (NodeHealth s n)"
    and "(if nh_DNSEligible (NodeHealth s n) then nh_ConsecutiveFailures (NodeHealth s n)
          else nh_ConsecutiveSuccesses (NodeHealth s n)) = 0"
  shows "(\<exists>k s'. record_node_checks s n (take k cs) = Inr s'
            \<and> nh_DNSEligible (NodeHealth s' n) \<noteq> nh_DNSEligible (NodeHealth s n))
    \<longleftrightarrow> (\<exists>us vs ws. cs = us @ vs @ ws \<and> length vs = (if nh_DNSEligible (NodeHealth s n) then 3 else 5)
            \<and> (\<forall>c \<in> set vs. fst c \<noteq> nh_DNSEligible (NodeHealth s n)))"
proof -
  have "(\<exists>s'. record_node_checks s n (take k cs) = Inr s'
            \<and> nh_DNSEligible (NodeHealth s' n) \<noteq> nh_DNSEligible (NodeHealth s n))
      \<longleftrightarrow> nh_DNSEligible (foldl node_health_step (NodeHealth s n) (take k cs)) \<noteq> nh_DNSEligible (NodeHealth s n)" for k
    using record_node_checks_run [OF assms(1), of "take k cs"] by auto
  then show ?thesis
    using node_gate.leaves_iff [OF assms(2), of cs] assms(3) by simp
qed

lemma node_dns_gate_witness:
  "(\<exists>k s'. record_node_checks one_node_store ''n1'' (take k (replicate 5 (True, [], 0))) = Inr s'
      \<and> nh_DNSEligible (NodeHealth s' ''n1'') \<noteq> nh_DNSEligible (NodeHealth one_node_store ''n1''))"
proof -
  have e: "nh_DNSEligible (NodeHealth one_node_store ''n1'') = False"
    "nh_ConsecutiveSuccesses (NodeHealth one_node_store ''n1'') = 0"
    "node_health_ok (NodeHealth one_node_store ''n1'')"
    "find_node one_node_store ''n1'' \<noteq> None"
    by (simp_all add: NodeHealth_def one_node_store_def empty_store_def fresh_node_health_def
        node_health_ok_def counters_ok_def find_node_def sample_node_def)
  define five where "five = replicate 5 (True, [] :: string, 0 :: time)"
  then have "five = [] @ five @ [] \<and> length five = 5 \<and> (\<forall>c \<in> set five. fst c \<noteq> False)" by simp
  then have "\<exists>us vs ws. five = us @ vs @ ws \<and> length vs = 5 \<and> (\<forall>c \<in> set vs. fst c \<noteq> False)" by blast
  then show ?thesis
    using node_dns_gate [OF e(4,3), of five] e(1,2) by (simp add: five_def [symmetric])
qed

subsection \<open>The two checks of a site\<close>

lemma sh_key_row [simp]:
  "sh_SiteID (site_health_row_of s i n) = i" "sh_NodeID (site_health_row_of s i n) = n"
  by (auto simp: site_health_row_of_def fresh_site_health_def site_health_key_def split: option.split
      dest!: find_row_SomeD)

lemma site_health_row_of_upsert:
  "site_health_row_of (s\<lparr>site_healths := upsert site_health_key r (site_healths s)\<rparr>) i n =
     (if (i, n) = site_health_key r then r else site_health_row_of s i n)"
  by (simp add: site_health_row_of_def table_simps)

lemma snh_step_fields [simp]:
  "snh_SiteID (site_health_step h c) = snh_SiteID h" "snh_NodeID (site_health_step h c) = snh_NodeID h"
  by (auto simp: site_health_step_def advance_site_health_def split: prod.splits)

lemma advance_with_time:
  "(advance_site_health h healthy e)\<lparr>snh_LastCheckedAt := Some at\<rparr> = site_health_step h (healthy, e, at)"
  by (simp add: site_health_step_def)

text \<open>
  The IPv4 and the IPv6 check of a site share a row but not their counters: each advances its own
  gate by one step, keeps the other's view and every other pair of site and node untouched, and keeps
  the counters of both views well-formed.
\<close>

theorem site_checks_are_independent:
  assumes "(if v6 then RecordSiteNodeIPv6Health else RecordSiteNodeHealth) s i n healthy e at = Inr (s', h)"
  defines "own \<equiv> (if v6 then SiteNodeIPv6Health else SiteNodeHealth)"
    and "other \<equiv> (if v6 then SiteNodeHealth else SiteNodeIPv6Health)"
  shows "h = site_health_step (own s i n) (healthy, e, at) \<and> own s' i n = h \<and> other s' i n = other s i n
    \<and> (\<forall>j m. (j, m) \<noteq> (i, n) \<longrightarrow> own s' j m = own s j m \<and> other s' j m = other s j m)
    \<and> (site_node_health_ok (own s i n) \<longrightarrow> site_node_health_ok h)"
proof -
  have ok: "site_node_health_ok (own s i n) \<longrightarrow> site_node_health_ok (site_health_step (own s i n) (healthy, e, at))"
    by (blast intro: site_gate.wf_step)
  have key: "site_health_key ((site_health_row_of s i n)\<lparr>sh_ConsecutiveFailures := a, sh_ConsecutiveSuccesses := b,
      sh_DNSEligible := c, sh_LastCheckedAt := d, sh_LastError := f\<rparr>) = (i, n)"
    "site_health_key ((site_health_row_of s i n)\<lparr>sh6_ConsecutiveFailures := a, sh6_ConsecutiveSuccesses := b,
      sh6_DNSEligible := c, sh6_LastCheckedAt := d, sh6_LastError := f\<rparr>) = (i, n)" for a b c d f
    by (simp_all add: site_health_key_def)
  show ?thesis
  proof (cases v6)
    case True
    with assms(1) ok show ?thesis
      unfolding own_def other_def
      by (auto simp: RecordSiteNodeIPv6Health_def Let_def write_site_health_def SiteNodeHealth_def
          SiteNodeIPv6Health_def site_health_row_of_upsert key advance_with_time)
  next
    case False
    with assms(1) ok show ?thesis
      unfolding own_def other_def
      by (auto simp: RecordSiteNodeHealth_def Let_def write_site_health_def SiteNodeHealth_def
          SiteNodeIPv6Health_def site_health_row_of_upsert key advance_with_time)
  qed
qed

lemma site_checks_are_independent_witness:
  "\<exists>s' h. RecordSiteNodeIPv6Health one_site_store ''s1'' ''n1'' True [] 5 = Inr (s', h)
     \<and> SiteNodeIPv6Health s' ''s1'' ''n1'' = h
     \<and> SiteNodeHealth s' ''s1'' ''n1'' = SiteNodeHealth one_site_store ''s1'' ''n1''"
proof -
  have "is_ok (RecordSiteNodeIPv6Health one_site_store ''s1'' ''n1'' True [] 5)"
    by (simp add: RecordSiteNodeIPv6Health_def Let_def write_site_health_def one_site_store_def
        one_node_store_def empty_store_def find_node_def sample_node_def sample_site_def)
  then obtain s' h where "RecordSiteNodeIPv6Health one_site_store ''s1'' ''n1'' True [] 5 = Inr (s', h)"
    by (auto simp: is_ok_iff)
  with site_checks_are_independent [of True one_site_store "''s1''" "''n1''" True "[]" 5 s' h]
  show ?thesis by auto
qed

end
