(* ===== verification/Site_DNS.thy ===== *)
theory Site_DNS
  imports Publication_Facts Node_Health
begin

section \<open>DNS of the sites (internal/control/health.go)\<close>

text \<open>
  The health loop decides for each site which nodes its DNS names point at. It writes nothing while a
  publication or a removed node is still converging, it prefers primary nodes over backup nodes, it
  leaves DNS alone when every assigned node is unhealthy, and a successful write starts the clocks of
  the site's drains. The DNS provider is an interface (\<open>integrations.DNSProvider\<close>): its state has the
  type \<open>'d\<close> and its \<open>Reconcile\<close> is an argument, which returns the new state also when it fails, since
  it may have failed half-way. \<open>ctx0\<close> and \<open>ctx1\<close> are the errors of the context at the start and right
  before the provider is called (None while it is not cancelled).
\<close>

subsection \<open>Records and the manager\<close>

record dns_record =
  rec_ID :: string
  rec_Type :: string
  rec_Name :: string
  rec_Content :: string
  rec_Comment :: string
  rec_TTL :: int
  rec_Proxied :: bool

definition ManagedRecordPrefix :: string where "ManagedRecordPrefix = ''cdn-platform:''"

type_synonym 'd provider = "'d \<Rightarrow> string \<Rightarrow> string \<Rightarrow> dns_record list \<Rightarrow> 'd \<times> unit result"

record 'd health_manager =
  hm_store :: store
  hm_dns :: 'd
  hm_noHealthyAlerts :: "string \<rightharpoonup> time"

definition siteNodeDrainGrace :: duration where "siteNodeDrainGrace = 5 * minute"
definition availabilityAlertCooldown :: duration where "availabilityAlertCooldown = 5 * minute"

definition site_owner :: "string \<Rightarrow> string" where "site_owner siteID = ''site='' @ siteID"

definition site_node_comment :: "string \<Rightarrow> string \<Rightarrow> string" where
  "site_node_comment siteID nodeID = ManagedRecordPrefix @ ''site='' @ siteID @ '';node='' @ nodeID"

subsection \<open>Alerts\<close>

definition clearNoHealthyAlert :: "'d health_manager \<Rightarrow> string \<Rightarrow> 'd health_manager" where
  "clearNoHealthyAlert m siteID = m\<lparr>hm_noHealthyAlerts := (hm_noHealthyAlerts m)(siteID := None)\<rparr>"

definition noHealthyAlertActive :: "'d health_manager \<Rightarrow> string \<Rightarrow> time \<Rightarrow> 'd health_manager \<times> bool" where
  "noHealthyAlertActive m siteID now =
     (case hm_noHealthyAlerts m siteID of
        None \<Rightarrow> (m, False)
      | Some sentAt \<Rightarrow>
          if time_sub now sentAt \<ge> availabilityAlertCooldown then (clearNoHealthyAlert m siteID, False)
          else (m, True))"

definition markNoHealthyAlert :: "'d health_manager \<Rightarrow> string \<Rightarrow> time \<Rightarrow> 'd health_manager \<times> bool" where
  "markNoHealthyAlert m siteID now =
     (case hm_noHealthyAlerts m siteID of
        Some sentAt \<Rightarrow>
          if time_sub now sentAt < availabilityAlertCooldown then (m, False)
          else (m\<lparr>hm_noHealthyAlerts := (hm_noHealthyAlerts m)(siteID \<mapsto> now)\<rparr>, True)
      | None \<Rightarrow> (m\<lparr>hm_noHealthyAlerts := (hm_noHealthyAlerts m)(siteID \<mapsto> now)\<rparr>, True))"

subsection \<open>Lifetimes\<close>

text \<open>\<open>dflt\<close> is the DNS lifetime the settings manager holds, None when there is no settings manager.\<close>

definition dnsTTL :: "int option \<Rightarrow> site \<Rightarrow> int" where
  "dnsTTL dflt x =
     (case dflt of
        Some ttl \<Rightarrow> (case st_DNSTTLSeconds x of Some v \<Rightarrow> v | None \<Rightarrow> ttl)
      | None \<Rightarrow> (case st_DNSTTLSeconds x of
            Some v \<Rightarrow> if v > 0 then v else DefaultDNSTTLSeconds
          | None \<Rightarrow> DefaultDNSTTLSeconds))"

fun longest_ttl :: "int \<Rightarrow> site_node_drain list \<Rightarrow> int" where
  "longest_ttl cur [] = cur"
| "longest_ttl cur (d # ds) =
     (let a = (if dr_DNSTTLSeconds d > cur then dr_DNSTTLSeconds d else cur);
          b = (case st_DNSTTLSeconds (dr_Site d) of Some v \<Rightarrow> if v > a then v else a | None \<Rightarrow> a)
      in longest_ttl b ds)"

definition drainTTL :: "store \<Rightarrow> site_publication \<Rightarrow> int \<Rightarrow> int" where
  "drainTTL s p cur =
     (let a = (if cur < 1 then DefaultDNSTTLSeconds else cur);
          b = (if sp_DNSTTLSeconds p > a then sp_DNSTTLSeconds p else a)
      in longest_ttl b (ListSiteNodeDrainsForSite s (st_ID (sp_Site p))))"

definition markSiteNodeDrainsDNSReady :: "'d health_manager \<Rightarrow> site_publication \<Rightarrow> int \<Rightarrow> time
    \<Rightarrow> 'd health_manager result" where
  "markSiteNodeDrainsDNSReady m p providerTTL now =
     (if is_zero_time (sp_PublishedAt p) then Inr m
      else case MarkSiteNodeDrainsDNSReadyForPublication (hm_store m) (st_ID (sp_Site p)) (sp_PublishedAt p) now
             providerTTL (drainTTL (hm_store m) p providerTTL) siteNodeDrainGrace of
        Inl e \<Rightarrow> Inl e
      | Inr (s', _, _) \<Rightarrow> Inr (m\<lparr>hm_store := s'\<rparr>))"

subsection \<open>Which nodes are healthy\<close>

definition SiteHealthBody :: "string \<Rightarrow> string" where "SiteHealthBody siteID = ''site='' @ siteID"

text \<open>The text \<open>return 200 "site=ID\n";\<close>, in which \<open>\n\<close> is a backslash and a letter.\<close>

definition site_health_directive :: "string \<Rightarrow> string" where
  "site_health_directive siteID = ''return 200 '' @ [CHR 0x22] @ SiteHealthBody siteID @ [CHR 0x5C] @ ''n'' @ [CHR 0x22] @ '';''"

definition HasSiteHealth :: "string \<Rightarrow> string \<Rightarrow> bool" where
  "HasSiteHealth configuration siteID = Contains configuration (site_health_directive siteID)"

definition nodeUpgradeInProgress :: "store \<Rightarrow> node_row \<Rightarrow> bool" where
  "nodeUpgradeInProgress s n \<longleftrightarrow> nd_ActiveUpgradeID n \<noteq> [] \<or> HasActiveNodeUpgrade s (nd_ID n)"

definition behind :: "store \<Rightarrow> node_row \<Rightarrow> bool" where
  "behind s n \<longleftrightarrow> DesiredVersion s (nd_ID n) = 0 \<or> nd_AppliedVersion n < DesiredVersion s (nd_ID n)"

definition siteIPv6NodePool :: "store \<Rightarrow> site \<Rightarrow> string list \<Rightarrow> node_row list \<Rightarrow> node_row list result" where
  "siteIPv6NodePool s x nodeIDs ns = foldr
     (\<lambda>nodeID rest.
        case find_row (\<lambda>n. nd_ID n = nodeID) ns of None \<Rightarrow> rest
        | Some n \<Rightarrow>
            if nd_PublicIPv6 n = [] \<or> nd_Status n \<noteq> NodeActive then rest
            else if nodeUpgradeInProgress s n then rest
            else if behind s n then rest
            else if HasActiveNodePublication s nodeID then rest
            else if \<not> nh_DNSEligible (NodeHealth s nodeID) then rest
            else case NodeState s nodeID of Inl e \<Rightarrow> Inl e
            | Inr st \<Rightarrow>
                if \<not> st_TCPOnly x \<and> \<not> HasSiteHealth (ds_NginxConfig st) (st_ID x) then rest
                else if \<not> snh_DNSEligible (SiteNodeIPv6Health s (st_ID x) nodeID) then rest
                else map_sum id (\<lambda>healthy. n # healthy) rest) nodeIDs (Inr [])"

record site_node_pool =
  snp_healthy :: "node_row list"
  snp_activeAssigned :: nat
  snp_convergingAssigned :: nat

text \<open>What one node contributes to the pool.\<close>

datatype node_verdict = Absent | Inactive bool | Converging | Unhealthy | Healthy node_row

definition node_verdict :: "store \<Rightarrow> site \<Rightarrow> node_row list \<Rightarrow> string \<Rightarrow> node_verdict result" where
  "node_verdict s x ns nodeID =
     (case find_row (\<lambda>n. nd_ID n = nodeID) ns of None \<Rightarrow> Inr Absent
      | Some n \<Rightarrow>
          if nd_Status n \<noteq> NodeActive then Inr (Inactive (nodeUpgradeInProgress s n))
          else if nodeUpgradeInProgress s n then Inr Converging
          else if behind s n then Inr Converging
          else if HasActiveNodePublication s nodeID then Inr Converging
          else if \<not> nh_DNSEligible (NodeHealth s nodeID) then Inr Unhealthy
          else case NodeState s nodeID of Inl e \<Rightarrow> Inl e
          | Inr st \<Rightarrow>
              if HasSiteHealth (ds_NginxConfig st) (st_ID x) \<and> \<not> snh_DNSEligible (SiteNodeHealth s (st_ID x) nodeID)
              then Inr Unhealthy
              else Inr (Healthy n))"

fun add_verdict :: "node_verdict \<Rightarrow> site_node_pool \<Rightarrow> site_node_pool" where
  "add_verdict Absent pool = pool"
| "add_verdict (Inactive upgrading) pool =
     (if upgrading then pool\<lparr>snp_convergingAssigned := snp_convergingAssigned pool + 1\<rparr> else pool)"
| "add_verdict Converging pool =
     pool\<lparr>snp_activeAssigned := snp_activeAssigned pool + 1, snp_convergingAssigned := snp_convergingAssigned pool + 1\<rparr>"
| "add_verdict Unhealthy pool = pool\<lparr>snp_activeAssigned := snp_activeAssigned pool + 1\<rparr>"
| "add_verdict (Healthy n) pool =
     pool\<lparr>snp_activeAssigned := snp_activeAssigned pool + 1, snp_healthy := snp_healthy pool @ [n]\<rparr>"

fun pool_from :: "store \<Rightarrow> site \<Rightarrow> node_row list \<Rightarrow> string list \<Rightarrow> site_node_pool \<Rightarrow> site_node_pool result" where
  "pool_from s x ns [] pool = Inr pool"
| "pool_from s x ns (nodeID # nodeIDs) pool =
     (case node_verdict s x ns nodeID of
        Inl e \<Rightarrow> Inl e
      | Inr v \<Rightarrow> pool_from s x ns nodeIDs (add_verdict v pool))"

definition siteNodePool :: "store \<Rightarrow> site \<Rightarrow> string list \<Rightarrow> node_row list \<Rightarrow> site_node_pool result" where
  "siteNodePool s x nodeIDs ns =
     pool_from s x ns nodeIDs \<lparr>snp_healthy = [], snp_activeAssigned = 0, snp_convergingAssigned = 0\<rparr>"

definition siteIPv6Nodes :: "store \<Rightarrow> site \<Rightarrow> node_row list \<Rightarrow> node_row list result" where
  "siteIPv6Nodes s x ns =
     (case siteIPv6NodePool s x (st_Nodes x) ns of
        Inl e \<Rightarrow> Inl e
      | Inr healthy \<Rightarrow>
          if healthy \<noteq> [] \<or> st_BackupNodes x = [] then Inr healthy
          else siteIPv6NodePool s x (st_BackupNodes x) ns)"

subsection \<open>The decision\<close>

text \<open>
  \<open>dns_decision\<close> is what \<open>reconcileSiteDNSOutcomeForPublication\<close> decides from the store, before any
  effect: to wait, to leave DNS and report that no node is healthy, to remove the records, or to
  publish the nodes.
\<close>

datatype dns_decision = Wait | KeepUnhealthy | ClearRecords | Point "node_row list" "node_row list"

definition publication_is_stale :: "store \<Rightarrow> site_publication \<Rightarrow> bool result" where
  "publication_is_stale s p =
     (if is_zero_time (sp_PublishedAt p) then Inr False
      else case SitePublicationCurrent s (st_ID (sp_Site p)) (sp_PublishedAt p) of
        Inl e \<Rightarrow> Inl e
      | Inr current \<Rightarrow> Inr (\<not> current))"

definition decide_site_dns :: "store \<Rightarrow> site_publication \<Rightarrow> node_row list \<Rightarrow> dns_decision result" where
  "decide_site_dns s p ns =
     (let x = sp_Site p in
      case publication_is_stale s p of Inl e \<Rightarrow> Inl e | Inr stale \<Rightarrow>
      if stale then Inr Wait
      else if is_ok (ActivePublishTask s (st_ID x)) then Inr Wait
      else if SiteNodeDrainsConverging s (st_ID x) then Inr Wait
      else case siteNodePool s x (st_Nodes x) ns of Inl e \<Rightarrow> Inl e | Inr primary \<Rightarrow>
      if snp_convergingAssigned primary > 0 then Inr Wait
      else if snp_healthy primary = [] \<and> st_BackupNodes x \<noteq> [] then
        (case siteNodePool s x (st_BackupNodes x) ns of Inl e \<Rightarrow> Inl e | Inr backup \<Rightarrow>
         if snp_convergingAssigned backup > 0 then Inr Wait
         else if snp_healthy backup = [] then
           Inr (if snp_activeAssigned primary + snp_activeAssigned backup = 0 then ClearRecords else KeepUnhealthy)
         else if st_IPv6Enabled x then map_sum id (Point (snp_healthy backup)) (siteIPv6Nodes s x ns)
         else Inr (Point (snp_healthy backup) []))
      else if snp_healthy primary = [] then
        Inr (if snp_activeAssigned primary = 0 then ClearRecords else KeepUnhealthy)
      else if st_IPv6Enabled x then map_sum id (Point (snp_healthy primary)) (siteIPv6Nodes s x ns)
      else Inr (Point (snp_healthy primary) []))"

definition desired_records :: "site \<Rightarrow> int \<Rightarrow> node_row list \<Rightarrow> node_row list \<Rightarrow> dns_record list" where
  "desired_records x ttl v4 v6 =
     concat (map (\<lambda>n. map (\<lambda>d. \<lparr>rec_ID = [], rec_Type = ''A'', rec_Name = d, rec_Content = nd_PublicIPv4 n,
        rec_Comment = site_node_comment (st_ID x) (nd_ID n), rec_TTL = ttl, rec_Proxied = False\<rparr>) (st_Domains x)) v4)
     @ concat (map (\<lambda>n. map (\<lambda>d. \<lparr>rec_ID = [], rec_Type = ''AAAA'', rec_Name = d, rec_Content = nd_PublicIPv6 n,
        rec_Comment = site_node_comment (st_ID x) (nd_ID n), rec_TTL = ttl, rec_Proxied = False\<rparr>) (st_Domains x)) v6)"

subsection \<open>The effects\<close>

text \<open>
  A function of the manager returns its new state and the error or value of the call. (The decision
  itself fails only if the publication has no site identifier: reading a node's desired state, which it
  does last, cannot fail for a node that has a desired version.)
\<close>

definition start_clocks :: "'d health_manager \<Rightarrow> site_publication \<Rightarrow> int \<Rightarrow> time \<Rightarrow> 'd health_manager \<times> unit result" where
  "start_clocks m p ttl now =
     (case markSiteNodeDrainsDNSReady m p ttl now of
        Inl e \<Rightarrow> (m, Inl (Errorf ''start DNS drain timer for %s: %w'' [ArgS (st_Name (sp_Site p)), ArgE e]))
      | Inr m' \<Rightarrow> (m', Inr ()))"

definition clearSiteDNS :: "'d provider \<Rightarrow> int option \<Rightarrow> go_error option \<Rightarrow> 'd health_manager \<Rightarrow> site
    \<Rightarrow> site_publication option \<Rightarrow> time \<Rightarrow> 'd health_manager \<times> unit result" where
  "clearSiteDNS reconcile dflt ctx m x p now =
     (case ctx of Some e \<Rightarrow> (m, Inl e)
      | None \<Rightarrow>
          (case (case p of None \<Rightarrow> Inr False | Some q \<Rightarrow> publication_is_stale (hm_store m) q) of
             Inl e \<Rightarrow> (m, Inl e)
           | Inr stale \<Rightarrow>
               if stale then (m, Inr ())
               else
                 (case reconcile (hm_dns m) (st_ZoneID x) (site_owner (st_ID x)) [] of
                    (d', Inl e) \<Rightarrow> (m\<lparr>hm_dns := d'\<rparr>, Inl (Errorf ''remove DNS for disabled site %s: %w'' [ArgS (st_Name x), ArgE e]))
                  | (d', Inr _) \<Rightarrow>
                      (case p of
                         None \<Rightarrow> (m\<lparr>hm_dns := d'\<rparr>, Inr ())
                       | Some q \<Rightarrow> start_clocks (m\<lparr>hm_dns := d'\<rparr>) q (dnsTTL dflt x) now))))"

definition reconcileSiteDNSOutcomeForPublication :: "'d provider \<Rightarrow> int option \<Rightarrow> go_error option \<Rightarrow> go_error option
    \<Rightarrow> 'd health_manager \<Rightarrow> site_publication \<Rightarrow> node_row list \<Rightarrow> time \<Rightarrow> 'd health_manager \<times> bool result" where
  "reconcileSiteDNSOutcomeForPublication reconcile dflt ctx0 ctx1 m p ns now =
     (let x = sp_Site p; m1 = clearNoHealthyAlert m (st_ID x) in
      case ctx0 of Some e \<Rightarrow> (m, Inl e)
      | None \<Rightarrow>
          (case decide_site_dns (hm_store m) p ns of
             Inl e \<Rightarrow> (m, Inl e)
           | Inr Wait \<Rightarrow> (m1, Inr False)
           | Inr KeepUnhealthy \<Rightarrow> (m, Inr True)
           | Inr ClearRecords \<Rightarrow>
               (case clearSiteDNS reconcile dflt ctx1 m x (if is_zero_time (sp_PublishedAt p) then None else Some p) now of
                  (m', Inl e) \<Rightarrow> (m', Inl e)
                | (m', Inr _) \<Rightarrow> (clearNoHealthyAlert m' (st_ID x), Inr False))
           | Inr (Point v4 v6) \<Rightarrow>
               (case ctx1 of Some e \<Rightarrow> (m1, Inl e)
                | None \<Rightarrow>
                    (case reconcile (hm_dns m1) (st_ZoneID x) (site_owner (st_ID x))
                            (desired_records x (dnsTTL dflt x) v4 v6) of
                       (d', Inl e) \<Rightarrow> (m1\<lparr>hm_dns := d'\<rparr>, Inl (Errorf ''reconcile DNS for %s: %w'' [ArgS (st_Name x), ArgE e]))
                     | (d', Inr _) \<Rightarrow>
                         (case start_clocks (m1\<lparr>hm_dns := d'\<rparr>) p (dnsTTL dflt x) now of
                            (m', Inl e) \<Rightarrow> (m', Inl e)
                          | (m', Inr _) \<Rightarrow> (m', Inr False))))))"

subsection \<open>What a pool contains\<close>

text \<open>The condition for sending visitors of a site to a node.\<close>

definition node_ready :: "store \<Rightarrow> site \<Rightarrow> node_row \<Rightarrow> bool" where
  "node_ready s x n \<longleftrightarrow> nd_Status n = NodeActive \<and> \<not> nodeUpgradeInProgress s n \<and> \<not> behind s n
     \<and> \<not> HasActiveNodePublication s (nd_ID n) \<and> nh_DNSEligible (NodeHealth s (nd_ID n))
     \<and> (case NodeState s (nd_ID n) of Inl _ \<Rightarrow> False
        | Inr st \<Rightarrow> HasSiteHealth (ds_NginxConfig st) (st_ID x) \<longrightarrow> snh_DNSEligible (SiteNodeHealth s (st_ID x) (nd_ID n)))"

definition ready_nodes :: "store \<Rightarrow> site \<Rightarrow> node_row list \<Rightarrow> string list \<Rightarrow> node_row list" where
  "ready_nodes s x ns nodeIDs =
     filter (node_ready s x) (List.map_filter (\<lambda>i. find_row (\<lambda>n. nd_ID n = i) ns) nodeIDs)"

lemma ready_nodes_simps [simp]:
  "ready_nodes s x ns [] = []"
  "ready_nodes s x ns (i # is) = (case find_row (\<lambda>n. nd_ID n = i) ns of
     Some n \<Rightarrow> if node_ready s x n then n # ready_nodes s x ns is else ready_nodes s x ns is
   | None \<Rightarrow> ready_nodes s x ns is)"
  by (auto simp: ready_nodes_def List.map_filter_simps split: option.split)

lemma NodeState_known: "\<not> behind s n \<Longrightarrow> \<exists>st. NodeState s (nd_ID n) = Inr st"
  by (auto simp: behind_def DesiredVersion_def NodeState_def split: option.splits)

lemma node_verdict_cases:
  assumes "find_row (\<lambda>n. nd_ID n = i) ns = Some n"
  shows "(\<exists>b. node_verdict s x ns i = Inr (Inactive b) \<and> nd_Status n \<noteq> NodeActive)
    \<or> (\<exists>v \<in> {Converging, Unhealthy}. node_verdict s x ns i = Inr v \<and> nd_Status n = NodeActive \<and> \<not> node_ready s x n)
    \<or> node_verdict s x ns i = Inr (Healthy n) \<and> nd_Status n = NodeActive \<and> node_ready s x n"
proof -
  have i: "nd_ID n = i" using find_row_SomeD [OF assms] by simp
  note v = node_verdict_def [of s x ns i, unfolded assms option.case]
  show ?thesis
  proof (cases "nd_Status n = NodeActive \<and> \<not> nodeUpgradeInProgress s n \<and> \<not> behind s n")
    case True
    then obtain st where "NodeState s i = Inr st" using NodeState_known [of s n] i by blast
    with True i show ?thesis unfolding v
      by (cases "HasActiveNodePublication s i"; cases "nh_DNSEligible (NodeHealth s i)")
        (simp_all add: node_ready_def)
  next
    case False
    then show ?thesis unfolding v by (auto simp: node_ready_def)
  qed
qed

definition active_in :: "node_row list \<Rightarrow> string \<Rightarrow> bool" where
  "active_in ns i \<longleftrightarrow> (\<exists>n. find_row (\<lambda>n. nd_ID n = i) ns = Some n \<and> nd_Status n = NodeActive)"

lemma pool_from_facts:
  "\<exists>pool'. pool_from s x ns is pool = Inr pool'
     \<and> snp_healthy pool' = snp_healthy pool @ ready_nodes s x ns is
     \<and> snp_activeAssigned pool' = snp_activeAssigned pool + length (filter (active_in ns) is)
     \<and> snp_convergingAssigned pool' \<ge> snp_convergingAssigned pool"
proof (induction "is" arbitrary: pool)
  case (Cons i "is")
  show ?case
  proof (cases "find_row (\<lambda>n. nd_ID n = i) ns")
    case None
    then have "node_verdict s x ns i = Inr Absent" by (simp add: node_verdict_def)
    with Cons [of pool] None show ?thesis by (simp add: active_in_def)
  next
    case (Some n)
    from node_verdict_cases [OF Some, of s x] show ?thesis
    proof (elim disjE exE bexE conjE)
      fix b assume v: "node_verdict s x ns i = Inr (Inactive b)" "nd_Status n \<noteq> NodeActive"
      then have "\<not> node_ready s x n" by (simp add: node_ready_def)
      with v Some Cons [of "add_verdict (Inactive b) pool"] show ?thesis by (auto simp: active_in_def split: if_splits)
    next
      fix v assume v: "v \<in> {Converging, Unhealthy}" "node_verdict s x ns i = Inr v" "nd_Status n = NodeActive"
        "\<not> node_ready s x n"
      with Some Cons [of "add_verdict v pool"] show ?thesis by (auto simp: active_in_def)
    next
      assume v: "node_verdict s x ns i = Inr (Healthy n)" "nd_Status n = NodeActive" "node_ready s x n"
      with Some Cons [of "add_verdict (Healthy n) pool"] show ?thesis by (auto simp: active_in_def)
    qed
  qed
qed simp

lemma siteNodePool_facts:
  obtains pool where "siteNodePool s x is ns = Inr pool" "snp_healthy pool = ready_nodes s x ns is"
    "snp_activeAssigned pool = length (filter (active_in ns) is)"
  using pool_from_facts [of s x ns "is" "\<lparr>snp_healthy = [], snp_activeAssigned = 0, snp_convergingAssigned = 0\<rparr>"]
  by (auto simp: siteNodePool_def)

lemma siteIPv6NodePool_total: "\<exists>v. siteIPv6NodePool s x is ns = Inr v"
proof (induction "is")
  case (Cons i "is")
  then obtain v where v: "siteIPv6NodePool s x is ns = Inr v" by blast
  show ?case
  proof (cases "find_row (\<lambda>n. nd_ID n = i) ns")
    case None
    with v show ?thesis by (simp add: siteIPv6NodePool_def)
  next
    case (Some n)
    have i: "nd_ID n = i" using find_row_SomeD [OF Some] by simp
    note v' = v [unfolded siteIPv6NodePool_def]
    show ?thesis
    proof (cases "behind s n")
      case True
      then show ?thesis by (simp add: siteIPv6NodePool_def Some v')
    next
      case False
      then obtain st where "NodeState s i = Inr st" using NodeState_known [of s n] i by blast
      then show ?thesis by (simp add: siteIPv6NodePool_def Some v')
    qed
  qed
qed (simp add: siteIPv6NodePool_def)

lemma siteIPv6Nodes_total: "\<exists>v. siteIPv6Nodes s x ns = Inr v"
  using siteIPv6NodePool_total [of s x "st_Nodes x" ns] siteIPv6NodePool_total [of s x "st_BackupNodes x" ns]
  by (auto simp: siteIPv6Nodes_def)

text \<open>The decision, read off its result.\<close>

definition settled_site :: "store \<Rightarrow> site_publication \<Rightarrow> bool" where
  "settled_site s p \<longleftrightarrow> publication_is_stale s p = Inr False \<and> \<not> is_ok (ActivePublishTask s (st_ID (sp_Site p)))
     \<and> \<not> SiteNodeDrainsConverging s (st_ID (sp_Site p))"

definition chosen_nodes :: "store \<Rightarrow> site \<Rightarrow> node_row list \<Rightarrow> node_row list" where
  "chosen_nodes s x ns = (if ready_nodes s x ns (st_Nodes x) \<noteq> [] then ready_nodes s x ns (st_Nodes x)
     else ready_nodes s x ns (st_BackupNodes x))"

lemma decide_site_dns_cases:
  assumes "decide_site_dns s p ns = Inr d"
  shows "(\<forall>v4 v6. d = Point v4 v6 \<longrightarrow> settled_site s p \<and> v4 \<noteq> [] \<and> v4 = chosen_nodes s (sp_Site p) ns)
    \<and> (d = ClearRecords \<longrightarrow> settled_site s p \<and> (\<forall>i \<in> set (AssignedNodeIDs (sp_Site p)). \<not> active_in ns i))
    \<and> (d = KeepUnhealthy \<longrightarrow> settled_site s p \<and> chosen_nodes s (sp_Site p) ns = []
         \<and> (\<exists>i \<in> set (AssignedNodeIDs (sp_Site p)). active_in ns i))"
proof -
  let ?x = "sp_Site p"
  obtain P where P: "siteNodePool s ?x (st_Nodes ?x) ns = Inr P" "snp_healthy P = ready_nodes s ?x ns (st_Nodes ?x)"
    "snp_activeAssigned P = length (filter (active_in ns) (st_Nodes ?x))" by (rule siteNodePool_facts)
  obtain B where B: "siteNodePool s ?x (st_BackupNodes ?x) ns = Inr B"
    "snp_healthy B = ready_nodes s ?x ns (st_BackupNodes ?x)"
    "snp_activeAssigned B = length (filter (active_in ns) (st_BackupNodes ?x))" by (rule siteNodePool_facts)
  obtain v where v: "siteIPv6Nodes s ?x ns = Inr v" using siteIPv6Nodes_total by blast
  obtain stale where stale: "publication_is_stale s p = Inr stale"
    using assms by (cases "publication_is_stale s p") (simp_all add: decide_site_dns_def)
  show ?thesis
  proof (cases "d = Wait")
    case False
    with assms have "settled_site s p" by (auto simp: decide_site_dns_def stale settled_site_def Let_def split: if_splits)
    moreover have "d = (if snp_healthy P = [] \<and> st_BackupNodes ?x \<noteq> [] then
        (if snp_healthy B = [] then if snp_activeAssigned P + snp_activeAssigned B = 0 then ClearRecords else KeepUnhealthy
         else Point (snp_healthy B) (if st_IPv6Enabled ?x then v else []))
      else if snp_healthy P = [] then if snp_activeAssigned P = 0 then ClearRecords else KeepUnhealthy
      else Point (snp_healthy P) (if st_IPv6Enabled ?x then v else []))"
      using assms False by (auto simp: decide_site_dns_def stale P(1) B(1) v Let_def split: if_splits)
    ultimately show ?thesis using P(2,3) B(2,3)
      by (auto simp: chosen_nodes_def AssignedNodeIDs_def filter_empty_conv split: if_splits)
  qed simp
qed

end
