(* ===== verification/DNS_Records.thy ===== *)
theory DNS_Records
  imports Site_DNS Go_Strings
begin

section \<open>DNS providers (internal/integrations/cloudflare.go, MemoryDNS of internal/control/health.go)\<close>

text \<open>
  A managed record names the site and the node it stands for in its comment; removals and ownership
  checks read that comment back. \<open>MemoryDNS\<close> is the provider that keeps the records of each zone in
  memory. The locale \<open>dns_provider\<close> states what the health loop relies on.
\<close>

subsection \<open>Comments\<close>

text \<open>The map \<open>required\<close> is a list of pairs; a field that appears twice counts with its last value.\<close>

definition found_fields :: "string \<Rightarrow> (string \<times> string) list \<Rightarrow> string \<rightharpoonup> string" where
  "found_fields comment required = fold
     (\<lambda>field found. case Cut field (CHR ''='') of
         None \<Rightarrow> found
       | Some (key, value) \<Rightarrow> if key \<in> fst ` set required then found(key \<mapsto> value) else found)
     (Split (TrimPrefix comment ManagedRecordPrefix) (CHR '';'')) Map.empty"

definition managedRecordMatchesFields :: "string \<Rightarrow> (string \<times> string) list \<Rightarrow> bool" where
  "managedRecordMatchesFields comment required \<longleftrightarrow>
     HasPrefix comment ManagedRecordPrefix
     \<and> list_all (\<lambda>(key, value). (case found_fields comment required key of None \<Rightarrow> [] | Some v \<Rightarrow> v) = value) required"

definition ManagedRecordMatchesNode :: "string \<Rightarrow> string \<Rightarrow> bool" where
  "ManagedRecordMatchesNode comment nodeID = managedRecordMatchesFields comment [(''node'', nodeID)]"

definition ManagedRecordMatchesSiteNode :: "string \<Rightarrow> string \<Rightarrow> string \<Rightarrow> bool" where
  "ManagedRecordMatchesSiteNode comment siteID nodeID =
     managedRecordMatchesFields comment [(''site'', siteID), (''node'', nodeID)]"

text \<open>
  The comment the health loop writes identifies its site and node: a record matches exactly the site
  and node it was written for, as long as the two identifiers contain no semicolon (they are UUIDs).
\<close>

theorem comments_identify_site_and_node:
  assumes "CHR '';'' \<notin> set siteID" and "CHR '';'' \<notin> set nodeID"
  shows "(ManagedRecordMatchesSiteNode (site_node_comment siteID nodeID) s n \<longleftrightarrow> s = siteID \<and> n = nodeID)
    \<and> (ManagedRecordMatchesNode (site_node_comment siteID nodeID) n \<longleftrightarrow> n = nodeID)"
proof (intro conjI)
  let ?c = "site_node_comment siteID nodeID"
  have rest: "TrimPrefix ?c ManagedRecordPrefix = (''site='' @ siteID) @ CHR '';'' # (''node='' @ nodeID)"
    by (simp add: site_node_comment_def ManagedRecordPrefix_def TrimPrefix_def)
  have split: "Split (TrimPrefix ?c ManagedRecordPrefix) (CHR '';'') = [''site='' @ siteID, ''node='' @ nodeID]"
    unfolding rest using assms by (subst Split_append) (simp_all add: Split_single)
  have pre: "HasPrefix ?c ManagedRecordPrefix" by (simp add: site_node_comment_def HasPrefix_iff)
  have found: "found_fields ?c req = (if ''node'' \<in> fst ` set req then
       (if ''site'' \<in> fst ` set req then [''site'' \<mapsto> siteID, ''node'' \<mapsto> nodeID] else [''node'' \<mapsto> nodeID])
     else (if ''site'' \<in> fst ` set req then [''site'' \<mapsto> siteID] else Map.empty))" for req
    unfolding found_fields_def split by simp
  show "ManagedRecordMatchesSiteNode ?c s n \<longleftrightarrow> s = siteID \<and> n = nodeID"
    by (auto simp: ManagedRecordMatchesSiteNode_def managedRecordMatchesFields_def pre found)
  show "ManagedRecordMatchesNode ?c n \<longleftrightarrow> n = nodeID"
    by (auto simp: ManagedRecordMatchesNode_def managedRecordMatchesFields_def pre found)
qed

lemma comments_identify_site_and_node_witness:
  "ManagedRecordMatchesSiteNode (site_node_comment ''s1'' ''n1'') ''s1'' ''n1''
   \<and> \<not> ManagedRecordMatchesNode (site_node_comment ''s1'' ''n1'') ''n2''"
  using comments_identify_site_and_node [of "''s1''" "''n1''"] by simp

subsection \<open>The provider in memory\<close>

type_synonym memory_dns = "string \<rightharpoonup> dns_record list"

definition zone_records :: "memory_dns \<Rightarrow> string \<Rightarrow> dns_record list" where
  "zone_records zones zoneID = (case zones zoneID of None \<Rightarrow> [] | Some rs \<Rightarrow> rs)"

definition MemoryDNS_Reconcile :: "memory_dns provider" where
  "MemoryDNS_Reconcile zones zoneID owner desired = (zones(zoneID \<mapsto> desired), Inr ())"

definition MemoryDNS_RemoveNode :: "memory_dns \<Rightarrow> string \<Rightarrow> string \<Rightarrow> memory_dns" where
  "MemoryDNS_RemoveNode zones zoneID nodeID =
     zones(zoneID \<mapsto> filter (\<lambda>r. \<not> ManagedRecordMatchesNode (rec_Comment r) nodeID) (zone_records zones zoneID))"

definition MemoryDNS_RemoveSiteNodes :: "memory_dns \<Rightarrow> string \<Rightarrow> string \<Rightarrow> string list \<Rightarrow> memory_dns" where
  "MemoryDNS_RemoveSiteNodes zones zoneID siteID nodeIDs =
     zones(zoneID \<mapsto> filter (\<lambda>r. \<not> list_ex (ManagedRecordMatchesSiteNode (rec_Comment r) siteID) nodeIDs)
       (zone_records zones zoneID))"

definition MemoryDNS_RemoveSiteNode :: "memory_dns \<Rightarrow> string \<Rightarrow> string \<Rightarrow> string \<Rightarrow> memory_dns" where
  "MemoryDNS_RemoveSiteNode zones zoneID siteID nodeID = MemoryDNS_RemoveSiteNodes zones zoneID siteID [nodeID]"

subsection \<open>What the health loop relies on\<close>

definition owned :: "string \<Rightarrow> dns_record \<Rightarrow> bool" where
  "owned owner r \<longleftrightarrow> HasPrefix (rec_Comment r) (ManagedRecordPrefix @ owner @ '';'')"

text \<open>A successful call leaves the owner with exactly the records it asked for.\<close>

locale dns_provider =
  fixes reconcile :: "'d provider"
    and records :: "'d \<Rightarrow> string \<Rightarrow> dns_record list"
  assumes reconcile_exact: "reconcile d zone owner desired = (d', Inr ()) \<Longrightarrow> \<forall>r \<in> set desired. owned owner r \<Longrightarrow>
    {r \<in> set (records d' zone). owned owner r} = set desired"
begin

lemma desired_owned: "\<forall>r \<in> set (desired_records x ttl v4 v6). owned (site_owner (st_ID x)) r"
  by (auto simp: desired_records_def owned_def site_owner_def site_node_comment_def HasPrefix_iff)

lemma start_clocks_dns: "start_clocks m p ttl now = (m', r) \<Longrightarrow> hm_dns m' = hm_dns m"
  by (auto simp: start_clocks_def markSiteNodeDrainsDNSReady_def split: if_splits sum.splits)

lemma point_exact:
  assumes "reconcileSiteDNSOutcomeForPublication reconcile dflt c0 c1 m p ns now = (m', Inr b)"
    and "decide_site_dns (hm_store m) p ns = Inr (Point v4 v6)"
  shows "{r \<in> set (records (hm_dns m') (st_ZoneID (sp_Site p))). owned (site_owner (st_ID (sp_Site p))) r}
    = set (desired_records (sp_Site p) (dnsTTL dflt (sp_Site p)) v4 v6)"
proof -
  let ?x = "sp_Site p" and ?m1 = "clearNoHealthyAlert m (st_ID (sp_Site p))"
  obtain d' r where rec: "reconcile (hm_dns ?m1) (st_ZoneID ?x) (site_owner (st_ID ?x))
      (desired_records ?x (dnsTTL dflt ?x) v4 v6) = (d', r)" by (metis surj_pair)
  from assms rec have "r = Inr ()" and "hm_dns m' = d'"
    by (auto simp: reconcileSiteDNSOutcomeForPublication_def Let_def dest: start_clocks_dns
        split: option.splits sum.splits prod.splits)
  with reconcile_exact [OF rec [unfolded this(1)] desired_owned] show ?thesis by simp
qed

end

text \<open>A successful run that decided to remove the records of a site leaves it none.\<close>

context dns_provider
begin

lemma clear_exact:
  assumes run: "reconcileSiteDNSOutcomeForPublication reconcile dflt c0 c1 m p ns now = (m', Inr b)"
    and dec: "decide_site_dns (hm_store m) p ns = Inr ClearRecords"
  shows "{r \<in> set (records (hm_dns m') (st_ZoneID (sp_Site p))). owned (site_owner (st_ID (sp_Site p))) r} = {}"
proof -
  let ?x = "sp_Site p"
  have fresh: "publication_is_stale (hm_store m) p = Inr False"
    using dec by (auto simp: decide_site_dns_def Let_def split: sum.splits if_splits)
  obtain d' r where rec: "reconcile (hm_dns m) (st_ZoneID ?x) (site_owner (st_ID ?x)) [] = (d', r)" by fastforce
  have dns: "hm_dns (clearNoHealthyAlert h i) = hm_dns h" for h :: "'a health_manager" and i
    by (simp add: clearNoHealthyAlert_def)
  have "r = Inr () \<and> hm_dns m' = d'"
    using run rec fresh
    by (auto simp: reconcileSiteDNSOutcomeForPublication_def Let_def dec clearSiteDNS_def dns dest!: start_clocks_dns
        split: option.splits sum.splits prod.splits if_splits)
  with reconcile_exact [of "hm_dns m" "st_ZoneID ?x" "site_owner (st_ID ?x)" "[]" d'] rec show ?thesis by simp
qed

end

interpretation memory: dns_provider MemoryDNS_Reconcile zone_records
  by unfold_locales (auto simp: MemoryDNS_Reconcile_def zone_records_def)

end
