(* ===== verification/DNS_Properties.thy ===== *)
theory DNS_Properties
  imports DNS_Records
begin

section \<open>What DNS promises\<close>

subsection \<open>A store with one healthy node\<close>

text \<open>Site \<open>s1\<close> is published on \<open>n1\<close>, which applied its configuration and is healthy.\<close>

definition live_publication :: site_publication where
  "live_publication = \<lparr>sp_Site = sample_site, sp_CertificateCiphertext = ''c'', sp_KeyCiphertext = ''k'',
     sp_CertificateNotAfter = None, sp_DNSTTLSeconds = 120, sp_PublishedAt = 5 * second\<rparr>"

definition old_drain :: site_node_drain where
  "old_drain = \<lparr>dr_ID = ''d1'', dr_SiteID = ''s1'', dr_NodeID = ''n2'', dr_Site = sample_site,
     dr_CertificateCiphertext = [], dr_KeyCiphertext = [], dr_CertificateNotAfter = None, dr_DNSTTLSeconds = 300,
     dr_DNSReadyAt = None, dr_RemoveAfter = None, dr_CleanupTaskID = None, dr_CreatedAt = 0, dr_UpdatedAt = 0\<rparr>"

definition live_store :: store where
  "live_store = empty_store\<lparr>nodes := [(sample_node ''n1'')\<lparr>nd_AppliedVersion := 3\<rparr>, (sample_node ''n2'')\<lparr>nd_AppliedVersion := 3\<rparr>],
     sites := [sample_site], publications := [live_publication],
     node_states := map (\<lambda>i. \<lparr>ns_NodeID = i, ns_State = \<lparr>ds_Version = 3, ds_NginxConfig = [], ds_PublicPorts = None,
        ds_CacheMaxBytes = 0\<rparr>, ns_Certificates = [], ns_UpdatedAt = 0\<rparr>) [''n1'', ''n2''],
     node_healths := [(fresh_node_health ''n1'')\<lparr>nh_DNSEligible := True\<rparr>], drains := [old_drain]\<rparr>"

definition live_manager :: "memory_dns health_manager" where
  "live_manager = \<lparr>hm_store = live_store, hm_dns = Map.empty, hm_noHealthyAlerts = Map.empty\<rparr>"

definition live_node :: node_row where "live_node = (sample_node ''n1'')\<lparr>nd_AppliedVersion := 3\<rparr>"

lemmas live_defs = live_publication_def old_drain_def live_store_def live_manager_def live_node_def sample_defs

lemma live_decision: "decide_site_dns live_store live_publication (nodes live_store) = Inr (Point [live_node] [])"
  by code_simp

definition live_run :: "memory_dns health_manager \<times> bool result" where
  "live_run = reconcileSiteDNSOutcomeForPublication MemoryDNS_Reconcile None None None live_manager live_publication
     (nodes live_store) (50 * second)"

lemma live_run_ok: "\<exists>m'. live_run = (m', Inr False)"
proof -
  have "case live_run of (m', r) \<Rightarrow> r = Inr False" by code_simp
  then show ?thesis by (auto split: prod.splits)
qed

subsection \<open>Unhealthy nodes do not empty DNS\<close>

lemma run_starts_drain_clocks: "start_clocks m p ttl now = (m', r) \<Longrightarrow> hm_dns m' = hm_dns m"
  by (auto simp: start_clocks_def markSiteNodeDrainsDNSReady_def split: if_splits sum.splits)

lemma clear_dns [simp]: "hm_dns (clearNoHealthyAlert m i) = hm_dns m" "hm_store (clearNoHealthyAlert m i) = hm_store m"
  by (simp_all add: clearNoHealthyAlert_def)

text \<open>The drains whose clock a run started, and everything a run can do.\<close>

definition clock_started :: "store \<Rightarrow> site_publication \<Rightarrow> int \<Rightarrow> time \<Rightarrow> site_node_drain \<Rightarrow> bool" where
  "clock_started s p ttl now d' \<longleftrightarrow> (\<exists>d \<in> set (drains s). dr_SiteID d = st_ID (sp_Site p) \<and> dr_DNSReadyAt d = None
     \<and> d' = d\<lparr>dr_DNSTTLSeconds := drainTTL s p ttl, dr_DNSReadyAt := Some now,
              dr_RemoveAfter := Some (removal_time now (drainTTL s p ttl) siteNodeDrainGrace), dr_UpdatedAt := now\<rparr>)"

lemma longest_ttl_ge: "cur \<le> longest_ttl cur ds"
  by (induction cur ds rule: longest_ttl.induct) (fastforce simp: Let_def split: option.splits if_splits)+

lemma longest_ttl_upper:
  "d \<in> set ds \<Longrightarrow> dr_DNSTTLSeconds d \<le> longest_ttl cur ds
     \<and> (\<forall>v. st_DNSTTLSeconds (dr_Site d) = Some v \<longrightarrow> v \<le> longest_ttl cur ds)"
proof (induction cur ds rule: longest_ttl.induct)
  case (2 cur e ds)
  define a where "a = (if dr_DNSTTLSeconds e > cur then dr_DNSTTLSeconds e else cur)"
  define b where "b = (case st_DNSTTLSeconds (dr_Site e) of Some v \<Rightarrow> if v > a then v else a | None \<Rightarrow> a)"
  have l: "longest_ttl cur (e # ds) = longest_ttl b ds"
    unfolding longest_ttl.simps Let_def a_def b_def ..
  have "dr_DNSTTLSeconds e \<le> b \<and> (\<forall>v. st_DNSTTLSeconds (dr_Site e) = Some v \<longrightarrow> v \<le> b)"
    by (auto simp: a_def b_def split: option.split)
  moreover have "d \<in> set ds \<Longrightarrow> ?case" using 2(1) [OF a_def b_def] unfolding l by blast
  ultimately show ?case using 2(2) longest_ttl_ge [of b ds] unfolding l by fastforce
qed simp

lemma longest_ttl_le:
  "cur \<le> B \<Longrightarrow> \<forall>d \<in> set ds. dr_DNSTTLSeconds d \<le> B \<and> (\<forall>v. st_DNSTTLSeconds (dr_Site d) = Some v \<longrightarrow> v \<le> B) \<Longrightarrow>
     longest_ttl cur ds \<le> B"
  by (induction cur ds rule: longest_ttl.induct) (auto simp: Let_def split: option.splits)

lemma drainTTL_ge: "ttl \<le> drainTTL s p ttl" "1 \<le> drainTTL s p ttl" "sp_DNSTTLSeconds p \<le> drainTTL s p ttl"
  "ttl < 1 \<Longrightarrow> DefaultDNSTTLSeconds \<le> drainTTL s p ttl"
  using longest_ttl_ge [of "if sp_DNSTTLSeconds p > (if ttl < 1 then DefaultDNSTTLSeconds else ttl) then sp_DNSTTLSeconds p
      else if ttl < 1 then DefaultDNSTTLSeconds else ttl" "ListSiteNodeDrainsForSite s (st_ID (sp_Site p))"]
  by (auto simp: drainTTL_def Let_def DefaultDNSTTLSeconds_def split: if_splits)

lemma in_ListSiteNodeDrainsForSite:
  "d \<in> set (ListSiteNodeDrainsForSite s i) \<longleftrightarrow> (\<exists>e \<in> set (drains s). dr_SiteID e = i \<and> d = read_drain e)"
  by (auto simp: ListSiteNodeDrainsForSite_def)

lemma read_drain_ttl: "dr_DNSTTLSeconds d \<le> dr_DNSTTLSeconds (read_drain d)" "dr_Site (read_drain d) = dr_Site d"
  "dr_DNSTTLSeconds d \<le> B \<Longrightarrow> 60 \<le> B \<Longrightarrow> dr_DNSTTLSeconds (read_drain d) \<le> B"
  by (auto simp: read_drain_def DefaultDNSTTLSeconds_def)

lemma drainTTL_covers:
  assumes "d \<in> set (drains s)" and "dr_SiteID d = st_ID (sp_Site p)"
  shows "dr_DNSTTLSeconds d \<le> drainTTL s p ttl \<and> (\<forall>v. st_DNSTTLSeconds (dr_Site d) = Some v \<longrightarrow> v \<le> drainTTL s p ttl)"
proof -
  have "read_drain d \<in> set (ListSiteNodeDrainsForSite s (st_ID (sp_Site p)))"
    using assms by (auto simp: in_ListSiteNodeDrainsForSite)
  moreover obtain cur where "drainTTL s p ttl = longest_ttl cur (ListSiteNodeDrainsForSite s (st_ID (sp_Site p)))"
    unfolding drainTTL_def Let_def by blast
  ultimately show ?thesis
    using longest_ttl_upper [of "read_drain d" "ListSiteNodeDrainsForSite s (st_ID (sp_Site p))" cur]
      read_drain_ttl(1) [of d] by (auto simp: read_drain_ttl(2) intro: order_trans)
qed

lemma effective_drainTTL: "snd (effective_ttls ttl (drainTTL s p ttl)) = drainTTL s p ttl"
  using drainTTL_ge(1) [of ttl s p] drainTTL_ge(2) [of s p ttl] drainTTL_ge(4) [of ttl s p]
  by (auto simp: effective_ttls_def Let_def)

lemma mark_effect:
  assumes "markSiteNodeDrainsDNSReady m p ttl now = Inr m2" and "d' \<in> set (drains (hm_store m2))"
  shows "d' \<in> set (drains (hm_store m)) \<or> clock_started (hm_store m) p ttl now d'"
proof (cases "is_zero_time (sp_PublishedAt p)")
  case True
  with assms show ?thesis by (simp add: markSiteNodeDrainsDNSReady_def)
next
  case False
  let ?s = "hm_store m" and ?T = "drainTTL (hm_store m) p ttl"
  obtain s' k b where r: "MarkSiteNodeDrainsDNSReadyForPublication ?s (st_ID (sp_Site p)) (sp_PublishedAt p) now ttl ?T
      siteNodeDrainGrace = Inr (s', k, b)" and m2: "m2 = m\<lparr>hm_store := s'\<rparr>"
    using assms(1) False by (auto simp: markSiteNodeDrainsDNSReady_def)
  have "drains s' = drains ?s \<or> drains s' = start_drains (st_ID (sp_Site p)) now ?T siteNodeDrainGrace (drains ?s)"
    using r effective_drainTTL [of ttl ?s p]
    by (auto simp: MarkSiteNodeDrainsDNSReadyForPublication_def Let_def split: prod.splits if_splits)
  moreover have "d' \<in> set (drains s')" using assms(2) by (simp add: m2)
  ultimately consider "d' \<in> set (drains ?s)"
    | "d' \<in> set (start_drains (st_ID (sp_Site p)) now ?T siteNodeDrainGrace (drains ?s))" by auto
  then show ?thesis
  proof cases
    case 2
    then obtain d where "d \<in> set (drains ?s)" "d' = (if dr_SiteID d = st_ID (sp_Site p) \<and> dr_DNSReadyAt d = None
        then d\<lparr>dr_DNSTTLSeconds := ?T, dr_DNSReadyAt := Some now,
              dr_RemoveAfter := Some (removal_time now ?T siteNodeDrainGrace), dr_UpdatedAt := now\<rparr> else d)"
      unfolding start_drains_def set_update_rows by blast
    then show ?thesis unfolding clock_started_def by (auto split: if_splits)
  qed blast
qed

lemma start_clocks_effect:
  assumes "start_clocks m p ttl now = (m', r)"
  shows "hm_dns m' = hm_dns m
    \<and> (\<forall>d' \<in> set (drains (hm_store m')). d' \<in> set (drains (hm_store m)) \<or> clock_started (hm_store m) p ttl now d')"
  using assms mark_effect [of m p ttl now m'] run_starts_drain_clocks [OF assms]
  by (auto simp: start_clocks_def split: sum.splits)

definition wrote :: "'d provider \<Rightarrow> int option \<Rightarrow> 'd health_manager \<Rightarrow> site_publication \<Rightarrow> time \<Rightarrow> dns_record list
    \<Rightarrow> 'd health_manager \<Rightarrow> bool" where
  "wrote reconcile dflt m p now desired m' \<longleftrightarrow> (\<exists>q.
     reconcile (hm_dns m) (st_ZoneID (sp_Site p)) (site_owner (st_ID (sp_Site p))) desired = (hm_dns m', q)
     \<and> (\<forall>d' \<in> set (drains (hm_store m')). d' \<in> set (drains (hm_store m))
          \<or> q = Inr () \<and> clock_started (hm_store m) p (dnsTTL dflt (sp_Site p)) now d'))"

lemma clearSiteDNS_effect:
  assumes "clearSiteDNS reconcile dflt c m (sp_Site p) (if is_zero_time (sp_PublishedAt p) then None else Some p) now = (m', r)"
  shows "hm_dns m' = hm_dns m \<and> hm_store m' = hm_store m \<or> wrote reconcile dflt m p now [] m'"
proof -
  obtain d' q where rec: "reconcile (hm_dns m) (st_ZoneID (sp_Site p)) (site_owner (st_ID (sp_Site p))) [] = (d', q)"
    by (metis surj_pair)
  from assms show ?thesis
    by (auto simp: clearSiteDNS_def wrote_def rec split: option.splits sum.splits if_splits prod.splits dest!: start_clocks_effect)
qed

lemma reconcile_effect:
  assumes "reconcileSiteDNSOutcomeForPublication reconcile dflt c0 c1 m p ns now = (m', r)"
  shows "hm_dns m' = hm_dns m \<and> hm_store m' = hm_store m
    \<or> decide_site_dns (hm_store m) p ns = Inr ClearRecords \<and> wrote reconcile dflt m p now [] m'
    \<or> (\<exists>v4 v6. decide_site_dns (hm_store m) p ns = Inr (Point v4 v6)
          \<and> wrote reconcile dflt m p now (desired_records (sp_Site p) (dnsTTL dflt (sp_Site p)) v4 v6) m')"
proof (cases "decide_site_dns (hm_store m) p ns")
  case (Inl e)
  with assms show ?thesis by (auto simp: reconcileSiteDNSOutcomeForPublication_def Let_def split: option.splits)
next
  case (Inr dec)
  show ?thesis
  proof (cases dec)
    case ClearRecords
    obtain m1 r1 where c: "clearSiteDNS reconcile dflt c1 m (sp_Site p)
        (if is_zero_time (sp_PublishedAt p) then None else Some p) now = (m1, r1)" by (metis surj_pair)
    have "hm_dns m' = hm_dns m \<and> hm_store m' = hm_store m \<or> hm_dns m' = hm_dns m1 \<and> hm_store m' = hm_store m1"
      using assms Inr ClearRecords c
      by (auto simp: reconcileSiteDNSOutcomeForPublication_def Let_def split: option.splits sum.splits)
    with clearSiteDNS_effect [OF c] Inr ClearRecords show ?thesis by (auto simp: wrote_def)
  next
    case (Point v4 v6)
    let ?m1 = "clearNoHealthyAlert m (st_ID (sp_Site p))"
    obtain d' q where rec: "reconcile (hm_dns m) (st_ZoneID (sp_Site p)) (site_owner (st_ID (sp_Site p)))
        (desired_records (sp_Site p) (dnsTTL dflt (sp_Site p)) v4 v6) = (d', q)" by (metis surj_pair)
    have "hm_dns m' = hm_dns m \<and> hm_store m' = hm_store m
      \<or> wrote reconcile dflt m p now (desired_records (sp_Site p) (dnsTTL dflt (sp_Site p)) v4 v6) m'"
      using assms Inr Point rec
      by (auto simp: reconcileSiteDNSOutcomeForPublication_def Let_def wrote_def
          split: option.splits sum.splits prod.splits dest!: start_clocks_effect)
    with Inr Point show ?thesis by blast
  qed (use assms Inr in \<open>auto simp: reconcileSiteDNSOutcomeForPublication_def Let_def split: option.splits\<close>)
qed

text \<open>
  C10: whatever the provider does, a run for a site with an active assigned node either leaves the
  provider alone or asks it to point the site at a non-empty set of nodes, which are exactly the ready
  primary nodes, or, only if there are none, the ready backup nodes; and it asks only when no
  publication and no drain of the site is converging. In particular it never empties DNS, and it does
  nothing when none of the nodes is ready.
\<close>

theorem unhealthy_nodes_do_not_empty_dns:
  assumes "reconcileSiteDNSOutcomeForPublication reconcile dflt c0 c1 m p ns now = (m', r)"
    and "i \<in> set (AssignedNodeIDs (sp_Site p))" and "active_in ns i"
  shows "hm_dns m' = hm_dns m \<or>
    (\<exists>v6. chosen_nodes (hm_store m) (sp_Site p) ns \<noteq> [] \<and> settled_site (hm_store m) p
       \<and> hm_dns m' = fst (reconcile (hm_dns m) (st_ZoneID (sp_Site p)) (site_owner (st_ID (sp_Site p)))
            (desired_records (sp_Site p) (dnsTTL dflt (sp_Site p)) (chosen_nodes (hm_store m) (sp_Site p) ns) v6)))"
  using reconcile_effect [OF assms(1)]
proof (elim disjE exE conjE)
  assume "decide_site_dns (hm_store m) p ns = Inr ClearRecords"
  from decide_site_dns_cases [OF this] assms(2,3) show ?thesis by blast
next
  fix v4 v6
  assume d: "decide_site_dns (hm_store m) p ns = Inr (Point v4 v6)"
    and w: "wrote reconcile dflt m p now (desired_records (sp_Site p) (dnsTTL dflt (sp_Site p)) v4 v6) m'"
  from decide_site_dns_cases [OF d] have "settled_site (hm_store m) p" "v4 \<noteq> []"
    "v4 = chosen_nodes (hm_store m) (sp_Site p) ns" by blast+
  with w show ?thesis unfolding wrote_def by (metis fst_conv)
qed blast

lemma unhealthy_nodes_do_not_empty_dns_witness:
  "\<exists>m'. reconcileSiteDNSOutcomeForPublication MemoryDNS_Reconcile None None None
      (live_manager\<lparr>hm_store := live_store\<lparr>node_healths := []\<rparr>\<rparr>) live_publication (nodes live_store) 9 = (m', Inr True)
    \<and> hm_dns m' = Map.empty"
proof -
  let ?m = "live_manager\<lparr>hm_store := live_store\<lparr>node_healths := []\<rparr>\<rparr>"
  let ?run = "reconcileSiteDNSOutcomeForPublication MemoryDNS_Reconcile None None None ?m live_publication (nodes live_store) 9"
  have "case ?run of (m', r) \<Rightarrow> r = Inr True" by code_simp
  then obtain m' where run: "?run = (m', Inr True)" by (auto split: prod.splits)
  have "''n1'' \<in> set (AssignedNodeIDs (sp_Site live_publication))" "active_in (nodes live_store) ''n1''"
    by (simp_all add: live_defs AssignedNodeIDs_def active_in_def)
  from unhealthy_nodes_do_not_empty_dns [OF run this]
  have "hm_dns m' = hm_dns ?m \<or> chosen_nodes (hm_store ?m) (sp_Site live_publication) (nodes live_store) \<noteq> []" by blast
  moreover have "chosen_nodes (hm_store ?m) (sp_Site live_publication) (nodes live_store) = []" by code_simp
  ultimately have "hm_dns m' = Map.empty" by (simp add: live_manager_def)
  with run show ?thesis by blast
qed

subsection \<open>Drains outlive the answers that name their node\<close>

text \<open>
  C11: a run starts the clock of a drain only after the provider accepted the new records, and only for
  drains of the site; the removal time lies after the DNS lifetime of the new answer, of the published
  answer and of every other drain of the site, so that even the text comparison of \<open>remove_after\<close>,
  which may be early by a second, finds the drain due only when all those answers have run out
  (lifetimes below 2^30 seconds, which rules out overflow of the 64-bit duration; the settings allow at
  most 300).
\<close>

theorem drains_outlive_dns_answers:
  assumes "reconcileSiteDNSOutcomeForPublication reconcile dflt c0 c1 m p ns now = (m', r)"
    and "d' \<in> set (drains (hm_store m'))" and "d' \<notin> set (drains (hm_store m))"
    and "drainTTL (hm_store m) p (dnsTTL dflt (sp_Site p)) < 2 ^ 30"
  shows "(\<exists>desired. snd (reconcile (hm_dns m) (st_ZoneID (sp_Site p)) (site_owner (st_ID (sp_Site p))) desired) = Inr ())
    \<and> dr_SiteID d' = st_ID (sp_Site p) \<and> dr_DNSReadyAt d' = Some now
    \<and> (due_drain at d' \<longrightarrow> now + dnsTTL dflt (sp_Site p) * second < at \<and> now + sp_DNSTTLSeconds p * second < at
         \<and> (\<forall>d \<in> set (drains (hm_store m)). dr_SiteID d = st_ID (sp_Site p) \<longrightarrow> now + dr_DNSTTLSeconds d * second < at))"
proof -
  let ?T = "drainTTL (hm_store m) p (dnsTTL dflt (sp_Site p))"
  obtain desired where "wrote reconcile dflt m p now desired m'"
    using reconcile_effect [OF assms(1)] assms(2,3) by metis
  then have ok: "snd (reconcile (hm_dns m) (st_ZoneID (sp_Site p)) (site_owner (st_ID (sp_Site p))) desired) = Inr ()"
    and cl: "clock_started (hm_store m) p (dnsTTL dflt (sp_Site p)) now d'"
    using assms(2,3) unfolding wrote_def by auto
  have T: "1 \<le> ?T" by (rule drainTTL_ge)
  have "removal_time now ?T siteNodeDrainGrace = now + ?T * second + 300 * second"
    using T assms(4) by (simp add: removal_time_def wrap64_def second_def siteNodeDrainGrace_def minute_def)
  with cl have d': "dr_SiteID d' = st_ID (sp_Site p)" "dr_DNSReadyAt d' = Some now"
    "dr_RemoveAfter d' = Some (now + ?T * second + 300 * second)" by (auto simp: clock_started_def)
  have due: "now + x * second < at" if "due_drain at d'" and "x \<le> ?T" for x
  proof -
    from that(1) d'(3) have "text_le (now + ?T * second + 300 * second) at" by (simp add: due_drain_def)
    then have "now + ?T * second + 300 * second < at + second" by (rule text_le_imp_near)
    with that(2) show ?thesis by (simp add: second_def)
  qed
  have "\<forall>d \<in> set (drains (hm_store m)). dr_SiteID d = st_ID (sp_Site p) \<longrightarrow> dr_DNSTTLSeconds d \<le> ?T"
    using drainTTL_covers by blast
  moreover have "dnsTTL dflt (sp_Site p) \<le> ?T" "sp_DNSTTLSeconds p \<le> ?T" by (rule drainTTL_ge)+
  ultimately show ?thesis using ok d'(1,2) due by blast
qed

lemma drains_outlive_dns_answers_witness:
  "\<exists>m' d'. live_run = (m', Inr False) \<and> d' \<in> set (drains (hm_store m')) \<and> dr_DNSReadyAt d' = Some (50 * second)
     \<and> \<not> due_drain (350 * second) d'"
proof -
  obtain m' where run: "live_run = (m', Inr False)" using live_run_ok by blast
  have c: "case live_run of (m', r) \<Rightarrow> map (\<lambda>d. (dr_NodeID d, dr_DNSReadyAt d \<noteq> None)) (drains (hm_store m')) = [(''n2'', True)]"
    by code_simp
  from c [unfolded run prod.case]
  obtain d' where d': "drains (hm_store m') = [d']" "dr_DNSReadyAt d' \<noteq> None"
    by (cases "drains (hm_store m')") auto
  have new: "d' \<notin> set (drains (hm_store live_manager))" using d'(2) by (auto simp: live_defs)
  have ttl: "drainTTL (hm_store live_manager) live_publication (dnsTTL None (sp_Site live_publication)) < 2 ^ 30" by code_simp
  have in_m': "d' \<in> set (drains (hm_store m'))" by (simp add: d')
  have old: "old_drain \<in> set (drains (hm_store live_manager))" "dr_SiteID old_drain = st_ID (sp_Site live_publication)"
    "dr_DNSTTLSeconds old_drain = 300" by (simp_all add: live_defs)
  note late = drains_outlive_dns_answers [OF run [unfolded live_run_def] in_m' new ttl, of "350 * second"]
  with old have "\<not> due_drain (350 * second) d'" by (force simp: second_def)
  with run in_m' late show ?thesis by blast
qed

subsection \<open>What visitors are told\<close>

lemma desired_A_records:
  assumes "d \<in> set (st_Domains x)"
  shows "{rec_Content r |r. r \<in> set (desired_records x ttl v4 v6) \<and> rec_Type r = ''A'' \<and> rec_Name r = d} = nd_PublicIPv4 ` set v4"
proof (intro equalityI subsetI)
  fix a assume "a \<in> nd_PublicIPv4 ` set v4"
  then obtain n where n: "n \<in> set v4" "a = nd_PublicIPv4 n" by blast
  let ?r = "\<lparr>rec_ID = [], rec_Type = ''A'', rec_Name = d, rec_Content = nd_PublicIPv4 n,
        rec_Comment = site_node_comment (st_ID x) (nd_ID n), rec_TTL = ttl, rec_Proxied = False\<rparr>"
  have "?r \<in> set (desired_records x ttl v4 v6)" using n(1) assms by (auto simp: desired_records_def)
  then show "a \<in> {rec_Content r |r. r \<in> set (desired_records x ttl v4 v6) \<and> rec_Type r = ''A'' \<and> rec_Name r = d}"
    using n(2) by (intro CollectI exI [of _ ?r]) simp
qed (auto simp: desired_records_def)

lemma desired_AAAA_records:
  assumes "d \<in> set (st_Domains x)"
  shows "{rec_Content r |r. r \<in> set (desired_records x ttl v4 v6) \<and> rec_Type r = ''AAAA'' \<and> rec_Name r = d}
    = nd_PublicIPv6 ` set v6"
proof (intro equalityI subsetI)
  fix a assume "a \<in> nd_PublicIPv6 ` set v6"
  then obtain n where n: "n \<in> set v6" "a = nd_PublicIPv6 n" by blast
  let ?r = "\<lparr>rec_ID = [], rec_Type = ''AAAA'', rec_Name = d, rec_Content = nd_PublicIPv6 n,
        rec_Comment = site_node_comment (st_ID x) (nd_ID n), rec_TTL = ttl, rec_Proxied = False\<rparr>"
  have "?r \<in> set (desired_records x ttl v4 v6)" using n(1) assms by (auto simp: desired_records_def)
  then show "a \<in> {rec_Content r |r. r \<in> set (desired_records x ttl v4 v6) \<and> rec_Type r = ''AAAA'' \<and> rec_Name r = d}"
    using n(2) by (intro CollectI exI [of _ ?r]) simp
qed (auto simp: desired_records_def)

text \<open>The addresses that the records a site owns in a zone give to a domain name, by type of record.\<close>

definition addresses :: "dns_record list \<Rightarrow> site \<Rightarrow> string \<Rightarrow> string \<Rightarrow> string set" where
  "addresses rs x type d = rec_Content ` {r \<in> set rs. owned (site_owner (st_ID x)) r \<and> rec_Type r = type \<and> rec_Name r = d}"

lemma addresses_exact:
  assumes "{r \<in> set rs. owned (site_owner (st_ID x)) r} = set ds"
  shows "addresses rs x type d = {rec_Content r |r. r \<in> set ds \<and> rec_Type r = type \<and> rec_Name r = d}"
  unfolding addresses_def using assms by blast

text \<open>
  C26: what a successful run over the provider in memory leaves, for every decision. When it waits for a
  convergence or finds every node unhealthy, DNS is as it was; when the site has no active node it owns no
  record; and when it found ready nodes, the IPv4 addresses that each domain name of the site has, among
  the records the site owns, are exactly those of the chosen nodes, and the IPv6 addresses exactly those of
  its ready IPv6 nodes.
\<close>

theorem memory_dns_serves_the_chosen_nodes:
  assumes "reconcileSiteDNSOutcomeForPublication MemoryDNS_Reconcile dflt c0 c1 m p ns now = (m', Inr b)"
  shows "case decide_site_dns (hm_store m) p ns of
      Inl e \<Rightarrow> False
    | Inr Wait \<Rightarrow> hm_dns m' = hm_dns m
    | Inr KeepUnhealthy \<Rightarrow> hm_dns m' = hm_dns m
    | Inr ClearRecords \<Rightarrow>
        \<not> list_ex (owned (site_owner (st_ID (sp_Site p)))) (zone_records (hm_dns m') (st_ZoneID (sp_Site p)))
    | Inr (Point v4 v6) \<Rightarrow> list_all (\<lambda>d.
          addresses (zone_records (hm_dns m') (st_ZoneID (sp_Site p))) (sp_Site p) ''A'' d
            = nd_PublicIPv4 ` set (chosen_nodes (hm_store m) (sp_Site p) ns)
        \<and> addresses (zone_records (hm_dns m') (st_ZoneID (sp_Site p))) (sp_Site p) ''AAAA'' d = nd_PublicIPv6 ` set v6)
        (st_Domains (sp_Site p))"
proof (cases "decide_site_dns (hm_store m) p ns")
  case (Inl e)
  with assms show ?thesis by (auto simp: reconcileSiteDNSOutcomeForPublication_def Let_def split: option.splits)
next
  case dec: (Inr decision)
  show ?thesis
  proof (cases decision)
    case Wait
    with assms dec show ?thesis by (auto simp: reconcileSiteDNSOutcomeForPublication_def Let_def split: option.splits)
  next
    case KeepUnhealthy
    with assms dec show ?thesis by (auto simp: reconcileSiteDNSOutcomeForPublication_def Let_def split: option.splits)
  next
    case ClearRecords
    with memory.clear_exact [OF assms] dec show ?thesis by (auto simp: list_ex_iff)
  next
    case (Point v4 v6)
    note exact = addresses_exact [OF memory.point_exact [OF assms dec [unfolded Point]]]
    have "v4 = chosen_nodes (hm_store m) (sp_Site p) ns" using decide_site_dns_cases [OF dec [unfolded Point]] by simp
    then show ?thesis
      using dec Point by (simp add: exact desired_A_records desired_AAAA_records list_all_iff)
  qed
qed

lemma memory_dns_serves_the_chosen_nodes_witness:
  "\<exists>m'. live_run = (m', Inr False)
     \<and> addresses (zone_records (hm_dns m') (st_ZoneID (sp_Site live_publication))) (sp_Site live_publication) ''A'' ''a.example''
       = {''192.0.2.1''}"
proof -
  obtain m' where run: "live_run = (m', Inr False)" using live_run_ok by blast
  have dec: "decide_site_dns (hm_store live_manager) live_publication (nodes live_store) = Inr (Point [live_node] [])"
    using live_decision by (simp add: live_manager_def)
  have "chosen_nodes (hm_store live_manager) (sp_Site live_publication) (nodes live_store) = [live_node]"
    using decide_site_dns_cases [OF dec] by simp
  moreover have "''a.example'' \<in> set (st_Domains (sp_Site live_publication))" by (simp add: live_defs)
  moreover have "nd_PublicIPv4 ` set [live_node] = {''192.0.2.1''}" by (simp add: live_defs)
  ultimately show ?thesis
    using memory_dns_serves_the_chosen_nodes [OF run [unfolded live_run_def]] run unfolding dec by (auto simp: list_all_iff)
qed

end
