(* ===== verification/Upgrades.thy ===== *)
theory Upgrades
  imports Publish_Tasks Go_Strings
begin

section \<open>Online upgrades of a node (internal/store/upgrade.go)\<close>

text \<open>
  An upgrade task asks one edge node to install a new agent and, when it can, a new Nginx bundle. The
  node fetches the instruction, reports that it is applying it and finally that it succeeded or failed;
  a task past its deadline fails. A node whose updater was interrupted may still have installed the
  target: then its heartbeat, which reports the digest of the running agent, repairs the task.
\<close>

subsection \<open>Reading\<close>

definition scan_task :: "upgrade_row \<Rightarrow> node_upgrade_task" where
  "scan_task t = node_upgrade_task.truncate t"

definition NodeUpgradeTask :: "store \<Rightarrow> string \<Rightarrow> node_upgrade_task result" where
  "NodeUpgradeTask s taskID =
     (case find_row (\<lambda>t. nu_ID t = taskID) (upgrade_tasks s) of None \<Rightarrow> Inl ErrNotFound | Some t \<Rightarrow> Inr (scan_task t))"

definition upgrades_of :: "store \<Rightarrow> string \<Rightarrow> upgrade_row list" where
  "upgrades_of s nodeID = filter (\<lambda>t. nu_NodeID t = nodeID) (upgrade_tasks s)"

definition active_upgrades_of :: "store \<Rightarrow> string \<Rightarrow> upgrade_row list" where
  "active_upgrades_of s nodeID = filter (\<lambda>t. active_upgrade_status (nu_Status t)) (upgrades_of s nodeID)"

definition LatestNodeUpgrade :: "store \<Rightarrow> string \<Rightarrow> node_upgrade_task result" where
  "LatestNodeUpgrade s nodeID =
     (case latest nu_CreatedAt (upgrades_of s nodeID) of None \<Rightarrow> Inl ErrNotFound | Some t \<Rightarrow> Inr (scan_task t))"

definition newer_upgrade :: "store \<Rightarrow> upgrade_row \<Rightarrow> bool" where
  "newer_upgrade s t \<longleftrightarrow> list_ex (\<lambda>n. text_less (nu_CreatedAt t) (nu_CreatedAt n)) (upgrades_of s (nu_NodeID t))"

text \<open>The map from nodes to their latest task; tasks of a node that tie are in no particular order.\<close>

definition ListLatestNodeUpgrades :: "store \<Rightarrow> string \<rightharpoonup> node_upgrade_task" where
  "ListLatestNodeUpgrades s =
     map_of (map (\<lambda>t. (nu_NodeID t, scan_task t)) (filter (\<lambda>t. \<not> newer_upgrade s t) (upgrade_tasks s)))"

definition EnsureNodesNotUpgrading :: "store \<Rightarrow> string list \<Rightarrow> unit result" where
  "EnsureNodesNotUpgrading s nodeIDs =
     (case find_row (HasActiveNodeUpgrade s) (filter (\<lambda>n. n \<noteq> []) (dedup {} nodeIDs)) of
        Some n \<Rightarrow> Inl (Errorf ''node %s: %w'' [ArgS n, ArgE ErrNodeUpgradeActive])
      | None \<Rightarrow> Inr ())"

definition reserved_by_other :: "store \<Rightarrow> string \<Rightarrow> string \<Rightarrow> bool" where
  "reserved_by_other s rolloutID nodeID \<longleftrightarrow>
     list_ex (\<lambda>r. (ro_State (rr_Rollout r) = RolloutRunning \<or> ro_State (rr_Rollout r) = RolloutPaused)
         \<and> ro_ID (rr_Rollout r) \<noteq> rolloutID \<and> list_ex (\<lambda>m. rm_NodeID m = nodeID) (ro_Members (rr_Rollout r)))
       (rollouts s)"

definition NodeReservedByUpgradeRollout :: "store \<Rightarrow> string \<Rightarrow> bool" where
  "NodeReservedByUpgradeRollout s nodeID \<longleftrightarrow>
     list_ex (\<lambda>r. (ro_State (rr_Rollout r) = RolloutRunning \<or> ro_State (rr_Rollout r) = RolloutPaused)
         \<and> list_ex (\<lambda>m. rm_NodeID m = nodeID) (ro_Members (rr_Rollout r)))
       (rollouts s)"

subsection \<open>Starting an upgrade\<close>

definition new_upgrade :: "string \<Rightarrow> node_row \<Rightarrow> node_upgrade_instruction \<Rightarrow> time \<Rightarrow> time \<Rightarrow> upgrade_row" where
  "new_upgrade i node instruction deadline now =
     \<lparr>nu_ID = i, nu_NodeID = nd_ID node, nu_Status = NodeUpgradeQueued, nu_SourceSHA256 = nd_AgentSHA256 node,
      nu_TargetSHA256 = ua_SHA256 (ui_Binary instruction), nu_SourceNginxSHA256 = nd_NginxSHA256 node,
      nu_TargetNginxSHA256 = (case ui_NginxBundle instruction of None \<Rightarrow> [] | Some b \<Rightarrow> ua_SHA256 b),
      nu_ErrorCode = [], nu_Detail = ''waiting for edge to download upgrade artifacts'',
      nu_DeadlineAt = deadline, nu_StartedAt = None, nu_CompletedAt = None, nu_CreatedAt = now, nu_UpdatedAt = now,
      nu_Instruction = instruction\<rparr>"

definition createOrGetNodeUpgradeTx :: "store \<Rightarrow> string \<Rightarrow> node_upgrade_instruction \<Rightarrow> time \<Rightarrow> string \<Rightarrow> string
    \<Rightarrow> time \<Rightarrow> (store \<times> node_upgrade_task \<times> bool) result" where
  "createOrGetNodeUpgradeTx s nodeID instruction deadline rolloutID fresh now =
     (if reserved_by_other s rolloutID nodeID then Inl ErrUpgradeRolloutActive
      else case latest nu_CreatedAt (active_upgrades_of s nodeID) of
        Some t \<Rightarrow> Inr (s, scan_task t, False)
      | None \<Rightarrow>
        case find_node s nodeID of None \<Rightarrow> Inl ErrNotFound | Some node \<Rightarrow>
        if nd_ActiveUpgradeID node \<noteq> [] then Inl ErrUpgradeRetryNotReady
        else if nd_Status node \<noteq> NodeActive \<and> nd_Status node \<noteq> NodeDraining
          then Inl (err ''only active or paused nodes can be upgraded online'')
        else if active_uninstall s nodeID \<or> HasActiveNodePublication s nodeID then Inl ErrNodeOperationActive
        else if list_ex (\<lambda>t. nu_ID t = fresh) (upgrade_tasks s) then Inl constraint_error
        else
          (let t = new_upgrade fresh node instruction deadline now
           in Inr (s\<lparr>upgrade_tasks := upgrade_tasks s @ [t]\<rparr>, scan_task t, True)))"

definition CreateOrGetNodeUpgrade :: "store \<Rightarrow> string \<Rightarrow> node_upgrade_instruction \<Rightarrow> time \<Rightarrow> string \<Rightarrow> time
    \<Rightarrow> (store \<times> node_upgrade_task \<times> bool) result" where
  "CreateOrGetNodeUpgrade s nodeID instruction deadline fresh now =
     (if TrimSpace nodeID = [] \<or> TrimSpace (ua_SHA256 (ui_Binary instruction)) = [] \<or> \<not> deadline > now
      then Inl (err ''invalid node upgrade request'')
      else createOrGetNodeUpgradeTx s nodeID instruction deadline [] fresh now)"

subsection \<open>Progress and results\<close>

definition recoveredUpgradeDetail :: string where
  "recoveredUpgradeDetail = ''edge heartbeat confirmed the target artifact after the updater result was missed''"

text \<open>\<open>lower\<close> of SQLite folds the letters of ASCII only.\<close>

definition sql_lower :: "string \<Rightarrow> string" where
  "sql_lower t = map lower_byte t"

definition begin_upgrade :: "string \<Rightarrow> time \<Rightarrow> upgrade_row \<Rightarrow> upgrade_row" where
  "begin_upgrade detail now t = t\<lparr>nu_Status := NodeUpgradeApplying, nu_ErrorCode := [], nu_Detail := detail,
     nu_StartedAt := Some (case nu_StartedAt t of None \<Rightarrow> now | Some x \<Rightarrow> x), nu_UpdatedAt := now\<rparr>"

definition finish_upgrade :: "node_upgrade_status \<Rightarrow> string \<Rightarrow> string \<Rightarrow> time \<Rightarrow> upgrade_row \<Rightarrow> upgrade_row" where
  "finish_upgrade status code detail now t = t\<lparr>nu_Status := status, nu_ErrorCode := code, nu_Detail := detail,
     nu_StartedAt := Some (case nu_StartedAt t of None \<Rightarrow> now | Some x \<Rightarrow> x),
     nu_CompletedAt := Some now, nu_UpdatedAt := now\<rparr>"

definition close_upgrade :: "node_upgrade_status \<Rightarrow> string \<Rightarrow> string \<Rightarrow> time \<Rightarrow> upgrade_row \<Rightarrow> upgrade_row" where
  "close_upgrade status code detail now t = t\<lparr>nu_Status := status, nu_ErrorCode := code, nu_Detail := detail,
     nu_CompletedAt := Some now, nu_UpdatedAt := now\<rparr>"

text \<open>The artifact that is installed, according to a report or to the row of the node.\<close>

definition digests_match :: "string \<Rightarrow> string \<Rightarrow> upgrade_row \<Rightarrow> bool" where
  "digests_match agent nginx t \<longleftrightarrow> EqualFold (TrimSpace agent) (nu_TargetSHA256 t)
     \<and> (nu_TargetNginxSHA256 t = [] \<or> EqualFold (TrimSpace nginx) (nu_TargetNginxSHA256 t))"

definition installed_digests :: "store \<Rightarrow> string \<Rightarrow> node_upgrade_report \<Rightarrow> (string \<times> string) result" where
  "installed_digests s nodeID report =
     (if ur_ErrorCode report = ''updater_interrupted''
      then (case find_node s nodeID of None \<Rightarrow> Inl ErrNoRows | Some n \<Rightarrow> Inr (nd_AgentSHA256 n, nd_NginxSHA256 n))
      else Inr ([], []))"

text \<open>What a report does to the row it is about; \<open>None\<close> when it changes nothing.\<close>

definition apply_report_to :: "store \<Rightarrow> string \<Rightarrow> node_upgrade_report \<Rightarrow> time \<Rightarrow> upgrade_row \<Rightarrow> upgrade_row option result" where
  "apply_report_to s nodeID report now t =
     (case ur_Status report of
        Some NodeUpgradeApplying \<Rightarrow>
          Inr (if active_upgrade_status (nu_Status t) then Some (begin_upgrade (ur_Detail report) now t) else None)
      | Some NodeUpgradeSucceeded \<Rightarrow>
          if \<not> EqualFold (TrimSpace (ur_InstalledSHA256 report)) (nu_TargetSHA256 t)
            then Inl (err ''installed edge digest does not match upgrade target'')
          else if nu_TargetNginxSHA256 t \<noteq> [] \<and> \<not> EqualFold (TrimSpace (ur_InstalledNginxSHA256 report)) (nu_TargetNginxSHA256 t)
            then Inl (err ''installed Nginx digest does not match upgrade target'')
          else Inr (Some (finish_upgrade NodeUpgradeSucceeded [] (ur_Detail report) now t))
      | Some NodeUpgradeFailed \<Rightarrow>
          if nu_Status t = NodeUpgradeSucceeded then Inr None
          else (case installed_digests s nodeID report of Inl e \<Rightarrow> Inl e | Inr (agent, nginx) \<Rightarrow>
            Inr (Some (if digests_match agent nginx t
              then finish_upgrade NodeUpgradeSucceeded [] recoveredUpgradeDetail now t
              else finish_upgrade NodeUpgradeFailed (ur_ErrorCode report) (ur_Detail report) now t)))
      | _ \<Rightarrow> Inl (err ''invalid node upgrade report status''))"

definition RecordNodeUpgradeReport :: "store \<Rightarrow> string \<Rightarrow> node_upgrade_report \<Rightarrow> time
    \<Rightarrow> (store \<times> node_upgrade_task) result" where
  "RecordNodeUpgradeReport s nodeID report now =
     (case find_row (\<lambda>t. nu_ID t = ur_TaskID report) (upgrades_of s nodeID) of None \<Rightarrow> Inl ErrNotFound | Some t \<Rightarrow>
      case latest nu_CreatedAt (upgrades_of s nodeID) of None \<Rightarrow> Inl ErrNoRows | Some l \<Rightarrow>
      if nu_ID l \<noteq> nu_ID t then Inl (err ''upgrade report does not belong to the latest node task'')
      else case apply_report_to s nodeID report now t of
        Inl e \<Rightarrow> Inl e
      | Inr None \<Rightarrow> Inr (s, scan_task t)
      | Inr (Some t') \<Rightarrow>
          Inr (s\<lparr>upgrade_tasks := update_rows (\<lambda>x. nu_ID x = nu_ID t) (\<lambda>_. t') (upgrade_tasks s)\<rparr>, scan_task t'))"

definition overdue :: "time \<Rightarrow> upgrade_row \<Rightarrow> bool" where
  "overdue now t \<longleftrightarrow> active_upgrade_status (nu_Status t) \<and> text_le (nu_DeadlineAt t) now"

definition time_out_upgrades :: "store \<Rightarrow> time \<Rightarrow> store" where
  "time_out_upgrades s now = s\<lparr>upgrade_tasks := update_rows (overdue now)
     (close_upgrade NodeUpgradeFailed ''upgrade_timeout''
        ''edge did not complete the online upgrade before the deadline'' now) (upgrade_tasks s)\<rparr>"

definition node_runs_target :: "store \<Rightarrow> upgrade_row \<Rightarrow> bool" where
  "node_runs_target s t \<longleftrightarrow> list_ex (\<lambda>n. nd_ID n = nu_NodeID t
     \<and> sql_lower (nd_AgentSHA256 n) = sql_lower (nu_TargetSHA256 t)
     \<and> (nu_TargetNginxSHA256 t = [] \<or> sql_lower (nd_NginxSHA256 n) = sql_lower (nu_TargetNginxSHA256 t))
     \<and> nd_ActiveUpgradeID n = []) (nodes s)"

definition recoverable :: "store \<Rightarrow> upgrade_row \<Rightarrow> bool" where
  "recoverable s t \<longleftrightarrow> nu_Status t = NodeUpgradeFailed \<and> nu_ErrorCode t = ''updater_interrupted''
     \<and> \<not> newer_upgrade s t \<and> node_runs_target s t"

definition recover_upgrades :: "store \<Rightarrow> time \<Rightarrow> store" where
  "recover_upgrades s now = s\<lparr>upgrade_tasks := update_rows (recoverable s)
     (close_upgrade NodeUpgradeSucceeded [] recoveredUpgradeDetail now) (upgrade_tasks s)\<rparr>"

definition ReconcileNodeUpgrades :: "store \<Rightarrow> time \<Rightarrow> store" where
  "ReconcileNodeUpgrades s now = recover_upgrades (time_out_upgrades s now) now"

definition FailActiveNodeUpgrade :: "store \<Rightarrow> string \<Rightarrow> string \<Rightarrow> string \<Rightarrow> time \<Rightarrow> store" where
  "FailActiveNodeUpgrade s nodeID code detail now = s\<lparr>upgrade_tasks :=
     update_rows (\<lambda>t. nu_NodeID t = nodeID \<and> active_upgrade_status (nu_Status t))
       (close_upgrade NodeUpgradeFailed code detail now) (upgrade_tasks s)\<rparr>"

text \<open>What the edge asks for. An artifact whose two columns are empty reads as absent.\<close>

definition stored_artifact :: "upgrade_artifact option \<Rightarrow> upgrade_artifact option" where
  "stored_artifact a = (case a of None \<Rightarrow> None
     | Some x \<Rightarrow> if ua_URL x \<noteq> [] \<or> ua_SHA256 x \<noteq> [] then Some x else None)"

definition stored_instruction :: "upgrade_row \<Rightarrow> node_upgrade_instruction" where
  "stored_instruction t = (nu_Instruction t)\<lparr>ui_TaskID := nu_ID t, ui_DeadlineAt := nu_DeadlineAt t,
     ui_NginxBundle := stored_artifact (ui_NginxBundle (nu_Instruction t)),
     ui_NginxService := stored_artifact (ui_NginxService (nu_Instruction t))\<rparr>"

definition NodeUpgradeInstruction :: "store \<Rightarrow> string \<Rightarrow> time \<Rightarrow> store \<times> node_upgrade_instruction result" where
  "NodeUpgradeInstruction s nodeID now =
     (let s' = ReconcileNodeUpgrades s now in
      (s', case latest nu_CreatedAt (active_upgrades_of s' nodeID) of
             None \<Rightarrow> Inl ErrNotFound
           | Some t \<Rightarrow> Inr (stored_instruction t)))"

end
