(* ===== verification/Rollouts.thy ===== *)
theory Rollouts
  imports Upgrades
begin

section \<open>Batched upgrades (internal/store/upgrade\_rollout.go, internal/control/upgrade\_rollout.go)\<close>

text \<open>
  A rollout upgrades a list of nodes, the first of which is the canary: no other node starts before the
  canary has succeeded, at most \<open>MaxParallel\<close> nodes are in flight, and a node succeeds only after
  it was observed healthy, without a gap, for \<open>HealthWindowSeconds\<close>. A failure pauses the rollout.
  The whole rollout is one row with a revision; every write compares the revision, so a stale copy
  cannot overwrite a newer one. \<open>reconcileUpgradeRollout\<close> is the round that the control plane runs
  every five seconds; the health probe of a node, the current artifact of the control plane and the state
  of the context are arguments of the model.
\<close>

subsection \<open>Texts\<close>

text \<open>The user interface texts of the source are Chinese; their UTF-8 bytes are written out.\<close>

definition utf8 :: "nat list \<Rightarrow> string" where
  "utf8 bs = map char_of bs"

text \<open>waiting for the canary to pass its health window\<close>

definition detail_waiting_canary :: string where
  "detail_waiting_canary = utf8
     [231, 173, 137, 229, 190, 133, 233, 135, 145, 228, 184, 157, 233, 155, 128, 232, 138, 130, 231,
     130, 185, 233, 128, 154, 232, 191, 135, 229, 129, 165, 229, 186, 183, 232, 167, 130, 229, 175,
     159]"

text \<open>dispatch is paused, upgrades in progress go on\<close>

definition detail_paused :: string where
  "detail_paused = utf8
     [229, 183, 178, 230, 154, 130, 229, 129, 156, 230, 180, 190, 229, 143, 145, 239, 188, 140, 230,
     173, 163, 229, 156, 168, 230, 137, 167, 232, 161, 140, 231, 154, 132, 232, 138, 130, 231, 130,
     185, 229, 176, 134, 231, 187, 167, 231, 187, 173, 229, 174, 140, 230, 136, 144]"

text \<open>the rollout is resumed\<close>

definition detail_resumed :: string where
  "detail_resumed = utf8
     [229, 183, 178, 230, 129, 162, 229, 164, 141, 229, 136, 134, 230, 137, 185, 229, 141, 135, 231,
     186, 167]"

text \<open>waiting for a retry\<close>

definition detail_wait_retry :: string where
  "detail_wait_retry = utf8
     [231, 173, 137, 229, 190, 133, 233, 135, 141, 232, 175, 149]"

text \<open>no further dispatch, upgrades already sent go on\<close>

definition detail_cancelled :: string where
  "detail_cancelled = utf8
     [229, 183, 178, 229, 143, 150, 230, 182, 136, 229, 144, 142, 231, 187, 173, 230, 180, 190, 229,
     143, 145, 239, 188, 140, 229, 183, 178, 228, 184, 139, 229, 143, 145, 231, 154, 132, 229, 141,
     135, 231, 186, 167, 228, 187, 141, 228, 188, 154, 230, 137, 167, 232, 161, 140]"

text \<open>observing the node again\<close>

definition detail_reobserve :: string where
  "detail_reobserve = utf8
     [233, 135, 141, 230, 150, 176, 232, 167, 130, 229, 175, 159, 232, 138, 130, 231, 130, 185, 229,
     129, 165, 229, 186, 183]"

text \<open>waiting for the node to finish its upgrade\<close>

definition detail_wait_upgrade :: string where
  "detail_wait_upgrade = utf8
     [231, 173, 137, 229, 190, 133, 232, 138, 130, 231, 130, 185, 229, 174, 140, 230, 136, 144, 229,
     141, 135, 231, 186, 167]"

text \<open>under observation\<close>

definition detail_observing :: string where
  "detail_observing = utf8
     [229, 129, 165, 229, 186, 183, 232, 167, 130, 229, 175, 159, 228, 184, 173]"

text \<open>upgrade and health observation passed\<close>

definition detail_member_passed :: string where
  "detail_member_passed = utf8
     [229, 141, 135, 231, 186, 167, 229, 146, 140, 229, 129, 165, 229, 186, 183, 232, 167, 130, 229,
     175, 159, 229, 157, 135, 229, 183, 178, 233, 128, 154, 232, 191, 135]"

text \<open>the artifacts of the control plane have changed\<close>

definition detail_artifacts_changed :: string where
  "detail_artifacts_changed = utf8
     [228, 184, 187, 230, 142, 167, 229, 141, 135, 231, 186, 167, 229, 136, 182, 229, 147, 129, 229,
     183, 178, 229, 143, 152, 229, 140, 150, 239, 188, 140, 232, 175, 183, 229, 143, 150, 230, 182,
     136, 229, 144, 142, 233, 135, 141, 230, 150, 176, 229, 136, 155, 229, 187, 186, 229, 136, 134,
     230, 137, 185, 229, 141, 135, 231, 186, 167]"

text \<open>(after the name of a node) it does not exist or its heartbeat is stale\<close>

definition detail_stale_node :: string where
  "detail_stale_node = utf8
     [58, 32, 232, 138, 130, 231, 130, 185, 228, 184, 141, 229, 173, 152, 229, 156, 168, 230, 136,
     150, 229, 191, 131, 232, 183, 179, 229, 183, 178, 232, 191, 135, 230, 156, 159]"

text \<open>every node passed\<close>

definition detail_all_passed :: string where
  "detail_all_passed = utf8
     [229, 133, 168, 233, 131, 168, 232, 138, 130, 231, 130, 185, 229, 183, 178, 233, 128, 154, 232,
     191, 135, 229, 141, 135, 231, 186, 167, 229, 146, 140, 229, 129, 165, 229, 186, 183, 232, 167,
     130, 229, 175, 159]"

text \<open>the node was deleted\<close>

definition detail_node_deleted :: string where
  "detail_node_deleted = utf8
     [232, 138, 130, 231, 130, 185, 229, 183, 178, 229, 136, 160, 233, 153, 164]"

text \<open>the status of the node does not allow it\<close>

definition detail_node_unusable :: string where
  "detail_node_unusable = utf8
     [232, 138, 130, 231, 130, 185, 231, 138, 182, 230, 128, 129, 228, 184, 141, 229, 143, 175, 231,
     148, 168]"

text \<open>waiting for a heartbeat after the upgrade\<close>

definition detail_no_heartbeat :: string where
  "detail_no_heartbeat = utf8
     [231, 173, 137, 229, 190, 133, 229, 141, 135, 231, 186, 167, 229, 174, 140, 230, 136, 144, 229,
     144, 142, 231, 154, 132, 230, 150, 176, 233, 178, 156, 229, 191, 131, 232, 183, 179]"

text \<open>waiting for the node to clear its local task\<close>

definition detail_local_task :: string where
  "detail_local_task = utf8
     [231, 173, 137, 229, 190, 133, 232, 138, 130, 231, 130, 185, 230, 184, 133, 231, 144, 134, 230,
     156, 172, 229, 156, 176, 229, 141, 135, 231, 186, 167, 228, 187, 187, 229, 138, 161]"

text \<open>the artifact of the node is not the target yet\<close>

definition detail_wrong_artifact :: string where
  "detail_wrong_artifact = utf8
     [232, 138, 130, 231, 130, 185, 229, 136, 182, 229, 147, 129, 229, 176, 154, 230, 156, 170, 229,
     140, 185, 233, 133, 141, 229, 141, 135, 231, 186, 167, 231, 155, 174, 230, 160, 135]"

text \<open>waiting for the node to confirm its configuration without an error\<close>

definition detail_config_behind :: string where
  "detail_config_behind = utf8
     [231, 173, 137, 229, 190, 133, 232, 138, 130, 231, 130, 185, 231, 161, 174, 232, 174, 164, 229,
     189, 147, 229, 137, 141, 233, 133, 141, 231, 189, 174, 228, 184, 148, 230, 151, 160, 233, 148,
     153, 232, 175, 175]"

text \<open>the health probe failed\<close>

definition detail_probe_failed :: string where
  "detail_probe_failed = utf8
     [229, 129, 165, 229, 186, 183, 230, 142, 162, 230, 181, 139, 229, 164, 177, 232, 180, 165]"

subsection \<open>The rows\<close>

definition rollout_open :: "upgrade_rollout \<Rightarrow> bool" where
  "rollout_open r \<longleftrightarrow> ro_State r = RolloutRunning \<or> ro_State r = RolloutPaused"

definition find_rollout :: "store \<Rightarrow> string \<Rightarrow> rollout_row option" where
  "find_rollout s i = find_row (\<lambda>r. ro_ID (rr_Rollout r) = i) (rollouts s)"

definition UpgradeRollout :: "store \<Rightarrow> string \<Rightarrow> upgrade_rollout result" where
  "UpgradeRollout s i = (case find_rollout s i of None \<Rightarrow> Inl ErrNotFound | Some r \<Rightarrow> Inr (rr_Rollout r))"

text \<open>\<open>ORDER BY created_at DESC, id DESC LIMIT 1\<close>\<close>

definition rollout_before :: "rollout_row \<Rightarrow> rollout_row \<Rightarrow> bool" where
  "rollout_before a b \<longleftrightarrow>
     text_less (ro_CreatedAt (rr_Rollout a)) (ro_CreatedAt (rr_Rollout b))
     \<or> ro_CreatedAt (rr_Rollout a) = ro_CreatedAt (rr_Rollout b) \<and> ro_ID (rr_Rollout a) < ro_ID (rr_Rollout b)"

fun last_rollout :: "rollout_row list \<Rightarrow> rollout_row option" where
  "last_rollout [] = None"
| "last_rollout (r # rs) =
     (case last_rollout rs of None \<Rightarrow> Some r | Some b \<Rightarrow> if rollout_before r b then Some b else Some r)"

definition LatestUpgradeRollout :: "store \<Rightarrow> upgrade_rollout result" where
  "LatestUpgradeRollout s = (case last_rollout (rollouts s) of None \<Rightarrow> Inl ErrNotFound | Some r \<Rightarrow> Inr (rr_Rollout r))"

text \<open>Compare and swap on the revision.\<close>

definition saveUpgradeRolloutTx :: "store \<Rightarrow> upgrade_rollout \<Rightarrow> time \<Rightarrow> (store \<times> upgrade_rollout) result" where
  "saveUpgradeRolloutTx s r now =
     (let r' = r\<lparr>ro_Revision := ro_Revision r + 1, ro_UpdatedAt := now\<rparr>;
          hit = (\<lambda>x. ro_ID (rr_Rollout x) = ro_ID r \<and> ro_Revision (rr_Rollout x) = ro_Revision r)
      in if count_rows hit (rollouts s) \<noteq> 1 then Inl ErrUpgradeRolloutConflict
         else Inr (s\<lparr>rollouts := update_rows hit (rr_Rollout_update (\<lambda>_. r')) (rollouts s)\<rparr>, r'))"

definition SaveUpgradeRollout :: "store \<Rightarrow> upgrade_rollout \<Rightarrow> time \<Rightarrow> (store \<times> upgrade_rollout) result" where
  "SaveUpgradeRollout s r now = saveUpgradeRolloutTx s r now"

subsection \<open>Creating a rollout\<close>

definition artifact_matches :: "upgrade_rollout \<Rightarrow> node_upgrade_instruction \<Rightarrow> bool" where
  "artifact_matches r i \<longleftrightarrow> ua_SHA256 (ui_Binary i) = ro_TargetAgentSHA256 r
     \<and> (case ui_NginxBundle i of None \<Rightarrow> True | Some b \<Rightarrow> ua_SHA256 b = ro_TargetNginxSHA256 r)"

fun check_members :: "store \<Rightarrow> upgrade_rollout \<Rightarrow> (string \<times> node_upgrade_instruction) list \<Rightarrow> string set
    \<Rightarrow> rollout_member list \<Rightarrow> rollout_member list result" where
  "check_members s r instructions seen [] = Inr []"
| "check_members s r instructions seen (m # ms) =
     (if rm_NodeID m \<in> seen then Inl (err ''duplicate rollout node'')
      else case map_of instructions (rm_NodeID m) of
        None \<Rightarrow> Inl (err ''rollout artifact mismatch'')
      | Some i \<Rightarrow>
          if \<not> artifact_matches r i then Inl (err ''rollout artifact mismatch'')
          else if count_rows (\<lambda>n. nd_ID n = rm_NodeID m) (nodes s) \<noteq> 1 then Inl ErrNotFound
          else if HasActiveNodeUpgrade s (rm_NodeID m) then Inl ErrNodeUpgradeActive
          else case check_members s r instructions (insert (rm_NodeID m) seen) ms of
            Inl e \<Rightarrow> Inl e
          | Inr ms' \<Rightarrow> Inr (m\<lparr>rm_State := MemberPending, rm_TaskID := []\<rparr> # ms'))"

definition CreateUpgradeRollout :: "store \<Rightarrow> upgrade_rollout \<Rightarrow> (string \<times> node_upgrade_instruction) list \<Rightarrow> string
    \<Rightarrow> time \<Rightarrow> (store \<times> upgrade_rollout) result" where
  "CreateUpgradeRollout s r instructions fresh now =
     (if ro_Members r = [] \<or> ro_MaxParallel r < 1 \<or> ro_MaxParallel r > 10
         \<or> ro_HealthWindowSeconds r < 30 \<or> ro_HealthWindowSeconds r > 600
      then Inl (err ''invalid rollout limits'')
      else if list_ex (\<lambda>x. rollout_open (rr_Rollout x)) (rollouts s) then Inl ErrUpgradeRolloutActive
      else case check_members s r instructions {} (ro_Members r) of
        Inl e \<Rightarrow> Inl e
      | Inr ms \<Rightarrow>
          if list_ex (\<lambda>x. ro_ID (rr_Rollout x) = fresh) (rollouts s) then Inl constraint_error
          else
            (let r' = r\<lparr>ro_ID := fresh, ro_State := RolloutRunning, ro_Revision := 1, ro_CreatedAt := now,
                        ro_UpdatedAt := now, ro_Detail := err detail_waiting_canary, ro_Members := ms\<rparr>
             in Inr (s\<lparr>rollouts := rollouts s @ [\<lparr>rr_Rollout = r', rr_Instructions = instructions\<rparr>]\<rparr>, r')))"

subsection \<open>Pausing, resuming, cancelling\<close>

definition retry_member :: "rollout_member \<Rightarrow> rollout_member" where
  "retry_member m =
     (if rm_State m = MemberFailed
      then m\<lparr>rm_State := MemberPending, rm_HealthySince := None, rm_LastObservedAt := None,
             rm_VerificationStartedAt := None, rm_Detail := detail_wait_retry\<rparr>
      else m)"

definition skip_member :: "rollout_member \<Rightarrow> rollout_member" where
  "skip_member m =
     (if rm_State m = MemberPending \<or> rm_State m = MemberFailed then m\<lparr>rm_State := MemberSkipped\<rparr> else m)"

definition change_rollout :: "string \<Rightarrow> upgrade_rollout \<Rightarrow> upgrade_rollout result" where
  "change_rollout action r =
     (if action = ''pause'' then Inr (r\<lparr>ro_State := RolloutPaused, ro_Detail := err detail_paused\<rparr>)
      else if action = ''resume''
        then Inr (r\<lparr>ro_State := RolloutRunning, ro_Detail := err detail_resumed, ro_Members := map retry_member (ro_Members r)\<rparr>)
      else if action = ''cancel''
        then Inr (r\<lparr>ro_State := RolloutCancelled, ro_Detail := err detail_cancelled, ro_Members := map skip_member (ro_Members r)\<rparr>)
      else Inl (err ''invalid rollout action''))"

definition ChangeUpgradeRollout :: "store \<Rightarrow> string \<Rightarrow> string \<Rightarrow> time \<Rightarrow> (store \<times> upgrade_rollout) result" where
  "ChangeUpgradeRollout s i action now =
     (case find_rollout s i of None \<Rightarrow> Inl ErrNotFound | Some row \<Rightarrow>
      if \<not> rollout_open (rr_Rollout row) then Inl ErrUpgradeRolloutConflict
      else case change_rollout action (rr_Rollout row) of
        Inl e \<Rightarrow> Inl e
      | Inr r \<Rightarrow> saveUpgradeRolloutTx s r now)"

subsection \<open>Dispatching a node\<close>

definition in_flight :: "rollout_member \<Rightarrow> bool" where
  "in_flight m \<longleftrightarrow> rm_State m = MemberUpgrading \<or> rm_State m = MemberVerifying"

text \<open>The index of the last member for the node, as the loop leaves it.\<close>

fun member_index :: "string \<Rightarrow> rollout_member list \<Rightarrow> nat option" where
  "member_index n [] = None"
| "member_index n (m # ms) =
     (case member_index n ms of Some k \<Rightarrow> Some (Suc k) | None \<Rightarrow> if rm_NodeID m = n then Some 0 else None)"

definition set_member :: "nat \<Rightarrow> rollout_member \<Rightarrow> upgrade_rollout \<Rightarrow> upgrade_rollout" where
  "set_member k m r = r\<lparr>ro_Members := (ro_Members r)[k := m]\<rparr>"

text \<open>A member whose upgrade already succeeded is only observed again.\<close>

definition installed_before :: "store \<Rightarrow> rollout_member \<Rightarrow> bool result" where
  "installed_before s m =
     (if rm_TaskID m = [] then Inr False
      else case NodeUpgradeTask s (rm_TaskID m) of
        Inl e \<Rightarrow> Inl e
      | Inr t \<Rightarrow> Inr (nu_Status t = NodeUpgradeSucceeded))"

definition start_member :: "store \<Rightarrow> rollout_row \<Rightarrow> nat \<Rightarrow> rollout_member \<Rightarrow> time \<Rightarrow> string \<Rightarrow> time
    \<Rightarrow> (store \<times> upgrade_rollout) result" where
  "start_member s row k m deadline fresh now =
     (case installed_before s m of Inl e \<Rightarrow> Inl e
      | Inr True \<Rightarrow>
          saveUpgradeRolloutTx s (set_member k (m\<lparr>rm_State := MemberVerifying, rm_Detail := detail_reobserve,
            rm_VerificationStartedAt := Some now\<rparr>) (rr_Rollout row)) now
      | Inr False \<Rightarrow>
          (case map_of (rr_Instructions row) (rm_NodeID m) of
             None \<Rightarrow> Inl (err ''missing frozen rollout instruction'')
           | Some instruction \<Rightarrow>
               (case createOrGetNodeUpgradeTx s (rm_NodeID m) instruction deadline (ro_ID (rr_Rollout row)) fresh now of
                  Inl e \<Rightarrow> Inl e
                | Inr (s', task, created) \<Rightarrow>
                    if \<not> created
                    then Inl (Errorf ''%w: unrelated task %s'' [ArgE ErrNodeUpgradeActive, ArgS (nu_ID task)])
                    else saveUpgradeRolloutTx s' (set_member k (m\<lparr>rm_TaskID := nu_ID task,
                      rm_State := MemberUpgrading, rm_Detail := detail_wait_upgrade\<rparr>) (rr_Rollout row)) now)))"

definition DispatchUpgradeRolloutNode :: "store \<Rightarrow> string \<Rightarrow> string \<Rightarrow> time \<Rightarrow> string \<Rightarrow> time
    \<Rightarrow> (store \<times> upgrade_rollout) result" where
  "DispatchUpgradeRolloutNode s i nodeID deadline fresh now =
     (case find_rollout s i of None \<Rightarrow> Inl ErrNotFound | Some row \<Rightarrow>
      let r = rr_Rollout row in
      if ro_State r \<noteq> RolloutRunning \<or> \<not> deadline > now then Inl ErrUpgradeRolloutConflict
      else if list_ex (\<lambda>m. rm_State m = MemberFailed) (ro_Members r) then Inl ErrUpgradeRolloutConflict
      else case member_index nodeID (ro_Members r) of None \<Rightarrow> Inl ErrNotFound | Some k \<Rightarrow>
      if rm_State (ro_Members r ! k) \<noteq> MemberPending
         \<or> int (count_rows in_flight (ro_Members r)) \<ge> ro_MaxParallel r
         \<or> (k \<noteq> 0 \<and> rm_State (ro_Members r ! 0) \<noteq> MemberSucceeded)
      then Inl ErrUpgradeRolloutConflict
      else start_member s row k (ro_Members r ! k) deadline fresh now)"

end
