(* ===== verification/Rollout_Round.thy ===== *)
theory Rollout_Round
  imports Rollouts
begin

section \<open>The round of a rollout (internal/control/upgrade\_rollout.go)\<close>

text \<open>
  One call of \<open>reconcileUpgradeRollout\<close>: it closes overdue upgrade tasks, observes every member in
  flight, saves what it saw, and then dispatches pending members as far as the limits allow. The round
  is not one transaction, so it returns the store as far as it came together with its error.
\<close>

definition rolloutHeartbeatFreshness :: duration where "rolloutHeartbeatFreshness = 90 * second"
definition nodeUpgradeHeartbeatFreshness :: duration where "nodeUpgradeHeartbeatFreshness = 10 * minute"
definition nodeUpgradeTimeout :: duration where "nodeUpgradeTimeout = 30 * minute"

subsection \<open>Is a node ready?\<close>

definition fresh_heartbeat :: "node_row \<Rightarrow> node_upgrade_task \<Rightarrow> time \<Rightarrow> bool" where
  "fresh_heartbeat node task observedAt =
     (case (nu_CompletedAt task, nd_LastHeartbeatAt node) of
        (Some completed, Some heartbeat) \<Rightarrow>
          \<not> heartbeat < completed \<and> \<not> time_sub observedAt heartbeat > rolloutHeartbeatFreshness
          \<and> \<not> heartbeat > observedAt + 5 * second
      | _ \<Rightarrow> False)"

text \<open>\<open>probe\<close> stands for \<open>checkNodeTiered\<close>; it yields the error of the context when that was cancelled.\<close>

definition upgradeRolloutNodeReady :: "(node_row \<Rightarrow> (bool \<times> string) result) \<Rightarrow> store \<Rightarrow> string
    \<Rightarrow> node_upgrade_task \<Rightarrow> time \<Rightarrow> (bool \<times> string) result" where
  "upgradeRolloutNodeReady probe s nodeID task observedAt =
     (case find_node s nodeID of None \<Rightarrow> Inr (False, detail_node_deleted) | Some node \<Rightarrow>
      if nd_Status node \<noteq> NodeActive \<and> nd_Status node \<noteq> NodeDraining then Inr (False, detail_node_unusable)
      else if \<not> fresh_heartbeat node task observedAt then Inr (False, detail_no_heartbeat)
      else if nd_ActiveUpgradeID node \<noteq> [] then Inr (False, detail_local_task)
      else if \<not> EqualFold (nd_AgentSHA256 node) (nu_TargetSHA256 task)
          \<or> nu_TargetNginxSHA256 task \<noteq> [] \<and> \<not> EqualFold (nd_NginxSHA256 node) (nu_TargetNginxSHA256 task)
        then Inr (False, detail_wrong_artifact)
      else if nd_AppliedVersion node < DesiredVersion s nodeID \<or> nd_LastError node \<noteq> []
        then Inr (False, detail_config_behind)
      else case probe node of
        Inl e \<Rightarrow> Inl e
      | Inr (healthy, detail) \<Rightarrow>
          Inr (if healthy then (True, []) else (False, detail_probe_failed @ '': '' @ detail)))"

subsection \<open>Observing a member\<close>

definition begin_verifying :: "time \<Rightarrow> rollout_member \<Rightarrow> rollout_member" where
  "begin_verifying observedAt m =
     (if rm_State m \<noteq> MemberVerifying \<or> rm_VerificationStartedAt m = None
      then m\<lparr>rm_State := MemberVerifying, rm_VerificationStartedAt := Some observedAt\<rparr> else m)"

text \<open>Must the member earn a fresh window?\<close>

definition window_broken :: "time \<Rightarrow> rollout_member \<Rightarrow> bool" where
  "window_broken observedAt m =
     (case (rm_HealthySince m, rm_LastObservedAt m) of
        (Some _, Some seen) \<Rightarrow> time_sub observedAt seen > 30 * second \<or> observedAt < seen
      | _ \<Rightarrow> True)"

definition observe_ready :: "int \<Rightarrow> time \<Rightarrow> rollout_member \<Rightarrow> rollout_member" where
  "observe_ready window observedAt m =
     (let since = (case rm_HealthySince m of
            Some h \<Rightarrow> if window_broken observedAt m then observedAt else h
          | None \<Rightarrow> observedAt);
          m1 = m\<lparr>rm_HealthySince := Some since, rm_LastObservedAt := Some observedAt, rm_Detail := detail_observing\<rparr>
      in if time_sub observedAt since \<ge> window * second
         then m1\<lparr>rm_State := MemberSucceeded, rm_Detail := detail_member_passed\<rparr> else m1)"

definition member_pause :: "rollout_member \<Rightarrow> string \<Rightarrow> fmt_text" where
  "member_pause m detail = Errorf ''%s: %s'' [ArgS (rm_Name m), ArgS detail]"

definition observe_unready :: "time \<Rightarrow> string \<Rightarrow> rollout_member \<Rightarrow> rollout_member \<times> fmt_text option" where
  "observe_unready observedAt detail m =
     (let m1 = m\<lparr>rm_HealthySince := None, rm_LastObservedAt := None, rm_Detail := detail\<rparr>;
          started = (case rm_VerificationStartedAt m of Some v \<Rightarrow> v | None \<Rightarrow> observedAt)
      in if time_sub observedAt started \<ge> 5 * minute \<or> HasPrefix detail detail_probe_failed
         then (m1\<lparr>rm_State := MemberFailed\<rparr>, Some (member_pause m detail)) else (m1, None))"

definition observe_member :: "int \<Rightarrow> time \<Rightarrow> bool \<times> string \<Rightarrow> rollout_member \<Rightarrow> rollout_member \<times> fmt_text option" where
  "observe_member window observedAt verdict m =
     (let m1 = begin_verifying observedAt m in
      if fst verdict then (observe_ready window observedAt m1, None)
      else observe_unready observedAt (snd verdict) m1)"

text \<open>One iteration of the loop: the member, the text of a pause, and whether anything changed.\<close>

definition observe_one :: "(node_row \<Rightarrow> (bool \<times> string) result) \<Rightarrow> store \<Rightarrow> int \<Rightarrow> time \<Rightarrow> rollout_member
    \<Rightarrow> (rollout_member \<times> fmt_text option \<times> bool) result" where
  "observe_one probe s window observedAt m =
     (if \<not> in_flight m then Inr (m, None, False)
      else case NodeUpgradeTask s (rm_TaskID m) of
        Inl e \<Rightarrow> Inl e
      | Inr task \<Rightarrow>
          if nu_Status task = NodeUpgradeFailed
          then Inr (m\<lparr>rm_State := MemberFailed, rm_Detail := nu_Detail task\<rparr>, Some (member_pause m (nu_Detail task)), True)
          else if nu_Status task \<noteq> NodeUpgradeSucceeded then Inr (m, None, False)
          else case upgradeRolloutNodeReady probe s (rm_NodeID m) task observedAt of
            Inl e \<Rightarrow> Inl e
          | Inr verdict \<Rightarrow>
              (case observe_member window observedAt verdict m of (m', pause) \<Rightarrow> Inr (m', pause, True)))"

fun observe_members :: "(node_row \<Rightarrow> (bool \<times> string) result) \<Rightarrow> store \<Rightarrow> int \<Rightarrow> time \<Rightarrow> rollout_member list
    \<Rightarrow> (rollout_member list \<times> fmt_text option \<times> bool) result" where
  "observe_members probe s window observedAt [] = Inr ([], None, False)"
| "observe_members probe s window observedAt (m # ms) =
     (case observe_one probe s window observedAt m of
        Inl e \<Rightarrow> Inl e
      | Inr (m', pause, changed) \<Rightarrow>
          (case observe_members probe s window observedAt ms of
             Inl e \<Rightarrow> Inl e
           | Inr (ms', later, again) \<Rightarrow>
               Inr (m' # ms', if later = None then pause else later, changed \<or> again)))"

definition observed_rollout :: "upgrade_rollout \<Rightarrow> rollout_member list \<Rightarrow> fmt_text option \<Rightarrow> upgrade_rollout" where
  "observed_rollout r ms pause =
     (case pause of
        None \<Rightarrow> r\<lparr>ro_Members := ms\<rparr>
      | Some detail \<Rightarrow> r\<lparr>ro_State := RolloutPaused, ro_Detail := detail, ro_Members := ms\<rparr>)"

subsection \<open>Dispatching\<close>

definition save_round :: "store \<Rightarrow> upgrade_rollout \<Rightarrow> time \<Rightarrow> store \<times> unit result" where
  "save_round s r now = (case SaveUpgradeRollout s r now of Inl e \<Rightarrow> (s, Inl e) | Inr (s', _) \<Rightarrow> (s', Inr ()))"

definition pause_round :: "store \<Rightarrow> upgrade_rollout \<Rightarrow> fmt_text \<Rightarrow> time \<Rightarrow> store \<times> unit result" where
  "pause_round s r detail now = save_round s (r\<lparr>ro_State := RolloutPaused, ro_Detail := detail\<rparr>) now"

definition stale_node :: "store \<Rightarrow> string \<Rightarrow> time \<Rightarrow> bool" where
  "stale_node s nodeID observedAt =
     (case find_node s nodeID of
        None \<Rightarrow> True
      | Some node \<Rightarrow>
          (case nd_LastHeartbeatAt node of
             None \<Rightarrow> True
           | Some heartbeat \<Rightarrow> time_sub observedAt heartbeat > nodeUpgradeHeartbeatFreshness))"

definition must_wait :: "upgrade_rollout \<Rightarrow> rollout_member \<Rightarrow> bool" where
  "must_wait r m \<longleftrightarrow> int (count_rows in_flight (ro_Members r)) \<ge> ro_MaxParallel r
     \<or> (rm_NodeID (hd (ro_Members r)) \<noteq> rm_NodeID m \<and> rm_State (hd (ro_Members r)) \<noteq> MemberSucceeded)"

datatype dispatch_outcome = RoundEnds store "unit result" | RoundGoesOn store upgrade_rollout

text \<open>The loop ranges over the members as they were when it started; \<open>fresh k\<close> is the k-th new identifier.\<close>

fun dispatch_members :: "(nat \<Rightarrow> string) \<Rightarrow> nat \<Rightarrow> time \<Rightarrow> time \<Rightarrow> store \<Rightarrow> upgrade_rollout \<Rightarrow> rollout_member list
    \<Rightarrow> dispatch_outcome" where
  "dispatch_members fresh k observedAt now s r [] = RoundGoesOn s r"
| "dispatch_members fresh k observedAt now s r (m # ms) =
     (if rm_State m \<noteq> MemberPending then dispatch_members fresh k observedAt now s r ms
      else if must_wait r m then RoundGoesOn s r
      else if stale_node s (rm_NodeID m) observedAt
        then (case pause_round s r (Errorf ''%s%s'' [ArgS (rm_Name m), ArgS detail_stale_node]) now of
                (s', res) \<Rightarrow> RoundEnds s' res)
      else case DispatchUpgradeRolloutNode s (ro_ID r) (rm_NodeID m) (now + nodeUpgradeTimeout) (fresh k) now of
        Inl e \<Rightarrow>
          (case pause_round s r (Errorf ''%s: %s'' [ArgS (rm_Name m), ArgE e]) now of (s', res) \<Rightarrow> RoundEnds s' res)
      | Inr (s', r') \<Rightarrow> dispatch_members fresh (Suc k) observedAt now s' r' ms)"

definition all_succeeded :: "upgrade_rollout \<Rightarrow> bool" where
  "all_succeeded r \<longleftrightarrow> list_all (\<lambda>m. rm_State m = MemberSucceeded) (ro_Members r)"

definition finish_round :: "store \<Rightarrow> upgrade_rollout \<Rightarrow> time \<Rightarrow> store \<times> unit result" where
  "finish_round s r now =
     (if all_succeeded r then save_round s (r\<lparr>ro_State := RolloutSucceeded, ro_Detail := err detail_all_passed\<rparr>) now
      else (s, Inr ()))"

text \<open>Do the artifacts of the control plane still match? \<open>target\<close> stands for \<open>currentNginxArtifactTarget\<close>.\<close>

definition artifacts_current :: "upgrade_rollout \<Rightarrow> string result \<Rightarrow> string \<Rightarrow> bool" where
  "artifacts_current r target edgeSHA =
     (case target of
        Inl _ \<Rightarrow> False
      | Inr nginxSHA \<Rightarrow> EqualFold (ro_TargetAgentSHA256 r) (TrimSpace edgeSHA) \<and> EqualFold (ro_TargetNginxSHA256 r) nginxSHA)"

definition dispatch_round :: "string result \<Rightarrow> string \<Rightarrow> (nat \<Rightarrow> string) \<Rightarrow> time \<Rightarrow> time \<Rightarrow> store \<Rightarrow> upgrade_rollout
    \<Rightarrow> store \<times> unit result" where
  "dispatch_round target edgeSHA fresh observedAt now s r =
     (if \<not> artifacts_current r target edgeSHA then pause_round s r (err detail_artifacts_changed) now
      else case dispatch_members fresh 0 observedAt now s r (ro_Members r) of
        RoundEnds s' res \<Rightarrow> (s', res)
      | RoundGoesOn s' r' \<Rightarrow> finish_round s' r' now)"

definition reconcileUpgradeRollout :: "go_error option \<Rightarrow> (node_row \<Rightarrow> (bool \<times> string) result) \<Rightarrow> string result
    \<Rightarrow> string \<Rightarrow> (nat \<Rightarrow> string) \<Rightarrow> store \<Rightarrow> time \<Rightarrow> time \<Rightarrow> store \<times> unit result" where
  "reconcileUpgradeRollout ctx probe target edgeSHA fresh s observedAt now =
     (case ctx of Some e \<Rightarrow> (s, Inl e) | None \<Rightarrow>
      let s1 = ReconcileNodeUpgrades s now in
      case LatestUpgradeRollout s1 of
        Inl _ \<Rightarrow> (s1, Inr ())
      | Inr r \<Rightarrow>
          if \<not> rollout_open r then (s1, Inr ())
          else case observe_members probe s1 (ro_HealthWindowSeconds r) observedAt (ro_Members r) of
            Inl e \<Rightarrow> (s1, Inl e)
          | Inr (ms, pause, changed) \<Rightarrow>
              (case (if changed then SaveUpgradeRollout s1 (observed_rollout r ms pause) now else Inr (s1, r)) of
                 Inl e \<Rightarrow> (s1, Inl e)
               | Inr (s2, r2) \<Rightarrow>
                   if ro_State r2 = RolloutPaused then (s2, Inr ())
                   else dispatch_round target edgeSHA fresh observedAt now s2 r2))"

end
