(* ===== verification/Upgrade_Properties.thy ===== *)
theory Upgrade_Properties
  imports Upgrades Samples
begin

section \<open>Properties of node upgrades\<close>

text \<open>
  The invariant of the table of upgrade tasks, the order in which a task moves through its states, what
  a success stands for, and that no task stays open beyond its deadline.
\<close>

subsection \<open>Steps\<close>

text \<open>The operations on the table, and any operation that leaves it alone.\<close>

inductive upgrade_step :: "store \<Rightarrow> store \<Rightarrow> bool" where
  start: "createOrGetNodeUpgradeTx s nodeID i deadline rolloutID fresh now = Inr (s', t, c) \<Longrightarrow> upgrade_step s s'"
| report: "RecordNodeUpgradeReport s nodeID r now = Inr (s', t) \<Longrightarrow> upgrade_step s s'"
| reconcile: "upgrade_step s (ReconcileNodeUpgrades s now)"
| fail_active: "upgrade_step s (FailActiveNodeUpgrade s nodeID code detail now)"
| elsewhere: "upgrade_tasks s' = upgrade_tasks s \<Longrightarrow> upgrade_step s s'"

definition active_nodes :: "upgrade_row list \<Rightarrow> string list" where
  "active_nodes ts = map nu_NodeID (filter (\<lambda>t. active_upgrade_status (nu_Status t)) ts)"

definition upgrades_wf :: "store \<Rightarrow> bool" where
  "upgrades_wf s \<longleftrightarrow> distinct (map nu_ID (upgrade_tasks s)) \<and> distinct (active_nodes (upgrade_tasks s))"

text \<open>How a status may change: a success is final, a failure can only be repaired.\<close>

fun upgrade_progress :: "node_upgrade_status \<Rightarrow> node_upgrade_status \<Rightarrow> bool" where
  "upgrade_progress NodeUpgradeQueued st = True"
| "upgrade_progress NodeUpgradeApplying st = (st \<noteq> NodeUpgradeQueued)"
| "upgrade_progress NodeUpgradeFailed st = (st = NodeUpgradeFailed \<or> st = NodeUpgradeSucceeded)"
| "upgrade_progress NodeUpgradeSucceeded st = (st = NodeUpgradeSucceeded)"

lemma upgrade_progress_refl [simp]: "upgrade_progress a a"
  by (cases a) auto

lemma upgrade_progress_trans: "upgrade_progress a b \<Longrightarrow> upgrade_progress b c \<Longrightarrow> upgrade_progress a c"
  by (cases a; cases b) auto

text \<open>What every operation keeps of a row it rewrites.\<close>

definition upgrade_moves :: "upgrade_row \<Rightarrow> upgrade_row \<Rightarrow> bool" where
  "upgrade_moves t t' \<longleftrightarrow> nu_ID t' = nu_ID t \<and> nu_NodeID t' = nu_NodeID t
     \<and> nu_TargetSHA256 t' = nu_TargetSHA256 t \<and> nu_TargetNginxSHA256 t' = nu_TargetNginxSHA256 t
     \<and> upgrade_progress (nu_Status t) (nu_Status t')"

lemma upgrade_moves_refl [simp]: "upgrade_moves t t"
  by (simp add: upgrade_moves_def)

lemma upgrade_moves_trans: "upgrade_moves a b \<Longrightarrow> upgrade_moves b c \<Longrightarrow> upgrade_moves a c"
  by (auto simp: upgrade_moves_def intro: upgrade_progress_trans)

lemma begin_upgrade_moves: "active_upgrade_status (nu_Status t) \<Longrightarrow> upgrade_moves t (begin_upgrade d now t)"
  by (auto simp: upgrade_moves_def begin_upgrade_def active_upgrade_status_def)

lemma finish_upgrade_moves:
  "st = NodeUpgradeSucceeded \<or> st = NodeUpgradeFailed \<and> nu_Status t \<noteq> NodeUpgradeSucceeded
    \<Longrightarrow> upgrade_moves t (finish_upgrade st c d now t)"
  by (cases "nu_Status t") (auto simp: upgrade_moves_def finish_upgrade_def)

lemma close_upgrade_status [simp]: "nu_Status (close_upgrade st c d now t) = st"
  by (simp add: close_upgrade_def)

lemma failed_not_active [simp]: "\<not> active_upgrade_status NodeUpgradeFailed" "\<not> active_upgrade_status NodeUpgradeSucceeded"
  by (simp_all add: active_upgrade_status_def)

lemma close_upgrade_moves:
  "st = NodeUpgradeSucceeded \<or> st = NodeUpgradeFailed \<and> nu_Status t \<noteq> NodeUpgradeSucceeded
    \<Longrightarrow> upgrade_moves t (close_upgrade st c d now t)"
  by (cases "nu_Status t") (auto simp: upgrade_moves_def close_upgrade_def)

lemma apply_report_to_moves: "apply_report_to s n r now t = Inr (Some t') \<Longrightarrow> upgrade_moves t t'"
proof (cases "ur_Status r")
  case (Some st)
  moreover assume "apply_report_to s n r now t = Inr (Some t')"
  ultimately show ?thesis
    by (cases st) (auto simp: apply_report_to_def begin_upgrade_moves finish_upgrade_moves
        split: if_splits sum.splits)
qed (simp add: apply_report_to_def)

lemma active_moves: "upgrade_moves t t' \<Longrightarrow> active_upgrade_status (nu_Status t') \<Longrightarrow> active_upgrade_status (nu_Status t)"
  by (cases "nu_Status t") (auto simp: upgrade_moves_def active_upgrade_status_def)

text \<open>A table whose rows moved, position by position.\<close>

definition tasks_move :: "upgrade_row list \<Rightarrow> upgrade_row list \<Rightarrow> bool" where
  "tasks_move ts ts' \<longleftrightarrow> list_all2 upgrade_moves ts ts'"

lemma tasks_move_update:
  "(\<And>t. t \<in> set ts \<Longrightarrow> P t \<Longrightarrow> upgrade_moves t (f t)) \<Longrightarrow> tasks_move ts (update_rows P f ts)"
  by (induction ts) (auto simp: tasks_move_def)

lemma tasks_move_ids: "tasks_move ts ts' \<Longrightarrow> map nu_ID ts' = map nu_ID ts"
  unfolding tasks_move_def by (induction rule: list_all2_induct) (auto simp: upgrade_moves_def)

lemma tasks_move_active: "tasks_move ts ts' \<Longrightarrow> set (active_nodes ts') \<subseteq> set (active_nodes ts)
    \<and> (distinct (active_nodes ts) \<longrightarrow> distinct (active_nodes ts'))"
  unfolding tasks_move_def
proof (induction rule: list_all2_induct)
  case Nil
  then show ?case by (simp add: active_nodes_def)
next
  case (Cons t ts t' ts')
  have "nu_NodeID t' = nu_NodeID t" using Cons.hyps(1) by (simp add: upgrade_moves_def)
  with Cons.IH active_moves [OF Cons.hyps(1)] show ?case by (auto simp: active_nodes_def)
qed

lemma tasks_move_find: "tasks_move ts ts' \<Longrightarrow> t \<in> set ts \<Longrightarrow> \<exists>t' \<in> set ts'. upgrade_moves t t'"
  unfolding tasks_move_def by (induction rule: list_all2_induct) auto

lemma tasks_move_wf:
  "tasks_move (upgrade_tasks s) (upgrade_tasks s') \<Longrightarrow> upgrades_wf s \<Longrightarrow> upgrades_wf s'"
  by (simp add: upgrades_wf_def tasks_move_ids tasks_move_active)

subsection \<open>What a step does to the table\<close>

lemma createOrGet_effect:
  assumes "createOrGetNodeUpgradeTx s nodeID i deadline rolloutID fresh now = Inr (s', t, c)"
  shows "s' = s \<or> (\<exists>row node. upgrade_tasks s' = upgrade_tasks s @ [row] \<and> row = new_upgrade fresh node i deadline now
    \<and> nd_ID node = nodeID \<and> nodeID \<notin> set (active_nodes (upgrade_tasks s)) \<and> fresh \<notin> nu_ID ` set (upgrade_tasks s))"
proof (cases "latest nu_CreatedAt (active_upgrades_of s nodeID)")
  case None
  then have idle: "nodeID \<notin> set (active_nodes (upgrade_tasks s))"
    by (auto simp: active_nodes_def active_upgrades_of_def upgrades_of_def filter_empty_conv)
  from None assms obtain node where n: "find_node s nodeID = Some node"
    "upgrade_tasks s' = upgrade_tasks s @ [new_upgrade fresh node i deadline now]"
    and f: "\<forall>t \<in> set (upgrade_tasks s). nu_ID t \<noteq> fresh"
    by (auto simp: createOrGetNodeUpgradeTx_def Let_def list_ex_iff)
  from n(1) have "nd_ID node = nodeID" by (auto simp: find_node_def dest: find_row_SomeD)
  moreover from f have "fresh \<notin> nu_ID ` set (upgrade_tasks s)" by auto
  ultimately show ?thesis using n(2) idle by blast
next
  case (Some a)
  with assms show ?thesis by (simp add: createOrGetNodeUpgradeTx_def)
qed

lemma createOrGet_created:
  assumes "createOrGetNodeUpgradeTx s nodeID i deadline rolloutID fresh now = Inr (s', t, True)"
  obtains node where "find_node s nodeID = Some node"
    "upgrade_tasks s' = upgrade_tasks s @ [new_upgrade fresh node i deadline now]"
    "t = scan_task (new_upgrade fresh node i deadline now)"
proof (cases "latest nu_CreatedAt (active_upgrades_of s nodeID)")
  case None
  with assms that show ?thesis by (auto simp: createOrGetNodeUpgradeTx_def Let_def)
next
  case (Some a)
  with assms show ?thesis by (simp add: createOrGetNodeUpgradeTx_def)
qed

lemma report_effect:
  assumes "RecordNodeUpgradeReport s nodeID r now = Inr (s', t)" and "distinct (map nu_ID (upgrade_tasks s))"
  shows "tasks_move (upgrade_tasks s) (upgrade_tasks s')"
proof -
  from assms(1) obtain x res where x: "find_row (\<lambda>t. nu_ID t = ur_TaskID r) (upgrades_of s nodeID) = Some x"
    and res: "apply_report_to s nodeID r now x = Inr res"
    and s': "s' = (case res of None \<Rightarrow> s
      | Some t' \<Rightarrow> s\<lparr>upgrade_tasks := update_rows (\<lambda>y. nu_ID y = nu_ID x) (\<lambda>_. t') (upgrade_tasks s)\<rparr>)"
    by (auto simp: RecordNodeUpgradeReport_def split: option.splits sum.splits)
  have xin: "x \<in> set (upgrade_tasks s)" using find_row_SomeD [OF x] by (simp add: upgrades_of_def)
  show ?thesis
  proof (cases res)
    case None
    then show ?thesis using tasks_move_update [of "upgrade_tasks s" "\<lambda>_. False" id] by (simp add: s' update_rows_def)
  next
    case (Some t')
    have "y = x" if "y \<in> set (upgrade_tasks s)" "nu_ID y = nu_ID x" for y
      using that xin assms(2) by (meson inj_on_def distinct_map)
    then show ?thesis
      using apply_report_to_moves [OF res [unfolded Some]] by (auto simp: s' Some intro!: tasks_move_update)
  qed
qed

lemma time_out_moves: "tasks_move (upgrade_tasks s) (upgrade_tasks (time_out_upgrades s now))"
  unfolding time_out_upgrades_def
  by simp (rule tasks_move_update, rule close_upgrade_moves, auto simp: overdue_def active_upgrade_status_def)

lemma recover_moves: "tasks_move (upgrade_tasks s) (upgrade_tasks (recover_upgrades s now))"
  unfolding recover_upgrades_def by simp (rule tasks_move_update, rule close_upgrade_moves, simp)

lemma tasks_move_trans: "tasks_move a b \<Longrightarrow> tasks_move b c \<Longrightarrow> tasks_move a c"
  unfolding tasks_move_def by (rule list_all2_trans [OF upgrade_moves_trans])

lemma reconcile_moves: "tasks_move (upgrade_tasks s) (upgrade_tasks (ReconcileNodeUpgrades s now))"
  unfolding ReconcileNodeUpgrades_def by (rule tasks_move_trans [OF time_out_moves recover_moves])

lemma fail_moves: "tasks_move (upgrade_tasks s) (upgrade_tasks (FailActiveNodeUpgrade s n c d now))"
  unfolding FailActiveNodeUpgrade_def
  by simp (rule tasks_move_update, rule close_upgrade_moves, auto simp: active_upgrade_status_def)

lemma upgrade_step_effect:
  assumes "upgrade_step s s'" and "upgrades_wf s"
  shows "upgrades_wf s' \<and> (\<forall>t \<in> set (upgrade_tasks s). \<exists>t' \<in> set (upgrade_tasks s'). upgrade_moves t t')"
proof -
  have moved: ?thesis if "tasks_move (upgrade_tasks s) (upgrade_tasks s')"
    using tasks_move_wf [OF that assms(2)] tasks_move_find [OF that] by blast
  from assms(1) show ?thesis
  proof cases
    case (start nodeID i deadline rolloutID fresh now t c)
    from createOrGet_effect [OF start] show ?thesis
    proof (elim disjE exE conjE)
      assume "s' = s"
      with assms(2) show ?thesis by (metis upgrade_moves_refl)
    next
      fix row node
      assume "upgrade_tasks s' = upgrade_tasks s @ [row]" "row = new_upgrade fresh node i deadline now"
        "nd_ID node = nodeID" "nodeID \<notin> set (active_nodes (upgrade_tasks s))" "fresh \<notin> nu_ID ` set (upgrade_tasks s)"
      with assms(2) show ?thesis
        by (simp add: upgrades_wf_def active_nodes_def new_upgrade_def ball_Un) (blast intro: upgrade_moves_refl)
    qed
  next
    case (report nodeID r now t)
    show ?thesis using assms(2) by (intro moved report_effect [OF report]) (simp add: upgrades_wf_def)
  next
    case (reconcile now)
    show ?thesis by (rule moved) (simp add: reconcile reconcile_moves)
  next
    case (fail_active nodeID code detail now)
    show ?thesis by (rule moved) (simp add: fail_active fail_moves)
  next
    case elsewhere
    with assms(2) show ?thesis by (simp add: upgrades_wf_def) (blast intro: upgrade_moves_refl)
  qed
qed

text \<open>
  C16: over every sequence of upgrade operations a node never has two open upgrade tasks, and every task
  keeps its node and its target and moves only forward: a success is final and a failure can only
  be repaired into a success.
\<close>

theorem upgrades_only_move_forward:
  assumes "upgrade_step\<^sup>*\<^sup>* s s'" and "upgrades_wf s"
  shows "upgrades_wf s' \<and> (\<forall>t \<in> set (upgrade_tasks s). \<exists>t' \<in> set (upgrade_tasks s'). upgrade_moves t t')"
  using assms
proof (induction rule: rtranclp_induct)
  case base
  then show ?case by (blast intro: upgrade_moves_refl)
next
  case (step y z)
  then have y: "upgrades_wf y" "\<forall>t \<in> set (upgrade_tasks s). \<exists>t' \<in> set (upgrade_tasks y). upgrade_moves t t'" by simp_all
  from upgrade_step_effect [OF step.hyps(2) y(1)] y(2) show ?case
    by (meson upgrade_moves_trans)
qed

subsection \<open>Success\<close>

lemma ToLower_eq_Nil [simp]: "ToLower t = [] \<longleftrightarrow> t = []"
  by (cases t) auto

lemma EqualFold_Nil: "EqualFold [] t \<longleftrightarrow> t = []"
  by (metis EqualFold_def ToLower_eq_Nil ToLower.simps(1))

lemma upgrade_row_unique:
  "upgrades_wf s \<Longrightarrow> a \<in> set (upgrade_tasks s) \<Longrightarrow> b \<in> set (upgrade_tasks s) \<Longrightarrow> nu_ID a = nu_ID b \<Longrightarrow> a = b"
  unfolding upgrades_wf_def by (meson distinct_map inj_on_def)

lemma apply_report_to_success:
  assumes "apply_report_to s n r now t = Inr (Some t')" and "nu_Status t' = NodeUpgradeSucceeded"
    and "nu_TargetSHA256 t \<noteq> []"
  shows "ur_Status r = Some NodeUpgradeSucceeded \<and> digests_match (ur_InstalledSHA256 r) (ur_InstalledNginxSHA256 r) t
    \<or> ur_ErrorCode r = ''updater_interrupted''
      \<and> (\<exists>node. find_node s n = Some node \<and> digests_match (nd_AgentSHA256 node) (nd_NginxSHA256 node) t)"
proof (cases "ur_Status r")
  case (Some st)
  with assms show ?thesis
    by (cases st) (auto simp: apply_report_to_def begin_upgrade_def finish_upgrade_def installed_digests_def
        digests_match_def EqualFold_Nil split: if_splits option.splits)
qed (use assms in \<open>simp add: apply_report_to_def\<close>)

text \<open>
  C17: a task becomes a success only when the node runs what it was asked to install: a report makes it one
  when it names the digests of the target, or when it says that the updater was interrupted and the node
  has reported these digests itself; the reconciliation makes it one only when the node reports them.
\<close>

theorem success_needs_the_target:
  assumes "upgrades_wf s" and "t \<in> set (upgrade_tasks s)" and "nu_Status t \<noteq> NodeUpgradeSucceeded"
    and "nu_TargetSHA256 t \<noteq> []"
    and "t' \<in> set (upgrade_tasks s')" and "nu_ID t' = nu_ID t" and "nu_Status t' = NodeUpgradeSucceeded"
  shows "(RecordNodeUpgradeReport s n r now = Inr (s', x) \<longrightarrow>
      ur_Status r = Some NodeUpgradeSucceeded \<and> digests_match (ur_InstalledSHA256 r) (ur_InstalledNginxSHA256 r) t
      \<or> ur_ErrorCode r = ''updater_interrupted''
        \<and> (\<exists>node. find_node s n = Some node \<and> digests_match (nd_AgentSHA256 node) (nd_NginxSHA256 node) t))
    \<and> (s' = ReconcileNodeUpgrades s now \<longrightarrow> node_runs_target s t)"
proof (intro conjI impI)
  have same: False if "t' \<in> set (upgrade_tasks s)"
    using upgrade_row_unique [OF assms(1,2) that] assms(3,6,7) by simp
  assume "RecordNodeUpgradeReport s n r now = Inr (s', x)"
  then obtain y res where y: "find_row (\<lambda>t. nu_ID t = ur_TaskID r) (upgrades_of s n) = Some y"
    and res: "apply_report_to s n r now y = Inr res"
    and s': "s' = (case res of None \<Rightarrow> s
      | Some y' \<Rightarrow> s\<lparr>upgrade_tasks := update_rows (\<lambda>z. nu_ID z = nu_ID y) (\<lambda>_. y') (upgrade_tasks s)\<rparr>)"
    by (auto simp: RecordNodeUpgradeReport_def split: option.splits sum.splits)
  have yin: "y \<in> set (upgrade_tasks s)" using find_row_SomeD [OF y] by (simp add: upgrades_of_def)
  from same assms(5) s' obtain y' where y': "res = Some y'" by (cases res) auto
  with s' assms(5) same have t': "t' = y'" by (auto simp: set_update_rows split: if_splits)
  have "upgrade_moves y y'" using res y' by (blast intro: apply_report_to_moves)
  with t' assms(6) have "y = t"
    by (intro upgrade_row_unique [OF assms(1) yin assms(2)]) (simp add: upgrade_moves_def)
  with res y' t' show "ur_Status r = Some NodeUpgradeSucceeded \<and> digests_match (ur_InstalledSHA256 r) (ur_InstalledNginxSHA256 r) t
      \<or> ur_ErrorCode r = ''updater_interrupted''
        \<and> (\<exists>node. find_node s n = Some node \<and> digests_match (nd_AgentSHA256 node) (nd_NginxSHA256 node) t)"
    by (intro apply_report_to_success [OF _ assms(7,4)]) simp
next
  let ?s1 = "time_out_upgrades s now"
  assume s': "s' = ReconcileNodeUpgrades s now"
  then obtain t1 where t1: "t1 \<in> set (upgrade_tasks ?s1)"
    and t': "t' = (if recoverable ?s1 t1 then close_upgrade NodeUpgradeSucceeded [] recoveredUpgradeDetail now t1 else t1)"
    using assms(5) by (auto simp: ReconcileNodeUpgrades_def recover_upgrades_def set_update_rows)
  from t1 obtain t0 where t0: "t0 \<in> set (upgrade_tasks s)"
    and t1': "t1 = (if overdue now t0 then close_upgrade NodeUpgradeFailed ''upgrade_timeout''
        ''edge did not complete the online upgrade before the deadline'' now t0 else t0)"
    by (auto simp: time_out_upgrades_def set_update_rows)
  have "t0 = t" using assms(6)
    by (intro upgrade_row_unique [OF assms(1) t0 assms(2)]) (simp add: t' t1' close_upgrade_def split: if_splits)
  then have rec: "recoverable ?s1 t1" using t' t1' assms(3,7) by (auto simp: close_upgrade_def split: if_splits)
  have same_target: "nu_NodeID t1 = nu_NodeID t" "nu_TargetSHA256 t1 = nu_TargetSHA256 t"
    "nu_TargetNginxSHA256 t1 = nu_TargetNginxSHA256 t"
    by (simp_all add: t1' \<open>t0 = t\<close> close_upgrade_def)
  from rec have "node_runs_target ?s1 t1" by (simp add: recoverable_def)
  then show "node_runs_target s t" by (simp add: node_runs_target_def time_out_upgrades_def same_target)
qed

subsection \<open>Deadlines\<close>

lemma reconcile_keeps_open:
  assumes "t \<in> set (upgrade_tasks s)" and "active_upgrade_status (nu_Status t)" and "\<not> text_le (nu_DeadlineAt t) now"
  shows "t \<in> set (upgrade_tasks (ReconcileNodeUpgrades s now))"
proof -
  have "t \<in> set (upgrade_tasks (time_out_upgrades s now))"
    using assms by (force simp: time_out_upgrades_def set_update_rows overdue_def)
  moreover have "\<not> recoverable s1 t" for s1 using assms(2) by (auto simp: recoverable_def)
  ultimately show ?thesis
    unfolding ReconcileNodeUpgrades_def recover_upgrades_def by (force simp: set_update_rows)
qed

text \<open>
  After a reconciliation no task is open whose deadline lies a second or more in the past, and a task
  that still has a second to go is left as it is: the text comparison of the deadline costs at most a second.
\<close>

theorem upgrade_deadlines_close_tasks:
  "(\<forall>t \<in> set (upgrade_tasks (ReconcileNodeUpgrades s now)).
      active_upgrade_status (nu_Status t) \<longrightarrow> now < nu_DeadlineAt t + second)
   \<and> (\<forall>t \<in> set (upgrade_tasks s). active_upgrade_status (nu_Status t) \<and> now + second \<le> nu_DeadlineAt t \<longrightarrow>
        t \<in> set (upgrade_tasks (ReconcileNodeUpgrades s now)))"
proof (intro conjI ballI impI)
  fix t assume t: "t \<in> set (upgrade_tasks (ReconcileNodeUpgrades s now))" and act: "active_upgrade_status (nu_Status t)"
  then have "t \<in> set (upgrade_tasks (time_out_upgrades s now))"
    by (auto simp: ReconcileNodeUpgrades_def recover_upgrades_def set_update_rows close_upgrade_def
        active_upgrade_status_def split: if_splits)
  then obtain t0 where "t = (if overdue now t0 then close_upgrade NodeUpgradeFailed ''upgrade_timeout''
        ''edge did not complete the online upgrade before the deadline'' now t0 else t0)"
    by (auto simp: time_out_upgrades_def set_update_rows)
  then have "\<not> overdue now t" using act by (cases "overdue now t0") simp_all
  then have "text_le now (nu_DeadlineAt t)" using act text_le_linear by (auto simp: overdue_def)
  then show "now < nu_DeadlineAt t + second" by (rule text_le_imp_near)
next
  fix t assume t: "t \<in> set (upgrade_tasks s)" and "active_upgrade_status (nu_Status t) \<and> now + second \<le> nu_DeadlineAt t"
  then have act: "active_upgrade_status (nu_Status t)" and far: "now + second \<le> nu_DeadlineAt t" by auto
  have "\<not> text_le (nu_DeadlineAt t) now" using text_le_imp_near [of "nu_DeadlineAt t" now] far by auto
  with t act show "t \<in> set (upgrade_tasks (ReconcileNodeUpgrades s now))" by (rule reconcile_keeps_open)
qed

subsection \<open>The instruction\<close>

lemma singleton_filter:
  assumes "distinct xs" and "x \<in> set xs" and "P x" and "\<And>y. y \<in> set xs \<Longrightarrow> P y \<Longrightarrow> y = x"
  shows "filter P xs = [x]"
proof -
  have set: "set (filter P xs) = {x}" unfolding set_filter using assms(2-4) by blast
  moreover have "distinct (filter P xs)" using assms(1) by simp
  ultimately have "length (filter P xs) = 1" by (metis card_1_singleton_iff distinct_card One_nat_def)
  then obtain y where y: "filter P xs = [y]" by (metis One_nat_def length_0_conv length_Suc_conv)
  with set have "y = x" by simp
  with y show ?thesis by simp
qed

lemma open_upgrade_is_found:
  assumes "upgrades_wf s" and "t \<in> set (upgrade_tasks s)" and "active_upgrade_status (nu_Status t)"
  shows "active_upgrades_of s (nu_NodeID t) = [t]"
proof -
  have d: "distinct (upgrade_tasks s)" using assms(1) by (auto simp: upgrades_wf_def distinct_map)
  have "inj_on nu_NodeID (set (filter (\<lambda>t. active_upgrade_status (nu_Status t)) (upgrade_tasks s)))"
    using assms(1) by (simp add: upgrades_wf_def active_nodes_def distinct_map)
  then have "y = t" if "y \<in> set (upgrade_tasks s)" "nu_NodeID y = nu_NodeID t" "active_upgrade_status (nu_Status y)" for y
    using that assms(2,3) by (auto dest: inj_onD)
  with d assms(2,3) show ?thesis
    unfolding active_upgrades_of_def upgrades_of_def by (simp, intro singleton_filter) auto
qed

text \<open>
  The node that an upgrade was queued for is handed exactly the artifacts it was queued with, under
  the identifier and the deadline of its task, as long as the deadline has not passed and no field of
  an artifact is empty.
\<close>

theorem instruction_reaches_the_node:
  assumes "upgrades_wf s" and "CreateOrGetNodeUpgrade s nodeID i deadline fresh now = Inr (s', t, True)"
    and "later + second \<le> deadline"
    and "\<forall>a. ui_NginxBundle i = Some a \<or> ui_NginxService i = Some a \<longrightarrow> ua_URL a \<noteq> []"
  shows "snd (NodeUpgradeInstruction s' nodeID later) = Inr (i\<lparr>ui_TaskID := nu_ID t, ui_DeadlineAt := deadline\<rparr>)"
proof -
  have c: "createOrGetNodeUpgradeTx s nodeID i deadline [] fresh now = Inr (s', t, True)"
    using assms(2) by (simp add: CreateOrGetNodeUpgrade_def split: if_splits)
  obtain node where node: "find_node s nodeID = Some node"
    and s': "upgrade_tasks s' = upgrade_tasks s @ [new_upgrade fresh node i deadline now]"
    and t: "t = scan_task (new_upgrade fresh node i deadline now)"
    by (rule createOrGet_created [OF c]) (rule that)
  let ?row = "new_upgrade fresh node i deadline now" and ?r = "ReconcileNodeUpgrades s' later"
  have n: "nd_ID node = nodeID" using node by (auto simp: find_node_def dest: find_row_SomeD)
  have wf: "upgrades_wf s'" using upgrade_step_effect [OF upgrade_step.start [OF c] assms(1)] by simp
  then have wf': "upgrades_wf ?r" by (rule tasks_move_wf [OF reconcile_moves])
  have "\<not> text_le deadline later" using text_le_imp_near [of deadline later] assms(3) by auto
  then have kept: "?row \<in> set (upgrade_tasks ?r)"
    by (intro reconcile_keeps_open) (simp_all add: s' new_upgrade_def active_upgrade_status_def)
  have "active_upgrades_of ?r nodeID = [?row]"
    using open_upgrade_is_found [OF wf' kept] by (simp add: new_upgrade_def active_upgrade_status_def n)
  moreover have "stored_artifact (ui_NginxBundle i) = ui_NginxBundle i" "stored_artifact (ui_NginxService i) = ui_NginxService i"
    using assms(4) by (auto simp: stored_artifact_def split: option.splits)
  ultimately show ?thesis
    by (simp add: NodeUpgradeInstruction_def Let_def stored_instruction_def new_upgrade_def t scan_task_def
        node_upgrade_task.defs)
qed

subsection \<open>Witnesses\<close>

definition sample_instruction :: node_upgrade_instruction where
  "sample_instruction = \<lparr>ui_TaskID = [], ui_DeadlineAt = 0, ui_Binary = \<lparr>ua_URL = ''https://c/edge'', ua_SHA256 = ''ab''\<rparr>,
     ui_Installer = \<lparr>ua_URL = ''https://c/i'', ua_SHA256 = ''01''\<rparr>, ui_AgentService = \<lparr>ua_URL = ''https://c/a'', ua_SHA256 = ''02''\<rparr>,
     ui_UpdaterService = \<lparr>ua_URL = ''https://c/u'', ua_SHA256 = ''03''\<rparr>, ui_NginxBundle = None, ui_NginxService = None\<rparr>"

definition upgrade_store :: store where
  "upgrade_store = empty_store\<lparr>nodes := [(sample_node ''n1'')\<lparr>nd_AgentSHA256 := ''aa''\<rparr>]\<rparr>"

definition upgrade_report :: node_upgrade_report where
  "upgrade_report = \<lparr>ur_TaskID = ''u1'', ur_Status = Some NodeUpgradeSucceeded, ur_ErrorCode = [],
     ur_Detail = ''installed'', ur_InstalledSHA256 = ''AB'', ur_InstalledNginxSHA256 = []\<rparr>"

definition upgrading_row :: upgrade_row where
  "upgrading_row = new_upgrade ''u1'' ((sample_node ''n1'')\<lparr>nd_AgentSHA256 := ''aa''\<rparr>) sample_instruction (100 * second) second"

definition upgrading_store :: store where
  "upgrading_store = upgrade_store\<lparr>upgrade_tasks := [upgrading_row]\<rparr>"

lemma upgrading_wf: "upgrades_wf upgrading_store" "upgrades_wf upgrade_store"
  by (simp_all add: upgrades_wf_def upgrading_store_def upgrade_store_def empty_store_def active_nodes_def)

lemma upgrade_starts: "createOrGetNodeUpgradeTx upgrade_store ''n1'' sample_instruction (100 * second) [] ''u1'' second
    = Inr (upgrading_store, scan_task upgrading_row, True)"
  by code_simp

lemma upgrade_finishes: "\<exists>s' t'. RecordNodeUpgradeReport upgrading_store ''n1'' upgrade_report (2 * second) = Inr (s', scan_task t')
    \<and> upgrade_tasks s' = [t'] \<and> nu_Status t' = NodeUpgradeSucceeded \<and> nu_ID t' = ''u1''"
proof -
  have "map_prod (map (\<lambda>t. (nu_Status t, nu_ID t, scan_task t))) id (map_prod upgrade_tasks id
      (projr (RecordNodeUpgradeReport upgrading_store ''n1'' upgrade_report (2 * second))))
    = ([(NodeUpgradeSucceeded, ''u1'', scan_task (finish_upgrade NodeUpgradeSucceeded [] ''installed'' (2 * second) upgrading_row))],
       scan_task (finish_upgrade NodeUpgradeSucceeded [] ''installed'' (2 * second) upgrading_row))"
    "is_ok (RecordNodeUpgradeReport upgrading_store ''n1'' upgrade_report (2 * second))"
    by code_simp+
  then show ?thesis by (auto simp: is_ok_iff)
qed

lemma upgrades_only_move_forward_witness:
  "\<exists>s'. upgrade_step\<^sup>*\<^sup>* upgrade_store s' \<and> upgrades_wf s' \<and> nu_Status (hd (upgrade_tasks s')) = NodeUpgradeSucceeded"
proof -
  from upgrade_finishes obtain s' t' where
    fin: "RecordNodeUpgradeReport upgrading_store ''n1'' upgrade_report (2 * second) = Inr (s', scan_task t')"
    and ts: "upgrade_tasks s' = [t']" "nu_Status t' = NodeUpgradeSucceeded" by blast
  have "upgrade_step\<^sup>*\<^sup>* upgrade_store s'"
    using upgrade_step.start [OF upgrade_starts] upgrade_step.report [OF fin] by (meson rtranclp.simps)
  with upgrades_only_move_forward [OF this upgrading_wf(2)] ts show ?thesis by auto
qed

lemma success_needs_the_target_witness:
  "digests_match ''AB'' [] upgrading_row"
proof -
  from upgrade_finishes obtain s' t' where
    fin: "RecordNodeUpgradeReport upgrading_store ''n1'' upgrade_report (2 * second) = Inr (s', scan_task t')"
    and ts: "upgrade_tasks s' = [t']" "nu_Status t' = NodeUpgradeSucceeded" "nu_ID t' = ''u1''" by blast
  have row: "upgrading_row \<in> set (upgrade_tasks upgrading_store)" "nu_Status upgrading_row \<noteq> NodeUpgradeSucceeded"
    "nu_TargetSHA256 upgrading_row \<noteq> []" "nu_ID upgrading_row = ''u1''"
    by (simp_all add: upgrading_store_def upgrading_row_def new_upgrade_def sample_instruction_def)
  have "t' \<in> set (upgrade_tasks s')" "nu_ID t' = nu_ID upgrading_row" by (simp_all add: ts row)
  from success_needs_the_target [OF upgrading_wf(1) row(1-3) this ts(2), of "''n1''" upgrade_report "2 * second"] fin
  show ?thesis by (simp add: upgrade_report_def)
qed

lemma upgrade_deadlines_close_tasks_witness:
  "upgrading_row \<in> set (upgrade_tasks (ReconcileNodeUpgrades upgrading_store (99 * second)))
   \<and> \<not> active_upgrade_status (nu_Status (hd (upgrade_tasks (ReconcileNodeUpgrades upgrading_store (101 * second)))))"
proof
  have row: "upgrading_row \<in> set (upgrade_tasks upgrading_store)" "active_upgrade_status (nu_Status upgrading_row)"
    "nu_DeadlineAt upgrading_row = 100 * second"
    by (simp_all add: upgrading_store_def upgrading_row_def new_upgrade_def active_upgrade_status_def)
  with upgrade_deadlines_close_tasks [of upgrading_store "99 * second"]
  show "upgrading_row \<in> set (upgrade_tasks (ReconcileNodeUpgrades upgrading_store (99 * second)))"
    by (auto simp: second_def)
  have "map nu_DeadlineAt (upgrade_tasks (ReconcileNodeUpgrades upgrading_store (101 * second))) = [100 * second]"
    by code_simp
  then obtain t where t: "upgrade_tasks (ReconcileNodeUpgrades upgrading_store (101 * second)) = [t]" "nu_DeadlineAt t = 100 * second"
    by auto
  with upgrade_deadlines_close_tasks [of upgrading_store "101 * second"]
  show "\<not> active_upgrade_status (nu_Status (hd (upgrade_tasks (ReconcileNodeUpgrades upgrading_store (101 * second)))))"
    by (auto simp: second_def)
qed

lemma instruction_reaches_the_node_witness:
  "snd (NodeUpgradeInstruction upgrading_store ''n1'' (50 * second))
   = Inr (sample_instruction\<lparr>ui_TaskID := ''u1'', ui_DeadlineAt := 100 * second\<rparr>)"
proof -
  have c: "CreateOrGetNodeUpgrade upgrade_store ''n1'' sample_instruction (100 * second) ''u1'' second
    = Inr (upgrading_store, scan_task upgrading_row, True)" by code_simp
  have "nu_ID (scan_task upgrading_row) = ''u1''" by code_simp
  with instruction_reaches_the_node [OF upgrading_wf(2) c, of "50 * second"] show ?thesis
    by (simp add: second_def sample_instruction_def)
qed

end
