(* ===== verification/Rollout_Properties.thy ===== *)
theory Rollout_Properties
  imports Rollout_Round Upgrade_Properties
begin

section \<open>Properties of rollouts\<close>

text \<open>
  The invariant of a rollout (the canary goes first, no more nodes in flight than allowed, no failed member
  in a running rollout), that writes of stale copies are refused, and that a member only succeeds after
  an unbroken window of healthy observations.
\<close>

subsection \<open>The invariant\<close>

definition members_wf :: "int \<Rightarrow> rollout_member list \<Rightarrow> bool" where
  "members_wf limit ms \<longleftrightarrow> ms \<noteq> [] \<and> int (count_rows in_flight ms) \<le> limit
     \<and> (\<forall>m \<in> set (tl ms). rm_State m = MemberPending \<or> rm_State m = MemberSkipped \<or> rm_State (hd ms) = MemberSucceeded)"

definition rollout_wf :: "upgrade_rollout \<Rightarrow> bool" where
  "rollout_wf r \<longleftrightarrow> 1 \<le> ro_MaxParallel r \<and> ro_MaxParallel r \<le> 10
     \<and> 30 \<le> ro_HealthWindowSeconds r \<and> ro_HealthWindowSeconds r \<le> 600
     \<and> members_wf (ro_MaxParallel r) (ro_Members r)
     \<and> (ro_State r = RolloutRunning \<longrightarrow> (\<forall>m \<in> set (ro_Members r). rm_State m \<noteq> MemberFailed))
     \<and> (ro_State r = RolloutSucceeded \<longrightarrow> (\<forall>m \<in> set (ro_Members r). rm_State m = MemberSucceeded))"

definition rollouts_wf :: "rollout_row list \<Rightarrow> bool" where
  "rollouts_wf rows \<longleftrightarrow> distinct (map (\<lambda>x. ro_ID (rr_Rollout x)) rows)
     \<and> count_rows (\<lambda>x. rollout_open (rr_Rollout x)) rows \<le> 1
     \<and> (\<forall>x \<in> set rows. rollout_wf (rr_Rollout x))"

text \<open>How the members of a rollout may change in one observation.\<close>

definition member_moves :: "rollout_member \<Rightarrow> rollout_member \<Rightarrow> bool" where
  "member_moves m m' \<longleftrightarrow> m' = m \<or> (in_flight m \<and> rm_State m' \<noteq> MemberPending \<and> rm_State m' \<noteq> MemberSkipped)"

lemma member_moves_count:
  "list_all2 member_moves ms ms' \<Longrightarrow> count_rows in_flight ms' \<le> count_rows in_flight ms"
  by (induction rule: list_all2_induct) (auto simp: member_moves_def)

lemma list_all2_in_set2: "list_all2 P xs ys \<Longrightarrow> y \<in> set ys \<Longrightarrow> \<exists>x \<in> set xs. P x y"
  by (induction rule: list_all2_induct) auto

lemma members_wf_moves:
  assumes "list_all2 member_moves ms ms'" and "members_wf limit ms"
  shows "members_wf limit ms'"
proof -
  obtain m ns where ms: "ms = m # ns" using assms(2) by (cases ms) (auto simp: members_wf_def)
  then obtain m' ns' where ms': "ms' = m' # ns'" and m: "member_moves m m'" and ns: "list_all2 member_moves ns ns'"
    using assms(1) by (auto simp: list_all2_Cons1)
  have "rm_State x' = MemberPending \<or> rm_State x' = MemberSkipped \<or> rm_State m' = MemberSucceeded"
    if "x' \<in> set ns'" for x'
  proof -
    obtain x where "x \<in> set ns" "member_moves x x'"
      using list_all2_in_set2 [OF ns \<open>x' \<in> set ns'\<close>] by blast
    moreover from this assms(2) have "rm_State x = MemberPending \<or> rm_State x = MemberSkipped \<or> rm_State m = MemberSucceeded"
      by (simp add: members_wf_def ms)
    moreover have "rm_State m = MemberSucceeded \<Longrightarrow> m' = m" "\<not> in_flight x \<Longrightarrow> x' = x"
      using m \<open>member_moves x x'\<close> by (auto simp: member_moves_def in_flight_def)
    ultimately show ?thesis by (cases "in_flight x") (auto simp: in_flight_def)
  qed
  with member_moves_count [OF assms(1)] assms(2) show ?thesis by (auto simp: members_wf_def ms')
qed

lemma count_rows_map: "(\<And>x. x \<in> set xs \<Longrightarrow> P (f x) = P x) \<Longrightarrow> count_rows P (map f xs) = count_rows P xs"
  by (induction xs) auto

lemma members_wf_map:
  assumes "members_wf limit ms"
    and "\<And>m. f m = m \<or> \<not> in_flight m \<and> rm_State m \<noteq> MemberSucceeded \<and> (rm_State (f m) = MemberPending \<or> rm_State (f m) = MemberSkipped)"
  shows "members_wf limit (map f ms)"
proof -
  obtain m ns where ms: "ms = m # ns" using assms(1) by (cases ms) (auto simp: members_wf_def)
  have "in_flight (f x) = in_flight x" for x using assms(2) [of x] by (auto simp: in_flight_def)
  then have "count_rows in_flight (map f ms) = count_rows in_flight ms" by (intro count_rows_map)
  moreover have "rm_State (f x) = MemberPending \<or> rm_State (f x) = MemberSkipped \<or> rm_State (f m) = MemberSucceeded"
    if "x \<in> set ns" for x
  proof -
    have "rm_State x = MemberPending \<or> rm_State x = MemberSkipped \<or> rm_State m = MemberSucceeded"
      using assms(1) that by (auto simp: members_wf_def ms)
    with assms(2) [of x] assms(2) [of m] show ?thesis by (elim disjE conjE) simp_all
  qed
  ultimately show ?thesis using assms(1) by (auto simp: members_wf_def ms)
qed

lemma count_rows_list_update: "count_rows P (xs[k := x]) \<le> Suc (count_rows P xs)"
proof (induction xs arbitrary: k)
  case (Cons a xs)
  then show ?case by (cases k) auto
qed simp

lemma members_wf_dispatch:
  assumes "members_wf limit ms" and "k < length ms" and "rm_State (ms ! k) = MemberPending"
    and "int (count_rows in_flight ms) < limit" and "k = 0 \<or> rm_State (ms ! 0) = MemberSucceeded"
  shows "members_wf limit (ms[k := m'])"
proof -
  obtain m ns where ms: "ms = m # ns" using assms(1) by (cases ms) (auto simp: members_wf_def)
  have "int (count_rows in_flight (ms[k := m'])) \<le> limit"
    using count_rows_list_update [of in_flight ms k m'] assms(4) by linarith
  moreover have "\<forall>x \<in> set (tl (ms[k := m'])). rm_State x = MemberPending \<or> rm_State x = MemberSkipped
      \<or> rm_State (hd (ms[k := m'])) = MemberSucceeded"
  proof (cases k)
    case 0
    with assms(1,3) show ?thesis by (auto simp: members_wf_def ms)
  next
    case (Suc j)
    with assms(5) show ?thesis by (simp add: ms)
  qed
  moreover have "ms[k := m'] \<noteq> []" using assms(2) by auto
  ultimately show ?thesis unfolding members_wf_def by blast
qed

subsection \<open>Saving\<close>

lemma rollout_wf_bump [simp]: "rollout_wf (r\<lparr>ro_Revision := v, ro_UpdatedAt := t\<rparr>) = rollout_wf r"
  by (simp add: rollout_wf_def)

lemma rollout_open_bump [simp]: "rollout_open (r\<lparr>ro_Revision := v, ro_UpdatedAt := t\<rparr>) = rollout_open r"
  by (simp add: rollout_open_def)

lemma count_rows_update_le:
  "(\<And>r. r \<in> set rows \<Longrightarrow> P r \<Longrightarrow> Q r) \<Longrightarrow> count_rows Q (update_rows P f rows) \<le> count_rows Q rows"
  by (induction rows) (auto simp: le_SucI)

text \<open>The stored rollout that a save replaces; \<open>r'\<close> is what the caller goes on with.\<close>

lemma save_keeps_wf:
  assumes save: "saveUpgradeRolloutTx s x now = Inr (s', r')" and wf: "rollouts_wf (rollouts s)"
    and row: "row \<in> set (rollouts s)" "ro_ID (rr_Rollout row) = ro_ID x" "rollout_open (rr_Rollout row)"
    and x: "rollout_wf x"
  shows "rollouts_wf (rollouts s') \<and> r' = x\<lparr>ro_Revision := ro_Revision x + 1, ro_UpdatedAt := now\<rparr>
    \<and> (\<exists>row' \<in> set (rollouts s'). rr_Rollout row' = r')"
proof -
  let ?hit = "\<lambda>y. ro_ID (rr_Rollout y) = ro_ID x \<and> ro_Revision (rr_Rollout y) = ro_Revision x"
  let ?f = "rr_Rollout_update (\<lambda>_. r')"
  have c: "count_rows ?hit (rollouts s) = 1" and r': "r' = x\<lparr>ro_Revision := ro_Revision x + 1, ro_UpdatedAt := now\<rparr>"
    and rows: "rollouts s' = update_rows ?hit ?f (rollouts s)"
    using save by (auto simp: saveUpgradeRolloutTx_def Let_def split: if_splits)
  have hit: "y = row" if "y \<in> set (rollouts s)" "ro_ID (rr_Rollout y) = ro_ID x" for y
    using that row(1,2) wf unfolding rollouts_wf_def distinct_map by (metis inj_onD)
  have "map (\<lambda>x. ro_ID (rr_Rollout x)) (rollouts s') = map (\<lambda>x. ro_ID (rr_Rollout x)) (rollouts s)"
    unfolding rows by (rule map_key_update_rows) (simp add: r')
  moreover have "count_rows (\<lambda>x. rollout_open (rr_Rollout x)) (rollouts s') \<le> count_rows (\<lambda>x. rollout_open (rr_Rollout x)) (rollouts s)"
    unfolding rows using hit row(3) by (intro count_rows_update_le) auto
  moreover have "\<forall>y \<in> set (rollouts s'). rollout_wf (rr_Rollout y)"
    using wf x by (auto simp: rows set_update_rows rollouts_wf_def r')
  moreover obtain y where "y \<in> set (rollouts s)" "?hit y"
    using c by (metis (mono_tags, lifting) count_rows_0 zero_neq_one)
  then have "\<exists>row' \<in> set (rollouts s'). rr_Rollout row' = r'"
    unfolding rows set_update_rows by (intro bexI [of _ "?f y"]) auto
  ultimately show ?thesis using wf r' by (auto simp: rollouts_wf_def)
qed

lemma save_round_keeps_wf:
  assumes "save_round s x now = (s', res)" and "rollouts_wf (rollouts s)"
    and "row \<in> set (rollouts s)" "ro_ID (rr_Rollout row) = ro_ID x" "rollout_open (rr_Rollout row)"
    and "rollout_wf x"
  shows "rollouts_wf (rollouts s')"
proof (cases "SaveUpgradeRollout s x now")
  case (Inl e)
  with assms(1,2) show ?thesis by (simp add: save_round_def)
next
  case (Inr p)
  moreover obtain s1 r1 where "p = (s1, r1)" by (cases p)
  ultimately show ?thesis
    using assms(1) save_keeps_wf [OF _ assms(2-6), of now s1 r1] by (simp add: save_round_def SaveUpgradeRollout_def)
qed

subsection \<open>The operations keep the invariant\<close>

lemma reconcile_rollouts [simp]: "rollouts (ReconcileNodeUpgrades s now) = rollouts s"
  by (simp add: ReconcileNodeUpgrades_def recover_upgrades_def time_out_upgrades_def)

lemma createOrGet_rollouts:
  assumes "createOrGetNodeUpgradeTx s nodeID i deadline rolloutID fresh now = Inr (s', t, c)"
  shows "rollouts s' = rollouts s"
proof (cases "latest nu_CreatedAt (active_upgrades_of s nodeID)")
  case None
  with assms show ?thesis by (auto simp: createOrGetNodeUpgradeTx_def Let_def)
next
  case (Some a)
  with assms show ?thesis by (simp add: createOrGetNodeUpgradeTx_def)
qed

lemma check_members_pending:
  "check_members s r i seen ms = Inr ms' \<Longrightarrow> length ms' = length ms \<and> (\<forall>m \<in> set ms'. rm_State m = MemberPending)"
  by (induction ms arbitrary: seen ms') (auto split: option.splits)

lemma create_keeps_wf:
  assumes "CreateUpgradeRollout s r i fresh now = Inr (s', r')" and "rollouts_wf (rollouts s)"
  shows "rollouts_wf (rollouts s')"
proof -
  from assms(1) obtain ms where limits: "ro_Members r \<noteq> []" "1 \<le> ro_MaxParallel r" "ro_MaxParallel r \<le> 10"
      "30 \<le> ro_HealthWindowSeconds r" "ro_HealthWindowSeconds r \<le> 600"
    and idle: "\<forall>x \<in> set (rollouts s). \<not> rollout_open (rr_Rollout x)"
    and ms: "check_members s r i {} (ro_Members r) = Inr ms"
    and new: "\<forall>x \<in> set (rollouts s). ro_ID (rr_Rollout x) \<noteq> fresh"
    and s': "rollouts s' = rollouts s @ [\<lparr>rr_Rollout = r\<lparr>ro_ID := fresh, ro_State := RolloutRunning, ro_Revision := 1,
      ro_CreatedAt := now, ro_UpdatedAt := now, ro_Detail := err detail_waiting_canary, ro_Members := ms\<rparr>, rr_Instructions = i\<rparr>]"
    by (auto simp: CreateUpgradeRollout_def Let_def list_ex_iff not_less)
  have pend: "\<forall>m \<in> set ms. rm_State m = MemberPending" and ne: "ms \<noteq> []"
    using check_members_pending [OF ms] limits(1) by auto
  have "count_rows in_flight ms = 0" using pend by (simp add: count_rows_0 in_flight_def)
  moreover have "\<forall>m \<in> set (tl ms). rm_State m = MemberPending" using pend by (meson list.set_sel(2) ne)
  ultimately have "members_wf (ro_MaxParallel r) ms" using ne limits(2) by (simp add: members_wf_def)
  moreover have "count_rows (\<lambda>x. rollout_open (rr_Rollout x)) (rollouts s) = 0" using idle by (simp add: count_rows_0)
  ultimately show ?thesis using assms(2) limits pend new
    by (auto simp: s' rollouts_wf_def rollout_wf_def)
qed

lemma change_rollout_wf:
  assumes "change_rollout action r = Inr r'" and "rollout_wf r"
  shows "rollout_wf r' \<and> ro_ID r' = ro_ID r"
proof -
  have retry: "members_wf k (map retry_member ms)" and skip: "members_wf k (map skip_member ms)"
    if "members_wf k ms" for k ms
    by (rule members_wf_map [OF that]; auto simp: retry_member_def skip_member_def in_flight_def)+
  have "rm_State (retry_member m) \<noteq> MemberFailed" for m by (simp add: retry_member_def)
  with assms retry skip show ?thesis by (auto simp: change_rollout_def rollout_wf_def split: if_splits)
qed

lemma find_rollout_SomeD: "find_rollout s i = Some row \<Longrightarrow> row \<in> set (rollouts s) \<and> ro_ID (rr_Rollout row) = i"
  by (auto simp: find_rollout_def dest: find_row_SomeD)

lemma change_keeps_wf:
  assumes "ChangeUpgradeRollout s i action now = Inr (s', r')" and "rollouts_wf (rollouts s)"
  shows "rollouts_wf (rollouts s')"
proof -
  from assms(1) obtain row r where row: "find_rollout s i = Some row" "rollout_open (rr_Rollout row)"
    and r: "change_rollout action (rr_Rollout row) = Inr r" and save: "saveUpgradeRolloutTx s r now = Inr (s', r')"
    by (auto simp: ChangeUpgradeRollout_def)
  note found = find_rollout_SomeD [OF row(1)]
  with assms(2) have "rollout_wf (rr_Rollout row)" by (auto simp: rollouts_wf_def)
  note x = change_rollout_wf [OF r this]
  show ?thesis using save_keeps_wf [OF save assms(2) conjunct1 [OF found] _ row(2)] x by simp
qed

lemma member_index_SomeD:
  "member_index n ms = Some k \<Longrightarrow> k < length ms \<and> rm_NodeID (ms ! k) = n"
  by (induction ms arbitrary: k) (auto split: option.splits if_splits)

lemma set_member_wf:
  assumes "rollout_wf r" and "ro_State r = RolloutRunning"
    and "k < length (ro_Members r)" and "rm_State (ro_Members r ! k) = MemberPending"
    and "int (count_rows in_flight (ro_Members r)) < ro_MaxParallel r"
    and "k = 0 \<or> rm_State (ro_Members r ! 0) = MemberSucceeded" and "in_flight m'"
  shows "rollout_wf (set_member k m' r)"
proof -
  have "members_wf (ro_MaxParallel r) ((ro_Members r)[k := m'])"
    using assms by (intro members_wf_dispatch) (simp_all add: rollout_wf_def)
  moreover have "\<forall>m \<in> set ((ro_Members r)[k := m']). rm_State m \<noteq> MemberFailed"
    using assms(1,2,7) set_update_subset_insert [of "ro_Members r" k m'] by (auto simp: rollout_wf_def in_flight_def)
  ultimately show ?thesis using assms(1,2) by (simp add: rollout_wf_def set_member_def)
qed

lemma start_member_saves:
  assumes "start_member s row k m deadline fresh now = Inr (s', r')"
  obtains s1 m' where "saveUpgradeRolloutTx s1 (set_member k m' (rr_Rollout row)) now = Inr (s', r')"
    "rollouts s1 = rollouts s" "in_flight m'"
proof (cases "installed_before s m")
  case (Inl e)
  with assms show ?thesis by (simp add: start_member_def)
next
  case (Inr b)
  show ?thesis
  proof (cases b)
    case True
    with assms Inr show ?thesis
      by (intro that [of s "m\<lparr>rm_State := MemberVerifying, rm_Detail := detail_reobserve, rm_VerificationStartedAt := Some now\<rparr>"])
        (simp_all add: start_member_def in_flight_def)
  next
    case False
    with assms Inr obtain instruction s1 task where
      "createOrGetNodeUpgradeTx s (rm_NodeID m) instruction deadline (ro_ID (rr_Rollout row)) fresh now = Inr (s1, task, True)"
      and "saveUpgradeRolloutTx s1 (set_member k (m\<lparr>rm_TaskID := nu_ID task, rm_State := MemberUpgrading,
        rm_Detail := detail_wait_upgrade\<rparr>) (rr_Rollout row)) now = Inr (s', r')"
      by (auto simp: start_member_def)
    moreover have "in_flight (m\<lparr>rm_TaskID := nu_ID task, rm_State := MemberUpgrading, rm_Detail := detail_wait_upgrade\<rparr>)"
      by (simp add: in_flight_def)
    ultimately show ?thesis by (blast intro: that createOrGet_rollouts)
  qed
qed

lemma dispatch_keeps_wf:
  assumes "DispatchUpgradeRolloutNode s i nodeID deadline fresh now = Inr (s', r')" and "rollouts_wf (rollouts s)"
  shows "rollouts_wf (rollouts s') \<and> ro_State r' = RolloutRunning \<and> (\<exists>row \<in> set (rollouts s'). rr_Rollout row = r')"
proof -
  from assms(1) obtain row k where row: "find_rollout s i = Some row"
    and run: "ro_State (rr_Rollout row) = RolloutRunning"
    and k: "member_index nodeID (ro_Members (rr_Rollout row)) = Some k"
    and guards: "rm_State (ro_Members (rr_Rollout row) ! k) = MemberPending"
      "int (count_rows in_flight (ro_Members (rr_Rollout row))) < ro_MaxParallel (rr_Rollout row)"
      "k = 0 \<or> rm_State (ro_Members (rr_Rollout row) ! 0) = MemberSucceeded"
    and start: "start_member s row k (ro_Members (rr_Rollout row) ! k) deadline fresh now = Inr (s', r')"
    by (auto simp: DispatchUpgradeRolloutNode_def Let_def not_le)
  obtain s1 m' where save: "saveUpgradeRolloutTx s1 (set_member k m' (rr_Rollout row)) now = Inr (s', r')"
    and s1: "rollouts s1 = rollouts s" and m': "in_flight m'"
    by (rule start_member_saves [OF start]) (rule that)
  note found = find_rollout_SomeD [OF row]
  have "rollout_wf (rr_Rollout row)" using found assms(2) by (auto simp: rollouts_wf_def)
  from set_member_wf [OF this run _ guards m'] member_index_SomeD [OF k]
  have "rollout_wf (set_member k m' (rr_Rollout row))" by simp
  moreover have op: "rollout_open (rr_Rollout row)" by (simp add: rollout_open_def run)
  ultimately have saved: "rollouts_wf (rollouts s') \<and> r' = (set_member k m' (rr_Rollout row))\<lparr>ro_Revision :=
      ro_Revision (set_member k m' (rr_Rollout row)) + 1, ro_UpdatedAt := now\<rparr>
    \<and> (\<exists>row' \<in> set (rollouts s'). rr_Rollout row' = r')"
    using found assms(2) by (intro save_keeps_wf [OF save, of row]) (simp_all add: s1 set_member_def)
  then have "ro_State r' = RolloutRunning" by (simp add: set_member_def run)
  with saved show ?thesis by blast
qed

subsection \<open>The round keeps the invariant\<close>

lemma observe_ready_state: "rm_State (observe_ready w at m) = MemberSucceeded \<or> rm_State (observe_ready w at m) = rm_State m"
  by (simp add: observe_ready_def Let_def)

lemma begin_verifying_state: "rm_State (begin_verifying at m) = MemberVerifying"
  by (simp add: begin_verifying_def)

lemma observe_member_states:
  assumes "observe_member w at v m = (m', pause)"
  shows "rm_State m' = MemberVerifying \<or> rm_State m' = MemberSucceeded \<or> rm_State m' = MemberFailed \<and> pause \<noteq> None"
  using assms observe_ready_state [of w at "begin_verifying at m"] begin_verifying_state [of at m]
  by (auto simp: observe_member_def observe_unready_def Let_def split: if_splits)

lemma observe_one_effect:
  assumes "observe_one probe s w at m = Inr (m', pause, changed)"
  shows "member_moves m m' \<and> (rm_State m' = MemberFailed \<longrightarrow> rm_State m = MemberFailed \<or> pause \<noteq> None)
    \<and> (\<not> changed \<longrightarrow> m' = m \<and> pause = None)"
proof (cases "in_flight m")
  case False
  with assms show ?thesis by (auto simp: observe_one_def member_moves_def)
next
  case True
  with assms obtain task where task: "NodeUpgradeTask s (rm_TaskID m) = Inr task"
    by (auto simp: observe_one_def)
  show ?thesis
  proof (cases "nu_Status task = NodeUpgradeSucceeded")
    case False
    with True assms task show ?thesis
      by (auto simp: observe_one_def member_moves_def split: if_splits)
  next
    case True
    with \<open>in_flight m\<close> assms task obtain v where ready: "upgradeRolloutNodeReady probe s (rm_NodeID m) task at = Inr v"
      by (auto simp: observe_one_def)
    obtain m1 p1 where "observe_member w at v m = (m1, p1)" by (cases "observe_member w at v m")
    with ready True \<open>in_flight m\<close> assms task have v: "observe_member w at v m = (m', pause)" "changed"
      by (auto simp: observe_one_def)
    with observe_member_states [OF v(1)] \<open>in_flight m\<close> show ?thesis by (auto simp: member_moves_def)
  qed
qed

lemma observe_members_effect:
  "observe_members probe s w at ms = Inr (ms', pause, changed) \<Longrightarrow>
    list_all2 member_moves ms ms'
    \<and> ((\<exists>m \<in> set ms'. rm_State m = MemberFailed) \<longrightarrow> (\<exists>m \<in> set ms. rm_State m = MemberFailed) \<or> pause \<noteq> None)
    \<and> (\<not> changed \<longrightarrow> ms' = ms \<and> pause = None)"
proof (induction ms arbitrary: ms' pause changed)
  case Nil
  then show ?case by simp
next
  case (Cons m ms)
  from Cons.prems obtain x where x: "observe_one probe s w at m = Inr x" by (cases "observe_one probe s w at m") auto
  obtain m' p c where xs: "x = (m', p, c)" by (cases x)
  note one = x [unfolded xs]
  from Cons.prems one obtain y where y: "observe_members probe s w at ms = Inr y"
    by (cases "observe_members probe s w at ms") auto
  obtain ns q d where ys: "y = (ns, q, d)" by (cases y)
  note rest = y [unfolded ys]
  from Cons.prems one rest have eqs: "ms' = m' # ns" "pause = (if q = None then p else q)" "changed = (c \<or> d)" by auto
  from observe_one_effect [OF one] Cons.IH [OF rest] show ?case unfolding eqs by auto
qed

lemma observed_rollout_wf:
  assumes "observe_members probe s w at (ro_Members r) = Inr (ms, pause, changed)"
    and "rollout_wf r" and "rollout_open r"
  shows "rollout_wf (observed_rollout r ms pause) \<and> ro_ID (observed_rollout r ms pause) = ro_ID r
    \<and> rollout_open (observed_rollout r ms pause)"
proof -
  note eff = observe_members_effect [OF assms(1)]
  have "members_wf (ro_MaxParallel r) ms" using eff assms(2) by (blast intro: members_wf_moves [OF _ _] dest: rollout_wf_def [THEN iffD1])
  with eff assms(2,3) show ?thesis
    by (cases pause) (auto simp: observed_rollout_def rollout_wf_def rollout_open_def)
qed

lemma pause_wf: "rollout_wf r \<Longrightarrow> rollout_wf (r\<lparr>ro_State := RolloutPaused, ro_Detail := d\<rparr>)"
  by (simp add: rollout_wf_def)

lemma pause_round_keeps_wf:
  assumes "pause_round s r d now = (s', res)" and "rollouts_wf (rollouts s)"
    and "row \<in> set (rollouts s)" and "rr_Rollout row = r" and "rollout_open r"
  shows "rollouts_wf (rollouts s')"
proof -
  have "rollout_wf r" using assms(2-4) by (auto simp: rollouts_wf_def)
  then show ?thesis
    by (intro save_round_keeps_wf [OF assms(1) [unfolded pause_round_def] assms(2,3)]) (simp_all add: assms(4,5) pause_wf)
qed

lemma dispatch_members_keep_wf:
  assumes "rollouts_wf (rollouts s)" and "row \<in> set (rollouts s)" and "rr_Rollout row = r"
    and "ro_State r = RolloutRunning"
  shows "case dispatch_members fresh k at now s r ms of
      RoundEnds s' res \<Rightarrow> rollouts_wf (rollouts s')
    | RoundGoesOn s' r' \<Rightarrow> rollouts_wf (rollouts s') \<and> ro_State r' = RolloutRunning \<and> (\<exists>row \<in> set (rollouts s'). rr_Rollout row = r')"
  using assms
proof (induction ms arbitrary: k s r row)
  case Nil
  then show ?case by auto
next
  case (Cons m ms)
  have op: "rollout_open r" using Cons.prems(4) by (simp add: rollout_open_def)
  have paused: "rollouts_wf (rollouts s')" if "pause_round s r d now = (s', res)" for s' res d
    by (rule pause_round_keeps_wf [OF that Cons.prems(1-3) op])
  consider "rm_State m \<noteq> MemberPending" | "rm_State m = MemberPending" "must_wait r m"
    | "rm_State m = MemberPending" "\<not> must_wait r m" "stale_node s (rm_NodeID m) at"
    | "rm_State m = MemberPending" "\<not> must_wait r m" "\<not> stale_node s (rm_NodeID m) at" by blast
  then show ?case
  proof cases
    case 1
    with Cons.IH [OF Cons.prems] show ?thesis by simp
  next
    case 2
    with Cons.prems show ?thesis by auto
  next
    case 3
    with paused show ?thesis by (simp split: prod.split)
  next
    case 4
    show ?thesis
    proof (cases "DispatchUpgradeRolloutNode s (ro_ID r) (rm_NodeID m) (now + nodeUpgradeTimeout) (fresh k) now")
      case (Inl e)
      with 4 paused show ?thesis by (simp split: prod.split)
    next
      case (Inr p)
      then obtain s1 r1 where d: "DispatchUpgradeRolloutNode s (ro_ID r) (rm_NodeID m) (now + nodeUpgradeTimeout) (fresh k) now
        = Inr (s1, r1)" by (cases p) auto
      from dispatch_keeps_wf [OF d Cons.prems(1)] obtain row1 where
        "rollouts_wf (rollouts s1)" "ro_State r1 = RolloutRunning" "row1 \<in> set (rollouts s1)" "rr_Rollout row1 = r1" by blast
      with Cons.IH [of s1 row1 r1 "Suc k"] 4 d show ?thesis by simp
    qed
  qed
qed

lemma finish_round_keeps_wf:
  assumes "finish_round s r now = (s', res)" and "rollouts_wf (rollouts s)"
    and "row \<in> set (rollouts s)" and "rr_Rollout row = r" and "rollout_open r"
  shows "rollouts_wf (rollouts s')"
proof (cases "all_succeeded r")
  case True
  have "rollout_wf r" using assms(2-4) by (auto simp: rollouts_wf_def)
  then have "rollout_wf (r\<lparr>ro_State := RolloutSucceeded, ro_Detail := err detail_all_passed\<rparr>)"
    using True by (auto simp: rollout_wf_def all_succeeded_def list_all_iff)
  moreover have "save_round s (r\<lparr>ro_State := RolloutSucceeded, ro_Detail := err detail_all_passed\<rparr>) now = (s', res)"
    using assms(1) True by (simp add: finish_round_def)
  ultimately show ?thesis
    by (intro save_round_keeps_wf [OF _ assms(2,3)]) (simp_all add: assms(4,5))
next
  case False
  with assms(1,2) show ?thesis by (simp add: finish_round_def)
qed

lemma dispatch_round_keeps_wf:
  assumes "dispatch_round target sha fresh at now s r = (s', res)" and "rollouts_wf (rollouts s)"
    and "row \<in> set (rollouts s)" and "rr_Rollout row = r" and "ro_State r = RolloutRunning"
  shows "rollouts_wf (rollouts s')"
proof -
  have op: "rollout_open r" using assms(5) by (simp add: rollout_open_def)
  note loop = dispatch_members_keep_wf [OF assms(2-5), of fresh 0 at now "ro_Members r"]
  show ?thesis
  proof (cases "artifacts_current r target sha")
    case False
    with assms(1) show ?thesis
      by (intro pause_round_keeps_wf [OF _ assms(2-4) op]) (simp add: dispatch_round_def)
  next
    case True
    show ?thesis
    proof (cases "dispatch_members fresh 0 at now s r (ro_Members r)")
      case (RoundEnds s1 res1)
      with loop True assms(1) show ?thesis by (simp add: dispatch_round_def)
    next
      case (RoundGoesOn s1 r1)
      with loop obtain row1 where one: "rollouts_wf (rollouts s1)" "row1 \<in> set (rollouts s1)" "rr_Rollout row1 = r1"
        and run: "ro_State r1 = RolloutRunning" by auto
      have "finish_round s1 r1 now = (s', res)" using assms(1) True RoundGoesOn by (simp add: dispatch_round_def)
      then show ?thesis by (rule finish_round_keeps_wf [OF _ one]) (simp add: rollout_open_def run)
    qed
  qed
qed

lemma last_rollout_in: "last_rollout rows = Some r \<Longrightarrow> r \<in> set rows"
  by (induction rows arbitrary: r) (auto split: option.splits if_splits)

lemma round_keeps_wf:
  assumes "reconcileUpgradeRollout ctx probe target sha fresh s at now = (s', res)" and "rollouts_wf (rollouts s)"
  shows "rollouts_wf (rollouts s')"
proof (cases "ctx = None \<and> last_rollout (rollouts s) \<noteq> None")
  case False
  with assms show ?thesis
    by (cases ctx) (auto simp: reconcileUpgradeRollout_def Let_def LatestUpgradeRollout_def)
next
  case True
  let ?s1 = "ReconcileNodeUpgrades s now"
  from True obtain row where row: "last_rollout (rollouts s) = Some row" by auto
  let ?r = "rr_Rollout row"
  have rin: "row \<in> set (rollouts ?s1)" using last_rollout_in [OF row] by simp
  have wf1: "rollouts_wf (rollouts ?s1)" using assms(2) by simp
  then have rwf: "rollout_wf ?r" using rin by (auto simp: rollouts_wf_def)
  note unfolded = assms(1) [unfolded reconcileUpgradeRollout_def Let_def LatestUpgradeRollout_def reconcile_rollouts row]
  show ?thesis
  proof (cases "rollout_open ?r")
    case False
    with unfolded True wf1 show ?thesis by simp
  next
    case op: True
    show ?thesis
    proof (cases "observe_members probe ?s1 (ro_HealthWindowSeconds ?r) at (ro_Members ?r)")
      case (Inl e)
      with unfolded True op wf1 show ?thesis by simp
    next
      case (Inr p)
      obtain ms pause changed where p: "p = (ms, pause, changed)" by (cases p)
      note seen = observed_rollout_wf [OF Inr [unfolded p] rwf op]
      let ?saved = "if changed then SaveUpgradeRollout ?s1 (observed_rollout ?r ms pause) now else Inr (?s1, ?r)"
      show ?thesis
      proof (cases ?saved)
        case (Inl e)
        with unfolded True op Inr p wf1 show ?thesis by simp
      next
        case saved: (Inr q)
        obtain s2 r2 where q: "q = (s2, r2)" by (cases q)
        have "rollouts_wf (rollouts s2) \<and> rollout_open r2 \<and> (\<exists>row2 \<in> set (rollouts s2). rr_Rollout row2 = r2)"
        proof (cases changed)
          case True
          then have "saveUpgradeRolloutTx ?s1 (observed_rollout ?r ms pause) now = Inr (s2, r2)"
            using saved q by (simp add: SaveUpgradeRollout_def)
          from save_keeps_wf [OF this wf1 rin _ op] seen show ?thesis by (metis rollout_open_bump)
        next
          case False
          with saved q wf1 rin op show ?thesis by auto
        qed
        then obtain row2 where two: "rollouts_wf (rollouts s2)" "row2 \<in> set (rollouts s2)" "rr_Rollout row2 = r2"
          and op2: "rollout_open r2" by blast
        have res: "(if ro_State r2 = RolloutPaused then (s2, Inr ()) else dispatch_round target sha fresh at now s2 r2) = (s', res)"
          using unfolded True op Inr p saved q by simp
        show ?thesis
        proof (cases "ro_State r2 = RolloutPaused")
          case True
          with res two(1) show ?thesis by simp
        next
          case False
          with res op2 show ?thesis by (intro dispatch_round_keeps_wf [OF _ two]) (simp_all add: rollout_open_def)
        qed
      qed
    qed
  qed
qed

subsection \<open>Every sequence of operations\<close>

text \<open>
  The operations on rollouts as the control plane calls them; \<open>first_failed\<close> is the save that
  \<open>startAllNodeUpgrades\<close> makes when it cannot dispatch the canary of the rollout it has just created.
\<close>

inductive rollout_step :: "store \<Rightarrow> store \<Rightarrow> bool" where
  create: "CreateUpgradeRollout s r i fresh now = Inr (s', r') \<Longrightarrow> rollout_step s s'"
| change: "ChangeUpgradeRollout s i action now = Inr (s', r') \<Longrightarrow> rollout_step s s'"
| dispatch: "DispatchUpgradeRolloutNode s i nodeID deadline fresh now = Inr (s', r') \<Longrightarrow> rollout_step s s'"
| first_failed: "row \<in> set (rollouts s) \<Longrightarrow> rollout_open (rr_Rollout row) \<Longrightarrow>
    SaveUpgradeRollout s ((rr_Rollout row)\<lparr>ro_State := RolloutPaused, ro_Detail := d\<rparr>) now = Inr (s', r') \<Longrightarrow> rollout_step s s'"
| round: "reconcileUpgradeRollout ctx probe target sha fresh' s at now = (s', res) \<Longrightarrow> rollout_step s s'"
| elsewhere: "rollouts s' = rollouts s \<Longrightarrow> rollout_step s s'"

lemma rollout_step_keeps_wf: "rollout_step s s' \<Longrightarrow> rollouts_wf (rollouts s) \<Longrightarrow> rollouts_wf (rollouts s')"
proof (induction rule: rollout_step.induct)
  case (create s r i fresh now s' r')
  then show ?case by (rule create_keeps_wf)
next
  case (change s i action now s' r')
  then show ?case by (rule change_keeps_wf)
next
  case (dispatch s i nodeID deadline fresh now s' r')
  then show ?case using dispatch_keeps_wf by blast
next
  case (first_failed row s d now s' r')
  then have "rollout_wf (rr_Rollout row)" by (auto simp: rollouts_wf_def)
  with first_failed save_keeps_wf [OF first_failed(3) [unfolded SaveUpgradeRollout_def] first_failed(4,1) _ first_failed(2)]
  show ?case by (simp add: pause_wf)
next
  case (round ctx probe target sha fresh' s at now s' res)
  then show ?case by (rule round_keeps_wf)
next
  case (elsewhere s' s)
  then show ?case by simp
qed

text \<open>
  C14: over every sequence of operations at most one rollout is open, no rollout has more nodes in flight
  than it may, a node other than the canary has left the waiting states only if the canary has succeeded, a
  running rollout has no failed member, and a rollout is called succeeded only when every member is.
\<close>

theorem rollouts_stay_well_formed:
  assumes "rollout_step\<^sup>*\<^sup>* s s'" and "rollouts_wf (rollouts s)"
  shows "rollouts_wf (rollouts s')"
  using assms by (induction rule: rtranclp_induct) (auto intro: rollout_step_keeps_wf)

text \<open>
  A write of a rollout is never lost: after a save the stored rollout is the saved one, its revision has
  grown by one, and every save of a copy that is no newer than what was overwritten is refused.
\<close>

theorem stale_rollout_writes_are_refused:
  assumes "SaveUpgradeRollout s r now = Inr (s', r')" and "distinct (map (\<lambda>x. ro_ID (rr_Rollout x)) (rollouts s))"
  shows "UpgradeRollout s' (ro_ID r) = Inr r' \<and> ro_Revision r' = ro_Revision r + 1
    \<and> (\<forall>x t. ro_ID x = ro_ID r \<and> ro_Revision x \<le> ro_Revision r \<longrightarrow> SaveUpgradeRollout s' x t = Inl ErrUpgradeRolloutConflict)"
proof -
  let ?hit = "\<lambda>y. ro_ID (rr_Rollout y) = ro_ID r \<and> ro_Revision (rr_Rollout y) = ro_Revision r"
  let ?f = "rr_Rollout_update (\<lambda>_. r')"
  have c: "count_rows ?hit (rollouts s) = 1" and r': "r' = r\<lparr>ro_Revision := ro_Revision r + 1, ro_UpdatedAt := now\<rparr>"
    and rows: "rollouts s' = update_rows ?hit ?f (rollouts s)"
    using assms(1) by (auto simp: SaveUpgradeRollout_def saveUpgradeRolloutTx_def Let_def split: if_splits)
  obtain y where y: "y \<in> set (rollouts s)" "?hit y"
    using c by (metis (mono_tags, lifting) count_rows_0 zero_neq_one)
  have keys: "map (\<lambda>x. ro_ID (rr_Rollout x)) (rollouts s') = map (\<lambda>x. ro_ID (rr_Rollout x)) (rollouts s)"
    unfolding rows by (rule map_key_update_rows) (simp add: r')
  then have d: "distinct (map (\<lambda>x. ro_ID (rr_Rollout x)) (rollouts s'))" using assms(2) by simp
  have fy: "?f y \<in> set (rollouts s')" using y unfolding rows set_update_rows by force
  have "find_rollout s' (ro_ID r) = Some (?f y)"
    using find_row_key_unique [OF d fy] by (simp add: find_rollout_def r')
  moreover have "SaveUpgradeRollout s' x t = Inl ErrUpgradeRolloutConflict"
    if "ro_ID x = ro_ID r" "ro_Revision x \<le> ro_Revision r" for x t
  proof -
    have "z = ?f y" if "z \<in> set (rollouts s')" "ro_ID (rr_Rollout z) = ro_ID r" for z
      using d that fy unfolding distinct_map by (intro inj_onD [of "\<lambda>x. ro_ID (rr_Rollout x)" "set (rollouts s')"]) (auto simp: r')
    then have "\<not> (ro_ID (rr_Rollout z) = ro_ID x \<and> ro_Revision (rr_Rollout z) = ro_Revision x)"
      if "z \<in> set (rollouts s')" for z
      using that \<open>ro_ID x = ro_ID r\<close> \<open>ro_Revision x \<le> ro_Revision r\<close> by (fastforce simp: r')
    then have "count_rows (\<lambda>z. ro_ID (rr_Rollout z) = ro_ID x \<and> ro_Revision (rr_Rollout z) = ro_Revision x) (rollouts s') = 0"
      by (simp add: count_rows_0)
    then show ?thesis by (simp add: SaveUpgradeRollout_def saveUpgradeRolloutTx_def Let_def)
  qed
  ultimately show ?thesis by (simp add: UpgradeRollout_def r')
qed

subsection \<open>The health window\<close>

text \<open>A member under a sequence of observations (the time of each, and what the node answered).\<close>

fun observe_run :: "int \<Rightarrow> (time \<times> bool \<times> string) list \<Rightarrow> rollout_member \<Rightarrow> rollout_member" where
  "observe_run w [] m = m"
| "observe_run w ((t, v) # os) m = observe_run w os (if in_flight m then fst (observe_member w t v m) else m)"

text \<open>Healthy observations without a gap of more than 30 seconds.\<close>

definition steady :: "(time \<times> bool \<times> string) list \<Rightarrow> bool" where
  "steady os \<longleftrightarrow> os \<noteq> [] \<and> (\<forall>x \<in> set os. fst (snd x))
     \<and> successively (\<lambda>a b. fst a \<le> fst b \<and> fst b \<le> fst a + 30 * second) os"

definition spans :: "int \<Rightarrow> (time \<times> bool \<times> string) list \<Rightarrow> bool" where
  "spans w os \<longleftrightarrow> fst (last os) - fst (hd os) \<ge> w * second"

lemma observe_run_append: "observe_run w (os @ [(t, v)]) m =
    (let m' = observe_run w os m in if in_flight m' then fst (observe_member w t v m') else m')"
  by (induction w os m rule: observe_run.induct) (auto simp: Let_def)

lemma steady_snoc:
  "steady (os @ [o']) \<longleftrightarrow> fst (snd o') \<and> (os = [] \<or> steady os \<and> fst (last os) \<le> fst o' \<and> fst o' \<le> fst (last os) + 30 * second)"
  by (cases os rule: rev_cases) (auto simp: steady_def successively_append_iff)

text \<open>What the fields of the member say about the observations so far.\<close>

definition window_inv :: "(time \<times> bool \<times> string) list \<Rightarrow> rollout_member \<Rightarrow> bool" where
  "window_inv os m \<longleftrightarrow>
     (\<forall>h l. rm_HealthySince m = Some h \<and> rm_LastObservedAt m = Some l \<longrightarrow>
        (\<exists>pre win. os = pre @ win \<and> steady win \<and> fst (hd win) = h \<and> fst (last win) = l))"

lemma begin_verifying_fields [simp]:
  "rm_HealthySince (begin_verifying t m) = rm_HealthySince m"
  "rm_LastObservedAt (begin_verifying t m) = rm_LastObservedAt m"
  by (simp_all add: begin_verifying_def)

text \<open>A ready observation extends the window or starts a new one.\<close>

lemma observe_ready_window:
  assumes "window_inv os m" and "fst v" and "0 < w" and "w \<le> 600"
  obtains pre win where "os @ [(t, v)] = pre @ win" "steady win" "fst (last win) = t"
    "rm_HealthySince (observe_ready w t m) = Some (fst (hd win))" "rm_LastObservedAt (observe_ready w t m) = Some t"
    "rm_State (observe_ready w t m) = (if spans w win then MemberSucceeded else rm_State m)"
proof -
  have span: "time_sub t h \<ge> w * second \<longleftrightarrow> t - h \<ge> w * second" for h
    using assms(3,4) by (intro time_sub_ge_iff) (auto simp: second_def)
  show ?thesis
  proof (cases "window_broken t m")
    case True
    have "steady [(t, v)]" using assms(2) by (simp add: steady_def)
    with True show ?thesis
      by (intro that [of os "[(t, v)]"]) (simp_all add: observe_ready_def Let_def spans_def span split: option.split)
  next
    case False
    then obtain h l where hl: "rm_HealthySince m = Some h" "rm_LastObservedAt m = Some l"
      and near: "\<not> time_sub t l > 30 * second" "l \<le> t"
      by (auto simp: window_broken_def split: option.splits)
    from assms(1) hl obtain pre win where win: "os = pre @ win" "steady win" "fst (hd win) = h" "fst (last win) = l"
      by (auto simp: window_inv_def)
    have ne: "win \<noteq> []" using win(2) by (simp add: steady_def)
    have "t - l \<le> 30 * second"
      using near(1) time_sub_le_iff [of "30 * second" t l] by (simp add: second_def not_less)
    then have "steady (win @ [(t, v)])" using win assms(2) near(2) by (simp add: steady_snoc)
    with False win(1,3) hl ne show ?thesis
      by (intro that [of pre "win @ [(t, v)]"]) (simp_all add: observe_ready_def Let_def spans_def span hd_append)
  qed
qed

lemma observe_run_window:
  assumes "rm_HealthySince m = None" and "rm_State m \<noteq> MemberSucceeded" and "0 < w" and "w \<le> 600"
  shows "(in_flight (observe_run w os m) \<longrightarrow> window_inv os (observe_run w os m))
    \<and> (rm_State (observe_run w os m) = MemberSucceeded \<longrightarrow>
        (\<exists>pre win post. os = pre @ win @ post \<and> steady win \<and> spans w win))"
proof (induction os rule: rev_induct)
  case Nil
  with assms show ?case by (simp add: window_inv_def)
next
  case (snoc x os)
  obtain t v where x: "x = (t, v)" by (cases x)
  let ?m = "observe_run w os m" and ?m1 = "begin_verifying t (observe_run w os m)"
  show ?case
  proof (cases "in_flight ?m")
    case False
    then have same: "observe_run w (os @ [x]) m = ?m" by (simp add: x observe_run_append Let_def)
    have "\<exists>pre win post. os @ [x] = pre @ win @ post \<and> steady win \<and> spans w win"
      if "rm_State ?m = MemberSucceeded"
      using snoc that by (metis append.assoc)
    with False show ?thesis unfolding same by blast
  next
    case True
    then have run: "observe_run w (os @ [x]) m = fst (observe_member w t v ?m)"
      by (simp add: x observe_run_append Let_def)
    have inv: "window_inv os ?m1" using snoc True by (simp add: window_inv_def)
    have st: "rm_State ?m1 = MemberVerifying" by (rule begin_verifying_state)
    show ?thesis
    proof (cases "fst v")
      case True
      obtain pre win where win: "os @ [(t, v)] = pre @ win" "steady win" "fst (last win) = t"
        "rm_HealthySince (observe_ready w t ?m1) = Some (fst (hd win))" "rm_LastObservedAt (observe_ready w t ?m1) = Some t"
        "rm_State (observe_ready w t ?m1) = (if spans w win then MemberSucceeded else rm_State ?m1)"
        by (rule observe_ready_window [OF inv True assms(3,4)]) (rule that)
      have res: "observe_run w (os @ [x]) m = observe_ready w t ?m1" unfolding run using True by (simp add: observe_member_def Let_def)
      show ?thesis
      proof (intro conjI impI)
        have "window_inv (os @ [x]) (observe_ready w t ?m1)"
          unfolding window_inv_def using win(1-5) by (auto simp: x)
        then show "window_inv (os @ [x]) (observe_run w (os @ [x]) m)" by (simp only: res)
        assume "rm_State (observe_run w (os @ [x]) m) = MemberSucceeded"
        then have "spans w win" using win(6) st by (simp add: res split: if_splits)
        with win(1,2) x show "\<exists>pre win post. os @ [x] = pre @ win @ post \<and> steady win \<and> spans w win"
          by (metis append_Nil2)
      qed
    next
      case False
      then have "rm_HealthySince (observe_run w (os @ [x]) m) = None" "rm_State (observe_run w (os @ [x]) m) \<noteq> MemberSucceeded"
        unfolding run using st by (auto simp: observe_member_def observe_unready_def Let_def)
      then show ?thesis by (simp add: window_inv_def)
    qed
  qed
qed

text \<open>Over a steady run of observations the member is verifying since the first of them, or it has succeeded.\<close>

lemma steady_run:
  assumes "steady os" and "in_flight m" and "rm_HealthySince m = None" and "0 < w" and "w \<le> 600"
  shows "rm_State (observe_run w os m) = MemberSucceeded
    \<or> in_flight (observe_run w os m) \<and> rm_HealthySince (observe_run w os m) = Some (fst (hd os))
      \<and> rm_LastObservedAt (observe_run w os m) = Some (fst (last os)) \<and> \<not> spans w os"
  using assms(1)
proof (induction os rule: rev_induct)
  case Nil
  then show ?case by (simp add: steady_def)
next
  case (snoc x os)
  obtain t v where x: "x = (t, v)" by (cases x)
  have ready: "fst v" using snoc.prems by (simp add: x steady_snoc)
  let ?m = "observe_run w os m" and ?m1 = "begin_verifying t (observe_run w os m)"
  have span: "time_sub t h \<ge> w * second \<longleftrightarrow> t - h \<ge> w * second" for h
    using assms(4,5) by (intro time_sub_ge_iff) (auto simp: second_def)
  have pos: "0 < w * second" using assms(4) second_pos by simp
  have run: "observe_run w (os @ [x]) m = (if in_flight ?m then observe_ready w t ?m1 else ?m)"
    using ready by (simp add: x observe_run_append Let_def observe_member_def)
  have verifying: "in_flight ?m1" by (simp add: in_flight_def begin_verifying_state)
  show ?case
  proof (cases "os = []")
    case True
    then show ?thesis
      using assms(2,3) verifying pos unfolding run
      by (simp add: x observe_ready_def Let_def window_broken_def span in_flight_def spans_def)
  next
    case False
    then have st: "steady os" and near: "fst (last os) \<le> t" "t \<le> fst (last os) + 30 * second"
      using snoc.prems by (simp_all add: x steady_snoc)
    from snoc.IH [OF st] show ?thesis
    proof (elim disjE conjE)
      assume "rm_State ?m = MemberSucceeded"
      then show ?thesis by (simp add: run in_flight_def)
    next
      assume flight: "in_flight ?m" and h: "rm_HealthySince ?m = Some (fst (hd os))"
        and l: "rm_LastObservedAt ?m = Some (fst (last os))"
      have "\<not> 30 * second < time_sub t (fst (last os))"
        using near time_sub_le_iff [of "30 * second" t "fst (last os)"] by (simp add: second_def not_less)
      with near h l have "\<not> window_broken t ?m1" by (simp add: window_broken_def)
      with flight h verifying False show ?thesis unfolding run
        by (simp add: x observe_ready_def Let_def span in_flight_def spans_def hd_append)
    qed
  qed
qed

text \<open>
  C15: a member that enters its observation fresh is called succeeded only when some unbroken run of healthy
  observations, no two of them more than 30 seconds apart, spans the health window; and such a run from
  the start makes it succeed.
\<close>

theorem success_needs_a_steady_window:
  assumes "in_flight m" and "rm_HealthySince m = None" and "0 < w" and "w \<le> 600"
  shows "(rm_State (observe_run w os m) = MemberSucceeded \<longrightarrow>
      (\<exists>pre win post. os = pre @ win @ post \<and> steady win \<and> spans w win))
    \<and> (steady os \<and> spans w os \<longrightarrow> rm_State (observe_run w os m) = MemberSucceeded)"
proof -
  have "rm_State m \<noteq> MemberSucceeded" using assms(1) by (auto simp: in_flight_def)
  from observe_run_window [OF assms(2) this assms(3,4)] steady_run [OF _ assms] show ?thesis by blast
qed

subsection \<open>Witnesses\<close>

definition sample_member :: "string \<Rightarrow> rollout_member" where
  "sample_member n = \<lparr>rm_NodeID = n, rm_Name = n, rm_State = MemberPending, rm_TaskID = [], rm_Detail = [],
     rm_HealthySince = None, rm_LastObservedAt = None, rm_VerificationStartedAt = None\<rparr>"

definition sample_rollout :: upgrade_rollout where
  "sample_rollout = \<lparr>ro_ID = [], ro_State = RolloutPaused, ro_Revision = 0, ro_MaxParallel = 1, ro_HealthWindowSeconds = 30,
     ro_TargetAgentSHA256 = ''ab'', ro_TargetNginxSHA256 = [], ro_Detail = err [],
     ro_Members = [sample_member ''n1'', sample_member ''n2''], ro_CreatedAt = 0, ro_UpdatedAt = 0\<rparr>"

definition rollout_store :: store where
  "rollout_store = empty_store\<lparr>nodes := [(sample_node ''n1'')\<lparr>nd_LastHeartbeatAt := Some second\<rparr>, sample_node ''n2'']\<rparr>"

definition created_rollout :: "(store \<times> upgrade_rollout) result" where
  "created_rollout = CreateUpgradeRollout rollout_store sample_rollout
     [(''n1'', sample_instruction), (''n2'', sample_instruction)] ''r1'' second"

definition created_store :: store where
  "created_store = fst (projr created_rollout)"

text \<open>One round of the created rollout: it dispatches the canary and then has to wait.\<close>

definition first_round :: "store \<times> unit result" where
  "first_round = reconcileUpgradeRollout None (\<lambda>_. Inr (True, [])) (Inr []) ''AB'' (\<lambda>_. ''u1'') created_store
     (2 * second) (2 * second)"

lemma created_rollout_ok: "is_ok created_rollout"
  by code_simp

lemma first_round_states:
  "map (\<lambda>x. map rm_State (ro_Members (rr_Rollout x))) (rollouts (fst first_round)) = [[MemberUpgrading, MemberPending]]"
  by code_simp

lemma rollouts_stay_well_formed_witness:
  "rollout_step\<^sup>*\<^sup>* rollout_store (fst first_round) \<and> rollouts_wf (rollouts (fst first_round))
   \<and> map (\<lambda>x. map rm_State (ro_Members (rr_Rollout x))) (rollouts (fst first_round)) = [[MemberUpgrading, MemberPending]]"
proof -
  obtain s1 r1 where c: "created_rollout = Inr (s1, r1)" using created_rollout_ok by (auto simp: is_ok_iff)
  then have s1: "s1 = created_store" unfolding created_store_def c by simp
  obtain s2 res where r: "first_round = (s2, res)" by (cases first_round)
  have "rollout_step rollout_store created_store"
    using c s1 by (intro rollout_step.create) (simp add: created_rollout_def)
  moreover have "rollout_step created_store (fst first_round)"
    using r unfolding first_round_def by (intro rollout_step.round) simp
  ultimately have run: "rollout_step\<^sup>*\<^sup>* rollout_store (fst first_round)" by (meson rtranclp.simps)
  have "rollouts_wf (rollouts rollout_store)" by (simp add: rollouts_wf_def rollout_store_def empty_store_def)
  from rollouts_stay_well_formed [OF run this] run first_round_states show ?thesis by blast
qed

lemma stale_rollout_writes_are_refused_witness:
  "\<exists>s' r'. SaveUpgradeRollout created_store (snd (projr created_rollout)) (3 * second) = Inr (s', r')
     \<and> SaveUpgradeRollout s' (snd (projr created_rollout)) (4 * second) = Inl ErrUpgradeRolloutConflict"
proof -
  have "is_ok (SaveUpgradeRollout created_store (snd (projr created_rollout)) (3 * second))" by code_simp
  then obtain s' r' where save: "SaveUpgradeRollout created_store (snd (projr created_rollout)) (3 * second) = Inr (s', r')"
    by (auto simp: is_ok_iff)
  have "distinct (map (\<lambda>x. ro_ID (rr_Rollout x)) (rollouts created_store))" by code_simp
  from stale_rollout_writes_are_refused [OF save this] save show ?thesis by blast
qed

lemma success_needs_a_steady_window_witness:
  "rm_State (observe_run 30 [(0, True, []), (20 * second, True, []), (40 * second, True, [])]
     ((sample_member ''n1'')\<lparr>rm_State := MemberUpgrading\<rparr>)) = MemberSucceeded"
proof -
  let ?m = "(sample_member ''n1'')\<lparr>rm_State := MemberUpgrading\<rparr>"
  have m: "in_flight ?m" "rm_HealthySince ?m = None" by (simp_all add: sample_member_def in_flight_def)
  have "steady [(0, True, []), (20 * second, True, []), (40 * second, True, [])]"
    "spans 30 [(0, True, []), (20 * second, True, []), (40 * second, True, [])]"
    by (simp_all add: steady_def spans_def second_def)
  moreover have "(0::int) < 30" "(30::int) \<le> 600" by simp_all
  ultimately show ?thesis using success_needs_a_steady_window [OF m] by blast
qed

end
