(* ===== verification/Go_Net.thy ===== *)
theory Go_Net
  imports Go_Strings
begin

section \<open>Go network addresses and paths\<close>

text \<open>
  What the program uses of the packages \<open>net\<close> and \<open>path\<close>: \<open>net.ParseIP\<close>, the text of an address,
  \<open>net.SplitHostPort\<close>, \<open>net.JoinHostPort\<close>, and the cleaning of a slash-separated path. An address is
  the list of its eight 16-bit groups; an IPv4 address is the IPv6 address that maps it, as in
  \<open>netip.Addr.As16\<close>.
\<close>

type_synonym ip = "int list"

subsection \<open>Hexadecimal and decimal digits\<close>

definition is_hex :: "char \<Rightarrow> bool" where
  "is_hex c \<longleftrightarrow> is_digit c \<or> 97 \<le> byte_of c \<and> byte_of c \<le> 102 \<or> 65 \<le> byte_of c \<and> byte_of c \<le> 70"

definition hex_digit :: "char \<Rightarrow> int" where
  "hex_digit c = (if is_digit c then int (byte_of c) - 48
     else if is_lower c then int (byte_of c) - 87 else int (byte_of c) - 55)"

fun hex_value :: "int \<Rightarrow> string \<Rightarrow> int" where
  "hex_value acc [] = acc"
| "hex_value acc (c # s) = hex_value (acc * 16 + hex_digit c) s"

subsection \<open>IPv4\<close>

text \<open>One field: one to three digits, no leading zero, at most 255.\<close>

definition parse_octet :: "string \<Rightarrow> int option" where
  "parse_octet s =
     (if s = [] \<or> (length s > 1 \<and> hd s = CHR ''0'') then None
      else case digits_value s 0 of None \<Rightarrow> None | Some n \<Rightarrow> if n \<le> 255 then Some n else None)"

definition parseIPv4Fields :: "string \<Rightarrow> int list option" where
  "parseIPv4Fields s = those (map parse_octet (Split s (CHR ''.'')))"

definition mapped_v4 :: "int list \<Rightarrow> ip option" where
  "mapped_v4 fields =
     (case fields of
        [a, b, c, d] \<Rightarrow> Some [0, 0, 0, 0, 0, 65535, a * 256 + b, c * 256 + d]
      | _ \<Rightarrow> None)"

definition parseIPv4 :: "string \<Rightarrow> ip option" where
  "parseIPv4 s = (case parseIPv4Fields s of None \<Rightarrow> None | Some fields \<Rightarrow> mapped_v4 fields)"

subsection \<open>IPv6\<close>

text \<open>The two groups of a dotted tail.\<close>

definition dotted_tail :: "string \<Rightarrow> int list option" where
  "dotted_tail s =
     (case parseIPv4Fields s of
        Some [a, b, c, d] \<Rightarrow> Some [a * 256 + b, c * 256 + d]
      | _ \<Rightarrow> None)"

text \<open>At the end of the text the ellipsis, when there is one, becomes the missing groups.\<close>

definition expand_ellipsis :: "int list \<Rightarrow> nat option \<Rightarrow> ip option" where
  "expand_ellipsis groups ellipsis =
     (if length groups < 8
      then (case ellipsis of
              None \<Rightarrow> None
            | Some e \<Rightarrow> Some (take e groups @ replicate (8 - length groups) 0 @ drop e groups))
      else if ellipsis \<noteq> None then None else Some groups)"

text \<open>The loop over the groups; \<open>room\<close> is the number of groups that still fit.\<close>

fun parse_groups :: "nat \<Rightarrow> string \<Rightarrow> int list \<Rightarrow> nat option \<Rightarrow> ip option" where
  "parse_groups 0 s groups ellipsis = None"
| "parse_groups (Suc room) s groups ellipsis =
     (let digits = takeWhile is_hex s; rest = dropWhile is_hex s in
      if digits = [] \<or> length digits > 4 then None
      else case rest of
        [] \<Rightarrow> expand_ellipsis (groups @ [hex_value 0 digits]) ellipsis
      | c # rest' \<Rightarrow>
          if c = CHR ''.''
          then (if ellipsis = None \<and> length groups \<noteq> 6 \<or> length groups > 6 then None
                else case dotted_tail s of None \<Rightarrow> None | Some ab \<Rightarrow> expand_ellipsis (groups @ ab) ellipsis)
          else if c \<noteq> CHR '':'' \<or> rest' = [] then None
          else if hd rest' = CHR '':''
          then (if ellipsis \<noteq> None then None
                else if tl rest' = []
                then expand_ellipsis (groups @ [hex_value 0 digits]) (Some (Suc (length groups)))
                else parse_groups room (tl rest') (groups @ [hex_value 0 digits]) (Some (Suc (length groups))))
          else parse_groups room rest' (groups @ [hex_value 0 digits]) ellipsis)"

definition parseIPv6 :: "string \<Rightarrow> ip option" where
  "parseIPv6 s =
     (if CHR ''%'' \<in> set s then None
      else if HasPrefix s ''::''
      then (if length s = 2 then Some (replicate 8 0) else parse_groups 8 (drop 2 s) [] (Some 0))
      else parse_groups 8 s [] None)"

text \<open>\<open>netip.ParseAddr\<close> looks at the first of the bytes \<open>.\<close>, \<open>:\<close> and \<open>%\<close>; an address with a zone is no \<open>net.IP\<close>.\<close>

fun ParseIP_from :: "string \<Rightarrow> string \<Rightarrow> ip option" where
  "ParseIP_from whole [] = None"
| "ParseIP_from whole (c # s) =
     (if c = CHR ''.'' then parseIPv4 whole
      else if c = CHR '':'' then parseIPv6 whole
      else if c = CHR ''%'' then None
      else ParseIP_from whole s)"

definition ParseIP :: "string \<Rightarrow> ip option" where
  "ParseIP s = ParseIP_from s s"

subsection \<open>Kinds of addresses and their text\<close>

definition is_v4 :: "ip \<Rightarrow> bool" where
  "is_v4 a \<longleftrightarrow> take 6 a = [0, 0, 0, 0, 0, 65535]"

definition IsUnspecified :: "ip \<Rightarrow> bool" where
  "IsUnspecified a \<longleftrightarrow> a = replicate 8 0 \<or> a = [0, 0, 0, 0, 0, 65535, 0, 0]"

definition IsMulticast :: "ip \<Rightarrow> bool" where
  "IsMulticast a \<longleftrightarrow>
     (if is_v4 a then 224 \<le> a ! 6 div 256 \<and> a ! 6 div 256 \<le> 239 else a ! 0 div 256 = 255)"

fun decimal :: "nat \<Rightarrow> string" where
  "decimal n = (if n < 10 then [char_of (48 + n)] else decimal (n div 10) @ [char_of (48 + n mod 10)])"

declare decimal.simps [simp del]

definition hex_char :: "nat \<Rightarrow> char" where
  "hex_char n = char_of (if n < 10 then 48 + n else 87 + n)"

fun hexadecimal :: "nat \<Rightarrow> string" where
  "hexadecimal n = (if n < 16 then [hex_char n] else hexadecimal (n div 16) @ [hex_char (n mod 16)])"

declare hexadecimal.simps [simp del]

definition v4_text :: "ip \<Rightarrow> string" where
  "v4_text a = decimal (nat (a ! 6 div 256)) @ ''.'' @ decimal (nat (a ! 6 mod 256)) @ ''.''
     @ decimal (nat (a ! 7 div 256)) @ ''.'' @ decimal (nat (a ! 7 mod 256))"

fun zero_run :: "int list \<Rightarrow> nat" where
  "zero_run [] = 0"
| "zero_run (g # gs) = (if g = 0 then Suc (zero_run gs) else 0)"

text \<open>The first of the longest runs of at least two zero groups: where it starts and how long it is.\<close>

fun longest_zeros :: "nat \<Rightarrow> int list \<Rightarrow> nat \<times> nat \<Rightarrow> nat \<times> nat" where
  "longest_zeros i [] best = best"
| "longest_zeros i (g # gs) best =
     (let l = zero_run (g # gs) in longest_zeros (Suc i) gs (if l \<ge> 2 \<and> l > snd best then (i, l) else best))"

fun colon_join :: "string list \<Rightarrow> string" where
  "colon_join [] = []"
| "colon_join [x] = x"
| "colon_join (x # y # xs) = x @ CHR '':'' # colon_join (y # xs)"

definition groups_text :: "int list \<Rightarrow> string" where
  "groups_text gs = colon_join (map (\<lambda>g. hexadecimal (nat g)) gs)"

definition v6_text :: "ip \<Rightarrow> string" where
  "v6_text a =
     (case longest_zeros 0 a (0, 0) of (i, l) \<Rightarrow>
        if l = 0 then groups_text a
        else groups_text (take i a) @ ''::'' @ groups_text (drop (i + l) a))"

definition IP_String :: "ip \<Rightarrow> string" where
  "IP_String a = (if is_v4 a then v4_text a else v6_text a)"

subsection \<open>Host and port\<close>

fun last_colon :: "string \<Rightarrow> nat option" where
  "last_colon [] = None"
| "last_colon (c # s) =
     (case last_colon s of Some i \<Rightarrow> Some (Suc i) | None \<Rightarrow> if c = CHR '':'' then Some 0 else None)"

fun first_index :: "char \<Rightarrow> string \<Rightarrow> nat option" where
  "first_index x [] = None"
| "first_index x (c # s) = (if c = x then Some 0 else map_option Suc (first_index x s))"

definition SplitHostPort :: "string \<Rightarrow> (string \<times> string) option" where
  "SplitHostPort hp =
     (case last_colon hp of None \<Rightarrow> None | Some i \<Rightarrow>
      if hd hp = CHR ''[''
      then (case first_index (CHR '']'') hp of None \<Rightarrow> None | Some close \<Rightarrow>
            if Suc close \<noteq> i then None
            else if CHR ''['' \<in> set (drop 1 hp) \<or> CHR '']'' \<in> set (drop (Suc close) hp) then None
            else Some (take (close - 1) (drop 1 hp), drop (Suc i) hp))
      else if CHR '':'' \<in> set (take i hp) then None
      else if CHR ''['' \<in> set hp \<or> CHR '']'' \<in> set hp then None
      else Some (take i hp, drop (Suc i) hp))"

definition JoinHostPort :: "string \<Rightarrow> string \<Rightarrow> string" where
  "JoinHostPort host port =
     (if CHR '':'' \<in> set host then CHR ''['' # host @ '']:'' @ port else host @ CHR '':'' # port)"

subsection \<open>Paths\<close>

text \<open>The components of a cleaned path, collected in reverse.\<close>

fun clean_components :: "bool \<Rightarrow> string list \<Rightarrow> string list \<Rightarrow> string list" where
  "clean_components rooted out [] = rev out"
| "clean_components rooted out (c # cs) =
     (if c = [] \<or> c = ''.'' then clean_components rooted out cs
      else if c = ''..''
      then (if out \<noteq> [] \<and> hd out \<noteq> ''..'' then clean_components rooted (tl out) cs
            else if rooted then clean_components rooted out cs
            else clean_components rooted (c # out) cs)
      else clean_components rooted (c # out) cs)"

fun slash_join :: "string list \<Rightarrow> string" where
  "slash_join [] = []"
| "slash_join [x] = x"
| "slash_join (x # y # xs) = x @ CHR ''/'' # slash_join (y # xs)"

definition IsAbs :: "string \<Rightarrow> bool" where
  "IsAbs p = HasPrefix p ''/''"

definition Clean :: "string \<Rightarrow> string" where
  "Clean p =
     (let body = slash_join (clean_components (IsAbs p) [] (Split p (CHR ''/''))) in
      if IsAbs p then CHR ''/'' # body else if body = [] then ''.'' else body)"

text \<open>\<open>filepath.Join\<close> of two elements\<close>

definition Join_path :: "string \<Rightarrow> string \<Rightarrow> string" where
  "Join_path a b =
     (if a = [] then (if b = [] then [] else Clean b)
      else if b = [] then Clean a else Clean (a @ CHR ''/'' # b))"

subsection \<open>The bytes of an address\<close>

lemma digits_value_digits: "digits_value s acc = Some n \<Longrightarrow> \<forall>c \<in> set s. is_digit c"
  by (induction s arbitrary: acc) (auto split: if_splits)

lemma those_Some: "those xs = Some ys \<Longrightarrow> \<forall>x \<in> set xs. x \<noteq> None"
  by (induction xs arbitrary: ys) (auto split: option.splits)

lemma Split_chars: "c \<in> set s \<Longrightarrow> c = sep \<or> (\<exists>p \<in> set (Split s sep). c \<in> set p)"
  by (induction s) (auto split: list.splits)

lemma parseIPv4Fields_chars:
  assumes "parseIPv4Fields s = Some fields" and "c \<in> set s"
  shows "is_digit c \<or> c = CHR ''.''"
proof (cases "c = CHR ''.''")
  case False
  then obtain p where p: "p \<in> set (Split s (CHR ''.''))" "c \<in> set p" using Split_chars [OF assms(2)] by blast
  then have "parse_octet p \<noteq> None" using those_Some [OF assms(1) [unfolded parseIPv4Fields_def]] by auto
  then obtain n where "digits_value p 0 = Some n" by (auto simp: parse_octet_def split: if_splits option.splits)
  with p(2) show ?thesis using digits_value_digits by blast
qed simp

definition is_ip_char :: "char \<Rightarrow> bool" where
  "is_ip_char c \<longleftrightarrow> is_hex c \<or> c = CHR '':'' \<or> c = CHR ''.''"

lemma ip_char_simps [simp]: "is_hex c \<Longrightarrow> is_ip_char c" "is_ip_char (CHR '':'')" "is_ip_char (CHR ''.'')"
  "is_digit c \<Longrightarrow> is_ip_char c"
  by (simp_all add: is_ip_char_def is_hex_def)

lemma dotted_tail_chars:
  assumes "dotted_tail s = Some ab" and "c \<in> set s"
  shows "is_ip_char c"
proof -
  from assms(1) obtain fields where "parseIPv4Fields s = Some fields"
    by (cases "parseIPv4Fields s") (simp_all add: dotted_tail_def)
  from parseIPv4Fields_chars [OF this assms(2)] show ?thesis by auto
qed

lemma parse_groups_chars: "parse_groups room s groups ellipsis = Some a \<Longrightarrow> \<forall>c \<in> set s. is_ip_char c"
proof (induction room s groups ellipsis rule: parse_groups.induct)
  case (2 room s groups ellipsis)
  let ?rest = "dropWhile is_hex s"
  have split: "set s = set (takeWhile is_hex s) \<union> set ?rest"
    by (metis set_append takeWhile_dropWhile_id)
  have digits: "\<forall>c \<in> set (takeWhile is_hex s). is_ip_char c" by (auto dest: set_takeWhileD)
  show ?case
  proof (cases ?rest)
    case Nil
    with split digits show ?thesis by auto
  next
    case (Cons c rest')
    show ?thesis
    proof (cases "c = CHR ''.''")
      case True
      with "2.prems" Cons obtain ab where "dotted_tail s = Some ab"
        by (auto simp: Let_def split: if_splits option.splits)
      then show ?thesis using dotted_tail_chars by blast
    next
      case False
      have "\<forall>c \<in> set rest'. is_ip_char c" and "c = CHR '':''"
      proof -
        show "c = CHR '':''" using "2.prems" Cons False by (auto simp: Let_def split: if_splits)
        then show "\<forall>c \<in> set rest'. is_ip_char c"
          using "2.prems" "2.IH" Cons False by (cases rest') (auto simp: Let_def split: if_splits)
      qed
      with split digits Cons show ?thesis by auto
    qed
  qed
qed simp

lemma ParseIP_chars: "ParseIP s = Some a \<Longrightarrow> \<forall>c \<in> set s. is_ip_char c"
proof -
  have v4: "\<forall>c \<in> set s. is_ip_char c" if "parseIPv4 s = Some a"
  proof -
    from that obtain fields where "parseIPv4Fields s = Some fields" by (auto simp: parseIPv4_def split: option.splits)
    then show ?thesis using parseIPv4Fields_chars ip_char_simps(3,4) by metis
  qed
  have v6: "\<forall>c \<in> set s. is_ip_char c" if "parseIPv6 s = Some a"
  proof (cases "HasPrefix s ''::''")
    case True
    then obtain t where s: "s = ''::'' @ t" by (auto simp: HasPrefix_iff)
    with that show ?thesis using parse_groups_chars [of 8 t "[]" "Some 0" a]
      by (auto simp: parseIPv6_def split: if_splits)
  next
    case False
    with that show ?thesis using parse_groups_chars by (auto simp: parseIPv6_def split: if_splits)
  qed
  have "parseIPv4 s = Some a \<or> parseIPv6 s = Some a" if "ParseIP_from s t = Some a" for t
    using that by (induction t) (auto split: if_splits)
  then show "ParseIP s = Some a \<Longrightarrow> ?thesis" using v4 v6 by (auto simp: ParseIP_def)
qed

end
