(* ===== verification/Go_Net_Facts.thy ===== *)
theory Go_Net_Facts
  imports Go_Net
begin

section \<open>Addresses and their text\<close>

text \<open>The text of an address is read back as the address.\<close>

definition valid_ip :: "ip \<Rightarrow> bool" where
  "valid_ip a \<longleftrightarrow> length a = 8 \<and> (\<forall>g \<in> set a. 0 \<le> g \<and> g < 65536)"

subsection \<open>Digits\<close>

lemma byte_of_char_of [simp]: "n < 256 \<Longrightarrow> byte_of (char_of n) = n"
  by (simp add: byte_of_def)

lemma digits_value_append:
  "digits_value (s @ t) acc = (case digits_value s acc of None \<Rightarrow> None | Some v \<Rightarrow> digits_value t v)"
  by (induction s arbitrary: acc) auto

lemma decimal_value: "digits_value (decimal n) 0 = Some (int n)"
proof (induction n rule: decimal.induct)
  case (1 n)
  show ?case
  proof (cases "n < 10")
    case True
    then show ?thesis by (simp add: decimal.simps [of n] is_digit_def)
  next
    case False
    have "int (n div 10) * 10 + int (n mod 10) = int n"
      by (metis (no_types) div_mult_mod_eq of_nat_add of_nat_mult of_nat_numeral)
    with False 1 show ?thesis by (subst decimal.simps) (simp add: digits_value_append is_digit_def)
  qed
qed

lemma decimal_digits: "c \<in> set (decimal n) \<Longrightarrow> is_digit c"
  using decimal_value [of n] digits_value_digits by blast

lemma decimal_not_Nil [simp]: "decimal n \<noteq> []"
  by (subst decimal.simps) simp

lemma decimal_hd: "n \<noteq> 0 \<Longrightarrow> hd (decimal n) \<noteq> CHR ''0''"
proof (induction n rule: decimal.induct)
  case (1 n)
  have zero: "byte_of (CHR ''0'') = 48" by (simp add: byte_of_def)
  show ?case
  proof (cases "n < 10")
    case True
    then have "byte_of (char_of (48 + n)) \<noteq> 48" using 1(2) by simp
    then show ?thesis using True zero by (metis decimal.simps list.sel(1))
  next
    case False
    then have "n div 10 \<noteq> 0" by (simp add: div_eq_0_iff)
    with 1(1) False show ?thesis by (subst decimal.simps) (simp add: hd_append)
  qed
qed

lemma parse_octet_decimal: "0 \<le> n \<Longrightarrow> n \<le> 255 \<Longrightarrow> parse_octet (decimal (nat n)) = Some n"
proof -
  assume n: "0 \<le> n" "n \<le> 255"
  have "hd (decimal (nat n)) \<noteq> CHR ''0''" if "length (decimal (nat n)) > 1"
  proof (cases "nat n = 0")
    case True
    with that show ?thesis by (simp add: decimal.simps [of 0])
  qed (rule decimal_hd)
  with n show ?thesis by (auto simp: parse_octet_def decimal_value)
qed

lemma hex_char_is_hex: "n < 16 \<Longrightarrow> is_hex (hex_char n) \<and> hex_digit (hex_char n) = int n"
  by (auto simp: is_hex_def hex_digit_def hex_char_def is_digit_def is_lower_def)

lemma hexadecimal_hex: "c \<in> set (hexadecimal n) \<Longrightarrow> is_hex c"
proof (induction n rule: hexadecimal.induct)
  case (1 n)
  then show ?case by (subst (asm) (2) hexadecimal.simps) (auto simp: hex_char_is_hex split: if_splits)
qed

lemma hexadecimal_not_Nil [simp]: "hexadecimal n \<noteq> []"
  by (subst hexadecimal.simps) simp

lemma hex_value_append: "hex_value acc (s @ t) = hex_value (hex_value acc s) t"
  by (induction s arbitrary: acc) auto

lemma hexadecimal_value: "hex_value 0 (hexadecimal n) = int n"
proof (induction n rule: hexadecimal.induct)
  case (1 n)
  show ?case
  proof (cases "n < 16")
    case True
    then show ?thesis by (simp add: hexadecimal.simps [of n] hex_char_is_hex)
  next
    case False
    have "int (n div 16) * 16 + int (n mod 16) = int n"
      by (metis (no_types) div_mult_mod_eq of_nat_add of_nat_mult of_nat_numeral)
    with False 1 show ?thesis
      by (subst hexadecimal.simps) (simp add: hex_value_append hex_char_is_hex)
  qed
qed

lemma length_hexadecimal: "n < 16 ^ Suc k \<Longrightarrow> length (hexadecimal n) \<le> Suc k"
proof (induction k arbitrary: n)
  case 0
  then show ?case by (subst hexadecimal.simps) simp
next
  case (Suc k)
  show ?case
  proof (cases "n < 16")
    case True
    then show ?thesis by (subst hexadecimal.simps) simp
  next
    case False
    have "n div 16 < 16 ^ Suc k" using Suc.prems by (simp add: less_mult_imp_div_less mult.commute)
    from Suc.IH [OF this] False show ?thesis by (subst hexadecimal.simps) simp
  qed
qed

subsection \<open>IPv4\<close>

lemma not_digit [simp]: "\<not> is_digit (CHR ''.'')" "\<not> is_digit (CHR '':'')" "\<not> is_digit (CHR ''%'')"
  "\<not> is_hex (CHR ''.'')" "\<not> is_hex (CHR '':'')" "\<not> is_hex (CHR ''%'')"
  by (simp_all add: is_digit_def is_hex_def byte_of_def)

lemma ParseIP_from_skip:
  "\<forall>c \<in> set s. is_hex c \<Longrightarrow> ParseIP_from w (s @ t) = ParseIP_from w t"
  by (induction s) auto

lemma digit_hex: "is_digit c \<Longrightarrow> is_hex c"
  by (simp add: is_hex_def)

lemma byte_halves: "0 \<le> g \<Longrightarrow> g < 65536 \<Longrightarrow> 0 \<le> g div 256 \<and> g div 256 \<le> 255 \<and> 0 \<le> g mod 256 \<and> g mod 256 \<le> (255::int)"
  by auto

lemma v4_round_trip:
  assumes "valid_ip a" and "is_v4 a"
  shows "ParseIP (v4_text a) = Some a"
proof -
  let ?d = "\<lambda>n. decimal (nat n)"
  have len: "length a = 8" using assms(1) by (simp add: valid_ip_def)
  then have a: "a = [0, 0, 0, 0, 0, 65535, a ! 6, a ! 7]"
    using assms(2) by (intro nth_equalityI) (auto simp: is_v4_def less_Suc_eq numeral_eq_Suc take_Suc_conv_app_nth)
  have range: "0 \<le> a ! 6" "a ! 6 < 65536" "0 \<le> a ! 7" "a ! 7 < 65536"
    using assms(1) len by (auto simp: valid_ip_def)
  have nodot: "CHR ''.'' \<notin> set (decimal n)" for n using decimal_digits by force
  have "Split (v4_text a) (CHR ''.'') =
      [?d (a ! 6 div 256), ?d (a ! 6 mod 256), ?d (a ! 7 div 256), ?d (a ! 7 mod 256)]"
    using nodot by (simp add: v4_text_def Split_append Split_single)
  then have "parseIPv4Fields (v4_text a) = Some [a ! 6 div 256, a ! 6 mod 256, a ! 7 div 256, a ! 7 mod 256]"
    using byte_halves range by (simp add: parseIPv4Fields_def parse_octet_decimal)
  then have "parseIPv4 (v4_text a) = Some a"
    by (subst a) (simp add: parseIPv4_def mapped_v4_def)
  moreover have "ParseIP (v4_text a) = parseIPv4 (v4_text a)"
  proof -
    have "\<forall>c \<in> set (?d (a ! 6 div 256)). is_hex c" using decimal_digits digit_hex by blast
    from ParseIP_from_skip [OF this] show ?thesis unfolding ParseIP_def by (subst (2) v4_text_def) simp
  qed
  ultimately show ?thesis by simp
qed

subsection \<open>IPv6\<close>

definition group16 :: "int \<Rightarrow> bool" where
  "group16 g \<longleftrightarrow> 0 \<le> g \<and> g < 65536"

abbreviation hex_text :: "int \<Rightarrow> string" where
  "hex_text g \<equiv> hexadecimal (nat g)"

lemma hex_text_props:
  "group16 g \<Longrightarrow> takeWhile is_hex (hex_text g) = hex_text g \<and> length (hex_text g) \<le> 4 \<and> hex_value 0 (hex_text g) = g"
proof -
  assume "group16 g"
  then have "nat g < 16 ^ Suc 3" by (simp add: group16_def nat_less_iff)
  from length_hexadecimal [OF this] \<open>group16 g\<close> show ?thesis
    by (auto simp: takeWhile_eq_all_conv hexadecimal_hex hexadecimal_value group16_def)
qed

lemma hex_text_split:
  "group16 g \<Longrightarrow> \<not> is_hex c \<Longrightarrow> takeWhile is_hex (hex_text g @ c # t) = hex_text g \<and> dropWhile is_hex (hex_text g @ c # t) = c # t"
  using hexadecimal_hex by (simp add: takeWhile_append1 takeWhile_append2 dropWhile_append2)

lemma colon_join_Cons: "ys \<noteq> [] \<Longrightarrow> colon_join (x # ys) = x @ CHR '':'' # colon_join ys"
  by (cases ys) auto

lemma groups_text_Cons: "gs \<noteq> [] \<Longrightarrow> groups_text (g # gs) = hex_text g @ CHR '':'' # groups_text gs"
  by (simp add: groups_text_def colon_join_Cons)

lemma groups_text_single [simp]: "groups_text [g] = hex_text g" "groups_text [] = []"
  by (simp_all add: groups_text_def)

lemma groups_text_hd: "gs \<noteq> [] \<Longrightarrow> groups_text gs \<noteq> [] \<and> is_hex (hd (groups_text gs))"
proof -
  assume "gs \<noteq> []"
  then obtain g hs where gs: "gs = g # hs" by (cases gs) auto
  have "is_hex (hd (hex_text g))" using hexadecimal_hex hd_in_set [OF hexadecimal_not_Nil] by blast
  then show ?thesis by (cases "hs = []") (auto simp: gs groups_text_Cons hd_append)
qed

lemma groups_text_chars: "c \<in> set (groups_text gs) \<Longrightarrow> is_hex c \<or> c = CHR '':''"
proof (induction gs)
  case (Cons g gs)
  then show ?case using hexadecimal_hex by (cases "gs = []") (auto simp: groups_text_Cons)
qed simp

lemma hex_not_colon: "is_hex c \<Longrightarrow> c \<noteq> CHR '':''"
  using not_digit by blast

text \<open>The groups up to the end of the text.\<close>

lemma parse_groups_tail:
  "gs \<noteq> [] \<Longrightarrow> length gs \<le> room \<Longrightarrow> \<forall>g \<in> set gs. group16 g \<Longrightarrow>
    parse_groups room (groups_text gs) groups ellipsis = expand_ellipsis (groups @ gs) ellipsis"
proof (induction gs arbitrary: room groups)
  case (Cons g gs)
  then obtain r where r: "room = Suc r" by (cases room) auto
  have g: "group16 g" using Cons.prems(3) by simp
  show ?case
  proof (cases "gs = []")
    case True
    have "takeWhile is_hex (hex_text g) = hex_text g" "dropWhile is_hex (hex_text g) = []"
      using hexadecimal_hex by (simp_all add: takeWhile_eq_all_conv dropWhile_eq_Nil_conv)
    note eqs = this conjunct1 [OF conjunct2 [OF hex_text_props [OF g]]] conjunct2 [OF conjunct2 [OF hex_text_props [OF g]]]
    have "\<not> 4 < length (hex_text g)" using eqs(3) by simp
    with True show ?thesis by (simp add: r Let_def eqs)
  next
    case False
    note hd = groups_text_hd [OF False]
    have "hd (groups_text gs) \<noteq> CHR '':''" using hd hex_not_colon by blast
    with hd hex_text_split [OF g not_digit(5), of "groups_text gs"] hex_text_props [OF g] Cons.IH [OF False, of r "groups @ [g]"]
      Cons.prems show ?thesis
      by (simp add: r Let_def groups_text_Cons [OF False])
  qed
qed simp

text \<open>The groups before an ellipsis.\<close>

lemma parse_groups_ellipsis:
  "gs \<noteq> [] \<Longrightarrow> length gs + length hs \<le> room \<Longrightarrow> \<forall>g \<in> set gs \<union> set hs. group16 g \<Longrightarrow>
    parse_groups room (groups_text gs @ ''::'' @ groups_text hs) groups None
      = expand_ellipsis (groups @ gs @ hs) (Some (length groups + length gs))"
proof (induction gs arbitrary: room groups)
  case (Cons g gs)
  then obtain r where r: "room = Suc r" by (cases room) auto
  have g: "group16 g" using Cons.prems(3) by simp
  show ?case
  proof (cases "gs = []")
    case True
    have tail: "parse_groups r (groups_text hs) (groups @ [g]) (Some (Suc (length groups)))
        = expand_ellipsis (groups @ g # hs) (Some (Suc (length groups)))" if "hs \<noteq> []"
      using parse_groups_tail [OF that, of r "groups @ [g]"] Cons.prems by (simp add: r)
    have "groups_text hs = [] \<longleftrightarrow> hs = []" using groups_text_hd [of hs] by (cases "hs = []") auto
    with True tail hex_text_split [OF g not_digit(5), of "CHR '':'' # groups_text hs"] hex_text_props [OF g] show ?thesis
      by (cases "hs = []") (simp_all add: r Let_def)
  next
    case False
    note hd = groups_text_hd [OF False]
    have "hd (groups_text gs @ ''::'' @ groups_text hs) \<noteq> CHR '':''" using hd hex_not_colon by (simp add: hd_append)
    with hd hex_text_split [OF g not_digit(5), of "groups_text gs @ ''::'' @ groups_text hs"] hex_text_props [OF g]
      Cons.IH [OF False, of r "groups @ [g]"] Cons.prems show ?thesis
      by (simp add: r Let_def groups_text_Cons [OF False])
  qed
qed simp

lemma zero_run_spec: "zero_run gs \<le> length gs \<and> take (zero_run gs) gs = replicate (zero_run gs) 0"
  by (induction gs) auto

text \<open>What is known of the chosen run of zeros.\<close>

definition run_in :: "int list \<Rightarrow> nat \<times> nat \<Rightarrow> bool" where
  "run_in a p \<longleftrightarrow> snd p = 0 \<or> fst p + snd p \<le> length a \<and> take (snd p) (drop (fst p) a) = replicate (snd p) 0 \<and> snd p \<ge> 2"

lemma longest_zeros_run:
  "run_in a best \<Longrightarrow> drop i a = gs \<Longrightarrow> run_in a (longest_zeros i gs best)"
proof (induction gs arbitrary: i best)
  case (Cons g gs)
  have next_drop: "drop (Suc i) a = gs" using Cons.prems(2) by (metis drop_Suc list.sel(3) tl_drop)
  have "i + zero_run (g # gs) \<le> length a"
    using zero_run_spec [of "g # gs"] Cons.prems(2)
    by (metis Nat.le_diff_conv2 add.commute length_drop length_Cons list.distinct(1) drop_eq_Nil nle_le)
  then have "run_in a (i, zero_run (g # gs))" if "zero_run (g # gs) \<ge> 2"
    using zero_run_spec [of "g # gs"] Cons.prems(2) that by (simp add: run_in_def del: zero_run.simps)
  then show ?case using Cons.IH [OF _ next_drop] Cons.prems(1) by (simp add: Let_def del: zero_run.simps)
qed simp

lemma v6_parse:
  assumes "valid_ip a"
  shows "parseIPv6 (v6_text a) = Some a"
proof -
  obtain i l where il: "longest_zeros 0 a (0, 0) = (i, l)" by fastforce
  have len: "length a = 8" and g16: "\<forall>g \<in> set a. group16 g" using assms by (auto simp: valid_ip_def group16_def)
  have run: "run_in a (i, l)"
    using longest_zeros_run [of a "(0, 0)" 0 a] by (simp add: il run_in_def)
  have text_hex: "c \<noteq> CHR ''%''" if "c \<in> set (groups_text gs)" for c gs
    using groups_text_chars [OF that] not_digit(6) by auto
  show ?thesis
  proof (cases "l = 0")
    case True
    have shape: "v6_text a = groups_text a" by (simp add: v6_text_def il True)
    have ne: "a \<noteq> []" using len by auto
    have "\<not> HasPrefix (groups_text a) ''::''"
      using groups_text_hd [OF ne] hex_not_colon by (auto simp: HasPrefix_iff)
    then show ?thesis
      using parse_groups_tail [OF ne, of 8 "[]" None] len g16 text_hex [of "CHR ''%''" a]
      by (auto simp: parseIPv6_def shape expand_ellipsis_def)
  next
    case False
    let ?p = "take i a" and ?q = "drop (i + l) a"
    from run False have bounds: "i + l \<le> 8" "l \<ge> 2" and zeros: "take l (drop i a) = replicate l 0"
      by (auto simp: run_in_def len)
    have shape: "v6_text a = groups_text ?p @ ''::'' @ groups_text ?q" by (simp add: v6_text_def il False)
    have a: "?p @ replicate l 0 @ ?q = a"
      using zeros by (metis add.commute append_take_drop_id drop_drop)
    have gpq: "\<forall>g \<in> set ?p \<union> set ?q. group16 g" using g16 by (auto dest: in_set_takeD in_set_dropD)
    have lens: "length ?p = i" "length ?q = 8 - (i + l)" using bounds len by auto
    have nope: "CHR ''%'' \<notin> set (v6_text a)" using text_hex by (auto simp: shape)
    show ?thesis
    proof (cases "i = 0")
      case True
      show ?thesis
      proof (cases "?q = []")
        case True
        have "v6_text a = ''::''" unfolding shape using True \<open>i = 0\<close> by simp
        then have "parseIPv6 (v6_text a) = Some (replicate 8 0)" by (simp add: parseIPv6_def)
        moreover have "a = replicate 8 0" using True \<open>i = 0\<close> lens bounds a by simp
        ultimately show ?thesis by simp
      next
        case False
        have "parse_groups 8 (groups_text ?q) [] (Some 0) = expand_ellipsis ?q (Some 0)"
          using parse_groups_tail [OF False, of 8 "[]" "Some 0"] lens gpq by simp
        also have "\<dots> = Some a" using a lens bounds \<open>i = 0\<close> by (simp add: expand_ellipsis_def)
        finally show ?thesis using \<open>i = 0\<close> nope groups_text_hd [OF False] by (simp add: parseIPv6_def shape)
      qed
    next
      case False
      then have ne: "?p \<noteq> []" using len by auto
      have "parse_groups 8 (v6_text a) [] None = expand_ellipsis (?p @ ?q) (Some i)"
        using parse_groups_ellipsis [OF ne, of ?q 8 "[]"] lens gpq bounds by (simp add: shape)
      also have "\<dots> = Some a" using a lens bounds by (simp add: expand_ellipsis_def)
      finally have "parse_groups 8 (v6_text a) [] None = Some a" .
      moreover have "\<not> HasPrefix (v6_text a) ''::''"
        using groups_text_hd [OF ne] hex_not_colon by (auto simp: HasPrefix_iff shape neq_Nil_conv)
      ultimately show ?thesis using nope by (simp add: parseIPv6_def)
    qed
  qed
qed

lemma v6_round_trip:
  assumes "valid_ip a"
  shows "ParseIP (v6_text a) = Some a"
proof -
  have long: "\<exists>s t. groups_text gs @ u = s @ CHR '':'' # t \<and> (\<forall>c \<in> set s. is_hex c)"
    if "length gs \<ge> 2 \<or> HasPrefix u '':''" for gs u
  proof (cases gs)
    case Nil
    with that show ?thesis by (force simp: HasPrefix_iff)
  next
    case (Cons g hs)
    show ?thesis
    proof (cases "hs = []")
      case True
      with that Cons obtain v where "u = CHR '':'' # v" by (auto simp: HasPrefix_iff)
      with True Cons show ?thesis using hexadecimal_hex by auto
    next
      case False
      then show ?thesis using hexadecimal_hex by (simp add: Cons groups_text_Cons) blast
    qed
  qed
  have "\<exists>s t. v6_text a = s @ CHR '':'' # t \<and> (\<forall>c \<in> set s. is_hex c)"
  proof -
    obtain i l where il: "longest_zeros 0 a (0, 0) = (i, l)" by fastforce
    have "length a \<ge> 2" using assms by (simp add: valid_ip_def)
    then show ?thesis
      using long [of a "[]"] long [of "take i a" "''::'' @ groups_text (drop (i + l) a)"]
      by (simp add: v6_text_def il HasPrefix_iff)
  qed
  then obtain s t where s: "v6_text a = s @ CHR '':'' # t" "\<forall>c \<in> set s. is_hex c" by blast
  have "ParseIP (v6_text a) = parseIPv6 (v6_text a)"
    using ParseIP_from_skip [OF s(2)] by (simp add: ParseIP_def s(1))
  then show ?thesis using v6_parse [OF assms] by simp
qed

text \<open>The text that \<open>net.IP.String\<close> gives of an address is parsed back as that address.\<close>

lemma ip_round_trip: "valid_ip a \<Longrightarrow> ParseIP (IP_String a) = Some a"
  by (simp add: IP_String_def v4_round_trip v6_round_trip)

subsection \<open>What is parsed is an address\<close>

lemma digits_value_nonneg: "digits_value s acc = Some n \<Longrightarrow> 0 \<le> acc \<Longrightarrow> 0 \<le> n"
proof (induction s arbitrary: acc)
  case (Cons c s)
  then show ?case by (auto simp: is_digit_def split: if_splits)
qed simp

lemma parse_octet_range: "parse_octet s = Some n \<Longrightarrow> 0 \<le> n \<and> n \<le> 255"
  using digits_value_nonneg [of s 0] by (auto simp: parse_octet_def split: if_splits option.splits)

lemma those_map_set: "those (map f xs) = Some ys \<Longrightarrow> y \<in> set ys \<Longrightarrow> \<exists>x \<in> set xs. f x = Some y"
  by (induction xs arbitrary: ys) (auto split: option.splits)

lemma parseIPv4Fields_range: "parseIPv4Fields s = Some fields \<Longrightarrow> \<forall>n \<in> set fields. 0 \<le> n \<and> n \<le> 255"
  unfolding parseIPv4Fields_def
proof
  fix n assume f: "those (map parse_octet (Split s (CHR ''.''))) = Some fields" and n: "n \<in> set fields"
  from those_map_set [OF f n] show "0 \<le> n \<and> n \<le> 255" by (auto dest: parse_octet_range)
qed

lemma group16_bytes: "0 \<le> a \<and> a \<le> 255 \<Longrightarrow> 0 \<le> b \<and> b \<le> 255 \<Longrightarrow> group16 (a * 256 + b)"
  by (auto simp: group16_def)

lemma group16_zero [simp]: "group16 0"
  by (simp add: group16_def)

lemma list4: "(case xs of [a, b, c, d] \<Rightarrow> f a b c d | _ \<Rightarrow> None) = Some r \<longleftrightarrow>
    (\<exists>a b c d. xs = [a, b, c, d] \<and> f a b c d = Some r)"
  by (auto split: list.splits)

lemma valid_ip_groups: "valid_ip a \<longleftrightarrow> length a = 8 \<and> (\<forall>g \<in> set a. group16 g)"
  by (simp add: valid_ip_def group16_def)

lemma parseIPv4_valid: "parseIPv4 s = Some a \<Longrightarrow> valid_ip a"
proof -
  assume "parseIPv4 s = Some a"
  then obtain fields where f: "parseIPv4Fields s = Some fields" "mapped_v4 fields = Some a"
    by (auto simp: parseIPv4_def split: option.splits)
  then obtain p q r t where fields: "fields = [p, q, r, t]" and a: "a = [0, 0, 0, 0, 0, 65535, p * 256 + q, r * 256 + t]"
    by (auto simp: mapped_v4_def list4)
  have "group16 (p * 256 + q)" "group16 (r * 256 + t)"
    using parseIPv4Fields_range [OF f(1)] by (auto simp: fields intro: group16_bytes)
  then show ?thesis by (simp add: valid_ip_groups a group16_def)
qed

lemma dotted_tail_range: "dotted_tail s = Some ab \<Longrightarrow> length ab = 2 \<and> (\<forall>g \<in> set ab. group16 g)"
proof -
  assume "dotted_tail s = Some ab"
  then obtain fields where f: "parseIPv4Fields s = Some fields"
    and "(case fields of [a, b, c, d] \<Rightarrow> Some [a * 256 + b, c * 256 + d] | _ \<Rightarrow> None) = Some ab"
    by (cases "parseIPv4Fields s") (simp_all add: dotted_tail_def)
  then obtain p q r t where "fields = [p, q, r, t]" "ab = [p * 256 + q, r * 256 + t]" by (auto simp: list4)
  then show ?thesis using parseIPv4Fields_range [OF f] by (auto intro: group16_bytes)
qed

lemma hex_digit_range: "is_hex c \<Longrightarrow> 0 \<le> hex_digit c \<and> hex_digit c \<le> 15"
  by (auto simp: is_hex_def hex_digit_def is_digit_def is_lower_def)

lemma hex_value_range:
  "\<forall>c \<in> set s. is_hex c \<Longrightarrow> 0 \<le> acc \<Longrightarrow> 0 \<le> hex_value acc s \<and> hex_value acc s < (acc + 1) * 16 ^ length s"
proof (induction s arbitrary: acc)
  case (Cons c s)
  have c: "0 \<le> hex_digit c" "hex_digit c \<le> 15" using Cons.prems(1) hex_digit_range by auto
  with Cons have IH: "0 \<le> hex_value (acc * 16 + hex_digit c) s"
      "hex_value (acc * 16 + hex_digit c) s < (acc * 16 + hex_digit c + 1) * 16 ^ length s" by auto
  note IH(2)
  also have "(acc * 16 + hex_digit c + 1) * 16 ^ length s \<le> ((acc + 1) * 16) * (16::int) ^ length s"
    using c by (intro mult_right_mono) auto
  also have "\<dots> = (acc + 1) * 16 ^ length (c # s)" by simp
  finally show ?case using IH(1) by simp
qed simp

lemma digits_group16: "length (takeWhile is_hex s) \<le> 4 \<Longrightarrow> group16 (hex_value 0 (takeWhile is_hex s))"
proof -
  assume "length (takeWhile is_hex s) \<le> 4"
  then have "(16::int) ^ length (takeWhile is_hex s) \<le> 16 ^ 4" by (intro power_increasing) auto
  moreover have "\<forall>c \<in> set (takeWhile is_hex s). is_hex c" by (auto dest: set_takeWhileD)
  note hex_value_range [OF this, of 0]
  ultimately show ?thesis by (simp add: group16_def)
qed

lemma expand_ellipsis_valid:
  "expand_ellipsis groups e = Some a \<Longrightarrow> length groups \<le> 8 \<Longrightarrow> \<forall>g \<in> set groups. group16 g \<Longrightarrow> valid_ip a"
proof -
  assume r: "expand_ellipsis groups e = Some a" "length groups \<le> 8" "\<forall>g \<in> set groups. group16 g"
  have parts: "group16 g" if "g \<in> set (take n groups) \<or> g \<in> set (drop n groups)" for g n
    using that r(3) by (metis in_set_takeD in_set_dropD)
  show "valid_ip a"
  proof (cases "length groups < 8")
    case True
    with r(1) obtain n where a: "a = take n groups @ replicate (8 - length groups) 0 @ drop n groups"
      by (auto simp: expand_ellipsis_def split: option.splits)
    with True r(3) parts show ?thesis by (auto simp: valid_ip_groups)
  next
    case False
    with r show ?thesis by (simp add: expand_ellipsis_def valid_ip_groups split: if_splits)
  qed
qed

lemma parse_groups_valid:
  "parse_groups room s groups e = Some a \<Longrightarrow> room + length groups = 8 \<Longrightarrow> \<forall>g \<in> set groups. group16 g \<Longrightarrow> valid_ip a"
proof (induction room s groups e rule: parse_groups.induct)
  case (2 room s groups e)
  let ?d = "takeWhile is_hex s"
  from "2.prems"(1) have d: "?d \<noteq> []" "length ?d \<le> 4" by (auto simp: Let_def split: if_splits)
  note g = digits_group16 [OF d(2)]
  have add: "valid_ip a" if "expand_ellipsis (groups @ [hex_value 0 ?d]) e' = Some a" for e'
    using expand_ellipsis_valid [OF that] "2.prems"(2,3) g by auto
  show ?case
  proof (cases "dropWhile is_hex s")
    case Nil
    with "2.prems"(1) d show ?thesis by (auto simp: Let_def intro: add split: if_splits)
  next
    case (Cons c t)
    show ?thesis
    proof (cases "c = CHR ''.''")
      case True
      with "2.prems"(1) d Cons obtain ab where ab: "dotted_tail s = Some ab" "expand_ellipsis (groups @ ab) e = Some a"
          "length groups \<le> 6"
        by (auto simp: Let_def split: if_splits option.splits)
      from expand_ellipsis_valid [OF ab(2)] dotted_tail_range [OF ab(1)] ab(3) "2.prems"(3) show ?thesis by auto
    next
      case False
      with "2.prems"(1) d Cons have c: "c = CHR '':''" "t \<noteq> []" by (auto simp: Let_def split: if_splits)
      show ?thesis
      proof (cases "hd t = CHR '':'' \<and> tl t = []")
        case True
        with "2.prems"(1) d Cons False c show ?thesis by (auto simp: Let_def intro: add split: if_splits)
      next
        case nonempty: False
        then show ?thesis
          using "2.IH" [OF refl refl _ Cons False] "2.prems" d Cons False c g by (auto simp: Let_def split: if_splits)
      qed
    qed
  qed
qed simp

lemma ParseIP_valid: "ParseIP s = Some a \<Longrightarrow> valid_ip a"
proof -
  have v6: "valid_ip a" if "parseIPv6 s = Some a"
    using that parse_groups_valid [of 8 _ "[]" _ a]
    by (auto simp: parseIPv6_def valid_ip_groups group16_def split: if_splits)
  have "parseIPv4 s = Some a \<or> parseIPv6 s = Some a" if "ParseIP_from s t = Some a" for t
    using that by (induction t) (auto split: if_splits)
  then show "ParseIP s = Some a \<Longrightarrow> ?thesis" using v6 parseIPv4_valid by (auto simp: ParseIP_def)
qed

end
