(* ===== verification/Hostnames.thy ===== *)
theory Hostnames
  imports Limits Go_Net_Facts
begin

section \<open>Host names, addresses and TCP forwards (internal/domain/validate.go, monitoring.go)\<close>

text \<open>
  The checks that stand between what an administrator types and the text the program writes into
  nginx configurations: host names, \<open>Host\<close> headers, \<open>host:port\<close> addresses, health check paths,
  origin schemes and the list of TCP forwards of a site.
\<close>

subsection \<open>Host names\<close>

definition is_alnum :: "char \<Rightarrow> bool" where
  "is_alnum c \<longleftrightarrow> is_lower c \<or> is_upper c \<or> is_digit c"

definition valid_label :: "(char \<Rightarrow> bool) \<Rightarrow> string \<Rightarrow> bool" where
  "valid_label allowed l \<longleftrightarrow> l \<noteq> [] \<and> length l \<le> 63 \<and> hd l \<noteq> CHR ''-'' \<and> last l \<noteq> CHR ''-''
     \<and> list_all (\<lambda>c. allowed c \<or> c = CHR ''-'') l"

definition ValidHostname :: "string \<Rightarrow> bool" where
  "ValidHostname v \<longleftrightarrow> ParseIP v \<noteq> None
     \<or> v \<noteq> [] \<and> length v \<le> 253 \<and> \<not> Contains v ''..'' \<and> list_all (valid_label is_alnum) (Split v (CHR ''.''))"

text \<open>\<open>strings.Trim\<close> with a set of bytes\<close>

definition Trim_chars :: "string \<Rightarrow> string \<Rightarrow> string" where
  "Trim_chars s cutset =
     rev (dropWhile (\<lambda>c. c \<in> set cutset) (rev (dropWhile (\<lambda>c. c \<in> set cutset) s)))"

definition valid_port :: "string \<Rightarrow> bool" where
  "valid_port p = (case Atoi p of None \<Rightarrow> False | Some n \<Rightarrow> 1 \<le> n \<and> n \<le> 65535)"

definition blank_chars :: string where
  "blank_chars = [CHR '' '', CHR 0x09, CHR 0x0D, CHR 0x0A]"

definition ValidHostHeader :: "string \<Rightarrow> bool" where
  "ValidHostHeader v \<longleftrightarrow> \<not> ContainsAny v (blank_chars @ ''/@?#'')
     \<and> (case SplitHostPort v of
          Some (host, port) \<Rightarrow> ValidHostname (Trim_chars host ''[]'') \<and> valid_port port
        | None \<Rightarrow> ValidHostname v)"

subsection \<open>Addresses of probes\<close>

definition validMonitoringDomain :: "string \<Rightarrow> bool" where
  "validMonitoringDomain host \<longleftrightarrow> host \<noteq> [] \<and> length host \<le> 253
     \<and> list_all (valid_label (\<lambda>c. is_lower c \<or> is_digit c)) (Split host (CHR ''.''))"

definition NormalizeMonitoringAddress :: "string \<Rightarrow> string result" where
  "NormalizeMonitoringAddress value =
     (let v = TrimSpace value in
      if v = [] \<or> length v > 300 then Inl (err ''monitoring address must be host:port'')
      else case SplitHostPort v of
        None \<Rightarrow> Inl (err ''monitoring address must be IP:port or domain:port'')
      | Some (host, portText) \<Rightarrow>
          if host = [] then Inl (err ''monitoring address must be IP:port or domain:port'')
          else if \<not> valid_port portText then Inl (err ''monitoring port must be between 1 and 65535'')
          else let port = decimal (nat (the (Atoi portText))) in
            (case ParseIP host of
              Some ip \<Rightarrow>
                if IsUnspecified ip \<or> IsMulticast ip then Inl (err ''monitoring IP address is not reachable'')
                else Inr (JoinHostPort (IP_String ip) port)
            | None \<Rightarrow>
                let host' = ToLower (TrimSuffix host ''.'') in
                if \<not> validMonitoringDomain host' then
                  Inl (err ''monitoring host must be a valid IP address or domain'')
                else Inr (JoinHostPort host' port)))"

subsection \<open>Origins\<close>

definition ValidateOriginHealthCheck :: "string \<Rightarrow> string \<Rightarrow> unit result" where
  "ValidateOriginHealthCheck method healthPath =
     (if method \<noteq> [] \<and> method \<noteq> OriginHealthCheckMethodHEAD \<and> method \<noteq> OriginHealthCheckMethodGET
      then Inl (err ''origin health check method must be HEAD or GET'')
      else if healthPath = [] then Inr ()
      else if length healthPath > 1024
      then Inl (Errorf ''origin health check path must not exceed %d characters'' [ArgI 1024])
      else if \<not> HasPrefix healthPath ''/'' \<or> ContainsAny healthPath (blank_chars @ CHR 0x00 # ''?#'')
      then Inl (err ''origin health check path must be an absolute path without query or fragment'')
      else if Clean healthPath \<noteq> healthPath then Inl (err ''origin health check path must be normalized'')
      else Inr ())"

definition EffectiveOriginHealthCheck :: "string \<Rightarrow> string \<Rightarrow> string \<times> string" where
  "EffectiveOriginHealthCheck method healthPath =
     (let m = ToUpper (TrimSpace method); p = TrimSpace healthPath in
      (if m = [] then OriginHealthCheckMethodHEAD else m, if p = [] then DefaultOriginHealthCheckPath else p))"

definition EffectiveOriginHTTPVersion :: "origin \<Rightarrow> string" where
  "EffectiveOriginHTTPVersion o' = (if og_HTTPVersion o' = [] then OriginHTTPVersionHTTP1 else og_HTTPVersion o')"

definition ValidOriginScheme :: "string \<Rightarrow> bool" where
  "ValidOriginScheme s \<longleftrightarrow> s \<in> {''http'', ''https'', ''ws'', ''wss'', ''grpc'', ''grpcs''}"

definition IsGRPCScheme :: "string \<Rightarrow> bool" where
  "IsGRPCScheme s \<longleftrightarrow> s = ''grpc'' \<or> s = ''grpcs''"

definition IsWebSocketScheme :: "string \<Rightarrow> bool" where
  "IsWebSocketScheme s \<longleftrightarrow> s = ''ws'' \<or> s = ''wss''"

definition OriginUsesTLS :: "string \<Rightarrow> bool" where
  "OriginUsesTLS s \<longleftrightarrow> s = ''https'' \<or> s = ''wss'' \<or> s = ''grpcs''"

definition ProxyScheme :: "string \<Rightarrow> string" where
  "ProxyScheme s = (if s = ''ws'' then ''http'' else if s = ''wss'' then ''https'' else s)"

subsection \<open>TCP forwards\<close>

definition canonical_host :: "string \<Rightarrow> string" where
  "canonical_host h = ToLower (TrimSuffix (TrimSpace h) ''.'')"

definition tls_server_name :: "string \<Rightarrow> tcp_forward \<Rightarrow> string result" where
  "tls_server_name upstream f =
     (let name = canonical_host (tf_UpstreamTLSServerName f) in
      if \<not> tf_UpstreamTLS f then
        (if name \<noteq> [] then Inl (Errorf ''TCP forward %q TLS server name requires upstream TLS'' [ArgS (tf_Name f)])
         else Inr [])
      else if name = [] \<and> ParseIP upstream \<noteq> None then
        Inl (Errorf ''TCP forward %q requires a TLS server name when the upstream is an IP address'' [ArgS (tf_Name f)])
      else let name' = (if name = [] then upstream else name) in
        if ParseIP name' \<noteq> None \<or> \<not> ValidHostname name' then
          Inl (Errorf ''TCP forward %q has an invalid upstream TLS server name'' [ArgS (tf_Name f)])
        else Inr name')"

definition normalize_forward :: "int list \<Rightarrow> tcp_forward \<Rightarrow> tcp_forward result" where
  "normalize_forward seenPorts f0 =
     (let name = TrimSpace (tf_Name f0); f = f0\<lparr>tf_Name := name\<rparr>; port = tf_ListenPort f;
          host = canonical_host (tf_UpstreamHost f);
          connect = (if tf_ConnectTimeoutSeconds f = 0 then DefaultTCPConnectTimeoutSeconds else tf_ConnectTimeoutSeconds f);
          idle = (if tf_IdleTimeoutSeconds f = 0 then DefaultTCPIdleTimeoutSeconds else tf_IdleTimeoutSeconds f) in
      if name = [] \<or> length name > 100 then Inl (err ''TCP forward name must be between 1 and 100 characters'')
      else if port < 1 \<or> port > 65535 then
        Inl (Errorf ''TCP forward %q listen port must be between 1 and 65535'' [ArgS name])
      else if port = 80 \<or> port = 443 then
        Inl (Errorf ''TCP forward %q cannot listen on reserved HTTP port %d'' [ArgS name, ArgI port])
      else if port \<in> set seenPorts then Inl (Errorf ''duplicate TCP listen port %d'' [ArgI port])
      else if \<not> ValidHostname host then
        Inl (Errorf ''TCP forward %q has an invalid upstream hostname'' [ArgS name])
      else if tf_UpstreamPort f < 1 \<or> tf_UpstreamPort f > 65535 then
        Inl (Errorf ''TCP forward %q upstream port must be between 1 and 65535'' [ArgS name])
      else if connect < 1 \<or> connect > 60 then
        Inl (Errorf ''TCP forward %q connect timeout must be between 1 and 60 seconds'' [ArgS name])
      else if idle < 30 \<or> idle > 3600 then
        Inl (Errorf ''TCP forward %q idle timeout must be between 30 and 3600 seconds'' [ArgS name])
      else (case tls_server_name host f of Inl e \<Rightarrow> Inl e | Inr tls \<Rightarrow>
        Inr (f\<lparr>tf_UpstreamHost := host, tf_ConnectTimeoutSeconds := connect, tf_IdleTimeoutSeconds := idle,
               tf_UpstreamTLSServerName := tls\<rparr>)))"

fun normalize_forwards :: "int list \<Rightarrow> tcp_forward list \<Rightarrow> tcp_forward list result" where
  "normalize_forwards seen [] = Inr []"
| "normalize_forwards seen (f # fs) =
     (case normalize_forward seen f of Inl e \<Rightarrow> Inl e | Inr g \<Rightarrow>
      (case normalize_forwards (tf_ListenPort g # seen) fs of Inl e \<Rightarrow> Inl e | Inr gs \<Rightarrow> Inr (g # gs)))"

definition normalizeTCPForwards :: "site \<Rightarrow> site result" where
  "normalizeTCPForwards s =
     (if int (length (st_TCPForwards s)) > MaxTCPForwardsPerSite then
        Inl (Errorf ''a site can define at most %d TCP forwards'' [ArgI MaxTCPForwardsPerSite])
      else (case normalize_forwards [] (st_TCPForwards s) of Inl e \<Rightarrow> Inl e | Inr fs \<Rightarrow>
        Inr (s\<lparr>st_TCPForwards := fs\<rparr>)))"

end
