(* ===== verification/Hostname_Facts.thy ===== *)
theory Hostname_Facts
  imports Hostnames
begin

section \<open>The text of host names and addresses\<close>

subsection \<open>Characters\<close>

definition host_char :: "char \<Rightarrow> bool" where
  "host_char c \<longleftrightarrow> is_alnum c \<or> c = CHR ''-'' \<or> c = CHR ''.'' \<or> c = CHR '':''"

definition printable :: "char \<Rightarrow> bool" where
  "printable c \<longleftrightarrow> 32 < byte_of c \<and> byte_of c < 127"

lemma hex_alnum: "is_hex c \<Longrightarrow> is_alnum c"
  by (auto simp: is_hex_def is_alnum_def is_lower_def is_upper_def)

lemma ip_host_char: "is_ip_char c \<Longrightarrow> host_char c"
  by (auto simp: is_ip_char_def host_char_def hex_alnum)

lemma host_char_printable: "host_char c \<Longrightarrow> printable c"
  by (auto simp: host_char_def is_alnum_def is_lower_def is_upper_def is_digit_def printable_def byte_of_def)

lemma host_char_no_bracket: "host_char c \<Longrightarrow> c \<noteq> CHR ''['' \<and> c \<noteq> CHR '']''"
  by (auto simp: host_char_def is_alnum_def is_lower_def is_upper_def is_digit_def byte_of_def)

lemma digit_host_char: "is_digit c \<Longrightarrow> host_char c \<and> c \<noteq> CHR '':'' \<and> c \<noteq> CHR ''.''"
  by (auto simp: host_char_def is_alnum_def)

lemma labels_chars:
  assumes "list_all (valid_label allowed) (Split v (CHR ''.''))" and "c \<in> set v"
  shows "allowed c \<or> c = CHR ''-'' \<or> c = CHR ''.''"
  using Split_chars [OF assms(2), of "CHR ''.''"] assms(1)
  by (auto simp: list_all_iff valid_label_def)

lemma ValidHostname_chars: "ValidHostname v \<Longrightarrow> \<forall>c \<in> set v. host_char c"
proof -
  have "host_char c" if "list_all (valid_label is_alnum) (Split v (CHR ''.''))" "c \<in> set v" for c
    using labels_chars [OF that] by (auto simp: host_char_def)
  then show "ValidHostname v \<Longrightarrow> ?thesis"
    using ParseIP_chars [of v] ip_host_char by (auto simp: ValidHostname_def)
qed

lemma validMonitoringDomain_chars: "validMonitoringDomain v \<Longrightarrow> \<forall>c \<in> set v. host_char c \<and> c \<noteq> CHR '':'' \<and> \<not> is_upper c"
  using labels_chars [of "\<lambda>c. is_lower c \<or> is_digit c" v]
  by (force simp: validMonitoringDomain_def host_char_def is_alnum_def is_lower_def is_digit_def is_upper_def byte_of_def)

subsection \<open>Trimming and case of printable text\<close>

lemma printable_space_prefix: "32 < b \<Longrightarrow> b < 127 \<Longrightarrow> space_prefix (b # bs) = 0"
  by (cases bs; cases "tl bs") (auto split: list.split)

lemma printable_leading: "\<forall>c \<in> set s. printable c \<Longrightarrow> leading_space s = 0"
proof (cases s)
  case (Cons c t)
  assume "\<forall>c \<in> set s. printable c"
  with Cons have "32 < byte_of c" "byte_of c < 127" by (simp_all add: printable_def)
  with Cons show ?thesis by (simp add: leading_space_def printable_space_prefix numeral_3_eq_3 del: space_prefix.simps)
qed simp

lemma TrimSpace_printable: "\<forall>c \<in> set s. printable c \<Longrightarrow> TrimSpace s = s"
proof -
  assume p: "\<forall>c \<in> set s. printable c"
  have "leading_space (drop n s) = 0" for n
    by (rule printable_leading) (use p set_drop_subset [of n s] in blast)
  then have "trailing_space s = 0" by (simp add: trailing_space_def)
  then show ?thesis
    by (simp add: TrimSpace_def TrimLeftSpace_fixed printable_leading [OF p] TrimRightSpace_fixed)
qed

lemma lower_byte_ascii: "byte_of c < 128 \<Longrightarrow> byte_of (lower_byte c) < 128"
  by (auto simp: lower_byte_def is_upper_def)

lemma ToLower_ascii: "\<forall>c \<in> set s. byte_of c < 128 \<Longrightarrow> ToLower s = map lower_byte s"
proof (induction s)
  case (Cons c s)
  then have "byte_of c < 128" by simp
  then have "c \<noteq> CHR 0xC4" "c \<noteq> CHR 0xE2" by (auto simp: byte_of_def)
  with Cons show ?case by simp
qed simp

lemma lower_byte_not_upper [simp]: "\<not> is_upper (lower_byte c)"
  by (auto simp: lower_byte_def is_upper_def)

lemma ToLower_not_upper: "c \<in> set (ToLower s) \<Longrightarrow> \<not> is_upper c"
proof (induction s rule: ToLower.induct)
  case (2 d s)
  have letters: "\<not> is_upper (CHR ''i'')" "\<not> is_upper (CHR ''k'')" by (simp_all add: is_upper_def byte_of_def)
  from "2.prems" consider "c = CHR ''i''" | "c = CHR ''k''" | "c = lower_byte d" | "c \<in> set (ToLower s)"
    | "HasPrefix (d # s) [CHR 0xC4, CHR 0xB0]" "c \<in> set (ToLower (drop 1 s))"
    | "HasPrefix (d # s) [CHR 0xE2, CHR 0x84, CHR 0xAA]" "\<not> HasPrefix (d # s) [CHR 0xC4, CHR 0xB0]" "c \<in> set (ToLower (drop 2 s))"
    by (auto simp del: HasPrefix.simps split: if_splits)
  then show ?case
  proof cases
    case 4
    show ?thesis
    proof (cases "HasPrefix (d # s) [CHR 0xC4, CHR 0xB0] \<or> HasPrefix (d # s) [CHR 0xE2, CHR 0x84, CHR 0xAA]")
      case False
      with 4 "2.IH"(3) show ?thesis by blast
    next
      case True
      with 4 "2.prems" "2.IH" letters show ?thesis by (auto simp del: HasPrefix.simps split: if_splits)
    qed
  qed (use "2.IH"(1,2) letters in \<open>auto simp del: HasPrefix.simps\<close>)
qed simp

lemma ToLower_fixed: "\<forall>c \<in> set s. printable c \<and> \<not> is_upper c \<Longrightarrow> ToLower s = s"
proof -
  assume s: "\<forall>c \<in> set s. printable c \<and> \<not> is_upper c"
  then have "\<forall>c \<in> set s. byte_of c < 128" by (auto simp: printable_def)
  moreover have "map lower_byte s = s" using s by (intro map_idI) (simp add: lower_byte_def)
  ultimately show ?thesis by (simp add: ToLower_ascii)
qed

subsection \<open>No trailing dot\<close>

lemma Split_snoc: "Split (t @ [c]) c = Split t c @ [[]]"
  by (induction t) (auto split: list.splits)

lemma HasSuffix_char: "HasSuffix s [c] \<longleftrightarrow> s \<noteq> [] \<and> last s = c"
  by (cases s rule: rev_cases) (auto simp: HasSuffix_iff)

lemma those_snoc: "those (xs @ [None]) = None"
  by (induction xs) (auto split: option.split)

lemma parseIPv4Fields_dot: "parseIPv4Fields s \<noteq> None \<Longrightarrow> s \<noteq> [] \<and> last s \<noteq> CHR ''.''"
  by (cases s rule: rev_cases) (auto simp: parseIPv4Fields_def parse_octet_def Split_snoc those_snoc)

lemma parse_groups_dot: "parse_groups room s groups e = Some a \<Longrightarrow> s \<noteq> [] \<and> last s \<noteq> CHR ''.''"
proof (induction room s groups e rule: parse_groups.induct)
  case (2 room s groups e)
  let ?d = "takeWhile is_hex s"
  have s: "s = ?d @ dropWhile is_hex s" by simp
  from "2.prems" have d: "?d \<noteq> []" "length ?d \<le> 4" by (auto simp: Let_def split: if_splits)
  show ?case
  proof (cases "dropWhile is_hex s")
    case Nil
    with s have "last s \<in> set ?d" using d by (metis append_Nil2 last_in_set)
    then have "is_hex (last s)" by (auto dest: set_takeWhileD)
    then show ?thesis using d not_digit by auto
  next
    case (Cons c t)
    then have last: "last s = (if t = [] then c else last t)" using s by (metis last_ConsL last_ConsR last_append list.distinct(1))
    show ?thesis
    proof (cases "c = CHR ''.''")
      case True
      with "2.prems" d Cons have "dotted_tail s \<noteq> None" by (auto simp: Let_def split: if_splits option.splits)
      then have "parseIPv4Fields s \<noteq> None"
        by (cases "parseIPv4Fields s") (simp_all add: dotted_tail_def)
      then show ?thesis by (rule parseIPv4Fields_dot)
    next
      case False
      with "2.prems" d Cons have c: "c = CHR '':''" "t \<noteq> []" by (auto simp: Let_def split: if_splits)
      have "last t \<noteq> CHR ''.''"
      proof (cases "hd t = CHR '':'' \<and> tl t = []")
        case True
        then have "t = '':''" using c(2) by (cases t) auto
        then show ?thesis by simp
      next
        case nonempty: False
        have "last (tl t) \<noteq> CHR ''.'' \<and> tl t \<noteq> [] \<or> last t \<noteq> CHR ''.''"
          using "2.IH" [OF refl refl _ Cons False] "2.prems" d Cons False c nonempty by (auto simp: Let_def split: if_splits)
        then show ?thesis using c(2) by (cases t) auto
      qed
      with last c s d show ?thesis by auto
    qed
  qed
qed simp

lemma ParseIP_no_dot: "ParseIP s = Some a \<Longrightarrow> \<not> HasSuffix s ''.''"
proof -
  have v6: "\<not> HasSuffix s ''.''" if p: "parseIPv6 s = Some a"
  proof (cases "HasPrefix s ''::''")
    case True
    then obtain t where s: "s = ''::'' @ t" by (auto simp: HasPrefix_iff)
    with p show ?thesis using parse_groups_dot [of 8 t "[]" "Some 0" a]
      by (cases "t = []") (auto simp: parseIPv6_def HasSuffix_char split: if_splits)
  next
    case False
    with p show ?thesis using parse_groups_dot [of 8 s "[]" None a]
      by (auto simp: parseIPv6_def HasSuffix_char split: if_splits)
  qed
  have "parseIPv4 s = Some a \<or> parseIPv6 s = Some a" if "ParseIP_from s t = Some a" for t
    using that by (induction t) (auto split: if_splits)
  moreover have "\<not> HasSuffix s ''.''" if "parseIPv4 s = Some a"
    using that parseIPv4Fields_dot [of s] by (auto simp: parseIPv4_def HasSuffix_char split: option.splits)
  ultimately show "ParseIP s = Some a \<Longrightarrow> ?thesis" using v6 by (auto simp: ParseIP_def)
qed

lemma labels_no_dot: "list_all (valid_label allowed) (Split v (CHR ''.'')) \<Longrightarrow> \<not> HasSuffix v ''.''"
  by (cases v rule: rev_cases) (auto simp: HasSuffix_char Split_snoc valid_label_def)

lemma ValidHostname_no_dot: "ValidHostname v \<Longrightarrow> \<not> HasSuffix v ''.''"
  using ParseIP_no_dot labels_no_dot by (auto simp: ValidHostname_def)

text \<open>A canonical host name that is valid is its own canonical form.\<close>

lemma canonical_host_fixed: "ValidHostname (canonical_host h) \<Longrightarrow> canonical_host (canonical_host h) = canonical_host h"
proof -
  let ?v = "canonical_host h"
  assume v: "ValidHostname ?v"
  have p: "\<forall>c \<in> set ?v. printable c" using ValidHostname_chars [OF v] host_char_printable by blast
  have "\<forall>c \<in> set ?v. \<not> is_upper c" using ToLower_not_upper by (auto simp: canonical_host_def)
  with p have "ToLower ?v = ?v" by (intro ToLower_fixed) blast
  moreover have "TrimSuffix ?v ''.'' = ?v" using ValidHostname_no_dot [OF v] by (simp add: TrimSuffix_def)
  ultimately show ?thesis by (subst canonical_host_def) (simp add: TrimSpace_printable [OF p])
qed

subsection \<open>Host and port\<close>

lemma last_colon_append: "CHR '':'' \<notin> set p \<Longrightarrow> last_colon (h @ CHR '':'' # p) = Some (length h)"
proof (induction h)
  case Nil
  have "CHR '':'' \<notin> set p \<Longrightarrow> last_colon p = None" by (induction p) auto
  with Nil show ?case by simp
qed simp

lemma first_index_append: "x \<notin> set h \<Longrightarrow> first_index x (h @ x # p) = Some (length h)"
  by (induction h) auto

lemma last_colon_split: "last_colon s = Some i \<Longrightarrow> s = take i s @ CHR '':'' # drop (Suc i) s \<and> i < length s"
  by (induction s arbitrary: i) (auto split: option.splits if_splits)

lemma first_index_split: "first_index x s = Some i \<Longrightarrow> s = take i s @ x # drop (Suc i) s \<and> i < length s"
  by (induction s arbitrary: i) (auto split: if_splits)

lemma SplitHostPort_parts:
  assumes "SplitHostPort v = Some (h, p)"
  shows "v = h @ CHR '':'' # p \<or> v = CHR ''['' # h @ '']:'' @ p"
proof -
  obtain i where i: "last_colon v = Some i" using assms by (auto simp: SplitHostPort_def split: option.splits)
  note colon = last_colon_split [OF i]
  show ?thesis
  proof (cases "hd v = CHR ''[''")
    case False
    with assms i colon show ?thesis by (auto simp: SplitHostPort_def split: if_splits)
  next
    case True
    with assms i obtain close where close: "first_index (CHR '']'') v = Some close" "Suc close = i"
        "h = take (close - 1) (drop 1 v)" "p = drop (Suc i) v"
      by (auto simp: SplitHostPort_def split: if_splits option.splits)
    obtain w where v: "v = CHR ''['' # w" using True colon by (cases v) auto
    from first_index_split [OF close(1)] v have "close \<noteq> 0" by (cases close) auto
    then obtain k where k: "close = Suc k" by (cases close) auto
    have "v = take i v @ CHR '':'' # p" using colon close(4) by simp
    moreover have "take i v = CHR ''['' # take k w @ '']''"
      using first_index_split [OF close(1)] v k close(2)
      by (auto simp: take_Suc_conv_app_nth) (metis append_take_drop_id nth_append_length length_take less_imp_le min.absorb2 Suc_less_eq)
    ultimately show ?thesis using close(3) v k by simp
  qed
qed

lemma SplitHostPort_Join:
  assumes "\<forall>c \<in> set h. host_char c" and "\<forall>c \<in> set p. is_digit c"
  shows "SplitHostPort (JoinHostPort h p) = Some (h, p)"
proof -
  have h: "CHR ''['' \<notin> set h" "CHR '']'' \<notin> set h" using assms(1) host_char_no_bracket by blast+
  have p: "CHR '':'' \<notin> set p" "CHR ''['' \<notin> set p" "CHR '']'' \<notin> set p"
    using assms(2) digit_host_char host_char_no_bracket by blast+
  show ?thesis
  proof (cases "CHR '':'' \<in> set h")
    case True
    have "last_colon (CHR ''['' # h @ '']:'' @ p) = Some (Suc (Suc (length h)))"
      using last_colon_append [OF p(1), of "CHR ''['' # h @ '']''"] by simp
    moreover have "first_index (CHR '']'') (CHR ''['' # h @ '']:'' @ p) = Some (Suc (length h))"
      using first_index_append [of "CHR '']''" "CHR ''['' # h" "CHR '':'' # p"] h by simp
    ultimately show ?thesis using True h p by (simp add: JoinHostPort_def SplitHostPort_def)
  next
    case False
    have "hd (h @ CHR '':'' # p) \<noteq> CHR ''[''" using h by (cases h) auto
    then show ?thesis
      using False h p by (simp add: JoinHostPort_def SplitHostPort_def last_colon_append)
  qed
qed

subsection \<open>Ports\<close>

lemma Atoi_chars: "Atoi p = Some n \<Longrightarrow> 1 \<le> n \<Longrightarrow> \<forall>c \<in> set p. is_digit c \<or> c = CHR ''+''"
proof (cases p)
  case (Cons c rest)
  assume n: "Atoi p = Some n" "1 \<le> n"
  have "c \<noteq> CHR ''-''"
  proof
    assume "c = CHR ''-''"
    with n Cons obtain m where "digits_value rest 0 = Some m" "n = - m"
      by (auto simp: Atoi_def Let_def split: if_splits option.splits)
    with digits_value_nonneg [of rest 0 m] n(2) show False by simp
  qed
  with n Cons obtain m where "digits_value (if c = CHR ''+'' then rest else p) 0 = Some m"
    by (auto simp: Atoi_def Let_def split: if_splits option.splits)
  from digits_value_digits [OF this] Cons show ?thesis by (auto split: if_splits)
qed simp

lemma Atoi_decimal: "n < 2 ^ 63 \<Longrightarrow> Atoi (decimal n) = Some (int n)"
proof -
  assume n: "n < 2 ^ 63"
  obtain c rest where d: "decimal n = c # rest" by (cases "decimal n") auto
  then have "is_digit c" using decimal_digits [of c n] by simp
  then have "c \<noteq> CHR ''-''" "c \<noteq> CHR ''+''" by (auto simp: is_digit_def byte_of_def)
  moreover have "int n < 2 ^ 63" using n by (metis of_nat_less_iff of_nat_numeral of_nat_power)
  ultimately show ?thesis using decimal_value [of n] by (simp add: Atoi_def d)
qed

lemma valid_port_decimal: "valid_port p \<Longrightarrow> \<exists>n. the (Atoi p) = n \<and> 1 \<le> n \<and> n \<le> 65535 \<and>
    valid_port (decimal (nat n)) \<and> the (Atoi (decimal (nat n))) = n"
  by (auto simp: valid_port_def Atoi_decimal split: option.splits)

end
