(* ===== verification/Hostname_Properties.thy ===== *)
theory Hostname_Properties
  imports Hostname_Facts Samples
begin

section \<open>What the checks of names and addresses guarantee\<close>

subsection \<open>Host headers\<close>

text \<open>The bytes an accepted \<open>Host\<close> header is made of.\<close>

definition header_char :: "char \<Rightarrow> bool" where
  "header_char c \<longleftrightarrow> is_alnum c \<or> c \<in> set ''-.:[]+''"

lemma header_char_simps [simp]: "host_char c \<Longrightarrow> header_char c" "is_digit c \<Longrightarrow> header_char c"
  "header_char (CHR ''+'')" "header_char (CHR '':'')" "header_char (CHR ''['')" "header_char (CHR '']'')"
  by (auto simp: header_char_def host_char_def is_alnum_def)

lemma Trim_chars_set: "c \<in> set s \<Longrightarrow> c \<in> set (Trim_chars s t) \<or> c \<in> set t"
proof -
  let ?P = "\<lambda>c. c \<in> set t"
  have drop: "c \<in> set s \<Longrightarrow> c \<in> set (dropWhile ?P s) \<or> c \<in> set t" for s :: string
    by (metis Un_iff set_append set_takeWhileD takeWhile_dropWhile_id)
  assume "c \<in> set s"
  with drop [of s] drop [of "rev (dropWhile ?P s)"] show ?thesis by (auto simp: Trim_chars_def)
qed

text \<open>
  No host name or \<open>Host\<close> header that passes the checks can break out of the nginx
  directive it is written into: it consists of letters, digits and the characters \<open>- . : [ ] +\<close>, so it
  has no space, quote, semicolon, brace, dollar sign, backslash, control character or byte above ASCII.
\<close>

theorem headers_cannot_inject:
  "ValidHostname v \<or> ValidHostHeader v \<Longrightarrow> \<forall>c \<in> set v. header_char c"
proof -
  have name: "ValidHostname w \<Longrightarrow> \<forall>c \<in> set w. header_char c" for w
    using ValidHostname_chars [of w] by auto
  have "\<forall>c \<in> set v. header_char c" if v: "ValidHostHeader v"
  proof (cases "SplitHostPort v")
    case None
    with v have "ValidHostname v" by (simp add: ValidHostHeader_def)
    then show ?thesis by (rule name)
  next
    case (Some hp)
    obtain h p where hp: "hp = (h, p)" by force
    from v Some hp have "ValidHostname (Trim_chars h ''[]'')" and port: "valid_port p"
      by (simp_all add: ValidHostHeader_def)
    with name have "\<forall>c \<in> set (Trim_chars h ''[]''). header_char c" by blast
    then have h: "\<forall>c \<in> set h. header_char c" using Trim_chars_set [of _ h "''[]''"] by fastforce
    have "\<forall>c \<in> set p. header_char c"
      using port Atoi_chars [of p] by (auto simp: valid_port_def split: option.splits)
    with h SplitHostPort_parts [of v h p] Some hp show ?thesis by auto
  qed
  with name show "ValidHostname v \<or> ValidHostHeader v \<Longrightarrow> ?thesis" by blast
qed

theorem headers_cannot_inject_witness:
  "ValidHostHeader ''[2001:db8::1]:8443'' \<and> list_all header_char ''[2001:db8::1]:8443''"
proof -
  have v: "ValidHostHeader ''[2001:db8::1]:8443''" by code_simp
  from headers_cannot_inject [OF disjI2 [OF v]] v show ?thesis by (simp only: list_all_iff simp_thms)
qed

text \<open>A port is read with \<open>strconv.Atoi\<close>, so one with a sign passes.\<close>

lemma signed_port_passes: "ValidHostHeader ''origin.example:+80''"
  by code_simp

subsection \<open>TCP forwards\<close>

definition forward_ok :: "tcp_forward \<Rightarrow> bool" where
  "forward_ok f \<longleftrightarrow> TrimSpace (tf_Name f) = tf_Name f \<and> tf_Name f \<noteq> [] \<and> length (tf_Name f) \<le> 100
     \<and> 1 \<le> tf_ListenPort f \<and> tf_ListenPort f \<le> 65535 \<and> tf_ListenPort f \<noteq> 80 \<and> tf_ListenPort f \<noteq> 443
     \<and> canonical_host (tf_UpstreamHost f) = tf_UpstreamHost f \<and> ValidHostname (tf_UpstreamHost f)
     \<and> 1 \<le> tf_UpstreamPort f \<and> tf_UpstreamPort f \<le> 65535
     \<and> 1 \<le> tf_ConnectTimeoutSeconds f \<and> tf_ConnectTimeoutSeconds f \<le> 60
     \<and> 30 \<le> tf_IdleTimeoutSeconds f \<and> tf_IdleTimeoutSeconds f \<le> 3600
     \<and> (if tf_UpstreamTLS f
        then canonical_host (tf_UpstreamTLSServerName f) = tf_UpstreamTLSServerName f
          \<and> ParseIP (tf_UpstreamTLSServerName f) = None \<and> ValidHostname (tf_UpstreamTLSServerName f)
        else tf_UpstreamTLSServerName f = [])"

definition tcp_forwards_ok :: "site \<Rightarrow> bool" where
  "tcp_forwards_ok s \<longleftrightarrow> length (st_TCPForwards s) \<le> 32 \<and> list_all forward_ok (st_TCPForwards s)
     \<and> distinct (map tf_ListenPort (st_TCPForwards s))"

lemma canonical_Nil [simp]: "canonical_host [] = []"
  by (simp add: canonical_host_def TrimSuffix_def HasSuffix_def)

lemma ValidHostname_Nil [simp]: "\<not> ValidHostname []"
  by (simp add: ValidHostname_def ParseIP_def)

lemma tls_server_name_ok:
  assumes "tls_server_name upstream f = Inr n" and "ValidHostname upstream" and "canonical_host upstream = upstream"
  shows "if tf_UpstreamTLS f then canonical_host n = n \<and> ParseIP n = None \<and> ValidHostname n else n = []"
  using assms canonical_host_fixed [of "tf_UpstreamTLSServerName f"]
  by (auto simp: tls_server_name_def Let_def split: if_splits)

lemma normalize_forward_ok:
  assumes "normalize_forward seen f = Inr g"
  shows "forward_ok g \<and> tf_ListenPort g \<notin> set seen"
proof -
  let ?h = "canonical_host (tf_UpstreamHost f)"
  from assms have h: "ValidHostname ?h" by (simp add: normalize_forward_def Let_def)
  note h' = canonical_host_fixed [OF h]
  let ?c = "if tf_ConnectTimeoutSeconds f = 0 then DefaultTCPConnectTimeoutSeconds else tf_ConnectTimeoutSeconds f"
  let ?i = "if tf_IdleTimeoutSeconds f = 0 then DefaultTCPIdleTimeoutSeconds else tf_IdleTimeoutSeconds f"
  from assms obtain n where n: "tls_server_name ?h (f\<lparr>tf_Name := TrimSpace (tf_Name f)\<rparr>) = Inr n"
    and g: "g = f\<lparr>tf_Name := TrimSpace (tf_Name f), tf_UpstreamHost := ?h, tf_ConnectTimeoutSeconds := ?c,
      tf_IdleTimeoutSeconds := ?i, tf_UpstreamTLSServerName := n\<rparr>"
    and c: "\<not> ?c < 1" "\<not> ?c > 60" and i: "\<not> ?i < 30" "\<not> ?i > 3600"
    and ports: "\<not> tf_ListenPort f < 1" "\<not> tf_ListenPort f > 65535" "tf_ListenPort f \<noteq> 80" "tf_ListenPort f \<noteq> 443"
      "tf_ListenPort f \<notin> set seen" "\<not> tf_UpstreamPort f < 1" "\<not> tf_UpstreamPort f > 65535"
    and name: "TrimSpace (tf_Name f) \<noteq> []" "\<not> length (TrimSpace (tf_Name f)) > 100"
    unfolding normalize_forward_def Let_def by (simp cong: if_cong) blast
  from tls_server_name_ok [OF n h h'] c i ports name show ?thesis
    by (simp add: g forward_ok_def h h' del: One_nat_def)
qed

lemma normalize_forward_fixed:
  "forward_ok g \<Longrightarrow> tf_ListenPort g \<notin> set seen \<Longrightarrow> normalize_forward seen g = Inr g"
  by (cases g) (auto simp: normalize_forward_def Let_def forward_ok_def tls_server_name_def split: if_splits)

lemma normalize_forwards_ok:
  "normalize_forwards seen fs = Inr gs \<Longrightarrow>
    list_all forward_ok gs \<and> distinct (map tf_ListenPort gs) \<and> set (map tf_ListenPort gs) \<inter> set seen = {} \<and> length gs = length fs"
proof (induction fs arbitrary: seen gs)
  case (Cons f fs)
  then obtain g hs where "normalize_forward seen f = Inr g" "normalize_forwards (tf_ListenPort g # seen) fs = Inr hs"
      "gs = g # hs" by auto
  with normalize_forward_ok [of seen f g] Cons.IH [of "tf_ListenPort g # seen" hs] show ?case by auto
qed simp

lemma normalize_forwards_fixed:
  "list_all forward_ok gs \<Longrightarrow> distinct (map tf_ListenPort gs) \<Longrightarrow> set (map tf_ListenPort gs) \<inter> set seen = {} \<Longrightarrow>
    normalize_forwards seen gs = Inr gs"
  by (induction gs arbitrary: seen) (auto simp: normalize_forward_fixed)

interpretation tcp_normal: normalizer normalizeTCPForwards tcp_forwards_ok
proof
  fix s t assume "normalizeTCPForwards s = Inr t"
  then obtain fs where fs: "normalize_forwards [] (st_TCPForwards s) = Inr fs" "t = s\<lparr>st_TCPForwards := fs\<rparr>"
      "length (st_TCPForwards s) \<le> 32"
    by (auto simp: normalizeTCPForwards_def MaxTCPForwardsPerSite_def)
  with normalize_forwards_ok [OF fs(1)] show "tcp_forwards_ok t" by (simp add: tcp_forwards_ok_def)
next
  fix s assume "tcp_forwards_ok s"
  with normalize_forwards_fixed [of "st_TCPForwards s" "[]"] show "normalizeTCPForwards s = Inr s"
    by (simp add: tcp_forwards_ok_def normalizeTCPForwards_def MaxTCPForwardsPerSite_def)
qed

text \<open>
  The TCP forwards that are accepted are safe to render: at most 32, on distinct ports from 1 to
  65535 other than 80 and 443, each with a canonical, valid upstream and time-outs in range, and with a
  TLS server name that is a host name exactly when the upstream uses TLS. Checking them again changes
  nothing.
\<close>

theorem tcp_forwards_are_normal:
  "normalizeTCPForwards s = Inr t \<Longrightarrow> tcp_forwards_ok t \<and> normalizeTCPForwards t = Inr t"
  by (blast intro: tcp_normal.norm_ok tcp_normal.idempotent)

definition example_forward :: tcp_forward where
  "example_forward = \<lparr>tf_Name = '' imap '', tf_ListenPort = 993, tf_ListenTLS = True, tf_UpstreamHost = ''Mail.Example.COM.'',
     tf_UpstreamPort = 143, tf_UpstreamTLS = True, tf_UpstreamTLSServerName = [], tf_ConnectTimeoutSeconds = 0,
     tf_IdleTimeoutSeconds = 0\<rparr>"

definition example_forward' :: tcp_forward where
  "example_forward' = example_forward\<lparr>tf_Name := ''imap'', tf_UpstreamHost := ''mail.example.com'',
     tf_UpstreamTLSServerName := ''mail.example.com'', tf_ConnectTimeoutSeconds := 10, tf_IdleTimeoutSeconds := 300\<rparr>"

theorem tcp_forwards_are_normal_witness:
  "normalizeTCPForwards (sample_site\<lparr>st_TCPForwards := [example_forward]\<rparr>)
     = Inr (sample_site\<lparr>st_TCPForwards := [example_forward']\<rparr>)
   \<and> tcp_forwards_ok (sample_site\<lparr>st_TCPForwards := [example_forward']\<rparr>)"
proof -
  have "normalize_forwards [] [example_forward] = Inr [example_forward']" by code_simp
  then have "normalizeTCPForwards (sample_site\<lparr>st_TCPForwards := [example_forward]\<rparr>)
      = Inr (sample_site\<lparr>st_TCPForwards := [example_forward']\<rparr>)"
    by (simp add: normalizeTCPForwards_def MaxTCPForwardsPerSite_def)
  with tcp_forwards_are_normal [OF this] show ?thesis by simp
qed

subsection \<open>Addresses of probes\<close>

lemma decimal_of_digits:
  "digits_value s 0 = Some n \<Longrightarrow> s \<noteq> [] \<Longrightarrow> length s = 1 \<or> hd s \<noteq> CHR ''0'' \<Longrightarrow> decimal (nat n) = s"
proof (induction s arbitrary: n rule: rev_induct)
  case (snoc c s)
  from snoc.prems(1) obtain m where m: "digits_value s 0 = Some m" and c: "is_digit c"
      and n: "n = m * 10 + int (byte_of c - 48)"
    by (auto simp: digits_value_append split: option.splits if_splits)
  have d: "byte_of c - 48 < 10" "char_of (48 + (byte_of c - 48)) = c"
    using c by (auto simp: is_digit_def byte_of_def)
  have m0: "0 \<le> m" using digits_value_nonneg [OF m] by simp
  show ?case
  proof (cases "s = []")
    case True
    with m n d show ?thesis by (subst decimal.simps) simp
  next
    case False
    with snoc.prems(3) have hd: "hd s \<noteq> CHR ''0''" by auto
    have dec: "decimal (nat m) = s" using snoc.IH [OF m False] hd by blast
    have "m \<noteq> 0"
    proof
      assume "m = 0"
      with dec have "s = [char_of (48 :: nat)]" by (simp add: decimal.simps [of 0])
      moreover have "char_of (48 :: nat) = CHR ''0''" by code_simp
      ultimately show False using hd by simp
    qed
    with m0 n have "\<not> nat n < 10" "nat n div 10 = nat m" "nat n mod 10 = byte_of c - 48"
      using d(1) by (simp_all add: nat_add_distrib nat_mult_distrib)
    with dec d(2) show ?thesis by (subst decimal.simps) simp
  qed
qed simp

lemma decimal_of_octet: "parse_octet s = Some n \<Longrightarrow> decimal (nat n) = s"
proof -
  assume "parse_octet s = Some n"
  then have "digits_value s 0 = Some n" "s \<noteq> []" "\<not> (length s > 1 \<and> hd s = CHR ''0'')"
    by (auto simp: parse_octet_def split: if_splits option.splits)
  moreover from this(2) have "length s = 1 \<or> length s > 1" by (cases s) auto
  ultimately show ?thesis using decimal_of_digits by blast
qed

lemma Split_four: "Split s c = [p, q, r, t] \<Longrightarrow> s = p @ c # q @ c # r @ c # t"
proof -
  have one: "Split s c = p # ps \<Longrightarrow> (if ps = [] then s = p else \<exists>u. s = p @ c # u \<and> Split u c = ps)" for s p ps
  proof (induction s arbitrary: p)
    case (Cons d s)
    then show ?case by (cases "Split s c") (auto split: if_splits)
  qed auto
  assume "Split s c = [p, q, r, t]"
  from one [OF this] obtain u where u: "s = p @ c # u" "Split u c = [q, r, t]" by auto
  from one [OF u(2)] obtain v where v: "u = q @ c # v" "Split v c = [r, t]" by auto
  from one [OF v(2)] obtain w where w: "v = r @ c # w" "Split w c = [t]" by auto
  from one [OF w(2)] u v w show ?thesis by simp
qed

lemma those_length: "those xs = Some ys \<Longrightarrow> xs = map Some ys"
  by (induction xs arbitrary: ys) (auto split: option.splits)

lemma map_four: "map f xs = [a, b, c, d] \<longleftrightarrow> (\<exists>p q r t. xs = [p, q, r, t] \<and> f p = a \<and> f q = b \<and> f r = c \<and> f t = d)"
  by (auto simp: map_eq_Cons_conv)

text \<open>The text of an IPv4 address is unique.\<close>

lemma v4_text_unique: "parseIPv4 s = Some a \<Longrightarrow> IP_String a = s"
proof -
  assume "parseIPv4 s = Some a"
  then obtain p q r t where f: "parseIPv4Fields s = Some [p, q, r, t]"
    and a: "a = [0, 0, 0, 0, 0, 65535, p * 256 + q, r * 256 + t]"
    by (auto simp: parseIPv4_def mapped_v4_def list4 split: option.splits)
  then obtain p' q' r' t' where "Split s (CHR ''.'') = [p', q', r', t']"
      and o: "parse_octet p' = Some p" "parse_octet q' = Some q" "parse_octet r' = Some r" "parse_octet t' = Some t"
    by (auto simp: parseIPv4Fields_def map_four dest!: those_length)
  then have s: "s = p' @ ''.'' @ q' @ ''.'' @ r' @ ''.'' @ t'" using Split_four by force
  have "(p * 256 + q) div 256 = p" "(p * 256 + q) mod 256 = q" "(r * 256 + t) div 256 = r" "(r * 256 + t) mod 256 = t"
    using o parse_octet_range by fastforce+
  then show ?thesis using o by (simp add: a s IP_String_def is_v4_def v4_text_def decimal_of_octet)
qed

lemma length_groups_text: "\<forall>g \<in> set gs. group16 g \<Longrightarrow> length (groups_text gs) \<le> 5 * length gs"
proof (induction gs)
  case (Cons g gs)
  have "length (hex_text g) \<le> 4" using Cons.prems hex_text_props [of g] by simp
  with Cons show ?case by (cases "gs = []") (auto simp: groups_text_Cons)
qed simp

lemma length_decimal: "n < 10 ^ Suc k \<Longrightarrow> length (decimal n) \<le> Suc k"
proof (induction k arbitrary: n)
  case 0
  then show ?case by (subst decimal.simps) simp
next
  case (Suc k)
  show ?case
  proof (cases "n < 10")
    case True
    then show ?thesis by (subst decimal.simps) simp
  next
    case False
    have "n div 10 < 10 ^ Suc k" using Suc.prems by (simp add: less_mult_imp_div_less mult.commute)
    from Suc.IH [OF this] False show ?thesis by (subst decimal.simps) simp
  qed
qed

lemma length_IP_String: "valid_ip a \<Longrightarrow> length (IP_String a) \<le> 90"
proof -
  assume a: "valid_ip a"
  show ?thesis
  proof (cases "is_v4 a")
    case True
    have o: "length (decimal (nat n)) \<le> Suc 2" if "n \<le> 255" for n
      using that by (intro length_decimal) simp
    have "a ! 6 div 256 \<le> 255" "a ! 6 mod 256 \<le> 255" "a ! 7 div 256 \<le> 255" "a ! 7 mod 256 \<le> 255"
      using a byte_halves [of "a ! 6"] byte_halves [of "a ! 7"] by (auto simp: valid_ip_def)
    from this [THEN o] True show ?thesis by (simp add: IP_String_def v4_text_def)
  next
    case False
    obtain i l where il: "longest_zeros 0 a (0, 0) = (i, l)" by fastforce
    have g: "length a = 8" "\<forall>g \<in> set a. group16 g" using a by (auto simp: valid_ip_groups)
    have "\<forall>g \<in> set (take i a). group16 g" "\<forall>g \<in> set (drop (i + l) a). group16 g"
      using g(2) by (meson in_set_takeD in_set_dropD)+
    from length_groups_text [OF this(1)] length_groups_text [OF this(2)] length_groups_text [OF g(2)] g(1) False
    show ?thesis by (auto simp: IP_String_def v6_text_def il)
  qed
qed

lemma IP_String_chars: "valid_ip a \<Longrightarrow> \<forall>c \<in> set (IP_String a). host_char c"
  using ParseIP_chars [OF ip_round_trip] ip_host_char by blast

text \<open>What a second normalisation does with a host and a port.\<close>

lemma normalize_joined:
  assumes h: "\<forall>c \<in> set h. host_char c" "h \<noteq> []" "length h \<le> 253" and n: "1 \<le> n" "n \<le> 65535"
  shows "NormalizeMonitoringAddress (JoinHostPort h (decimal (nat n))) =
    (case ParseIP h of
       Some ip \<Rightarrow> if IsUnspecified ip \<or> IsMulticast ip then Inl (err ''monitoring IP address is not reachable'')
         else Inr (JoinHostPort (IP_String ip) (decimal (nat n)))
     | None \<Rightarrow> if \<not> validMonitoringDomain (ToLower (TrimSuffix h ''.'')) then
           Inl (err ''monitoring host must be a valid IP address or domain'')
         else Inr (JoinHostPort (ToLower (TrimSuffix h ''.'')) (decimal (nat n))))"
proof -
  let ?p = "decimal (nat n)" and ?y = "JoinHostPort h (decimal (nat n))"
  have p: "\<forall>c \<in> set ?p. is_digit c" using decimal_digits by blast
  have brackets: "printable (CHR ''['')" "printable (CHR '']'')" "printable (CHR '':'')"
    by (simp_all add: printable_def byte_of_def)
  have "\<forall>c \<in> set ?y. printable c"
    using h(1) p digit_host_char host_char_printable brackets by (auto simp: JoinHostPort_def)
  then have trim: "TrimSpace ?y = ?y" by (rule TrimSpace_printable)
  have "length ?p \<le> Suc 4" using n by (intro length_decimal) simp
  then have len: "?y \<noteq> []" "length ?y \<le> 300" using h(3) by (auto simp: JoinHostPort_def)
  have port: "valid_port ?p" "Atoi ?p = Some n" using n by (auto simp: valid_port_def Atoi_decimal)
  show ?thesis
    unfolding NormalizeMonitoringAddress_def Let_def trim
    using SplitHostPort_Join [OF h(1) p] len port h(2) by (simp split: option.split)
qed

text \<open>An accepted address is the text of a reachable IP address, or a lower-case domain, with a port.\<close>

lemma NormalizeMonitoringAddress_cases:
  assumes "NormalizeMonitoringAddress x = Inr y"
  obtains h n where "y = JoinHostPort h (decimal (nat n))" "1 \<le> n" "n \<le> 65535"
    "(\<exists>ip. valid_ip ip \<and> h = IP_String ip \<and> \<not> IsUnspecified ip \<and> \<not> IsMulticast ip) \<or> validMonitoringDomain h"
proof -
  from assms obtain host port where sp: "SplitHostPort (TrimSpace x) = Some (host, port)" "valid_port port"
    by (auto simp: NormalizeMonitoringAddress_def Let_def)
  from valid_port_decimal [OF sp(2)] obtain n where n: "the (Atoi port) = n" "1 \<le> n" "n \<le> 65535" by blast
  show thesis
  proof (cases "ParseIP host")
    case (Some ip)
    with assms sp n have "y = JoinHostPort (IP_String ip) (decimal (nat n))" "\<not> IsUnspecified ip" "\<not> IsMulticast ip"
      by (auto simp: NormalizeMonitoringAddress_def Let_def)
    with that [of "IP_String ip" n] n ParseIP_valid [OF Some] show thesis by blast
  next
    case None
    with assms sp n that [of "ToLower (TrimSuffix host ''.'')" n] show thesis
      by (auto simp: NormalizeMonitoringAddress_def Let_def)
  qed
qed

text \<open>
  A probe address that the program has normalised and stored is left as it is when it is
  normalised again, on the edge or before a publication, unless it is one IPv4 address in disguise: the
  text of an unspecified or multicast address, which the second check refuses.
\<close>

theorem monitoring_addresses_settle:
  assumes "NormalizeMonitoringAddress x = Inr y"
  shows "NormalizeMonitoringAddress y = Inr y
    \<or> (\<exists>ip n. y = JoinHostPort (v4_text ip) (decimal n) \<and> is_v4 ip \<and> (IsUnspecified ip \<or> IsMulticast ip))"
proof -
  from assms obtain h n where y: "y = JoinHostPort h (decimal (nat n))" and n: "1 \<le> n" "n \<le> 65535"
    and h: "(\<exists>ip. valid_ip ip \<and> h = IP_String ip \<and> \<not> IsUnspecified ip \<and> \<not> IsMulticast ip) \<or> validMonitoringDomain h"
    by (rule NormalizeMonitoringAddress_cases)
  show ?thesis
  proof (cases "\<exists>ip. valid_ip ip \<and> h = IP_String ip \<and> \<not> IsUnspecified ip \<and> \<not> IsMulticast ip")
    case True
    then obtain ip where ip: "valid_ip ip" "h = IP_String ip" "\<not> IsUnspecified ip" "\<not> IsMulticast ip" by blast
    have "h \<noteq> []" using ip_round_trip [OF ip(1)] ip(2) by (auto simp: ParseIP_def)
    with normalize_joined [of h n] IP_String_chars [OF ip(1)] length_IP_String [OF ip(1)] n ip show ?thesis
      by (simp add: y ip_round_trip)
  next
    case False
    with h have dom: "validMonitoringDomain h" by blast
    note chars = validMonitoringDomain_chars [OF dom]
    have "ToLower h = h" using chars host_char_printable by (intro ToLower_fixed) blast
    moreover have "\<not> HasSuffix h ''.''" using dom labels_no_dot by (auto simp: validMonitoringDomain_def)
    ultimately have fixed: "ToLower (TrimSuffix h ''.'') = h" by (simp add: TrimSuffix_def)
    have len: "h \<noteq> []" "length h \<le> 253" using dom by (simp_all add: validMonitoringDomain_def)
    note again = normalize_joined [OF _ len n]
    show ?thesis
    proof (cases "ParseIP h")
      case None
      with again chars fixed dom show ?thesis by (simp add: y)
    next
      case (Some ip)
      have "ParseIP_from w s = Some ip \<Longrightarrow> CHR '':'' \<notin> set s \<Longrightarrow> parseIPv4 w = Some ip" for w s
        by (induction s) (auto split: if_splits)
      with Some chars have v4: "parseIPv4 h = Some ip" by (auto simp: ParseIP_def)
      then have "is_v4 ip" by (auto simp: parseIPv4_def mapped_v4_def list4 is_v4_def split: option.splits)
      with v4_text_unique [OF v4] again chars Some show ?thesis
        by (cases "IsUnspecified ip \<or> IsMulticast ip") (auto simp: y IP_String_def)
    qed
  qed
qed

text \<open>
  The exception is reached: with a final dot an unspecified address is taken for a domain, and the
  dot is removed afterwards; the control plane stores an address that every node then refuses.
\<close>

theorem final_dot_hides_an_address:
  "NormalizeMonitoringAddress ''0.0.0.0.:443'' = Inr ''0.0.0.0:443''
   \<and> NormalizeMonitoringAddress ''0.0.0.0:443'' = Inl (err ''monitoring IP address is not reachable'')"
  by code_simp

theorem monitoring_addresses_settle_witness:
  "NormalizeMonitoringAddress '' Example.COM.:0443 '' = Inr ''example.com:443''
   \<and> NormalizeMonitoringAddress ''example.com:443'' = Inr ''example.com:443''"
proof -
  have x: "NormalizeMonitoringAddress '' Example.COM.:0443 '' = Inr ''example.com:443''" by code_simp
  have "''example.com:443'' \<noteq> JoinHostPort (v4_text ip) (decimal n)" for ip n
  proof
    assume eq: "''example.com:443'' = JoinHostPort (v4_text ip) (decimal n)"
    obtain c t where d: "decimal (nat (ip ! 6 div 256)) = c # t" by (cases "decimal (nat (ip ! 6 div 256))") auto
    then have "is_digit c" using decimal_digits [of c "nat (ip ! 6 div 256)"] by simp
    moreover have "c = CHR ''e''" using eq d by (simp add: JoinHostPort_def v4_text_def split: if_splits)
    ultimately show False by (simp add: is_digit_def byte_of_def)
  qed
  with monitoring_addresses_settle [OF x] x show ?thesis by blast
qed

end
