(* ===== verification/Go_Runes.thy ===== *)
theory Go_Runes
  imports Go_Strings
begin

section \<open>Runes of a Go string\<close>

text \<open>
  Iterating over a string, \<open>[]rune(s)\<close> and \<open>utf8.RuneCountInString\<close> cut it into
  UTF-8 encodings; a byte that starts no valid encoding counts as one rune of its own (U+FFFD). A rune
  is kept as the bytes it was read from.
\<close>

definition continuation :: "nat \<Rightarrow> bool" where
  "continuation b \<longleftrightarrow> 128 \<le> b \<and> b \<le> 191"

text \<open>The length of the valid encoding at the start of a string, if there is one.\<close>

fun encoding_length :: "nat list \<Rightarrow> nat option" where
  "encoding_length [] = None"
| "encoding_length (b # bs) =
     (if b < 128 then Some 1
      else if 194 \<le> b \<and> b \<le> 223 then
        (case bs of c # _ \<Rightarrow> if continuation c then Some 2 else None | _ \<Rightarrow> None)
      else if 224 \<le> b \<and> b \<le> 239 then
        (case bs of c # d # _ \<Rightarrow>
           if continuation c \<and> continuation d \<and> (b = 224 \<longrightarrow> 160 \<le> c) \<and> (b = 237 \<longrightarrow> c \<le> 159) then Some 3 else None
         | _ \<Rightarrow> None)
      else if 240 \<le> b \<and> b \<le> 244 then
        (case bs of c # d # e # _ \<Rightarrow>
           if continuation c \<and> continuation d \<and> continuation e \<and> (b = 240 \<longrightarrow> 144 \<le> c) \<and> (b = 244 \<longrightarrow> c \<le> 143)
           then Some 4 else None
         | _ \<Rightarrow> None)
      else None)"

definition encoded :: "string \<Rightarrow> nat option" where
  "encoded s = encoding_length (map byte_of (take 4 s))"

definition rune_width :: "string \<Rightarrow> nat" where
  "rune_width s = (case encoded s of Some n \<Rightarrow> n | None \<Rightarrow> 1)"

lemma encoding_length_pos: "encoding_length bs = Some n \<Longrightarrow> 0 < n"
  by (cases bs) (auto split: if_splits list.splits)

lemma rune_width_pos: "0 < rune_width s"
  by (auto simp: rune_width_def encoded_def encoding_length_pos split: option.split)

function runes :: "string \<Rightarrow> string list" where
  "runes s = (if s = [] then [] else take (rune_width s) s # runes (drop (rune_width s) s))"
  by pat_completeness auto
termination
  by (relation "measure length") (auto simp: rune_width_pos)

declare runes.simps [simp del]

text \<open>\<open>utf8.ValidString\<close>\<close>

definition ValidString :: "string \<Rightarrow> bool" where
  "ValidString s \<longleftrightarrow> list_all (\<lambda>r. encoded r \<noteq> None) (runes s)"

text \<open>\<open>strings.Map\<close> with the function that replaces control characters by a space; an invalid byte becomes
  the encoding of U+FFFD.\<close>

definition blank_control :: "string \<Rightarrow> string" where
  "blank_control r =
     (if encoded r = None then [CHR 0xEF, CHR 0xBF, CHR 0xBD] else if containsControl r then '' '' else r)"

definition Map_blank_control :: "string \<Rightarrow> string" where
  "Map_blank_control s = concat (map blank_control (runes s))"

text \<open>The first \<open>n\<close> runes.\<close>

definition take_runes :: "nat \<Rightarrow> string \<Rightarrow> string" where
  "take_runes n s = concat (take n (runes s))"

lemma concat_runes [simp]: "concat (runes s) = s"
  by (induction s rule: runes.induct) (subst runes.simps, auto)

lemma take_runes_all: "length (runes s) \<le> n \<Longrightarrow> take_runes n s = s"
  by (simp add: take_runes_def)

lemma runes_ascii: "\<forall>c \<in> set s. byte_of c < 128 \<Longrightarrow> runes s = map (\<lambda>c. [c]) s"
proof (induction s)
  case (Cons c s)
  then have "rune_width (c # s) = 1" by (simp add: rune_width_def encoded_def)
  with Cons show ?case by (subst runes.simps) simp
qed (simp add: runes.simps)

lemma length_runes: "length (runes s) \<le> length s"
proof (induction s rule: runes.induct)
  case (1 s)
  show ?case
  proof (cases "s = []")
    case False
    from 1 [OF False] have "length (runes (drop (rune_width s) s)) \<le> length s - rune_width s" by simp
    moreover have "length s - rune_width s < length s" using False rune_width_pos by simp
    ultimately show ?thesis using False by (subst runes.simps) simp
  qed (simp add: runes.simps)
qed

end
