(* ===== verification/Origin_Pools.thy ===== *)
theory Origin_Pools
  imports Hostnames Go_Runes Domain_Types
begin

section \<open>Origin pools and probe results (internal/domain/origin.go, machine.go)\<close>

text \<open>
  A pool is one upstream an edge node connects to; the node probes it and reports the results. The
  times of a sample, which the code keeps as milliseconds in floating point, are kept as nanoseconds.
\<close>

definition MaxOriginPools :: int where "MaxOriginPools = 256"
definition MaxOriginPoolReferences :: int where "MaxOriginPoolReferences = 512"

record origin_pool_reference =
  rf_SiteID :: string
  rf_Role :: string

record origin_pool =
  op_ID :: string
  op_Address :: string
  op_Scheme :: string
  op_HTTPVersion :: string
  op_HealthCheckMethod :: string
  op_HealthCheckPath :: string
  op_HostHeader :: string
  op_TLSServerName :: string
  op_ConfigPath :: string
  op_KeepaliveConnections :: int
  op_References :: "origin_pool_reference list"

datatype origin_circuit_state =
  OriginCircuitClosed | OriginCircuitOpen | OriginCircuitRecovering | OriginCircuitOther string

datatype origin_probe_kind = OriginProbeService | OriginProbeCold

record origin_probe_sample =
  sa_Healthy :: bool
  sa_ConnectionReused :: bool
  sa_Connect :: duration
  sa_TLSHandshake :: duration
  sa_Header :: duration
  sa_Total :: duration
  sa_HTTPStatus :: int
  sa_Error :: string
  sa_CheckedAt :: time

record origin_probe_status =
  ps_PoolID :: string
  ps_Address :: string
  ps_Scheme :: string
  ps_HTTPVersion :: string
  ps_KeepaliveConnections :: int
  ps_EstablishedConnections :: "int option"
  ps_References :: "origin_pool_reference list"
  ps_Healthy :: bool
  ps_CircuitState :: origin_circuit_state
  ps_ServiceConsecutiveFailures :: int
  ps_ServiceConsecutiveSuccesses :: int
  ps_ColdConsecutiveFailures :: int
  ps_ColdConsecutiveSuccesses :: int
  ps_ServiceProbe :: "origin_probe_sample option"
  ps_ColdProbe :: "origin_probe_sample option"
  ps_CheckedAt :: time

definition known_circuit :: "origin_circuit_state \<Rightarrow> bool" where
  "known_circuit c \<longleftrightarrow> c = OriginCircuitClosed \<or> c = OriginCircuitOpen \<or> c = OriginCircuitRecovering"

definition lowerHex :: "string \<Rightarrow> bool" where
  "lowerHex s \<longleftrightarrow> list_all (\<lambda>c. is_digit c \<or> 97 \<le> byte_of c \<and> byte_of c \<le> 102) s"

definition validOriginReference :: "origin_pool_reference \<Rightarrow> bool" where
  "validOriginReference r \<longleftrightarrow> rf_SiteID r \<noteq> [] \<and> length (rf_SiteID r) \<le> 128 \<and> TrimSpace (rf_SiteID r) = rf_SiteID r
     \<and> (rf_Role r = ''primary'' \<or> rf_Role r = ''backup'') \<and> \<not> containsControl (rf_SiteID r)"

definition reference_key :: "origin_pool_reference \<Rightarrow> string" where
  "reference_key r = rf_SiteID r @ CHR 0x00 # rf_Role r"

definition valid_references :: "origin_pool_reference list \<Rightarrow> bool" where
  "valid_references rs \<longleftrightarrow> rs \<noteq> [] \<and> int (length rs) \<le> MaxOriginPoolReferences
     \<and> list_all validOriginReference rs \<and> distinct (map reference_key rs)"

text \<open>The HTTP version, health check and TLS fields that a scheme allows.\<close>

definition valid_transport :: "origin_pool \<Rightarrow> bool" where
  "valid_transport p =
     (let useTLS = (op_Scheme p = ''https'' \<or> op_Scheme p = ''grpcs'');
          version = op_HTTPVersion p in
      (if op_Scheme p = ''http'' then version = [] \<or> version = OriginHTTPVersionHTTP1 \<or> version = OriginHTTPVersionH2C
       else if op_Scheme p = ''https'' then version = [] \<or> version = OriginHTTPVersionHTTP1 \<or> version = OriginHTTPVersionHTTP2
       else if op_Scheme p = ''grpc'' \<or> op_Scheme p = ''grpcs''
       then version = [] \<and> op_HealthCheckMethod p = [] \<and> op_HealthCheckPath p = []
       else False)
      \<and> (op_Scheme p = ''http'' \<or> op_Scheme p = ''https'' \<longrightarrow>
           is_ok (ValidateOriginHealthCheck (op_HealthCheckMethod p) (op_HealthCheckPath p)))
      \<and> (if useTLS then op_TLSServerName p \<noteq> [] \<and> ValidHostname (op_TLSServerName p) else op_TLSServerName p = []))"

definition ValidOriginPool :: "origin_pool \<Rightarrow> bool" where
  "ValidOriginPool p \<longleftrightarrow> length (op_ID p) = 24 \<and> lowerHex (op_ID p)
     \<and> 1 \<le> op_KeepaliveConnections p \<and> op_KeepaliveConnections p \<le> 128
     \<and> op_ConfigPath p \<noteq> [] \<and> IsAbs (op_ConfigPath p) \<and> Clean (op_ConfigPath p) = op_ConfigPath p
     \<and> NormalizeMonitoringAddress (op_Address p) = Inr (op_Address p) \<and> ValidHostHeader (op_HostHeader p)
     \<and> valid_transport p \<and> valid_references (op_References p)"

definition validOriginProbeStreak :: "int \<Rightarrow> bool" where
  "validOriginProbeStreak n \<longleftrightarrow> 0 \<le> n \<and> n \<le> 1000000"

definition probe_time_limit :: duration where
  "probe_time_limit = 60000 * 1000000"

definition valid_probe_time :: "duration \<Rightarrow> bool" where
  "valid_probe_time d \<longleftrightarrow> 0 \<le> d \<and> d \<le> probe_time_limit"

definition validOriginProbeSample :: "origin_probe_sample \<Rightarrow> bool" where
  "validOriginProbeSample x \<longleftrightarrow> \<not> is_zero_time (sa_CheckedAt x) \<and> length (sa_Error x) \<le> 512
     \<and> TrimSpace (sa_Error x) = sa_Error x \<and> \<not> (sa_Healthy x \<and> sa_Error x \<noteq> [])
     \<and> valid_probe_time (sa_Connect x) \<and> valid_probe_time (sa_TLSHandshake x)
     \<and> valid_probe_time (sa_Header x) \<and> valid_probe_time (sa_Total x)
     \<and> (sa_HTTPStatus x = 0 \<or> 100 \<le> sa_HTTPStatus x \<and> sa_HTTPStatus x \<le> 599)
     \<and> \<not> containsControl (sa_Error x)"

definition status_samples :: "origin_probe_status \<Rightarrow> origin_probe_sample list" where
  "status_samples s = List.map_filter id [ps_ServiceProbe s, ps_ColdProbe s]"

definition valid_status_version :: "string \<Rightarrow> string \<Rightarrow> bool" where
  "valid_status_version scheme version \<longleftrightarrow> version = []
     \<or> scheme = ''http'' \<and> (version = OriginHTTPVersionHTTP1 \<or> version = OriginHTTPVersionH2C)
     \<or> scheme = ''https'' \<and> (version = OriginHTTPVersionHTTP1 \<or> version = OriginHTTPVersionHTTP2)"

definition ValidOriginProbeStatus :: "origin_probe_status \<Rightarrow> bool" where
  "ValidOriginProbeStatus s \<longleftrightarrow> length (ps_PoolID s) = 24 \<and> lowerHex (ps_PoolID s)
     \<and> 1 \<le> ps_KeepaliveConnections s \<and> ps_KeepaliveConnections s \<le> 128
     \<and> (case ps_EstablishedConnections s of None \<Rightarrow> True | Some n \<Rightarrow> 0 \<le> n \<and> n \<le> 2 ^ 53 - 1)
     \<and> validOriginProbeStreak (ps_ServiceConsecutiveFailures s) \<and> validOriginProbeStreak (ps_ServiceConsecutiveSuccesses s)
     \<and> validOriginProbeStreak (ps_ColdConsecutiveFailures s) \<and> validOriginProbeStreak (ps_ColdConsecutiveSuccesses s)
     \<and> \<not> is_zero_time (ps_CheckedAt s) \<and> status_samples s \<noteq> []
     \<and> NormalizeMonitoringAddress (ps_Address s) = Inr (ps_Address s)
     \<and> ps_Scheme s \<in> {''http'', ''https'', ''grpc'', ''grpcs''}
     \<and> valid_status_version (ps_Scheme s) (ps_HTTPVersion s)
     \<and> known_circuit (ps_CircuitState s)
     \<and> list_all validOriginProbeSample (status_samples s)
     \<and> (case ps_ColdProbe s of None \<Rightarrow> True | Some c \<Rightarrow> \<not> sa_ConnectionReused c)
     \<and> ps_Healthy s = list_all sa_Healthy (status_samples s)
     \<and> ps_CheckedAt s = fold max (map sa_CheckedAt (status_samples s)) zero_time
     \<and> valid_references (ps_References s)"

record machine_origin_status =
  mo_CollectedAt :: time
  mo_OriginProbes :: "origin_probe_status list"

definition validOriginProbeStatuses :: "origin_probe_status list \<Rightarrow> bool" where
  "validOriginProbeStatuses ss \<longleftrightarrow> int (length ss) \<le> MaxOriginPools \<and> list_all ValidOriginProbeStatus ss
     \<and> distinct (map ps_PoolID ss)"

definition ValidMachineOriginStatus :: "machine_origin_status \<Rightarrow> bool" where
  "ValidMachineOriginStatus m \<longleftrightarrow> \<not> is_zero_time (mo_CollectedAt m) \<and> validOriginProbeStatuses (mo_OriginProbes m)"

end
