(* ===== verification/Origin_Circuit.thy ===== *)
theory Origin_Circuit
  imports Origin_Pools
begin

section \<open>The circuit breakers of an edge node (internal/edge/origin_health.go)\<close>

text \<open>
  For each pool the agent keeps a circuit: closed, open or recovering. Two layers of probes (requests
  over a kept connection, and cold connections) drive it. The circuit decides between two texts of the
  server directive in a file that nginx includes; the circuits are also saved, so that a restart finds
  them. The state is the map of runtimes, the files, and the files as nginx last loaded them. What the
  operating system and nginx answer (an error or nothing, for each call) is an argument of each step. The
  state file holds the JSON text of a \<open>persisted_origin_runtime\<close>; that value stands for it here.
\<close>

subsection \<open>State\<close>

record origin_pool_runtime =
  rt_Pool :: origin_pool
  rt_CircuitState :: origin_circuit_state
  rt_ServiceConsecutiveFailures :: int
  rt_ServiceConsecutiveSuccesses :: int
  rt_ColdConsecutiveFailures :: int
  rt_ColdConsecutiveSuccesses :: int
  rt_Status :: "origin_probe_status option"

record persisted_origin_pool =
  pp_Pool :: origin_pool
  pp_CircuitState :: origin_circuit_state
  pp_ServiceConsecutiveFailures :: int
  pp_ServiceConsecutiveSuccesses :: int
  pp_ColdConsecutiveFailures :: int
  pp_ColdConsecutiveSuccesses :: int
  pp_ConsecutiveFailures :: int
  pp_ConsecutiveSuccesses :: int

record persisted_origin_runtime =
  pr_Version :: int
  pr_Pools :: "persisted_origin_pool list"

datatype file_content = FileText string | FileOriginRuntime persisted_origin_runtime

type_synonym files = "string \<Rightarrow> file_content option"
type_synonym runtimes = "(string \<times> origin_pool_runtime) list"
type_synonym outcome = "go_error option"

record edge_config =
  ec_StateDir :: string
  ec_NginxConfigPath :: string
  ec_NginxStreamConfigPath :: string
  ec_NginxMainConfigPath :: string
  ec_NginxEventsConfigPath :: string
  ec_CertificateDir :: string
  ec_OriginPoolConfigDirectory :: string
  ec_ListenerSettleTimeout :: duration
  ec_ListenerPollInterval :: duration
  ec_OriginProbeInterval :: duration
  ec_OriginColdProbeInterval :: duration
  ec_OriginDegradedProbeInterval :: duration
  ec_OriginDegradedColdInterval :: duration
  ec_OriginProbeTimeout :: duration
  ec_OriginProbeFailureThreshold :: int
  ec_OriginProbeRecoveryThreshold :: int
  ec_OriginProbeWorkers :: int

record edge_agent =
  ea_Pools :: runtimes
  ea_Files :: files
  ea_Loaded :: files
  ea_ApplyReport :: "apply_report option"
  ea_ApplyReportSeq :: int

definition originRuntimeStateVersion :: int where "originRuntimeStateVersion = 2"
definition originRuntimeLegacyVersion :: int where "originRuntimeLegacyVersion = 1"

definition originRuntimePath :: "edge_config \<Rightarrow> string" where
  "originRuntimePath cfg = Join_path (ec_StateDir cfg) ''origin-connections.json''"

definition lookup_runtime :: "string \<Rightarrow> runtimes \<Rightarrow> origin_pool_runtime option" where
  "lookup_runtime i rs = map_of rs i"

fun put_runtime :: "string \<Rightarrow> origin_pool_runtime \<Rightarrow> runtimes \<Rightarrow> runtimes" where
  "put_runtime i r [] = [(i, r)]"
| "put_runtime i r (x # xs) = (if fst x = i then (i, r) # xs else x # put_runtime i r xs)"

subsection \<open>Files\<close>

definition atomicWriteFile :: "outcome \<Rightarrow> string \<Rightarrow> file_content \<Rightarrow> files \<Rightarrow> files \<times> outcome" where
  "atomicWriteFile r path c fs = (case r of None \<Rightarrow> (fs(path \<mapsto> c), None) | Some e \<Rightarrow> (fs, Some e))"

definition readBackup :: "outcome \<Rightarrow> string \<Rightarrow> files \<Rightarrow> file_content option result" where
  "readBackup r path fs = (case r of None \<Rightarrow> Inr (fs path) | Some e \<Rightarrow> Inl e)"

text \<open>A restoration ignores errors; \<open>ok\<close> tells for which paths it succeeds.\<close>

fun restoreConfigurationFiles :: "(string \<Rightarrow> bool) \<Rightarrow> (string \<times> file_content option) list \<Rightarrow> files \<Rightarrow> files" where
  "restoreConfigurationFiles ok [] fs = fs"
| "restoreConfigurationFiles ok ((path, backup) # bs) fs =
     restoreConfigurationFiles ok bs (if ok path then fs(path := backup) else fs)"

subsection \<open>Loading and saving the circuits\<close>

definition validPersistedOriginStreak :: "int \<Rightarrow> bool" where
  "validPersistedOriginStreak n \<longleftrightarrow> 0 \<le> n \<and> n \<le> 1000000"

definition validateOriginPool :: "edge_config \<Rightarrow> origin_pool \<Rightarrow> unit result" where
  "validateOriginPool cfg p =
     (if \<not> ValidOriginPool p then Inl (err ''metadata is invalid'')
      else if op_ConfigPath p \<noteq> Join_path (ec_OriginPoolConfigDirectory cfg) (op_ID p @ ''.conf'')
      then Inl (err ''configuration path is outside the managed origin pool directory'')
      else Inr ())"

definition loaded_runtime :: "int \<Rightarrow> persisted_origin_pool \<Rightarrow> origin_pool_runtime" where
  "loaded_runtime version x =
     \<lparr>rt_Pool = pp_Pool x, rt_CircuitState = pp_CircuitState x,
      rt_ServiceConsecutiveFailures = pp_ServiceConsecutiveFailures x,
      rt_ServiceConsecutiveSuccesses = pp_ServiceConsecutiveSuccesses x,
      rt_ColdConsecutiveFailures =
        (if version = originRuntimeLegacyVersion then pp_ConsecutiveFailures x else pp_ColdConsecutiveFailures x),
      rt_ColdConsecutiveSuccesses =
        (if version = originRuntimeLegacyVersion then pp_ConsecutiveSuccesses x else pp_ColdConsecutiveSuccesses x),
      rt_Status = None\<rparr>"

definition valid_streaks :: "origin_pool_runtime \<Rightarrow> bool" where
  "valid_streaks r \<longleftrightarrow> validPersistedOriginStreak (rt_ServiceConsecutiveFailures r)
     \<and> validPersistedOriginStreak (rt_ServiceConsecutiveSuccesses r)
     \<and> validPersistedOriginStreak (rt_ColdConsecutiveFailures r)
     \<and> validPersistedOriginStreak (rt_ColdConsecutiveSuccesses r)"

fun load_pools :: "edge_config \<Rightarrow> int \<Rightarrow> persisted_origin_pool list \<Rightarrow> runtimes \<Rightarrow> runtimes result" where
  "load_pools cfg version [] loaded = Inr loaded"
| "load_pools cfg version (x # xs) loaded =
     (let i = op_ID (pp_Pool x); r = loaded_runtime version x in
      case validateOriginPool cfg (pp_Pool x) of
        Inl e \<Rightarrow> Inl (Errorf ''restore origin pool %s: %w'' [ArgS i, ArgE e])
      | Inr _ \<Rightarrow>
          if \<not> known_circuit (pp_CircuitState x)
          then Inl (Errorf ''restore origin pool %s: invalid circuit state'' [ArgS i])
          else if \<not> valid_streaks r then Inl (Errorf ''restore origin pool %s: invalid probe streak'' [ArgS i])
          else if lookup_runtime i loaded \<noteq> None then Inl (Errorf ''restore origin pool %s: duplicate ID'' [ArgS i])
          else load_pools cfg version xs (put_runtime i r loaded))"

definition loadOriginRuntime :: "edge_config \<Rightarrow> outcome \<Rightarrow> edge_agent \<Rightarrow> edge_agent result" where
  "loadOriginRuntime cfg read a =
     (case readBackup read (originRuntimePath cfg) (ea_Files a) of
        Inl e \<Rightarrow> Inl (Errorf ''read origin connection state: %w'' [ArgE e])
      | Inr None \<Rightarrow> Inr a
      | Inr (Some (FileText _)) \<Rightarrow> Inl (err ''decode origin connection state: %w'')
      | Inr (Some (FileOriginRuntime p)) \<Rightarrow>
          if pr_Version p \<noteq> originRuntimeStateVersion \<and> pr_Version p \<noteq> originRuntimeLegacyVersion
             \<or> int (length (pr_Pools p)) > MaxOriginPools
          then Inl (err ''origin connection state is invalid'')
          else (case load_pools cfg (pr_Version p) (pr_Pools p) [] of Inl e \<Rightarrow> Inl e | Inr loaded \<Rightarrow>
            Inr (a\<lparr>ea_Pools := loaded\<rparr>)))"

definition persisted_pool :: "origin_pool_runtime \<Rightarrow> persisted_origin_pool" where
  "persisted_pool r =
     \<lparr>pp_Pool = rt_Pool r, pp_CircuitState = rt_CircuitState r,
      pp_ServiceConsecutiveFailures = rt_ServiceConsecutiveFailures r,
      pp_ServiceConsecutiveSuccesses = rt_ServiceConsecutiveSuccesses r,
      pp_ColdConsecutiveFailures = rt_ColdConsecutiveFailures r,
      pp_ColdConsecutiveSuccesses = rt_ColdConsecutiveSuccesses r,
      pp_ConsecutiveFailures = 0, pp_ConsecutiveSuccesses = 0\<rparr>"

definition persistOriginRuntimes :: "edge_config \<Rightarrow> outcome \<Rightarrow> runtimes \<Rightarrow> files \<Rightarrow> files \<times> outcome" where
  "persistOriginRuntimes cfg r rs fs =
     atomicWriteFile r (originRuntimePath cfg)
       (FileOriginRuntime \<lparr>pr_Version = originRuntimeStateVersion,
          pr_Pools = map (\<lambda>x. persisted_pool (snd x)) (sort_key fst rs)\<rparr>) fs"

subsection \<open>Desired pools\<close>

fun check_pools :: "edge_config \<Rightarrow> string \<Rightarrow> string list \<Rightarrow> string list \<Rightarrow> origin_pool list \<Rightarrow> unit result" where
  "check_pools cfg nginx seenIDs seenPaths [] = Inr ()"
| "check_pools cfg nginx seenIDs seenPaths (p # ps) =
     (case validateOriginPool cfg p of
        Inl e \<Rightarrow> Inl (Errorf ''origin pool %s: %w'' [ArgS (op_ID p), ArgE e])
      | Inr _ \<Rightarrow>
          if op_ID p \<in> set seenIDs \<or> op_ConfigPath p \<in> set seenPaths
          then Inl (Errorf ''origin pool %s is duplicated'' [ArgS (op_ID p)])
          else if \<not> Contains nginx (''include '' @ op_ConfigPath p @ '';'')
          then Inl (Errorf ''origin pool %s is not referenced by the Nginx configuration'' [ArgS (op_ID p)])
          else check_pools cfg nginx (op_ID p # seenIDs) (op_ConfigPath p # seenPaths) ps)"

definition trim_right_slash :: "string \<Rightarrow> string" where
  "trim_right_slash s = rev (dropWhile (\<lambda>c. c = CHR ''/'') (rev s))"

definition validateDesiredOriginPools :: "edge_config \<Rightarrow> string \<Rightarrow> origin_pool list \<Rightarrow> unit result" where
  "validateDesiredOriginPools cfg nginx pools =
     (if int (length pools) > MaxOriginPools then Inl (err ''too many origin connection pools'')
      else (case check_pools cfg nginx [] [] pools of Inl e \<Rightarrow> Inl e | Inr _ \<Rightarrow>
        if pools = [] \<and> Contains nginx (''include '' @ trim_right_slash (ec_OriginPoolConfigDirectory cfg) @ ''/'')
        then Inl (err ''Nginx configuration references origin pool files without pool metadata'')
        else Inr ()))"

subsection \<open>Circuits\<close>

definition effectivePoolHTTPVersion :: "origin_pool \<Rightarrow> string" where
  "effectivePoolHTTPVersion p = (if op_HTTPVersion p = [] then OriginHTTPVersionHTTP1 else op_HTTPVersion p)"

definition sameOriginTransport :: "origin_pool \<Rightarrow> origin_pool \<Rightarrow> bool" where
  "sameOriginTransport l r \<longleftrightarrow> op_ID l = op_ID r \<and> op_Address l = op_Address r \<and> op_Scheme l = op_Scheme r
     \<and> op_HostHeader l = op_HostHeader r \<and> op_TLSServerName l = op_TLSServerName r
     \<and> effectivePoolHTTPVersion l = effectivePoolHTTPVersion r"

definition newline :: string where
  "newline = [CHR 0x0A]"

definition originServerDirective :: "origin_pool \<Rightarrow> origin_circuit_state \<Rightarrow> file_content" where
  "originServerDirective p s = FileText (''# Managed by cdn-edge-agent. Do not edit.'' @ newline @ ''server '' @ op_Address p
     @ (if s = OriginCircuitClosed then '' max_fails=1 fail_timeout=5s;'' else '' down;'') @ newline)"

definition originRuntimeDegraded :: "origin_pool_runtime \<Rightarrow> bool" where
  "originRuntimeDegraded r \<longleftrightarrow> rt_CircuitState r \<noteq> OriginCircuitClosed
     \<or> rt_ServiceConsecutiveFailures r > 0 \<or> rt_ColdConsecutiveFailures r > 0"

definition incrementProbeStreak :: "int \<Rightarrow> int" where
  "incrementProbeStreak n = (if n \<ge> 1000000 then 1000000 else n + 1)"

definition originProbeLayersSucceeded :: "origin_pool_runtime \<Rightarrow> int \<Rightarrow> bool" where
  "originProbeLayersSucceeded r threshold \<longleftrightarrow>
     rt_ServiceConsecutiveSuccesses r \<ge> threshold \<and> rt_ColdConsecutiveSuccesses r \<ge> threshold"

text \<open>The two streaks of a layer, read and written.\<close>

fun layer_failures :: "origin_probe_kind \<Rightarrow> origin_pool_runtime \<Rightarrow> int" where
  "layer_failures OriginProbeCold r = rt_ColdConsecutiveFailures r"
| "layer_failures OriginProbeService r = rt_ServiceConsecutiveFailures r"

fun layer_successes :: "origin_probe_kind \<Rightarrow> origin_pool_runtime \<Rightarrow> int" where
  "layer_successes OriginProbeCold r = rt_ColdConsecutiveSuccesses r"
| "layer_successes OriginProbeService r = rt_ServiceConsecutiveSuccesses r"

fun set_streaks :: "origin_probe_kind \<Rightarrow> int \<Rightarrow> int \<Rightarrow> origin_pool_runtime \<Rightarrow> origin_pool_runtime" where
  "set_streaks OriginProbeCold f s r = r\<lparr>rt_ColdConsecutiveFailures := f, rt_ColdConsecutiveSuccesses := s\<rparr>"
| "set_streaks OriginProbeService f s r = r\<lparr>rt_ServiceConsecutiveFailures := f, rt_ServiceConsecutiveSuccesses := s\<rparr>"

text \<open>What one probe result does to a circuit.\<close>

definition circuit_step :: "edge_config \<Rightarrow> origin_probe_kind \<Rightarrow> bool \<Rightarrow> origin_pool_runtime \<Rightarrow> origin_pool_runtime" where
  "circuit_step cfg kind healthy current =
     (if healthy then
        let r1 = set_streaks kind 0 (incrementProbeStreak (layer_successes kind current)) current;
            r2 = (if rt_CircuitState r1 = OriginCircuitOpen \<and> originProbeLayersSucceeded r1 1
                  then r1\<lparr>rt_CircuitState := OriginCircuitRecovering\<rparr> else r1)
        in if rt_CircuitState r2 = OriginCircuitRecovering
              \<and> originProbeLayersSucceeded r2 (ec_OriginProbeRecoveryThreshold cfg)
           then r2\<lparr>rt_CircuitState := OriginCircuitClosed\<rparr> else r2
      else
        let r1 = set_streaks kind (incrementProbeStreak (layer_failures kind current)) 0 current in
        if rt_CircuitState r1 \<noteq> OriginCircuitClosed \<or> layer_failures kind r1 \<ge> ec_OriginProbeFailureThreshold cfg
        then r1\<lparr>rt_CircuitState := OriginCircuitOpen, rt_ServiceConsecutiveSuccesses := 0,
                rt_ColdConsecutiveSuccesses := 0\<rparr>
        else r1)"

subsection \<open>Reports\<close>

record origin_probe_measurement =
  om_ConnectionReused :: bool
  om_ConnectDuration :: duration
  om_TLSHandshakeDuration :: duration
  om_HeaderDuration :: duration
  om_TotalDuration :: duration
  om_HTTPStatus :: int

definition durationMilliseconds :: "duration \<Rightarrow> duration" where
  "durationMilliseconds d = (if d \<le> 0 then 0 else if d > probe_time_limit then probe_time_limit else d)"

definition sanitizeOriginError :: "string \<Rightarrow> string" where
  "sanitizeOriginError detail =
     (let d = TrimSpace (Map_blank_control detail) in
      if length (runes d) > 512 then take_runes 512 d else d)"

definition originProbeSamplesHealthy :: "origin_probe_status \<Rightarrow> bool" where
  "originProbeSamplesHealthy s \<longleftrightarrow> status_samples s \<noteq> [] \<and> list_all sa_Healthy (status_samples s)"

definition probe_sample :: "origin_probe_measurement \<Rightarrow> string option \<Rightarrow> time \<Rightarrow> origin_probe_sample" where
  "probe_sample m probeErr checkedAt =
     \<lparr>sa_Healthy = (probeErr = None), sa_ConnectionReused = om_ConnectionReused m,
      sa_Connect = durationMilliseconds (om_ConnectDuration m),
      sa_TLSHandshake = durationMilliseconds (om_TLSHandshakeDuration m),
      sa_Header = durationMilliseconds (om_HeaderDuration m), sa_Total = durationMilliseconds (om_TotalDuration m),
      sa_HTTPStatus = om_HTTPStatus m,
      sa_Error = (case probeErr of None \<Rightarrow> [] | Some e \<Rightarrow> sanitizeOriginError e), sa_CheckedAt = checkedAt\<rparr>"

definition probe_status ::
    "time \<Rightarrow> origin_pool \<Rightarrow> origin_probe_kind \<Rightarrow> origin_probe_measurement \<Rightarrow> string option \<Rightarrow>
     origin_probe_status option \<Rightarrow> origin_pool_runtime \<Rightarrow> origin_probe_status" where
  "probe_status checkedAt p kind m probeErr previous nxt =
     (let sample = Some (probe_sample m probeErr checkedAt);
          base = \<lparr>ps_PoolID = op_ID p, ps_Address = op_Address p, ps_Scheme = op_Scheme p,
            ps_HTTPVersion = op_HTTPVersion p, ps_KeepaliveConnections = op_KeepaliveConnections p,
            ps_EstablishedConnections = None, ps_References = op_References p, ps_Healthy = False,
            ps_CircuitState = rt_CircuitState nxt,
            ps_ServiceConsecutiveFailures = rt_ServiceConsecutiveFailures nxt,
            ps_ServiceConsecutiveSuccesses = rt_ServiceConsecutiveSuccesses nxt,
            ps_ColdConsecutiveFailures = rt_ColdConsecutiveFailures nxt,
            ps_ColdConsecutiveSuccesses = rt_ColdConsecutiveSuccesses nxt,
            ps_ServiceProbe = Option.bind previous ps_ServiceProbe, ps_ColdProbe = Option.bind previous ps_ColdProbe,
            ps_CheckedAt = checkedAt\<rparr>;
          s = (if kind = OriginProbeCold then base\<lparr>ps_ColdProbe := sample\<rparr> else base\<lparr>ps_ServiceProbe := sample\<rparr>);
          s' = s\<lparr>ps_CheckedAt := fold (\<lambda>x t. if t < sa_CheckedAt x then sa_CheckedAt x else t) (status_samples s) checkedAt\<rparr>
      in s'\<lparr>ps_Healthy := originProbeSamplesHealthy s'\<rparr>)"

definition originProbeStatuses :: "edge_agent \<Rightarrow> origin_probe_status list" where
  "originProbeStatuses a =
     sort_key ps_PoolID
       (map (\<lambda>s. s\<lparr>ps_EstablishedConnections := None\<rparr>)
         (filter (\<lambda>s. \<not> is_zero_time (ps_CheckedAt s)) (List.map_filter (\<lambda>x. rt_Status (snd x)) (ea_Pools a))))"

subsection \<open>The result of a probe\<close>

text \<open>
  \<open>Runner.Apply\<close> starts nginx or makes it reload, and waits for new workers. Without an error nginx has
  loaded the files; with one it may have loaded them or not, which is the second part of its answer.
\<close>

type_synonym apply_answer = "outcome \<times> bool"

definition runner_apply :: "apply_answer \<Rightarrow> edge_agent \<Rightarrow> edge_agent" where
  "runner_apply r a = (if fst r = None \<or> snd r then a\<lparr>ea_Loaded := ea_Files a\<rparr> else a)"

text \<open>What the calls of one step answer, in the order the code makes them.\<close>

record switch_outcomes =
  so_persist :: outcome
  so_backup :: outcome
  so_write :: outcome
  so_test :: outcome
  so_apply :: apply_answer
  so_restore :: bool
  so_retest :: outcome
  so_reapply :: apply_answer
  so_persist_back :: outcome

text \<open>The outcome of the calls up to \<open>Runner.Apply\<close>, and the agent after them.\<close>

definition switch_file :: "origin_pool \<Rightarrow> origin_circuit_state \<Rightarrow> switch_outcomes \<Rightarrow> edge_agent \<Rightarrow> edge_agent \<times> outcome" where
  "switch_file p s io a =
     (case readBackup (so_backup io) (op_ConfigPath p) (ea_Files a) of
        Inl e \<Rightarrow> (a, Some e)
      | Inr _ \<Rightarrow>
          (case atomicWriteFile (so_write io) (op_ConfigPath p) (originServerDirective p s) (ea_Files a) of
             (fs, Some e) \<Rightarrow> (a\<lparr>ea_Files := fs\<rparr>, Some e)
           | (fs, None) \<Rightarrow>
               let a1 = a\<lparr>ea_Files := fs\<rparr> in
               if so_test io \<noteq> None then (a1, so_test io)
               else (runner_apply (so_apply io) a1, fst (so_apply io))))"

definition switch_back :: "origin_pool \<Rightarrow> switch_outcomes \<Rightarrow> file_content option \<Rightarrow> edge_agent \<Rightarrow> edge_agent" where
  "switch_back p io backup a =
     (let a1 = a\<lparr>ea_Files := restoreConfigurationFiles (\<lambda>_. so_restore io) [(op_ConfigPath p, backup)] (ea_Files a)\<rparr>
      in if so_retest io = None then runner_apply (so_reapply io) a1 else a1)"

definition applyOriginProbeResult ::
    "edge_config \<Rightarrow> time \<Rightarrow> switch_outcomes \<Rightarrow> origin_pool \<Rightarrow> origin_probe_kind \<Rightarrow> origin_probe_measurement \<Rightarrow>
     string option \<Rightarrow> edge_agent \<Rightarrow> edge_agent \<times> outcome" where
  "applyOriginProbeResult cfg now io p kind m probeErr a =
     (case lookup_runtime (op_ID p) (ea_Pools a) of
        None \<Rightarrow> (a, None)
      | Some current \<Rightarrow>
          if \<not> sameOriginTransport (rt_Pool current) p then (a, None)
          else
            let stepped = circuit_step cfg kind (probeErr = None) current;
                nxt = stepped\<lparr>rt_Status := Some (probe_status now p kind m probeErr (rt_Status current) stepped)\<rparr>;
                pending = put_runtime (op_ID p) nxt (ea_Pools a)
            in if rt_CircuitState nxt = rt_CircuitState current then (a\<lparr>ea_Pools := pending\<rparr>, None)
               else (case persistOriginRuntimes cfg (so_persist io) pending (ea_Files a) of
                  (fs, Some e) \<Rightarrow>
                    (a\<lparr>ea_Files := fs\<rparr>, Some (Errorf ''persist origin pool %s transition: %w'' [ArgS (op_ID p), ArgE e]))
                | (fs, None) \<Rightarrow>
                    let a1 = a\<lparr>ea_Files := fs\<rparr> in
                    if (rt_CircuitState current = OriginCircuitClosed) = (rt_CircuitState nxt = OriginCircuitClosed)
                    then (a1\<lparr>ea_Pools := pending\<rparr>, None)
                    else (case switch_file p (rt_CircuitState nxt) io a1 of
                        (a2, None) \<Rightarrow> (a2\<lparr>ea_Pools := pending\<rparr>, None)
                      | (a2, Some e) \<Rightarrow>
                          let backup = (if so_backup io = None then ea_Files a1 (op_ConfigPath p) else None);
                              a3 = switch_back p io backup a2;
                              (fs', back) = persistOriginRuntimes cfg (so_persist_back io) (ea_Pools a) (ea_Files a3)
                          in (a3\<lparr>ea_Files := fs'\<rparr>,
                              Some (Errorf ''errors.Join'' (ArgE (Errorf ''switch origin pool %s circuit: %w'' [ArgS (op_ID p), ArgE e])
                                # (case back of None \<Rightarrow> [] | Some e' \<Rightarrow> [ArgE e'])))))))"

end
