(* ===== verification/Origin_Stage.thy ===== *)
theory Origin_Stage
  imports Origin_Circuit
begin

section \<open>Replacing the pools of a node (internal/edge/origin_health.go)\<close>

text \<open>
  When a node applies a new desired state the pools are staged: the files of the new pools are written
  with the circuits they keep, backed up first; after nginx has accepted the configuration the stage is
  persisted and committed, otherwise it is rolled back.
\<close>

record stage_outcomes =
  si_backup :: "string \<Rightarrow> outcome"
  si_write :: "string \<Rightarrow> outcome"
  si_restore :: "string \<Rightarrow> bool"

record origin_pool_stage =
  sg_pending :: runtimes
  sg_backups :: "(string \<times> file_content option) list"
  sg_oldRuntimes :: runtimes
  sg_committed :: bool
  sg_rolledBack :: bool

definition retarget_status :: "origin_pool \<Rightarrow> origin_probe_status \<Rightarrow> origin_probe_status" where
  "retarget_status p s = s\<lparr>ps_Address := op_Address p, ps_Scheme := op_Scheme p, ps_HTTPVersion := op_HTTPVersion p,
     ps_KeepaliveConnections := op_KeepaliveConnections p, ps_References := op_References p\<rparr>"

definition fresh_runtime :: "origin_pool \<Rightarrow> origin_pool_runtime" where
  "fresh_runtime p = \<lparr>rt_Pool = p, rt_CircuitState = OriginCircuitClosed, rt_ServiceConsecutiveFailures = 0,
     rt_ServiceConsecutiveSuccesses = 0, rt_ColdConsecutiveFailures = 0, rt_ColdConsecutiveSuccesses = 0, rt_Status = None\<rparr>"

definition staged_runtime :: "runtimes \<Rightarrow> origin_pool \<Rightarrow> origin_pool_runtime" where
  "staged_runtime old p =
     (case lookup_runtime (op_ID p) old of
        None \<Rightarrow> fresh_runtime p
      | Some previous \<Rightarrow>
          if sameOriginTransport (rt_Pool previous) p
          then previous\<lparr>rt_Pool := p, rt_Status := map_option (retarget_status p) (rt_Status previous)\<rparr>
          else fresh_runtime p)"

definition pending_runtimes :: "runtimes \<Rightarrow> origin_pool list \<Rightarrow> runtimes" where
  "pending_runtimes old pools = fold (\<lambda>p. put_runtime (op_ID p) (staged_runtime old p)) pools []"

definition Rollback :: "(string \<Rightarrow> bool) \<Rightarrow> origin_pool_stage \<Rightarrow> edge_agent \<Rightarrow> origin_pool_stage \<times> edge_agent" where
  "Rollback ok s a =
     (if sg_committed s \<or> sg_rolledBack s then (s, a)
      else (s\<lparr>sg_rolledBack := True\<rparr>, a\<lparr>ea_Files := restoreConfigurationFiles ok (sg_backups s) (ea_Files a)\<rparr>))"

definition circuit_of :: "runtimes \<Rightarrow> origin_pool \<Rightarrow> origin_circuit_state" where
  "circuit_of rs p = (case lookup_runtime (op_ID p) rs of None \<Rightarrow> OriginCircuitClosed | Some r \<Rightarrow> rt_CircuitState r)"

fun stage_files ::
    "stage_outcomes \<Rightarrow> origin_pool list \<Rightarrow> origin_pool_stage \<Rightarrow> edge_agent \<Rightarrow> edge_agent \<times> origin_pool_stage result" where
  "stage_files io [] s a = (a, Inr s)"
| "stage_files io (p # ps) s a =
     (case readBackup (si_backup io (op_ConfigPath p)) (op_ConfigPath p) (ea_Files a) of
        Inl e \<Rightarrow> (snd (Rollback (si_restore io) s a), Inl (Errorf ''back up origin pool %s: %w'' [ArgS (op_ID p), ArgE e]))
      | Inr backup \<Rightarrow>
          let s1 = s\<lparr>sg_backups := sg_backups s @ [(op_ConfigPath p, backup)]\<rparr> in
          (case atomicWriteFile (si_write io (op_ConfigPath p)) (op_ConfigPath p)
                  (originServerDirective p (circuit_of (sg_pending s) p)) (ea_Files a) of
             (fs, Some e) \<Rightarrow>
               (snd (Rollback (si_restore io) s1 (a\<lparr>ea_Files := fs\<rparr>)),
                Inl (Errorf ''write origin pool %s: %w'' [ArgS (op_ID p), ArgE e]))
           | (fs, None) \<Rightarrow> stage_files io ps s1 (a\<lparr>ea_Files := fs\<rparr>)))"

definition stageOriginPools ::
    "edge_config \<Rightarrow> stage_outcomes \<Rightarrow> origin_pool list \<Rightarrow> edge_agent \<Rightarrow> edge_agent \<times> origin_pool_stage result" where
  "stageOriginPools cfg io pools a =
     (let path = originRuntimePath cfg in
      case readBackup (si_backup io path) path (ea_Files a) of
        Inl e \<Rightarrow> (a, Inl (Errorf ''back up origin connection state: %w'' [ArgE e]))
      | Inr backup \<Rightarrow>
          stage_files io pools
            \<lparr>sg_pending = pending_runtimes (ea_Pools a) pools, sg_backups = [(path, backup)],
             sg_oldRuntimes = ea_Pools a, sg_committed = False, sg_rolledBack = False\<rparr> a)"

definition Persist :: "edge_config \<Rightarrow> outcome \<Rightarrow> origin_pool_stage \<Rightarrow> edge_agent \<Rightarrow> edge_agent \<times> outcome" where
  "Persist cfg r s a =
     (case persistOriginRuntimes cfg r (sg_pending s) (ea_Files a) of (fs, e) \<Rightarrow> (a\<lparr>ea_Files := fs\<rparr>, e))"

text \<open>The files of pools that are gone are removed; \<open>ok\<close> tells for which paths that succeeds.\<close>

fun remove_stale :: "(string \<Rightarrow> bool) \<Rightarrow> runtimes \<Rightarrow> runtimes \<Rightarrow> files \<Rightarrow> files \<times> string list" where
  "remove_stale ok pending [] fs = (fs, [])"
| "remove_stale ok pending ((i, r) # old) fs =
     (if lookup_runtime i pending \<noteq> None then remove_stale ok pending old fs
      else let path = op_ConfigPath (rt_Pool r) in
        if ok path \<or> fs path = None then remove_stale ok pending old (fs(path := None))
        else (case remove_stale ok pending old fs of (fs', es) \<Rightarrow> (fs', i # es)))"

definition Commit :: "(string \<Rightarrow> bool) \<Rightarrow> origin_pool_stage \<Rightarrow> edge_agent \<Rightarrow> origin_pool_stage \<times> edge_agent \<times> string list" where
  "Commit ok s a =
     (if sg_committed s then (s, a, [])
      else (case remove_stale ok (sg_pending s) (sg_oldRuntimes s) (ea_Files a) of (fs, es) \<Rightarrow>
        (s\<lparr>sg_committed := True\<rparr>, a\<lparr>ea_Pools := sg_pending s, ea_Files := fs\<rparr>, es)))"

end
