(* ===== verification/Edge_Apply.thy ===== *)
theory Edge_Apply
  imports Origin_Stage
begin

section \<open>Applying a desired state on a node (internal/edge/agent.go)\<close>

text \<open>
  \<open>applyLocked\<close> replaces the certificates, the nginx configuration (whole files, or directories of
  fragments with an index file) and the origin pools of a node, tests and reloads nginx, waits for the
  listeners and then records the version. Each failure puts back what was written before it.
  What the operating system, nginx and the calls that are not modelled (static assets, cache
  directories, cache warm-up) answer is in an \<open>apply_env\<close>.
\<close>

subsection \<open>Desired state and answers\<close>

record tls_bundle =
  tb_CertificatePEM :: string
  tb_PrivateKeyPEM :: string

record nginx_config_fragment =
  nf_Name :: string
  nf_Content :: string

record nginx_config_fragments =
  nf_HTTPBase :: string
  nf_HTTPSites :: "nginx_config_fragment list"
  nf_StreamBase :: string
  nf_StreamSites :: "nginx_config_fragment list"

record edge_desired_state = desired_state +
  ed_NginxStreamConfig :: string
  ed_NginxMainConfig :: string
  ed_NginxEventsConfig :: string
  ed_NginxFragments :: "nginx_config_fragments option"
  ed_PublicUDPPorts :: "int list"
  ed_OriginPools :: "origin_pool list"
  ed_Certificates :: "(string \<times> tls_bundle) list"

text \<open>A directory entry: its name and whether it is a directory.\<close>

type_synonym dir_entries = "(string \<times> bool) list"

record apply_env =
  ae_error_text :: "go_error \<Rightarrow> string"
  ae_uuid :: "string \<Rightarrow> bool"
  ae_digest :: "string \<Rightarrow> nginx_config_fragment list \<Rightarrow> string"
  ae_warmups :: outcome
  ae_static_sync :: outcome
  ae_backup :: "string \<Rightarrow> outcome"
  ae_glob :: "string \<Rightarrow> string list result"
  ae_listeners :: "port_conflict list result"
  ae_udp_listeners :: "port_conflict list result"
  ae_mkdir_certs :: outcome
  ae_cert_entries :: "dir_entries result"
  ae_write :: "string \<Rightarrow> outcome"
  ae_remove :: "string \<Rightarrow> outcome"
  ae_restore :: "string \<Rightarrow> bool"
  ae_mkdir_fragments :: outcome
  ae_fragment_entries :: "string \<Rightarrow> dir_entries option result"
  ae_fragment_temp :: "string \<Rightarrow> outcome"
  ae_rename :: "string \<Rightarrow> outcome"
  ae_fragment_entries_again :: "string \<Rightarrow> dir_entries option result"
  ae_layout :: outcome
  ae_test :: outcome
  ae_apply :: apply_answer
  ae_retest :: outcome
  ae_reapply :: apply_answer
  ae_failed_listeners :: "port_conflict list result"
  ae_failed_udp_listeners :: "port_conflict list result"
  ae_polled_listeners :: "nat \<Rightarrow> port_conflict list result"
  ae_poll_time :: "nat \<Rightarrow> nat"
  ae_polled_udp_listeners :: "nat \<Rightarrow> port_conflict list result"
  ae_udp_poll_time :: "nat \<Rightarrow> nat"
  ae_now :: time
  ae_udp_now :: time
  ae_layout_cleanup :: outcome
  ae_warmup_detail :: string
  ae_warmup_error :: outcome
  ae_persist :: outcome
  ae_remove_stale :: "string \<Rightarrow> bool"
  ae_static_cleanup :: outcome
  ae_fragment_root :: "dir_entries result"

text \<open>A failure: the code of the report, the error, the conflicting listeners.\<close>

type_synonym apply_failure = "string \<times> go_error \<times> port_conflict list"

subsection \<open>Ports\<close>

fun check_ports :: "string \<Rightarrow> int list \<Rightarrow> unit result" where
  "check_ports text [] = Inr ()"
| "check_ports text (p # ps) = (if p < 1 \<or> p > 65535 then Inl (Errorf text [ArgI p]) else check_ports text ps)"

definition desiredPublicPorts :: "edge_desired_state \<Rightarrow> int list result" where
  "desiredPublicPorts d =
     (case ds_PublicPorts d of
        None \<Rightarrow> Inr [80, 443]
      | Some ports \<Rightarrow> (case check_ports ''invalid public TCP port %d'' ports of Inl e \<Rightarrow> Inl e
          | Inr _ \<Rightarrow> Inr (sort (remdups ports))))"

definition desiredPublicUDPPorts :: "edge_desired_state \<Rightarrow> int list result" where
  "desiredPublicUDPPorts d =
     (case check_ports ''invalid public UDP port %d'' (ed_PublicUDPPorts d) of Inl e \<Rightarrow> Inl e
      | Inr _ \<Rightarrow> Inr (sort (remdups (ed_PublicUDPPorts d))))"

definition inspectUDPListeners :: "port_conflict list result \<Rightarrow> int list \<Rightarrow> port_conflict list result" where
  "inspectUDPListeners answer ports =
     (if ports = [] then Inr []
      else case answer of Inl e \<Rightarrow> Inl e | Inr ls \<Rightarrow> Inr (map (\<lambda>l. l\<lparr>pc_Protocol := ''udp''\<rparr>) ls))"

definition is_nginx :: "port_conflict \<Rightarrow> bool" where
  "is_nginx l = (let name = ToLower (TrimSpace (pc_Process l)) in name = ''nginx'' \<or> HasPrefix name ''nginx:'')"

definition foreignListeners :: "port_conflict list \<Rightarrow> port_conflict list" where
  "foreignListeners ls = filter (\<lambda>l. \<not> is_nginx l) ls"

definition nginxOwnsPorts :: "port_conflict list \<Rightarrow> int list \<Rightarrow> bool" where
  "nginxOwnsPorts ls ports \<longleftrightarrow> list_all (\<lambda>p. list_ex (\<lambda>l. is_nginx l \<and> pc_Port l = p) ls) ports"

definition text_of :: "file_content option \<Rightarrow> string" where
  "text_of c = (case c of Some (FileText s) \<Rightarrow> s | _ \<Rightarrow> [])"

definition itoa :: "int \<Rightarrow> string" where
  "itoa n = (if n < 0 then CHR ''-'' # decimal (nat (- n)) else decimal (nat n))"

definition managedListenerPorts :: "(string \<times> file_content option) list \<Rightarrow> int list \<Rightarrow> int list" where
  "managedListenerPorts backups ports =
     filter (\<lambda>p. list_ex (\<lambda>b. Contains (text_of (snd b)) (''listen '' @ itoa p @ '';'')
                            \<or> Contains (text_of (snd b)) (''listen '' @ itoa p @ '' '')) backups) ports"

definition managedQUICListenerPorts :: "(string \<times> file_content option) list \<Rightarrow> int list \<Rightarrow> int list" where
  "managedQUICListenerPorts backups ports =
     filter (\<lambda>p. list_ex (\<lambda>b. Contains (text_of (snd b)) (''listen '' @ itoa p @ '' quic'')) backups) ports"

definition unmanagedListeners :: "port_conflict list \<Rightarrow> int list \<Rightarrow> port_conflict list" where
  "unmanagedListeners ls managed =
     map (\<lambda>l. if is_nginx l then l\<lparr>pc_Process := ''nginx (unmanaged configuration)''\<rparr> else l)
       (filter (\<lambda>l. \<not> (is_nginx l \<and> pc_Port l \<in> set managed)) ls)"

text \<open>
  The listeners are polled until a foreign one is seen, nginx owns all ports or the time is up. The
  answer to each poll and the time that passes during it (and beyond the sleep before it) are arguments.
  \<open>New\<close> replaces times that are not positive, so the sleep is positive and the loop ends.
\<close>

definition settle_timeout :: "edge_config \<Rightarrow> duration" where
  "settle_timeout cfg = (if ec_ListenerSettleTimeout cfg \<le> 0 then 5 * 1000000000 else ec_ListenerSettleTimeout cfg)"

definition poll_interval :: "edge_config \<Rightarrow> duration" where
  "poll_interval cfg = (if ec_ListenerPollInterval cfg \<le> 0 then 100 * 1000000 else ec_ListenerPollInterval cfg)"

lemma poll_interval_pos: "0 < poll_interval cfg"
  by (simp add: poll_interval_def)

lemma poll_progress: "- int t < poll_interval cfg"
  using poll_interval_pos [of cfg] by simp

definition settled :: "port_conflict list \<Rightarrow> int list \<Rightarrow> bool" where
  "settled ls ports \<longleftrightarrow> foreignListeners ls \<noteq> [] \<or> nginxOwnsPorts ls ports"

function poll_listeners ::
    "edge_config \<Rightarrow> (nat \<Rightarrow> port_conflict list result) \<Rightarrow> (nat \<Rightarrow> nat) \<Rightarrow> int list \<Rightarrow> time \<Rightarrow> nat \<Rightarrow> time \<Rightarrow>
     port_conflict list result" where
  "poll_listeners cfg answers spent ports deadline n now =
     (case answers n of
        Inl e \<Rightarrow> Inl e
      | Inr ls \<Rightarrow>
          if settled ls ports then Inr ls
          else let remaining = deadline - (now + int (spent n)) in
            if remaining \<le> 0 then Inr ls
            else poll_listeners cfg answers spent ports deadline (Suc n)
              (now + int (spent n) + min (poll_interval cfg) remaining))"
  by pat_completeness auto

termination
  by (relation "measure (\<lambda>(cfg, answers, spent, ports, deadline, n, now). nat (deadline - now))")
    (auto simp: poll_progress)

declare poll_listeners.simps [simp del]

definition waitForNginxListeners ::
    "edge_config \<Rightarrow> (nat \<Rightarrow> port_conflict list result) \<Rightarrow> (nat \<Rightarrow> nat) \<Rightarrow> int list \<Rightarrow> time \<Rightarrow> port_conflict list result" where
  "waitForNginxListeners cfg answers spent ports now =
     poll_listeners cfg answers spent ports (now + settle_timeout cfg) 0 now"

definition waitForNginxUDPListeners ::
    "edge_config \<Rightarrow> (nat \<Rightarrow> port_conflict list result) \<Rightarrow> (nat \<Rightarrow> nat) \<Rightarrow> int list \<Rightarrow> time \<Rightarrow> port_conflict list result" where
  "waitForNginxUDPListeners cfg answers spent ports now =
     (if ports = [] then Inr []
      else poll_listeners cfg (\<lambda>n. inspectUDPListeners (answers n) ports) spent ports (now + settle_timeout cfg) 0 now)"

fun join_with :: "string \<Rightarrow> string list \<Rightarrow> string" where
  "join_with sep [] = []"
| "join_with sep [x] = x"
| "join_with sep (x # y # xs) = x @ sep @ join_with sep (y # xs)"

definition formatPublicPorts :: "int list \<Rightarrow> int list \<Rightarrow> string" where
  "formatPublicPorts tcp udp =
     (let values = map (\<lambda>p. ''TCP '' @ itoa p) tcp @ map (\<lambda>p. ''UDP '' @ itoa p) udp in
      if values = [] then ''no public ports'' else join_with '' and '' values)"

definition formatPortConflicts :: "port_conflict list \<Rightarrow> string" where
  "formatPortConflicts ls =
     join_with '', '' (map (\<lambda>l.
       let protocol = ToUpper (TrimSpace (pc_Protocol l)) in
       (if protocol = [] then ''TCP'' else protocol) @ '' '' @ itoa (pc_Port l) @ '': '' @ pc_Process l
       @ (if pc_PID l > 0 then '' (PID '' @ itoa (pc_PID l) @ '')'' else [])) ls)"

definition port_conflict_failure :: "port_conflict list \<Rightarrow> apply_failure" where
  "port_conflict_failure ls = (''port_conflict'',
     Errorf ''public port is already held by another service: %s'' [ArgS (formatPortConflicts ls)], ls)"

end
