(* ===== verification/Edge_Files.thy ===== *)
theory Edge_Files
  imports Edge_Apply
begin

section \<open>Fragments and certificates on a node (internal/edge/agent.go)\<close>

subsection \<open>Parts of a path\<close>

definition after_slash :: "string \<Rightarrow> string" where
  "after_slash p = rev (takeWhile (\<lambda>c. c \<noteq> CHR ''/'') (rev p))"

definition Base :: "string \<Rightarrow> string" where
  "Base p = (if p = [] then ''.''
     else let q = trim_right_slash p in if q = [] then ''/'' else after_slash q)"

definition Dir :: "string \<Rightarrow> string" where
  "Dir p = Clean (take (length p - length (after_slash p)) p)"

definition Ext :: "string \<Rightarrow> string" where
  "Ext p = (let name = after_slash p; tail = takeWhile (\<lambda>c. c \<noteq> CHR ''.'') (rev name) in
     if length tail = length name then [] else CHR ''.'' # rev tail)"

subsection \<open>Fragment directories\<close>

definition fragment_header :: string where
  "fragment_header = ''# Generated by cdn-edge-agent. Do not edit.'' @ newline"

definition is_name_char :: "char \<Rightarrow> bool" where
  "is_name_char c \<longleftrightarrow> is_alnum c \<or> c = CHR ''-'' \<or> c = CHR ''_'' \<or> c = CHR ''.''"

definition validFragmentName :: "string \<Rightarrow> bool" where
  "validFragmentName name \<longleftrightarrow> name \<noteq> [] \<and> name = Base name \<and> HasSuffix name ''.conf'' \<and> list_all is_name_char name"

definition generatedFragmentIndex :: "string \<Rightarrow> string" where
  "generatedFragmentIndex directory = fragment_header @ ''include '' @ directory @ ''/*.conf;'' @ newline"

text \<open>The files a fragment directory must hold, by name.\<close>

fun expected_fragments :: "(string \<times> string) list \<Rightarrow> nginx_config_fragment list \<Rightarrow> (string \<times> string) list result" where
  "expected_fragments known [] = Inr known"
| "expected_fragments known (f # fs) =
     (if \<not> validFragmentName (nf_Name f) \<or> nf_Content f = []
      then Inl (Errorf ''invalid Nginx fragment %q'' [ArgS (nf_Name f)])
      else if nf_Name f \<in> set (map fst known) then Inl (Errorf ''duplicate Nginx fragment %q'' [ArgS (nf_Name f)])
      else expected_fragments (known @ [(nf_Name f, nf_Content f)]) fs)"

fun check_entries ::
    "apply_env \<Rightarrow> string \<Rightarrow> (string \<times> string) list \<Rightarrow> files \<Rightarrow> dir_entries \<Rightarrow> bool result" where
  "check_entries env directory expected fs [] = Inr True"
| "check_entries env directory expected fs ((name, isdir) # es) =
     (case map_of expected name of
        None \<Rightarrow> Inl (Errorf ''existing Nginx fragment directory %s contains an unexpected entry'' [ArgS directory])
      | Some want \<Rightarrow>
          if isdir then Inl (Errorf ''existing Nginx fragment directory %s contains an unexpected entry'' [ArgS directory])
          else (case ae_backup env (Join_path directory name) of Some e \<Rightarrow> Inl e | None \<Rightarrow>
            if text_of (fs (Join_path directory name)) \<noteq> want
            then Inl (Errorf ''existing Nginx fragment directory %s failed content verification'' [ArgS directory])
            else check_entries env directory expected fs es))"

definition fragmentDirectoryMatches ::
    "apply_env \<Rightarrow> dir_entries option result \<Rightarrow> string \<Rightarrow> string \<Rightarrow> nginx_config_fragment list \<Rightarrow> files \<Rightarrow> bool result" where
  "fragmentDirectoryMatches env answer directory base fragments fs =
     (case answer of Inl e \<Rightarrow> Inl e | Inr None \<Rightarrow> Inr False | Inr (Some entries) \<Rightarrow>
        (case expected_fragments [(''00-base.conf'', base)] fragments of Inl e \<Rightarrow> Inl e | Inr expected \<Rightarrow>
          if length entries \<noteq> length expected
          then Inl (Errorf ''existing Nginx fragment directory %s does not match its content digest'' [ArgS directory])
          else check_entries env directory expected fs entries))"

text \<open>Writing the fragments into a temporary directory.\<close>

fun write_fragments :: "apply_env \<Rightarrow> string \<Rightarrow> string list \<Rightarrow> nginx_config_fragment list \<Rightarrow> unit result" where
  "write_fragments env directory seen [] = Inr ()"
| "write_fragments env directory seen (f # fs) =
     (if \<not> validFragmentName (nf_Name f) \<or> nf_Content f = [] \<or> nf_Name f \<in> set seen
      then Inl (Errorf ''invalid or duplicate Nginx fragment %q'' [ArgS (nf_Name f)])
      else (case ae_write env (Join_path directory (nf_Name f)) of Some e \<Rightarrow> Inl e | None \<Rightarrow>
        write_fragments env directory (nf_Name f # seen) fs))"

text \<open>The rename that makes the temporary directory the fragment directory.\<close>

definition install_fragments :: "string \<Rightarrow> string \<Rightarrow> nginx_config_fragment list \<Rightarrow> files \<Rightarrow> files" where
  "install_fragments directory base fragments fs =
     fold (\<lambda>f. \<lambda>g. g(directory @ ''/'' @ nf_Name f \<mapsto> FileText (nf_Content f))) fragments
       (fs(directory @ ''/00-base.conf'' \<mapsto> FileText base))"

definition fragment_directory :: "apply_env \<Rightarrow> string \<Rightarrow> string \<Rightarrow> int \<Rightarrow> string \<Rightarrow> nginx_config_fragment list \<Rightarrow> string" where
  "fragment_directory env root kind version base fragments =
     Join_path root (kind @ ''-v'' @ itoa version @ ''-'' @ ae_digest env base fragments)"

text \<open>The directory and whether it is new.\<close>

definition stageFragmentDirectory ::
    "apply_env \<Rightarrow> string \<Rightarrow> string \<Rightarrow> int \<Rightarrow> string \<Rightarrow> nginx_config_fragment list \<Rightarrow> files \<Rightarrow> files \<times> (string \<times> bool) result" where
  "stageFragmentDirectory env root kind version base fragments fs =
     (let directory = fragment_directory env root kind version base fragments in
      if base = [] then (fs, Inl (err ''base fragment is empty''))
      else case fragmentDirectoryMatches env (ae_fragment_entries env directory) directory base fragments fs of
        Inl e \<Rightarrow> (fs, Inl e)
      | Inr True \<Rightarrow> (fs, Inr (directory, False))
      | Inr False \<Rightarrow>
          (case ae_fragment_temp env directory of Some e \<Rightarrow> (fs, Inl e) | None \<Rightarrow>
          (case ae_write env (Join_path directory ''00-base.conf'') of Some e \<Rightarrow> (fs, Inl e) | None \<Rightarrow>
          (case write_fragments env directory [''00-base.conf''] fragments of Inl e \<Rightarrow> (fs, Inl e) | Inr _ \<Rightarrow>
          (case ae_rename env directory of
             None \<Rightarrow> (install_fragments directory base fragments fs, Inr (directory, True))
           | Some e \<Rightarrow>
               (case fragmentDirectoryMatches env (ae_fragment_entries_again env directory) directory base fragments fs of
                  Inr True \<Rightarrow> (fs, Inr (directory, False))
                | _ \<Rightarrow> (fs, Inl e)))))))"

definition remove_tree :: "string \<Rightarrow> files \<Rightarrow> files" where
  "remove_tree directory fs = (\<lambda>p. if HasPrefix p (directory @ ''/'') then None else fs p)"

definition fragments_root :: "edge_config \<Rightarrow> string" where
  "fragments_root cfg = Join_path (Dir (ec_NginxConfigPath cfg)) ''fragments''"

text \<open>The index texts, the active directories and the new ones.\<close>

definition stageNginxFragments ::
    "edge_config \<Rightarrow> apply_env \<Rightarrow> int \<Rightarrow> nginx_config_fragments \<Rightarrow> files \<Rightarrow>
     files \<times> (string \<times> string \<times> string list \<times> string list) result" where
  "stageNginxFragments cfg env version fr fs =
     (let root = fragments_root cfg in
      case ae_mkdir_fragments env of Some e \<Rightarrow> (fs, Inl (Errorf ''create Nginx fragment root: %w'' [ArgE e])) | None \<Rightarrow>
      (case stageFragmentDirectory env root ''http'' version (nf_HTTPBase fr) (nf_HTTPSites fr) fs of
         (fs1, Inl e) \<Rightarrow> (fs1, Inl (Errorf ''stage Nginx HTTP fragments: %w'' [ArgE e]))
       | (fs1, Inr (http, httpCreated)) \<Rightarrow>
           (case stageFragmentDirectory env root ''stream'' version (nf_StreamBase fr) (nf_StreamSites fr) fs1 of
              (fs2, Inl e) \<Rightarrow>
                (if httpCreated then remove_tree http fs2 else fs2,
                 Inl (Errorf ''stage Nginx stream fragments: %w'' [ArgE e]))
            | (fs2, Inr (stream, streamCreated)) \<Rightarrow>
                (fs2, Inr (generatedFragmentIndex http, generatedFragmentIndex stream, [http, stream],
                   (if httpCreated then [http] else []) @ (if streamCreated then [stream] else []))))))"

text \<open>The backups of the fragments that the present index files include.\<close>

fun backup_all :: "apply_env \<Rightarrow> files \<Rightarrow> string list \<Rightarrow> (string \<times> file_content option) list result" where
  "backup_all env fs [] = Inr []"
| "backup_all env fs (p # ps) =
     (case readBackup (ae_backup env p) p fs of
        Inl e \<Rightarrow> Inl (Errorf ''back up Nginx fragment %s: %w'' [ArgS (Base p), ArgE e])
      | Inr b \<Rightarrow> (case backup_all env fs ps of Inl e \<Rightarrow> Inl e | Inr bs \<Rightarrow> Inr ((p, b) # bs)))"

definition index_backups ::
    "edge_config \<Rightarrow> apply_env \<Rightarrow> files \<Rightarrow> string \<Rightarrow> file_content option \<Rightarrow> (string \<times> file_content option) list result" where
  "index_backups cfg env fs indexPath backup =
     (let text = text_of backup; lines = Split text (CHR 0x0A) in
      if \<not> HasPrefix text (fragment_header @ ''include '') then Inr []
      else if length lines < 2 \<or> \<not> HasPrefix (lines ! 1) ''include '' \<or> \<not> HasSuffix (lines ! 1) ''/*.conf;''
      then Inl (Errorf ''generated Nginx fragment index %s is malformed'' [ArgS indexPath])
      else let pattern = TrimSuffix (TrimPrefix (lines ! 1) ''include '') '';'';
               directory = Clean (TrimSuffix pattern ''/*.conf'') in
        if Dir directory \<noteq> Clean (fragments_root cfg)
        then Inl (Errorf ''generated Nginx fragment index %s points outside the managed root'' [ArgS indexPath])
        else (case ae_glob env pattern of
            Inl e \<Rightarrow> Inl (Errorf ''read Nginx fragment index %s: %w'' [ArgS indexPath, ArgE e])
          | Inr paths \<Rightarrow>
              if paths = [] then Inl (Errorf ''generated Nginx fragment index %s has no fragments'' [ArgS indexPath])
              else backup_all env fs paths))"

definition cleanupOldFragmentDirectories :: "apply_env \<Rightarrow> string list \<Rightarrow> files \<Rightarrow> files" where
  "cleanupOldFragmentDirectories env active fs =
     (case active of [] \<Rightarrow> fs | first # _ \<Rightarrow>
        (case ae_fragment_root env of Inl _ \<Rightarrow> fs | Inr entries \<Rightarrow>
          fold (\<lambda>(name, isdir) g.
            let path = Join_path (Dir first) name in
            if \<not> isdir \<or> \<not> HasPrefix name ''http-v'' \<and> \<not> HasPrefix name ''stream-v'' \<or> path \<in> set (map Clean active)
            then g else remove_tree path g) entries fs))"

subsection \<open>Certificates\<close>

definition certificate_path :: "edge_config \<Rightarrow> string \<Rightarrow> string" where
  "certificate_path cfg site = Join_path (ec_CertificateDir cfg) (site @ ''.crt'')"

definition private_key_path :: "edge_config \<Rightarrow> string \<Rightarrow> string" where
  "private_key_path cfg site = Join_path (ec_CertificateDir cfg) (site @ ''.key'')"

definition desired_certificate_paths :: "edge_config \<Rightarrow> (string \<times> tls_bundle) list \<Rightarrow> string list" where
  "desired_certificate_paths cfg certs =
     concat (map (\<lambda>c. [certificate_path cfg (fst c), private_key_path cfg (fst c)]) certs)"

definition managedSiteCertificateName :: "apply_env \<Rightarrow> string \<Rightarrow> bool" where
  "managedSiteCertificateName env name \<longleftrightarrow>
     (Ext name = ''.crt'' \<or> Ext name = ''.key'') \<and> ae_uuid env (TrimSuffix name (Ext name))"

definition stale_certificate_paths ::
    "edge_config \<Rightarrow> apply_env \<Rightarrow> (string \<times> tls_bundle) list \<Rightarrow> dir_entries \<Rightarrow> string list" where
  "stale_certificate_paths cfg env certs entries =
     filter (\<lambda>p. p \<notin> set (desired_certificate_paths cfg certs))
       (map (\<lambda>e. Join_path (ec_CertificateDir cfg) (fst e))
         (filter (\<lambda>e. \<not> snd e \<and> managedSiteCertificateName env (fst e)) entries))"

fun read_backups :: "apply_env \<Rightarrow> files \<Rightarrow> string list \<Rightarrow> (string \<times> file_content option) list result" where
  "read_backups env fs [] = Inr []"
| "read_backups env fs (p # ps) =
     (case readBackup (ae_backup env p) p fs of Inl e \<Rightarrow> Inl e
      | Inr b \<Rightarrow> (case read_backups env fs ps of Inl e \<Rightarrow> Inl e | Inr bs \<Rightarrow> Inr ((p, b) # bs)))"

fun write_certificates ::
    "edge_config \<Rightarrow> apply_env \<Rightarrow> (string \<times> tls_bundle) list \<Rightarrow> files \<Rightarrow> files \<times> (string \<times> go_error) option" where
  "write_certificates cfg env [] fs = (fs, None)"
| "write_certificates cfg env ((site, b) # cs) fs =
     (case atomicWriteFile (ae_write env (certificate_path cfg site)) (certificate_path cfg site)
             (FileText (tb_CertificatePEM b)) fs of
        (fs1, Some e) \<Rightarrow> (fs1, Some (''certificate_write_failed'', Errorf ''write certificate for %s: %w'' [ArgS site, ArgE e]))
      | (fs1, None) \<Rightarrow>
          (case atomicWriteFile (ae_write env (private_key_path cfg site)) (private_key_path cfg site)
                  (FileText (tb_PrivateKeyPEM b)) fs1 of
             (fs2, Some e) \<Rightarrow> (fs2, Some (''private_key_write_failed'', Errorf ''write private key for %s: %w'' [ArgS site, ArgE e]))
           | (fs2, None) \<Rightarrow> write_certificates cfg env cs fs2))"

fun remove_certificates :: "apply_env \<Rightarrow> string list \<Rightarrow> files \<Rightarrow> files \<times> (string \<times> go_error) option" where
  "remove_certificates env [] fs = (fs, None)"
| "remove_certificates env (p # ps) fs =
     (case ae_remove env p of
        None \<Rightarrow> remove_certificates env ps (fs(p := None))
      | Some e \<Rightarrow> (fs, Some (''certificate_remove_failed'', Errorf ''remove stale certificate file %s: %w'' [ArgS (Base p), ArgE e])))"

definition stageCertificates ::
    "edge_config \<Rightarrow> apply_env \<Rightarrow> (string \<times> tls_bundle) list \<Rightarrow> files \<Rightarrow>
     files \<times> ((string \<times> go_error) + (string \<times> file_content option) list)" where
  "stageCertificates cfg env certs fs =
     (case ae_mkdir_certs env of Some e \<Rightarrow> (fs, Inl (''certificate_write_failed'', e)) | None \<Rightarrow>
      (case ae_cert_entries env of Inl e \<Rightarrow> (fs, Inl (''certificate_backup_failed'', e)) | Inr entries \<Rightarrow>
        let stale = stale_certificate_paths cfg env certs entries in
        (case read_backups env fs (desired_certificate_paths cfg certs @ stale) of
           Inl e \<Rightarrow> (fs, Inl (''certificate_backup_failed'', e))
         | Inr backups \<Rightarrow>
             (case write_certificates cfg env certs fs of
                (fs1, Some ce) \<Rightarrow> (restoreConfigurationFiles (ae_restore env) backups fs1, Inl ce)
              | (fs1, None) \<Rightarrow>
                  (case remove_certificates env stale fs1 of
                     (fs2, Some ce) \<Rightarrow> (restoreConfigurationFiles (ae_restore env) backups fs2, Inl ce)
                   | (fs2, None) \<Rightarrow> (fs2, Inr backups))))))"

end
