(* ===== verification/Edge_Locked.thy ===== *)
theory Edge_Locked
  imports Edge_Files
begin

section \<open>The apply transaction (internal/edge/agent.go, applyLocked)\<close>

subsection \<open>Reports\<close>

definition setApplyReport :: "apply_report \<Rightarrow> edge_agent \<Rightarrow> edge_agent" where
  "setApplyReport r a = a\<lparr>ea_ApplyReport := Some r, ea_ApplyReportSeq := ea_ApplyReportSeq a + 1\<rparr>"

definition heartbeatReport :: "edge_agent \<Rightarrow> apply_report option \<times> int" where
  "heartbeatReport a = (ea_ApplyReport a, ea_ApplyReportSeq a)"

definition acknowledgeApplyReport :: "int \<Rightarrow> bool \<Rightarrow> edge_agent \<Rightarrow> edge_agent" where
  "acknowledgeApplyReport sequence sent a =
     (if sent \<and> ea_ApplyReportSeq a = sequence then a\<lparr>ea_ApplyReport := None\<rparr> else a)"

definition applyFailed :: "apply_env \<Rightarrow> int \<Rightarrow> apply_failure \<Rightarrow> edge_agent \<Rightarrow> edge_agent \<times> outcome" where
  "applyFailed env version f a =
     (case f of (code, e, conflicts) \<Rightarrow>
        (setApplyReport \<lparr>ar_Version = version, ar_Status = ApplyFailed, ar_Code = code, ar_Detail = ae_error_text env e,
           ar_PortConflicts = conflicts\<rparr> a, Some e))"

subsection \<open>Before anything is written\<close>

definition check_desired :: "edge_config \<Rightarrow> apply_env \<Rightarrow> edge_desired_state \<Rightarrow> (int list \<times> int list) result" where
  "check_desired cfg env d =
     (case desiredPublicPorts d of Inl e \<Rightarrow> Inl e | Inr ports \<Rightarrow>
      (case validateDesiredOriginPools cfg (ds_NginxConfig d) (ed_OriginPools d) of Inl e \<Rightarrow> Inl e | Inr _ \<Rightarrow>
      (case ae_warmups env of Some e \<Rightarrow> Inl e | None \<Rightarrow>
      (case desiredPublicUDPPorts d of Inl e \<Rightarrow> Inl e | Inr udp \<Rightarrow> Inr (ports, udp)))))"

definition config_paths :: "edge_config \<Rightarrow> string list" where
  "config_paths cfg = [ec_NginxConfigPath cfg, ec_NginxStreamConfigPath cfg, ec_NginxMainConfigPath cfg, ec_NginxEventsConfigPath cfg]"

definition config_backups :: "edge_config \<Rightarrow> apply_env \<Rightarrow> files \<Rightarrow> (string \<times> file_content option) list result" where
  "config_backups cfg env fs =
     (case read_backups env fs (config_paths cfg) of Inl e \<Rightarrow> Inl e | Inr bs \<Rightarrow>
      (case index_backups cfg env fs (ec_NginxConfigPath cfg) (the (map_of bs (ec_NginxConfigPath cfg))) of
         Inl e \<Rightarrow> Inl e | Inr http \<Rightarrow>
      (case index_backups cfg env fs (ec_NginxStreamConfigPath cfg) (the (map_of (bs @ http) (ec_NginxStreamConfigPath cfg))) of
         Inl e \<Rightarrow> Inl e | Inr stream \<Rightarrow> Inr (bs @ http @ stream))))"

definition preflight ::
    "edge_config \<Rightarrow> apply_env \<Rightarrow> int list \<Rightarrow> int list \<Rightarrow> files \<Rightarrow> apply_failure + (string \<times> file_content option) list" where
  "preflight cfg env ports udp fs =
     (case ae_static_sync env of Some e \<Rightarrow> Inl (''static_asset_sync_failed'', e, []) | None \<Rightarrow>
      (case config_backups cfg env fs of Inl e \<Rightarrow> Inl (''config_backup_failed'', e, []) | Inr backups \<Rightarrow>
      (case ae_listeners env of Inl e \<Rightarrow> Inl (''port_check_failed'', e, []) | Inr tcp \<Rightarrow>
      (case inspectUDPListeners (ae_udp_listeners env) udp of Inl e \<Rightarrow> Inl (''port_check_failed'', e, []) | Inr udpls \<Rightarrow>
        let conflicts = unmanagedListeners tcp (managedListenerPorts backups ports)
                      @ unmanagedListeners udpls (managedQUICListenerPorts backups udp) in
        if conflicts \<noteq> [] then Inl (port_conflict_failure conflicts) else Inr backups))))"

subsection \<open>Writing the configuration\<close>

fun write_configs :: "apply_env \<Rightarrow> (string \<times> string \<times> string) list \<Rightarrow> files \<Rightarrow> files \<times> outcome" where
  "write_configs env [] fs = (fs, None)"
| "write_configs env ((path, content, text) # cs) fs =
     (case atomicWriteFile (ae_write env path) path (FileText content) fs of
        (fs1, Some e) \<Rightarrow> (fs1, Some (Errorf text [ArgE e]))
      | (fs1, None) \<Rightarrow> write_configs env cs fs1)"

definition configs_to_write :: "edge_config \<Rightarrow> edge_desired_state \<Rightarrow> string \<Rightarrow> string \<Rightarrow> (string \<times> string \<times> string) list" where
  "configs_to_write cfg d http stream =
     (if ed_NginxMainConfig d \<noteq> []
      then [(ec_NginxMainConfigPath cfg, ed_NginxMainConfig d, ''write Nginx main configuration: %w'')] else [])
     @ (if ed_NginxEventsConfig d \<noteq> []
        then [(ec_NginxEventsConfigPath cfg, ed_NginxEventsConfig d, ''write Nginx events configuration: %w'')] else [])
     @ [(ec_NginxConfigPath cfg, http, ''write Nginx HTTP configuration: %w''),
        (ec_NginxStreamConfigPath cfg, if stream = [] then fragment_header else stream,
         ''write Nginx stream configuration: %w'')]"

text \<open>The texts of the HTTP and stream configuration, the active and the new fragment directories.\<close>

definition stage_texts ::
    "edge_config \<Rightarrow> apply_env \<Rightarrow> edge_desired_state \<Rightarrow> files \<Rightarrow> files \<times> (string \<times> string \<times> string list \<times> string list) result" where
  "stage_texts cfg env d fs =
     (case ed_NginxFragments d of
        None \<Rightarrow> (fs, Inr (ds_NginxConfig d, ed_NginxStreamConfig d, [], []))
      | Some fr \<Rightarrow> stageNginxFragments cfg env (ds_Version d) fr fs)"

definition remove_trees :: "apply_env \<Rightarrow> string list \<Rightarrow> files \<Rightarrow> files" where
  "remove_trees env dirs fs = fold (\<lambda>d g. if ae_restore env d then remove_tree d g else g) dirs fs"

subsection \<open>Activation\<close>

definition applied_version_path :: "edge_config \<Rightarrow> string" where
  "applied_version_path cfg = Join_path (ec_StateDir cfg) ''applied-version''"

text \<open>Whether nginx serves the ports after the reload, and what it is that does not.\<close>

definition check_listeners :: "edge_config \<Rightarrow> apply_env \<Rightarrow> int list \<Rightarrow> int list \<Rightarrow> apply_failure option" where
  "check_listeners cfg env ports udp =
     (case waitForNginxListeners cfg (ae_polled_listeners env) (ae_poll_time env) ports (ae_now env) of Inl e \<Rightarrow> Some (''port_check_failed'', e, []) | Inr tcp \<Rightarrow>
      if foreignListeners tcp \<noteq> [] then Some (port_conflict_failure (foreignListeners tcp))
      else case waitForNginxUDPListeners cfg (ae_polled_udp_listeners env) (ae_udp_poll_time env) udp (ae_udp_now env) of
        Inl e \<Rightarrow> Some (''port_check_failed'', e, []) | Inr udpls \<Rightarrow>
      if foreignListeners udpls \<noteq> [] then Some (port_conflict_failure (foreignListeners udpls))
      else if \<not> nginxOwnsPorts tcp ports \<or> \<not> nginxOwnsPorts udpls udp
      then Some (''nginx_not_listening'',
        Errorf ''Nginx did not retain all required public listeners after applying configuration: %s''
          [ArgS (formatPublicPorts ports udp)], [])
      else None)"

definition found_foreign :: "port_conflict list result \<Rightarrow> port_conflict list" where
  "found_foreign r = (case r of Inl _ \<Rightarrow> [] | Inr ls \<Rightarrow> foreignListeners ls)"

definition apply_error_failure :: "apply_env \<Rightarrow> int list \<Rightarrow> go_error \<Rightarrow> apply_failure" where
  "apply_error_failure env udp e =
     (let conflicts = found_foreign (ae_failed_listeners env)
                    @ found_foreign (inspectUDPListeners (ae_failed_udp_listeners env) udp) in
      if conflicts \<noteq> [] then port_conflict_failure conflicts else (''nginx_apply_failed'', e, []))"

definition activate ::
    "edge_config \<Rightarrow> apply_env \<Rightarrow> int \<Rightarrow> int list \<Rightarrow> int list \<Rightarrow> origin_pool_stage \<Rightarrow> edge_agent \<Rightarrow> edge_agent \<times> apply_failure option" where
  "activate cfg env version ports udp stage a =
     (case ae_layout env of Some e \<Rightarrow> (a, Some (''cache_layout_failed'', e, [])) | None \<Rightarrow>
      (case ae_test env of Some e \<Rightarrow> (a, Some (''nginx_config_invalid'', e, [])) | None \<Rightarrow>
        let a1 = runner_apply (ae_apply env) a in
        (case fst (ae_apply env) of Some e \<Rightarrow> (a1, Some (apply_error_failure env udp e)) | None \<Rightarrow>
        (case check_listeners cfg env ports udp of Some f \<Rightarrow> (a1, Some f) | None \<Rightarrow>
        (case Persist cfg (ae_persist env) stage a1 of
           (a2, Some e) \<Rightarrow> (a2, Some (''origin_pool_state_write_failed'', e, []))
         | (a2, None) \<Rightarrow>
             (case atomicWriteFile (ae_write env (applied_version_path cfg)) (applied_version_path cfg)
                     (FileText (itoa version @ newline)) (ea_Files a2) of
                (fs, Some e) \<Rightarrow> (a2\<lparr>ea_Files := fs\<rparr>, Some (''applied_version_write_failed'', e, []))
              | (fs, None) \<Rightarrow> (a2\<lparr>ea_Files := fs\<rparr>, None)))))))"

text \<open>Putting everything back: certificates, pools, configuration; then nginx is made to load it.\<close>

definition put_back ::
    "apply_env \<Rightarrow> (string \<times> file_content option) list \<Rightarrow> origin_pool_stage \<Rightarrow> (string \<times> file_content option) list \<Rightarrow>
     edge_agent \<Rightarrow> edge_agent" where
  "put_back env certs stage configs a =
     (let a1 = a\<lparr>ea_Files := restoreConfigurationFiles (ae_restore env) certs (ea_Files a)\<rparr>;
          a2 = snd (Rollback (ae_restore env) stage a1);
          a3 = a2\<lparr>ea_Files := restoreConfigurationFiles (ae_restore env) configs (ea_Files a2)\<rparr>
      in if ae_retest env = None then runner_apply (ae_reapply env) a3 else a3)"

definition warning :: "apply_env \<Rightarrow> string \<Rightarrow> outcome \<Rightarrow> string" where
  "warning env text r = (case r of None \<Rightarrow> [] | Some e \<Rightarrow> ''; '' @ text @ '': '' @ ae_error_text env e)"

definition success_report :: "apply_env \<Rightarrow> int \<Rightarrow> int list \<Rightarrow> int list \<Rightarrow> string list \<Rightarrow> apply_report" where
  "success_report env version ports udp stale =
     \<lparr>ar_Version = version, ar_Status = ApplySucceeded, ar_Code = [],
      ar_Detail = ''Nginx is listening on '' @ formatPublicPorts ports udp
        @ warning env ''cache cleanup warning'' (ae_layout_cleanup env)
        @ warning env ''origin pool cleanup warning''
            (if stale = [] then None
             else Some (Errorf ''errors.Join'' (map (\<lambda>i. ArgE (Errorf ''remove stale origin pool %s: %w'' [ArgS i])) stale)))
        @ warning env ''static resource cleanup warning'' (ae_static_cleanup env)
        @ (if ae_warmup_detail env = [] then [] else ''; '' @ ae_warmup_detail env)
        @ warning env ''cache prewarm warning'' (ae_warmup_error env),
      ar_PortConflicts = []\<rparr>"

subsection \<open>The transaction\<close>

text \<open>From the staging of the pools on; the certificates and the configuration are written.\<close>

definition apply_staged ::
    "edge_config \<Rightarrow> apply_env \<Rightarrow> edge_desired_state \<Rightarrow> int list \<Rightarrow> int list \<Rightarrow> (string \<times> file_content option) list \<Rightarrow>
     (string \<times> file_content option) list \<Rightarrow> string list \<Rightarrow> edge_agent \<Rightarrow> edge_agent \<times> (apply_failure + apply_report)" where
  "apply_staged cfg env d ports udp configs certs active a =
     (case stageOriginPools cfg \<lparr>si_backup = ae_backup env, si_write = ae_write env, si_restore = ae_restore env\<rparr>
             (ed_OriginPools d) a of
        (a1, Inl e) \<Rightarrow>
          (a1\<lparr>ea_Files := restoreConfigurationFiles (ae_restore env) configs
             (restoreConfigurationFiles (ae_restore env) certs (ea_Files a1))\<rparr>, Inl (''origin_pool_write_failed'', e, []))
      | (a1, Inr stage) \<Rightarrow>
          (case activate cfg env (ds_Version d) ports udp stage a1 of
             (a2, Some f) \<Rightarrow> (put_back env certs stage configs a2, Inl f)
           | (a2, None) \<Rightarrow>
               (case Commit (ae_remove_stale env) stage a2 of (_, a3, stale) \<Rightarrow>
                  (a3\<lparr>ea_Files := cleanupOldFragmentDirectories env active (ea_Files a3)\<rparr>,
                   Inr (success_report env (ds_Version d) ports udp stale)))))"

definition apply_written ::
    "edge_config \<Rightarrow> apply_env \<Rightarrow> edge_desired_state \<Rightarrow> int list \<Rightarrow> int list \<Rightarrow> (string \<times> file_content option) list \<Rightarrow>
     (string \<times> file_content option) list \<Rightarrow> edge_agent \<Rightarrow> edge_agent \<times> (apply_failure + apply_report)" where
  "apply_written cfg env d ports udp configs certs a =
     (case stage_texts cfg env d (ea_Files a) of
        (fs, Inl e) \<Rightarrow> (a\<lparr>ea_Files := restoreConfigurationFiles (ae_restore env) certs fs\<rparr>, Inl (''config_write_failed'', e, []))
      | (fs, Inr (http, stream, active, created)) \<Rightarrow>
          (case (case write_configs env (configs_to_write cfg d http stream) fs of
             (fs1, Some e) \<Rightarrow>
               (a\<lparr>ea_Files := restoreConfigurationFiles (ae_restore env) configs
                  (restoreConfigurationFiles (ae_restore env) certs fs1)\<rparr>, Inl (''config_write_failed'', e, []))
           | (fs1, None) \<Rightarrow> apply_staged cfg env d ports udp configs certs active (a\<lparr>ea_Files := fs1\<rparr>)) of
             (a1, Inl f) \<Rightarrow> (a1\<lparr>ea_Files := remove_trees env created (ea_Files a1)\<rparr>, Inl f)
           | (a1, Inr report) \<Rightarrow> (a1, Inr report)))"

definition applyLocked :: "edge_config \<Rightarrow> apply_env \<Rightarrow> edge_desired_state \<Rightarrow> edge_agent \<Rightarrow> edge_agent \<times> outcome" where
  "applyLocked cfg env d a =
     (case check_desired cfg env d of
        Inl e \<Rightarrow> applyFailed env (ds_Version d) (''invalid_desired_state'', e, []) a
      | Inr (ports, udp) \<Rightarrow>
          (case preflight cfg env ports udp (ea_Files a) of
             Inl f \<Rightarrow> applyFailed env (ds_Version d) f a
           | Inr configs \<Rightarrow>
               (case stageCertificates cfg env (ed_Certificates d) (ea_Files a) of
                  (fs, Inl (code, e)) \<Rightarrow> applyFailed env (ds_Version d) (code, e, []) (a\<lparr>ea_Files := fs\<rparr>)
                | (fs, Inr certs) \<Rightarrow>
                    (case apply_written cfg env d ports udp configs certs (a\<lparr>ea_Files := fs\<rparr>) of
                       (a1, Inl f) \<Rightarrow> applyFailed env (ds_Version d) f a1
                     | (a1, Inr report) \<Rightarrow> (setApplyReport report a1, None)))))"

end
