(* ===== verification/Edge_Facts.thy ===== *)
theory Edge_Facts
  imports Edge_Locked
begin

section \<open>What the file operations of a node touch\<close>

subsection \<open>The end of a joined path\<close>

lemma Split_append_clean:
  "c \<notin> set u \<Longrightarrow> Split (t @ u) c = butlast (Split t c) @ [last (Split t c) @ u]"
proof (induction t)
  case Nil
  then show ?case by (simp add: Split_single)
next
  case (Cons x t)
  obtain p ps where "Split t c = p # ps" by (metis Split_not_Nil neq_Nil_conv)
  with Cons show ?case by (cases ps) auto
qed

lemma clean_components_last:
  "l \<noteq> [] \<Longrightarrow> l \<noteq> ''.'' \<Longrightarrow> l \<noteq> ''..'' \<Longrightarrow> clean_components rooted out (cs @ [l]) = clean_components rooted out cs @ [l]"
  by (induction rooted out cs rule: clean_components.induct) auto

lemma slash_join_last: "\<exists>u. slash_join (xs @ [l]) = u @ l"
proof (induction xs rule: slash_join.induct)
  case (3 x y xs)
  then obtain u where "slash_join ((y # xs) @ [l]) = u @ l" by blast
  then have "slash_join ((x # y # xs) @ [l]) = (x @ CHR ''/'' # u) @ l" by simp
  then show ?case by blast
next
  case (2 x)
  have "slash_join ([x] @ [l]) = (x @ ''/'') @ l" by simp
  then show ?case by blast
qed simp

definition plain_suffix :: "string \<Rightarrow> bool" where
  "plain_suffix x \<longleftrightarrow> CHR ''/'' \<notin> set x \<and> length x > 2"

lemma Clean_suffix:
  assumes "plain_suffix x" and "HasSuffix p x"
  shows "HasSuffix (Clean p) x"
proof -
  from assms(2) obtain t where p: "p = t @ x" by (auto simp: HasSuffix_iff)
  define l where "l = last (Split t (CHR ''/'')) @ x"
  have len: "length l > 2" using assms(1) by (simp add: l_def plain_suffix_def)
  have l: "l \<noteq> []" "l \<noteq> ''.''" "l \<noteq> ''..''" using len by auto
  have "Split p (CHR ''/'') = butlast (Split t (CHR ''/'')) @ [l]"
    using assms(1) Split_append_clean by (simp add: p l_def plain_suffix_def)
  with clean_components_last [OF l] slash_join_last obtain u where
    u: "slash_join (clean_components (IsAbs p) [] (Split p (CHR ''/''))) = u @ l" by metis
  then have "HasSuffix (slash_join (clean_components (IsAbs p) [] (Split p (CHR ''/'')))) x"
    by (auto simp: HasSuffix_iff l_def)
  moreover have "HasSuffix (c # s) x" if "HasSuffix s x" for c s using that by (auto simp: HasSuffix_iff)
  ultimately show ?thesis using u l(1) by (simp add: Clean_def Let_def)
qed

lemma Join_suffix:
  assumes "plain_suffix x" and "HasSuffix b x"
  shows "HasSuffix (Join_path a b) x"
proof -
  have b: "b \<noteq> []" using assms by (auto simp: plain_suffix_def HasSuffix_iff)
  have "HasSuffix (a @ CHR ''/'' # b) x"
    using assms(2) by (auto simp: HasSuffix_iff)
  with b assms Clean_suffix show ?thesis by (simp add: Join_path_def)
qed

lemma suffixes_differ: "HasSuffix p x \<Longrightarrow> HasSuffix p y \<Longrightarrow> last x \<noteq> last y \<Longrightarrow> x \<noteq> [] \<Longrightarrow> y \<noteq> [] \<Longrightarrow> False"
  by (auto simp: HasSuffix_iff) (metis last_append)

lemma runtime_path_json: "HasSuffix (originRuntimePath cfg) ''.json''"
  unfolding originRuntimePath_def by (rule Join_suffix) (simp_all add: plain_suffix_def HasSuffix_def)

lemma pool_path_conf:
  "validateOriginPool cfg p = Inr () \<Longrightarrow> op_ConfigPath p = Join_path (ec_OriginPoolConfigDirectory cfg) (op_ID p @ ''.conf'')"
  by (simp add: validateOriginPool_def)

lemma conf_suffix: "HasSuffix (Join_path d (i @ ''.conf'')) ''.conf''"
  by (rule Join_suffix) (auto simp: plain_suffix_def HasSuffix_iff)

lemma Ext_suffix: "Ext name = x \<Longrightarrow> x \<noteq> [] \<Longrightarrow> HasSuffix name x"
proof -
  assume x: "Ext name = x" "x \<noteq> []"
  let ?n = "after_slash name" and ?P = "\<lambda>c. c \<noteq> CHR ''.''"
  from x have len: "length (takeWhile ?P (rev ?n)) \<noteq> length ?n"
    and e: "x = CHR ''.'' # rev (takeWhile ?P (rev ?n))" by (auto simp: Ext_def Let_def split: if_splits)
  have ne: "dropWhile ?P (rev ?n) \<noteq> []"
    using len by (metis append_Nil2 length_rev takeWhile_dropWhile_id)
  then have "hd (dropWhile ?P (rev ?n)) = CHR ''.''" using hd_dropWhile by blast
  then obtain t where "dropWhile ?P (rev ?n) = CHR ''.'' # t" using ne by (metis list.collapse)
  then have "rev ?n = takeWhile ?P (rev ?n) @ CHR ''.'' # t" by (metis takeWhile_dropWhile_id)
  then have "?n = rev t @ x" using e by (metis append.assoc append_Cons append_Nil rev.simps(2) rev_append rev_rev_ident)
  moreover have "\<exists>u. name = u @ ?n"
    by (metis after_slash_def rev_append rev_rev_ident takeWhile_dropWhile_id)
  ultimately show ?thesis by (auto simp: HasSuffix_iff)
qed

subsection \<open>Backups and restorations\<close>

text \<open>Backups that hold the contents of \<open>fs0\<close>.\<close>

definition backups_of :: "files \<Rightarrow> (string \<times> file_content option) list \<Rightarrow> bool" where
  "backups_of fs0 bs \<longleftrightarrow> (\<forall>(p, b) \<in> set bs. b = fs0 p)"

lemma backups_of_simps [simp]:
  "backups_of fs0 []" "backups_of fs0 ((p, b) # bs) \<longleftrightarrow> b = fs0 p \<and> backups_of fs0 bs"
  "backups_of fs0 (bs @ cs) \<longleftrightarrow> backups_of fs0 bs \<and> backups_of fs0 cs"
  by (auto simp: backups_of_def)

lemma restore_all:
  "backups_of fs0 bs \<Longrightarrow> \<forall>p. ok p \<Longrightarrow>
    restoreConfigurationFiles ok bs fs = (\<lambda>p. if p \<in> fst ` set bs then fs0 p else fs p)"
proof (induction bs arbitrary: fs)
  case (Cons x bs)
  obtain p b where x: "x = (p, b)" by force
  with Cons show ?case by (auto simp: fun_eq_iff)
qed simp

lemma read_backups_of: "read_backups env fs ps = Inr bs \<Longrightarrow> backups_of fs bs \<and> map fst bs = ps"
  by (induction ps arbitrary: bs) (auto simp: readBackup_def split: option.splits)

lemma backup_all_of: "backup_all env fs ps = Inr bs \<Longrightarrow> backups_of fs bs"
  by (induction ps arbitrary: bs) (auto simp: readBackup_def split: option.splits sum.splits)

lemma index_backups_of: "index_backups cfg env fs path b = Inr bs \<Longrightarrow> backups_of fs bs"
  by (auto simp: index_backups_def Let_def dest: backup_all_of split: if_splits sum.splits)

lemma config_backups_of:
  assumes "config_backups cfg env fs = Inr bs"
  shows "backups_of fs bs \<and> set (config_paths cfg) \<subseteq> fst ` set bs"
proof -
  from assms obtain b1 b2 b3 where b: "read_backups env fs (config_paths cfg) = Inr b1" "bs = b1 @ b2 @ b3"
    and i: "index_backups cfg env fs (ec_NginxConfigPath cfg) (the (map_of b1 (ec_NginxConfigPath cfg))) = Inr b2"
      "index_backups cfg env fs (ec_NginxStreamConfigPath cfg) (the (map_of (b1 @ b2) (ec_NginxStreamConfigPath cfg))) = Inr b3"
    unfolding config_backups_def by auto
  have "fst ` set b1 = set (config_paths cfg)" using read_backups_of [OF b(1)] by (metis list.set_map)
  with read_backups_of [OF b(1)] index_backups_of [OF i(1)] index_backups_of [OF i(2)] show ?thesis
    by (simp add: b(2) image_Un)
qed

text \<open>\<open>fs\<close> differs from \<open>fs0\<close> only inside a set of paths.\<close>

definition differs_in :: "string set \<Rightarrow> files \<Rightarrow> files \<Rightarrow> bool" where
  "differs_in K fs fs0 \<longleftrightarrow> (\<forall>p. p \<notin> K \<longrightarrow> fs p = fs0 p)"

lemma differs_refl [simp]: "differs_in K fs fs"
  by (simp add: differs_in_def)

lemma differs_trans: "differs_in K fs1 fs0 \<Longrightarrow> differs_in L fs2 fs1 \<Longrightarrow> differs_in (K \<union> L) fs2 fs0"
  by (auto simp: differs_in_def)

lemma differs_mono: "differs_in K fs fs0 \<Longrightarrow> K \<subseteq> L \<Longrightarrow> differs_in L fs fs0"
  by (auto simp: differs_in_def)

lemma write_differs: "atomicWriteFile r p c fs = (fs1, e) \<Longrightarrow> differs_in {p} fs1 fs"
  by (auto simp: atomicWriteFile_def differs_in_def split: option.splits)

lemma failed_write: "atomicWriteFile r p c fs = (fs1, Some e) \<Longrightarrow> fs1 = fs"
  by (auto simp: atomicWriteFile_def split: option.splits)

lemma restored_differs:
  "backups_of fs0 bs \<Longrightarrow> \<forall>p. ok p \<Longrightarrow> differs_in K fs fs0 \<Longrightarrow>
    differs_in (K - fst ` set bs) (restoreConfigurationFiles ok bs fs) fs0"
  by (auto simp: restore_all differs_in_def)

lemma write_certificates_differs:
  "write_certificates cfg env certs fs = (fs1, r) \<Longrightarrow> differs_in (set (desired_certificate_paths cfg certs)) fs1 fs"
proof (induction certs arbitrary: fs)
  case (Cons c certs)
  obtain site b where c: "c = (site, b)" by force
  obtain f1 r1 where w1: "atomicWriteFile (ae_write env (certificate_path cfg site)) (certificate_path cfg site)
      (FileText (tb_CertificatePEM b)) fs = (f1, r1)" by force
  obtain f2 r2 where w2: "atomicWriteFile (ae_write env (private_key_path cfg site)) (private_key_path cfg site)
      (FileText (tb_PrivateKeyPEM b)) f1 = (f2, r2)" by force
  have paths: "set (desired_certificate_paths cfg (c # certs)) =
      {certificate_path cfg site} \<union> {private_key_path cfg site} \<union> set (desired_certificate_paths cfg certs)"
    by (auto simp: desired_certificate_paths_def c)
  note d1 = write_differs [OF w1]
  note d2 = write_differs [OF w2]
  show ?case
  proof (cases r1)
    case (Some e)
    with Cons.prems w1 have "fs1 = f1" by (simp add: c)
    with d1 show ?thesis by (auto simp: paths intro: differs_mono)
  next
    case None
    show ?thesis
    proof (cases r2)
      case (Some e)
      with Cons.prems w1 w2 None have "fs1 = f2" by (simp add: c)
      with differs_trans [OF d1 d2] show ?thesis by (auto simp: paths intro: differs_mono)
    next
      case r2_None: None
      with Cons.prems w1 w2 None have "write_certificates cfg env certs f2 = (fs1, r)" by (simp add: c)
      from differs_trans [OF differs_trans [OF d1 d2] Cons.IH [OF this]] show ?thesis by (simp add: paths)
    qed
  qed
qed simp

lemma remove_certificates_differs: "remove_certificates env ps fs = (fs1, r) \<Longrightarrow> differs_in (set ps) fs1 fs"
proof (induction ps arbitrary: fs)
  case (Cons p ps)
  show ?case
  proof (cases "ae_remove env p")
    case None
    with Cons.prems have "differs_in (set ps) fs1 (fs(p := None))" by (auto intro: Cons.IH)
    then show ?thesis by (auto simp: differs_in_def)
  qed (use Cons.prems in auto)
qed simp

definition certificate_keys :: "edge_config \<Rightarrow> apply_env \<Rightarrow> edge_desired_state \<Rightarrow> string set" where
  "certificate_keys cfg env d =
     (case ae_cert_entries env of Inl _ \<Rightarrow> {} | Inr entries \<Rightarrow>
        set (desired_certificate_paths cfg (ed_Certificates d)) \<union> set (stale_certificate_paths cfg env (ed_Certificates d) entries))"

lemma stageCertificates_failed:
  assumes "stageCertificates cfg env certs fs = (fs1, Inl ce)" and "\<forall>p. ae_restore env p"
  shows "fs1 = fs"
proof (cases "ae_mkdir_certs env = None \<and> (\<exists>entries bs. ae_cert_entries env = Inr entries
    \<and> read_backups env fs (desired_certificate_paths cfg certs @ stale_certificate_paths cfg env certs entries) = Inr bs)")
  case False
  with assms(1) show ?thesis by (auto simp: stageCertificates_def Let_def split: option.splits sum.splits)
next
  case True
  then obtain entries bs where e: "ae_mkdir_certs env = None" "ae_cert_entries env = Inr entries"
    and bs: "read_backups env fs (desired_certificate_paths cfg certs @ stale_certificate_paths cfg env certs entries) = Inr bs"
    by blast
  let ?stale = "stale_certificate_paths cfg env certs entries"
  have keys: "fst ` set bs = set (desired_certificate_paths cfg certs) \<union> set ?stale"
    using read_backups_of [OF bs] by (metis set_append list.set_map)
  obtain f1 r1 where w: "write_certificates cfg env certs fs = (f1, r1)" by force
  obtain f2 r2 where m: "remove_certificates env ?stale f1 = (f2, r2)" by force
  note d1 = write_certificates_differs [OF w]
  note d2 = remove_certificates_differs [OF m]
  have undo: "restoreConfigurationFiles (ae_restore env) bs g = fs" if "differs_in (fst ` set bs) g fs" for g
    using restored_differs [OF conjunct1 [OF read_backups_of [OF bs]] assms(2) that] by (auto simp: differs_in_def)
  have "differs_in (fst ` set bs) f1 fs" using d1 by (rule differs_mono) (simp add: keys)
  moreover have "differs_in (fst ` set bs) f2 fs" using differs_trans [OF d1 d2] by (simp add: keys)
  ultimately show ?thesis using assms(1) e bs w m undo
    by (cases r1; cases r2) (auto simp: stageCertificates_def Let_def)
qed

lemma stageCertificates_done:
  assumes "stageCertificates cfg env (ed_Certificates d) fs = (fs1, Inr bs)"
  shows "backups_of fs bs \<and> fst ` set bs = certificate_keys cfg env d \<and> differs_in (certificate_keys cfg env d) fs1 fs"
proof -
  let ?certs = "ed_Certificates d"
  from assms obtain entries where e: "ae_mkdir_certs env = None" "ae_cert_entries env = Inr entries"
    by (cases "ae_mkdir_certs env"; cases "ae_cert_entries env") (auto simp: stageCertificates_def)
  let ?stale = "stale_certificate_paths cfg env ?certs entries"
  obtain f1 r1 where w: "write_certificates cfg env ?certs fs = (f1, r1)" by force
  obtain f2 r2 where m: "remove_certificates env ?stale f1 = (f2, r2)" by force
  from assms e w m have bs: "read_backups env fs (desired_certificate_paths cfg ?certs @ ?stale) = Inr bs" "fs1 = f2"
    by (cases "read_backups env fs (desired_certificate_paths cfg ?certs @ ?stale)"; cases r1; cases r2;
      simp add: stageCertificates_def Let_def)+
  have keys: "fst ` set bs = certificate_keys cfg env d"
    using read_backups_of [OF bs(1)] by (metis certificate_keys_def e(2) list.set_map set_append sum.case(2))
  have "differs_in (certificate_keys cfg env d) f2 fs"
    using differs_trans [OF write_certificates_differs [OF w] remove_certificates_differs [OF m]]
    by (simp add: certificate_keys_def e(2))
  with bs keys read_backups_of [OF bs(1)] show ?thesis by simp
qed

end
