(* ===== verification/Edge_Atomic.thy ===== *)
theory Edge_Atomic
  imports Edge_Facts
begin

section \<open>A failed apply is undone\<close>

subsection \<open>Fragment directories\<close>

definition tree :: "string \<Rightarrow> string set" where
  "tree directory = {p. HasPrefix p (directory @ ''/'')}"

definition trees :: "string list \<Rightarrow> string set" where
  "trees dirs = (\<Union>d \<in> set dirs. tree d)"

lemma in_tree [simp]: "directory @ ''/'' @ name \<in> tree directory"
  by (auto simp: tree_def HasPrefix_iff)

lemma install_differs: "differs_in (tree directory) (install_fragments directory base fragments fs) fs"
proof -
  have step: "differs_in (tree directory)
      (fold (\<lambda>f. \<lambda>g. g(directory @ ''/'' @ nf_Name f \<mapsto> FileText (nf_Content f))) fragments g) fs"
    if "differs_in (tree directory) g fs" for g
    using that
  proof (induction fragments arbitrary: g)
    case (Cons f fragments)
    have "differs_in (tree directory) (g(directory @ ''/'' @ nf_Name f \<mapsto> FileText (nf_Content f))) fs"
      using Cons.prems in_tree [of directory "nf_Name f"] by (auto simp: differs_in_def)
    from Cons.IH [OF this] show ?case by simp
  qed simp
  show ?thesis unfolding install_fragments_def
    by (rule step) (use in_tree [of directory "''00-base.conf''"] in \<open>auto simp: differs_in_def\<close>)
qed

text \<open>When \<open>ReadDir\<close> finds no directory there are no files in it.\<close>

definition true_listings :: "apply_env \<Rightarrow> files \<Rightarrow> bool" where
  "true_listings env fs \<longleftrightarrow> (\<forall>d. ae_fragment_entries env d = Inr None \<longrightarrow> (\<forall>p \<in> tree d. fs p = None))"

lemma matches_new: "fragmentDirectoryMatches env answer dir base fr fs = Inr False \<Longrightarrow> answer = Inr None"
proof -
  have "check_entries env dir expected fs es \<noteq> Inr False" for expected es
    by (induction es) (auto split: option.splits)
  then show "fragmentDirectoryMatches env answer dir base fr fs = Inr False \<Longrightarrow> answer = Inr None"
    by (auto simp: fragmentDirectoryMatches_def split: sum.splits option.splits if_splits)
qed

lemma stageFragmentDirectory_cases:
  assumes "stageFragmentDirectory env root kind v base fr fs = (fs', r)"
  shows "(\<forall>dir. r = Inr (dir, True) \<longrightarrow> ae_fragment_entries env dir = Inr None \<and> differs_in (tree dir) fs' fs)
    \<and> ((\<forall>dir. r \<noteq> Inr (dir, True)) \<longrightarrow> fs' = fs)"
proof -
  let ?dir = "fragment_directory env root kind v base fr"
  let ?m = "fragmentDirectoryMatches env (ae_fragment_entries env ?dir) ?dir base fr fs"
  show ?thesis
  proof (cases "base = [] \<or> ?m \<noteq> Inr False")
    case True
    with assms show ?thesis
      by (cases ?m) (auto simp: stageFragmentDirectory_def Let_def split: if_splits bool.splits)
  next
    case False
    then have "ae_fragment_entries env ?dir = Inr None" by (auto dest: matches_new)
    with False assms install_differs [of ?dir base fr fs] show ?thesis
      by (auto simp: stageFragmentDirectory_def Let_def split: if_splits bool.splits option.splits sum.splits)
  qed
qed

lemma stageFragmentDirectory_new:
  "stageFragmentDirectory env root kind v base fr fs = (fs', Inr (dir, True)) \<Longrightarrow>
    ae_fragment_entries env dir = Inr None \<and> differs_in (tree dir) fs' fs"
  using stageFragmentDirectory_cases by blast

lemma stageFragmentDirectory_old:
  "stageFragmentDirectory env root kind v base fr fs = (fs', r) \<Longrightarrow> \<forall>dir. r \<noteq> Inr (dir, True) \<Longrightarrow> fs' = fs"
  using stageFragmentDirectory_cases by blast

lemma stage_texts_done:
  assumes "stage_texts cfg env d fs = (fs', Inr (http, stream, active, created))"
  shows "differs_in (trees created) fs' fs \<and> (\<forall>c \<in> set created. ae_fragment_entries env c = Inr None)"
proof (cases "ed_NginxFragments d")
  case None
  with assms show ?thesis by (simp add: stage_texts_def trees_def)
next
  case (Some fr)
  let ?root = "fragments_root cfg" and ?v = "ds_Version d"
  obtain f1 r1 where s1: "stageFragmentDirectory env ?root ''http'' ?v (nf_HTTPBase fr) (nf_HTTPSites fr) fs = (f1, r1)" by force
  obtain f2 r2 where s2: "stageFragmentDirectory env ?root ''stream'' ?v (nf_StreamBase fr) (nf_StreamSites fr) f1 = (f2, r2)" by force
  from assms Some s1 s2 obtain h hn t tn where r: "r1 = Inr (h, hn)" "r2 = Inr (t, tn)" "fs' = f2"
      "created = (if hn then [h] else []) @ (if tn then [t] else [])"
    by (cases r1; cases r2) (auto simp: stage_texts_def stageNginxFragments_def Let_def split: option.splits)
  have d1: "differs_in (trees (if hn then [h] else [])) f1 fs \<and> (hn \<longrightarrow> ae_fragment_entries env h = Inr None)"
    using s1 r(1) stageFragmentDirectory_new [of env ?root "''http''" ?v _ _ fs f1 h] stageFragmentDirectory_old [OF s1]
    by (cases hn) (auto simp: trees_def)
  have d2: "differs_in (trees (if tn then [t] else [])) f2 f1 \<and> (tn \<longrightarrow> ae_fragment_entries env t = Inr None)"
    using s2 r(2) stageFragmentDirectory_new [of env ?root "''stream''" ?v _ _ f1 f2 t] stageFragmentDirectory_old [OF s2]
    by (cases tn) (auto simp: trees_def)
  from differs_trans [OF conjunct1 [OF d1] conjunct1 [OF d2]] d1 d2 show ?thesis
    by (auto simp: r trees_def split: if_splits)
qed

definition new_trees :: "apply_env \<Rightarrow> string set" where
  "new_trees env = (\<Union>d \<in> {d. ae_fragment_entries env d = Inr None}. tree d)"

lemma stage_texts_failed:
  assumes "stage_texts cfg env d fs = (fs', Inl e)"
  shows "fs' p = fs p \<or> p \<in> new_trees env \<and> fs' p = None"
proof (cases "ed_NginxFragments d")
  case None
  with assms show ?thesis by (simp add: stage_texts_def)
next
  case (Some fr)
  let ?root = "fragments_root cfg" and ?v = "ds_Version d"
  obtain f1 r1 where s1: "stageFragmentDirectory env ?root ''http'' ?v (nf_HTTPBase fr) (nf_HTTPSites fr) fs = (f1, r1)" by force
  obtain f2 r2 where s2: "stageFragmentDirectory env ?root ''stream'' ?v (nf_StreamBase fr) (nf_StreamSites fr) f1 = (f2, r2)" by force
  show ?thesis
  proof (cases "ae_mkdir_fragments env = None \<and> (\<exists>hp. r1 = Inr hp)")
    case False
    with assms Some s1 stageFragmentDirectory_old [OF s1] show ?thesis
      by (cases r1) (auto simp: stage_texts_def stageNginxFragments_def Let_def split: option.splits)
  next
    case True
    then obtain h hn where r1: "ae_mkdir_fragments env = None" "r1 = Inr (h, hn)" by force
    from assms Some s1 s2 r1 obtain e2 where r2: "r2 = Inl e2" "fs' = (if hn then remove_tree h f2 else f2)"
      by (cases r2) (auto simp: stage_texts_def stageNginxFragments_def Let_def)
    have f2: "f2 = f1" using stageFragmentDirectory_old [OF s2] r2 by simp
    show ?thesis
    proof (cases hn)
      case False
      with stageFragmentDirectory_old [OF s1] r1 f2 r2 show ?thesis by simp
    next
      case True
      with s1 r1 have "stageFragmentDirectory env ?root ''http'' ?v (nf_HTTPBase fr) (nf_HTTPSites fr) fs = (f1, Inr (h, True))"
        by simp
      from stageFragmentDirectory_new [OF this] True r2 f2 show ?thesis
        by (auto simp: new_trees_def remove_tree_def tree_def differs_in_def)
    qed
  qed
qed

lemma remove_trees_all:
  "\<forall>d. ae_restore env d \<Longrightarrow> remove_trees env dirs fs = (\<lambda>p. if p \<in> trees dirs then None else fs p)"
proof (induction dirs arbitrary: fs)
  case (Cons d dirs)
  then show ?case by (auto simp: remove_trees_def remove_tree_def trees_def tree_def fun_eq_iff)
qed (simp add: remove_trees_def trees_def)

subsection \<open>Pools\<close>

lemma check_pools_ok:
  "check_pools cfg nginx ids paths ps = Inr () \<Longrightarrow>
    (\<forall>p \<in> set ps. validateOriginPool cfg p = Inr ()) \<and> distinct (map op_ConfigPath ps) \<and> distinct (map op_ID ps)
    \<and> set (map op_ConfigPath ps) \<inter> set paths = {} \<and> set (map op_ID ps) \<inter> set ids = {}"
proof (induction ps arbitrary: ids paths)
  case (Cons p ps)
  from Cons.prems have p: "validateOriginPool cfg p = Inr ()" "op_ID p \<notin> set ids" "op_ConfigPath p \<notin> set paths"
      "check_pools cfg nginx (op_ID p # ids) (op_ConfigPath p # paths) ps = Inr ()"
    by (auto split: sum.splits if_splits)
  from Cons.IH [OF p(4)] p show ?case by auto
qed simp

lemma desired_pools_ok:
  "validateDesiredOriginPools cfg nginx ps = Inr () \<Longrightarrow>
    (\<forall>p \<in> set ps. validateOriginPool cfg p = Inr ()) \<and> distinct (map op_ConfigPath ps) \<and> distinct (map op_ID ps) \<and> length ps \<le> 256"
  using check_pools_ok [of cfg nginx "[]" "[]" ps] by (auto simp: validateDesiredOriginPools_def MaxOriginPools_def)

lemma Rollback_files:
  "backups_of fs0 (sg_backups s) \<Longrightarrow> \<forall>p. ok p \<Longrightarrow> \<not> sg_committed s \<Longrightarrow> \<not> sg_rolledBack s \<Longrightarrow>
    snd (Rollback ok s a) = a\<lparr>ea_Files := (\<lambda>p. if p \<in> fst ` set (sg_backups s) then fs0 p else ea_Files a p)\<rparr>"
  by (simp add: Rollback_def restore_all)

definition open_stage :: "files \<Rightarrow> origin_pool_stage \<Rightarrow> bool" where
  "open_stage fs0 s \<longleftrightarrow> backups_of fs0 (sg_backups s) \<and> \<not> sg_committed s \<and> \<not> sg_rolledBack s"

lemma stage_files_result:
  assumes "stage_files io ps s a = (a', r)" and "open_stage fs0 s"
    and "differs_in (fst ` set (sg_backups s)) (ea_Files a) fs0"
    and "distinct (map op_ConfigPath ps)" and "set (map op_ConfigPath ps) \<inter> fst ` set (sg_backups s) = {}"
    and "\<forall>p. si_restore io p"
  shows "ea_Pools a' = ea_Pools a \<and> ea_Loaded a' = ea_Loaded a
    \<and> (case r of Inl _ \<Rightarrow> ea_Files a' = fs0
       | Inr s' \<Rightarrow> open_stage fs0 s' \<and> sg_pending s' = sg_pending s \<and> sg_oldRuntimes s' = sg_oldRuntimes s
           \<and> fst ` set (sg_backups s') = fst ` set (sg_backups s) \<union> set (map op_ConfigPath ps)
           \<and> differs_in (fst ` set (sg_backups s')) (ea_Files a') fs0)"
  using assms
proof (induction ps arbitrary: s a)
  case (Cons p ps)
  let ?path = "op_ConfigPath p"
  have undo: "ea_Files (snd (Rollback (si_restore io) t b)) = fs0 \<and> ea_Pools (snd (Rollback (si_restore io) t b)) = ea_Pools b
      \<and> ea_Loaded (snd (Rollback (si_restore io) t b)) = ea_Loaded b"
    if "open_stage fs0 t" "differs_in (fst ` set (sg_backups t)) (ea_Files b) fs0" for t b
    using Rollback_files [of fs0 t "si_restore io" b] that Cons.prems(6)
    by (auto simp: open_stage_def differs_in_def fun_eq_iff)
  show ?case
  proof (cases "si_backup io ?path")
    case (Some e)
    with Cons.prems(1) have "a' = snd (Rollback (si_restore io) s a)" "\<exists>x. r = Inl x" by (auto simp: readBackup_def)
    with undo [OF Cons.prems(2,3)] show ?thesis by auto
  next
    case None
    have b: "readBackup None ?path (ea_Files a) = Inr (fs0 ?path)"
      using Cons.prems(3,5) by (simp add: readBackup_def differs_in_def)
    let ?s1 = "s\<lparr>sg_backups := sg_backups s @ [(?path, fs0 ?path)]\<rparr>"
    have open1: "open_stage fs0 ?s1" using Cons.prems(2) by (simp add: open_stage_def)
    obtain f1 r1 where w: "atomicWriteFile (si_write io ?path) ?path (originServerDirective p (circuit_of (sg_pending s) p)) (ea_Files a) = (f1, r1)"
      by force
    have d1: "differs_in (fst ` set (sg_backups ?s1)) f1 fs0"
      using differs_trans [OF Cons.prems(3) write_differs [OF w]] by simp
    show ?thesis
    proof (cases r1)
      case (Some e)
      with Cons.prems(1) None b w have "a' = snd (Rollback (si_restore io) ?s1 (a\<lparr>ea_Files := f1\<rparr>))" "\<exists>x. r = Inl x" by auto
      with undo [OF open1, of "a\<lparr>ea_Files := f1\<rparr>"] d1 show ?thesis by auto
    next
      case r1: None
      with Cons.prems(1) None b w have "stage_files io ps ?s1 (a\<lparr>ea_Files := f1\<rparr>) = (a', r)" by simp
      from Cons.IH [OF this open1] d1 Cons.prems(4,5,6) show ?thesis by (cases r) auto
    qed
  qed
next
  case Nil
  then show ?case by (auto simp: open_stage_def)
qed

lemma pool_path_not_runtime:
  "validateOriginPool cfg p = Inr () \<Longrightarrow> op_ConfigPath p \<noteq> originRuntimePath cfg"
proof
  assume "validateOriginPool cfg p = Inr ()" and same: "op_ConfigPath p = originRuntimePath cfg"
  then have "HasSuffix (op_ConfigPath p) ''.conf''" using pool_path_conf conf_suffix by metis
  with runtime_path_json [of cfg] same show False using suffixes_differ [of _ "''.conf''" "''.json''"] by simp
qed

lemma stageOriginPools_result:
  assumes "stageOriginPools cfg io ps a = (a', r)" and "validateDesiredOriginPools cfg nginx ps = Inr ()"
    and "\<forall>p. si_restore io p"
  shows "ea_Pools a' = ea_Pools a \<and> ea_Loaded a' = ea_Loaded a
    \<and> (case r of Inl _ \<Rightarrow> ea_Files a' = ea_Files a
       | Inr s \<Rightarrow> open_stage (ea_Files a) s \<and> sg_pending s = pending_runtimes (ea_Pools a) ps \<and> sg_oldRuntimes s = ea_Pools a
           \<and> fst ` set (sg_backups s) = insert (originRuntimePath cfg) (set (map op_ConfigPath ps))
           \<and> differs_in (fst ` set (sg_backups s)) (ea_Files a') (ea_Files a))"
proof (cases "si_backup io (originRuntimePath cfg)")
  case (Some e)
  with assms(1) show ?thesis by (auto simp: stageOriginPools_def readBackup_def)
next
  case None
  let ?s = "\<lparr>sg_pending = pending_runtimes (ea_Pools a) ps, sg_backups = [(originRuntimePath cfg, ea_Files a (originRuntimePath cfg))],
    sg_oldRuntimes = ea_Pools a, sg_committed = False, sg_rolledBack = False\<rparr>"
  from None assms(1) have st: "stage_files io ps ?s a = (a', r)" by (simp add: stageOriginPools_def readBackup_def Let_def)
  note ok = desired_pools_ok [OF assms(2)]
  have "originRuntimePath cfg \<notin> set (map op_ConfigPath ps)" using ok pool_path_not_runtime by fastforce
  then show ?thesis
    using stage_files_result [OF st, of "ea_Files a"] ok assms(3) by (cases r) (auto simp: open_stage_def)
qed

end
