(* ===== verification/Circuit_History.thy ===== *)
theory Circuit_History
  imports Origin_Stage
begin

section \<open>Circuits and the history of probes\<close>

text \<open>
  A reference definition of the circuit breaker that keeps no counters: it looks at the probe results
  so far, the latest first. A result is the layer and whether the probe succeeded.
\<close>

type_synonym history = "(origin_probe_kind \<times> bool) list"

text \<open>The failures of a layer since its last success.\<close>

fun failures_in_a_row :: "origin_probe_kind \<Rightarrow> history \<Rightarrow> nat" where
  "failures_in_a_row k [] = 0"
| "failures_in_a_row k ((k', ok) # h) =
     (if k' \<noteq> k then failures_in_a_row k h else if ok then 0 else Suc (failures_in_a_row k h))"

text \<open>The successes of a layer since the last failure of any layer.\<close>

fun successes_since_failure :: "origin_probe_kind \<Rightarrow> history \<Rightarrow> nat" where
  "successes_since_failure k [] = 0"
| "successes_since_failure k ((k', ok) # h) =
     (if \<not> ok then 0 else (if k' = k then 1 else 0) + successes_since_failure k h)"

definition layers_recovered :: "history \<Rightarrow> int \<Rightarrow> bool" where
  "layers_recovered h n \<longleftrightarrow> int (successes_since_failure OriginProbeService h) \<ge> n
     \<and> int (successes_since_failure OriginProbeCold h) \<ge> n"

fun admits :: "edge_config \<Rightarrow> history \<Rightarrow> bool" where
  "admits cfg [] = True"
| "admits cfg ((k, ok) # h) =
     (if admits cfg h
      then ok \<or> int (failures_in_a_row k ((k, ok) # h)) < ec_OriginProbeFailureThreshold cfg
      else ok \<and> layers_recovered ((k, ok) # h) (ec_OriginProbeRecoveryThreshold cfg))"

definition circuit_by_history :: "edge_config \<Rightarrow> history \<Rightarrow> origin_circuit_state" where
  "circuit_by_history cfg h =
     (if admits cfg h then OriginCircuitClosed
      else if layers_recovered h 1 then OriginCircuitRecovering else OriginCircuitOpen)"

definition run_circuit :: "edge_config \<Rightarrow> (origin_probe_kind \<times> bool) list \<Rightarrow> origin_pool_runtime \<Rightarrow> origin_pool_runtime" where
  "run_circuit cfg probes r = foldl (\<lambda>r (k, ok). circuit_step cfg k ok r) r probes"

subsection \<open>The counters are the history\<close>

definition thresholds_ok :: "edge_config \<Rightarrow> bool" where
  "thresholds_ok cfg \<longleftrightarrow> 1 \<le> ec_OriginProbeFailureThreshold cfg \<and> ec_OriginProbeFailureThreshold cfg \<le> 1000000
     \<and> 1 \<le> ec_OriginProbeRecoveryThreshold cfg \<and> ec_OriginProbeRecoveryThreshold cfg \<le> 1000000"

definition capped :: "nat \<Rightarrow> int" where
  "capped n = min 1000000 (int n)"

lemma increment_capped: "incrementProbeStreak (capped n) = capped (Suc n)"
  by (auto simp: incrementProbeStreak_def capped_def)

lemma capped_ge_iff: "t \<le> 1000000 \<Longrightarrow> t \<le> capped n \<longleftrightarrow> t \<le> int n"
  by (auto simp: capped_def)

lemma capped_simps [simp]: "capped 0 = 0"
  by (simp add: capped_def)

definition follows :: "edge_config \<Rightarrow> history \<Rightarrow> origin_pool_runtime \<Rightarrow> bool" where
  "follows cfg h r \<longleftrightarrow> rt_CircuitState r = circuit_by_history cfg h
     \<and> (\<forall>k. layer_failures k r = capped (failures_in_a_row k h))
     \<and> (\<not> admits cfg h \<longrightarrow> (\<forall>k. layer_successes k r = capped (successes_since_failure k h)))"

lemma all_kinds: "(\<forall>k. P k) \<longleftrightarrow> P OriginProbeService \<and> P OriginProbeCold"
  by (metis origin_probe_kind.exhaust)

lemma layers_mono: "layers_recovered h n \<Longrightarrow> m \<le> n \<Longrightarrow> layers_recovered h m"
  by (auto simp: layers_recovered_def)

lemma follows_step:
  assumes r: "follows cfg h r" and t: "thresholds_ok cfg"
  shows "follows cfg ((k, ok) # h) (circuit_step cfg k ok r)"
proof -
  note f = r [unfolded follows_def all_kinds]
  have ft: "ec_OriginProbeFailureThreshold cfg \<le> capped n \<longleftrightarrow> ec_OriginProbeFailureThreshold cfg \<le> int n" for n
    using t by (intro capped_ge_iff) (simp add: thresholds_ok_def)
  have rt: "ec_OriginProbeRecoveryThreshold cfg \<le> capped n \<longleftrightarrow> ec_OriginProbeRecoveryThreshold cfg \<le> int n" for n
    using t by (intro capped_ge_iff) (simp add: thresholds_ok_def)
  have one: "1 \<le> capped n \<longleftrightarrow> 1 \<le> int n" for n by (intro capped_ge_iff) simp
  show ?thesis
  proof (cases ok)
    case False
    with f ft show ?thesis
      by (cases k; cases "admits cfg h")
        (auto simp: follows_def all_kinds circuit_step_def circuit_by_history_def layers_recovered_def increment_capped Let_def)
  next
    case True
    show ?thesis
    proof (cases "admits cfg h")
      case True
      with \<open>ok\<close> f show ?thesis
        by (cases k) (auto simp: follows_def all_kinds circuit_step_def circuit_by_history_def Let_def)
    next
      case False
      have le: "1 \<le> ec_OriginProbeRecoveryThreshold cfg" using t by (simp add: thresholds_ok_def)
      with False \<open>ok\<close> f rt one show ?thesis
        by (cases k) (auto simp: follows_def all_kinds circuit_step_def circuit_by_history_def layers_recovered_def
          originProbeLayersSucceeded_def increment_capped Let_def)
    qed
  qed
qed

lemma follows_fresh: "follows cfg [] (fresh_runtime p)"
  by (simp add: follows_def all_kinds fresh_runtime_def circuit_by_history_def)

lemma follows_run: "thresholds_ok cfg \<Longrightarrow> follows cfg (rev probes) (run_circuit cfg probes (fresh_runtime p))"
proof (induction probes rule: rev_induct)
  case (snoc e probes)
  obtain k ok where "e = (k, ok)" by force
  with follows_step [of cfg "rev probes" _ k ok] snoc show ?case by (simp add: run_circuit_def)
qed (simp add: run_circuit_def follows_fresh)

text \<open>
  C34: After any sequence of probe results the circuit of a new pool is the one its history demands:
  it opens when a layer has failed the configured number of times in a row, it closes when each layer has
  succeeded the configured number of times since the last failure of either, and in between it is
  recovering as soon as each layer has succeeded once.
\<close>

theorem circuit_is_its_history:
  "thresholds_ok cfg \<Longrightarrow>
    rt_CircuitState (run_circuit cfg probes (fresh_runtime p)) = circuit_by_history cfg (rev probes)"
  using follows_run [of cfg probes p] by (simp add: follows_def)

definition sample_config :: edge_config where
  "sample_config = \<lparr>ec_StateDir = ''/var/lib/cdn'', ec_NginxConfigPath = ''/etc/cdn/http.conf'',
     ec_NginxStreamConfigPath = ''/etc/cdn/stream.conf'', ec_NginxMainConfigPath = ''/etc/cdn/main.conf'',
     ec_NginxEventsConfigPath = ''/etc/cdn/events.conf'', ec_CertificateDir = ''/etc/cdn/certs'', ec_OriginPoolConfigDirectory = ''/etc/cdn/pools'',
     ec_ListenerSettleTimeout = 5 * 1000000000, ec_ListenerPollInterval = 100 * 1000000,
     ec_OriginProbeInterval = 5 * 1000000000, ec_OriginColdProbeInterval = 40 * 1000000000,
     ec_OriginDegradedProbeInterval = 5 * 1000000000, ec_OriginDegradedColdInterval = 8 * 1000000000,
     ec_OriginProbeTimeout = 3 * 1000000000,
     ec_OriginProbeFailureThreshold = 2, ec_OriginProbeRecoveryThreshold = 2, ec_OriginProbeWorkers = 8\<rparr>"

definition sample_pool :: origin_pool where
  "sample_pool = \<lparr>op_ID = ''0123456789abcdef01234567'', op_Address = ''192.0.2.7:443'', op_Scheme = ''https'',
     op_HTTPVersion = ''http1'', op_HealthCheckMethod = ''HEAD'', op_HealthCheckPath = ''/'',
     op_HostHeader = ''origin.example'', op_TLSServerName = ''origin.example'',
     op_ConfigPath = ''/etc/cdn/pools/0123456789abcdef01234567.conf'', op_KeepaliveConnections = 16,
     op_References = [\<lparr>rf_SiteID = ''s1'', rf_Role = ''primary''\<rparr>]\<rparr>"

definition outage :: "(origin_probe_kind \<times> bool) list" where
  "outage = [(OriginProbeCold, False), (OriginProbeService, True), (OriginProbeCold, False), (OriginProbeService, True),
     (OriginProbeCold, True)]"

theorem circuit_is_its_history_witness:
  "rt_CircuitState (run_circuit sample_config outage (fresh_runtime sample_pool)) = OriginCircuitRecovering"
proof -
  have "thresholds_ok sample_config" by code_simp
  moreover have "circuit_by_history sample_config (rev outage) = OriginCircuitRecovering" by code_simp
  ultimately show ?thesis using circuit_is_its_history [of sample_config outage sample_pool] by simp
qed

end
