(* ===== verification/Origin_Tables.thy ===== *)
theory Origin_Tables
  imports Edge_Atomic Circuit_History
begin

section \<open>Tables of origin pools\<close>

text \<open>
  Facts on the map of runtimes: reading after writing, well-formed tables, and that steps of a circuit,
  staging and loading keep them well-formed.
\<close>

lemma lookup_put: "lookup_runtime j (put_runtime i r rs) = (if j = i then Some r else lookup_runtime j rs)"
  unfolding lookup_runtime_def by (induction i r rs rule: put_runtime.induct) auto

lemma fst_put: "fst ` set (put_runtime i r rs) = insert i (fst ` set rs)"
  by (induction i r rs rule: put_runtime.induct) auto

lemma distinct_put: "distinct (map fst rs) \<Longrightarrow> distinct (map fst (put_runtime i r rs))"
proof (induction i r rs rule: put_runtime.induct)
  case (2 i r x xs)
  then show ?case using fst_put [of i r xs] by (auto simp: image_iff)
qed simp

lemma put_new: "i \<notin> fst ` set rs \<Longrightarrow> put_runtime i r rs = rs @ [(i, r)]"
  by (induction i r rs rule: put_runtime.induct) auto

lemma length_put: "i \<in> fst ` set rs \<Longrightarrow> length (put_runtime i r rs) = length rs"
  by (induction i r rs rule: put_runtime.induct) auto

lemma lookup_iff: "distinct (map fst rs) \<Longrightarrow> lookup_runtime i rs = Some r \<longleftrightarrow> (i, r) \<in> set rs"
  by (simp add: lookup_runtime_def)

lemma lookup_key: "lookup_runtime i rs = Some r \<Longrightarrow> i \<in> fst ` set rs"
  by (auto simp: lookup_runtime_def dest: map_of_SomeD intro: rev_image_eqI)

subsection \<open>Well-formed tables\<close>

definition entry_ok :: "edge_config \<Rightarrow> string \<times> origin_pool_runtime \<Rightarrow> bool" where
  "entry_ok cfg x \<longleftrightarrow> op_ID (rt_Pool (snd x)) = fst x \<and> validateOriginPool cfg (rt_Pool (snd x)) = Inr ()
     \<and> known_circuit (rt_CircuitState (snd x)) \<and> valid_streaks (snd x)"

definition table_ok :: "edge_config \<Rightarrow> runtimes \<Rightarrow> bool" where
  "table_ok cfg rs \<longleftrightarrow> distinct (map fst rs) \<and> length rs \<le> 256 \<and> list_all (entry_ok cfg) rs"

lemma table_lookup: "table_ok cfg rs \<Longrightarrow> lookup_runtime i rs = Some r \<Longrightarrow> entry_ok cfg (i, r)"
  by (auto simp: table_ok_def lookup_iff list_all_iff)

lemma table_put:
  assumes "table_ok cfg rs" and "lookup_runtime i rs \<noteq> None" and "entry_ok cfg (i, r)"
  shows "table_ok cfg (put_runtime i r rs)"
proof -
  have "entry_ok cfg x" if "x \<in> set (put_runtime i r rs)" for x
  proof -
    obtain j q where x: "x = (j, q)" by force
    have d: "distinct (map fst (put_runtime i r rs))" using assms(1) by (simp add: table_ok_def distinct_put)
    with that x have "lookup_runtime j (put_runtime i r rs) = Some q" by (simp add: lookup_iff)
    with assms table_lookup show ?thesis by (auto simp: x lookup_put split: if_splits)
  qed
  with assms show ?thesis
    by (auto simp: table_ok_def distinct_put list_all_iff length_put lookup_key)
qed

subsection \<open>Streaks\<close>

lemma increment_valid: "validPersistedOriginStreak n \<Longrightarrow> validPersistedOriginStreak (incrementProbeStreak n)"
  by (auto simp: validPersistedOriginStreak_def incrementProbeStreak_def)

lemma zero_streak [simp]: "validPersistedOriginStreak 0"
  by (simp add: validPersistedOriginStreak_def)

lemma circuit_step_valid: "valid_streaks r \<Longrightarrow> valid_streaks (circuit_step cfg kind healthy r)"
  by (cases kind) (auto simp: circuit_step_def valid_streaks_def Let_def increment_valid)

lemma circuit_step_pool [simp]: "rt_Pool (circuit_step cfg kind healthy r) = rt_Pool r"
  by (cases kind) (auto simp: circuit_step_def Let_def)

lemma circuit_step_known: "known_circuit (rt_CircuitState r) \<Longrightarrow> known_circuit (rt_CircuitState (circuit_step cfg kind healthy r))"
  by (cases kind) (auto simp: circuit_step_def known_circuit_def Let_def)

subsection \<open>Staged tables\<close>

lemma pending_is_map:
  assumes "distinct (map op_ID ps)"
  shows "pending_runtimes old ps = map (\<lambda>p. (op_ID p, staged_runtime old p)) ps"
proof -
  have "fold (\<lambda>p. put_runtime (op_ID p) (staged_runtime old p)) ps rs = rs @ map (\<lambda>p. (op_ID p, staged_runtime old p)) ps"
    if "op_ID ` set ps \<inter> fst ` set rs = {}" "distinct (map op_ID ps)" for rs
    using that
  proof (induction ps arbitrary: rs)
    case (Cons p ps)
    from Cons.prems have "put_runtime (op_ID p) (staged_runtime old p) rs = rs @ [(op_ID p, staged_runtime old p)]"
      by (intro put_new) auto
    with Cons.IH [of "rs @ [(op_ID p, staged_runtime old p)]"] Cons.prems show ?case by auto
  qed simp
  from this [of "[]"] assms show ?thesis by (simp add: pending_runtimes_def)
qed

lemma staged_pool [simp]: "rt_Pool (staged_runtime old p) = p"
  by (simp add: staged_runtime_def fresh_runtime_def split: option.split)

lemma staged_streaks:
  "table_ok cfg old \<Longrightarrow> valid_streaks (staged_runtime old p) \<and> known_circuit (rt_CircuitState (staged_runtime old p))"
  by (auto simp: staged_runtime_def fresh_runtime_def valid_streaks_def known_circuit_def split: option.split
      dest!: table_lookup simp: entry_ok_def)

lemma staged_circuit:
  "rt_CircuitState (staged_runtime old p) =
    (case lookup_runtime (op_ID p) old of None \<Rightarrow> OriginCircuitClosed
     | Some r \<Rightarrow> if sameOriginTransport (rt_Pool r) p then rt_CircuitState r else OriginCircuitClosed)"
  by (simp add: staged_runtime_def fresh_runtime_def split: option.split)

lemma pending_ok:
  assumes "table_ok cfg old" and "validateDesiredOriginPools cfg nginx ps = Inr ()"
  shows "table_ok cfg (pending_runtimes old ps)"
proof -
  note ok = desired_pools_ok [OF assms(2)]
  then have "pending_runtimes old ps = map (\<lambda>p. (op_ID p, staged_runtime old p)) ps" by (simp add: pending_is_map)
  with ok staged_streaks [OF assms(1)] show ?thesis
    by (auto simp: table_ok_def list_all_iff entry_ok_def comp_def)
qed

lemma circuit_of_pending:
  assumes "distinct (map op_ID ps)" and "p \<in> set ps"
  shows "circuit_of (pending_runtimes old ps) p = rt_CircuitState (staged_runtime old p)"
proof -
  have "lookup_runtime (op_ID p) (pending_runtimes old ps) = Some (staged_runtime old p)"
    using assms by (auto simp: pending_is_map lookup_runtime_def comp_def distinct_map intro!: map_of_is_SomeI)
  then show ?thesis by (simp add: circuit_of_def)
qed

subsection \<open>Saved tables\<close>

definition circuits :: "runtimes \<Rightarrow> (origin_pool \<times> origin_circuit_state) list" where
  "circuits rs = map (\<lambda>x. (rt_Pool (snd x), rt_CircuitState (snd x))) (sort_key fst rs)"

text \<open>A state file from which the circuits of the table can be read back; the streaks in it may be older.\<close>

definition saves :: "edge_config \<Rightarrow> runtimes \<Rightarrow> file_content option \<Rightarrow> bool" where
  "saves cfg rs f = (case f of
       None \<Rightarrow> rs = []
     | Some (FileText _) \<Rightarrow> False
     | Some (FileOriginRuntime p) \<Rightarrow> pr_Version p = originRuntimeStateVersion
         \<and> map (\<lambda>x. (pp_Pool x, pp_CircuitState x)) (pr_Pools p) = circuits rs
         \<and> list_all (\<lambda>x. known_circuit (pp_CircuitState x) \<and> valid_streaks (loaded_runtime originRuntimeStateVersion x)) (pr_Pools p))"

lemma loaded_persisted:
  "loaded_runtime originRuntimeStateVersion (persisted_pool r) = r\<lparr>rt_Status := None\<rparr>"
  by (simp add: loaded_runtime_def persisted_pool_def originRuntimeStateVersion_def originRuntimeLegacyVersion_def)

lemma persist_saves:
  assumes "persistOriginRuntimes cfg r rs fs = (fs', None)" and "table_ok cfg rs"
  shows "saves cfg rs (fs' (originRuntimePath cfg))"
proof -
  have known: "known_circuit (rt_CircuitState (snd x))" and "valid_streaks (snd x)" if "x \<in> set rs" for x
    using assms(2) that by (auto simp: table_ok_def list_all_iff entry_ok_def)
  then have "valid_streaks ((snd x)\<lparr>rt_Status := None\<rparr>)" if "x \<in> set rs" for x
    using that by (simp add: valid_streaks_def)
  moreover from assms(1) have "fs' (originRuntimePath cfg) = Some (FileOriginRuntime \<lparr>pr_Version = originRuntimeStateVersion,
      pr_Pools = map (\<lambda>x. persisted_pool (snd x)) (sort_key fst rs)\<rparr>)"
    by (auto simp: persistOriginRuntimes_def atomicWriteFile_def split: option.splits)
  ultimately show ?thesis
    using known by (simp add: saves_def circuits_def list_all_iff loaded_persisted) (simp add: persisted_pool_def)
qed

text \<open>What a restart reads from such a file.\<close>

lemma load_pools_ok:
  assumes "distinct (map (\<lambda>x. op_ID (pp_Pool x)) xs)"
    and "\<forall>x \<in> set xs. validateOriginPool cfg (pp_Pool x) = Inr () \<and> known_circuit (pp_CircuitState x)
      \<and> valid_streaks (loaded_runtime v x)"
    and "\<forall>x \<in> set xs. op_ID (pp_Pool x) \<notin> fst ` set loaded"
  shows "load_pools cfg v xs loaded = Inr (loaded @ map (\<lambda>x. (op_ID (pp_Pool x), loaded_runtime v x)) xs)"
  using assms
proof (induction xs arbitrary: loaded)
  case (Cons x xs)
  have none: "lookup_runtime (op_ID (pp_Pool x)) loaded = None"
    using Cons.prems(3) by (metis lookup_key not_None_eq list.set_intros(1))
  have "load_pools cfg v xs (loaded @ [(op_ID (pp_Pool x), loaded_runtime v x)])
      = Inr ((loaded @ [(op_ID (pp_Pool x), loaded_runtime v x)]) @ map (\<lambda>x. (op_ID (pp_Pool x), loaded_runtime v x)) xs)"
    using Cons.prems by (intro Cons.IH) (auto simp: rev_image_eqI)
  with Cons.prems none show ?case by (simp add: put_new Let_def)
qed simp

lemma sort_by_key_again: "distinct (map fst rs) \<Longrightarrow> map fst ys = map fst (sort_key fst rs) \<Longrightarrow> sort_key fst ys = ys"
  by (metis sort_key_id_if_sorted sorted_sort_key)

lemma load_saved:
  assumes "saves cfg rs (ea_Files a (originRuntimePath cfg))" and "table_ok cfg rs" and "rs = [] \<Longrightarrow> ea_Pools a = []"
  shows "\<exists>loaded. loadOriginRuntime cfg None a = Inr (a\<lparr>ea_Pools := loaded\<rparr>)
    \<and> table_ok cfg loaded \<and> circuits loaded = circuits rs \<and> (\<forall>x \<in> set loaded. rt_Status (snd x) = None)"
proof (cases "ea_Files a (originRuntimePath cfg)")
  case None
  with assms have "rs = []" "ea_Pools a = []" by (auto simp: saves_def)
  with None assms(2) show ?thesis
    by (intro exI [of _ "[]"]) (simp add: loadOriginRuntime_def readBackup_def)
next
  case (Some f)
  with assms(1) obtain ps where f: "f = FileOriginRuntime ps" "pr_Version ps = originRuntimeStateVersion"
      "map (\<lambda>x. (pp_Pool x, pp_CircuitState x)) (pr_Pools ps) = circuits rs"
      "list_all (\<lambda>x. known_circuit (pp_CircuitState x) \<and> valid_streaks (loaded_runtime originRuntimeStateVersion x)) (pr_Pools ps)"
    by (auto simp: saves_def split: file_content.splits)
  let ?xs = "pr_Pools ps" and ?v = originRuntimeStateVersion
  let ?loaded = "map (\<lambda>x. (op_ID (pp_Pool x), loaded_runtime ?v x)) ?xs"
  have pools: "map pp_Pool ?xs = map (\<lambda>x. rt_Pool (snd x)) (sort_key fst rs)"
    using arg_cong [OF f(3), of "map fst"] by (simp add: circuits_def comp_def)
  have ids: "map (\<lambda>x. op_ID (pp_Pool x)) ?xs = map fst (sort_key fst rs)"
  proof -
    have "map (\<lambda>x. op_ID (pp_Pool x)) ?xs = map op_ID (map pp_Pool ?xs)" by simp
    also have "\<dots> = map (\<lambda>x. op_ID (rt_Pool (snd x))) (sort_key fst rs)" by (simp add: pools)
    also have "\<dots> = map fst (sort_key fst rs)"
      using assms(2) by (auto simp: table_ok_def list_all_iff entry_ok_def)
    finally show ?thesis .
  qed
  have len: "length ?xs = length rs" using arg_cong [OF f(3), of length] by (simp add: circuits_def)
  have valid: "validateOriginPool cfg (pp_Pool x) = Inr ()" if "x \<in> set ?xs" for x
  proof -
    from that have "pp_Pool x \<in> set (map pp_Pool ?xs)" by simp
    then have "pp_Pool x \<in> (\<lambda>x. rt_Pool (snd x)) ` set rs" by (simp only: pools) simp
    with assms(2) show ?thesis by (auto simp: table_ok_def list_all_iff entry_ok_def)
  qed
  have d: "distinct (map (\<lambda>x. op_ID (pp_Pool x)) ?xs)"
    using assms(2) by (simp add: ids table_ok_def distinct_map)
  have load: "load_pools cfg ?v ?xs [] = Inr ?loaded"
    using load_pools_ok [of ?xs cfg ?v "[]"] d valid f(4) by (simp add: list_all_iff)
  have "int (length ?xs) \<le> MaxOriginPools" using assms(2) len by (simp add: table_ok_def MaxOriginPools_def)
  with load Some f have l: "loadOriginRuntime cfg None a = Inr (a\<lparr>ea_Pools := ?loaded\<rparr>)"
    by (simp add: loadOriginRuntime_def readBackup_def)
  have "table_ok cfg ?loaded"
    using d len assms(2) valid f(4) by (auto simp: table_ok_def list_all_iff entry_ok_def comp_def loaded_runtime_def)
  moreover have "sort_key fst ?loaded = ?loaded"
    by (rule sort_by_key_again [of rs]) (use assms(2) ids in \<open>simp_all add: table_ok_def comp_def\<close>)
  then have "circuits ?loaded = circuits rs"
    by (simp add: circuits_def f(3) [symmetric, unfolded circuits_def] comp_def loaded_runtime_def)
  ultimately show ?thesis using l by (intro exI [of _ ?loaded]) (auto simp: loaded_runtime_def)
qed

end
