(* ===== verification/Edge_Properties.thy ===== *)
theory Edge_Properties
  imports Edge_Atomic Circuit_History
begin

section \<open>What an apply guarantees\<close>

subsection \<open>A failed apply\<close>

lemma activate_failed:
  assumes "activate cfg env v ports udp stage a = (a', Some f)"
  shows "ea_Pools a' = ea_Pools a \<and> differs_in {originRuntimePath cfg} (ea_Files a') (ea_Files a)"
proof (cases "ae_layout env = None \<and> ae_test env = None \<and> fst (ae_apply env) = None \<and> check_listeners cfg env ports udp = None")
  case False
  with assms show ?thesis by (auto simp: activate_def runner_apply_def Let_def split: option.splits)
next
  case True
  let ?a1 = "runner_apply (ae_apply env) a"
  have a1: "ea_Files ?a1 = ea_Files a" "ea_Pools ?a1 = ea_Pools a" by (auto simp: runner_apply_def)
  obtain a2 r where p: "Persist cfg (ae_persist env) stage ?a1 = (a2, r)" by force
  then have a2: "ea_Pools a2 = ea_Pools a" "differs_in {originRuntimePath cfg} (ea_Files a2) (ea_Files a)"
    using a1 by (auto simp: Persist_def persistOriginRuntimes_def dest: write_differs split: prod.splits)
  from True assms p a2 show ?thesis
    by (cases r) (auto simp: activate_def Let_def dest!: failed_write split: prod.splits option.splits)
qed

lemma put_back_files:
  assumes "backups_of fs0 certs" and "backups_of fs0 configs" and "open_stage fs1 stage" and "\<forall>p. ae_restore env p"
  shows "ea_Pools (put_back env certs stage configs a) = ea_Pools a
    \<and> ea_Files (put_back env certs stage configs a) =
      (\<lambda>p. if p \<in> fst ` set configs then fs0 p
        else if p \<in> fst ` set (sg_backups stage) then fs1 p
        else if p \<in> fst ` set certs then fs0 p else ea_Files a p)
    \<and> (ae_retest env = None \<and> fst (ae_reapply env) = None \<longrightarrow>
        ea_Loaded (put_back env certs stage configs a) = ea_Files (put_back env certs stage configs a))"
  using assms Rollback_files [of fs1 stage "ae_restore env"]
  by (simp add: put_back_def Let_def open_stage_def restore_all runner_apply_def fun_eq_iff)

lemma certificate_keys_suffix: "p \<in> certificate_keys cfg env d \<Longrightarrow> HasSuffix p ''.crt'' \<or> HasSuffix p ''.key''"
proof -
  have "HasSuffix (certificate_path cfg i) ''.crt''" for i
    unfolding certificate_path_def by (rule Join_suffix) (auto simp: plain_suffix_def HasSuffix_iff)
  moreover have "HasSuffix (private_key_path cfg i) ''.key''" for i
    unfolding private_key_path_def by (rule Join_suffix) (auto simp: plain_suffix_def HasSuffix_iff)
  moreover have "HasSuffix (Join_path dir n) x" if "Ext n = x" "x = ''.crt'' \<or> x = ''.key''" for n x dir
    using that Ext_suffix [of n x] by (auto simp: plain_suffix_def intro!: Join_suffix)
  ultimately show "p \<in> certificate_keys cfg env d \<Longrightarrow> ?thesis"
    by (auto simp: certificate_keys_def desired_certificate_paths_def stale_certificate_paths_def
        managedSiteCertificateName_def split: sum.splits)
qed

lemma keys_disjoint:
  assumes "\<forall>p \<in> set ps. validateOriginPool cfg p = Inr ()"
  shows "certificate_keys cfg env d \<inter> insert (originRuntimePath cfg) (set (map op_ConfigPath ps)) = {}"
proof -
  have "HasSuffix q ''.json'' \<or> HasSuffix q ''.conf''" if "q \<in> insert (originRuntimePath cfg) (set (map op_ConfigPath ps))" for q
    using that assms runtime_path_json pool_path_conf conf_suffix by (auto simp: image_iff)
  moreover have "False" if "HasSuffix q x" "HasSuffix q y" "x \<in> {''.crt'', ''.key''}" "y \<in> {''.json'', ''.conf''}" for q x y
    using that suffixes_differ [OF that(1,2)] by auto
  ultimately have "False" if "q \<in> certificate_keys cfg env d" "q \<in> insert (originRuntimePath cfg) (set (map op_ConfigPath ps))" for q
    using certificate_keys_suffix [OF that(1)] that(2) by (metis insertI1 insertI2)
  then show ?thesis by blast
qed

text \<open>The calls that undo work: files can be written back, nginx accepts and loads the old configuration.\<close>

definition undo_works :: "apply_env \<Rightarrow> files \<Rightarrow> bool" where
  "undo_works env fs \<longleftrightarrow> (\<forall>p. ae_restore env p) \<and> ae_retest env = None \<and> fst (ae_reapply env) = None
     \<and> true_listings env fs"

text \<open>The files are as they were, and nginx has loaded what it had before or these files.\<close>

definition undone :: "edge_agent \<Rightarrow> edge_agent \<Rightarrow> bool" where
  "undone a a' \<longleftrightarrow> ea_Files a' = ea_Files a \<and> ea_Pools a' = ea_Pools a
     \<and> (ea_Loaded a' = ea_Loaded a \<or> (\<forall>p. ea_Files a p \<noteq> None \<longrightarrow> ea_Loaded a' p = ea_Files a p))"

lemma write_configs_differs:
  "write_configs env cs fs = (fs', r) \<Longrightarrow> differs_in (fst ` set cs) fs' fs"
proof (induction cs arbitrary: fs)
  case (Cons c cs)
  obtain path content msg where c: "c = (path, content, msg)" by (cases c) auto
  obtain f1 r1 where w: "atomicWriteFile (ae_write env path) path (FileText content) fs = (f1, r1)" by force
  show ?case
  proof (cases r1)
    case None
    with Cons.prems w c have "differs_in (fst ` set cs) fs' f1" by (auto intro: Cons.IH)
    with differs_trans [OF write_differs [OF w] this] c show ?thesis by simp
  next
    case (Some e)
    with Cons.prems w c write_differs [OF w] show ?thesis by (auto intro: differs_mono)
  qed
qed simp

lemma configs_to_write_paths: "fst ` set (configs_to_write cfg d http stream) \<subseteq> set (config_paths cfg)"
  by (auto simp: configs_to_write_def config_paths_def)

lemma apply_staged_failed:
  assumes run: "apply_staged cfg env d ports udp configs certs active a = (a', Inl f)"
    and works: "\<forall>p. ae_restore env p" "ae_retest env = None" "fst (ae_reapply env) = None"
    and pools: "validateDesiredOriginPools cfg (ds_NginxConfig d) (ed_OriginPools d) = Inr ()"
    and certs: "backups_of fs0 certs" "fst ` set certs = certificate_keys cfg env d"
    and configs: "backups_of fs0 configs"
    and before: "differs_in (fst ` set configs \<union> fst ` set certs \<union> T) (ea_Files a) fs0"
  shows "ea_Pools a' = ea_Pools a \<and> differs_in T (ea_Files a') fs0
    \<and> (ea_Loaded a' = ea_Loaded a \<or> ea_Loaded a' = ea_Files a')"
proof -
  let ?io = "\<lparr>si_backup = ae_backup env, si_write = ae_write env, si_restore = ae_restore env\<rparr>"
  obtain a1 r where s: "stageOriginPools cfg ?io (ed_OriginPools d) a = (a1, r)" by force
  have r: "ea_Pools a1 = ea_Pools a \<and> ea_Loaded a1 = ea_Loaded a
    \<and> (case r of Inl _ \<Rightarrow> ea_Files a1 = ea_Files a
       | Inr s \<Rightarrow> open_stage (ea_Files a) s \<and> sg_pending s = pending_runtimes (ea_Pools a) (ed_OriginPools d)
           \<and> sg_oldRuntimes s = ea_Pools a
           \<and> fst ` set (sg_backups s) = insert (originRuntimePath cfg) (set (map op_ConfigPath (ed_OriginPools d)))
           \<and> differs_in (fst ` set (sg_backups s)) (ea_Files a1) (ea_Files a))"
    using stageOriginPools_result [OF s pools] works(1) by simp
  show ?thesis
  proof (cases r)
    case (Inl e)
    with run s have "a' = a1\<lparr>ea_Files := restoreConfigurationFiles (ae_restore env) configs
        (restoreConfigurationFiles (ae_restore env) certs (ea_Files a1))\<rparr>" by (simp add: apply_staged_def)
    with r Inl before show ?thesis
      by (auto simp: restore_all [OF certs(1) works(1)] restore_all [OF configs works(1)] differs_in_def)
  next
    case (Inr stage)
    obtain a2 r2 where act: "activate cfg env (ds_Version d) ports udp stage a1 = (a2, r2)" by force
    from run s Inr act have r2: "r2 = Some f" "a' = put_back env certs stage configs a2"
      by (auto simp: apply_staged_def split: option.splits prod.splits)
    note act = activate_failed [OF act [unfolded r2]]
    have stage: "open_stage (ea_Files a) stage" using r Inr by simp
    note files = put_back_files [OF certs(1) configs stage works(1), of a2]
    have disjoint: "fst ` set certs \<inter> fst ` set (sg_backups stage) = {}"
      using keys_disjoint [of "ed_OriginPools d" cfg env d] desired_pools_ok [OF pools] certs(2) r Inr by simp
    have "differs_in T (ea_Files a') fs0"
      using files act r Inr before disjoint by (auto simp: r2 differs_in_def split: if_splits)
    with files act r works show ?thesis by (simp add: r2)
  qed
qed

lemma apply_written_failed:
  assumes run: "apply_written cfg env d ports udp configs certs a = (a', Inl f)"
    and works: "undo_works env fs0"
    and pools: "validateDesiredOriginPools cfg (ds_NginxConfig d) (ed_OriginPools d) = Inr ()"
    and certs: "backups_of fs0 certs" "fst ` set certs = certificate_keys cfg env d"
    and configs: "backups_of fs0 configs" "set (config_paths cfg) \<subseteq> fst ` set configs"
    and before: "differs_in (fst ` set certs) (ea_Files a) fs0"
  shows "ea_Files a' = fs0 \<and> ea_Pools a' = ea_Pools a
    \<and> (ea_Loaded a' = ea_Loaded a \<or> (\<forall>p. fs0 p \<noteq> None \<longrightarrow> ea_Loaded a' p = fs0 p))"
proof -
  have none: "fs0 p = None" if "p \<in> new_trees env" for p
    using works that by (auto simp: undo_works_def true_listings_def new_trees_def)
  have restore: "\<forall>p. ae_restore env p" and again: "ae_retest env = None" "fst (ae_reapply env) = None"
    using works by (auto simp: undo_works_def)
  obtain fs r where st: "stage_texts cfg env d (ea_Files a) = (fs, r)" by force
  show ?thesis
  proof (cases r)
    case (Inl e)
    with run st have a': "a' = a\<lparr>ea_Files := restoreConfigurationFiles (ae_restore env) certs fs\<rparr>" by (simp add: apply_written_def)
    have "restoreConfigurationFiles (ae_restore env) certs fs = fs0"
      using stage_texts_failed [OF st [unfolded Inl]] before none
      by (auto simp: restore_all [OF certs(1) restore] differs_in_def fun_eq_iff) metis
    with a' show ?thesis by simp
  next
    case (Inr texts)
    obtain http stream active created where texts: "texts = (http, stream, active, created)" by (cases texts) auto
    note new = stage_texts_done [OF st [unfolded Inr texts]]
    have T: "fs0 p = None" if "p \<in> trees created" for p
      using that new none by (auto simp: trees_def new_trees_def)
    obtain f1 r1 where w: "write_configs env (configs_to_write cfg d http stream) fs = (f1, r1)" by force
    have f1: "differs_in (fst ` set configs \<union> fst ` set certs \<union> trees created) f1 fs0"
      by (rule differs_mono [OF differs_trans [OF differs_trans [OF before conjunct1 [OF new]] write_configs_differs [OF w]]])
        (use configs_to_write_paths [of cfg d http stream] configs(2) in blast)
    define res where "res = (case r1 of
        Some e \<Rightarrow> (a\<lparr>ea_Files := restoreConfigurationFiles (ae_restore env) configs
          (restoreConfigurationFiles (ae_restore env) certs f1)\<rparr>, Inl (''config_write_failed'', e, []))
      | None \<Rightarrow> apply_staged cfg env d ports udp configs certs active (a\<lparr>ea_Files := f1\<rparr>))"
    from run st Inr texts w have split: "(case res of (a1, Inl f) \<Rightarrow> (a1\<lparr>ea_Files := remove_trees env created (ea_Files a1)\<rparr>, Inl f)
        | (a1, Inr report) \<Rightarrow> (a1, Inr report)) = (a', Inl f)"
      by (simp add: apply_written_def res_def split: option.splits)
    then obtain a1 where res: "res = (a1, Inl f)" and a': "a' = a1\<lparr>ea_Files := remove_trees env created (ea_Files a1)\<rparr>"
      by (cases res; cases "snd res") auto
    have a1: "ea_Pools a1 = ea_Pools a \<and> differs_in (trees created) (ea_Files a1) fs0
        \<and> (ea_Loaded a1 = ea_Loaded a \<or> ea_Loaded a1 = ea_Files a1)"
    proof (cases r1)
      case (Some e)
      with res f1 show ?thesis
        by (auto simp: res_def restore_all [OF certs(1) restore] restore_all [OF configs(1) restore] differs_in_def)
    next
      case None
      with res have "apply_staged cfg env d ports udp configs certs active (a\<lparr>ea_Files := f1\<rparr>) = (a1, Inl f)"
        by (simp add: res_def)
      from apply_staged_failed [OF this restore again pools certs configs(1)] f1 show ?thesis by simp
    qed
    have "ea_Files a' = fs0"
      using a1 T by (auto simp: a' remove_trees_all [OF restore] differs_in_def fun_eq_iff)
    moreover have "ea_Loaded a' = ea_Loaded a \<or> (\<forall>p. fs0 p \<noteq> None \<longrightarrow> ea_Loaded a' p = fs0 p)"
    proof -
      have "ea_Files a1 p = fs0 p" if "fs0 p \<noteq> None" for p
      proof -
        have "p \<notin> trees created" using that T by metis
        with a1 show ?thesis by (simp add: differs_in_def)
      qed
      then show ?thesis using a1 by (auto simp: a')
    qed
    ultimately show ?thesis using a1 by (simp add: a')
  qed
qed

lemma check_desired_pools:
  "check_desired cfg env d = Inr pu \<Longrightarrow> validateDesiredOriginPools cfg (ds_NginxConfig d) (ed_OriginPools d) = Inr ()"
  by (cases "validateDesiredOriginPools cfg (ds_NginxConfig d) (ed_OriginPools d)")
    (auto simp: check_desired_def split: sum.splits option.splits)

lemma preflight_backups:
  assumes "preflight cfg env ports udp fs = Inr configs"
  shows "backups_of fs configs \<and> set (config_paths cfg) \<subseteq> fst ` set configs"
proof -
  from assms have "config_backups cfg env fs = Inr configs"
    by (auto simp: preflight_def Let_def split: option.splits sum.splits if_splits)
  then show ?thesis by (rule config_backups_of)
qed

lemma applyFailed_parts:
  "applyFailed env v f a = (a', e) \<Longrightarrow> ea_Files a' = ea_Files a \<and> ea_Pools a' = ea_Pools a \<and> ea_Loaded a' = ea_Loaded a
    \<and> (\<exists>r. ea_ApplyReport a' = Some r \<and> ar_Version r = v \<and> ar_Status r = ApplyFailed)"
  by (cases f) (auto simp: applyFailed_def setApplyReport_def)

lemma apply_undone:
  assumes run: "applyLocked cfg env d a = (a', Some e)" and works: "undo_works env (ea_Files a)"
  shows "undone a a' \<and> (\<exists>r. ea_ApplyReport a' = Some r \<and> ar_Version r = ds_Version d \<and> ar_Status r = ApplyFailed)"
proof (cases "check_desired cfg env d")
  case (Inl e')
  with run applyFailed_parts show ?thesis by (fastforce simp: applyLocked_def undone_def)
next
  case (Inr pu)
  obtain ports udp where pu: "pu = (ports, udp)" by force
  show ?thesis
  proof (cases "preflight cfg env ports udp (ea_Files a)")
    case (Inl f)
    with run Inr pu applyFailed_parts show ?thesis by (fastforce simp: applyLocked_def undone_def)
  next
    case pre: (Inr configs)
    obtain fs r where cs: "stageCertificates cfg env (ed_Certificates d) (ea_Files a) = (fs, r)" by force
    show ?thesis
    proof (cases r)
      case (Inl ce)
      obtain code e' where ce: "ce = (code, e')" by force
      have "fs = ea_Files a" using stageCertificates_failed [OF cs [unfolded Inl]] works by (simp add: undo_works_def)
      moreover from run Inr pu pre cs Inl ce have "applyFailed env (ds_Version d) (code, e', []) (a\<lparr>ea_Files := fs\<rparr>) = (a', Some e)"
        by (simp add: applyLocked_def)
      note applyFailed_parts [OF this]
      ultimately show ?thesis by (simp add: undone_def)
    next
      case certs: (Inr certs)
      note c = stageCertificates_done [OF cs [unfolded certs]]
      obtain a1 r1 where aw: "apply_written cfg env d ports udp configs certs (a\<lparr>ea_Files := fs\<rparr>) = (a1, r1)" by force
      from run Inr pu pre cs certs aw obtain f where f: "r1 = Inl f" "applyFailed env (ds_Version d) f a1 = (a', Some e)"
        by (cases r1) (auto simp: applyLocked_def)
      note w = apply_written_failed [OF aw [unfolded f] works check_desired_pools [OF Inr] conjunct1 [OF c]]
      from w c preflight_backups [OF pre] applyFailed_parts [OF f(2)] show ?thesis by (simp add: undone_def)
    qed
  qed
qed

text \<open>
  C27: Applying a desired state is all or nothing: when it fails at any point, and the files can be
  written back and nginx loads the old configuration, then every file of the node is as it was, nginx
  serves what it served, the circuits are kept, and the report of the failure names the version.
\<close>

theorem failed_apply_is_undone:
  assumes "applyLocked cfg env d a = (a', Some e)" and "undo_works env (ea_Files a)"
  shows "undone a a' \<and> (\<exists>r. ea_ApplyReport a' = Some r \<and> ar_Version r = ds_Version d \<and> ar_Status r = ApplyFailed)"
  using assms by (rule apply_undone)

text \<open>A node on which nginx refuses the new configuration after a pool, a certificate and the texts were written.\<close>

definition sample_env :: apply_env where
  "sample_env = \<lparr>ae_error_text = (\<lambda>e. ''nginx: configuration file test failed''), ae_uuid = (\<lambda>s. length s = 36),
     ae_digest = (\<lambda>base fr. ''0123456789ab''), ae_warmups = None, ae_static_sync = None, ae_backup = (\<lambda>p. None),
     ae_glob = (\<lambda>p. Inr []), ae_listeners = Inr [], ae_udp_listeners = Inr [], ae_mkdir_certs = None,
     ae_cert_entries = Inr [], ae_write = (\<lambda>p. None), ae_remove = (\<lambda>p. None), ae_restore = (\<lambda>p. True),
     ae_mkdir_fragments = None, ae_fragment_entries = (\<lambda>p. Inr (Some [])), ae_fragment_temp = (\<lambda>p. None),
     ae_rename = (\<lambda>p. None), ae_fragment_entries_again = (\<lambda>p. Inr (Some [])), ae_layout = None,
     ae_test = Some (err ''nginx -t failed''), ae_apply = (None, True), ae_retest = None, ae_reapply = (None, True),
     ae_failed_listeners = Inr [], ae_failed_udp_listeners = Inr [], ae_polled_listeners = (\<lambda>n. Inr []), ae_poll_time = (\<lambda>n. 0),
     ae_polled_udp_listeners = (\<lambda>n. Inr []), ae_udp_poll_time = (\<lambda>n. 0), ae_now = 0, ae_udp_now = 0,
     ae_layout_cleanup = None, ae_warmup_detail = [], ae_warmup_error = None, ae_persist = None,
     ae_remove_stale = (\<lambda>p. True), ae_static_cleanup = None, ae_fragment_root = Inr []\<rparr>"

definition sample_desired :: edge_desired_state where
  "sample_desired = \<lparr>ds_Version = 7, ds_NginxConfig = ''include /etc/cdn/pools/0123456789abcdef01234567.conf;'',
     ds_PublicPorts = Some [443, 80], ds_CacheMaxBytes = 0, ed_NginxStreamConfig = [], ed_NginxMainConfig = ''main'', ed_NginxEventsConfig = [],
     ed_NginxFragments = None, ed_PublicUDPPorts = [443], ed_OriginPools = [sample_pool],
     ed_Certificates = [(''s1'', \<lparr>tb_CertificatePEM = ''cert'', tb_PrivateKeyPEM = ''key''\<rparr>)]\<rparr>"

definition sample_agent :: edge_agent where
  "sample_agent = \<lparr>ea_Pools = [], ea_Files = (\<lambda>p. if p = ''/etc/cdn/http.conf'' then Some (FileText ''old'') else None),
     ea_Loaded = (\<lambda>p. if p = ''/etc/cdn/http.conf'' then Some (FileText ''old'') else None), ea_ApplyReport = None, ea_ApplyReportSeq = 0\<rparr>"

theorem failed_apply_is_undone_witness:
  "ea_Files (fst (applyLocked sample_config sample_env sample_desired sample_agent)) = ea_Files sample_agent"
proof -
  have "snd (applyLocked sample_config sample_env sample_desired sample_agent) = Some (err ''nginx -t failed'')" by code_simp
  then obtain a' where "applyLocked sample_config sample_env sample_desired sample_agent = (a', Some (err ''nginx -t failed''))"
    by (metis prod.collapse)
  moreover have "undo_works sample_env (ea_Files sample_agent)"
    by (simp add: undo_works_def true_listings_def sample_env_def)
  ultimately show ?thesis
    using failed_apply_is_undone [of sample_config sample_env sample_desired sample_agent] by (simp add: undone_def)
qed

subsection \<open>Waiting for the listeners\<close>

text \<open>A poll that does not end the wait, and the answer a poll gives.\<close>

definition undecided :: "(nat \<Rightarrow> port_conflict list result) \<Rightarrow> int list \<Rightarrow> nat \<Rightarrow> bool" where
  "undecided answers ports k \<longleftrightarrow> (\<exists>ls. answers k = Inr ls \<and> \<not> settled ls ports)"

lemma poll_ends:
  assumes "deadline - now \<le> int m * poll_interval cfg"
  shows "\<exists>k \<le> m. poll_listeners cfg answers spent ports deadline n now = answers (n + k)
    \<and> (\<forall>j < k. undecided answers ports (n + j))"
  using assms
proof (induction m arbitrary: n now)
  case 0
  then have "poll_listeners cfg answers spent ports deadline n now = answers n"
    by (subst poll_listeners.simps) (auto simp: Let_def split: sum.splits)
  then show ?case by auto
next
  case (Suc m)
  show ?case
  proof (cases "undecided answers ports n \<and> 0 < deadline - (now + int (spent n))")
    case False
    then have "poll_listeners cfg answers spent ports deadline n now = answers n"
      by (subst poll_listeners.simps) (auto simp: Let_def undecided_def split: sum.splits)
    then show ?thesis by auto
  next
    case True
    let ?now = "now + int (spent n) + min (poll_interval cfg) (deadline - (now + int (spent n)))"
    have eq: "poll_listeners cfg answers spent ports deadline n now
        = poll_listeners cfg answers spent ports deadline (Suc n) ?now"
      using True by (subst poll_listeners.simps) (auto simp: Let_def undecided_def)
    have "deadline - ?now \<le> int m * poll_interval cfg"
      using Suc.prems poll_interval_pos [of cfg] by (auto simp: min_def algebra_simps)
    from Suc.IH [OF this, of "Suc n"] obtain k where k: "k \<le> m"
      "poll_listeners cfg answers spent ports deadline (Suc n) ?now = answers (Suc n + k)"
      "\<forall>j < k. undecided answers ports (Suc n + j)" by blast
    have "\<forall>j < Suc k. undecided answers ports (n + j)"
    proof (intro allI impI)
      fix j assume "j < Suc k"
      with True k(3) show "undecided answers ports (n + j)" by (cases j) auto
    qed
    with eq k show ?thesis by (intro exI [of _ "Suc k"]) auto
  qed
qed

text \<open>
  Waiting for the listeners ends, whatever nginx does and however long each look takes: after at most
  as many polls as poll intervals fit into the settle time, and one more, with the answer of the
  last poll, and every poll before it had found neither a foreign listener nor all ports served.
\<close>

theorem waiting_for_listeners_ends:
  "\<exists>k. int k \<le> settle_timeout cfg div poll_interval cfg + 1
    \<and> waitForNginxListeners cfg answers spent ports now = answers k
    \<and> list_all (undecided answers ports) [0 ..< k]"
proof -
  let ?q = "settle_timeout cfg div poll_interval cfg"
  have pos: "0 \<le> ?q" using poll_interval_pos [of cfg] by (simp add: settle_timeout_def pos_imp_zdiv_nonneg_iff)
  have "settle_timeout cfg < poll_interval cfg * ?q + poll_interval cfg"
    using pos_mod_bound [OF poll_interval_pos [of cfg], of "settle_timeout cfg"]
      mult_div_mod_eq [of "poll_interval cfg" "settle_timeout cfg"] by linarith
  then have "settle_timeout cfg \<le> (?q + 1) * poll_interval cfg" by (simp add: algebra_simps)
  with pos have le: "(now + settle_timeout cfg) - now \<le> int (nat (?q + 1)) * poll_interval cfg" by simp
  from poll_ends [OF le, of answers spent ports 0] obtain k where k: "k \<le> nat (?q + 1)"
      "waitForNginxListeners cfg answers spent ports now = answers k" "\<forall>j < k. undecided answers ports j"
    by (auto simp: waitForNginxListeners_def)
  from k(1) pos have "int k \<le> ?q + 1" by linarith
  with k(2,3) show ?thesis by (auto simp: list_all_iff)
qed

end
