(* ===== verification/Edge_Agreement.thy ===== *)
theory Edge_Agreement
  imports Origin_Tables Edge_Properties
begin

section \<open>Circuits, files and nginx agree\<close>

text \<open>
  The circuit of a pool lives in four places: in memory, in the file that nginx includes, in what nginx
  has loaded and in the state file. Probe results, applies and restarts keep them in agreement.
\<close>

definition serves :: "runtimes \<Rightarrow> files \<Rightarrow> bool" where
  "serves rs fs \<longleftrightarrow> list_all (\<lambda>x. fs (op_ConfigPath (rt_Pool (snd x))) =
     Some (originServerDirective (rt_Pool (snd x)) (rt_CircuitState (snd x)))) rs"

definition agreed :: "edge_config \<Rightarrow> edge_agent \<Rightarrow> bool" where
  "agreed cfg a \<longleftrightarrow> table_ok cfg (ea_Pools a) \<and> serves (ea_Pools a) (ea_Files a) \<and> serves (ea_Pools a) (ea_Loaded a)
     \<and> saves cfg (ea_Pools a) (ea_Files a (originRuntimePath cfg))"

subsection \<open>Paths\<close>

lemma suffix_rev: "HasSuffix p x \<Longrightarrow> take (length x) (rev p) = rev x"
  by (auto simp: HasSuffix_iff)

lemma lowerHex_no_slash: "lowerHex i \<Longrightarrow> CHR ''/'' \<notin> set i"
  by (auto simp: lowerHex_def list_all_iff is_digit_def byte_of_def)

lemma pool_path_inj:
  assumes p: "validateOriginPool cfg p = Inr ()" and q: "validateOriginPool cfg q = Inr ()"
    and same: "op_ConfigPath p = op_ConfigPath q"
  shows "op_ID p = op_ID q"
proof -
  have *: "HasSuffix (op_ConfigPath r) (op_ID r @ ''.conf'') \<and> length (op_ID r) = 24" if "validateOriginPool cfg r = Inr ()" for r
  proof -
    from that have id: "length (op_ID r) = 24" "lowerHex (op_ID r)"
      by (auto simp: validateOriginPool_def ValidOriginPool_def split: if_splits)
    then have "plain_suffix (op_ID r @ ''.conf'')" using lowerHex_no_slash by (auto simp: plain_suffix_def)
    moreover have "HasSuffix (op_ID r @ ''.conf'') (op_ID r @ ''.conf'')" by (simp add: HasSuffix_iff)
    ultimately show ?thesis using Join_suffix id pool_path_conf [OF that] by metis
  qed
  from suffix_rev [of _ "op_ID p @ ''.conf''"] suffix_rev [of _ "op_ID q @ ''.conf''"] * [OF p] * [OF q] same
  have "rev (op_ID p @ ''.conf'') = rev (op_ID q @ ''.conf'')" by (metis length_append)
  then show ?thesis by simp
qed

lemma applied_version_apart:
  "applied_version_path cfg \<noteq> originRuntimePath cfg" "validateOriginPool cfg p = Inr () \<Longrightarrow> op_ConfigPath p \<noteq> applied_version_path cfg"
proof -
  have s: "HasSuffix (applied_version_path cfg) ''version''"
    unfolding applied_version_path_def by (rule Join_suffix) (auto simp: plain_suffix_def HasSuffix_def)
  show "applied_version_path cfg \<noteq> originRuntimePath cfg"
  proof
    assume "applied_version_path cfg = originRuntimePath cfg"
    with suffix_rev [OF s] have "take 7 (rev (originRuntimePath cfg)) = ''noisrev''" by (simp add: eval_nat_numeral)
    then have "take 5 (take 7 (rev (originRuntimePath cfg))) = take 5 ''noisrev''" by (rule arg_cong)
    then show False using suffix_rev [OF runtime_path_json [of cfg]] by (simp add: eval_nat_numeral)
  qed
  assume "validateOriginPool cfg p = Inr ()"
  then have "HasSuffix (op_ConfigPath p) ''.conf''" using pool_path_conf conf_suffix by metis
  with s show "op_ConfigPath p \<noteq> applied_version_path cfg" using suffixes_differ [of _ "''.conf''" "''version''"] by auto
qed

subsection \<open>Directives\<close>

lemma directive_cong:
  "op_Address p = op_Address q \<Longrightarrow> (s = OriginCircuitClosed) = (t = OriginCircuitClosed) \<Longrightarrow>
    originServerDirective p s = originServerDirective q t"
  by (simp add: originServerDirective_def)

lemma same_transport: "sameOriginTransport p q \<Longrightarrow> op_Address p = op_Address q \<and> op_ID p = op_ID q"
  by (simp add: sameOriginTransport_def)

lemma same_path: "validateOriginPool cfg p = Inr () \<Longrightarrow> validateOriginPool cfg q = Inr () \<Longrightarrow> op_ID p = op_ID q \<Longrightarrow>
    op_ConfigPath p = op_ConfigPath q"
  by (simp add: pool_path_conf)

lemma entry_path: "table_ok cfg rs \<Longrightarrow> x \<in> set rs \<Longrightarrow> op_ConfigPath (rt_Pool (snd x)) \<noteq> originRuntimePath cfg"
  using pool_path_not_runtime by (auto simp: table_ok_def list_all_iff entry_ok_def)

lemma serves_runtime_file: "table_ok cfg rs \<Longrightarrow> serves rs (fs(originRuntimePath cfg := f)) \<longleftrightarrow> serves rs fs"
  by (auto simp: serves_def list_all_iff dest: entry_path)

lemma serves_lookup: "serves rs fs \<Longrightarrow> lookup_runtime i rs = Some r \<Longrightarrow>
    fs (op_ConfigPath (rt_Pool r)) = Some (originServerDirective (rt_Pool r) (rt_CircuitState r))"
  unfolding lookup_runtime_def serves_def list_all_iff by (drule map_of_SomeD) fastforce

subsection \<open>Replacing an entry\<close>

lemma put_is_map:
  "distinct (map fst rs) \<Longrightarrow> i \<in> fst ` set rs \<Longrightarrow> put_runtime i r rs = map (\<lambda>x. if fst x = i then (i, r) else x) rs"
proof (induction i r rs rule: put_runtime.induct)
  case (2 i r x xs)
  have "map (\<lambda>y. if fst y = i then (i, r) else y) xs = xs" if "i \<notin> fst ` set xs"
    by (rule map_idI) (use that in force)
  with 2 show ?case by auto
qed simp

lemma insort_map: "(\<And>y. fst (g y) = fst y) \<Longrightarrow> insort_key fst (g x) (map g ys) = map g (insort_key fst x ys)"
  by (induction ys) simp_all

lemma sort_map: "(\<And>y. fst (g y) = fst y) \<Longrightarrow> sort_key fst (map g rs) = map g (sort_key fst rs)"
  by (induction rs) (simp_all add: insort_map)

lemma circuits_put_same:
  assumes "table_ok cfg rs" and "lookup_runtime i rs = Some c" and "rt_Pool r = rt_Pool c" and "rt_CircuitState r = rt_CircuitState c"
  shows "circuits (put_runtime i r rs) = circuits rs"
proof -
  have d: "distinct (map fst rs)" using assms(1) by (simp add: table_ok_def)
  have "x = (i, c)" if "x \<in> set rs" "fst x = i" for x
    using that assms(2) d by (metis lookup_iff option.inject prod.collapse)
  with assms(3,4) show ?thesis
    by (auto simp: circuits_def put_is_map [OF d lookup_key [OF assms(2)]] sort_map)
qed

lemma serves_put:
  assumes "table_ok cfg rs" and "serves rs fs" and "lookup_runtime i rs = Some c"
    and "validateOriginPool cfg (rt_Pool r) = Inr ()" and "op_ID (rt_Pool r) = i"
  shows "serves (put_runtime i r rs)
    (fs(op_ConfigPath (rt_Pool r) \<mapsto> originServerDirective (rt_Pool r) (rt_CircuitState r)))"
proof -
  have d: "distinct (map fst (put_runtime i r rs))" using assms(1) by (simp add: table_ok_def distinct_put)
  have "(fs(op_ConfigPath (rt_Pool r) \<mapsto> originServerDirective (rt_Pool r) (rt_CircuitState r))) (op_ConfigPath (rt_Pool q)) =
     Some (originServerDirective (rt_Pool q) (rt_CircuitState q))" if "(j, q) \<in> set (put_runtime i r rs)" for j q
  proof (cases "j = i")
    case True
    with that d have "q = r" by (simp add: lookup_put flip: lookup_iff)
    then show ?thesis by simp
  next
    case False
    with that d have q: "lookup_runtime j rs = Some q" by (simp add: lookup_put flip: lookup_iff)
    from table_lookup [OF assms(1) q] have "op_ID (rt_Pool q) = j" "validateOriginPool cfg (rt_Pool q) = Inr ()"
      by (simp_all add: entry_ok_def)
    with pool_path_inj [OF _ assms(4)] assms(5) False have "op_ConfigPath (rt_Pool q) \<noteq> op_ConfigPath (rt_Pool r)" by metis
    with serves_lookup [OF assms(2) q] show ?thesis by simp
  qed
  then show ?thesis unfolding serves_def list_all_iff by (metis prod.collapse)
qed

subsection \<open>A probe result\<close>

definition probe_undo_works :: "switch_outcomes \<Rightarrow> bool" where
  "probe_undo_works io \<longleftrightarrow> so_backup io = None \<and> so_restore io \<and> so_retest io = None \<and> fst (so_reapply io) = None
     \<and> so_persist_back io = None"

lemma switch_file_done:
  "switch_file p s io a = (a', None) \<Longrightarrow>
    a' = a\<lparr>ea_Files := (ea_Files a)(op_ConfigPath p \<mapsto> originServerDirective p s),
           ea_Loaded := (ea_Files a)(op_ConfigPath p \<mapsto> originServerDirective p s)\<rparr>"
  by (auto simp: switch_file_def readBackup_def atomicWriteFile_def runner_apply_def Let_def split: option.splits if_splits)

lemma switch_file_failed:
  "switch_file p s io a = (a', Some e) \<Longrightarrow> ea_Pools a' = ea_Pools a \<and> differs_in {op_ConfigPath p} (ea_Files a') (ea_Files a)"
  by (auto simp: switch_file_def readBackup_def atomicWriteFile_def runner_apply_def Let_def differs_in_def
      split: option.splits if_splits)

lemma switch_back_undoes:
  assumes "probe_undo_works io" and "differs_in {op_ConfigPath p} (ea_Files a) fs"
  shows "ea_Pools (switch_back p io (fs (op_ConfigPath p)) a) = ea_Pools a \<and> ea_Files (switch_back p io (fs (op_ConfigPath p)) a) = fs
    \<and> ea_Loaded (switch_back p io (fs (op_ConfigPath p)) a) = fs"
  using assms by (auto simp: switch_back_def probe_undo_works_def runner_apply_def Let_def differs_in_def fun_eq_iff)

lemma probe_keeps:
  assumes a: "agreed cfg a" and p: "validateOriginPool cfg p = Inr ()" and works: "probe_undo_works io"
  shows "agreed cfg (fst (applyOriginProbeResult cfg now io p kind m probeErr a))"
proof (cases "lookup_runtime (op_ID p) (ea_Pools a)")
  case None
  with a show ?thesis by (simp add: applyOriginProbeResult_def)
next
  case (Some c)
  note a = a [unfolded agreed_def]
  have c: "op_ID (rt_Pool c) = op_ID p" "validateOriginPool cfg (rt_Pool c) = Inr ()" "known_circuit (rt_CircuitState c)" "valid_streaks c"
    using table_lookup [of cfg "ea_Pools a", OF _ Some] a by (simp_all add: entry_ok_def)
  show ?thesis
  proof (cases "sameOriginTransport (rt_Pool c) p")
    case False
    with Some assms(1) show ?thesis by (simp add: applyOriginProbeResult_def)
  next
    case same: True
    define stepped where "stepped = circuit_step cfg kind (probeErr = None) c"
    define nxt where "nxt = stepped\<lparr>rt_Status := Some (probe_status now p kind m probeErr (rt_Status c) stepped)\<rparr>"
    define pending where "pending = put_runtime (op_ID p) nxt (ea_Pools a)"
    have n: "rt_Pool nxt = rt_Pool c" "known_circuit (rt_CircuitState nxt)" "valid_streaks nxt" "rt_CircuitState nxt = rt_CircuitState stepped"
      using circuit_step_valid [OF c(4)] circuit_step_known [OF c(3)] by (simp_all add: nxt_def stepped_def valid_streaks_def)
    have pending: "table_ok cfg pending"
      unfolding pending_def by (rule table_put) (use a Some n c in \<open>simp_all add: entry_ok_def\<close>)
    have path: "op_ConfigPath p = op_ConfigPath (rt_Pool c)" by (rule same_path [OF p c(2)]) (simp add: c(1))
    have serves_new: "serves pending (fs(op_ConfigPath p \<mapsto> originServerDirective p (rt_CircuitState nxt)))"
      if "serves (ea_Pools a) fs" for fs
      using serves_put [OF _ that Some, of cfg nxt] a n c path same_transport [OF same]
        directive_cong [of p "rt_Pool c" "rt_CircuitState nxt" "rt_CircuitState nxt"] by (simp add: pending_def)
    have serves_same: "serves pending fs"
      if "serves (ea_Pools a) fs" "(rt_CircuitState c = OriginCircuitClosed) = (rt_CircuitState nxt = OriginCircuitClosed)" for fs
    proof -
      have "fs(op_ConfigPath p \<mapsto> originServerDirective p (rt_CircuitState nxt)) = fs"
        using serves_lookup [OF that(1) Some] path directive_cong [of p "rt_Pool c", OF _ that(2) [symmetric]] same_transport [OF same]
        by (simp add: fun_upd_idem)
      with serves_new [OF that(1)] show ?thesis by simp
    qed
    obtain fs r where persist: "persistOriginRuntimes cfg (so_persist io) pending (ea_Files a) = (fs, r)" by force
    have eq: "applyOriginProbeResult cfg now io p kind m probeErr a =
        (if rt_CircuitState nxt = rt_CircuitState c then (a\<lparr>ea_Pools := pending\<rparr>, None)
         else case r of Some e \<Rightarrow>
             (a\<lparr>ea_Files := fs\<rparr>, Some (Errorf ''persist origin pool %s transition: %w'' [ArgS (op_ID p), ArgE e]))
           | None \<Rightarrow>
             if (rt_CircuitState c = OriginCircuitClosed) = (rt_CircuitState nxt = OriginCircuitClosed)
             then (a\<lparr>ea_Files := fs, ea_Pools := pending\<rparr>, None)
             else case switch_file p (rt_CircuitState nxt) io (a\<lparr>ea_Files := fs\<rparr>) of
                 (a2, None) \<Rightarrow> (a2\<lparr>ea_Pools := pending\<rparr>, None)
               | (a2, Some e) \<Rightarrow>
                   let a3 = switch_back p io (fs (op_ConfigPath p)) a2;
                       (fs', back) = persistOriginRuntimes cfg (so_persist_back io) (ea_Pools a) (ea_Files a3)
                   in (a3\<lparr>ea_Files := fs'\<rparr>,
                       Some (Errorf ''errors.Join'' (ArgE (Errorf ''switch origin pool %s circuit: %w'' [ArgS (op_ID p), ArgE e])
                         # (case back of None \<Rightarrow> [] | Some e' \<Rightarrow> [ArgE e'])))))"
      using persist same works [unfolded probe_undo_works_def]
      by (simp add: applyOriginProbeResult_def Some Let_def nxt_def stepped_def pending_def split: option.split)
    consider (same) "rt_CircuitState nxt = rt_CircuitState c"
      | (unsaved) e where "rt_CircuitState nxt \<noteq> rt_CircuitState c" "r = Some e"
      | (stays) "rt_CircuitState nxt \<noteq> rt_CircuitState c" "r = None"
          "(rt_CircuitState c = OriginCircuitClosed) = (rt_CircuitState nxt = OriginCircuitClosed)"
      | (switches) "rt_CircuitState nxt \<noteq> rt_CircuitState c" "r = None"
          "(rt_CircuitState c = OriginCircuitClosed) \<noteq> (rt_CircuitState nxt = OriginCircuitClosed)"
      by (cases r) blast+
    then show ?thesis
    proof cases
      case same
      then have "applyOriginProbeResult cfg now io p kind m probeErr a = (a\<lparr>ea_Pools := pending\<rparr>, None)" by (simp add: eq)
      moreover have "circuits pending = circuits (ea_Pools a)"
        unfolding pending_def by (rule circuits_put_same [OF _ Some]) (use a n same in auto)
      moreover have "pending \<noteq> []" unfolding pending_def by (metis Some list.set(1) image_empty empty_iff fst_put insertI1)
      moreover have "ea_Pools a \<noteq> []" using Some by (auto simp: lookup_runtime_def)
      ultimately show ?thesis using a pending serves_same same
        by (auto simp: agreed_def saves_def split: option.splits file_content.splits)
    next
      case unsaved
      then have "fst (applyOriginProbeResult cfg now io p kind m probeErr a) = a\<lparr>ea_Files := fs\<rparr>" by (simp add: eq persist)
      moreover have "fs = ea_Files a" using persist unsaved by (simp add: persistOriginRuntimes_def failed_write)
      ultimately show ?thesis using assms(1) by simp
    next
      case stays
      then have "fst (applyOriginProbeResult cfg now io p kind m probeErr a) = a\<lparr>ea_Files := fs, ea_Pools := pending\<rparr>"
        by (simp add: eq persist)
      moreover have "saves cfg pending (fs (originRuntimePath cfg))"
        using persist_saves persist pending stays(2) by blast
      moreover have "\<exists>f. fs = (ea_Files a)(originRuntimePath cfg := f)"
        using persist stays(2) by (auto simp: persistOriginRuntimes_def atomicWriteFile_def split: option.splits)
      then have "serves pending fs" using serves_same [OF _ stays(3)] a serves_runtime_file [OF pending] by auto
      ultimately show ?thesis using a pending serves_same [OF _ stays(3)] by (simp add: agreed_def)
    next
      case switches
      then obtain f where fs: "fs = (ea_Files a)(originRuntimePath cfg := f)"
        using persist by (auto simp: persistOriginRuntimes_def atomicWriteFile_def split: option.splits)
      let ?a1 = "a\<lparr>ea_Files := fs\<rparr>"
      obtain a2 sr where sw: "switch_file p (rt_CircuitState nxt) io ?a1 = (a2, sr)" by force
      have old: "serves (ea_Pools a) fs" using a serves_runtime_file by (auto simp: fs)
      show ?thesis
      proof (cases sr)
        case None
        with switches have "fst (applyOriginProbeResult cfg now io p kind m probeErr a) = a2\<lparr>ea_Pools := pending\<rparr>"
          by (simp add: eq persist sw)
        moreover have "saves cfg pending (fs (originRuntimePath cfg))"
          using persist_saves persist pending switches(2) by blast
        ultimately show ?thesis
          using switch_file_done [OF sw [unfolded None]] serves_new [OF old] pending pool_path_not_runtime [OF p]
          by (simp add: agreed_def)
      next
        case (Some e)
        note f = switch_file_failed [OF sw [unfolded Some]]
        have "differs_in {op_ConfigPath p} (ea_Files a2) fs" using f by simp
        note b = switch_back_undoes [OF works this]
        obtain fs' br where again: "persistOriginRuntimes cfg None (ea_Pools a) fs = (fs', br)" by force
        have "fst (applyOriginProbeResult cfg now io p kind m probeErr a)
            = (switch_back p io (fs (op_ConfigPath p)) a2)\<lparr>ea_Files := fs'\<rparr>"
          using switches Some works b again by (simp add: eq persist sw probe_undo_works_def)
        moreover have "saves cfg (ea_Pools a) (fs' (originRuntimePath cfg))"
          using persist_saves [of cfg None "ea_Pools a" fs fs'] again a
          by (simp add: persistOriginRuntimes_def atomicWriteFile_def)
        moreover have "serves (ea_Pools a) fs'"
          using again old a serves_runtime_file by (auto simp: persistOriginRuntimes_def atomicWriteFile_def)
        ultimately show ?thesis using b f a old by (simp add: agreed_def)
      qed
    qed
  qed
qed

end
