(* ===== verification/Edge_Steps.thy ===== *)
theory Edge_Steps
  imports Edge_Agreement
begin

section \<open>Applies and restarts keep the agreement\<close>

subsection \<open>A successful apply\<close>

lemma stage_files_elsewhere:
  "stage_files io ps s a = (a', Inr s') \<Longrightarrow> q \<notin> op_ConfigPath ` set ps \<Longrightarrow> ea_Files a' q = ea_Files a q"
proof (induction ps arbitrary: s a)
  case (Cons p ps)
  then show ?case
    by (auto simp: readBackup_def atomicWriteFile_def Let_def split: sum.splits option.splits if_splits dest!: Cons.IH)
qed simp

lemma stage_files_contents:
  "stage_files io ps s a = (a', Inr s') \<Longrightarrow> distinct (map op_ConfigPath ps) \<Longrightarrow> p \<in> set ps \<Longrightarrow>
    ea_Files a' (op_ConfigPath p) = Some (originServerDirective p (circuit_of (sg_pending s) p))"
proof (induction ps arbitrary: s a)
  case (Cons x ps)
  let ?s1 = "s\<lparr>sg_backups := sg_backups s @ [(op_ConfigPath x, ea_Files a (op_ConfigPath x))]\<rparr>"
  let ?a1 = "a\<lparr>ea_Files := (ea_Files a)(op_ConfigPath x \<mapsto> originServerDirective x (circuit_of (sg_pending s) x))\<rparr>"
  from Cons.prems(1) have rest: "stage_files io ps ?s1 ?a1 = (a', Inr s')"
    by (auto simp: readBackup_def atomicWriteFile_def Let_def split: sum.splits option.splits)
  show ?case
  proof (cases "p = x")
    case True
    with Cons.prems(2) stage_files_elsewhere [OF rest, of "op_ConfigPath x"] show ?thesis by simp
  next
    case False
    with Cons.IH [OF rest] Cons.prems(2,3) show ?thesis by simp
  qed
qed simp

lemma stageOriginPools_contents:
  assumes "stageOriginPools cfg io ps a = (a', Inr s)" and "validateDesiredOriginPools cfg nginx ps = Inr ()" and "p \<in> set ps"
  shows "ea_Files a' (op_ConfigPath p) = Some (originServerDirective p (rt_CircuitState (staged_runtime (ea_Pools a) p)))"
proof -
  note ok = desired_pools_ok [OF assms(2)]
  from assms(1) obtain b where "stage_files io ps \<lparr>sg_pending = pending_runtimes (ea_Pools a) ps, sg_backups = b,
      sg_oldRuntimes = ea_Pools a, sg_committed = False, sg_rolledBack = False\<rparr> a = (a', Inr s)"
    by (auto simp: stageOriginPools_def Let_def split: sum.splits)
  from stage_files_contents [OF this _ assms(3)] ok show ?thesis
    by (simp add: circuit_of_pending [OF _ assms(3)])
qed

lemma activate_done:
  assumes "activate cfg env v ports udp stage a = (a', None)"
  shows "ea_Pools a' = ea_Pools a \<and> ea_Loaded a' = ea_Files a
    \<and> (\<exists>f. persistOriginRuntimes cfg None (sg_pending stage) (ea_Files a) = ((ea_Files a)(originRuntimePath cfg := f), None)
         \<and> ea_Files a' = (ea_Files a)(originRuntimePath cfg := f, applied_version_path cfg \<mapsto> FileText (itoa v @ newline)))"
proof -
  let ?a1 = "runner_apply (ae_apply env) a"
  have ok: "ae_layout env = None" "ae_test env = None" "fst (ae_apply env) = None" "check_listeners cfg env ports udp = None"
    using assms by (auto simp: activate_def Let_def split: option.splits)
  have a1: "?a1 = a\<lparr>ea_Loaded := ea_Files a\<rparr>" using ok by (simp add: runner_apply_def)
  obtain a2 r where p: "Persist cfg (ae_persist env) stage ?a1 = (a2, r)" by force
  with assms ok have r: "r = None" by (cases r) (auto simp: activate_def Let_def)
  from assms ok p r have w: "atomicWriteFile (ae_write env (applied_version_path cfg)) (applied_version_path cfg)
      (FileText (itoa v @ newline)) (ea_Files a2) = (ea_Files a', None)" "ea_Pools a' = ea_Pools a2" "ea_Loaded a' = ea_Loaded a2"
    by (auto simp: activate_def Let_def split: prod.splits option.splits)
  from p r a1 show ?thesis
    using w by (cases "ae_persist env")
      (auto simp: Persist_def persistOriginRuntimes_def atomicWriteFile_def split: option.splits if_splits)
qed

lemma remove_stale_elsewhere:
  "remove_stale ok pending old fs = (fs', es) \<Longrightarrow>
    \<forall>x \<in> set old. lookup_runtime (fst x) pending = None \<longrightarrow> op_ConfigPath (rt_Pool (snd x)) \<noteq> q \<Longrightarrow> fs' q = fs q"
proof (induction old arbitrary: fs fs' es)
  case (Cons x old)
  obtain i r where x: "x = (i, r)" by force
  let ?path = "op_ConfigPath (rt_Pool r)"
  have rest: "g' q = g q" if "remove_stale ok pending old g = (g', es)" for g g' es
    using Cons.IH [OF that] Cons.prems(2) by simp
  have path: "?path \<noteq> q" if "lookup_runtime i pending = None" using Cons.prems(2) that by (auto simp: x)
  obtain g es' where g: "remove_stale ok pending old fs = (g, es')" by force
  show ?case
  proof (cases "lookup_runtime i pending = None \<and> (ok ?path \<or> fs ?path = None)")
    case True
    with Cons.prems(1) have "remove_stale ok pending old (fs(?path := None)) = (fs', es)" by (simp add: x Let_def)
    from rest [OF this] path True show ?thesis by simp
  next
    case False
    with Cons.prems(1) g have "fs' = g" by (auto simp: x Let_def split: if_splits)
    with rest [OF g] show ?thesis by simp
  qed
qed simp

text \<open>Files that belong to pools, and the state file.\<close>

definition pool_file :: "edge_config \<Rightarrow> string \<Rightarrow> bool" where
  "pool_file cfg q \<longleftrightarrow> q = originRuntimePath cfg \<or> (\<exists>i. q = Join_path (ec_OriginPoolConfigDirectory cfg) (i @ ''.conf''))"

text \<open>The directories that the cleanup looks at hold no such file.\<close>

definition http_directory :: "edge_config \<Rightarrow> apply_env \<Rightarrow> edge_desired_state \<Rightarrow> nginx_config_fragments \<Rightarrow> string" where
  "http_directory cfg env d fr = fragment_directory env (fragments_root cfg) ''http'' (ds_Version d) (nf_HTTPBase fr) (nf_HTTPSites fr)"

definition cleanup_apart :: "edge_config \<Rightarrow> apply_env \<Rightarrow> edge_desired_state \<Rightarrow> bool" where
  "cleanup_apart cfg env d \<longleftrightarrow>
     (case (ed_NginxFragments d, ae_fragment_root env) of
        (Some fr, Inr entries) \<Rightarrow>
          (\<forall>x \<in> set entries. \<forall>q. pool_file cfg q \<longrightarrow> q \<notin> tree (Join_path (Dir (http_directory cfg env d fr)) (fst x)))
      | _ \<Rightarrow> True)"

lemma stageFragmentDirectory_name:
  assumes "stageFragmentDirectory env root kind v base fr fs = (fs', Inr (dir, n))"
  shows "dir = fragment_directory env root kind v base fr"
proof -
  let ?dir = "fragment_directory env root kind v base fr"
  let ?m = "fragmentDirectoryMatches env (ae_fragment_entries env ?dir) ?dir base fr fs"
  show ?thesis
    using assms by (cases ?m) (auto simp: stageFragmentDirectory_def Let_def split: if_splits bool.splits option.splits sum.splits)
qed

lemma stage_texts_active:
  assumes "stage_texts cfg env d fs = (fs', Inr (http, stream, active, created))"
  shows "active = [] \<or> (\<exists>fr st. ed_NginxFragments d = Some fr \<and> active = [http_directory cfg env d fr, st])"
proof (cases "ed_NginxFragments d")
  case None
  with assms show ?thesis by (simp add: stage_texts_def)
next
  case (Some fr)
  obtain f1 r1 where s1: "stageFragmentDirectory env (fragments_root cfg) ''http'' (ds_Version d) (nf_HTTPBase fr) (nf_HTTPSites fr) fs
    = (f1, r1)" by force
  with assms Some obtain h n where r1: "r1 = Inr (h, n)"
    by (cases r1) (auto simp: stage_texts_def stageNginxFragments_def Let_def split: option.splits)
  from stageFragmentDirectory_name [OF s1 [unfolded r1]] have "h = http_directory cfg env d fr" by (simp add: http_directory_def)
  moreover from assms Some s1 r1 have "\<exists>st. active = [h, st]"
    by (auto simp: stage_texts_def stageNginxFragments_def Let_def split: option.splits prod.splits sum.splits)
  ultimately show ?thesis using Some by blast
qed

lemma cleanup_fold:
  "\<forall>x \<in> set entries. q \<notin> tree (Join_path (Dir first) (fst x)) \<Longrightarrow>
    fold (\<lambda>(name, isdir) g. let path = Join_path (Dir first) name in
        if \<not> isdir \<or> \<not> HasPrefix name ''http-v'' \<and> \<not> HasPrefix name ''stream-v'' \<or> path \<in> keep
        then g else remove_tree path g) entries fs q = fs q"
proof (induction entries arbitrary: fs)
  case (Cons x entries)
  obtain name isdir where "x = (name, isdir)" by force
  with Cons show ?case by (auto simp: remove_tree_def tree_def Let_def)
qed simp

lemma cleanup_elsewhere:
  assumes "cleanup_apart cfg env d" and "pool_file cfg q"
    and "active = [] \<or> (\<exists>fr st. ed_NginxFragments d = Some fr \<and> active = [http_directory cfg env d fr, st])"
  shows "cleanupOldFragmentDirectories env active fs q = fs q"
proof (cases active)
  case (Cons first rest)
  with assms(3) obtain fr where fr: "ed_NginxFragments d = Some fr" "first = http_directory cfg env d fr" by auto
  show ?thesis
  proof (cases "ae_fragment_root env")
    case (Inr entries)
    with assms fr have "\<forall>x \<in> set entries. q \<notin> tree (Join_path (Dir first) (fst x))" by (simp add: cleanup_apart_def)
    from cleanup_fold [OF this, of "set (map Clean active)" fs] Cons Inr show ?thesis by (simp add: cleanupOldFragmentDirectories_def)
  qed (simp add: cleanupOldFragmentDirectories_def Cons)
qed (simp add: cleanupOldFragmentDirectories_def)

text \<open>What the steps of an apply up to the staging leave alone.\<close>

lemma apply_staged_done:
  assumes run: "apply_staged cfg env d ports udp configs certs active a = (a', Inr report)"
    and pools: "validateDesiredOriginPools cfg (ds_NginxConfig d) (ed_OriginPools d) = Inr ()"
    and table: "table_ok cfg (ea_Pools a)" and restore: "\<forall>p. ae_restore env p"
    and active: "active = [] \<or> (\<exists>fr st. ed_NginxFragments d = Some fr \<and> active = [http_directory cfg env d fr, st])"
    and apart: "cleanup_apart cfg env d"
  shows "ea_Pools a' = pending_runtimes (ea_Pools a) (ed_OriginPools d) \<and> agreed cfg a'"
proof -
  let ?io = "\<lparr>si_backup = ae_backup env, si_write = ae_write env, si_restore = ae_restore env\<rparr>"
    and ?ps = "ed_OriginPools d" and ?pending = "pending_runtimes (ea_Pools a) (ed_OriginPools d)"
  obtain a1 r where s: "stageOriginPools cfg ?io ?ps a = (a1, r)" by force
  from run s obtain stage where stage: "r = Inr stage" by (cases r) (auto simp: apply_staged_def)
  have st: "ea_Pools a1 = ea_Pools a" "sg_pending stage = ?pending" "sg_oldRuntimes stage = ea_Pools a" "\<not> sg_committed stage"
    using stageOriginPools_result [OF s pools] restore stage by (simp_all add: open_stage_def)
  obtain a2 r2 where act: "activate cfg env (ds_Version d) ports udp stage a1 = (a2, r2)" by force
  from run s stage act have r2: "r2 = None" by (cases r2) (auto simp: apply_staged_def)
  obtain f where f: "ea_Pools a2 = ea_Pools a1" "ea_Loaded a2 = ea_Files a1"
      "persistOriginRuntimes cfg None ?pending (ea_Files a1) = ((ea_Files a1)(originRuntimePath cfg := f), None)"
      "ea_Files a2 = (ea_Files a1)(originRuntimePath cfg := f, applied_version_path cfg \<mapsto> FileText (itoa (ds_Version d) @ newline))"
    using activate_done [OF act [unfolded r2]] st by auto
  obtain fs es where rs: "remove_stale (ae_remove_stale env) ?pending (ea_Pools a) (ea_Files a2) = (fs, es)" by force
  have a': "ea_Pools a' = ?pending" "ea_Files a' = cleanupOldFragmentDirectories env active fs" "ea_Loaded a' = ea_Files a1"
    using run s stage act r2 st rs f by (auto simp: apply_staged_def Commit_def)
  have ok: "table_ok cfg ?pending" using pending_ok [OF table pools] .
  note ds = desired_pools_ok [OF pools]
  have serves1: "serves ?pending (ea_Files a1)"
    using stageOriginPools_contents [OF s [unfolded stage] pools] ds by (simp add: serves_def list_all_iff pending_is_map)
  have kept: "ea_Files a' q = ea_Files a2 q"
    if q: "q = originRuntimePath cfg \<or> (\<exists>x \<in> set ?pending. q = op_ConfigPath (rt_Pool (snd x)))" for q
  proof -
    have "op_ConfigPath (rt_Pool (snd x)) \<noteq> q" if x: "x \<in> set (ea_Pools a)" "lookup_runtime (fst x) ?pending = None" for x
    proof
      assume eq: "op_ConfigPath (rt_Pool (snd x)) = q"
      from table x have ex: "op_ID (rt_Pool (snd x)) = fst x" "validateOriginPool cfg (rt_Pool (snd x)) = Inr ()"
        by (auto simp: table_ok_def list_all_iff entry_ok_def)
      from q eq entry_path [OF table x(1)] obtain y where y: "y \<in> set ?pending" "q = op_ConfigPath (rt_Pool (snd y))" by auto
      with ok have ey: "op_ID (rt_Pool (snd y)) = fst y" "validateOriginPool cfg (rt_Pool (snd y)) = Inr ()"
        by (auto simp: table_ok_def list_all_iff entry_ok_def)
      from pool_path_inj [OF ex(2) ey(2)] eq y ex ey have "fst x = fst y" by simp
      with x(2) y(1) ok show False by (metis lookup_iff option.distinct(1) prod.collapse table_ok_def)
    qed
    with remove_stale_elsewhere [OF rs, of q] have "fs q = ea_Files a2 q" by blast
    moreover have "pool_file cfg q"
      using q ok pool_path_conf by (fastforce simp: pool_file_def table_ok_def list_all_iff entry_ok_def)
    ultimately show ?thesis using cleanup_elsewhere [OF apart _ active] by (simp add: a')
  qed
  have "serves ?pending (ea_Files a')"
  proof -
    have "ea_Files a' (op_ConfigPath (rt_Pool (snd x))) = ea_Files a1 (op_ConfigPath (rt_Pool (snd x)))" if "x \<in> set ?pending" for x
    proof -
      from ok that have "validateOriginPool cfg (rt_Pool (snd x)) = Inr ()" by (auto simp: table_ok_def list_all_iff entry_ok_def)
      with kept [of "op_ConfigPath (rt_Pool (snd x))"] that entry_path [OF ok that] applied_version_apart(2) show ?thesis
        by (auto simp: f)
    qed
    with serves1 show ?thesis by (simp add: serves_def list_all_iff)
  qed
  moreover have "saves cfg ?pending (ea_Files a' (originRuntimePath cfg))"
    using persist_saves [OF f(3) ok] kept [of "originRuntimePath cfg"] applied_version_apart(1) [of cfg] by (simp add: f)
  ultimately show ?thesis using a' serves1 ok by (simp add: agreed_def)
qed

lemma apply_done:
  assumes run: "applyLocked cfg env d a = (a', None)" and table: "table_ok cfg (ea_Pools a)"
    and restore: "\<forall>p. ae_restore env p" and apart: "cleanup_apart cfg env d"
  shows "ea_Pools a' = pending_runtimes (ea_Pools a) (ed_OriginPools d) \<and> agreed cfg a'"
proof -
  from run obtain ports udp where pu: "check_desired cfg env d = Inr (ports, udp)"
    by (auto simp: applyLocked_def applyFailed_def split: sum.splits)
  with run obtain configs where pre: "preflight cfg env ports udp (ea_Files a) = Inr configs"
    by (cases "preflight cfg env ports udp (ea_Files a)") (auto simp: applyLocked_def applyFailed_def split: prod.splits)
  obtain fs r where cs: "stageCertificates cfg env (ed_Certificates d) (ea_Files a) = (fs, r)" by force
  with run pu pre obtain certs where certs: "r = Inr certs"
    by (cases r) (auto simp: applyLocked_def applyFailed_def split: prod.splits)
  obtain a1 r1 where aw: "apply_written cfg env d ports udp configs certs (a\<lparr>ea_Files := fs\<rparr>) = (a1, r1)" by force
  with run pu pre cs certs obtain report where report: "r1 = Inr report" "a' = setApplyReport report a1"
    by (cases r1) (auto simp: applyLocked_def applyFailed_def split: prod.splits)
  obtain f2 r2 where st: "stage_texts cfg env d fs = (f2, r2)" by force
  with aw report obtain http stream active created where texts: "r2 = Inr (http, stream, active, created)"
    by (cases r2) (auto simp: apply_written_def)
  obtain f3 r3 where w: "write_configs env (configs_to_write cfg d http stream) f2 = (f3, r3)" by force
  from aw report st texts w have staged: "apply_staged cfg env d ports udp configs certs active (a\<lparr>ea_Files := f3\<rparr>) = (a1, Inr report)"
    by (cases r3) (auto simp: apply_written_def split: prod.splits sum.splits)
  from apply_staged_done [OF staged check_desired_pools [OF pu]] table restore apart
    stage_texts_active [OF st [unfolded texts]]
  have "ea_Pools a1 = pending_runtimes (ea_Pools a) (ed_OriginPools d)" "agreed cfg a1" by simp_all
  then show ?thesis by (simp add: report setApplyReport_def agreed_def)
qed

end
