(* ===== verification/Edge_Invariants.thy ===== *)
theory Edge_Invariants
  imports Edge_Steps
begin

section \<open>Every reachable state agrees\<close>

subsection \<open>Restarts\<close>

text \<open>A new process of the agent starts with no circuits and loads the state file.\<close>

definition restart :: "edge_config \<Rightarrow> edge_agent \<Rightarrow> edge_agent result" where
  "restart cfg a = loadOriginRuntime cfg None (a\<lparr>ea_Pools := [], ea_ApplyReport := None, ea_ApplyReportSeq := 0\<rparr>)"

lemma table_sorted: "table_ok cfg rs \<Longrightarrow> set (circuits rs) = (\<lambda>x. (rt_Pool (snd x), rt_CircuitState (snd x))) ` set rs"
  by (simp add: circuits_def)

lemma serves_circuits: "circuits rs = circuits rs' \<Longrightarrow> serves rs fs \<longleftrightarrow> serves rs' fs"
proof -
  have *: "serves rs fs \<longleftrightarrow> list_all (\<lambda>y. fs (op_ConfigPath (fst y)) = Some (originServerDirective (fst y) (snd y))) (circuits rs)" for rs
    by (simp add: serves_def circuits_def list_all_iff)
  assume "circuits rs = circuits rs'"
  then show ?thesis by (simp only: *)
qed

lemma saves_circuits: "circuits rs = circuits rs' \<Longrightarrow> saves cfg rs f \<longleftrightarrow> saves cfg rs' f"
proof -
  have "length (circuits rs) = length rs" for rs :: runtimes by (simp add: circuits_def)
  then have "rs = [] \<longleftrightarrow> circuits rs = []" for rs :: runtimes by (metis length_0_conv)
  moreover assume "circuits rs = circuits rs'"
  ultimately show ?thesis by (simp add: saves_def split: option.split file_content.split)
qed

lemma restart_ok:
  assumes "agreed cfg a"
  shows "\<exists>a'. restart cfg a = Inr a' \<and> circuits (ea_Pools a') = circuits (ea_Pools a) \<and> agreed cfg a'
    \<and> ea_Files a' = ea_Files a \<and> ea_Loaded a' = ea_Loaded a"
proof -
  let ?b = "a\<lparr>ea_Pools := [], ea_ApplyReport := None, ea_ApplyReportSeq := 0\<rparr>"
  note a = assms [unfolded agreed_def]
  from a have "saves cfg (ea_Pools a) (ea_Files ?b (originRuntimePath cfg))" by simp
  from load_saved [OF this conjunct1 [OF a]] obtain loaded where l: "loadOriginRuntime cfg None ?b = Inr (?b\<lparr>ea_Pools := loaded\<rparr>)"
    "table_ok cfg loaded" "circuits loaded = circuits (ea_Pools a)" by auto
  with a serves_circuits [OF l(3)] saves_circuits [OF l(3)] show ?thesis
    by (simp add: restart_def agreed_def)
qed

subsection \<open>Steps\<close>

inductive agent_step :: "edge_config \<Rightarrow> edge_agent \<Rightarrow> edge_agent \<Rightarrow> bool" for cfg where
  probed: "validateOriginPool cfg p = Inr () \<Longrightarrow> probe_undo_works io \<Longrightarrow>
    agent_step cfg a (fst (applyOriginProbeResult cfg now io p kind m probeErr a))"
| applied: "undo_works env (ea_Files a) \<Longrightarrow> cleanup_apart cfg env d \<Longrightarrow> agent_step cfg a (fst (applyLocked cfg env d a))"
| restarted: "restart cfg a = Inr a' \<Longrightarrow> agent_step cfg a a'"

lemma undone_agreed:
  assumes "agreed cfg a" and "undone a a'"
  shows "agreed cfg a'"
proof -
  from assms have "serves (ea_Pools a) (ea_Loaded a')"
    by (auto simp: agreed_def undone_def serves_def list_all_iff)
  with assms show ?thesis by (simp add: agreed_def undone_def)
qed

lemma agent_step_agreed:
  assumes "agent_step cfg a a'" and "agreed cfg a"
  shows "agreed cfg a'"
  using assms
proof cases
  case (probed p io now kind m probeErr)
  with probe_keeps [OF assms(2)] show ?thesis by simp
next
  case (applied env d)
  show ?thesis
  proof (cases "snd (applyLocked cfg env d a)")
    case None
    with applied have "applyLocked cfg env d a = (a', None)" by (simp add: prod_eq_iff)
    moreover have "table_ok cfg (ea_Pools a)" "\<forall>p. ae_restore env p"
      using assms(2) applied(2) by (simp_all add: agreed_def undo_works_def)
    ultimately show ?thesis using apply_done applied(3) by blast
  next
    case (Some e)
    with applied have "applyLocked cfg env d a = (a', Some e)" by (simp add: prod_eq_iff)
    from undone_agreed [OF assms(2) conjunct1 [OF apply_undone [OF this applied(2)]]] show ?thesis .
  qed
next
  case restarted
  with restart_ok [OF assms(2)] show ?thesis by auto
qed

text \<open>
  C28: Memory, pool files, nginx and state file agree on the circuit of every pool, and go on agreeing
  over any sequence of probe results, applies and restarts, whichever of their other calls fail, as long as
  the calls that undo a failed step work (backups can be read and put back, the restored configuration tests,
  reloads and persists, fragments are cleaned up apart from the pool files): the file of each pool holds the directive of its circuit, nginx has
  loaded that directive, and the state file holds the same pools and circuits.
\<close>

theorem circuits_and_files_agree:
  assumes "agreed cfg a" and "(agent_step cfg)\<^sup>*\<^sup>* a a'"
  shows "agreed cfg a'"
  using assms(2,1) by (induction rule: rtranclp_induct) (auto dest: agent_step_agreed)

text \<open>A node that applies a configuration with one pool, whose origin then fails two cold probes.\<close>

definition nginx_listens :: "int \<Rightarrow> port_conflict" where
  "nginx_listens port = \<lparr>pc_Protocol = [], pc_Port = port, pc_PID = 100, pc_Process = ''nginx''\<rparr>"

definition working_env :: apply_env where
  "working_env = sample_env\<lparr>ae_test := None,
     ae_polled_listeners := (\<lambda>n. Inr (map nginx_listens [80, 443])),
     ae_polled_udp_listeners := (\<lambda>n. Inr (map nginx_listens [443]))\<rparr>"

definition working_calls :: switch_outcomes where
  "working_calls = \<lparr>so_persist = None, so_backup = None, so_write = None, so_test = None, so_apply = (None, True),
     so_restore = True, so_retest = None, so_reapply = (None, True), so_persist_back = None\<rparr>"

definition no_answer :: origin_probe_measurement where
  "no_answer = \<lparr>om_ConnectionReused = False, om_ConnectDuration = 0, om_TLSHandshakeDuration = 0, om_HeaderDuration = 0,
     om_TotalDuration = 3000000000, om_HTTPStatus = 0\<rparr>"

definition cold_failure :: "time \<Rightarrow> edge_agent \<Rightarrow> edge_agent" where
  "cold_failure now a = fst (applyOriginProbeResult sample_config now working_calls sample_pool OriginProbeCold no_answer
     (Some ''connection refused'') a)"

definition empty_agent :: edge_agent where
  "empty_agent = \<lparr>ea_Pools = [], ea_Files = (\<lambda>p. None), ea_Loaded = (\<lambda>p. None), ea_ApplyReport = None, ea_ApplyReportSeq = 0\<rparr>"

definition applied_agent :: edge_agent where
  "applied_agent = fst (applyLocked sample_config working_env sample_desired empty_agent)"

theorem circuits_and_files_agree_witness:
  "agreed sample_config (cold_failure 2000 (cold_failure 1000 applied_agent))
   \<and> ea_Loaded (cold_failure 2000 (cold_failure 1000 applied_agent)) (op_ConfigPath sample_pool)
     = Some (originServerDirective sample_pool OriginCircuitOpen)"
proof -
  have p: "validateOriginPool sample_config sample_pool = Inr ()" by code_simp
  have io: "probe_undo_works working_calls" by code_simp
  have step1: "agent_step sample_config empty_agent applied_agent"
    unfolding applied_agent_def
    by (rule agent_step.applied) (simp_all add: undo_works_def true_listings_def cleanup_apart_def working_env_def sample_env_def sample_desired_def)
  have steps: "agent_step sample_config a (cold_failure now a)" for now a
    unfolding cold_failure_def by (rule agent_step.probed [OF p io])
  have "(agent_step sample_config)\<^sup>*\<^sup>* empty_agent (cold_failure 2000 (cold_failure 1000 applied_agent))"
    using step1 steps by (meson converse_rtranclp_into_rtranclp r_into_rtranclp)
  moreover have "agreed sample_config empty_agent"
    by (simp add: agreed_def empty_agent_def table_ok_def serves_def saves_def)
  ultimately have "agreed sample_config (cold_failure 2000 (cold_failure 1000 applied_agent))"
    by (rule circuits_and_files_agree [rotated])
  moreover have "ea_Loaded (cold_failure 2000 (cold_failure 1000 applied_agent)) (op_ConfigPath sample_pool)
     = Some (originServerDirective sample_pool OriginCircuitOpen)" by code_simp
  ultimately show ?thesis by blast
qed

text \<open>
  C31: A restart of the agent never fails on its own state file: it loads the same pools with the same
  circuits, in agreement with the files and with nginx, which it leaves alone.
\<close>

theorem restart_finds_the_circuits:
  assumes "agreed cfg a"
  shows "\<exists>a'. restart cfg a = Inr a' \<and> circuits (ea_Pools a') = circuits (ea_Pools a) \<and> agreed cfg a'
    \<and> ea_Files a' = ea_Files a \<and> ea_Loaded a' = ea_Loaded a"
  using assms by (rule restart_ok)

definition one_pool_agent :: edge_agent where
  "one_pool_agent =
     (let r = (fresh_runtime sample_pool)\<lparr>rt_CircuitState := OriginCircuitOpen, rt_ColdConsecutiveFailures := 7\<rparr>;
          fs = (fst (persistOriginRuntimes sample_config None [(op_ID sample_pool, r)] (\<lambda>p. None)))
                 (op_ConfigPath sample_pool \<mapsto> originServerDirective sample_pool OriginCircuitOpen)
      in \<lparr>ea_Pools = [(op_ID sample_pool, r)], ea_Files = fs, ea_Loaded = fs, ea_ApplyReport = None, ea_ApplyReportSeq = 0\<rparr>)"

theorem restart_finds_the_circuits_witness:
  "\<exists>a'. restart sample_config one_pool_agent = Inr a' \<and> circuits (ea_Pools a') = [(sample_pool, OriginCircuitOpen)]"
proof -
  have "table_ok sample_config (ea_Pools one_pool_agent)" by code_simp
  moreover have "serves (ea_Pools one_pool_agent) (ea_Files one_pool_agent)" by code_simp
  moreover have "serves (ea_Pools one_pool_agent) (ea_Loaded one_pool_agent)" by code_simp
  moreover have "saves sample_config (ea_Pools one_pool_agent) (ea_Files one_pool_agent (originRuntimePath sample_config))" by code_simp
  ultimately have "agreed sample_config one_pool_agent" by (simp add: agreed_def)
  moreover have "circuits (ea_Pools one_pool_agent) = [(sample_pool, OriginCircuitOpen)]" by code_simp
  ultimately show ?thesis using restart_finds_the_circuits [of sample_config one_pool_agent] by auto
qed

subsection \<open>A pool file that cannot be read\<close>

text \<open>
  C33: When a circuit opens or closes and the file of its pool cannot be read just then, the step does
  not only fail: the restoration that follows it has no backup, takes the file for one that did not exist,
  and removes it, although the configuration of nginx includes it.
\<close>

theorem unreadable_pool_file_is_removed:
  assumes pool: "lookup_runtime (op_ID p) (ea_Pools a) = Some c" "sameOriginTransport (rt_Pool c) p"
      "validateOriginPool cfg p = Inr ()"
    and switch: "(rt_CircuitState c = OriginCircuitClosed)
        \<noteq> (rt_CircuitState (circuit_step cfg kind (probeErr = None) c) = OriginCircuitClosed)"
    and calls: "so_persist io = None" "so_backup io = Some e" "so_restore io"
  shows "ea_Files (fst (applyOriginProbeResult cfg now io p kind m probeErr a)) (op_ConfigPath p) = None"
proof -
  have n: "rt_CircuitState (circuit_step cfg kind (probeErr = None) c) \<noteq> rt_CircuitState c" using switch by metis
  have "op_ConfigPath p \<noteq> originRuntimePath cfg" by (rule pool_path_not_runtime [OF pool(3)])
  with pool switch n calls show ?thesis
    by (auto simp: applyOriginProbeResult_def Let_def switch_file_def switch_back_def readBackup_def runner_apply_def
        persistOriginRuntimes_def atomicWriteFile_def split: option.splits prod.splits if_splits)
qed

theorem unreadable_pool_file_is_removed_witness:
  "ea_Files (fst (applyOriginProbeResult sample_config 1000 (working_calls\<lparr>so_backup := Some (err ''input/output error'')\<rparr>)
     sample_pool OriginProbeCold no_answer (Some ''connection refused'') (cold_failure 500 applied_agent)))
     (op_ConfigPath sample_pool) = None"
proof -
  let ?a = "cold_failure 500 applied_agent" and ?io = "working_calls\<lparr>so_backup := Some (err ''input/output error'')\<rparr>"
  define c where "c = snd (hd (ea_Pools ?a))"
  have "lookup_runtime (op_ID sample_pool) (ea_Pools ?a) = Some c" unfolding c_def by code_simp
  moreover have "sameOriginTransport (rt_Pool c) sample_pool" unfolding c_def by code_simp
  moreover have "validateOriginPool sample_config sample_pool = Inr ()" by code_simp
  moreover have "(rt_CircuitState c = OriginCircuitClosed)
      \<noteq> (rt_CircuitState (circuit_step sample_config OriginProbeCold (Some ''connection refused'' = None) c) = OriginCircuitClosed)"
    unfolding c_def by code_simp
  moreover have "so_persist ?io = None" "so_backup ?io = Some (err ''input/output error'')" "so_restore ?io" by code_simp+
  ultimately show ?thesis by (rule unreadable_pool_file_is_removed)
qed

end
