(* ===== verification/Origin_Reports.thy ===== *)
theory Origin_Reports
  imports Edge_Invariants
begin

section \<open>The statuses a node reports\<close>

subsection \<open>Error texts\<close>

definition plain_text :: "string \<Rightarrow> bool" where
  "plain_text s \<longleftrightarrow> list_all (\<lambda>c. 32 \<le> byte_of c \<and> byte_of c < 127) s"

lemma TrimLeftSpace_set: "set (TrimLeftSpace s) \<subseteq> set s"
proof (induction s rule: TrimLeftSpace.induct)
  case (1 s)
  show ?case
  proof (cases "s = [] \<or> leading_space s = 0")
    case False
    with 1 have "set (TrimLeftSpace (drop (leading_space s) s)) \<subseteq> set s" by (meson set_drop_subset subset_trans)
    with False show ?thesis by (subst TrimLeftSpace.simps) simp
  qed (subst TrimLeftSpace.simps, simp)
qed

lemma TrimSpace_set: "set (TrimSpace s) \<subseteq> set s"
  using TrimRightSpace_prefix [of "TrimLeftSpace s"] TrimLeftSpace_set [of s] set_take_subset [of _ "TrimLeftSpace s"]
  by (auto simp: TrimSpace_def) blast

lemma plain_no_control: "plain_text s \<Longrightarrow> \<not> containsControl s"
  by (induction s rule: containsControl.induct) (auto simp: plain_text_def is_ctl_byte_def)

lemma plain_blanked: "plain_text s \<Longrightarrow> Map_blank_control s = s"
proof -
  assume p: "plain_text s"
  then have r: "runes s = map (\<lambda>c. [c]) s" by (intro runes_ascii) (auto simp: plain_text_def list_all_iff)
  have "blank_control [c] = [c]" if "c \<in> set s" for c
  proof -
    from that p have "32 \<le> byte_of c" "byte_of c < 127" by (auto simp: plain_text_def list_all_iff)
    then show ?thesis by (simp add: blank_control_def encoded_def is_ctl_byte_def)
  qed
  then show ?thesis by (simp add: Map_blank_control_def r comp_def cong: map_cong)
qed

lemma sanitize_plain:
  assumes "plain_text e" and "length e \<le> 512"
  shows "sanitizeOriginError e = TrimSpace e" and "plain_text (TrimSpace e)" and "length (TrimSpace e) \<le> 512"
proof -
  show p: "plain_text (TrimSpace e)" using assms(1) TrimSpace_set [of e] by (auto simp: plain_text_def list_all_iff)
  show l: "length (TrimSpace e) \<le> 512" using length_TrimSpace [of e] assms(2) by simp
  have "length (runes (TrimSpace e)) \<le> 512" using length_runes [of "TrimSpace e"] l by simp
  then show "sanitizeOriginError e = TrimSpace e" by (simp add: sanitizeOriginError_def plain_blanked [OF assms(1)] Let_def)
qed

subsection \<open>Samples and statuses\<close>

text \<open>An answer that the domain model foresees.\<close>

definition fair_answer :: "origin_probe_kind \<Rightarrow> origin_probe_measurement \<Rightarrow> string option \<Rightarrow> bool" where
  "fair_answer kind m probeErr \<longleftrightarrow> (om_HTTPStatus m = 0 \<or> 100 \<le> om_HTTPStatus m \<and> om_HTTPStatus m \<le> 599)
     \<and> (kind = OriginProbeCold \<longrightarrow> \<not> om_ConnectionReused m)
     \<and> (case probeErr of None \<Rightarrow> True | Some e \<Rightarrow> plain_text e \<and> length e \<le> 512)"

lemma duration_valid [simp]: "valid_probe_time (durationMilliseconds d)"
  by (simp add: valid_probe_time_def durationMilliseconds_def probe_time_limit_def)

lemma sample_valid:
  assumes "fair_answer kind m probeErr" and "zero_time < now"
  shows "validOriginProbeSample (probe_sample m probeErr now)"
proof -
  from assms(2) have "\<not> is_zero_time now" by (simp add: is_zero_time_def)
  with assms(1) show ?thesis
    by (cases probeErr)
      (auto simp: validOriginProbeSample_def probe_sample_def fair_answer_def sanitize_plain plain_no_control)
qed

definition sample_list_ok :: "origin_probe_status \<Rightarrow> bool" where
  "sample_list_ok s \<longleftrightarrow> list_all validOriginProbeSample (status_samples s)
     \<and> (case ps_ColdProbe s of None \<Rightarrow> True | Some c \<Rightarrow> \<not> sa_ConnectionReused c)"

lemma valid_pool_parts:
  "ValidOriginPool p \<Longrightarrow> length (op_ID p) = 24 \<and> lowerHex (op_ID p) \<and> 1 \<le> op_KeepaliveConnections p
    \<and> op_KeepaliveConnections p \<le> 128 \<and> NormalizeMonitoringAddress (op_Address p) = Inr (op_Address p)
    \<and> op_Scheme p \<in> {''http'', ''https'', ''grpc'', ''grpcs''} \<and> valid_status_version (op_Scheme p) (op_HTTPVersion p)
    \<and> valid_references (op_References p)"
  by (auto simp: ValidOriginPool_def valid_transport_def valid_status_version_def Let_def split: if_splits)

definition status_ok :: "origin_pool_runtime \<Rightarrow> bool" where
  "status_ok r \<longleftrightarrow> (case rt_Status r of None \<Rightarrow> True
     | Some s \<Rightarrow> ValidOriginProbeStatus s \<and> ps_EstablishedConnections s = None \<and> ps_PoolID s = op_ID (rt_Pool r))"

lemma same_streak: "validOriginProbeStreak n \<longleftrightarrow> validPersistedOriginStreak n"
  by (simp add: validOriginProbeStreak_def validPersistedOriginStreak_def)

lemma samples_of:
  "status_samples s = (case ps_ServiceProbe s of None \<Rightarrow> [] | Some y \<Rightarrow> [y]) @ (case ps_ColdProbe s of None \<Rightarrow> [] | Some y \<Rightarrow> [y])"
  by (simp add: status_samples_def List.map_filter_def split: option.split)

lemma samples_update [simp]:
  "status_samples (s\<lparr>ps_Healthy := h\<rparr>) = status_samples s" "status_samples (s\<lparr>ps_CheckedAt := t\<rparr>) = status_samples s"
  by (simp_all add: samples_of)

lemma kept_samples:
  assumes "ValidOriginProbeStatus s"
  shows "ps_ServiceProbe s = Some y \<Longrightarrow> validOriginProbeSample y"
    and "ps_ColdProbe s = Some y \<Longrightarrow> validOriginProbeSample y \<and> \<not> sa_ConnectionReused y"
proof -
  from assms have v: "list_all validOriginProbeSample (status_samples s)"
    "case ps_ColdProbe s of None \<Rightarrow> True | Some c \<Rightarrow> \<not> sa_ConnectionReused c" by (simp_all add: ValidOriginProbeStatus_def)
  then show "ps_ServiceProbe s = Some y \<Longrightarrow> validOriginProbeSample y"
    and "ps_ColdProbe s = Some y \<Longrightarrow> validOriginProbeSample y \<and> \<not> sa_ConnectionReused y" by (auto simp: samples_of)
qed

lemma probe_status_valid:
  assumes p: "ValidOriginPool p" and fair: "fair_answer kind m probeErr" and now: "zero_time < now"
    and nxt: "valid_streaks nxt" "known_circuit (rt_CircuitState nxt)"
    and prev: "case previous of None \<Rightarrow> True | Some s \<Rightarrow> ValidOriginProbeStatus s"
  shows "ValidOriginProbeStatus (probe_status now p kind m probeErr previous nxt)"
proof -
  let ?s = "probe_status now p kind m probeErr previous nxt" and ?x = "probe_sample m probeErr now"
  note x = sample_valid [OF fair now]
  have xt: "sa_CheckedAt ?x = now" "sa_ConnectionReused ?x = om_ConnectionReused m" by (simp_all add: probe_sample_def)
  have old: "(case Option.bind previous ps_ServiceProbe of None \<Rightarrow> True | Some y \<Rightarrow> validOriginProbeSample y)"
    "(case Option.bind previous ps_ColdProbe of None \<Rightarrow> True | Some y \<Rightarrow> validOriginProbeSample y \<and> \<not> sa_ConnectionReused y)"
    using prev kept_samples by (auto split: option.splits)
  have cold: "kind = OriginProbeCold \<Longrightarrow> \<not> om_ConnectionReused m" using fair by (simp add: fair_answer_def)
  have samples: "status_samples ?s = (case kind of
      OriginProbeCold \<Rightarrow> (case Option.bind previous ps_ServiceProbe of None \<Rightarrow> [] | Some y \<Rightarrow> [y]) @ [?x]
    | OriginProbeService \<Rightarrow> ?x # (case Option.bind previous ps_ColdProbe of None \<Rightarrow> [] | Some y \<Rightarrow> [y]))"
    by (cases kind) (simp_all add: probe_status_def Let_def status_samples_def List.map_filter_def split: option.split)
  have "status_samples ?s \<noteq> []" using samples by (cases kind) simp_all
  moreover have "list_all validOriginProbeSample (status_samples ?s)"
    using x old samples by (cases kind) (auto split: option.splits)
  moreover have "ps_CheckedAt ?s = fold max (map sa_CheckedAt (status_samples ?s)) zero_time"
  proof -
    have "ps_CheckedAt ?s = fold (\<lambda>x t. if t < sa_CheckedAt x then sa_CheckedAt x else t) (status_samples ?s) now"
      by (simp add: probe_status_def Let_def)
    then show ?thesis using now xt samples by (cases kind) (auto simp: max_def split: option.splits)
  qed
  moreover have "zero_time < ps_CheckedAt ?s"
  proof -
    have "ps_CheckedAt ?s = fold (\<lambda>x t. if t < sa_CheckedAt x then sa_CheckedAt x else t) (status_samples ?s) now"
      by (simp add: probe_status_def Let_def)
    then show ?thesis using now xt samples by (cases kind) (auto split: option.splits)
  qed
  moreover have "ps_Healthy ?s = list_all sa_Healthy (status_samples ?s)"
  proof -
    have "ps_Healthy ?s \<longleftrightarrow> status_samples ?s \<noteq> [] \<and> list_all sa_Healthy (status_samples ?s)"
      by (simp add: probe_status_def Let_def originProbeSamplesHealthy_def)
    then show ?thesis using \<open>status_samples ?s \<noteq> []\<close> by simp
  qed
  moreover have "case ps_ColdProbe ?s of None \<Rightarrow> True | Some c \<Rightarrow> \<not> sa_ConnectionReused c"
    using old(2) cold xt by (cases kind) (auto simp: probe_status_def Let_def split: option.splits)
  moreover have "ps_PoolID ?s = op_ID p" "ps_Address ?s = op_Address p" "ps_Scheme ?s = op_Scheme p" "ps_HTTPVersion ?s = op_HTTPVersion p"
      "ps_KeepaliveConnections ?s = op_KeepaliveConnections p" "ps_EstablishedConnections ?s = None" "ps_References ?s = op_References p"
      "ps_CircuitState ?s = rt_CircuitState nxt" "ps_ServiceConsecutiveFailures ?s = rt_ServiceConsecutiveFailures nxt"
      "ps_ServiceConsecutiveSuccesses ?s = rt_ServiceConsecutiveSuccesses nxt" "ps_ColdConsecutiveFailures ?s = rt_ColdConsecutiveFailures nxt"
      "ps_ColdConsecutiveSuccesses ?s = rt_ColdConsecutiveSuccesses nxt"
    by (simp_all add: probe_status_def Let_def)
  ultimately show ?thesis using valid_pool_parts [OF p] nxt
    by (simp add: ValidOriginProbeStatus_def is_zero_time_def valid_streaks_def same_streak)
qed

lemma retarget_valid:
  assumes "ValidOriginProbeStatus s" and "ValidOriginPool p"
  shows "ValidOriginProbeStatus (retarget_status p s)"
proof -
  have "status_samples (retarget_status p s) = status_samples s" by (simp add: retarget_status_def status_samples_def)
  with assms(1) valid_pool_parts [OF assms(2)] show ?thesis
    unfolding ValidOriginProbeStatus_def by (auto simp: retarget_status_def)
qed

subsection \<open>Over all steps\<close>

definition statuses_ok :: "edge_agent \<Rightarrow> bool" where
  "statuses_ok a \<longleftrightarrow> list_all (\<lambda>x. status_ok (snd x)) (ea_Pools a)"

inductive fair_step :: "edge_config \<Rightarrow> edge_agent \<Rightarrow> edge_agent \<Rightarrow> bool" for cfg where
  probed: "validateOriginPool cfg p = Inr () \<Longrightarrow> probe_undo_works io \<Longrightarrow> fair_answer kind m probeErr \<Longrightarrow> zero_time < now \<Longrightarrow>
    fair_step cfg a (fst (applyOriginProbeResult cfg now io p kind m probeErr a))"
| applied: "undo_works env (ea_Files a) \<Longrightarrow> cleanup_apart cfg env d \<Longrightarrow> fair_step cfg a (fst (applyLocked cfg env d a))"
| restarted: "restart cfg a = Inr a' \<Longrightarrow> fair_step cfg a a'"

lemma fair_is_step: "fair_step cfg a a' \<Longrightarrow> agent_step cfg a a'"
  by (cases rule: fair_step.cases) (auto intro: agent_step.intros)

lemma valid_pool: "validateOriginPool cfg p = Inr () \<Longrightarrow> ValidOriginPool p"
  by (simp add: validateOriginPool_def split: if_splits)

text \<open>A probe result leaves the table as it is, or puts one entry with the new status into it.\<close>

lemma probe_pools:
  assumes "applyOriginProbeResult cfg now io p kind m probeErr a = (a', r)"
  shows "ea_Pools a' = ea_Pools a \<or>
    (\<exists>c. lookup_runtime (op_ID p) (ea_Pools a) = Some c \<and> sameOriginTransport (rt_Pool c) p
      \<and> ea_Pools a' = put_runtime (op_ID p) ((circuit_step cfg kind (probeErr = None) c)\<lparr>rt_Status :=
          Some (probe_status now p kind m probeErr (rt_Status c) (circuit_step cfg kind (probeErr = None) c))\<rparr>) (ea_Pools a))"
proof -
  have f: "ea_Pools b = ea_Pools a \<and> ea_Pools (switch_back p io x b) = ea_Pools a"
    if "switch_file p s io (a\<lparr>ea_Files := fs\<rparr>) = (b, q)" for s fs b q x
    using that by (auto simp: switch_file_def switch_back_def runner_apply_def Let_def split: sum.splits prod.splits option.splits if_splits)
  show ?thesis
    using assms by (auto simp: applyOriginProbeResult_def Let_def dest: f split: option.splits if_splits prod.splits)
qed

lemma statuses_put:
  assumes "distinct (map fst rs)" and "list_all (\<lambda>x. status_ok (snd x)) rs" and "status_ok r"
  shows "list_all (\<lambda>x. status_ok (snd x)) (put_runtime i r rs)"
  using assms by (induction i r rs rule: put_runtime.induct) auto

lemma fair_step_statuses:
  assumes "fair_step cfg a a'" and "agreed cfg a" and "statuses_ok a"
  shows "statuses_ok a'"
  using assms(1)
proof cases
  case (probed p io kind m probeErr now)
  note table = assms(2) [unfolded agreed_def]
  from probed(1) obtain r where "applyOriginProbeResult cfg now io p kind m probeErr a = (a', r)" by (metis prod.collapse)
  from probe_pools [OF this] show ?thesis
  proof (elim disjE exE conjE)
    fix c assume c: "lookup_runtime (op_ID p) (ea_Pools a) = Some c" "sameOriginTransport (rt_Pool c) p"
      and pools: "ea_Pools a' = put_runtime (op_ID p) ((circuit_step cfg kind (probeErr = None) c)\<lparr>rt_Status :=
          Some (probe_status now p kind m probeErr (rt_Status c) (circuit_step cfg kind (probeErr = None) c))\<rparr>) (ea_Pools a)"
    let ?n = "circuit_step cfg kind (probeErr = None) c"
    from table_lookup [OF conjunct1 [OF table] c(1)] have e: "entry_ok cfg (op_ID p, c)" .
    have "status_ok c" using assms(3) c(1) by (auto simp: statuses_ok_def list_all_iff lookup_runtime_def dest!: map_of_SomeD)
    then have prev: "case rt_Status c of None \<Rightarrow> True | Some s \<Rightarrow> ValidOriginProbeStatus s"
      by (simp add: status_ok_def split: option.splits)
    have "ValidOriginProbeStatus (probe_status now p kind m probeErr (rt_Status c) ?n)"
      using e circuit_step_valid circuit_step_known prev probed
      by (intro probe_status_valid) (auto simp: entry_ok_def valid_pool)
    moreover have "ps_EstablishedConnections (probe_status now p kind m probeErr (rt_Status c) ?n) = None"
      "ps_PoolID (probe_status now p kind m probeErr (rt_Status c) ?n) = op_ID p"
      by (simp_all add: probe_status_def Let_def)
    ultimately have "status_ok (?n\<lparr>rt_Status := Some (probe_status now p kind m probeErr (rt_Status c) ?n)\<rparr>)"
      using e by (simp add: status_ok_def entry_ok_def)
    with statuses_put assms(3) table show ?thesis by (simp add: statuses_ok_def pools table_ok_def)
  qed (use assms(3) in \<open>simp add: statuses_ok_def\<close>)
next
  case (applied env d)
  show ?thesis
  proof (cases "snd (applyLocked cfg env d a)")
    case (Some e)
    with applied have "applyLocked cfg env d a = (a', Some e)" by (simp add: prod_eq_iff)
    from apply_undone [OF this applied(2)] assms(3) show ?thesis by (simp add: undone_def statuses_ok_def)
  next
    case None
    with applied have run: "applyLocked cfg env d a = (a', None)" by (simp add: prod_eq_iff)
    have "table_ok cfg (ea_Pools a)" "\<forall>p. ae_restore env p" using assms(2) applied(2) by (simp_all add: agreed_def undo_works_def)
    from apply_done [OF run this applied(3)] have pools: "ea_Pools a' = pending_runtimes (ea_Pools a) (ed_OriginPools d)" by simp
    from run obtain pu where "check_desired cfg env d = Inr pu"
      by (auto simp: applyLocked_def applyFailed_def split: sum.splits)
    note ds = desired_pools_ok [OF check_desired_pools [OF this]]
    have "status_ok (staged_runtime (ea_Pools a) p)" if "p \<in> set (ed_OriginPools d)" for p
    proof (cases "lookup_runtime (op_ID p) (ea_Pools a)")
      case (Some c)
      then have "status_ok c" using assms(3) by (auto simp: statuses_ok_def list_all_iff lookup_runtime_def dest!: map_of_SomeD)
      with Some that ds show ?thesis
        by (auto simp: staged_runtime_def status_ok_def fresh_runtime_def retarget_valid valid_pool same_transport
            split: option.splits) (auto simp: retarget_status_def dest: same_transport)
    qed (simp add: staged_runtime_def status_ok_def fresh_runtime_def)
    with ds show ?thesis by (simp add: statuses_ok_def pools pending_is_map list_all_iff)
  qed
next
  case restarted
  let ?b = "a\<lparr>ea_Pools := [], ea_ApplyReport := None, ea_ApplyReportSeq := 0\<rparr>"
  note a = assms(2) [unfolded agreed_def]
  from a have "saves cfg (ea_Pools a) (ea_Files ?b (originRuntimePath cfg))" by simp
  from load_saved [OF this conjunct1 [OF a]] obtain loaded where "loadOriginRuntime cfg None ?b = Inr (?b\<lparr>ea_Pools := loaded\<rparr>)"
    and none: "\<forall>x \<in> set loaded. rt_Status (snd x) = None" by auto
  with restarted have "ea_Pools a' = loaded" by (auto simp: restart_def)
  with none show ?thesis by (auto simp: statuses_ok_def list_all_iff status_ok_def)
qed

text \<open>
  C29: Whatever a node reports about its origins passes the validation on the other side: after any
  sequence of fair probe results, applies and restarts the status report of the node is valid. A fair
  result has an HTTP status in the usual range, a cold probe that used a new connection, and an
  error text of at most 512 printable ASCII characters.
\<close>

theorem origin_reports_are_valid:
  assumes "agreed cfg a" and "statuses_ok a" and "(fair_step cfg)\<^sup>*\<^sup>* a a'" and "zero_time < now"
  shows "ValidMachineOriginStatus \<lparr>mo_CollectedAt = now, mo_OriginProbes = originProbeStatuses a'\<rparr>"
proof -
  from assms(3,1,2) have ok: "agreed cfg a' \<and> statuses_ok a'"
    by (induction rule: rtranclp_induct) (auto dest: fair_is_step agent_step_agreed fair_step_statuses)
  let ?f = "\<lambda>s::origin_probe_status. s\<lparr>ps_EstablishedConnections := None\<rparr>"
  let ?ss = "List.map_filter (\<lambda>x. rt_Status (snd x)) (ea_Pools a')"
  have ss: "ValidOriginProbeStatus s \<and> ps_EstablishedConnections s = None \<and> (\<exists>x \<in> set (ea_Pools a'). rt_Status (snd x) = Some s \<and> ps_PoolID s = fst x)"
    if "s \<in> set ?ss" for s
    using that ok by (force simp: map_filter_def statuses_ok_def status_ok_def list_all_iff agreed_def table_ok_def entry_ok_def)
  have "length (ea_Pools a') \<le> 256" using ok by (simp add: agreed_def table_ok_def)
  moreover have "length ?ss \<le> length (ea_Pools a')" by (simp add: map_filter_def)
  ultimately have "length ?ss \<le> 256" by simp
  moreover have "distinct (map ps_PoolID ?ss)"
  proof -
    have "map ps_PoolID (List.map_filter (\<lambda>x. rt_Status (snd x)) rs) = map fst (filter (\<lambda>x. rt_Status (snd x) \<noteq> None) rs)"
      if "list_all (\<lambda>x. status_ok (snd x)) rs" "list_all (entry_ok cfg) rs" for rs
      using that by (induction rs) (auto simp: map_filter_simps status_ok_def entry_ok_def split: option.splits)
    with ok show ?thesis by (simp add: statuses_ok_def agreed_def table_ok_def distinct_map_filter)
  qed
  moreover have "map (\<lambda>s. s\<lparr>ps_EstablishedConnections := None\<rparr>) (filter P ?ss) = filter P ?ss" for P
    by (rule map_idI) (use ss in \<open>auto intro: origin_probe_status.equality\<close>)
  ultimately show ?thesis using assms(4) ss
    by (auto simp: ValidMachineOriginStatus_def validOriginProbeStatuses_def originProbeStatuses_def list_all_iff
        is_zero_time_def MaxOriginPools_def distinct_map intro: le_trans [OF length_filter_le] inj_on_subset)
qed

theorem origin_reports_are_valid_witness:
  "ValidMachineOriginStatus \<lparr>mo_CollectedAt = 5000, mo_OriginProbes = originProbeStatuses (cold_failure 1000 applied_agent)\<rparr>
   \<and> length (originProbeStatuses (cold_failure 1000 applied_agent)) = 1"
proof -
  have p: "validateOriginPool sample_config sample_pool = Inr ()" by code_simp
  have io: "probe_undo_works working_calls" by code_simp
  have fair: "fair_answer OriginProbeCold no_answer (Some ''connection refused'')" by code_simp
  have now: "zero_time < 1000" "zero_time < 5000" by code_simp+
  have "fair_step sample_config empty_agent applied_agent"
    unfolding applied_agent_def
    by (rule fair_step.applied) (simp_all add: undo_works_def true_listings_def cleanup_apart_def working_env_def sample_env_def sample_desired_def)
  moreover have "fair_step sample_config applied_agent (cold_failure 1000 applied_agent)"
    unfolding cold_failure_def by (rule fair_step.probed [OF p io fair now(1)])
  ultimately have steps: "(fair_step sample_config)\<^sup>*\<^sup>* empty_agent (cold_failure 1000 applied_agent)"
    by (meson converse_rtranclp_into_rtranclp r_into_rtranclp)
  have "agreed sample_config empty_agent" "statuses_ok empty_agent"
    by (simp_all add: agreed_def statuses_ok_def empty_agent_def table_ok_def serves_def saves_def)
  from origin_reports_are_valid [OF this steps now(2)]
  have "ValidMachineOriginStatus \<lparr>mo_CollectedAt = 5000, mo_OriginProbes = originProbeStatuses (cold_failure 1000 applied_agent)\<rparr>" .
  moreover have "length (originProbeStatuses (cold_failure 1000 applied_agent)) = 1" by code_simp
  ultimately show ?thesis by blast
qed

subsection \<open>Answers that are not fair\<close>

text \<open>
  C32: One origin that answers with an HTTP status outside 100 to 599 takes the statuses of all origins
  of its node off the report: its sample fails the validation, and with it the whole report, whatever
  the other origins answered.
\<close>

theorem unusual_status_hides_all_origins:
  assumes pool: "lookup_runtime (op_ID p) (ea_Pools a) = Some c" "sameOriginTransport (rt_Pool c) p"
    and probed: "applyOriginProbeResult cfg at io p kind m probeErr a = (a', None)" and at: "zero_time < at"
    and status: "om_HTTPStatus m > 599"
  shows "\<not> ValidMachineOriginStatus \<lparr>mo_CollectedAt = now, mo_OriginProbes = originProbeStatuses a'\<rparr>"
proof -
  let ?n = "circuit_step cfg kind (probeErr = None) c"
  let ?s = "probe_status at p kind m probeErr (rt_Status c) ?n" and ?x = "probe_sample m probeErr at"
  have pools: "ea_Pools a' = put_runtime (op_ID p) (?n\<lparr>rt_Status := Some ?s\<rparr>) (ea_Pools a)"
    using probed pool by (auto simp: applyOriginProbeResult_def Let_def split: if_splits prod.splits option.splits)
  have "(op_ID p, ?n\<lparr>rt_Status := Some ?s\<rparr>) \<in> set (ea_Pools a')"
    using lookup_put [of "op_ID p" "op_ID p"] by (auto simp: pools lookup_runtime_def intro: map_of_SomeD)
  moreover have "\<not> validOriginProbeSample ?x" using status by (simp add: validOriginProbeSample_def probe_sample_def)
  moreover have "?x \<in> set (status_samples ?s)"
    by (cases kind) (auto simp: probe_status_def Let_def samples_of split: option.split)
  ultimately have bad: "\<not> ValidOriginProbeStatus (?s\<lparr>ps_EstablishedConnections := None\<rparr>)"
    "?s \<in> set (List.map_filter (\<lambda>x. rt_Status (snd x)) (ea_Pools a'))"
    by (force simp: ValidOriginProbeStatus_def list_all_iff samples_of map_filter_def)+
  have "zero_time < ps_CheckedAt ?s"
  proof -
    have mono: "t \<le> fold (\<lambda>x t. if t < sa_CheckedAt x then sa_CheckedAt x else t) xs t" for xs t
      by (induction xs arbitrary: t) (auto intro: order_trans order.trans [OF less_imp_le])
    have "ps_CheckedAt ?s = fold (\<lambda>x t. if t < sa_CheckedAt x then sa_CheckedAt x else t) (status_samples ?s) at"
      by (simp add: probe_status_def Let_def)
    with mono [of at "status_samples ?s"] at show ?thesis by simp
  qed
  with bad show ?thesis
    by (auto simp: ValidMachineOriginStatus_def validOriginProbeStatuses_def originProbeStatuses_def list_all_iff is_zero_time_def)
qed

theorem unusual_status_hides_all_origins_witness:
  "\<not> ValidMachineOriginStatus \<lparr>mo_CollectedAt = 5000, mo_OriginProbes =
     originProbeStatuses (fst (applyOriginProbeResult sample_config 1000 working_calls sample_pool OriginProbeCold
       (no_answer\<lparr>om_HTTPStatus := 999\<rparr>) (Some ''origin returned HTTP 999'') one_pool_agent))\<rparr>"
proof -
  have pool: "lookup_runtime (op_ID sample_pool) (ea_Pools one_pool_agent) = Some (snd (hd (ea_Pools one_pool_agent)))"
    "sameOriginTransport (rt_Pool (snd (hd (ea_Pools one_pool_agent)))) sample_pool" by code_simp+
  let ?r = "applyOriginProbeResult sample_config 1000 working_calls sample_pool OriginProbeCold
       (no_answer\<lparr>om_HTTPStatus := 999\<rparr>) (Some ''origin returned HTTP 999'') one_pool_agent"
  have "snd ?r = None" by code_simp
  then have "?r = (fst ?r, None)" by (metis prod.collapse)
  moreover have "zero_time < 1000" "om_HTTPStatus (no_answer\<lparr>om_HTTPStatus := 999\<rparr>) > 599" by code_simp+
  ultimately show ?thesis by (rule unusual_status_hides_all_origins [OF pool])
qed

text \<open>An error of more than 512 bytes that has a space as its last kept rune makes an invalid sample, too.\<close>

lemma cut_errors_are_invalid:
  "let e = replicate 511 (CHR ''x'') @ '' yz'' in TrimSpace (sanitizeOriginError e) \<noteq> sanitizeOriginError e"
proof -
  let ?e = "replicate 511 (CHR ''x'') @ '' yz''" and ?c = "replicate 511 (CHR ''x'') @ '' ''"
  have plain: "plain_text ?e" by (simp add: plain_text_def list_all_iff byte_of_def)
  have runes: "runes ?e = map (\<lambda>c. [c]) ?e" by (rule runes_ascii) (auto simp: byte_of_def)
  have x: "take 3 ?e = ''xxx''" by (simp add: eval_nat_numeral)
  have "leading_space ?e = 0" by (simp only: leading_space_def x) (simp add: byte_of_def)
  moreover have "trailing_space ?e = 0" by (simp add: trailing_space_def leading_space_def byte_of_def)
  ultimately have trim: "TrimSpace ?e = ?e" by (simp add: TrimSpace_def TrimLeftSpace_fixed TrimRightSpace_fixed)
  have "take_runes 512 ?e = ?c" by (simp only: take_runes_def runes take_map) simp
  then have cut: "sanitizeOriginError ?e = ?c"
    by (simp add: sanitizeOriginError_def plain_blanked [OF plain] trim runes Let_def)
  have "trailing_space ?c = 1" by (simp add: trailing_space_def leading_space_def byte_of_def)
  then have "TrimSpace ?c \<noteq> ?c"
    using trailing_space_TrimRightSpace [of "TrimLeftSpace ?c"] by (metis TrimSpace_def zero_neq_one)
  then show ?thesis by (simp only: Let_def cut) simp
qed

end
