(* ===== verification/Origin_Schedule.thy ===== *)
theory Origin_Schedule
  imports Origin_Tables
begin

section \<open>When origins are probed, and what an answer means (internal/edge/origin_health.go)\<close>

text \<open>
  The probe loop keeps, for each pool, the times at which its next service and cold probe are due. Each
  iteration plans: it makes entries for new pools, pulls dues back into the interval that the state of
  the pool allows, collects the pools that are due and computes the time to wake up. The clock, the
  SHA-256 digests behind the jitter and the answers of the network are arguments.
\<close>

subsection \<open>Intervals and jitter\<close>

text \<open>\<open>New\<close> replaces intervals that are not positive.\<close>

definition positive_or :: "duration \<Rightarrow> duration \<Rightarrow> duration" where
  "positive_or default_value d = (if d \<le> 0 then default_value else d)"

definition second :: duration where
  "second = 1000000000"

definition originProbeInterval :: "edge_config \<Rightarrow> origin_probe_kind \<Rightarrow> bool \<Rightarrow> duration" where
  "originProbeInterval cfg kind degraded =
     (if kind = OriginProbeCold
      then (if degraded then positive_or (8 * second) (ec_OriginDegradedColdInterval cfg)
            else positive_or (40 * second) (ec_OriginColdProbeInterval cfg))
      else (if degraded then positive_or (5 * second) (ec_OriginDegradedProbeInterval cfg)
            else positive_or (5 * second) (ec_OriginProbeInterval cfg)))"

text \<open>\<open>digest\<close> gives the number in the first eight bytes of the digest of a purpose.\<close>

definition stableJitterWithin :: "(string \<Rightarrow> nat) \<Rightarrow> string \<Rightarrow> duration \<Rightarrow> duration" where
  "stableJitterWithin digest purpose maximum = (if maximum \<le> 0 then 0 else int (digest purpose) mod maximum)"

definition stableInterval :: "(string \<Rightarrow> nat) \<Rightarrow> string \<Rightarrow> duration \<Rightarrow> duration" where
  "stableInterval digest purpose base =
     (let spread = base div 5 in
      if spread \<le> 0 then base else base - spread + stableJitterWithin digest purpose (2 * spread + 1))"

fun kind_text :: "origin_probe_kind \<Rightarrow> string" where
  "kind_text OriginProbeService = ''service''"
| "kind_text OriginProbeCold = ''cold''"

definition originProbeInitialDelay :: "edge_config \<Rightarrow> (string \<Rightarrow> nat) \<Rightarrow> string \<Rightarrow> origin_probe_kind \<Rightarrow> bool \<Rightarrow> duration" where
  "originProbeInitialDelay cfg digest poolID kind degraded =
     stableJitterWithin digest (''origin-probe-start-'' @ kind_text kind @ ''-'' @ poolID)
       (originProbeInterval cfg kind degraded div 5)"

definition originProbeDelay :: "edge_config \<Rightarrow> (string \<Rightarrow> nat) \<Rightarrow> string \<Rightarrow> origin_probe_kind \<Rightarrow> bool \<Rightarrow> duration" where
  "originProbeDelay cfg digest poolID kind degraded =
     stableInterval digest
       (''origin-probe-'' @ kind_text kind @ ''-'' @ (if degraded then ''degraded'' else ''stable'') @ ''-'' @ poolID)
       (originProbeInterval cfg kind degraded)"

subsection \<open>Targets\<close>

record origin_probe_target =
  ot_Pool :: origin_pool
  ot_Degraded :: bool

definition originProbeTargets :: "edge_agent \<Rightarrow> origin_probe_target list" where
  "originProbeTargets a =
     sort_key (\<lambda>t. op_ID (ot_Pool t))
       (map (\<lambda>x. \<lparr>ot_Pool = rt_Pool (snd x), ot_Degraded = originRuntimeDegraded (snd x)\<rparr>) (ea_Pools a))"

definition originProbeDegraded :: "edge_agent \<Rightarrow> string \<Rightarrow> bool \<times> bool" where
  "originProbeDegraded a poolID =
     (case lookup_runtime poolID (ea_Pools a) of None \<Rightarrow> (False, False) | Some r \<Rightarrow> (originRuntimeDegraded r, True))"

subsection \<open>A plan\<close>

record origin_probe_schedule =
  os_ServiceDue :: time
  os_ColdDue :: time

type_synonym schedules = "string \<Rightarrow> origin_probe_schedule option"

record probe_plan =
  pl_Schedules :: schedules
  pl_Service :: "origin_pool list"
  pl_Cold :: "origin_pool list"
  pl_NextWake :: time

definition earlierTime :: "time \<Rightarrow> time \<Rightarrow> time" where
  "earlierTime current candidate = (if is_zero_time current \<or> candidate < current then candidate else current)"

definition pull_back :: "time \<Rightarrow> duration \<Rightarrow> time \<Rightarrow> time" where
  "pull_back now interval due = (if due > now + interval then now + interval else due)"

definition new_schedule :: "edge_config \<Rightarrow> (string \<Rightarrow> nat) \<Rightarrow> time \<Rightarrow> origin_probe_target \<Rightarrow> origin_probe_schedule" where
  "new_schedule cfg digest now t =
     (let i = op_ID (ot_Pool t) in
      \<lparr>os_ServiceDue = now + originProbeInitialDelay cfg digest i OriginProbeService (ot_Degraded t),
       os_ColdDue = now + originProbeInitialDelay cfg digest i OriginProbeCold (ot_Degraded t)\<rparr>)"

definition plan_schedule ::
    "edge_config \<Rightarrow> (string \<Rightarrow> nat) \<Rightarrow> time \<Rightarrow> schedules \<Rightarrow> origin_probe_target \<Rightarrow> origin_probe_schedule" where
  "plan_schedule cfg digest now schedules t =
     (let s = (case schedules (op_ID (ot_Pool t)) of Some s \<Rightarrow> s | None \<Rightarrow> new_schedule cfg digest now t) in
      \<lparr>os_ServiceDue = pull_back now (originProbeInterval cfg OriginProbeService (ot_Degraded t)) (os_ServiceDue s),
       os_ColdDue = pull_back now (originProbeInterval cfg OriginProbeCold (ot_Degraded t)) (os_ColdDue s)\<rparr>)"

definition plan_target :: "edge_config \<Rightarrow> (string \<Rightarrow> nat) \<Rightarrow> time \<Rightarrow> origin_probe_target \<Rightarrow> probe_plan \<Rightarrow> probe_plan" where
  "plan_target cfg digest now t pl =
     (let s = plan_schedule cfg digest now (pl_Schedules pl) t;
          p1 = pl\<lparr>pl_Schedules := (pl_Schedules pl)(op_ID (ot_Pool t) \<mapsto> s)\<rparr>;
          p2 = (if os_ServiceDue s > now then p1\<lparr>pl_NextWake := earlierTime (pl_NextWake p1) (os_ServiceDue s)\<rparr>
                else p1\<lparr>pl_Service := pl_Service p1 @ [ot_Pool t]\<rparr>)
      in if os_ColdDue s > now then p2\<lparr>pl_NextWake := earlierTime (pl_NextWake p2) (os_ColdDue s)\<rparr>
         else p2\<lparr>pl_Cold := pl_Cold p2 @ [ot_Pool t]\<rparr>)"

definition plan_probes :: "edge_config \<Rightarrow> (string \<Rightarrow> nat) \<Rightarrow> time \<Rightarrow> origin_probe_target list \<Rightarrow> schedules \<Rightarrow> probe_plan" where
  "plan_probes cfg digest now targets schedules =
     (let pl = fold (plan_target cfg digest now) targets
            \<lparr>pl_Schedules = schedules, pl_Service = [], pl_Cold = [], pl_NextWake = zero_time\<rparr>
      in pl\<lparr>pl_Schedules := (\<lambda>i. if i \<in> set (map (\<lambda>t. op_ID (ot_Pool t)) targets) then pl_Schedules pl i else None)\<rparr>)"

subsection \<open>An iteration\<close>

text \<open>After a round the pools that are still there get new dues; a missing entry would be a nil pointer.\<close>

fun reschedule ::
    "edge_config \<Rightarrow> (string \<Rightarrow> nat) \<Rightarrow> origin_probe_kind \<Rightarrow> time \<Rightarrow> edge_agent \<Rightarrow> origin_pool list \<Rightarrow> schedules \<Rightarrow> schedules option" where
  "reschedule cfg digest kind finished a [] schedules = Some schedules"
| "reschedule cfg digest kind finished a (p # ps) schedules =
     (case originProbeDegraded a (op_ID p) of
        (degraded, exist) \<Rightarrow>
          if \<not> exist then reschedule cfg digest kind finished a ps schedules
          else (case schedules (op_ID p) of None \<Rightarrow> None | Some s \<Rightarrow>
            let due = finished + originProbeDelay cfg digest (op_ID p) kind degraded;
                s' = (if kind = OriginProbeCold then s\<lparr>os_ColdDue := due\<rparr> else s\<lparr>os_ServiceDue := due\<rparr>)
            in reschedule cfg digest kind finished a ps (schedules(op_ID p \<mapsto> s'))))"

text \<open>The agent before the iteration and after each round, and the times read; the result is the new
  schedules and, when no pool was due, how long to wait.\<close>

definition probe_iteration ::
    "edge_config \<Rightarrow> (string \<Rightarrow> nat) \<Rightarrow> time \<Rightarrow> edge_agent \<Rightarrow> edge_agent \<times> time \<Rightarrow> edge_agent \<times> time \<Rightarrow> time \<Rightarrow> schedules \<Rightarrow>
     (schedules \<times> duration option) option" where
  "probe_iteration cfg digest now a served colded waits schedules =
     (let pl = plan_probes cfg digest now (originProbeTargets a) schedules in
      case (if pl_Service pl = [] then Some (pl_Schedules pl)
            else reschedule cfg digest OriginProbeService (snd served) (fst served) (pl_Service pl) (pl_Schedules pl)) of
        None \<Rightarrow> None
      | Some s1 \<Rightarrow>
          (case (if pl_Cold pl = [] then Some s1
                 else reschedule cfg digest OriginProbeCold (snd colded) (fst colded) (pl_Cold pl) s1) of
             None \<Rightarrow> None
           | Some s2 \<Rightarrow>
               if pl_Service pl \<noteq> [] \<or> pl_Cold pl \<noteq> [] then Some (s2, None)
               else let wake = (if is_zero_time (pl_NextWake pl) then now + 3600 * second else pl_NextWake pl)
                 in Some (s2, Some (wake - waits))))"

subsection \<open>Answers\<close>

record http_answer =
  ha_Proto :: string
  ha_ProtoMajor :: int
  ha_StatusCode :: int
  ha_Body :: outcome

definition http_verdict :: "origin_pool \<Rightarrow> http_answer \<Rightarrow> outcome" where
  "http_verdict p r =
     (let wanted = effectivePoolHTTPVersion p in
      if (wanted = OriginHTTPVersionHTTP2 \<or> wanted = OriginHTTPVersionH2C) \<and> ha_ProtoMajor r \<noteq> 2
      then Some (Errorf ''origin negotiated %s instead of HTTP/2'' [ArgS (ha_Proto r)])
      else if wanted = OriginHTTPVersionHTTP1 \<and> ha_ProtoMajor r \<noteq> 1
      then Some (Errorf ''origin negotiated %s instead of HTTP/1.1'' [ArgS (ha_Proto r)])
      else if ha_Body r \<noteq> None then ha_Body r
      else if ha_StatusCode r \<ge> 500 then Some (Errorf ''origin returned HTTP %d'' [ArgI (ha_StatusCode r)])
      else None)"

text \<open>The answer of \<open>client.Do\<close>, and the durations and the reuse that were traced.\<close>

definition probeOriginHTTP ::
    "origin_pool \<Rightarrow> origin_probe_measurement \<Rightarrow> outcome \<Rightarrow> http_answer result \<Rightarrow> origin_probe_measurement \<times> outcome" where
  "probeOriginHTTP p traced badRequest answer =
     (case EffectiveOriginHealthCheck (op_HealthCheckMethod p) (op_HealthCheckPath p) of
        (healthMethod, healthPath) \<Rightarrow>
          (case ValidateOriginHealthCheck healthMethod healthPath of Inl e \<Rightarrow> (traced, Some e) | Inr _ \<Rightarrow>
           if badRequest \<noteq> None then (traced, badRequest)
           else (case answer of
               Inl e \<Rightarrow> (traced, Some e)
             | Inr r \<Rightarrow> (traced\<lparr>om_HTTPStatus := ha_StatusCode r\<rparr>, http_verdict p r))))"

datatype grpc_answer = GrpcServing | GrpcNotServing string | GrpcUnimplemented | GrpcError go_error

definition probeOriginGRPC :: "origin_probe_measurement \<Rightarrow> grpc_answer \<Rightarrow> origin_probe_measurement \<times> outcome" where
  "probeOriginGRPC measured answer =
     (measured, case answer of GrpcServing \<Rightarrow> None | GrpcUnimplemented \<Rightarrow> None | GrpcError e \<Rightarrow> Some e
        | GrpcNotServing status \<Rightarrow> Some (Errorf ''origin gRPC health status is %s'' [ArgS status]))"

record transport_answer =
  ta_Dial :: outcome
  ta_Handshake :: outcome
  ta_Protocol :: string

definition probeOriginTransport ::
    "origin_pool \<Rightarrow> origin_probe_measurement \<Rightarrow> transport_answer \<Rightarrow> origin_probe_measurement \<times> outcome" where
  "probeOriginTransport p measured r =
     (if ta_Dial r \<noteq> None then (measured\<lparr>om_TLSHandshakeDuration := 0\<rparr>, ta_Dial r)
      else if op_Scheme p = ''grpcs'' then
        (if ta_Handshake r \<noteq> None then (measured, ta_Handshake r)
         else if ta_Protocol r \<noteq> ''h2'' then (measured, Some (err ''origin did not negotiate HTTP/2''))
         else (measured, None))
      else (measured\<lparr>om_TLSHandshakeDuration := 0\<rparr>, None))"

text \<open>Which of these a probe of a kind uses; cold HTTP probes never reuse a connection.\<close>

record probe_answers =
  pa_Traced :: origin_probe_measurement
  pa_Client :: outcome
  pa_BadRequest :: outcome
  pa_HTTP :: "http_answer result"
  pa_GRPC :: grpc_answer
  pa_Transport :: transport_answer

definition is_grpc :: "origin_pool \<Rightarrow> bool" where
  "is_grpc p \<longleftrightarrow> op_Scheme p = ''grpc'' \<or> op_Scheme p = ''grpcs''"

definition no_measurement :: origin_probe_measurement where
  "no_measurement = \<lparr>om_ConnectionReused = False, om_ConnectDuration = 0, om_TLSHandshakeDuration = 0, om_HeaderDuration = 0,
     om_TotalDuration = 0, om_HTTPStatus = 0\<rparr>"

definition Probe :: "origin_pool \<Rightarrow> origin_probe_kind \<Rightarrow> probe_answers \<Rightarrow> origin_probe_measurement \<times> outcome" where
  "Probe p kind r =
     (let m = (pa_Traced r)\<lparr>om_HTTPStatus := 0\<rparr> in
      case kind of
        OriginProbeService \<Rightarrow>
          if is_grpc p then
            (case pa_Client r of Some e \<Rightarrow> (no_measurement, Some e) | None \<Rightarrow> probeOriginGRPC m (pa_GRPC r))
          else probeOriginHTTP p m (pa_BadRequest r) (pa_HTTP r)
      | OriginProbeCold \<Rightarrow>
          if is_grpc p then probeOriginTransport p (m\<lparr>om_ConnectionReused := False, om_HeaderDuration := 0\<rparr>) (pa_Transport r)
          else probeOriginHTTP p (m\<lparr>om_ConnectionReused := False\<rparr>) (pa_BadRequest r) (pa_HTTP r))"

end
