(* ===== verification/Schedule_Properties.thy ===== *)
theory Schedule_Properties
  imports Origin_Schedule
begin

section \<open>No pool waits longer than its interval\<close>

text \<open>A layer of a pool is due now and collected, or due within the interval and woken up for.\<close>

definition layer_on_time :: "time \<Rightarrow> duration \<Rightarrow> time \<Rightarrow> origin_pool \<Rightarrow> origin_pool list \<Rightarrow> time \<Rightarrow> bool" where
  "layer_on_time now interval due p collected wake \<longleftrightarrow>
     due \<le> now \<and> p \<in> set collected \<or> now < due \<and> due \<le> now + interval \<and> \<not> is_zero_time wake \<and> wake \<le> due"

definition on_time :: "edge_config \<Rightarrow> time \<Rightarrow> probe_plan \<Rightarrow> origin_probe_target \<Rightarrow> bool" where
  "on_time cfg now pl t \<longleftrightarrow>
     (case pl_Schedules pl (op_ID (ot_Pool t)) of None \<Rightarrow> False
      | Some s \<Rightarrow>
          layer_on_time now (originProbeInterval cfg OriginProbeService (ot_Degraded t)) (os_ServiceDue s) (ot_Pool t)
            (pl_Service pl) (pl_NextWake pl)
          \<and> layer_on_time now (originProbeInterval cfg OriginProbeCold (ot_Degraded t)) (os_ColdDue s) (ot_Pool t)
            (pl_Cold pl) (pl_NextWake pl))"

lemma interval_pos: "0 < originProbeInterval cfg kind degraded"
  by (simp add: originProbeInterval_def positive_or_def second_def)

text \<open>Planning one more target keeps what was planned for others.\<close>

definition wake_ok :: "time \<Rightarrow> time \<Rightarrow> bool" where
  "wake_ok now wake \<longleftrightarrow> is_zero_time wake \<or> now < wake"

lemma earlier: "wake_ok now w \<Longrightarrow> now < c \<Longrightarrow> zero_time < now \<Longrightarrow>
    wake_ok now (earlierTime w c) \<and> \<not> is_zero_time (earlierTime w c) \<and> earlierTime w c \<le> c
    \<and> (\<not> is_zero_time w \<longrightarrow> earlierTime w c \<le> w)"
  by (auto simp: wake_ok_def earlierTime_def is_zero_time_def)

definition extends :: "time \<Rightarrow> probe_plan \<Rightarrow> probe_plan \<Rightarrow> bool" where
  "extends now pl pl' \<longleftrightarrow> set (pl_Service pl) \<subseteq> set (pl_Service pl') \<and> set (pl_Cold pl) \<subseteq> set (pl_Cold pl')
     \<and> (\<not> is_zero_time (pl_NextWake pl) \<longrightarrow> \<not> is_zero_time (pl_NextWake pl') \<and> pl_NextWake pl' \<le> pl_NextWake pl)"

lemma on_time_extends:
  "on_time cfg now pl t \<Longrightarrow> extends now pl pl' \<Longrightarrow> pl_Schedules pl' (op_ID (ot_Pool t)) = pl_Schedules pl (op_ID (ot_Pool t)) \<Longrightarrow>
    on_time cfg now pl' t"
  by (auto simp: on_time_def layer_on_time_def extends_def split: option.splits)

lemma plan_target_step:
  assumes wake: "wake_ok now (pl_NextWake pl)" and now: "zero_time < now"
  shows "wake_ok now (pl_NextWake (plan_target cfg digest now t pl)) \<and> extends now pl (plan_target cfg digest now t pl)
    \<and> on_time cfg now (plan_target cfg digest now t pl) t
    \<and> (\<forall>i. i \<noteq> op_ID (ot_Pool t) \<longrightarrow> pl_Schedules (plan_target cfg digest now t pl) i = pl_Schedules pl i)
    \<and> set (pl_Service (plan_target cfg digest now t pl)) \<subseteq> insert (ot_Pool t) (set (pl_Service pl))
    \<and> set (pl_Cold (plan_target cfg digest now t pl)) \<subseteq> insert (ot_Pool t) (set (pl_Cold pl))"
proof -
  define s where "s = plan_schedule cfg digest now (pl_Schedules pl) t"
  have le: "os_ServiceDue s \<le> now + originProbeInterval cfg OriginProbeService (ot_Degraded t)"
    "os_ColdDue s \<le> now + originProbeInterval cfg OriginProbeCold (ot_Degraded t)"
    by (simp_all add: s_def plan_schedule_def pull_back_def Let_def)
  let ?w1 = "if os_ServiceDue s > now then earlierTime (pl_NextWake pl) (os_ServiceDue s) else pl_NextWake pl"
  have w1: "wake_ok now ?w1" "os_ServiceDue s > now \<Longrightarrow> \<not> is_zero_time ?w1 \<and> ?w1 \<le> os_ServiceDue s"
    "\<not> is_zero_time (pl_NextWake pl) \<Longrightarrow> \<not> is_zero_time ?w1 \<and> ?w1 \<le> pl_NextWake pl"
    using wake earlier [OF wake _ now] by auto
  let ?w2 = "if os_ColdDue s > now then earlierTime ?w1 (os_ColdDue s) else ?w1"
  have w2: "wake_ok now ?w2" "os_ColdDue s > now \<Longrightarrow> \<not> is_zero_time ?w2 \<and> ?w2 \<le> os_ColdDue s"
    "\<not> is_zero_time ?w1 \<Longrightarrow> \<not> is_zero_time ?w2 \<and> ?w2 \<le> ?w1"
    using w1(1) earlier [OF w1(1) _ now] by auto
  have eq: "pl_Schedules (plan_target cfg digest now t pl) = (pl_Schedules pl)(op_ID (ot_Pool t) \<mapsto> s)"
    "pl_Service (plan_target cfg digest now t pl) = (if os_ServiceDue s > now then pl_Service pl else pl_Service pl @ [ot_Pool t])"
    "pl_Cold (plan_target cfg digest now t pl) = (if os_ColdDue s > now then pl_Cold pl else pl_Cold pl @ [ot_Pool t])"
    "pl_NextWake (plan_target cfg digest now t pl) = ?w2"
    by (simp_all add: plan_target_def Let_def s_def)
  have "extends now pl (plan_target cfg digest now t pl)"
    unfolding extends_def eq(2-4) using w1(3) w2(3) by (auto intro: order_trans)
  moreover have "on_time cfg now (plan_target cfg digest now t pl) t"
    unfolding on_time_def layer_on_time_def eq using le w1(2) w2(2,3) by (auto intro: order_trans)
  ultimately show ?thesis using w2(1) by (simp add: eq subset_insertI)
qed

lemma plan_fold:
  assumes "wake_ok now (pl_NextWake pl)" and "zero_time < now"
    and "distinct (map (\<lambda>t. op_ID (ot_Pool t)) ts)"
  shows "wake_ok now (pl_NextWake (fold (plan_target cfg digest now) ts pl))
    \<and> extends now pl (fold (plan_target cfg digest now) ts pl)
    \<and> (\<forall>t \<in> set ts. on_time cfg now (fold (plan_target cfg digest now) ts pl) t)
    \<and> (\<forall>i. i \<notin> set (map (\<lambda>t. op_ID (ot_Pool t)) ts) \<longrightarrow> pl_Schedules (fold (plan_target cfg digest now) ts pl) i = pl_Schedules pl i)
    \<and> set (pl_Service (fold (plan_target cfg digest now) ts pl)) \<subseteq> set (pl_Service pl) \<union> set (map ot_Pool ts)
    \<and> set (pl_Cold (fold (plan_target cfg digest now) ts pl)) \<subseteq> set (pl_Cold pl) \<union> set (map ot_Pool ts)"
  using assms
proof (induction ts arbitrary: pl)
  case Nil
  then show ?case by (simp add: extends_def)
next
  case (Cons t ts)
  let ?p = "plan_target cfg digest now t pl"
  let ?q = "fold (plan_target cfg digest now) ts ?p"
  note step = plan_target_step [OF Cons.prems(1,2), of cfg digest t]
  have d: "distinct (map (\<lambda>t. op_ID (ot_Pool t)) ts)" "op_ID (ot_Pool t) \<notin> set (map (\<lambda>t. op_ID (ot_Pool t)) ts)"
    using Cons.prems(3) by auto
  note ih = Cons.IH [OF conjunct1 [OF step] Cons.prems(2) d(1)]
  have "on_time cfg now ?q t"
    using on_time_extends [of cfg now ?p t ?q] step ih d(2) by blast
  moreover have "extends now pl ?q"
    using step ih by (auto simp: extends_def intro: order_trans)
  ultimately show ?case using ih step by auto
qed

lemma plan_on_time:
  assumes "distinct (map (\<lambda>t. op_ID (ot_Pool t)) ts)" and "zero_time < now"
  shows "list_all (on_time cfg now (plan_probes cfg digest now ts schedules)) ts
    \<and> wake_ok now (pl_NextWake (plan_probes cfg digest now ts schedules))
    \<and> set (pl_Service (plan_probes cfg digest now ts schedules)) \<subseteq> set (map ot_Pool ts)
    \<and> set (pl_Cold (plan_probes cfg digest now ts schedules)) \<subseteq> set (map ot_Pool ts)"
proof -
  let ?start = "\<lparr>pl_Schedules = schedules, pl_Service = [], pl_Cold = [], pl_NextWake = zero_time\<rparr>"
  have "wake_ok now (pl_NextWake ?start)" by (simp add: wake_ok_def is_zero_time_def)
  note f = plan_fold [OF this assms(2,1), of cfg digest]
  have "on_time cfg now (plan_probes cfg digest now ts schedules) t" if "t \<in> set ts" for t
    by (rule on_time_extends [of cfg now "fold (plan_target cfg digest now) ts ?start"])
      (use f that in \<open>simp_all add: plan_probes_def Let_def extends_def\<close>)
  with f show ?thesis by (auto simp: list_all_iff plan_probes_def Let_def)
qed

subsection \<open>No missing entry\<close>

lemma reschedule_some:
  "\<forall>p \<in> set ps. schedules (op_ID p) \<noteq> None \<Longrightarrow>
    \<exists>s. reschedule cfg digest kind finished a ps schedules = Some s \<and> dom s = dom schedules"
proof (induction ps arbitrary: schedules)
  case (Cons p ps)
  obtain degraded ex where e: "originProbeDegraded a (op_ID p) = (degraded, ex)" by force
  show ?case
  proof (cases ex)
    case False
    with Cons e show ?thesis by simp
  next
    case True
    from Cons.prems obtain s where s: "schedules (op_ID p) = Some s" by auto
    let ?new = "schedules(op_ID p \<mapsto> (if kind = OriginProbeCold
      then s\<lparr>os_ColdDue := finished + originProbeDelay cfg digest (op_ID p) kind degraded\<rparr>
      else s\<lparr>os_ServiceDue := finished + originProbeDelay cfg digest (op_ID p) kind degraded\<rparr>))"
    have "\<forall>p \<in> set ps. ?new (op_ID p) \<noteq> None" using Cons.prems by simp
    from Cons.IH [OF this] obtain s' where "reschedule cfg digest kind finished a ps ?new = Some s'" "dom s' = dom ?new" by blast
    with e True s show ?thesis by (intro exI [of _ s']) (auto simp: Let_def)
  qed
qed simp

lemma distinct_map_sort: "distinct (map f xs) \<Longrightarrow> distinct (map f (sort_key g xs))"
  by (simp add: distinct_map)

lemma targets_distinct:
  assumes "table_ok cfg (ea_Pools a)"
  shows "distinct (map (\<lambda>t. op_ID (ot_Pool t)) (originProbeTargets a))"
proof -
  let ?f = "\<lambda>x. \<lparr>ot_Pool = rt_Pool (snd x), ot_Degraded = originRuntimeDegraded (snd x)\<rparr>"
  have "map (\<lambda>x. op_ID (rt_Pool (snd x))) (ea_Pools a) = map fst (ea_Pools a)"
    using assms by (auto simp: table_ok_def list_all_iff entry_ok_def)
  moreover have "map (\<lambda>t. op_ID (ot_Pool t)) (map ?f (ea_Pools a)) = map (\<lambda>x. op_ID (rt_Pool (snd x))) (ea_Pools a)" by simp
  ultimately have "distinct (map (\<lambda>t. op_ID (ot_Pool t)) (map ?f (ea_Pools a)))"
    using assms unfolding table_ok_def by presburger
  then show ?thesis unfolding originProbeTargets_def by (rule distinct_map_sort)
qed

text \<open>
  C30: The probe loop never lets a pool wait: whatever the schedules were, after planning each layer of
  each pool is collected for a probe now, or it is due within the interval for its present state (the
  short one when the pool is degraded) and the loop wakes up in time. The wait ends in the future, and
  no round runs into a missing schedule.
\<close>

theorem probes_are_on_time:
  assumes table: "table_ok cfg (ea_Pools a)" and now: "zero_time < now"
  shows "list_all (on_time cfg now (plan_probes cfg digest now (originProbeTargets a) schedules)) (originProbeTargets a)
    \<and> wake_ok now (pl_NextWake (plan_probes cfg digest now (originProbeTargets a) schedules))
    \<and> probe_iteration cfg digest now a served colded waits schedules \<noteq> None"
proof -
  let ?ts = "originProbeTargets a" and ?pl = "plan_probes cfg digest now (originProbeTargets a) schedules"
  note plan = plan_on_time [OF targets_distinct [OF table] now, of cfg digest schedules]
  have entries: "\<forall>p \<in> set (map ot_Pool ?ts). pl_Schedules ?pl (op_ID p) \<noteq> None"
    using plan by (auto simp: list_all_iff on_time_def split: option.splits)
  with plan have "\<forall>p \<in> set (pl_Service ?pl). pl_Schedules ?pl (op_ID p) \<noteq> None" by blast
  from reschedule_some [OF this, of cfg digest OriginProbeService "snd served" "fst served"] obtain s1 where
    s1: "reschedule cfg digest OriginProbeService (snd served) (fst served) (pl_Service ?pl) (pl_Schedules ?pl) = Some s1"
      "dom s1 = dom (pl_Schedules ?pl)" by blast
  have cold: "\<forall>p \<in> set (pl_Cold ?pl). s (op_ID p) \<noteq> None" if "dom s = dom (pl_Schedules ?pl)" for s
    using plan entries that by (metis domIff subsetD)
  have "\<exists>s2. reschedule cfg digest OriginProbeCold (snd colded) (fst colded) (pl_Cold ?pl) s = Some s2"
    if "dom s = dom (pl_Schedules ?pl)" for s
    using reschedule_some [OF cold [OF that]] by blast
  with s1 obtain s2 s3 where
    "reschedule cfg digest OriginProbeCold (snd colded) (fst colded) (pl_Cold ?pl) (pl_Schedules ?pl) = Some s2"
    "reschedule cfg digest OriginProbeCold (snd colded) (fst colded) (pl_Cold ?pl) s1 = Some s3" by metis
  with s1 have "probe_iteration cfg digest now a served colded waits schedules \<noteq> None"
    by (auto simp: probe_iteration_def Let_def split: option.splits)
  with plan show ?thesis by blast
qed

theorem probes_are_on_time_witness:
  "list_all (on_time sample_config 1000 (plan_probes sample_config (\<lambda>p. 7) 1000
     [\<lparr>ot_Pool = sample_pool, ot_Degraded = False\<rparr>] (\<lambda>i. Some \<lparr>os_ServiceDue = 900, os_ColdDue = 99 * 1000000000\<rparr>)))
     [\<lparr>ot_Pool = sample_pool, ot_Degraded = False\<rparr>]"
proof -
  let ?a = "\<lparr>ea_Pools = [(op_ID sample_pool, fresh_runtime sample_pool)], ea_Files = (\<lambda>p. None), ea_Loaded = (\<lambda>p. None),
    ea_ApplyReport = None, ea_ApplyReportSeq = 0\<rparr>"
  have "table_ok sample_config (ea_Pools ?a)" by code_simp
  moreover have "zero_time < 1000" by code_simp
  moreover have "originProbeTargets ?a = [\<lparr>ot_Pool = sample_pool, ot_Degraded = False\<rparr>]" by code_simp
  ultimately show ?thesis using probes_are_on_time [of sample_config ?a 1000 "\<lambda>p. 7"] by simp
qed

end
