(* ===== verification/Auth_Store.thy ===== *)
theory Auth_Store
  imports Store_State Go_Strings
begin

section \<open>The administrator, sessions and login attempts\<close>

text \<open>
  The tables behind the login: the administrator with the time step of the last one-time password, the
  recovery codes, the sessions and the attempts that count against the limits. Tokens and keys are
  stored as their SHA-256 digests in hexadecimal; that function is the argument \<open>H\<close>. A method that
  changes one table with one statement is a function on the store; identifiers of rows that no
  query reads are left out.
\<close>

definition unique_error :: go_error where
  "unique_error = err ''UNIQUE constraint failed''"

definition foreign_key_failed :: go_error where
  "foreign_key_failed = err ''FOREIGN KEY constraint failed''"

definition find_admin :: "store \<Rightarrow> string \<Rightarrow> admin_user option" where
  "find_admin s userID = find_row (\<lambda>a. au_ID a = userID) (admins s)"

subsection \<open>The administrator\<close>

definition HasAdmin :: "store \<Rightarrow> bool" where
  "HasAdmin s \<longleftrightarrow> count_rows (\<lambda>_. True) (admins s) > 0"

text \<open>The code hash is the primary key of \<open>recovery_codes\<close>.\<close>

definition insert_code :: "time \<Rightarrow> string \<Rightarrow> string \<Rightarrow> recovery_code list \<Rightarrow> recovery_code list result" where
  "insert_code now userID codeHash codes =
     (if list_ex (\<lambda>c. rc_CodeHash c = codeHash) codes then Inl unique_error
      else Inr (codes @ [\<lparr>rc_CodeHash = codeHash, rc_UserID = userID, rc_UsedAt = None, rc_CreatedAt = now\<rparr>]))"

fun insert_codes :: "(string \<Rightarrow> bool) \<Rightarrow> time \<Rightarrow> string \<Rightarrow> string list \<Rightarrow> recovery_code list \<Rightarrow> recovery_code list result" where
  "insert_codes refused now userID [] codes = Inr codes"
| "insert_codes refused now userID (h # hs) codes =
     (if refused h then Inl (err ''recovery code hash is required'')
      else (case insert_code now userID h codes of
          Inl e \<Rightarrow> Inl e
        | Inr codes' \<Rightarrow> insert_codes refused now userID hs codes'))"

definition createInitialAdminWithRecoveryCodes ::
    "time \<Rightarrow> string \<Rightarrow> string \<Rightarrow> string list \<Rightarrow> int option \<Rightarrow> store \<Rightarrow> store result" where
  "createInitialAdminWithRecoveryCodes now passwordHash totpSecret hashes totpCounter s =
     (if passwordHash = [] \<or> totpSecret = [] then Inl (err ''password hash and totp secret are required'')
      else if count_rows (\<lambda>_. True) (admins s) \<noteq> 0 then Inl (err ''an admin account already exists'')
      else (case insert_codes (\<lambda>h. TrimSpace h = []) now ''admin'' hashes (recovery_codes s) of
          Inl e \<Rightarrow> Inl e
        | Inr codes \<Rightarrow> Inr (s\<lparr>
            admins := admins s @ [\<lparr>au_ID = ''admin'', au_PasswordHash = passwordHash, au_TOTPSecret = totpSecret,
              au_PasskeyEnabled = False, au_LastTOTPCounter = totpCounter, au_CreatedAt = now, au_UpdatedAt = now\<rparr>],
            recovery_codes := codes\<rparr>)))"

definition CreateInitialAdmin :: "time \<Rightarrow> string \<Rightarrow> string \<Rightarrow> store \<Rightarrow> store result" where
  "CreateInitialAdmin now passwordHash totpSecret = createInitialAdminWithRecoveryCodes now passwordHash totpSecret [] None"

definition CreateInitialAdminWithRecoveryCodesAndTOTPCounter ::
    "time \<Rightarrow> string \<Rightarrow> string \<Rightarrow> string list \<Rightarrow> int \<Rightarrow> store \<Rightarrow> store result" where
  "CreateInitialAdminWithRecoveryCodesAndTOTPCounter now passwordHash totpSecret hashes totpCounter =
     createInitialAdminWithRecoveryCodes now passwordHash totpSecret hashes (Some totpCounter)"

text \<open>An UPDATE of the administrator with a given identifier; \<open>id\<close> is the primary key.\<close>

definition update_admin :: "(admin_user \<Rightarrow> bool) \<Rightarrow> string \<Rightarrow> (admin_user \<Rightarrow> admin_user) \<Rightarrow> store \<Rightarrow> store result" where
  "update_admin P userID f s =
     (if count_rows (\<lambda>a. au_ID a = userID \<and> P a) (admins s) \<noteq> 1 then Inl ErrNotFound
      else Inr (s\<lparr>admins := update_rows (\<lambda>a. au_ID a = userID \<and> P a) f (admins s)\<rparr>))"

definition ReplacePassword :: "time \<Rightarrow> string \<Rightarrow> string \<Rightarrow> store \<Rightarrow> store result" where
  "ReplacePassword now userID passwordHash =
     update_admin (\<lambda>_. True) userID (\<lambda>a. a\<lparr>au_PasswordHash := passwordHash, au_UpdatedAt := now\<rparr>)"

definition ReplaceAdminTOTPSecret :: "time \<Rightarrow> string \<Rightarrow> string \<Rightarrow> store \<Rightarrow> store result" where
  "ReplaceAdminTOTPSecret now userID totpSecret s =
     (if TrimSpace totpSecret = [] then Inl (err ''TOTP secret is required'')
      else update_admin (\<lambda>_. True) userID (\<lambda>a. a\<lparr>au_TOTPSecret := totpSecret, au_UpdatedAt := now\<rparr>) s)"

definition ReplaceAdminTOTPSecretWithCounter :: "time \<Rightarrow> string \<Rightarrow> string \<Rightarrow> int \<Rightarrow> store \<Rightarrow> store result" where
  "ReplaceAdminTOTPSecretWithCounter now userID totpSecret totpCounter s =
     (if TrimSpace totpSecret = [] then Inl (err ''TOTP secret is required'')
      else update_admin (\<lambda>_. True) userID
        (\<lambda>a. a\<lparr>au_TOTPSecret := totpSecret, au_LastTOTPCounter := Some totpCounter, au_UpdatedAt := now\<rparr>) s)"

text \<open>A time step is accepted when it is later than the last one accepted.\<close>

definition fresh_counter :: "int \<Rightarrow> admin_user \<Rightarrow> bool" where
  "fresh_counter counter a \<longleftrightarrow> (case au_LastTOTPCounter a of None \<Rightarrow> True | Some c \<Rightarrow> c < counter)"

definition ConsumeAdminTOTPCounter :: "time \<Rightarrow> string \<Rightarrow> int \<Rightarrow> store \<Rightarrow> store result" where
  "ConsumeAdminTOTPCounter now userID counter =
     update_admin (fresh_counter counter) userID (\<lambda>a. a\<lparr>au_LastTOTPCounter := Some counter, au_UpdatedAt := now\<rparr>)"

definition ReplaceRecoveryCodes :: "time \<Rightarrow> string \<Rightarrow> string list \<Rightarrow> store \<Rightarrow> store result" where
  "ReplaceRecoveryCodes now userID hashes s =
     (if hashes \<noteq> [] \<and> find_admin s userID = None then Inl foreign_key_failed
      else (case insert_codes (\<lambda>_. False) now userID hashes (delete_rows (\<lambda>c. rc_UserID c = userID) (recovery_codes s)) of
          Inl e \<Rightarrow> Inl e
        | Inr codes \<Rightarrow> Inr (s\<lparr>recovery_codes := codes\<rparr>)))"

definition ConsumeRecoveryCode :: "time \<Rightarrow> string \<Rightarrow> store \<Rightarrow> (string \<times> store) result" where
  "ConsumeRecoveryCode now codeHash s =
     (case find_row (\<lambda>c. rc_CodeHash c = codeHash) (recovery_codes s) of
        None \<Rightarrow> Inl ErrNotFound
      | Some c \<Rightarrow>
          (if rc_UsedAt c \<noteq> None then Inl ErrNotFound
           else if count_rows (\<lambda>c. rc_CodeHash c = codeHash \<and> rc_UsedAt c = None) (recovery_codes s) \<noteq> 1
           then Inl ErrNotFound
           else Inr (rc_UserID c, s\<lparr>recovery_codes :=
             update_rows (\<lambda>c. rc_CodeHash c = codeHash \<and> rc_UsedAt c = None) (\<lambda>c. c\<lparr>rc_UsedAt := Some now\<rparr>)
               (recovery_codes s)\<rparr>)))"

record admin =
  ad_ID :: string
  ad_PasswordHash :: string
  ad_TOTPSecret :: string
  ad_PasskeyEnabled :: bool
  ad_LastTOTPCounter :: "int option"

definition Admin :: "store \<Rightarrow> admin result" where
  "Admin s = (case admins s of
       [] \<Rightarrow> Inl ErrNotFound
     | a # _ \<Rightarrow> Inr \<lparr>ad_ID = au_ID a, ad_PasswordHash = au_PasswordHash a, ad_TOTPSecret = au_TOTPSecret a,
         ad_PasskeyEnabled = au_PasskeyEnabled a, ad_LastTOTPCounter = au_LastTOTPCounter a\<rparr>)"

subsection \<open>Sessions\<close>

record session =
  ss_UserID :: string
  ss_CSRFToken :: string
  ss_AuthMethod :: string
  ss_AuthenticatorID :: string
  ss_AuthenticatedAt :: "time option"
  ss_ElevatedUntil :: "time option"
  ss_ExpiresAt :: time

text \<open>\<open>token_hash\<close> is unique and \<open>user_id\<close> refers to an administrator.\<close>

definition insert_session :: "session_row \<Rightarrow> store \<Rightarrow> store result" where
  "insert_session r s =
     (if list_ex (\<lambda>x. se_TokenHash x = se_TokenHash r) (sessions s) then Inl unique_error
      else if find_admin s (se_UserID r) = None then Inl foreign_key_failed
      else Inr (s\<lparr>sessions := sessions s @ [r]\<rparr>))"

definition CreateSession :: "(string \<Rightarrow> string) \<Rightarrow> time \<Rightarrow> string \<Rightarrow> string \<Rightarrow> string \<Rightarrow> time \<Rightarrow> store \<Rightarrow> store result" where
  "CreateSession H now userID token csrf expiresAt =
     insert_session \<lparr>se_UserID = userID, se_TokenHash = H token, se_CSRFToken = csrf, se_AuthMethod = ''legacy'',
       se_AuthenticatorID = [], se_AuthenticatedAt = None, se_ElevatedUntil = None,
       se_ExpiresAt = expiresAt, se_CreatedAt = now\<rparr>"

definition CreateAuthenticatedSession :: "(string \<Rightarrow> string) \<Rightarrow> time \<Rightarrow> string \<Rightarrow> string \<Rightarrow> string \<Rightarrow> string \<Rightarrow>
    string \<Rightarrow> time \<Rightarrow> time \<Rightarrow> time \<Rightarrow> store \<Rightarrow> store result" where
  "CreateAuthenticatedSession H now userID token csrf authMethod authenticatorID authenticatedAt elevatedUntil expiresAt s =
     (if TrimSpace userID = [] \<or> TrimSpace token = [] \<or> TrimSpace csrf = [] \<or> TrimSpace authMethod = []
      then Inl (err ''complete authenticated session details are required'')
      else insert_session \<lparr>se_UserID = userID, se_TokenHash = H token, se_CSRFToken = csrf, se_AuthMethod = authMethod,
        se_AuthenticatorID = TrimSpace authenticatorID, se_AuthenticatedAt = Some authenticatedAt,
        se_ElevatedUntil = Some elevatedUntil, se_ExpiresAt = expiresAt, se_CreatedAt = now\<rparr> s)"

definition live_row :: "(string \<Rightarrow> string) \<Rightarrow> time \<Rightarrow> string \<Rightarrow> session_row \<Rightarrow> bool" where
  "live_row H now token r \<longleftrightarrow> se_TokenHash r = H token \<and> text_less now (se_ExpiresAt r)"

definition ElevateSession :: "(string \<Rightarrow> string) \<Rightarrow> time \<Rightarrow> string \<Rightarrow> string \<Rightarrow> string \<Rightarrow> string \<Rightarrow> time \<Rightarrow> time \<Rightarrow>
    store \<Rightarrow> store result" where
  "ElevateSession H now currentToken replacementToken authMethod authenticatorID authenticatedAt elevatedUntil s =
     (if TrimSpace currentToken = [] \<or> TrimSpace replacementToken = [] \<or> TrimSpace authMethod = []
      then Inl (err ''complete session elevation details are required'')
      else if count_rows (live_row H now currentToken) (sessions s) \<noteq> 1 then Inl ErrNotFound
      else if list_ex (\<lambda>r. se_TokenHash r = H replacementToken \<and> \<not> live_row H now currentToken r) (sessions s)
      then Inl unique_error
      else Inr (s\<lparr>sessions := update_rows (live_row H now currentToken)
        (\<lambda>r. r\<lparr>se_TokenHash := H replacementToken, se_AuthMethod := authMethod,
           se_AuthenticatorID := TrimSpace authenticatorID, se_AuthenticatedAt := Some authenticatedAt,
           se_ElevatedUntil := Some elevatedUntil\<rparr>) (sessions s)\<rparr>))"

definition DeleteOtherSessions :: "(string \<Rightarrow> string) \<Rightarrow> string \<Rightarrow> string \<Rightarrow> store \<Rightarrow> store" where
  "DeleteOtherSessions H userID keepToken s =
     s\<lparr>sessions := delete_rows (\<lambda>r. se_UserID r = userID \<and> se_TokenHash r \<noteq> H keepToken) (sessions s)\<rparr>"

definition DeleteSession :: "(string \<Rightarrow> string) \<Rightarrow> string \<Rightarrow> store \<Rightarrow> store" where
  "DeleteSession H token s = s\<lparr>sessions := delete_rows (\<lambda>r. se_TokenHash r = H token) (sessions s)\<rparr>"

text \<open>Reading an expired session also deletes it, so the result comes with a store in every case.\<close>

definition Session :: "(string \<Rightarrow> string) \<Rightarrow> time \<Rightarrow> string \<Rightarrow> store \<Rightarrow> session result \<times> store" where
  "Session H now token s =
     (case find_row (\<lambda>r. se_TokenHash r = H token) (sessions s) of
        None \<Rightarrow> (Inl ErrNotFound, s)
      | Some r \<Rightarrow>
          (if se_ExpiresAt r \<le> now then (Inl ErrNotFound, DeleteSession H token s)
           else (Inr \<lparr>ss_UserID = se_UserID r, ss_CSRFToken = se_CSRFToken r, ss_AuthMethod = se_AuthMethod r,
             ss_AuthenticatorID = se_AuthenticatorID r, ss_AuthenticatedAt = se_AuthenticatedAt r,
             ss_ElevatedUntil = se_ElevatedUntil r, ss_ExpiresAt = se_ExpiresAt r\<rparr>, s)))"

subsection \<open>Login attempts\<close>

record attempt_limit =
  al_Scope :: string
  al_Key :: string
  al_Limit :: int

definition attempt_hash :: "(string \<Rightarrow> string) \<Rightarrow> string \<Rightarrow> string \<Rightarrow> string" where
  "attempt_hash H scope key = H (scope @ [CHR 0x00] @ key)"

text \<open>The attempts of a scope and key after a point in time.\<close>

definition AuthenticationAttemptCount :: "(string \<Rightarrow> string) \<Rightarrow> string \<Rightarrow> string \<Rightarrow> time \<Rightarrow> store \<Rightarrow> int" where
  "AuthenticationAttemptCount H scope key since s =
     int (count_rows (\<lambda>a. aa_Scope a = scope \<and> aa_KeyHash a = attempt_hash H scope key \<and>
       text_less since (aa_AttemptedAt a)) (auth_attempts s))"

fun within_limits :: "(string \<Rightarrow> string) \<Rightarrow> time \<Rightarrow> store \<Rightarrow> attempt_limit list \<Rightarrow> bool result" where
  "within_limits H cutoff s [] = Inr True"
| "within_limits H cutoff s (l # ls) =
     (if TrimSpace (al_Scope l) = [] \<or> TrimSpace (al_Key l) = [] \<or> al_Limit l \<le> 0
      then Inl (err ''invalid authentication rate limit'')
      else if al_Limit l \<le> AuthenticationAttemptCount H (al_Scope l) (al_Key l) cutoff s then Inr False
      else within_limits H cutoff s ls)"

text \<open>A refused attempt rolls its transaction back: the attempts that fell out of the window stay.\<close>

definition ReserveAuthenticationAttempts ::
    "(string \<Rightarrow> string) \<Rightarrow> attempt_limit list \<Rightarrow> duration \<Rightarrow> time \<Rightarrow> store \<Rightarrow> (bool \<times> store) result" where
  "ReserveAuthenticationAttempts H limits window attemptedAt s =
     (if limits = [] \<or> window \<le> 0 then Inl (err ''authentication rate limits are required'')
      else (let cutoff = attemptedAt - window;
                s' = s\<lparr>auth_attempts := delete_rows (\<lambda>a. text_le (aa_AttemptedAt a) cutoff) (auth_attempts s)\<rparr> in
        (case within_limits H cutoff s' limits of
           Inl e \<Rightarrow> Inl e
         | Inr allowed \<Rightarrow>
             (if \<not> allowed then Inr (False, s)
              else Inr (True, s'\<lparr>auth_attempts := auth_attempts s' @
                map (\<lambda>l. \<lparr>aa_Scope = al_Scope l, aa_KeyHash = attempt_hash H (al_Scope l) (al_Key l),
                  aa_AttemptedAt = attemptedAt\<rparr>) limits\<rparr>)))))"

fun ClearAuthenticationAttempts :: "(string \<Rightarrow> string) \<Rightarrow> attempt_limit list \<Rightarrow> store \<Rightarrow> store" where
  "ClearAuthenticationAttempts H [] s = s"
| "ClearAuthenticationAttempts H (l # ls) s = ClearAuthenticationAttempts H ls
     (s\<lparr>auth_attempts := delete_rows (\<lambda>a. aa_Scope a = al_Scope l \<and>
        aa_KeyHash a = attempt_hash H (al_Scope l) (al_Key l)) (auth_attempts s)\<rparr>)"

end
