(* ===== verification/Passkey_Store.thy ===== *)
theory Passkey_Store
  imports Auth_Store
begin

section \<open>Passkeys and their challenges\<close>

text \<open>
  Credentials belong to a user of a relying party; a challenge is stored under the digest of a token
  and read at most once. The handle that \<open>crypto/rand\<close> generates is an argument (an error, or the
  bytes); \<open>H\<close> is the digest of tokens.
\<close>

subsection \<open>Users and credentials\<close>

definition user_of_party :: "string \<Rightarrow> string \<Rightarrow> webauthn_user \<Rightarrow> bool" where
  "user_of_party rpID userID u \<longleftrightarrow> wu_RPID u = rpID \<and> wu_UserID u = userID"

definition WebAuthnUserHandle :: "time \<Rightarrow> string result \<Rightarrow> string \<Rightarrow> string \<Rightarrow> store \<Rightarrow> (string \<times> store) result" where
  "WebAuthnUserHandle now random userID0 rpID0 s =
     (let userID = TrimSpace userID0; rpID = TrimSpace rpID0 in
      if userID = [] \<or> rpID = [] then Inl (err ''WebAuthn user and relying party are required'')
      else (case find_row (user_of_party rpID userID) (webauthn_users s) of
          Some u \<Rightarrow> Inr (wu_UserHandle u, s)
        | None \<Rightarrow> (case random of
              Inl e \<Rightarrow> Inl (Errorf ''generate WebAuthn user handle: %w'' [ArgE e])
            | Inr handle \<Rightarrow>
                (if list_ex (\<lambda>u. wu_RPID u = rpID \<and> wu_UserHandle u = handle) (webauthn_users s) then Inl unique_error
                 else if find_admin s userID = None then Inl foreign_key_failed
                 else Inr (handle, s\<lparr>webauthn_users := webauthn_users s @
                   [\<lparr>wu_RPID = rpID, wu_UserID = userID, wu_UserHandle = handle, wu_CreatedAt = now\<rparr>]\<rparr>)))))"

definition PasskeyCredentialRecords :: "string \<Rightarrow> string \<Rightarrow> store \<Rightarrow> passkey_credential list" where
  "PasskeyCredentialRecords userID rpID s =
     sort_key (\<lambda>c. stamp (pk_CreatedAt c)) (filter (\<lambda>c. pk_UserID c = userID \<and> pk_RPID c = rpID) (passkeys s))"

text \<open>The query joins a credential with its user and the administrator; the keys of the tables make the
  match unique.\<close>

definition owner_of :: "store \<Rightarrow> string \<Rightarrow> passkey_credential \<Rightarrow> bool" where
  "owner_of s userHandle c \<longleftrightarrow>
     list_ex (\<lambda>u. user_of_party (pk_RPID c) (pk_UserID c) u \<and> wu_UserHandle u = userHandle) (webauthn_users s) \<and>
     list_ex (\<lambda>a. au_ID a = pk_UserID c \<and> au_PasskeyEnabled a) (admins s)"

definition PasskeyOwner :: "string \<Rightarrow> string \<Rightarrow> string \<Rightarrow> store \<Rightarrow> string result" where
  "PasskeyOwner rpID credentialID userHandle s =
     (case find_row (\<lambda>c. pk_RPID c = rpID \<and> pk_ID c = credentialID \<and> owner_of s userHandle c) (passkeys s) of
        None \<Rightarrow> Inl ErrNotFound
      | Some c \<Rightarrow> Inr (pk_UserID c))"

definition set_passkey_enabled :: "time \<Rightarrow> string \<Rightarrow> bool \<Rightarrow> store \<Rightarrow> store result" where
  "set_passkey_enabled now userID enabled =
     update_admin (\<lambda>_. True) userID (\<lambda>a. a\<lparr>au_PasskeyEnabled := enabled, au_UpdatedAt := now\<rparr>)"

definition SavePasskeyCredential ::
    "time \<Rightarrow> string \<Rightarrow> string \<Rightarrow> string \<Rightarrow> string \<Rightarrow> string \<Rightarrow> store \<Rightarrow> store result" where
  "SavePasskeyCredential now userID0 rpID0 credentialID0 name0 ciphertext s =
     (let userID = TrimSpace userID0; rpID = TrimSpace rpID0; credentialID = TrimSpace credentialID0;
          name = TrimSpace name0 in
      if userID = [] \<or> rpID = [] \<or> credentialID = [] \<or> name = [] \<or> ciphertext = []
      then Inl (err ''complete passkey credential details are required'')
      else if list_ex (\<lambda>c. pk_RPID c = rpID \<and> pk_ID c = credentialID) (passkeys s) then Inl unique_error
      else if \<not> list_ex (user_of_party rpID userID) (webauthn_users s) then Inl foreign_key_failed
      else set_passkey_enabled now userID True (s\<lparr>passkeys := passkeys s @
        [\<lparr>pk_ID = credentialID, pk_RPID = rpID, pk_UserID = userID, pk_Name = name, pk_Ciphertext = ciphertext,
          pk_LastUsedAt = None, pk_CreatedAt = now, pk_UpdatedAt = now\<rparr>]\<rparr>))"

definition the_credential :: "string \<Rightarrow> string \<Rightarrow> string \<Rightarrow> passkey_credential \<Rightarrow> bool" where
  "the_credential userID rpID credentialID c \<longleftrightarrow> pk_UserID c = userID \<and> pk_RPID c = rpID \<and> pk_ID c = credentialID"

definition UpdatePasskeyCredential ::
    "time \<Rightarrow> string \<Rightarrow> string \<Rightarrow> string \<Rightarrow> string \<Rightarrow> time \<Rightarrow> store \<Rightarrow> store result" where
  "UpdatePasskeyCredential now userID rpID credentialID ciphertext usedAt s =
     (if count_rows (the_credential userID rpID credentialID) (passkeys s) \<noteq> 1 then Inl ErrNotFound
      else Inr (s\<lparr>passkeys := update_rows (the_credential userID rpID credentialID)
        (\<lambda>c. c\<lparr>pk_Ciphertext := ciphertext, pk_LastUsedAt := Some usedAt, pk_UpdatedAt := now\<rparr>) (passkeys s)\<rparr>))"

definition SetPasskeyEnabled :: "time \<Rightarrow> string \<Rightarrow> string \<Rightarrow> bool \<Rightarrow> store \<Rightarrow> store result" where
  "SetPasskeyEnabled now userID rpID enabled s =
     (if enabled \<and> count_rows (\<lambda>c. pk_UserID c = userID \<and> pk_RPID c = rpID) (passkeys s) = 0
      then Inl (err ''register a passkey before enabling passkey login'')
      else set_passkey_enabled now userID enabled s)"

text \<open>The last UPDATE does not look at the number of rows it changed.\<close>

definition disable_passkeys :: "time \<Rightarrow> string \<Rightarrow> store \<Rightarrow> store" where
  "disable_passkeys now userID s = s\<lparr>admins := update_rows (\<lambda>a. au_ID a = userID)
     (\<lambda>a. a\<lparr>au_PasskeyEnabled := False, au_UpdatedAt := now\<rparr>) (admins s)\<rparr>"

definition DeletePasskeyCredential :: "time \<Rightarrow> string \<Rightarrow> string \<Rightarrow> string \<Rightarrow> store \<Rightarrow> store result" where
  "DeletePasskeyCredential now userID rpID credentialID s =
     (if count_rows (the_credential userID rpID credentialID) (passkeys s) \<noteq> 1 then Inl ErrNotFound
      else (let s' = s\<lparr>passkeys := delete_rows (the_credential userID rpID credentialID) (passkeys s)\<rparr> in
        Inr (if count_rows (\<lambda>c. pk_UserID c = userID) (passkeys s') = 0 then disable_passkeys now userID s' else s')))"

subsection \<open>Challenges\<close>

definition CreateWebAuthnChallenge :: "(string \<Rightarrow> string) \<Rightarrow> time \<Rightarrow> string \<Rightarrow> webauthn_challenge \<Rightarrow> store \<Rightarrow> store result" where
  "CreateWebAuthnChallenge H now token ch s =
     (if TrimSpace token = [] \<or> TrimSpace (wc_Purpose ch) = [] \<or> TrimSpace (wc_RPID ch) = [] \<or> wc_SessionJSON ch = []
      then Inl (err ''complete WebAuthn challenge details are required'')
      else (let kept = delete_rows (\<lambda>c. text_le (wc_ExpiresAt c) now) (challenges s) in
        if list_ex (\<lambda>c. wc_TokenHash c = H token) kept then Inl unique_error
        else Inr (s\<lparr>challenges := kept @
          [webauthn_challenge.extend ch \<lparr>wc_TokenHash = H token, wc_CreatedAt = now\<rparr>]\<rparr>)))"

text \<open>The row is deleted before its expiry is looked at, so the store changes also when the challenge is
  refused as expired.\<close>

definition ConsumeWebAuthnChallenge ::
    "(string \<Rightarrow> string) \<Rightarrow> time \<Rightarrow> string \<Rightarrow> string \<Rightarrow> store \<Rightarrow> webauthn_challenge result \<times> store" where
  "ConsumeWebAuthnChallenge H now token purpose s =
     (case find_row (\<lambda>c. wc_TokenHash c = H token \<and> wc_Purpose c = purpose) (challenges s) of
        None \<Rightarrow> (Inl ErrNotFound, s)
      | Some c \<Rightarrow>
          (if count_rows (\<lambda>c. wc_TokenHash c = H token) (challenges s) \<noteq> 1 then (Inl ErrNotFound, s)
           else let s' = s\<lparr>challenges := delete_rows (\<lambda>c. wc_TokenHash c = H token) (challenges s)\<rparr> in
             if wc_ExpiresAt c \<le> now then (Inl ErrNotFound, s')
             else (Inr (webauthn_challenge.truncate c), s')))"

end
