(* ===== verification/Auth_Trace.thy ===== *)
theory Auth_Trace
  imports Passkey_Store
begin

section \<open>Histories of the authentication tables\<close>

text \<open>
  Requests run concurrently, but each call of the store is one transaction and the database has a single
  connection. So whatever the handlers do is a sequence of calls, in which the calls of different
  requests interleave. A history is such a sequence with the time of each call and whether it succeeded.
\<close>

datatype auth_op =
    FirstAdmin string string "string list" "int option"
  | SetPassword string string
  | SetSecret string string
  | Enrol string string int
  | UseCounter string int
  | SetCodes string "string list"
  | UseCode string
  | NewSession string string string string string time time time
  | Elevate string string string string time time
  | DropOthers string string
  | DropSession string
  | ReadSession string
  | Reserve "attempt_limit list" duration
  | ClearAttempts "attempt_limit list"
  | UserHandle "string result" string string
  | SaveKey string string string string string
  | UpdateKey string string string string
  | EnableKeys string string bool
  | DeleteKey string string string
  | NewChallenge string webauthn_challenge
  | TakeChallenge string string

text \<open>A call that returns an error leaves the store; the others return the store after it.\<close>

definition attempt :: "store \<Rightarrow> store result \<Rightarrow> bool \<times> store" where
  "attempt s r = (case r of Inl _ \<Rightarrow> (False, s) | Inr s' \<Rightarrow> (True, s'))"

fun exec :: "(string \<Rightarrow> string) \<Rightarrow> time \<Rightarrow> auth_op \<Rightarrow> store \<Rightarrow> bool \<times> store" where
  "exec H now (FirstAdmin pw secret hashes c) s = attempt s (createInitialAdminWithRecoveryCodes now pw secret hashes c s)"
| "exec H now (SetPassword u pw) s = attempt s (ReplacePassword now u pw s)"
| "exec H now (SetSecret u secret) s = attempt s (ReplaceAdminTOTPSecret now u secret s)"
| "exec H now (Enrol u secret c) s = attempt s (ReplaceAdminTOTPSecretWithCounter now u secret c s)"
| "exec H now (UseCounter u c) s = attempt s (ConsumeAdminTOTPCounter now u c s)"
| "exec H now (SetCodes u hashes) s = attempt s (ReplaceRecoveryCodes now u hashes s)"
| "exec H now (UseCode h) s = attempt s (map_sum id snd (ConsumeRecoveryCode now h s))"
| "exec H now (NewSession u token csrf m a at until expires) s =
     attempt s (CreateAuthenticatedSession H now u token csrf m a at until expires s)"
| "exec H now (Elevate current replacement m a at until) s =
     attempt s (ElevateSession H now current replacement m a at until s)"
| "exec H now (DropOthers u token) s = (True, DeleteOtherSessions H u token s)"
| "exec H now (DropSession token) s = (True, DeleteSession H token s)"
| "exec H now (ReadSession token) s = (case Session H now token s of (r, s') \<Rightarrow> (is_ok r, s'))"
| "exec H now (Reserve limits window) s =
     (case ReserveAuthenticationAttempts H limits window now s of Inl _ \<Rightarrow> (False, s) | Inr (allowed, s') \<Rightarrow> (allowed, s'))"
| "exec H now (ClearAttempts limits) s = (True, ClearAuthenticationAttempts H limits s)"
| "exec H now (UserHandle random u rp) s = attempt s (map_sum id snd (WebAuthnUserHandle now random u rp s))"
| "exec H now (SaveKey u rp c n ct) s = attempt s (SavePasskeyCredential now u rp c n ct s)"
| "exec H now (UpdateKey u rp c ct) s = attempt s (UpdatePasskeyCredential now u rp c ct now s)"
| "exec H now (EnableKeys u rp b) s = attempt s (SetPasskeyEnabled now u rp b s)"
| "exec H now (DeleteKey u rp c) s = attempt s (DeletePasskeyCredential now u rp c s)"
| "exec H now (NewChallenge token ch) s = attempt s (CreateWebAuthnChallenge H now token ch s)"
| "exec H now (TakeChallenge token purpose) s =
     (case ConsumeWebAuthnChallenge H now token purpose s of (r, s') \<Rightarrow> (is_ok r, s'))"

type_synonym auth_call = "time \<times> auth_op"
type_synonym auth_event = "time \<times> auth_op \<times> bool"

fun history :: "(string \<Rightarrow> string) \<Rightarrow> store \<Rightarrow> auth_call list \<Rightarrow> auth_event list" where
  "history H s [] = []"
| "history H s ((t, x) # cs) = (t, x, fst (exec H t x s)) # history H (snd (exec H t x s)) cs"

fun final :: "(string \<Rightarrow> string) \<Rightarrow> store \<Rightarrow> auth_call list \<Rightarrow> store" where
  "final H s [] = s"
| "final H s ((t, x) # cs) = final H (snd (exec H t x s)) cs"

lemma final_append: "final H s (as @ bs) = final H (final H s as) bs"
  by (induction H s as rule: final.induct) auto

lemma history_append: "history H s (as @ bs) = history H s as @ history H (final H s as) bs"
  by (induction H s as rule: final.induct) auto

lemma attempt_True [simp]: "fst (attempt s r) \<longleftrightarrow> is_ok r"
  by (cases r) (auto simp: attempt_def)

lemma attempt_store: "snd (attempt s r) = (case r of Inl _ \<Rightarrow> s | Inr s' \<Rightarrow> s')"
  by (cases r) (auto simp: attempt_def)

subsection \<open>Well-formed tables\<close>

text \<open>
  What the schema and the transactions together keep: at most one administrator, rows only of existing
  users, unique digests, and passkey login enabled only while there is a passkey.
\<close>

definition admin_ok :: "store \<Rightarrow> bool" where
  "admin_ok s \<longleftrightarrow> length (admins s) \<le> 1 \<and>
     (\<forall>a \<in> set (admins s). au_PasskeyEnabled a \<longrightarrow> (\<exists>c \<in> set (passkeys s). pk_UserID c = au_ID a))"

definition is_admin :: "store \<Rightarrow> string \<Rightarrow> bool" where
  "is_admin s u \<longleftrightarrow> u \<in> set (map au_ID (admins s))"

definition rows_ok :: "store \<Rightarrow> bool" where
  "rows_ok s \<longleftrightarrow> (\<forall>r \<in> set (sessions s). is_admin s (se_UserID r)) \<and> distinct (map se_TokenHash (sessions s)) \<and>
     (\<forall>c \<in> set (recovery_codes s). is_admin s (rc_UserID c)) \<and> distinct (map rc_CodeHash (recovery_codes s))"

definition keys_ok :: "store \<Rightarrow> bool" where
  "keys_ok s \<longleftrightarrow> distinct (map (\<lambda>c. (pk_RPID c, pk_ID c)) (passkeys s)) \<and>
     distinct (map wc_TokenHash (challenges s)) \<and>
     (\<forall>c \<in> set (passkeys s). \<exists>u \<in> set (webauthn_users s). user_of_party (pk_RPID c) (pk_UserID c) u) \<and>
     (\<forall>u \<in> set (webauthn_users s). is_admin s (wu_UserID u))"

definition auth_ok :: "store \<Rightarrow> bool" where
  "auth_ok s \<longleftrightarrow> admin_ok s \<and> rows_ok s \<and> keys_ok s"

lemmas auth_ok_defs = auth_ok_def admin_ok_def rows_ok_def keys_ok_def

end
