(* ===== verification/Auth_Facts.thy ===== *)
theory Auth_Facts
  imports Auth_Trace
begin

section \<open>Every call keeps the authentication tables well-formed\<close>

subsection \<open>Changes of the administrator\<close>

lemma find_admin_is_admin: "find_admin s u \<noteq> None \<longleftrightarrow> is_admin s u"
  by (auto simp: find_admin_def is_admin_def find_row_None)

lemma is_admin_cong: "map au_ID (admins s') = map au_ID (admins s) \<Longrightarrow> is_admin s' = is_admin s"
  by (simp add: is_admin_def fun_eq_iff)

lemma is_admin_other [simp]:
  "is_admin (s\<lparr>sessions := ss\<rparr>) = is_admin s" "is_admin (s\<lparr>recovery_codes := cs\<rparr>) = is_admin s"
  "is_admin (s\<lparr>auth_attempts := as\<rparr>) = is_admin s" "is_admin (s\<lparr>passkeys := ks\<rparr>) = is_admin s"
  "is_admin (s\<lparr>challenges := chs\<rparr>) = is_admin s" "is_admin (s\<lparr>webauthn_users := us\<rparr>) = is_admin s"
  by (simp_all add: is_admin_def fun_eq_iff)

lemma auth_ok_admins:
  assumes "auth_ok s" and "map au_ID as = map au_ID (admins s)"
    and "\<And>a. a \<in> set as \<Longrightarrow> au_PasskeyEnabled a \<Longrightarrow> \<exists>c \<in> set (passkeys s). pk_UserID c = au_ID a"
  shows "auth_ok (s\<lparr>admins := as\<rparr>)"
proof -
  have "length as = length (admins s)" by (metis assms(2) length_map)
  with assms is_admin_cong [of "s\<lparr>admins := as\<rparr>" s] show ?thesis
    by (simp add: auth_ok_defs)
qed

lemma enabled_has_key:
  "auth_ok s \<Longrightarrow> a \<in> set (admins s) \<Longrightarrow> au_PasskeyEnabled a \<Longrightarrow> \<exists>c \<in> set (passkeys s). pk_UserID c = au_ID a"
  by (auto simp: auth_ok_defs)

lemma update_admin_ok:
  assumes "auth_ok s" and "update_admin P u f s = Inr s'"
    and "\<And>a. au_ID (f a) = au_ID a" and "\<And>a. au_PasskeyEnabled (f a) = au_PasskeyEnabled a"
  shows "auth_ok s'"
proof -
  from assms(2) have s': "s' = s\<lparr>admins := update_rows (\<lambda>a. au_ID a = u \<and> P a) f (admins s)\<rparr>"
    by (simp add: update_admin_def)
  show ?thesis
    unfolding s'
  proof (rule auth_ok_admins [OF assms(1)])
    fix a
    assume "a \<in> set (update_rows (\<lambda>a. au_ID a = u \<and> P a) f (admins s))" and "au_PasskeyEnabled a"
    then obtain b where "b \<in> set (admins s)" "au_PasskeyEnabled b" "au_ID b = au_ID a"
      using assms(3,4) by (auto simp: set_update_rows split: if_splits)
    with enabled_has_key [OF assms(1)] show "\<exists>c \<in> set (passkeys s). pk_UserID c = au_ID a" by metis
  qed (simp add: map_key_update_rows assms(3))
qed

lemma set_passkey_enabled_ok:
  assumes "auth_ok s" and "set_passkey_enabled now u b s = Inr s'"
    and "b \<Longrightarrow> \<exists>c \<in> set (passkeys s). pk_UserID c = u"
  shows "auth_ok s'"
proof -
  let ?f = "\<lambda>a. a\<lparr>au_PasskeyEnabled := b, au_UpdatedAt := now\<rparr>"
  from assms(2) have s': "s' = s\<lparr>admins := update_rows (\<lambda>a. au_ID a = u \<and> True) ?f (admins s)\<rparr>"
    by (simp add: set_passkey_enabled_def update_admin_def)
  show ?thesis
    unfolding s'
  proof (rule auth_ok_admins [OF assms(1)])
    fix a
    assume "a \<in> set (update_rows (\<lambda>a. au_ID a = u \<and> True) ?f (admins s))" and "au_PasskeyEnabled a"
    with assms(3) enabled_has_key [OF assms(1)] show "\<exists>c \<in> set (passkeys s). pk_UserID c = au_ID a"
      by (force simp: set_update_rows split: if_splits)
  qed (simp add: map_key_update_rows)
qed

subsection \<open>Recovery codes\<close>

lemma insert_codes_distinct:
  "insert_codes refused now u hs codes = Inr codes' \<Longrightarrow> distinct (map rc_CodeHash codes) \<Longrightarrow>
    distinct (map rc_CodeHash codes')"
  by (induction refused now u hs codes arbitrary: codes' rule: insert_codes.induct)
    (auto simp: insert_code_def list_ex_iff)

lemma insert_codes_users:
  "insert_codes refused now u hs codes = Inr codes' \<Longrightarrow> \<forall>c \<in> set codes. Q (rc_UserID c) \<Longrightarrow>
    (hs \<noteq> [] \<longrightarrow> Q u) \<Longrightarrow> \<forall>c \<in> set codes'. Q (rc_UserID c)"
  by (induction refused now u hs codes arbitrary: codes' rule: insert_codes.induct)
    (auto simp: insert_code_def split: if_splits)

subsection \<open>Sessions, passkeys and challenges\<close>

lemma distinct_map_update_rows_key:
  assumes "distinct (map key rows)" and "\<forall>r \<in> set rows. P r \<longrightarrow> key (f r) = k"
    and "\<forall>r \<in> set rows. key r = k \<longrightarrow> P r" and "count_rows P rows = 1"
  shows "distinct (map key (update_rows P f rows))"
  using assms
proof (induction rows)
  case (Cons r rows)
  show ?case
  proof (cases "P r")
    case True
    with Cons.prems(4) have none: "\<forall>x \<in> set rows. \<not> P x" by (simp add: count_rows_0)
    then have "update_rows P f rows = rows" by (rule update_rows_none)
    with Cons.prems True none show ?thesis by auto
  next
    case False
    with Cons have "distinct (map key (update_rows P f rows))" by simp
    moreover have "key r \<notin> key ` set (update_rows P f rows)"
      using Cons.prems False by (auto simp: set_update_rows)
    ultimately show ?thesis using False by simp
  qed
qed simp

lemma elevated_ok:
  assumes "auth_ok s" and "ElevateSession H now c r m a at until s = Inr s'"
  shows "auth_ok s'"
proof -
  let ?P = "live_row H now c"
  let ?f = "\<lambda>x. x\<lparr>se_TokenHash := H r, se_AuthMethod := m, se_AuthenticatorID := TrimSpace a,
     se_AuthenticatedAt := Some at, se_ElevatedUntil := Some until\<rparr>"
  from assms(2) have one: "count_rows ?P (sessions s) = 1"
    and new: "\<forall>x \<in> set (sessions s). se_TokenHash x = H r \<longrightarrow> ?P x"
    and s': "s' = s\<lparr>sessions := update_rows ?P ?f (sessions s)\<rparr>"
    by (auto simp: ElevateSession_def list_ex_iff)
  from assms(1) one new have "distinct (map se_TokenHash (update_rows ?P ?f (sessions s)))"
    by (intro distinct_map_update_rows_key [where k = "H r"]) (auto simp: auth_ok_defs)
  with assms(1) show ?thesis
    by (auto simp: s' auth_ok_defs set_update_rows split: if_splits)
qed

lemma inserted_session_ok: "auth_ok s \<Longrightarrow> insert_session r s = Inr s' \<Longrightarrow> auth_ok s'"
proof -
  assume ok: "auth_ok s" and "insert_session r s = Inr s'"
  then have s': "s' = s\<lparr>sessions := sessions s @ [r]\<rparr>" and "is_admin s (se_UserID r)"
    and "se_TokenHash r \<notin> set (map se_TokenHash (sessions s))"
    using find_admin_is_admin [of s "se_UserID r"] by (auto simp: insert_session_def list_ex_iff)
  with ok show "auth_ok s'" by (simp add: auth_ok_defs)
qed

lemma fewer_sessions_ok: "auth_ok s \<Longrightarrow> auth_ok (s\<lparr>sessions := delete_rows P (sessions s)\<rparr>)"
  by (simp add: auth_ok_defs distinct_key_delete_rows)

lemma attempts_ok: "auth_ok (s\<lparr>auth_attempts := as\<rparr>) \<longleftrightarrow> auth_ok s"
  by (simp add: auth_ok_defs)

lemma cleared_attempts: "\<exists>as. ClearAuthenticationAttempts H ls s = s\<lparr>auth_attempts := as\<rparr>"
proof (induction H ls s rule: ClearAuthenticationAttempts.induct)
  case (1 H s)
  show ?case by (rule exI [where x = "auth_attempts s"]) simp
next
  case (2 H l ls s)
  then show ?case by auto
qed

lemma auth_ok_fewer_keys:
  assumes "auth_ok s" and "map au_ID as = map au_ID (admins s)"
    and "\<forall>a \<in> set as. au_PasskeyEnabled a \<longrightarrow> (\<exists>c \<in> set (passkeys s). \<not> P c \<and> pk_UserID c = au_ID a)"
  shows "auth_ok (s\<lparr>admins := as, passkeys := delete_rows P (passkeys s)\<rparr>)"
proof -
  let ?s' = "s\<lparr>admins := as, passkeys := delete_rows P (passkeys s)\<rparr>"
  have "distinct (map (\<lambda>c. (pk_RPID c, pk_ID c)) (delete_rows P (passkeys s)))"
    using assms(1) by (intro distinct_key_delete_rows) (simp add: auth_ok_defs)
  moreover have "length as = length (admins s)" by (metis assms(2) length_map)
  moreover have "is_admin ?s' = is_admin s" by (rule is_admin_cong) (simp add: assms(2))
  ultimately show ?thesis using assms(1,3)
    by (auto simp: auth_ok_defs)
qed

lemma deleted_key_ok:
  assumes "auth_ok s" and "DeletePasskeyCredential now u rp c s = Inr s'"
  shows "auth_ok s'"
proof -
  let ?P = "the_credential u rp c"
  let ?ks = "delete_rows ?P (passkeys s)"
  let ?off = "update_rows (\<lambda>a. au_ID a = u) (\<lambda>a. a\<lparr>au_PasskeyEnabled := False, au_UpdatedAt := now\<rparr>) (admins s)"
  have other: "\<exists>k \<in> set (passkeys s). \<not> ?P k \<and> pk_UserID k = au_ID b"
    if "b \<in> set (admins s)" "au_PasskeyEnabled b" "au_ID b \<noteq> u" for b
  proof -
    from enabled_has_key [OF assms(1) that(1,2)] obtain k where k: "k \<in> set (passkeys s)" "pk_UserID k = au_ID b" by blast
    with that(3) have "\<not> ?P k" by (simp add: the_credential_def)
    with k show ?thesis by blast
  qed
  show ?thesis
  proof (cases "count_rows (\<lambda>c. pk_UserID c = u) ?ks = 0")
    case True
    have "auth_ok (s\<lparr>admins := ?off, passkeys := ?ks\<rparr>)"
    proof (rule auth_ok_fewer_keys [OF assms(1)], simp add: map_key_update_rows, intro ballI impI)
      fix a
      assume "a \<in> set ?off" and "au_PasskeyEnabled a"
      then obtain b where b: "b \<in> set (admins s)"
        "a = (if au_ID b = u then b\<lparr>au_PasskeyEnabled := False, au_UpdatedAt := now\<rparr> else b)"
        unfolding set_update_rows by blast
      with \<open>au_PasskeyEnabled a\<close> have "au_ID b \<noteq> u" "a = b" by (auto split: if_splits)
      with other [of b] b(1) \<open>au_PasskeyEnabled a\<close> show "\<exists>k \<in> set (passkeys s). \<not> ?P k \<and> pk_UserID k = au_ID a" by blast
    qed
    moreover have "s' = s\<lparr>admins := ?off, passkeys := ?ks\<rparr>"
      using assms(2) True by (auto simp: DeletePasskeyCredential_def Let_def disable_passkeys_def)
    ultimately show ?thesis by simp
  next
    case False
    then obtain k where "k \<in> set ?ks" "pk_UserID k = u" by (auto simp: count_rows_0)
    with other have all: "\<exists>k \<in> set (passkeys s). \<not> ?P k \<and> pk_UserID k = au_ID b"
      if "b \<in> set (admins s)" "au_PasskeyEnabled b" for b
      using that by (cases "au_ID b = u") auto
    have "auth_ok (s\<lparr>admins := admins s, passkeys := ?ks\<rparr>)"
      by (rule auth_ok_fewer_keys [OF assms(1) refl]) (use all in blast)
    with assms(2) False show ?thesis by (simp add: DeletePasskeyCredential_def Let_def split: if_splits)
  qed
qed

subsection \<open>Every call\<close>

lemmas auth_call_defs = update_admin_def ReplacePassword_def ReplaceAdminTOTPSecret_def
  ReplaceAdminTOTPSecretWithCounter_def ConsumeAdminTOTPCounter_def CreateAuthenticatedSession_def insert_session_def
  ElevateSession_def DeleteOtherSessions_def DeleteSession_def Session_def ReserveAuthenticationAttempts_def
  WebAuthnUserHandle_def SavePasskeyCredential_def set_passkey_enabled_def UpdatePasskeyCredential_def
  SetPasskeyEnabled_def DeletePasskeyCredential_def disable_passkeys_def createInitialAdminWithRecoveryCodes_def
  ReplaceRecoveryCodes_def ConsumeRecoveryCode_def CreateWebAuthnChallenge_def ConsumeWebAuthnChallenge_def

lemma attempt_ok: "auth_ok s \<Longrightarrow> (\<And>s'. r = Inr s' \<Longrightarrow> auth_ok s') \<Longrightarrow> auth_ok (snd (attempt s r))"
  by (cases r) (auto simp: attempt_def)

lemma first_admin_ok:
  assumes "auth_ok s" and "createInitialAdminWithRecoveryCodes now pw secret hashes c s = Inr s'"
  shows "auth_ok s'"
proof -
  from assms(2) obtain codes where none: "admins s = []"
    and codes: "insert_codes (\<lambda>h. TrimSpace h = []) now ''admin'' hashes (recovery_codes s) = Inr codes"
    and s': "s' = s\<lparr>admins := [\<lparr>au_ID = ''admin'', au_PasswordHash = pw, au_TOTPSecret = secret,
      au_PasskeyEnabled = False, au_LastTOTPCounter = c, au_CreatedAt = now, au_UpdatedAt = now\<rparr>], recovery_codes := codes\<rparr>"
    by (auto simp: createInitialAdminWithRecoveryCodes_def count_rows_def)
  from assms(1) none have empty: "sessions s = []" "recovery_codes s = []" "webauthn_users s = []" "passkeys s = []"
    by (auto simp: auth_ok_defs is_admin_def)
  with codes have "\<forall>x \<in> set codes. rc_UserID x = ''admin''" "distinct (map rc_CodeHash codes)"
    using insert_codes_users [OF codes, of "\<lambda>u. u = ''admin''"] insert_codes_distinct [OF codes] by simp_all
  with assms(1) empty show ?thesis
    by (simp add: s' auth_ok_defs is_admin_def)
qed

lemma new_codes_ok:
  assumes "auth_ok s" and "ReplaceRecoveryCodes now u hashes s = Inr s'"
  shows "auth_ok s'"
proof -
  let ?kept = "delete_rows (\<lambda>c. rc_UserID c = u) (recovery_codes s)"
  from assms(2) obtain codes where u: "hashes \<noteq> [] \<longrightarrow> is_admin s u"
    and codes: "insert_codes (\<lambda>_. False) now u hashes ?kept = Inr codes"
    and s': "s' = s\<lparr>recovery_codes := codes\<rparr>"
    using find_admin_is_admin [of s u] by (auto simp: ReplaceRecoveryCodes_def)
  have "\<forall>x \<in> set ?kept. is_admin s (rc_UserID x)" "distinct (map rc_CodeHash ?kept)"
    using assms(1) by (simp_all add: auth_ok_defs distinct_key_delete_rows)
  with insert_codes_distinct [OF codes] insert_codes_users [OF codes, of "is_admin s"] u assms(1) show ?thesis
    by (simp add: s' auth_ok_defs)
qed

lemma used_code_ok: "auth_ok s \<Longrightarrow> ConsumeRecoveryCode now h s = Inr (u, s') \<Longrightarrow> auth_ok s'"
  by (auto simp: ConsumeRecoveryCode_def auth_ok_defs map_key_update_rows set_update_rows split: option.splits if_splits)

lemma challenges_ok: "auth_ok s \<Longrightarrow> distinct (map wc_TokenHash chs) \<Longrightarrow> auth_ok (s\<lparr>challenges := chs\<rparr>)"
  by (simp add: auth_ok_defs)

lemma new_challenge_ok:
  assumes "auth_ok s" and "CreateWebAuthnChallenge H now token ch s = Inr s'"
  shows "auth_ok s'"
proof -
  let ?kept = "delete_rows (\<lambda>c. text_le (wc_ExpiresAt c) now) (challenges s)"
  from assms(2) have "H token \<notin> set (map wc_TokenHash ?kept)"
    and s': "s' = s\<lparr>challenges := ?kept @ [webauthn_challenge.extend ch \<lparr>wc_TokenHash = H token, wc_CreatedAt = now\<rparr>]\<rparr>"
    by (auto simp: CreateWebAuthnChallenge_def Let_def list_ex_iff)
  moreover have "distinct (map wc_TokenHash ?kept)" using assms(1)
    by (intro distinct_key_delete_rows) (simp add: auth_ok_defs)
  ultimately show ?thesis using assms(1)
    by (simp only: s', intro challenges_ok) (simp_all add: webauthn_challenge.defs)
qed

lemma taken_challenge_ok: "auth_ok s \<Longrightarrow> auth_ok (snd (ConsumeWebAuthnChallenge H now token purpose s))"
  by (auto simp: ConsumeWebAuthnChallenge_def Let_def auth_ok_defs distinct_key_delete_rows split: option.splits)

lemma user_handle_ok: "auth_ok s \<Longrightarrow> WebAuthnUserHandle now random u rp s = Inr (h, s') \<Longrightarrow> auth_ok s'"
  using find_admin_is_admin [of s "TrimSpace u"]
  by (auto simp: WebAuthnUserHandle_def Let_def auth_ok_defs split: option.splits sum.splits if_splits)

lemma saved_key_ok:
  assumes "auth_ok s" and "SavePasskeyCredential now u rp c n ct s = Inr s'"
  shows "auth_ok s'"
proof -
  let ?k = "\<lparr>pk_ID = TrimSpace c, pk_RPID = TrimSpace rp, pk_UserID = TrimSpace u, pk_Name = TrimSpace n, pk_Ciphertext = ct,
    pk_LastUsedAt = None, pk_CreatedAt = now, pk_UpdatedAt = now\<rparr>"
  let ?s = "s\<lparr>passkeys := passkeys s @ [?k]\<rparr>"
  from assms(2) have s': "set_passkey_enabled now (TrimSpace u) True ?s = Inr s'"
    and new: "(TrimSpace rp, TrimSpace c) \<notin> set (map (\<lambda>c. (pk_RPID c, pk_ID c)) (passkeys s))"
    and user: "\<exists>x \<in> set (webauthn_users s). user_of_party (TrimSpace rp) (TrimSpace u) x"
    by (auto simp: SavePasskeyCredential_def Let_def list_ex_iff)
  have "auth_ok ?s" using assms(1) new user by (auto simp: auth_ok_defs)
  then show ?thesis by (rule set_passkey_enabled_ok [OF _ s']) simp
qed

lemma ball_map_eq: "map f xs = map f ys \<Longrightarrow> (\<forall>x \<in> set xs. Q (f x)) \<longleftrightarrow> (\<forall>y \<in> set ys. Q (f y))"
proof -
  have "(\<forall>x \<in> set zs. Q (f x)) \<longleftrightarrow> list_all Q (map f zs)" for zs by (simp add: list_all_iff)
  then show "map f xs = map f ys \<Longrightarrow> ?thesis" by simp
qed

lemma updated_key_ok:
  assumes "auth_ok s" and "UpdatePasskeyCredential now u rp c ct at s = Inr s'"
  shows "auth_ok s'"
proof -
  let ?f = "\<lambda>c. c\<lparr>pk_Ciphertext := ct, pk_LastUsedAt := Some at, pk_UpdatedAt := now\<rparr>"
  let ?ks = "update_rows (the_credential u rp c) ?f (passkeys s)"
  from assms(2) have s': "s' = s\<lparr>passkeys := ?ks\<rparr>"
    by (auto simp: UpdatePasskeyCredential_def)
  have keys: "map (\<lambda>c. (pk_RPID c, pk_ID c)) ?ks = map (\<lambda>c. (pk_RPID c, pk_ID c)) (passkeys s)"
    and users: "map pk_UserID ?ks = map pk_UserID (passkeys s)"
    and both: "map (\<lambda>c. (pk_RPID c, pk_UserID c)) ?ks = map (\<lambda>c. (pk_RPID c, pk_UserID c)) (passkeys s)"
    by (simp_all add: map_key_update_rows)
  from users have "(\<exists>c \<in> set ?ks. pk_UserID c = x) \<longleftrightarrow> (\<exists>c \<in> set (passkeys s). pk_UserID c = x)" for x
    using ball_map_eq [of pk_UserID ?ks "passkeys s" "\<lambda>u. u \<noteq> x"] users by blast
  moreover have "(\<forall>c \<in> set ?ks. \<exists>u \<in> set (webauthn_users s). user_of_party (pk_RPID c) (pk_UserID c) u) \<longleftrightarrow>
      (\<forall>c \<in> set (passkeys s). \<exists>u \<in> set (webauthn_users s). user_of_party (pk_RPID c) (pk_UserID c) u)"
    using ball_map_eq [OF both, of "\<lambda>(r, x). \<exists>u \<in> set (webauthn_users s). user_of_party r x u"] by simp
  ultimately show ?thesis using assms(1) keys
    by (simp add: s' auth_ok_defs)
qed

lemma enabled_keys_ok:
  assumes "auth_ok s" and "SetPasskeyEnabled now u rp b s = Inr s'"
  shows "auth_ok s'"
proof -
  from assms(2) have "b \<longrightarrow> count_rows (\<lambda>c. pk_UserID c = u \<and> pk_RPID c = rp) (passkeys s) \<noteq> 0"
    and s': "set_passkey_enabled now u b s = Inr s'" by (auto simp: SetPasskeyEnabled_def)
  then have "b \<Longrightarrow> \<exists>c \<in> set (passkeys s). pk_UserID c = u" by (auto simp: count_rows_0)
  with set_passkey_enabled_ok [OF assms(1) s'] show ?thesis by blast
qed

lemma map_sum_Inr: "map_sum id f r = Inr y \<longleftrightarrow> (\<exists>x. r = Inr x \<and> y = f x)"
  by (cases r) auto

lemma exec_ok: "auth_ok s \<Longrightarrow> auth_ok (snd (exec H t x s))"
proof (cases x)
  case (NewSession u token csrf m a at until expires)
  assume "auth_ok s"
  with NewSession show ?thesis
    by (auto intro!: attempt_ok simp: CreateAuthenticatedSession_def dest: inserted_session_ok)
next
  case (ReadSession token)
  assume "auth_ok s"
  with ReadSession show ?thesis
    by (auto simp: Session_def DeleteSession_def fewer_sessions_ok split: option.split)
next
  case (Reserve limits window)
  assume "auth_ok s"
  with Reserve show ?thesis
    by (auto simp: ReserveAuthenticationAttempts_def Let_def attempts_ok split: sum.split)
next
  case (ClearAttempts limits)
  assume "auth_ok s"
  with ClearAttempts cleared_attempts [of H limits s] show ?thesis by (auto simp: attempts_ok)
next
  case (TakeChallenge token purpose)
  assume "auth_ok s"
  with TakeChallenge taken_challenge_ok [of s H t token purpose] show ?thesis by (auto split: prod.splits)
qed (auto intro!: attempt_ok simp: map_sum_Inr ReplacePassword_def ReplaceAdminTOTPSecret_def ReplaceAdminTOTPSecretWithCounter_def
    ConsumeAdminTOTPCounter_def DeleteOtherSessions_def DeleteSession_def fewer_sessions_ok
    dest: first_admin_ok update_admin_ok new_codes_ok used_code_ok elevated_ok user_handle_ok saved_key_ok
      updated_key_ok enabled_keys_ok deleted_key_ok new_challenge_ok)

lemma empty_ok: "auth_ok empty_store"
  by (simp add: auth_ok_defs empty_store_def is_admin_def)

lemma final_ok: "auth_ok s \<Longrightarrow> auth_ok (final H s cs)"
  by (induction H s cs rule: final.induct) (auto simp: exec_ok)

end
