(* ===== verification/Auth_Properties.thy ===== *)
theory Auth_Properties
  imports Auth_Facts
begin

section \<open>What a history of the authentication tables cannot contain\<close>




subsection \<open>One-time passwords\<close>

text \<open>The time steps accepted since the secret was set, the one that confirmed the secret included.\<close>

fun counters_after :: "auth_op \<Rightarrow> int list \<Rightarrow> int list" where
  "counters_after (UseCounter u c) acc = acc @ [c]"
| "counters_after (Enrol u secret c) acc = [c]"
| "counters_after (FirstAdmin pw secret hashes (Some c)) acc = [c]"
| "counters_after _ acc = acc"

fun accepted_counters :: "int list \<Rightarrow> auth_event list \<Rightarrow> int list" where
  "accepted_counters acc [] = acc"
| "accepted_counters acc ((t, x, ok) # h) = accepted_counters (if ok then counters_after x acc else acc) h"

definition counters_known :: "int list \<Rightarrow> store \<Rightarrow> bool" where
  "counters_known acc s \<longleftrightarrow> auth_ok s \<and> sorted_wrt (<) acc \<and>
     (acc \<noteq> [] \<longrightarrow> (\<exists>a. admins s = [a] \<and> (\<exists>c. au_LastTOTPCounter a = Some c \<and> (\<forall>x \<in> set acc. x \<le> c))))"

lemma admins_cases: "auth_ok s \<Longrightarrow> admins s = [] \<or> (\<exists>a. admins s = [a])"
  by (cases "admins s") (auto simp: auth_ok_defs)

lemma update_admin_one:
  assumes "auth_ok s" and "update_admin P u f s = Inr s'"
  obtains a where "admins s = [a]" "P a" "au_ID a = u" "s' = s\<lparr>admins := [f a]\<rparr>"
  using assms(2) admins_cases [OF assms(1)] by (auto simp: update_admin_def split: if_splits)

lemma update_admin_counters:
  "update_admin P u f s = Inr s' \<Longrightarrow> (\<And>a. au_LastTOTPCounter (f a) = au_LastTOTPCounter a) \<Longrightarrow>
    map au_LastTOTPCounter (admins s') = map au_LastTOTPCounter (admins s)"
  by (auto simp: update_admin_def map_key_update_rows)

lemma quiet_calls_keep_admins [simp]:
  "admins (DeleteOtherSessions H u token s) = admins s" "admins (DeleteSession H token s) = admins s"
  "admins (snd (Session H now token s)) = admins s"
  "admins (snd (ConsumeWebAuthnChallenge H now token purpose s)) = admins s"
  by (auto simp: DeleteOtherSessions_def DeleteSession_def Session_def ConsumeWebAuthnChallenge_def Let_def
      split: option.split)

lemma clearing_keeps_admins [simp]: "admins (ClearAuthenticationAttempts H limits s) = admins s"
  using cleared_attempts [of H limits s] by auto

lemma session_calls_keep_admins:
  "CreateAuthenticatedSession H now u token csrf m a at until ex s = Inr s' \<Longrightarrow> admins s' = admins s"
  "ElevateSession H now cur repl m a at until s = Inr s' \<Longrightarrow> admins s' = admins s"
  "ReserveAuthenticationAttempts H limits w now s = Inr (b, s') \<Longrightarrow> admins s' = admins s"
  by (auto simp: CreateAuthenticatedSession_def insert_session_def ElevateSession_def
    ReserveAuthenticationAttempts_def Let_def split: if_splits)

lemma other_calls_keep_admins:
  "ReplaceRecoveryCodes now u hashes s = Inr s' \<Longrightarrow> admins s' = admins s"
  "ConsumeRecoveryCode now h s = Inr (u, s') \<Longrightarrow> admins s' = admins s"
  "WebAuthnUserHandle now random u rp s = Inr (h, s') \<Longrightarrow> admins s' = admins s"
  "UpdatePasskeyCredential now u rp c ct at s = Inr s' \<Longrightarrow> admins s' = admins s"
  "CreateWebAuthnChallenge H now token ch s = Inr s' \<Longrightarrow> admins s' = admins s"
  by (auto simp: ReplaceRecoveryCodes_def ConsumeRecoveryCode_def WebAuthnUserHandle_def Let_def UpdatePasskeyCredential_def
      CreateWebAuthnChallenge_def split: option.splits sum.splits if_splits)

lemma key_calls_keep_counters:
  "SavePasskeyCredential now u rp c n ct s = Inr s' \<Longrightarrow>
    map au_LastTOTPCounter (admins s') = map au_LastTOTPCounter (admins s)"
  "SetPasskeyEnabled now u rp b s = Inr s' \<Longrightarrow> map au_LastTOTPCounter (admins s') = map au_LastTOTPCounter (admins s)"
  "DeletePasskeyCredential now u rp c s = Inr s' \<Longrightarrow> map au_LastTOTPCounter (admins s') = map au_LastTOTPCounter (admins s)"
  by (auto simp: SavePasskeyCredential_def SetPasskeyEnabled_def DeletePasskeyCredential_def set_passkey_enabled_def
      disable_passkeys_def Let_def map_key_update_rows dest!: update_admin_counters split: if_splits)

lemma attempt_keeps: "(\<And>s'. r = Inr s' \<Longrightarrow> F s' = F s) \<Longrightarrow> F (snd (attempt s r)) = F s"
  by (cases r) (auto simp: attempt_def)

text \<open>Calls that touch no time step.\<close>

fun counter_call :: "auth_op \<Rightarrow> bool" where
  "counter_call (UseCounter u c) = True"
| "counter_call (Enrol u secret c) = True"
| "counter_call (FirstAdmin pw secret hashes c) = True"
| "counter_call _ = False"

lemma same_counters:
  assumes "\<not> counter_call x"
  shows "map au_LastTOTPCounter (admins (snd (exec H t x s))) = map au_LastTOTPCounter (admins s)"
proof (cases x)
  case (ReadSession token)
  then show ?thesis by (simp add: split_beta)
next
  case (TakeChallenge token purpose)
  then show ?thesis by (simp add: split_beta)
next
  case (Reserve limits window)
  then show ?thesis by (auto split: sum.splits dest: session_calls_keep_admins)
next
  case (UseCode h)
  then show ?thesis
    by (auto simp: attempt_store map_sum_Inr split: sum.splits dest!: other_calls_keep_admins(2))
next
  case (UserHandle random u rp)
  then show ?thesis
    by (auto simp: attempt_store map_sum_Inr split: sum.splits dest!: other_calls_keep_admins(3))
qed (use assms in \<open>auto simp: map_sum_Inr ReplacePassword_def ReplaceAdminTOTPSecret_def
    intro!: attempt_keeps [where F = "\<lambda>s. map au_LastTOTPCounter (admins s)"]
    dest: session_calls_keep_admins other_calls_keep_admins key_calls_keep_counters update_admin_counters\<close>)

lemma counters_after_other: "\<not> counter_call x \<Longrightarrow> counters_after x acc = acc"
  by (cases x) auto

lemma counters_known_cong:
  assumes "counters_known acc s" and "auth_ok s'" and "map au_LastTOTPCounter (admins s') = map au_LastTOTPCounter (admins s)"
  shows "counters_known acc s'"
proof (cases "acc = []")
  case False
  with assms(1) obtain a c where "admins s = [a]" "au_LastTOTPCounter a = Some c" "\<forall>x \<in> set acc. x \<le> c"
    by (auto simp: counters_known_def)
  with assms show ?thesis by (auto simp: counters_known_def map_eq_Cons_conv)
qed (use assms in \<open>simp add: counters_known_def\<close>)

lemma counters_step:
  assumes "counters_known acc s"
  shows "counters_known (if fst (exec H t x s) then counters_after x acc else acc) (snd (exec H t x s))"
proof -
  have ok: "auth_ok s" and ok': "auth_ok (snd (exec H t x s))"
    using assms by (simp_all add: counters_known_def exec_ok)
  show ?thesis
  proof (cases "counter_call x")
    case False
    from counters_known_cong [OF assms ok' same_counters [OF False]] show ?thesis
      by (simp add: counters_after_other [OF False])
  next
    case True
    show ?thesis
    proof (cases "fst (exec H t x s)")
      case False
      with True have "snd (exec H t x s) = s"
        by (cases x) (auto simp: attempt_store is_ok_iff split: sum.splits)
      with assms False show ?thesis by simp
    next
      case fine: True
      from True show ?thesis
      proof (cases x)
        case (UseCounter u c)
        with fine obtain s' where s': "ConsumeAdminTOTPCounter t u c s = Inr s'" by (auto simp: is_ok_iff)
        from update_admin_one [OF ok s' [unfolded ConsumeAdminTOTPCounter_def]] obtain a where
          "admins s = [a]" "fresh_counter c a" "s' = s\<lparr>admins := [a\<lparr>au_LastTOTPCounter := Some c, au_UpdatedAt := t\<rparr>]\<rparr>"
          by metis
        with assms ok' s' fine UseCounter show ?thesis
          by (auto simp: counters_known_def attempt_store fresh_counter_def sorted_wrt_append)
      next
        case (Enrol u secret c)
        with fine obtain s' where s': "ReplaceAdminTOTPSecretWithCounter t u secret c s = Inr s'" by (auto simp: is_ok_iff)
        then have "update_admin (\<lambda>_. True) u (\<lambda>a. a\<lparr>au_TOTPSecret := secret, au_LastTOTPCounter := Some c,
            au_UpdatedAt := t\<rparr>) s = Inr s'" by (simp add: ReplaceAdminTOTPSecretWithCounter_def)
        from update_admin_one [OF ok this] obtain a where "s' = s\<lparr>admins := [a\<lparr>au_TOTPSecret := secret,
            au_LastTOTPCounter := Some c, au_UpdatedAt := t\<rparr>]\<rparr>" by metis
        with ok' s' fine Enrol show ?thesis by (auto simp: counters_known_def attempt_store)
      next
        case (FirstAdmin pw secret hashes c)
        with fine obtain s' where s': "createInitialAdminWithRecoveryCodes t pw secret hashes c s = Inr s'"
          by (auto simp: is_ok_iff)
        then have "admins s = []" "map au_LastTOTPCounter (admins s') = [c]"
          by (auto simp: createInitialAdminWithRecoveryCodes_def count_rows_def)
        moreover from this assms have "acc = []" by (auto simp: counters_known_def)
        ultimately show ?thesis using ok' s' fine FirstAdmin
          by (cases c) (auto simp: counters_known_def attempt_store map_eq_Cons_conv)
      qed auto
    qed
  qed
qed

lemma counters_history:
  "counters_known acc s \<Longrightarrow> sorted_wrt (<) (accepted_counters acc (history H s cs))"
proof (induction H s cs arbitrary: acc rule: history.induct)
  case (2 H s t x cs)
  from "2.IH" [OF counters_step [OF "2.prems"]] show ?case by simp
qed (simp add: counters_known_def)

text \<open>
  C35: In every history of the authentication tables, whatever requests interleave in it, the time steps of
  the one-time passwords that were accepted since the secret was set are strictly increasing. So no
  one-time password of a secret is accepted twice after the one that confirmed it.
\<close>

theorem one_time_passwords_are_used_once:
  "sorted_wrt (<) (accepted_counters [] (history H empty_store cs))"
  by (rule counters_history) (simp add: counters_known_def empty_ok)

text \<open>
  An enrolment starts anew, also with the secret that is in use: it may set the last time step back, and then
  a one-time password that was used before is accepted again.
\<close>

definition enrolled_twice :: "auth_call list" where
  "enrolled_twice = [(0, FirstAdmin ''hash'' ''secret'' [] (Some 1)), (30 * second, UseCounter ''admin'' 5),
     (60 * second, Enrol ''admin'' ''secret'' 4), (90 * second, UseCounter ''admin'' 5)]"

lemma enrolment_reopens_counters:
  "map (\<lambda>(t, x, ok). ok) (history id empty_store enrolled_twice) = [True, True, True, True]"
  by code_simp

subsection \<open>Recovery codes\<close>

fun codes_after :: "auth_op \<Rightarrow> string list \<Rightarrow> string list" where
  "codes_after (UseCode h) acc = acc @ [h]"
| "codes_after (SetCodes u hashes) acc = []"
| "codes_after _ acc = acc"

text \<open>The digests of the recovery codes that were accepted since the codes were last replaced.\<close>

fun accepted_codes :: "string list \<Rightarrow> auth_event list \<Rightarrow> string list" where
  "accepted_codes acc [] = acc"
| "accepted_codes acc ((t, x, ok) # h) = accepted_codes (if ok then codes_after x acc else acc) h"

definition spent :: "store \<Rightarrow> string \<Rightarrow> bool" where
  "spent s h \<longleftrightarrow> (\<exists>c \<in> set (recovery_codes s). rc_CodeHash c = h \<and> rc_UsedAt c \<noteq> None)"

definition codes_known :: "string list \<Rightarrow> store \<Rightarrow> bool" where
  "codes_known acc s \<longleftrightarrow> auth_ok s \<and> distinct acc \<and> (\<forall>h \<in> set acc. spent s h)"

fun code_call :: "auth_op \<Rightarrow> bool" where
  "code_call (UseCode h) = True"
| "code_call (SetCodes u hashes) = True"
| "code_call (FirstAdmin pw secret hashes c) = True"
| "code_call _ = False"

lemma same_codes:
  assumes "\<not> code_call x"
  shows "recovery_codes (snd (exec H t x s)) = recovery_codes s"
proof (cases x)
  case (ClearAttempts limits)
  with cleared_attempts [of H limits s] show ?thesis by auto
qed (use assms in \<open>auto simp: attempt_store map_sum_Inr auth_call_defs Let_def
    split: sum.splits option.splits prod.splits if_splits\<close>)

lemma codes_after_other: "\<not> code_call x \<Longrightarrow> codes_after x acc = acc"
  by (cases x) auto

lemma code_used:
  assumes "auth_ok s" and "ConsumeRecoveryCode t h s = Inr (u, s')"
  shows "\<not> spent s h" and "spent s' h" and "spent s k \<Longrightarrow> spent s' k"
proof -
  from assms(2) obtain c where c: "find_row (\<lambda>c. rc_CodeHash c = h) (recovery_codes s) = Some c" "rc_UsedAt c = None"
    and s': "s' = s\<lparr>recovery_codes := update_rows (\<lambda>c. rc_CodeHash c = h \<and> rc_UsedAt c = None)
      (\<lambda>c. c\<lparr>rc_UsedAt := Some t\<rparr>) (recovery_codes s)\<rparr>"
    by (auto simp: ConsumeRecoveryCode_def split: option.splits if_splits)
  from assms(1) have d: "distinct (map rc_CodeHash (recovery_codes s))" by (simp add: auth_ok_defs)
  have "x = c" if "x \<in> set (recovery_codes s)" "rc_CodeHash x = h" for x
    using find_row_key_unique [OF d that(1)] c(1) that(2) by simp
  with c(2) show "\<not> spent s h" by (auto simp: spent_def)
  from find_row_SomeD [OF c(1)] c(2) have "c\<lparr>rc_UsedAt := Some t\<rparr> \<in> set (recovery_codes s')"
    by (force simp: s' set_update_rows)
  with find_row_SomeD [OF c(1)] show "spent s' h" unfolding spent_def by (intro bexI) auto
  show "spent s' k" if "spent s k"
  proof -
    from that obtain d where d: "d \<in> set (recovery_codes s)" "rc_CodeHash d = k" "rc_UsedAt d \<noteq> None"
      by (auto simp: spent_def)
    from d(1,3) have "d \<in> set (recovery_codes s')" by (force simp: s' set_update_rows)
    with d(2,3) show ?thesis unfolding spent_def by (intro bexI) auto
  qed
qed

lemma codes_step:
  assumes "codes_known acc s"
  shows "codes_known (if fst (exec H t x s) then codes_after x acc else acc) (snd (exec H t x s))"
proof -
  have ok: "auth_ok s" and ok': "auth_ok (snd (exec H t x s))"
    using assms by (simp_all add: codes_known_def exec_ok)
  show ?thesis
  proof (cases "code_call x")
    case False
    with assms ok' show ?thesis by (simp add: codes_after_other codes_known_def spent_def same_codes)
  next
    case True
    show ?thesis
    proof (cases "fst (exec H t x s)")
      case False
      with True have "snd (exec H t x s) = s"
        by (cases x) (auto simp: attempt_store is_ok_iff split: sum.splits)
      with assms False show ?thesis by simp
    next
      case fine: True
      from True show ?thesis
      proof (cases x)
        case (UseCode h)
        with fine obtain u s' where s': "ConsumeRecoveryCode t h s = Inr (u, s')" by (auto simp: is_ok_iff map_sum_Inr)
        with code_used [OF ok s'] assms ok' fine UseCode show ?thesis
          by (auto simp: codes_known_def attempt_store)
      next
        case (FirstAdmin pw secret hashes c)
        with fine have "admins s = []"
          by (auto simp: is_ok_iff createInitialAdminWithRecoveryCodes_def count_rows_def)
        with ok have "recovery_codes s = []" by (auto simp: auth_ok_defs is_admin_def)
        with assms have "acc = []" by (auto simp: codes_known_def spent_def)
        with ok' fine FirstAdmin show ?thesis by (simp add: codes_known_def)
      qed (use ok' fine in \<open>auto simp: codes_known_def\<close>)
    qed
  qed
qed

lemma codes_history: "codes_known acc s \<Longrightarrow> distinct (accepted_codes acc (history H s cs))"
proof (induction H s cs arbitrary: acc rule: history.induct)
  case (2 H s t x cs)
  from "2.IH" [OF codes_step [OF "2.prems"]] show ?case by simp
qed (simp add: codes_known_def)

text \<open>
  C36: In every history of the authentication tables, whatever requests interleave in it, no recovery code is
  accepted twice as long as the set of codes is not replaced.
\<close>

theorem recovery_codes_are_used_once: "distinct (accepted_codes [] (history H empty_store cs))"
  by (rule codes_history) (simp add: codes_known_def empty_ok)

subsection \<open>Passkey challenges\<close>

text \<open>The digests of the challenge tokens that were answered and not issued again.\<close>

fun taken_after :: "(string \<Rightarrow> string) \<Rightarrow> auth_op \<Rightarrow> string list \<Rightarrow> string list" where
  "taken_after H (TakeChallenge token purpose) acc = acc @ [H token]"
| "taken_after H (NewChallenge token ch) acc = removeAll (H token) acc"
| "taken_after H _ acc = acc"

fun taken_challenges :: "(string \<Rightarrow> string) \<Rightarrow> string list \<Rightarrow> auth_event list \<Rightarrow> string list" where
  "taken_challenges H acc [] = acc"
| "taken_challenges H acc ((t, x, ok) # h) = taken_challenges H (if ok then taken_after H x acc else acc) h"

definition taken_known :: "string list \<Rightarrow> store \<Rightarrow> bool" where
  "taken_known acc s \<longleftrightarrow> distinct acc \<and> (\<forall>h \<in> set acc. \<forall>c \<in> set (challenges s). wc_TokenHash c \<noteq> h)"

fun challenge_call :: "auth_op \<Rightarrow> bool" where
  "challenge_call (TakeChallenge token purpose) = True"
| "challenge_call (NewChallenge token ch) = True"
| "challenge_call _ = False"

lemma same_challenges:
  assumes "\<not> challenge_call x"
  shows "challenges (snd (exec H t x s)) = challenges s" and "taken_after H x acc = acc"
proof -
  show "challenges (snd (exec H t x s)) = challenges s"
  proof (cases x)
    case (ClearAttempts limits)
    with cleared_attempts [of H limits s] show ?thesis by auto
  qed (use assms in \<open>auto simp: attempt_store map_sum_Inr auth_call_defs Let_def
      split: sum.splits option.splits prod.splits if_splits\<close>)
  show "taken_after H x acc = acc" using assms by (cases x) auto
qed

lemma taken_step:
  assumes "taken_known acc s"
  shows "taken_known (if fst (exec H t x s) then taken_after H x acc else acc) (snd (exec H t x s))"
proof (cases "challenge_call x")
  case False
  with assms show ?thesis by (simp add: same_challenges taken_known_def)
next
  case True
  then show ?thesis
  proof (cases x)
    case (TakeChallenge token purpose)
    with assms show ?thesis
      by (auto simp: ConsumeWebAuthnChallenge_def taken_known_def Let_def split: option.splits if_splits
          dest: find_row_SomeD)
  next
    case (NewChallenge token ch)
    with assms show ?thesis
      by (auto simp: CreateWebAuthnChallenge_def taken_known_def Let_def attempt_def webauthn_challenge.defs
          distinct_removeAll split: if_splits)
  qed auto
qed

lemma taken_history: "taken_known acc s \<Longrightarrow> distinct (taken_challenges H acc (history H s cs))"
proof (induction H s cs arbitrary: acc rule: history.induct)
  case (2 H s t x cs)
  from "2.IH" [OF taken_step [OF "2.prems"]] show ?case by simp
qed (simp add: taken_known_def)

text \<open>
  In every history of the authentication tables, whatever requests interleave in it, a challenge for a
  passkey is answered at most once.
\<close>

theorem challenges_are_answered_once: "distinct (taken_challenges H [] (history H empty_store cs))"
  by (rule taken_history) (simp add: taken_known_def)

text \<open>
  C37: In every history, the tables of the authentication stay well-formed: there is at most one administrator,
  every session, recovery code and passkey belongs to that administrator, digests are unique, and passkey login
  is enabled only while the administrator has a passkey.
\<close>

theorem authentication_tables_stay_ok: "auth_ok (final H empty_store cs)"
  by (intro final_ok empty_ok)

end
