(* ===== verification/Auth_Limits.thy ===== *)
theory Auth_Limits
  imports Auth_Facts
begin

section \<open>How often a key may try\<close>

text \<open>
  The attempts of a key are counted in a sliding window. The attempts that count are those since the key was
  last cleared (a successful login clears its keys). Since times are compared as text, an attempt may
  leave the window up to one second early.
\<close>

definition same_key :: "(string \<Rightarrow> string) \<Rightarrow> string \<Rightarrow> string \<Rightarrow> attempt_limit \<Rightarrow> bool" where
  "same_key H scope key l \<longleftrightarrow> al_Scope l = scope \<and> attempt_hash H (al_Scope l) (al_Key l) = attempt_hash H scope key"

fun attempts_after :: "(string \<Rightarrow> string) \<Rightarrow> string \<Rightarrow> string \<Rightarrow> time \<Rightarrow> auth_op \<Rightarrow> time list \<Rightarrow> time list" where
  "attempts_after H scope key t (Reserve limits window) acc =
     (if list_ex (same_key H scope key) limits then acc @ [t] else acc)"
| "attempts_after H scope key t (ClearAttempts limits) acc = (if list_ex (same_key H scope key) limits then [] else acc)"
| "attempts_after H scope key t _ acc = acc"

text \<open>The times of the attempts that a key was allowed since it was last cleared.\<close>

fun allowed_attempts :: "(string \<Rightarrow> string) \<Rightarrow> string \<Rightarrow> string \<Rightarrow> time list \<Rightarrow> auth_event list \<Rightarrow> time list" where
  "allowed_attempts H scope key acc [] = acc"
| "allowed_attempts H scope key acc ((t, x, ok) # h) =
     allowed_attempts H scope key (if ok then attempts_after H scope key t x acc else acc) h"

text \<open>All reservations use one window, and the key always has the same limit.\<close>

fun call_limits :: "(string \<Rightarrow> string) \<Rightarrow> string \<Rightarrow> string \<Rightarrow> duration \<Rightarrow> int \<Rightarrow> auth_op \<Rightarrow> bool" where
  "call_limits H scope key window limit (Reserve limits w) \<longleftrightarrow> w = window \<and>
     list_all (\<lambda>l. same_key H scope key l \<longrightarrow> al_Limit l = limit) limits"
| "call_limits H scope key window limit _ \<longleftrightarrow> True"

definition in_window :: "duration \<Rightarrow> time \<Rightarrow> time \<Rightarrow> bool" where
  "in_window window t x \<longleftrightarrow> t - window + second \<le> x \<and> x \<le> t"

definition attempts_in :: "duration \<Rightarrow> time \<Rightarrow> time list \<Rightarrow> int" where
  "attempts_in window t ts = int (length (filter (in_window window t) ts))"

subsection \<open>The table keeps every recent attempt\<close>

definition key_row :: "(string \<Rightarrow> string) \<Rightarrow> string \<Rightarrow> string \<Rightarrow> time \<Rightarrow> auth_attempt \<Rightarrow> bool" where
  "key_row H scope key b a \<longleftrightarrow> aa_Scope a = scope \<and> aa_KeyHash a = attempt_hash H scope key \<and> b \<le> aa_AttemptedAt a"

definition remembered :: "(string \<Rightarrow> string) \<Rightarrow> string \<Rightarrow> string \<Rightarrow> duration \<Rightarrow> int \<Rightarrow> time \<Rightarrow> time list \<Rightarrow> store \<Rightarrow> bool" where
  "remembered H scope key window limit T ts s \<longleftrightarrow>
     (\<forall>x \<in> set ts. x \<le> T) \<and>
     (\<forall>b \<ge> T - window + second. length (filter (\<lambda>x. b \<le> x) ts) \<le> count_rows (key_row H scope key b) (auth_attempts s)) \<and>
     (\<forall>t. attempts_in window t ts \<le> max 0 limit)"

lemma count_rows_mono:
  "(\<And>r. r \<in> set rows \<Longrightarrow> P r \<Longrightarrow> Q r) \<Longrightarrow> count_rows P rows \<le> count_rows Q rows"
  by (induction rows) auto

lemma count_rows_delete: "count_rows P (delete_rows Q rows) = count_rows (\<lambda>r. P r \<and> \<not> Q r) rows"
  by (induction rows) auto

lemma count_kept:
  "(\<And>r. P r \<Longrightarrow> \<not> Q r) \<Longrightarrow> count_rows P (delete_rows Q rows) = count_rows P rows"
  by (induction rows) auto

lemma remembered_later:
  assumes "remembered H scope key window limit T ts s" and "T \<le> T'" and "auth_attempts s' = auth_attempts s"
  shows "remembered H scope key window limit T' ts s'"
  using assms by (force simp: remembered_def)

lemma within_limits_True:
  "within_limits H cutoff s ls = Inr True \<longleftrightarrow> (\<forall>l \<in> set ls. TrimSpace (al_Scope l) \<noteq> [] \<and> TrimSpace (al_Key l) \<noteq> [] \<and>
     0 < al_Limit l \<and> AuthenticationAttemptCount H (al_Scope l) (al_Key l) cutoff s < al_Limit l)"
  by (induction ls) auto

lemma key_row_kept:
  "t - window + second \<le> b \<Longrightarrow> key_row H scope key b a \<Longrightarrow> \<not> text_le (aa_AttemptedAt a) (t - window)"
  using text_le_imp_near by (fastforce simp: key_row_def)

lemma count_bounds_attempts:
  assumes "t - window + second \<le> b" and "same_key H scope key l"
  shows "int (count_rows (key_row H scope key b) rows)
    \<le> AuthenticationAttemptCount H (al_Scope l) (al_Key l) (t - window) (s\<lparr>auth_attempts :=
        delete_rows (\<lambda>a. text_le (aa_AttemptedAt a) (t - window)) rows\<rparr>)"
proof -
  have "count_rows (key_row H scope key b) rows =
      count_rows (key_row H scope key b) (delete_rows (\<lambda>a. text_le (aa_AttemptedAt a) (t - window)) rows)"
    using key_row_kept [OF assms(1)] by (simp add: count_kept)
  also have "\<dots> \<le> count_rows (\<lambda>a. aa_Scope a = al_Scope l \<and> aa_KeyHash a = attempt_hash H (al_Scope l) (al_Key l) \<and>
      text_less (t - window) (aa_AttemptedAt a)) (delete_rows (\<lambda>a. text_le (aa_AttemptedAt a) (t - window)) rows)"
    using assms(2) by (intro count_rows_mono) (auto simp: key_row_def same_key_def text_less_le)
  finally show ?thesis by (simp add: AuthenticationAttemptCount_def)
qed

lemma new_row_counts:
  "list_ex (same_key H scope key) limits \<Longrightarrow> b \<le> t \<Longrightarrow>
    1 \<le> count_rows (key_row H scope key b) (map (\<lambda>l. \<lparr>aa_Scope = al_Scope l,
      aa_KeyHash = attempt_hash H (al_Scope l) (al_Key l), aa_AttemptedAt = t\<rparr>) limits)"
  by (induction limits) (auto simp: key_row_def same_key_def)

lemma recent_in_window: "int (length (filter (in_window window t) ts)) \<le> int (length (filter (\<lambda>x. t - window + second \<le> x) ts))"
  by (induction ts) (auto simp: in_window_def)

lemma reserved_remembered:
  assumes old: "remembered H scope key window limit T ts s" and "T \<le> t"
    and r: "ReserveAuthenticationAttempts H limits window t s = Inr (True, s')"
    and lims: "list_all (\<lambda>l. same_key H scope key l \<longrightarrow> al_Limit l = limit) limits"
  shows "remembered H scope key window limit t (if list_ex (same_key H scope key) limits then ts @ [t] else ts) s'"
proof -
  let ?s1 = "s\<lparr>auth_attempts := delete_rows (\<lambda>a. text_le (aa_AttemptedAt a) (t - window)) (auth_attempts s)\<rparr>"
  let ?new = "map (\<lambda>l. \<lparr>aa_Scope = al_Scope l, aa_KeyHash = attempt_hash H (al_Scope l) (al_Key l), aa_AttemptedAt = t\<rparr>) limits"
  let ?hit = "list_ex (same_key H scope key) limits"
  from r have within: "within_limits H (t - window) ?s1 limits = Inr True"
    and s': "auth_attempts s' = auth_attempts ?s1 @ ?new"
    by (auto simp: ReserveAuthenticationAttempts_def Let_def split: if_splits)
  have rows: "length (filter (\<lambda>x. b \<le> x) (if ?hit then ts @ [t] else ts)) \<le> count_rows (key_row H scope key b) (auth_attempts s')"
    if "t - window + second \<le> b" for b
  proof -
    have "count_rows (key_row H scope key b) (auth_attempts ?s1) = count_rows (key_row H scope key b) (auth_attempts s)"
      using key_row_kept [OF that] by (simp add: count_kept)
    moreover have "length (filter (\<lambda>x. b \<le> x) ts) \<le> count_rows (key_row H scope key b) (auth_attempts s)"
      using old \<open>T \<le> t\<close> that by (simp add: remembered_def)
    ultimately show ?thesis using new_row_counts [of H scope key limits b t] by (auto simp: s')
  qed
  have window: "attempts_in window u (if ?hit then ts @ [t] else ts) \<le> max 0 limit" for u
  proof (cases "?hit \<and> t \<le> u")
    case True
    then obtain l where l: "l \<in> set limits" "same_key H scope key l" by (auto simp: list_ex_iff)
    with lims within have "AuthenticationAttemptCount H (al_Scope l) (al_Key l) (t - window) ?s1 < limit"
      unfolding within_limits_True list_all_iff by metis
    moreover have "t - window + second \<le> u - window + second" using True by simp
    note count_bounds_attempts [OF this l(2), of "auth_attempts s" s]
    moreover have "length (filter (\<lambda>x. u - window + second \<le> x) ts)
        \<le> count_rows (key_row H scope key (u - window + second)) (auth_attempts s)"
      using old \<open>T \<le> t\<close> True by (simp add: remembered_def)
    ultimately have "attempts_in window u ts < limit"
      using recent_in_window [of window u ts] by (simp add: attempts_in_def)
    with True show ?thesis by (auto simp: attempts_in_def)
  next
    case False
    with old show ?thesis by (auto simp: remembered_def attempts_in_def in_window_def)
  qed
  show ?thesis unfolding remembered_def
  proof (intro conjI allI impI)
    show "\<forall>x \<in> set (if ?hit then ts @ [t] else ts). x \<le> t"
      using old \<open>T \<le> t\<close> by (auto simp: remembered_def)
  qed (use rows window in blast)+
qed

lemma cleared_rows:
  "\<not> list_ex (same_key H scope key) ls \<Longrightarrow>
    count_rows (key_row H scope key b) (auth_attempts (ClearAuthenticationAttempts H ls s))
      = count_rows (key_row H scope key b) (auth_attempts s)"
proof (induction H ls s rule: ClearAuthenticationAttempts.induct)
  case (2 H l ls s)
  have "count_rows (key_row H scope key b) (delete_rows (\<lambda>a. aa_Scope a = al_Scope l \<and>
      aa_KeyHash a = attempt_hash H (al_Scope l) (al_Key l)) (auth_attempts s))
      = count_rows (key_row H scope key b) (auth_attempts s)"
    using "2.prems" by (intro count_kept) (auto simp: key_row_def same_key_def)
  with 2 show ?case by simp
qed simp

fun attempt_call :: "auth_op \<Rightarrow> bool" where
  "attempt_call (Reserve limits window) = True"
| "attempt_call (ClearAttempts limits) = True"
| "attempt_call _ = False"

lemma same_attempts:
  assumes "\<not> attempt_call x"
  shows "auth_attempts (snd (exec H t x s)) = auth_attempts s" and "attempts_after H scope key t x acc = acc"
proof -
  show "auth_attempts (snd (exec H t x s)) = auth_attempts s"
    using assms by (cases x) (auto simp: attempt_store map_sum_Inr auth_call_defs Let_def
      split: sum.splits option.splits prod.splits if_splits)
  show "attempts_after H scope key t x acc = acc" using assms by (cases x) auto
qed

lemma refused_reservation:
  "(\<exists>e. ReserveAuthenticationAttempts H limits w t s = Inl e) \<or> ReserveAuthenticationAttempts H limits w t s = Inr (False, s)
    \<or> (\<exists>s'. ReserveAuthenticationAttempts H limits w t s = Inr (True, s'))"
proof (cases "within_limits H (t - w) (s\<lparr>auth_attempts := delete_rows (\<lambda>a. text_le (aa_AttemptedAt a) (t - w)) (auth_attempts s)\<rparr>) limits")
  case (Inr allowed)
  then show ?thesis by (cases allowed) (simp_all add: ReserveAuthenticationAttempts_def Let_def)
qed (simp add: ReserveAuthenticationAttempts_def Let_def)

lemma remembered_step:
  assumes old: "remembered H scope key window limit T ts s" and t: "T \<le> t" and lims: "call_limits H scope key window limit x"
  shows "remembered H scope key window limit t (if fst (exec H t x s) then attempts_after H scope key t x ts else ts)
    (snd (exec H t x s))"
proof (cases "attempt_call x")
  case False
  with remembered_later [OF old t] show ?thesis by (simp add: same_attempts)
next
  case True
  then show ?thesis
  proof (cases x)
    case (Reserve limits w)
    with lims have w: "w = window" and l: "list_all (\<lambda>l. same_key H scope key l \<longrightarrow> al_Limit l = limit) limits" by simp_all
    show ?thesis
    proof (cases "\<exists>s'. ReserveAuthenticationAttempts H limits window t s = Inr (True, s')")
      case True
      then obtain s' where r: "ReserveAuthenticationAttempts H limits window t s = Inr (True, s')" by blast
      from reserved_remembered [OF old t r l] r show ?thesis by (simp add: Reserve w)
    next
      case False
      with refused_reservation [of H limits window t s] have "exec H t x s = (False, s)"
        by (auto simp: Reserve w)
      with remembered_later [OF old t] show ?thesis by simp
    qed
  next
    case (ClearAttempts limits)
    show ?thesis
    proof (cases "list_ex (same_key H scope key) limits")
      case True
      then show ?thesis by (simp add: ClearAttempts remembered_def attempts_in_def)
    next
      case False
      with remembered_later [OF old t refl] show ?thesis by (simp add: ClearAttempts remembered_def cleared_rows)
    qed
  qed auto
qed

lemma attempts_history:
  "remembered H scope key window limit T ts s \<Longrightarrow> sorted (T # map fst cs) \<Longrightarrow>
    list_all (\<lambda>(t, x). call_limits H scope key window limit x) cs \<Longrightarrow>
    attempts_in window u (allowed_attempts H scope key ts (history H s cs)) \<le> max 0 limit"
proof (induction H s cs arbitrary: T ts rule: history.induct)
  case (2 H s t x cs)
  then have t: "T \<le> t" and l: "call_limits H scope key window limit x" by auto
  from "2.prems" have "sorted (t # map fst cs)" "list_all (\<lambda>(t, x). call_limits H scope key window limit x) cs" by auto
  with "2.IH" [OF remembered_step [OF "2.prems"(1) t l]] show ?case by simp
qed (simp add: remembered_def)

text \<open>
  C38: When the calls of a history come in the order of their times and the reservations use one window and one
  limit for a key, then at every point in time the attempts that the key was allowed in the window before it,
  less the first second of the window, do not exceed the limit.
\<close>

theorem attempts_stay_within_limit:
  assumes "sorted (map fst cs)" and "list_all (\<lambda>(t, x). call_limits H scope key window limit x) cs"
  shows "attempts_in window t (allowed_attempts H scope key [] (history H s cs)) \<le> max 0 limit"
proof (cases cs)
  case (Cons c cs')
  with assms have "sorted (fst c # map fst cs)" by simp
  moreover have "remembered H scope key window limit (fst c) [] s" by (simp add: remembered_def attempts_in_def)
  ultimately show ?thesis using attempts_history assms(2) by blast
qed (simp add: attempts_in_def)

text \<open>Three attempts against a limit of two: the third is refused.\<close>

definition sample_limits :: "attempt_limit list" where
  "sample_limits = [\<lparr>al_Scope = ''login-ip'', al_Key = ''10.0.0.1'', al_Limit = 2\<rparr>]"

definition sample_attempts :: "auth_call list" where
  "sample_attempts = [(0, Reserve sample_limits (10 * minute)), (second, Reserve sample_limits (10 * minute)),
     (2 * second, Reserve sample_limits (10 * minute))]"

theorem attempts_stay_within_limit_witness:
  "attempts_in (10 * minute) (3 * second) (allowed_attempts id ''login-ip'' ''10.0.0.1'' []
     (history id empty_store sample_attempts)) \<le> 2 \<and>
   allowed_attempts id ''login-ip'' ''10.0.0.1'' [] (history id empty_store sample_attempts) = [0, second]"
proof
  have "sorted (map fst sample_attempts)" by (simp add: sample_attempts_def second_def)
  moreover have "list_all (\<lambda>(t, x). call_limits id ''login-ip'' ''10.0.0.1'' (10 * minute) 2 x) sample_attempts"
    by (simp add: sample_attempts_def sample_limits_def same_key_def attempt_hash_def)
  ultimately show "attempts_in (10 * minute) (3 * second) (allowed_attempts id ''login-ip'' ''10.0.0.1'' []
     (history id empty_store sample_attempts)) \<le> 2"
    using attempts_stay_within_limit by fastforce
qed code_simp

end
