(* ===== verification/Auth_Credentials.thy ===== *)
theory Auth_Credentials
  imports Auth_Store Go_Net
begin

section \<open>Passwords, one-time passwords, recovery codes and the initialization token\<close>

text \<open>
  \<open>internal/auth/auth.go\<close> and what the setup checks. The digests, HMAC-SHA1 (\<open>mac\<close>, on the key and the
  message) and the password function are arguments; base32 without padding (package
  \<open>encoding/base32\<close>) is modelled.
\<close>

subsection \<open>Upper case\<close>

text \<open>
  \<open>strings.ToUpper\<close> for results that are then checked to be ASCII: besides the ASCII letters the two code
  points whose upper case is an ASCII letter (U+0131 and U+017F). Other text above ASCII stays above ASCII.
\<close>

function ToUpperText :: "string \<Rightarrow> string" where
  "ToUpperText [] = []"
| "ToUpperText (c # s) =
     (if HasPrefix (c # s) [CHR 0xC4, CHR 0xB1] then CHR ''I'' # ToUpperText (drop 1 s)
      else if HasPrefix (c # s) [CHR 0xC5, CHR 0xBF] then CHR ''S'' # ToUpperText (drop 1 s)
      else upper_byte c # ToUpperText s)"
  by pat_completeness auto
termination by (relation "measure length") auto

subsection \<open>Base32\<close>

definition base32_digit :: "char \<Rightarrow> int option" where
  "base32_digit c =
     (if is_upper c then Some (int (byte_of c) - 65)
      else if 50 \<le> byte_of c \<and> byte_of c \<le> 55 then Some (int (byte_of c) - 24) else None)"

text \<open>A group of eight digits is five bytes; a shorter last group of 1, 3 or 6 digits adds no byte.\<close>

definition group_size :: "nat \<Rightarrow> nat" where
  "group_size n = (if n = 8 then 5 else if n = 7 then 4 else if n = 5 then 3 else if n = 4 then 2
     else if n = 2 then 1 else 0)"

definition group_bytes :: "int list \<Rightarrow> string" where
  "group_bytes ds =
     (let v = foldl (\<lambda>v d. v * 32 + d) 0 (ds @ replicate (8 - length ds) 0) in
      map (\<lambda>i. char_of (nat (v div 256 ^ (4 - i) mod 256))) [0..<group_size (length ds)])"

function base32_groups :: "int list \<Rightarrow> string" where
  "base32_groups ds = (if ds = [] then [] else group_bytes (take 8 ds) @ base32_groups (drop 8 ds))"
  by pat_completeness auto
termination by (relation "measure length") auto

declare base32_groups.simps [simp del]

definition base32_decode :: "string \<Rightarrow> string option" where
  "base32_decode s =
     map_option base32_groups (those (map base32_digit (filter (\<lambda>c. c \<noteq> CHR 0x0A \<and> c \<noteq> CHR 0x0D) s)))"

subsection \<open>Passwords\<close>

definition HashPassword :: "(string \<Rightarrow> string result) \<Rightarrow> string \<Rightarrow> string result" where
  "HashPassword kdf password =
     (if length password < 12 then Inl (err ''password must be at least 12 characters'') else kdf password)"

subsection \<open>One-time passwords\<close>

definition NormalizeTOTPSecret :: "string \<Rightarrow> string" where
  "NormalizeTOTPSecret secret = ToUpperText (filter (\<lambda>c. c \<noteq> CHR '' '') (TrimSpace secret))"

definition ValidTOTPSecret :: "string \<Rightarrow> bool" where
  "ValidTOTPSecret secret =
     (case base32_decode (NormalizeTOTPSecret secret) of None \<Rightarrow> False | Some decoded \<Rightarrow> length decoded \<ge> 10)"

text \<open>The time step of a point in time after 1970.\<close>

definition totp_counter :: "time \<Rightarrow> int" where
  "totp_counter t = t div second div 30"

definition big_endian_64 :: "int \<Rightarrow> string" where
  "big_endian_64 n = map (\<lambda>i. char_of (nat (n div 256 ^ (7 - i) mod 256))) [0..<8]"

definition six_digits :: "int \<Rightarrow> string" where
  "six_digits n = map (\<lambda>i. char_of (48 + nat (n div 10 ^ (5 - i) mod 10))) [0..<6]"

definition totp :: "(string \<Rightarrow> string \<Rightarrow> string) \<Rightarrow> string \<Rightarrow> time \<Rightarrow> string" where
  "totp mac secret now =
     (let sum = mac secret (big_endian_64 (totp_counter now));
          offset = byte_of (last sum) mod 16;
          value = int (byte_of (sum ! offset) mod 128) * 2 ^ 24 + int (byte_of (sum ! (offset + 1))) * 2 ^ 16
                  + int (byte_of (sum ! (offset + 2))) * 2 ^ 8 + int (byte_of (sum ! (offset + 3)))
      in six_digits (value mod 1000000))"

text \<open>The offsets are tried in the order 0, -1, 1 time steps.\<close>

definition MatchTOTP :: "(string \<Rightarrow> string \<Rightarrow> string) \<Rightarrow> string \<Rightarrow> string \<Rightarrow> time \<Rightarrow> int option" where
  "MatchTOTP mac secret code now =
     (case base32_decode (NormalizeTOTPSecret secret) of
        None \<Rightarrow> None
      | Some decoded \<Rightarrow>
          (if length code \<noteq> 6 then None
           else map_option totp_counter (List.find (\<lambda>candidate. totp mac decoded candidate = code)
             [now, now - 30 * second, now + 30 * second])))"

definition VerifyTOTP :: "(string \<Rightarrow> string \<Rightarrow> string) \<Rightarrow> string \<Rightarrow> string \<Rightarrow> time \<Rightarrow> bool" where
  "VerifyTOTP mac secret code now \<longleftrightarrow> MatchTOTP mac secret code now \<noteq> None"

subsection \<open>Recovery codes\<close>

text \<open>\<open>digest\<close> is SHA-256 in base64.\<close>

definition RecoveryCodeHash :: "(string \<Rightarrow> string) \<Rightarrow> string \<Rightarrow> string" where
  "RecoveryCodeHash digest code = digest (''cdn-platform-recovery-v1:'' @ TrimSpace code)"

definition recovery_char :: "char \<Rightarrow> bool" where
  "recovery_char c \<longleftrightarrow> is_upper c \<or> is_digit c \<or> c = CHR ''-'' \<or> c = CHR ''_''"

definition valid_recovery_code :: "string \<Rightarrow> bool" where
  "valid_recovery_code code \<longleftrightarrow> length code = 17 \<and> code ! 8 = CHR ''-'' \<and>
     list_all recovery_char (take 8 code @ drop 9 code)"

fun normalize_codes :: "string set \<Rightarrow> string list \<Rightarrow> string list result" where
  "normalize_codes seen [] = Inr []"
| "normalize_codes seen (value # rest) =
     (let code = ToUpperText (TrimSpace value) in
      if \<not> valid_recovery_code code then Inl (err ''invalid recovery code set'')
      else if code \<in> seen then Inl (err ''recovery codes must be unique'')
      else map_sum id (\<lambda>codes. code # codes) (normalize_codes (insert code seen) rest))"

definition normalizeSetupRecoveryCodes :: "string list \<Rightarrow> string list result" where
  "normalizeSetupRecoveryCodes codes =
     (if length codes \<noteq> 10 then Inl (err ''exactly 10 recovery codes are required'')
      else normalize_codes {} codes)"

subsection \<open>Networks\<close>

text \<open>A \<open>net.IPNet\<close> of \<open>net.ParseCIDR\<close>: an IPv4 network contains IPv4 addresses only, an IPv6 network no IPv4
  address.\<close>

record ip_net =
  in_IP :: ip
  in_Bits :: nat

definition ip_value :: "ip \<Rightarrow> int" where
  "ip_value a = foldl (\<lambda>v g. v * 65536 + g) 0 (if is_v4 a then drop 6 a else a)"

definition net_contains :: "ip_net \<Rightarrow> ip \<Rightarrow> bool" where
  "net_contains n a \<longleftrightarrow> is_v4 a = is_v4 (in_IP n) \<and>
     (let rest = (if is_v4 a then 32 else 128) - in_Bits n in
      ip_value a div 2 ^ rest = ip_value (in_IP n) div 2 ^ rest)"

definition setupIPAllowed :: "ip_net list \<Rightarrow> string \<Rightarrow> bool" where
  "setupIPAllowed cidrs address =
     (case ParseIP address of None \<Rightarrow> False | Some a \<Rightarrow> list_ex (\<lambda>n. net_contains n a) cidrs)"

definition remoteIP :: "string \<Rightarrow> string" where
  "remoteIP remoteAddr = (case SplitHostPort remoteAddr of Some (host, _) \<Rightarrow> host | None \<Rightarrow> remoteAddr)"

definition isTrustedProxy :: "ip_net list \<Rightarrow> ip \<Rightarrow> bool" where
  "isTrustedProxy cidrs a \<longleftrightarrow> list_ex (\<lambda>n. net_contains n a) cidrs"

text \<open>\<open>realIP\<close> is the header \<open>X-Real-IP\<close>.\<close>

definition requestIP :: "ip_net list \<Rightarrow> string \<Rightarrow> string \<Rightarrow> string" where
  "requestIP cidrs remoteAddr realIP =
     (let peer = remoteIP remoteAddr in
      case ParseIP peer of
        None \<Rightarrow> peer
      | Some a \<Rightarrow>
          (if \<not> isTrustedProxy cidrs a then peer
           else (case ParseIP (TrimSpace realIP) of Some f \<Rightarrow> IP_String f | None \<Rightarrow> peer)))"

subsection \<open>The initialization token\<close>

text \<open>
  The token is a file that only its owner may read; setup consumes it. What is at the path is a
  \<open>token_file\<close>; the errors that the calls of the operating system may return are arguments.
\<close>

datatype token_file = NoFile | NotRegular | TokenFile nat string

definition ErrNotExist :: go_error where "ErrNotExist = Sentinel ''os.ErrNotExist''"

text \<open>\<open>errors.Is(err, os.ErrNotExist)\<close>, also through one wrapping.\<close>

definition is_not_exist :: "go_error \<Rightarrow> bool" where
  "is_not_exist e \<longleftrightarrow> e = ErrNotExist \<or>
     (case e of Errorf _ args \<Rightarrow> ArgE ErrNotExist \<in> set args | Sentinel _ \<Rightarrow> False)"

record token_outcomes =
  to_Lstat :: "go_error option"
  to_Read :: "go_error option"
  to_Remove :: "go_error option"

definition readInitializationToken :: "token_outcomes \<Rightarrow> token_file \<Rightarrow> string result" where
  "readInitializationToken io f =
     (case (to_Lstat io, f) of
        (Some e, _) \<Rightarrow> Inl e
      | (None, NoFile) \<Rightarrow> Inl ErrNotExist
      | (None, NotRegular) \<Rightarrow> Inl (err ''initialization token path must be a regular file'')
      | (None, TokenFile perm contents) \<Rightarrow>
          (if perm mod 64 \<noteq> 0 then Inl (err ''initialization token file permissions must be 0600'')
           else (case to_Read io of
               Some e \<Rightarrow> Inl (Errorf ''read initialization token: %w'' [ArgE e])
             | None \<Rightarrow>
                 (let token = TrimSpace contents in
                  if length token < 32 \<or> length token > 256 then Inl (err ''initialization token file is invalid'')
                  else Inr token))))"

definition path_missing :: "string \<Rightarrow> bool" where
  "path_missing path \<longleftrightarrow> TrimSpace path = []"

definition VerifyInitializationToken ::
    "(string \<Rightarrow> string) \<Rightarrow> token_outcomes \<Rightarrow> string \<Rightarrow> token_file \<Rightarrow> string \<Rightarrow> unit result" where
  "VerifyInitializationToken sha io path f supplied =
     (if path_missing path then Inl (err ''initialization token path is required'')
      else (case readInitializationToken io f of
          Inl e \<Rightarrow> Inl e
        | Inr expected \<Rightarrow>
            (if sha expected \<noteq> sha (TrimSpace supplied) then Inl (err ''initialization token does not match'')
             else Inr ())))"

definition RemoveInitializationToken :: "token_outcomes \<Rightarrow> string \<Rightarrow> token_file \<Rightarrow> token_file result" where
  "RemoveInitializationToken io path f =
     (if path_missing path then Inl (err ''initialization token path is required'')
      else (case (to_Lstat io, f) of
          (Some e, _) \<Rightarrow> (if is_not_exist e then Inr f else Inl (Errorf ''inspect initialization token: %w'' [ArgE e]))
        | (None, NoFile) \<Rightarrow> Inr NoFile
        | (None, NotRegular) \<Rightarrow> Inl (err ''initialization token path must be a regular file'')
        | (None, TokenFile _ _) \<Rightarrow>
            (case to_Remove io of
               Some e \<Rightarrow> Inl (Errorf ''remove initialization token: %w'' [ArgE e])
             | None \<Rightarrow> Inr NoFile)))"

definition ConsumeInitializationToken ::
    "(string \<Rightarrow> string) \<Rightarrow> token_outcomes \<Rightarrow> string \<Rightarrow> token_file \<Rightarrow> string \<Rightarrow> token_file result" where
  "ConsumeInitializationToken sha io path f supplied =
     (case VerifyInitializationToken sha io path f supplied of
        Inl e \<Rightarrow> Inl e
      | Inr _ \<Rightarrow> RemoveInitializationToken io path f)"

text \<open>
  The bootstrap of a new control plane writes the token. \<open>eo_Raced\<close> is what another process may have put
  at the path since it was read, \<open>eo_Written\<close> how many bytes a failing write wrote.
\<close>

record ensure_outcomes =
  eo_First :: token_outcomes
  eo_Mkdir :: "go_error option"
  eo_Token :: "string result"
  eo_Raced :: "token_file option"
  eo_Again :: token_outcomes
  eo_Open :: "go_error option"
  eo_Chmod :: "go_error option"
  eo_Write :: "go_error option"
  eo_Written :: nat
  eo_Sync :: "go_error option"

definition write_token :: "ensure_outcomes \<Rightarrow> string \<Rightarrow> bool result \<times> token_file" where
  "write_token io token =
     (case eo_Chmod io of
        Some e \<Rightarrow> (Inl (Errorf ''set initialization token permissions: %w'' [ArgE e]), TokenFile 384 [])
      | None \<Rightarrow> (case eo_Write io of
          Some e \<Rightarrow> (Inl (Errorf ''write initialization token: %w'' [ArgE e]), TokenFile 384 (take (eo_Written io) token))
        | None \<Rightarrow> (case eo_Sync io of
            Some e \<Rightarrow> (Inl (Errorf ''sync initialization token: %w'' [ArgE e]), TokenFile 384 (token @ [CHR 0x0A]))
          | None \<Rightarrow> (Inr True, TokenFile 384 (token @ [CHR 0x0A])))))"

definition EnsureInitializationToken :: "ensure_outcomes \<Rightarrow> string \<Rightarrow> token_file \<Rightarrow> bool result \<times> token_file" where
  "EnsureInitializationToken io path f =
     (if path_missing path then (Inl (err ''initialization token path is required''), f)
      else (case readInitializationToken (eo_First io) f of
          Inr _ \<Rightarrow> (Inr False, f)
        | Inl e \<Rightarrow>
            (if \<not> is_not_exist e then (Inl e, f)
             else (case eo_Mkdir io of
                 Some e \<Rightarrow> (Inl (Errorf ''create initialization token directory: %w'' [ArgE e]), f)
               | None \<Rightarrow> (case eo_Token io of
                   Inl e \<Rightarrow> (Inl (Errorf ''generate initialization token: %w'' [ArgE e]), f)
                 | Inr token \<Rightarrow> (case eo_Raced io of
                     Some f' \<Rightarrow> (map_sum id (\<lambda>_. False) (readInitializationToken (eo_Again io) f'), f')
                   | None \<Rightarrow> (case eo_Open io of
                       Some e \<Rightarrow> (Inl (Errorf ''create initialization token file: %w'' [ArgE e]), f)
                     | None \<Rightarrow> write_token io token)))))))"

text \<open>
  A token file that could not be written completely stays at the path. From then on every start fails, since
  the file exists but is not valid: the bootstrap does not write it again.
\<close>

lemma torn_token_blocks_bootstrap:
  assumes "snd (EnsureInitializationToken io path NoFile) = TokenFile 384 contents" and "length contents < 32"
    and "\<not> path_missing path" and "to_Lstat (eo_First io') = None" and "to_Read (eo_First io') = None"
  shows "EnsureInitializationToken io' path (snd (EnsureInitializationToken io path NoFile))
    = (Inl (err ''initialization token file is invalid''), TokenFile 384 contents)"
proof -
  have "length (TrimSpace contents) < 32"
    using assms(2) length_TrimSpace [of contents] by linarith
  with assms show ?thesis
    by (simp add: EnsureInitializationToken_def readInitializationToken_def is_not_exist_def err_def ErrNotExist_def Let_def)
qed

lemma torn_token_example:
  "EnsureInitializationToken \<lparr>eo_First = \<lparr>to_Lstat = None, to_Read = None, to_Remove = None\<rparr>, eo_Mkdir = None,
     eo_Token = Inr (replicate 43 (CHR ''x'')), eo_Raced = None, eo_Again = \<lparr>to_Lstat = None, to_Read = None, to_Remove = None\<rparr>,
     eo_Open = None, eo_Chmod = None, eo_Write = Some (Sentinel ''ENOSPC''), eo_Written = 10, eo_Sync = None\<rparr> ''/token'' NoFile
   = (Inl (Errorf ''write initialization token: %w'' [ArgE (Sentinel ''ENOSPC'')]), TokenFile 384 (replicate 10 (CHR ''x'')))"
  by code_simp

end
