(* ===== verification/Auth_Handlers.thy ===== *)
theory Auth_Handlers
  imports Auth_Credentials Passkey_Store
begin

section \<open>The handlers of the authentication\<close>

text \<open>
  Setup, login, repeated authentication and the guards in front of every handler of the console
  (\<open>control/server.go\<close>, \<open>authentication_security.go\<close>, \<open>authentication_settings.go\<close>, \<open>totp_secret.go\<close>). A
  handler returns a status and an error, or what it answers, and the store after it; the cookie it sets is
  part of the answer. One reading of the clock serves a whole request. Cryptographic functions are in
  a \<open>crypto_env\<close>; new tokens are arguments. The audit log is left out.
\<close>

record crypto_env =
  ce_HashToken :: "string \<Rightarrow> string"
  ce_RecoveryDigest :: "string \<Rightarrow> string"
  ce_Sha :: "string \<Rightarrow> string"
  ce_Mac :: "string \<Rightarrow> string \<Rightarrow> string"
  ce_Kdf :: "string \<Rightarrow> string result"
  ce_VerifyPassword :: "string \<Rightarrow> string \<Rightarrow> bool"
  ce_Cipher :: "((string \<Rightarrow> string result) \<times> (string \<Rightarrow> string result)) option"
  ce_Encode :: "string \<Rightarrow> string"
  ce_Decode :: "string \<Rightarrow> string result"

record server_config =
  sv_TrustedProxyCIDRs :: "ip_net list"
  sv_SetupAllowCIDRs :: "ip_net list"
  sv_InitializationTokenPath :: string

record web_request =
  rq_RemoteAddr :: string
  rq_RealIP :: string
  rq_Method :: string
  rq_CSRF :: string
  rq_Cookie :: "string option"

type_synonym 'a reply = "(int \<times> go_error) + 'a"

definition recentAuthenticationLifetime :: duration where "recentAuthenticationLifetime = 5 * minute"
definition adminSessionLifetime :: duration where "adminSessionLifetime = 12 * 60 * minute"
definition authenticationAttemptWindow :: duration where "authenticationAttemptWindow = 10 * minute"

definition refuse :: "int \<Rightarrow> string \<Rightarrow> 'a reply" where
  "refuse status message = Inl (status, err message)"

subsection \<open>The TOTP secret at rest\<close>

definition encryptedTOTPSecretPrefix :: string where
  "encryptedTOTPSecretPrefix = ''enc:totp:v1:''"

definition encryptTOTPSecret :: "crypto_env \<Rightarrow> string \<Rightarrow> string result" where
  "encryptTOTPSecret env secret0 =
     (case ce_Cipher env of
        None \<Rightarrow> Inl (err ''CONTROL_ENCRYPTION_KEY is not configured'')
      | Some (encrypt, _) \<Rightarrow>
          (let secret = NormalizeTOTPSecret secret0 in
           if \<not> ValidTOTPSecret secret then Inl (err ''invalid TOTP secret'')
           else (case encrypt secret of
               Inl e \<Rightarrow> Inl (Errorf ''encrypt TOTP secret: %w'' [ArgE e])
             | Inr ciphertext \<Rightarrow> Inr (encryptedTOTPSecretPrefix @ ce_Encode env ciphertext))))"

text \<open>The secret and whether it was stored in the old form, without encryption.\<close>

definition decryptTOTPSecret :: "crypto_env \<Rightarrow> string \<Rightarrow> (string \<times> bool) result" where
  "decryptTOTPSecret env stored =
     (case ce_Cipher env of
        None \<Rightarrow> Inl (err ''CONTROL_ENCRYPTION_KEY is not configured'')
      | Some (_, decrypt) \<Rightarrow>
          (if \<not> HasPrefix stored encryptedTOTPSecretPrefix
           then (let secret = NormalizeTOTPSecret stored in
             if \<not> ValidTOTPSecret secret then Inl (err ''stored TOTP secret is invalid'') else Inr (secret, True))
           else (case ce_Decode env (TrimPrefix stored encryptedTOTPSecretPrefix) of
               Inl e \<Rightarrow> Inl (Errorf ''decode encrypted TOTP secret: %w'' [ArgE e])
             | Inr ciphertext \<Rightarrow> (case decrypt ciphertext of
                 Inl e \<Rightarrow> Inl (Errorf ''decrypt encrypted TOTP secret: %w'' [ArgE e])
               | Inr plaintext \<Rightarrow>
                   (let secret = NormalizeTOTPSecret plaintext in
                    if \<not> ValidTOTPSecret secret then Inl (err ''decrypted TOTP secret is invalid'')
                    else Inr (secret, False))))))"

definition adminTOTPSecret :: "crypto_env \<Rightarrow> time \<Rightarrow> admin \<Rightarrow> store \<Rightarrow> string result \<times> store" where
  "adminTOTPSecret env now admin s =
     (case decryptTOTPSecret env (ad_TOTPSecret admin) of
        Inl e \<Rightarrow> (Inl e, s)
      | Inr (secret, legacy) \<Rightarrow>
          (if \<not> legacy then (Inr secret, s)
           else (case encryptTOTPSecret env secret of
               Inl e \<Rightarrow> (Inl e, s)
             | Inr encrypted \<Rightarrow> (case ReplaceAdminTOTPSecret now (ad_ID admin) encrypted s of
                 Inl e \<Rightarrow> (Inl (Errorf ''save encrypted TOTP secret: %w'' [ArgE e]), s)
               | Inr s' \<Rightarrow> (Inr secret, s')))))"

definition MigrateAdminTOTPSecret :: "crypto_env \<Rightarrow> time \<Rightarrow> store \<Rightarrow> unit result \<times> store" where
  "MigrateAdminTOTPSecret env now s =
     (case Admin s of
        Inl e \<Rightarrow> (if e = ErrNotFound then (Inr (), s) else (Inl (Errorf ''read administrator: %w'' [ArgE e]), s))
      | Inr admin \<Rightarrow> (case adminTOTPSecret env now admin s of
          (Inl e, s') \<Rightarrow> (Inl (Errorf ''migrate administrator TOTP secret: %w'' [ArgE e]), s')
        | (Inr _, s') \<Rightarrow> (Inr (), s')))"

subsection \<open>Setup\<close>

record setup_request =
  su_InitializationToken :: string
  su_Password :: string
  su_TOTPSecret :: string
  su_TOTPCode :: string
  su_RecoveryCodes :: "string list"

definition request_address :: "server_config \<Rightarrow> web_request \<Rightarrow> string" where
  "request_address cfg rq = requestIP (sv_TrustedProxyCIDRs cfg) (rq_RemoteAddr rq) (rq_RealIP rq)"

definition authorizeSetup ::
    "crypto_env \<Rightarrow> server_config \<Rightarrow> token_outcomes \<Rightarrow> token_file \<Rightarrow> web_request \<Rightarrow> string \<Rightarrow> store \<Rightarrow> unit reply" where
  "authorizeSetup env cfg io f rq token s =
     (if sv_SetupAllowCIDRs cfg \<noteq> [] \<and> \<not> setupIPAllowed (sv_SetupAllowCIDRs cfg) (request_address cfg rq)
      then refuse 403 ''setup is not allowed from this address''
      else if HasAdmin s then refuse 409 ''control plane is already initialized''
      else if TrimSpace (sv_InitializationTokenPath cfg) = [] then refuse 503 ''initialization token is not configured''
      else (case VerifyInitializationToken (ce_Sha env) io (sv_InitializationTokenPath cfg) f token of
          Inl _ \<Rightarrow> refuse 403 ''invalid initialization token''
        | Inr _ \<Rightarrow> Inr ()))"

text \<open>The token file is consumed after the account exists; an error there is only logged.\<close>

definition server_setup :: "crypto_env \<Rightarrow> server_config \<Rightarrow> time \<Rightarrow> token_outcomes \<Rightarrow> token_outcomes \<Rightarrow> web_request \<Rightarrow> setup_request \<Rightarrow>
    token_file \<times> store \<Rightarrow> unit reply \<times> token_file \<times> store" where
  "server_setup env cfg now io io' rq input = (\<lambda>(f, s).
     (case authorizeSetup env cfg io f rq (su_InitializationToken input) s of
        Inl refused \<Rightarrow> (Inl refused, f, s)
      | Inr _ \<Rightarrow>
          (let secret = NormalizeTOTPSecret (su_TOTPSecret input) in
           if \<not> ValidTOTPSecret secret then (refuse 400 ''invalid TOTP secret'', f, s)
           else (case MatchTOTP (ce_Mac env) secret (TrimSpace (su_TOTPCode input)) now of
               None \<Rightarrow> (refuse 400 ''TOTP confirmation code is invalid'', f, s)
             | Some counter \<Rightarrow> (case normalizeSetupRecoveryCodes (su_RecoveryCodes input) of
                 Inl e \<Rightarrow> (Inl (400, e), f, s)
               | Inr codes \<Rightarrow> (case HashPassword (ce_Kdf env) (su_Password input) of
                   Inl e \<Rightarrow> (Inl (400, e), f, s)
                 | Inr passwordHash \<Rightarrow> (case encryptTOTPSecret env secret of
                     Inl _ \<Rightarrow> (refuse 500 ''encrypt TOTP secret'', f, s)
                   | Inr encrypted \<Rightarrow>
                       (case CreateInitialAdminWithRecoveryCodesAndTOTPCounter now passwordHash encrypted
                            (map (RecoveryCodeHash (ce_RecoveryDigest env)) codes) counter s of
                          Inl e \<Rightarrow> (Inl (500, e), f, s)
                        | Inr s' \<Rightarrow> (Inr (),
                            (case ConsumeInitializationToken (ce_Sha env) io' (sv_InitializationTokenPath cfg) f
                                (su_InitializationToken input) of Inl _ \<Rightarrow> f | Inr f' \<Rightarrow> f'), s')))))))))"

end
