(* ===== verification/Auth_Login.thy ===== *)
theory Auth_Login
  imports Auth_Handlers
begin

section \<open>Login, repeated authentication and the guards of the console\<close>

text \<open>
  \<open>login\<close>, \<open>logout\<close> and the guards of \<open>control/server.go\<close>, \<open>reauthenticate\<close> of \<open>authentication_security.go\<close>,
  \<open>replaceTOTP\<close> of \<open>authentication_settings.go\<close> and the handlers of \<open>passkeys.go\<close>. What the WebAuthn library
  answers is an argument, and so is the relying party that \<open>passkeyRP\<close> derives from the public URL.
\<close>

subsection \<open>The second factor\<close>

definition attempt_limits :: "server_config \<Rightarrow> web_request \<Rightarrow> string \<Rightarrow> string \<Rightarrow> int \<Rightarrow> int \<Rightarrow> attempt_limit list" where
  "attempt_limits cfg rq scope userID ipLimit userLimit =
     [\<lparr>al_Scope = scope @ ''-ip'', al_Key = request_address cfg rq, al_Limit = ipLimit\<rparr>,
      \<lparr>al_Scope = scope @ ''-account'', al_Key = userID, al_Limit = userLimit\<rparr>]"

definition passkeyAttemptLimits :: "server_config \<Rightarrow> web_request \<Rightarrow> attempt_limit list" where
  "passkeyAttemptLimits cfg rq = [\<lparr>al_Scope = ''passkey-ip'', al_Key = request_address cfg rq, al_Limit = 30\<rparr>]"

definition try_recovery_code :: "crypto_env \<Rightarrow> time \<Rightarrow> admin \<Rightarrow> string \<Rightarrow> store \<Rightarrow> string option result \<times> store" where
  "try_recovery_code env now admin code s =
     (if TrimSpace code = [] then (Inr None, s)
      else (case ConsumeRecoveryCode now (RecoveryCodeHash (ce_RecoveryDigest env) code) s of
          Inr (userID, s') \<Rightarrow> (Inr (if userID = ad_ID admin then Some ''recovery'' else None), s')
        | Inl e \<Rightarrow> (if e \<noteq> ErrNotFound then (Inl e, s) else (Inr None, s))))"

text \<open>The method that succeeded, if one did. A one-time password whose time step was used falls through to
  the recovery code.\<close>

definition verifyCurrentSecondFactor ::
    "crypto_env \<Rightarrow> time \<Rightarrow> admin \<Rightarrow> string \<Rightarrow> string \<Rightarrow> store \<Rightarrow> string option result \<times> store" where
  "verifyCurrentSecondFactor env now admin totpCode recoveryCode s =
     (case adminTOTPSecret env now admin s of
        (Inl e, s1) \<Rightarrow> (Inl e, s1)
      | (Inr secret, s1) \<Rightarrow>
          (case MatchTOTP (ce_Mac env) secret (TrimSpace totpCode) now of
             None \<Rightarrow> try_recovery_code env now admin recoveryCode s1
           | Some counter \<Rightarrow>
               (case ConsumeAdminTOTPCounter now (ad_ID admin) counter s1 of
                  Inr s2 \<Rightarrow> (Inr (Some ''totp''), s2)
                | Inl e \<Rightarrow> (if e \<noteq> ErrNotFound then (Inl e, s1)
                    else try_recovery_code env now admin recoveryCode s1))))"

subsection \<open>Login\<close>

record login_request =
  li_Password :: string
  li_TOTP :: string
  li_RecoveryCode :: string

record new_tokens =
  nt_Token :: "string result"
  nt_CSRF :: "string result"

definition createAdminSession ::
    "crypto_env \<Rightarrow> time \<Rightarrow> new_tokens \<Rightarrow> string \<Rightarrow> string \<Rightarrow> string \<Rightarrow> store \<Rightarrow> ((string \<times> string) \<times> store) result" where
  "createAdminSession env now fresh userID authMethod authenticatorID s =
     (case nt_Token fresh of
        Inl e \<Rightarrow> Inl e
      | Inr token \<Rightarrow> (case nt_CSRF fresh of
          Inl e \<Rightarrow> Inl e
        | Inr csrf \<Rightarrow>
            (case CreateAuthenticatedSession (ce_HashToken env) now userID token csrf authMethod authenticatorID now
                 (now + recentAuthenticationLifetime) (now + adminSessionLifetime) s of
               Inl e \<Rightarrow> Inl e
             | Inr s' \<Rightarrow> Inr ((token, csrf), s'))))"

definition login :: "crypto_env \<Rightarrow> server_config \<Rightarrow> time \<Rightarrow> new_tokens \<Rightarrow> web_request \<Rightarrow> login_request \<Rightarrow> store \<Rightarrow>
    (string \<times> string) reply \<times> store" where
  "login env cfg now fresh rq input s =
     (case Admin s of
        Inl _ \<Rightarrow> (refuse 401 ''invalid credentials'', s)
      | Inr admin \<Rightarrow>
          (let limits = attempt_limits cfg rq ''login'' (ad_ID admin) 8 20 in
           case ReserveAuthenticationAttempts (ce_HashToken env) limits authenticationAttemptWindow now s of
             Inl _ \<Rightarrow> (refuse 500 ''authentication rate limit is unavailable'', s)
           | Inr (allowed, s1) \<Rightarrow>
               (if \<not> allowed then (refuse 429 ''too many login attempts'', s1)
                else if \<not> ce_VerifyPassword env (ad_PasswordHash admin) (li_Password input)
                then (refuse 401 ''invalid credentials'', s1)
                else (case verifyCurrentSecondFactor env now admin (li_TOTP input) (li_RecoveryCode input) s1 of
                    (Inl _, s2) \<Rightarrow> (refuse 500 ''two-factor authentication is unavailable'', s2)
                  | (Inr None, s2) \<Rightarrow> (refuse 401 ''invalid second factor'', s2)
                  | (Inr (Some authMethod), s2) \<Rightarrow>
                      (case createAdminSession env now fresh (ad_ID admin) authMethod [] s2 of
                         Inl e \<Rightarrow> (Inl (500, e), s2)
                       | Inr (created, s3) \<Rightarrow> (Inr created, ClearAuthenticationAttempts (ce_HashToken env) limits s3))))))"

subsection \<open>The guards\<close>

definition safe_method :: "string \<Rightarrow> bool" where
  "safe_method m \<longleftrightarrow> m = ''GET'' \<or> m = ''HEAD'' \<or> m = ''OPTIONS''"

text \<open>A guard lets a request through with its session, or refuses it.\<close>

definition requireAdmin :: "crypto_env \<Rightarrow> time \<Rightarrow> web_request \<Rightarrow> store \<Rightarrow> session reply \<times> store" where
  "requireAdmin env now rq s =
     (case rq_Cookie rq of
        None \<Rightarrow> (refuse 401 ''authentication required'', s)
      | Some token \<Rightarrow> (case Session (ce_HashToken env) now token s of
          (Inl _, s') \<Rightarrow> (refuse 401 ''authentication required'', s')
        | (Inr found, s') \<Rightarrow>
            (if \<not> safe_method (rq_Method rq) \<and> (rq_CSRF rq = [] \<or> rq_CSRF rq \<noteq> ss_CSRFToken found)
             then (refuse 403 ''invalid CSRF token'', s')
             else (Inr found, s'))))"

definition sessionRecentlyAuthenticated :: "session \<Rightarrow> time \<Rightarrow> bool" where
  "sessionRecentlyAuthenticated found current \<longleftrightarrow>
     (case ss_ElevatedUntil found of None \<Rightarrow> False | Some until \<Rightarrow> current < until)"

definition requireRecentAdmin :: "crypto_env \<Rightarrow> time \<Rightarrow> web_request \<Rightarrow> store \<Rightarrow> session reply \<times> store" where
  "requireRecentAdmin env now rq s =
     (case requireAdmin env now rq s of
        (Inl refused, s') \<Rightarrow> (Inl refused, s')
      | (Inr found, s') \<Rightarrow>
          (if \<not> sessionRecentlyAuthenticated found now then (refuse 428 ''recent authentication is required'', s')
           else (Inr found, s')))"

text \<open>A handler behind a guard.\<close>

definition guarded :: "session reply \<times> store \<Rightarrow> (session \<Rightarrow> store \<Rightarrow> 'a reply \<times> store) \<Rightarrow> 'a reply \<times> store" where
  "guarded r handler = (case r of (Inl refused, s) \<Rightarrow> (Inl refused, s) | (Inr found, s) \<Rightarrow> handler found s)"

definition logout :: "crypto_env \<Rightarrow> web_request \<Rightarrow> store \<Rightarrow> unit reply \<times> store" where
  "logout env rq s =
     (Inr (), case rq_Cookie rq of None \<Rightarrow> s | Some token \<Rightarrow> DeleteSession (ce_HashToken env) token s)"

text \<open>The answer is the new token of the session and when the elevation ends.\<close>

definition reauthenticate :: "crypto_env \<Rightarrow> server_config \<Rightarrow> time \<Rightarrow> string result \<Rightarrow> web_request \<Rightarrow> login_request \<Rightarrow> store \<Rightarrow>
    (string \<times> time) reply \<times> store" where
  "reauthenticate env cfg now newToken rq input s =
     (case Admin s of
        Inl e \<Rightarrow> (Inl (500, e), s)
      | Inr admin \<Rightarrow>
          (let limits = attempt_limits cfg rq ''reauthenticate'' (ad_ID admin) 8 12 in
           case ReserveAuthenticationAttempts (ce_HashToken env) limits authenticationAttemptWindow now s of
             Inl _ \<Rightarrow> (refuse 500 ''authentication rate limit is unavailable'', s)
           | Inr (allowed, s1) \<Rightarrow>
               (if \<not> allowed then (refuse 429 ''too many authentication attempts'', s1)
                else if \<not> ce_VerifyPassword env (ad_PasswordHash admin) (li_Password input)
                then (refuse 403 ''administrator credentials are incorrect'', s1)
                else (case verifyCurrentSecondFactor env now admin (li_TOTP input) (li_RecoveryCode input) s1 of
                    (Inl _, s2) \<Rightarrow> (refuse 500 ''two-factor authentication is unavailable'', s2)
                  | (Inr None, s2) \<Rightarrow> (refuse 403 ''administrator credentials are incorrect'', s2)
                  | (Inr (Some authMethod), s2) \<Rightarrow>
                      (case rq_Cookie rq of
                         None \<Rightarrow> (refuse 401 ''authentication required'', s2)
                       | Some token \<Rightarrow> (case newToken of
                           Inl e \<Rightarrow> (Inl (500, e), s2)
                         | Inr replacement \<Rightarrow>
                             (case ElevateSession (ce_HashToken env) now token replacement authMethod [] now
                                  (now + recentAuthenticationLifetime) s2 of
                                Inl _ \<Rightarrow> (refuse 401 ''authentication required'', s2)
                              | Inr s3 \<Rightarrow> (Inr (replacement, now + recentAuthenticationLifetime),
                                  ClearAuthenticationAttempts (ce_HashToken env) limits s3))))))))"

definition revokeOtherAdminSessions :: "crypto_env \<Rightarrow> web_request \<Rightarrow> string \<Rightarrow> store \<Rightarrow> store result" where
  "revokeOtherAdminSessions env rq userID s =
     (case rq_Cookie rq of
        None \<Rightarrow> Inl (err ''http: named cookie not present'')
      | Some token \<Rightarrow> Inr (DeleteOtherSessions (ce_HashToken env) userID token s))"

definition replaceTOTP :: "crypto_env \<Rightarrow> time \<Rightarrow> web_request \<Rightarrow> string \<Rightarrow> string \<Rightarrow> session \<Rightarrow> store \<Rightarrow> unit reply \<times> store" where
  "replaceTOTP env now rq newSecret code found s =
     (case Admin s of
        Inl e \<Rightarrow> (Inl (500, e), s)
      | Inr admin \<Rightarrow>
          (let secret = NormalizeTOTPSecret newSecret in
           if \<not> ValidTOTPSecret secret then (refuse 400 ''invalid TOTP secret'', s)
           else (case MatchTOTP (ce_Mac env) secret (TrimSpace code) now of
               None \<Rightarrow> (refuse 400 ''new TOTP code is invalid'', s)
             | Some counter \<Rightarrow> (case encryptTOTPSecret env secret of
                 Inl e \<Rightarrow> (Inl (500, e), s)
               | Inr encrypted \<Rightarrow>
                   (case ReplaceAdminTOTPSecretWithCounter now (ad_ID admin) encrypted counter s of
                      Inl e \<Rightarrow> (Inl (500, e), s)
                    | Inr s1 \<Rightarrow> (case revokeOtherAdminSessions env rq (ss_UserID found) s1 of
                        Inl e \<Rightarrow> (Inl (500, e), s1)
                      | Inr s2 \<Rightarrow> (Inr (), s2)))))))"

end
