(* ===== verification/Passkey_Login.thy ===== *)
theory Passkey_Login
  imports Auth_Login Go_Runes
begin

section \<open>Passkey login and registration\<close>

text \<open>
  The handlers of \<open>control/passkeys.go\<close>. A \<open>webauthn_env\<close> holds what package go-webauthn (third-party) and
  \<open>encoding/json\<close> answer: the session of a ceremony as JSON text, the assertion a request carries and the
  credential that verifies it. \<open>rp\<close> is the identifier of the relying party, or the error of \<open>passkeyRP\<close>.
\<close>

record passkey_user =
  pu_Handle :: string
  pu_UserID :: string
  pu_Credentials :: "string list"

record webauthn_env =
  we_Random :: "string result"
  we_ChallengeToken :: "string result"
  we_Marshal :: "string \<Rightarrow> string"
  we_Unmarshal :: "string \<Rightarrow> string result"
  we_SessionOK :: "string \<Rightarrow> bool"
  we_BeginLogin :: "string result"
  we_Assertion :: "(string \<times> string) option"
  we_VerifyLogin :: "passkey_user \<Rightarrow> string \<Rightarrow> (string \<times> string) option"
  we_BeginRegistration :: "passkey_user \<Rightarrow> string result"
  we_FinishRegistration :: "passkey_user \<Rightarrow> string \<Rightarrow> (string \<times> string) option"

definition passkeyChallengeLifetime :: duration where "passkeyChallengeLifetime = 5 * minute"
definition passkeyLoginChallengePurpose :: string where "passkeyLoginChallengePurpose = ''passkey-login''"
definition passkeyRegisterChallengePurpose :: string where "passkeyRegisterChallengePurpose = ''passkey-register''"

subsection \<open>Credentials at rest\<close>

definition encryptPasskeyCredential :: "crypto_env \<Rightarrow> webauthn_env \<Rightarrow> string \<Rightarrow> string result" where
  "encryptPasskeyCredential env we credential =
     (case ce_Cipher env of
        None \<Rightarrow> Inl (err ''CONTROL_ENCRYPTION_KEY is not configured'')
      | Some (encrypt, _) \<Rightarrow> (case encrypt (we_Marshal we credential) of
          Inl e \<Rightarrow> Inl (Errorf ''encrypt passkey credential: %w'' [ArgE e])
        | Inr ciphertext \<Rightarrow> Inr ciphertext))"

definition decryptPasskeyCredential :: "crypto_env \<Rightarrow> webauthn_env \<Rightarrow> string \<Rightarrow> string result" where
  "decryptPasskeyCredential env we ciphertext =
     (case ce_Cipher env of
        None \<Rightarrow> Inl (err ''CONTROL_ENCRYPTION_KEY is not configured'')
      | Some (_, decrypt) \<Rightarrow> (case decrypt ciphertext of
          Inl e \<Rightarrow> Inl e
        | Inr text_form \<Rightarrow> (case we_Unmarshal we text_form of
            Inl e \<Rightarrow> Inl (Errorf ''decode passkey credential: %w'' [ArgE e])
          | Inr credential \<Rightarrow> Inr credential)))"

fun decrypt_records :: "crypto_env \<Rightarrow> webauthn_env \<Rightarrow> passkey_credential list \<Rightarrow> string list result" where
  "decrypt_records env we [] = Inr []"
| "decrypt_records env we (c # cs) =
     (case decryptPasskeyCredential env we (pk_Ciphertext c) of
        Inl e \<Rightarrow> Inl (Errorf ''decrypt passkey %s: %w'' [ArgS (pk_ID c), ArgE e])
      | Inr credential \<Rightarrow> map_sum id (\<lambda>rest. credential # rest) (decrypt_records env we cs))"

definition loadPasskeyUser ::
    "crypto_env \<Rightarrow> webauthn_env \<Rightarrow> time \<Rightarrow> string \<Rightarrow> string \<Rightarrow> store \<Rightarrow> passkey_user result \<times> store" where
  "loadPasskeyUser env we now userID rpID s =
     (case WebAuthnUserHandle now (we_Random we) userID rpID s of
        Inl e \<Rightarrow> (Inl e, s)
      | Inr (handle, s1) \<Rightarrow> (case decrypt_records env we (PasskeyCredentialRecords userID rpID s1) of
          Inl e \<Rightarrow> (Inl e, s1)
        | Inr credentials \<Rightarrow>
            (Inr \<lparr>pu_Handle = handle, pu_UserID = userID, pu_Credentials = credentials\<rparr>, s1)))"

subsection \<open>Challenges\<close>

text \<open>The answer is the token that goes into a cookie.\<close>

definition saveWebAuthnChallenge :: "crypto_env \<Rightarrow> webauthn_env \<Rightarrow> time \<Rightarrow> string \<Rightarrow> string \<Rightarrow> string \<Rightarrow> string \<Rightarrow> string \<Rightarrow>
    store \<Rightarrow> (string \<times> store) result" where
  "saveWebAuthnChallenge env we now purpose userID rpID label sessionJSON s =
     (case we_ChallengeToken we of
        Inl e \<Rightarrow> Inl e
      | Inr token \<Rightarrow>
          (case CreateWebAuthnChallenge (ce_HashToken env) now token
               \<lparr>wc_Purpose = purpose, wc_UserID = userID, wc_RPID = rpID, wc_Label = label, wc_SessionJSON = sessionJSON,
                wc_ExpiresAt = now + passkeyChallengeLifetime\<rparr> s of
             Inl e \<Rightarrow> Inl e
           | Inr s' \<Rightarrow> Inr (token, s')))"

definition consumeWebAuthnChallenge ::
    "crypto_env \<Rightarrow> time \<Rightarrow> string option \<Rightarrow> string \<Rightarrow> store \<Rightarrow> webauthn_challenge result \<times> store" where
  "consumeWebAuthnChallenge env now cookie purpose s =
     (case cookie of None \<Rightarrow> (Inl ErrNotFound, s)
      | Some token \<Rightarrow> ConsumeWebAuthnChallenge (ce_HashToken env) now token purpose s)"

subsection \<open>Login with a passkey\<close>

definition beginPasskeyLogin :: "crypto_env \<Rightarrow> server_config \<Rightarrow> webauthn_env \<Rightarrow> string result \<Rightarrow> time \<Rightarrow> web_request \<Rightarrow> store \<Rightarrow>
    string reply \<times> store" where
  "beginPasskeyLogin env cfg we rp now rq s =
     (case ReserveAuthenticationAttempts (ce_HashToken env) (passkeyAttemptLimits cfg rq) authenticationAttemptWindow now s of
        Inl _ \<Rightarrow> (refuse 500 ''authentication rate limit is unavailable'', s)
      | Inr (allowed, s1) \<Rightarrow>
          (if \<not> allowed then (refuse 429 ''too many login attempts'', s1)
           else (case Admin s1 of
               Inl _ \<Rightarrow> (refuse 409 ''passkey login is not enabled'', s1)
             | Inr admin \<Rightarrow>
                 (if \<not> ad_PasskeyEnabled admin then (refuse 409 ''passkey login is not enabled'', s1)
                  else (case rp of
                      Inl e \<Rightarrow> (Inl (409, e), s1)
                    | Inr rpID \<Rightarrow>
                        (if PasskeyCredentialRecords (ad_ID admin) rpID s1 = []
                         then (refuse 409 ''passkey login is not enabled'', s1)
                         else (case we_BeginLogin we of
                             Inl e \<Rightarrow> (Inl (500, Errorf ''begin passkey login: %w'' [ArgE e]), s1)
                           | Inr sessionJSON \<Rightarrow>
                               (case saveWebAuthnChallenge env we now passkeyLoginChallengePurpose [] rpID [] sessionJSON s1 of
                                  Inl e \<Rightarrow> (Inl (500, e), s1)
                                | Inr (token, s2) \<Rightarrow> (Inr token, s2)))))))))"

text \<open>
  The library looks up the owner of the credential that the request names, loads the owner and verifies the
  assertion against the session of the challenge.
\<close>

definition FinishPasskeyLogin :: "crypto_env \<Rightarrow> webauthn_env \<Rightarrow> time \<Rightarrow> string \<Rightarrow> string \<Rightarrow> store \<Rightarrow>
    (passkey_user \<times> string \<times> string) option \<times> store" where
  "FinishPasskeyLogin env we now rpID sessionJSON s =
     (case we_Assertion we of
        None \<Rightarrow> (None, s)
      | Some (credentialID, userHandle) \<Rightarrow> (case PasskeyOwner rpID credentialID userHandle s of
          Inl _ \<Rightarrow> (None, s)
        | Inr userID \<Rightarrow> (case loadPasskeyUser env we now userID rpID s of
            (Inl _, s1) \<Rightarrow> (None, s1)
          | (Inr user, s1) \<Rightarrow> (map_option (\<lambda>c. (user, c)) (we_VerifyLogin we user sessionJSON), s1))))"

definition finishPasskeyLogin :: "crypto_env \<Rightarrow> server_config \<Rightarrow> webauthn_env \<Rightarrow> string result \<Rightarrow> time \<Rightarrow> new_tokens \<Rightarrow>
    string option \<Rightarrow> web_request \<Rightarrow> store \<Rightarrow> (string \<times> string) reply \<times> store" where
  "finishPasskeyLogin env cfg we rp now fresh cookie rq s =
     (case consumeWebAuthnChallenge env now cookie passkeyLoginChallengePurpose s of
        (Inl _, s1) \<Rightarrow> (refuse 401 ''passkey challenge is missing or expired'', s1)
      | (Inr challenge, s1) \<Rightarrow>
          (if rp \<noteq> Inr (wc_RPID challenge) then (refuse 401 ''invalid passkey challenge'', s1)
           else (case Admin s1 of
               Inl _ \<Rightarrow> (refuse 401 ''passkey login is not enabled'', s1)
             | Inr admin \<Rightarrow>
                 (if \<not> ad_PasskeyEnabled admin then (refuse 401 ''passkey login is not enabled'', s1)
                  else if \<not> we_SessionOK we (wc_SessionJSON challenge) then (refuse 500 ''decode passkey challenge'', s1)
                  else (case FinishPasskeyLogin env we now (wc_RPID challenge) (wc_SessionJSON challenge) s1 of
                      (None, s2) \<Rightarrow> (refuse 401 ''passkey authentication failed'', s2)
                    | (Some (user, credentialID, credential), s2) \<Rightarrow>
                        (if pu_UserID user \<noteq> ad_ID admin then (refuse 401 ''passkey authentication failed'', s2)
                         else (case encryptPasskeyCredential env we credential of
                             Inl e \<Rightarrow> (Inl (500, e), s2)
                           | Inr ciphertext \<Rightarrow>
                               (case UpdatePasskeyCredential now (pu_UserID user) (wc_RPID challenge) credentialID ciphertext now s2 of
                                  Inl e \<Rightarrow> (Inl (500, e), s2)
                                | Inr s3 \<Rightarrow>
                                    (case createAdminSession env now fresh (pu_UserID user) ''passkey'' credentialID s3 of
                                       Inl e \<Rightarrow> (Inl (500, e), s3)
                                     | Inr (created, s4) \<Rightarrow>
                                         (Inr created, ClearAuthenticationAttempts (ce_HashToken env)
                                            (passkeyAttemptLimits cfg rq) s4))))))))))"

subsection \<open>Registration\<close>

definition beginPasskeyRegistration :: "crypto_env \<Rightarrow> webauthn_env \<Rightarrow> string result \<Rightarrow> time \<Rightarrow> string \<Rightarrow> session \<Rightarrow> store \<Rightarrow>
    string reply \<times> store" where
  "beginPasskeyRegistration env we rp now name0 found s =
     (let name = TrimSpace name0 in
      if name = [] \<or> length (runes name) > 64
      then (refuse 400 ''passkey name must be between 1 and 64 characters'', s)
      else (case rp of
          Inl e \<Rightarrow> (Inl (409, e), s)
        | Inr rpID \<Rightarrow> (case loadPasskeyUser env we now (ss_UserID found) rpID s of
            (Inl e, s1) \<Rightarrow> (Inl (500, e), s1)
          | (Inr user, s1) \<Rightarrow> (case we_BeginRegistration we user of
              Inl e \<Rightarrow> (Inl (500, Errorf ''begin passkey registration: %w'' [ArgE e]), s1)
            | Inr sessionJSON \<Rightarrow>
                (case saveWebAuthnChallenge env we now passkeyRegisterChallengePurpose (ss_UserID found) rpID name sessionJSON s1 of
                   Inl e \<Rightarrow> (Inl (500, e), s1)
                 | Inr (token, s2) \<Rightarrow> (Inr token, s2))))))"

text \<open>The settings that the handlers of this part answer at the end only read the store and are left out.\<close>

definition finishPasskeyRegistration :: "crypto_env \<Rightarrow> webauthn_env \<Rightarrow> string result \<Rightarrow> time \<Rightarrow> string option \<Rightarrow> web_request \<Rightarrow>
    session \<Rightarrow> store \<Rightarrow> unit reply \<times> store" where
  "finishPasskeyRegistration env we rp now cookie rq found s =
     (case consumeWebAuthnChallenge env now cookie passkeyRegisterChallengePurpose s of
        (Inl _, s1) \<Rightarrow> (refuse 400 ''passkey challenge is missing or expired'', s1)
      | (Inr challenge, s1) \<Rightarrow>
          (if wc_UserID challenge \<noteq> ss_UserID found then (refuse 403 ''passkey challenge belongs to another session'', s1)
           else if rp \<noteq> Inr (wc_RPID challenge) then (refuse 400 ''invalid passkey challenge'', s1)
           else (case loadPasskeyUser env we now (ss_UserID found) (wc_RPID challenge) s1 of
               (Inl e, s2) \<Rightarrow> (Inl (500, e), s2)
             | (Inr user, s2) \<Rightarrow>
                 (if \<not> we_SessionOK we (wc_SessionJSON challenge) then (refuse 500 ''decode passkey challenge'', s2)
                  else (case we_FinishRegistration we user (wc_SessionJSON challenge) of
                      None \<Rightarrow> (refuse 400 ''passkey registration failed'', s2)
                    | Some (credentialID, credential) \<Rightarrow> (case encryptPasskeyCredential env we credential of
                        Inl e \<Rightarrow> (Inl (500, e), s2)
                      | Inr ciphertext \<Rightarrow>
                          (case SavePasskeyCredential now (ss_UserID found) (wc_RPID challenge) credentialID
                               (wc_Label challenge) ciphertext s2 of
                             Inl e \<Rightarrow> (Inl (409, Errorf ''save passkey: %w'' [ArgE e]), s2)
                           | Inr s3 \<Rightarrow> (case revokeOtherAdminSessions env rq (ss_UserID found) s3 of
                               Inl e \<Rightarrow> (Inl (500, e), s3)
                             | Inr s4 \<Rightarrow> (Inr (), s4)))))))))"

definition updatePasskeyEnabled :: "crypto_env \<Rightarrow> string result \<Rightarrow> time \<Rightarrow> web_request \<Rightarrow> bool \<Rightarrow> session \<Rightarrow> store \<Rightarrow>
    unit reply \<times> store" where
  "updatePasskeyEnabled env rp now rq enabled found s =
     (case (if enabled then rp else Inr []) of
        Inl e \<Rightarrow> (Inl (409, e), s)
      | Inr rpID \<Rightarrow> (case SetPasskeyEnabled now (ss_UserID found) rpID enabled s of
          Inl e \<Rightarrow> (Inl (409, e), s)
        | Inr s1 \<Rightarrow> (case revokeOtherAdminSessions env rq (ss_UserID found) s1 of
            Inl e \<Rightarrow> (Inl (500, e), s1)
          | Inr s2 \<Rightarrow> (Inr (), s2))))"

definition deletePasskey :: "crypto_env \<Rightarrow> time \<Rightarrow> web_request \<Rightarrow> string \<Rightarrow> string \<Rightarrow> session \<Rightarrow> store \<Rightarrow> unit reply \<times> store" where
  "deletePasskey env now rq rpID0 credentialID0 found s =
     (let rpID = TrimSpace rpID0; credentialID = TrimSpace credentialID0 in
      if credentialID = [] \<or> rpID = [] then (refuse 400 ''passkey id and relying party are required'', s)
      else (case DeletePasskeyCredential now (ss_UserID found) rpID credentialID s of
          Inl e \<Rightarrow> (if e = ErrNotFound then (Inl (404, e), s) else (Inl (500, e), s))
        | Inr s1 \<Rightarrow> (case revokeOtherAdminSessions env rq (ss_UserID found) s1 of
            Inl e \<Rightarrow> (Inl (500, e), s1)
          | Inr s2 \<Rightarrow> (Inr (), s2))))"

end
