(* ===== verification/Auth_Guards.thy ===== *)
theory Auth_Guards
  imports Auth_Facts Passkey_Login
begin

section \<open>What a request must show\<close>

text \<open>
  Each handler is a run of calls of the store, so the theorems on histories apply to it: the calls of different
  requests may interleave in any order. Two promises of the console follow: a login succeeds only with the
  password and a second factor that was used up, and a sensitive request is let through only within five
  minutes of an authentication that gave out its token.
\<close>

subsection \<open>Calls of the handlers\<close>

text \<open>A session is opened or elevated for the time of the call.\<close>

fun authentication_call :: "auth_call \<Rightarrow> bool" where
  "authentication_call (t, NewSession u token csrf m a at until expires) \<longleftrightarrow>
     at = t \<and> until = t + recentAuthenticationLifetime \<and> expires = t + adminSessionLifetime"
| "authentication_call (t, Elevate current replacement m a at until) \<longleftrightarrow>
     at = t \<and> until = t + recentAuthenticationLifetime"
| "authentication_call _ \<longleftrightarrow> True"

text \<open>The one-time password of a request against the secret of an administrator.\<close>

definition matching_counter :: "crypto_env \<Rightarrow> time \<Rightarrow> admin \<Rightarrow> login_request \<Rightarrow> int option" where
  "matching_counter env now a input =
     (case decryptTOTPSecret env (ad_TOTPSecret a) of
        Inl _ \<Rightarrow> None
      | Inr (secret, _) \<Rightarrow> MatchTOTP (ce_Mac env) secret (TrimSpace (li_TOTP input)) now)"

text \<open>The calls that use up a second factor of this request.\<close>

fun factor_event :: "crypto_env \<Rightarrow> time \<Rightarrow> admin \<Rightarrow> login_request \<Rightarrow> auth_event \<Rightarrow> bool" where
  "factor_event env now a input (t, UseCounter u c, ok) \<longleftrightarrow>
     ok \<and> u = ad_ID a \<and> matching_counter env now a input = Some c"
| "factor_event env now a input (t, UseCode h, ok) \<longleftrightarrow>
     ok \<and> h = RecoveryCodeHash (ce_RecoveryDigest env) (li_RecoveryCode input)"
| "factor_event env now a input _ \<longleftrightarrow> False"

definition calls_lead :: "(string \<Rightarrow> string) \<Rightarrow> store \<Rightarrow> auth_call list \<Rightarrow> store \<Rightarrow> bool" where
  "calls_lead H s cs s' \<longleftrightarrow> final H s cs = s' \<and> list_all authentication_call cs"

lemma calls_none: "calls_lead H s [] s"
  by (simp add: calls_lead_def)

lemma calls_then: "calls_lead H s cs s1 \<Longrightarrow> calls_lead H s1 ds s2 \<Longrightarrow> calls_lead H s (cs @ ds) s2"
  by (auto simp: calls_lead_def final_append)

lemma history_then: "calls_lead H s cs s1 \<Longrightarrow> history H s (cs @ ds) = history H s cs @ history H s1 ds"
  by (auto simp: calls_lead_def history_append)

lemma call_one: "authentication_call (t, x) \<Longrightarrow> exec H t x s = (b, s') \<Longrightarrow> calls_lead H s [(t, x)] s'"
  by (simp add: calls_lead_def)

subsection \<open>The second factor\<close>

lemma update_admin_sessions: "update_admin P u f s = Inr s' \<Longrightarrow> sessions s' = sessions s"
  by (auto simp: update_admin_def)

lemma adminTOTPSecret_calls:
  assumes "adminTOTPSecret env now a s = (r, s')"
  shows "\<exists>cs. calls_lead H s cs s' \<and> sessions s' = sessions s"
proof (cases "s' = s")
  case True
  with calls_none show ?thesis by metis
next
  case False
  with assms obtain encrypted where "ReplaceAdminTOTPSecret now (ad_ID a) encrypted s = Inr s'"
    by (auto simp: adminTOTPSecret_def split: sum.splits prod.splits if_splits)
  then have "calls_lead H s [(now, SetSecret (ad_ID a) encrypted)] s'" "sessions s' = sessions s"
    by (auto simp: calls_lead_def attempt_store ReplaceAdminTOTPSecret_def dest: update_admin_sessions)
  then show ?thesis by blast
qed

lemma adminTOTPSecret_secret:
  "adminTOTPSecret env now a s = (Inr secret, s') \<Longrightarrow> \<exists>legacy. decryptTOTPSecret env (ad_TOTPSecret a) = Inr (secret, legacy)"
  by (auto simp: adminTOTPSecret_def split: sum.splits prod.splits if_splits)

lemma try_recovery_code_calls:
  assumes "try_recovery_code env now a (li_RecoveryCode input) s = (r, s')"
  shows "\<exists>cs. calls_lead H s cs s' \<and> sessions s' = sessions s \<and>
    ((\<exists>m. r = Inr (Some m)) \<longrightarrow> list_ex (factor_event env now a input) (history H s cs))"
proof (cases "\<exists>u. ConsumeRecoveryCode now (RecoveryCodeHash (ce_RecoveryDigest env) (li_RecoveryCode input)) s = Inr (u, s')
    \<and> TrimSpace (li_RecoveryCode input) \<noteq> []")
  case True
  then obtain u where u: "ConsumeRecoveryCode now (RecoveryCodeHash (ce_RecoveryDigest env) (li_RecoveryCode input)) s
    = Inr (u, s')" by blast
  let ?c = "(now, UseCode (RecoveryCodeHash (ce_RecoveryDigest env) (li_RecoveryCode input)))"
  from u have "calls_lead H s [?c] s'" "list_ex (factor_event env now a input) (history H s [?c])"
    by (auto simp: calls_lead_def attempt_def)
  moreover from u have "sessions s' = sessions s"
    by (auto simp: ConsumeRecoveryCode_def split: option.splits if_splits)
  ultimately show ?thesis by blast
next
  case False
  with assms have "s' = s" "\<not> (\<exists>m. r = Inr (Some m))"
    by (auto simp: try_recovery_code_def split: sum.splits prod.splits if_splits)
  with calls_none [of H s] show ?thesis by metis
qed

lemma second_factor_calls:
  assumes "verifyCurrentSecondFactor env now a (li_TOTP input) (li_RecoveryCode input) s = (r, s')"
  shows "\<exists>cs. calls_lead H s cs s' \<and> sessions s' = sessions s \<and>
    ((\<exists>m. r = Inr (Some m)) \<longrightarrow> list_ex (factor_event env now a input) (history H s cs))"
proof -
  obtain r1 s1 where first: "adminTOTPSecret env now a s = (r1, s1)" by fastforce
  from adminTOTPSecret_calls [OF first] obtain cs where cs: "calls_lead H s cs s1" "sessions s1 = sessions s" by metis
  show ?thesis
  proof (cases r1)
    case (Inl e)
    with assms first have "s' = s1" "r = Inl e" by (auto simp: verifyCurrentSecondFactor_def)
    with cs show ?thesis by auto
  next
    case (Inr secret)
    show ?thesis
    proof (cases "try_recovery_code env now a (li_RecoveryCode input) s1 = (r, s')")
      case True
      from try_recovery_code_calls [OF this] obtain ds where ds: "calls_lead H s1 ds s'" "sessions s' = sessions s1"
        "(\<exists>m. r = Inr (Some m)) \<longrightarrow> list_ex (factor_event env now a input) (history H s1 ds)" by blast
      from calls_then [OF cs(1) ds(1)] ds(2,3) cs(2) history_then [OF cs(1), of ds] show ?thesis
        by (intro exI [of _ "cs @ ds"]) simp
    next
      case False
      with assms first Inr obtain c where c: "MatchTOTP (ce_Mac env) secret (TrimSpace (li_TOTP input)) now = Some c"
        by (auto simp: verifyCurrentSecondFactor_def split: option.splits)
      with adminTOTPSecret_secret first Inr have m: "matching_counter env now a input = Some c"
        by (fastforce simp: matching_counter_def)
      show ?thesis
      proof (cases "ConsumeAdminTOTPCounter now (ad_ID a) c s1")
        case (Inl e)
        with assms first Inr c False have "s' = s1" "r = Inl e"
          by (auto simp: verifyCurrentSecondFactor_def split: if_splits)
        with cs show ?thesis by auto
      next
        case used: (Inr s2)
        with assms first Inr c have "s' = s2" by (auto simp: verifyCurrentSecondFactor_def)
        with used have "calls_lead H s1 [(now, UseCounter (ad_ID a) c)] s'"
          "list_ex (factor_event env now a input) (history H s1 [(now, UseCounter (ad_ID a) c)])"
          "sessions s' = sessions s1"
          by (auto simp: calls_lead_def attempt_def m ConsumeAdminTOTPCounter_def dest: update_admin_sessions)
        with calls_then [OF cs(1)] history_then [OF cs(1)] cs(2) show ?thesis
          by (intro exI [of _ "cs @ [(now, UseCounter (ad_ID a) c)]"]) simp
      qed
    qed
  qed
qed

subsection \<open>Login\<close>

lemma session_created:
  assumes "createAdminSession env now fresh u m a s = Inr (created, s')"
  shows "\<exists>x. calls_lead (ce_HashToken env) s [(now, x)] s'"
proof -
  from assms obtain token csrf where "CreateAuthenticatedSession (ce_HashToken env) now u token csrf m a now
      (now + recentAuthenticationLifetime) (now + adminSessionLifetime) s = Inr s'"
    by (auto simp: createAdminSession_def)
  then have "calls_lead (ce_HashToken env) s [(now, NewSession u token csrf m a now
      (now + recentAuthenticationLifetime) (now + adminSessionLifetime))] s'"
    by (simp add: calls_lead_def attempt_def)
  then show ?thesis by blast
qed

lemma reservation_calls:
  "ReserveAuthenticationAttempts H limits w now s = Inr (b, s') \<Longrightarrow> calls_lead H s [(now, Reserve limits w)] s'"
  by (simp add: calls_lead_def)

lemma clearing_calls: "calls_lead H s [(now, ClearAttempts limits)] (ClearAuthenticationAttempts H limits s)"
  by (simp add: calls_lead_def)

lemma quiet_sessions:
  "ReserveAuthenticationAttempts H limits w now s = Inr (b, s') \<Longrightarrow> sessions s' = sessions s"
  "sessions (ClearAuthenticationAttempts H limits s) = sessions s"
proof -
  show "sessions (ClearAuthenticationAttempts H limits s) = sessions s"
    using cleared_attempts [of H limits s] by auto
qed (auto simp: ReserveAuthenticationAttempts_def Let_def split: if_splits)

text \<open>The successful path of a login.\<close>

lemma login_granted:
  assumes "login env cfg now fresh rq input s = (r, s')" and "sessions s' \<noteq> sessions s"
  obtains a s1 s2 s3 m created where "Admin s = Inr a"
    "ReserveAuthenticationAttempts (ce_HashToken env) (attempt_limits cfg rq ''login'' (ad_ID a) 8 20)
       authenticationAttemptWindow now s = Inr (True, s1)"
    "ce_VerifyPassword env (ad_PasswordHash a) (li_Password input)"
    "verifyCurrentSecondFactor env now a (li_TOTP input) (li_RecoveryCode input) s1 = (Inr (Some m), s2)"
    "createAdminSession env now fresh (ad_ID a) m [] s2 = Inr (created, s3)"
    "s' = ClearAuthenticationAttempts (ce_HashToken env) (attempt_limits cfg rq ''login'' (ad_ID a) 8 20) s3"
proof -
  from assms obtain a where a: "Admin s = Inr a" by (cases "Admin s") (auto simp: login_def)
  let ?l = "attempt_limits cfg rq ''login'' (ad_ID a) 8 20"
  from assms a obtain b s1 where r: "ReserveAuthenticationAttempts (ce_HashToken env) ?l authenticationAttemptWindow now s
      = Inr (b, s1)" by (auto simp: login_def Let_def split: sum.splits)
  note q = quiet_sessions(1) [OF r]
  from assms a r q have b: "b" and v: "ce_VerifyPassword env (ad_PasswordHash a) (li_Password input)"
    by (auto simp: login_def Let_def split: if_splits)
  obtain r2 s2 where f: "verifyCurrentSecondFactor env now a (li_TOTP input) (li_RecoveryCode input) s1 = (r2, s2)"
    by fastforce
  from second_factor_calls [OF f] q have q2: "sessions s2 = sessions s" by auto
  from assms a r b v f q2 obtain m where m: "r2 = Inr (Some m)"
    by (auto simp: login_def Let_def split: sum.splits option.splits)
  from assms a r b v f m q2 obtain created s3 where c: "createAdminSession env now fresh (ad_ID a) m [] s2 = Inr (created, s3)"
    by (auto simp: login_def Let_def split: sum.splits)
  show ?thesis
    by (rule that [OF a _ v]) (use assms a r b v f m c in \<open>auto simp: login_def Let_def\<close>)
qed

text \<open>
  C39: A login changes the sessions only when the password fits the administrator, and then it is a run of calls
  of the store one of which used up a second factor of the request: the time step of its one-time
  password, or its recovery code.
\<close>

theorem login_uses_both_factors:
  assumes "sessions (snd (login env cfg now fresh rq input s)) \<noteq> sessions s"
  shows "\<exists>a cs. Admin s = Inr a \<and> ce_VerifyPassword env (ad_PasswordHash a) (li_Password input) \<and>
    calls_lead (ce_HashToken env) s cs (snd (login env cfg now fresh rq input s)) \<and>
    list_ex (factor_event env now a input) (history (ce_HashToken env) s cs)"
proof -
  let ?H = "ce_HashToken env"
  obtain r s' where l: "login env cfg now fresh rq input s = (r, s')" by fastforce
  with assms have "sessions s' \<noteq> sessions s" by simp
  with l obtain a s1 s2 s3 m created where a: "Admin s = Inr a"
    and res: "ReserveAuthenticationAttempts ?H (attempt_limits cfg rq ''login'' (ad_ID a) 8 20)
       authenticationAttemptWindow now s = Inr (True, s1)"
    and pw: "ce_VerifyPassword env (ad_PasswordHash a) (li_Password input)"
    and two: "verifyCurrentSecondFactor env now a (li_TOTP input) (li_RecoveryCode input) s1 = (Inr (Some m), s2)"
    and new: "createAdminSession env now fresh (ad_ID a) m [] s2 = Inr (created, s3)"
    and s': "s' = ClearAuthenticationAttempts ?H (attempt_limits cfg rq ''login'' (ad_ID a) 8 20) s3"
    by (rule login_granted)
  note c1 = reservation_calls [OF res]
  from second_factor_calls [OF two] obtain cs where c2: "calls_lead ?H s1 cs s2"
    and used: "list_ex (factor_event env now a input) (history ?H s1 cs)" by blast
  from session_created [OF new] obtain x where c3: "calls_lead ?H s2 [(now, x)] s3" ..
  note rest = calls_then [OF c2 calls_then [OF c3 clearing_calls]]
  let ?limits = "attempt_limits cfg rq ''login'' (ad_ID a) 8 20"
  let ?cs = "[(now, Reserve ?limits authenticationAttemptWindow)] @ cs @ [(now, x)] @ [(now, ClearAttempts ?limits)]"
  have lead: "calls_lead ?H s ?cs s'" unfolding s' by (rule calls_then [OF c1 rest])
  have "list_ex (factor_event env now a input) (history ?H s ?cs)"
    using used history_then [OF c1] history_then [OF c2] by simp
  with a pw lead show ?thesis unfolding l snd_conv by blast
qed

text \<open>An administrator with one recovery code, and functions that hash and encrypt nothing.\<close>

definition sample_env :: crypto_env where
  "sample_env = \<lparr>ce_HashToken = id, ce_RecoveryDigest = id, ce_Sha = id, ce_Mac = (\<lambda>k m. replicate 20 (CHR 0x00)), ce_Kdf = Inr,
     ce_VerifyPassword = (\<lambda>h p. h = p), ce_Cipher = Some (Inr, Inr), ce_Encode = id, ce_Decode = Inr\<rparr>"

definition sample_config :: server_config where
  "sample_config = \<lparr>sv_TrustedProxyCIDRs = [], sv_SetupAllowCIDRs = [], sv_InitializationTokenPath = ''/token''\<rparr>"

definition sample_request :: web_request where
  "sample_request = \<lparr>rq_RemoteAddr = ''10.0.0.9:4000'', rq_RealIP = [], rq_Method = ''POST'', rq_CSRF = ''csrf'',
     rq_Cookie = Some ''token''\<rparr>"

definition sample_first :: auth_call where
  "sample_first = (0, FirstAdmin ''a good password'' ''enc:totp:v1:AAAAAAAAAAAAAAAA''
     [''cdn-platform-recovery-v1:ABCDEFGH-IJKLMNOP''] None)"

definition sample_admin :: store where
  "sample_admin = final id empty_store [sample_first]"

definition sample_input :: login_request where
  "sample_input = \<lparr>li_Password = ''a good password'', li_TOTP = [], li_RecoveryCode = '' ABCDEFGH-IJKLMNOP''\<rparr>"

definition sample_login :: "(string \<times> string) reply \<times> store" where
  "sample_login = login sample_env sample_config minute \<lparr>nt_Token = Inr ''token'', nt_CSRF = Inr ''csrf''\<rparr> sample_request
     sample_input sample_admin"

theorem login_uses_both_factors_witness:
  "fst sample_login = Inr (''token'', ''csrf'') \<and>
   (\<exists>a cs. Admin sample_admin = Inr a \<and> ce_VerifyPassword sample_env (ad_PasswordHash a) ''a good password'' \<and>
    calls_lead id sample_admin cs (snd sample_login) \<and>
    list_ex (factor_event sample_env minute a sample_input) (history id sample_admin cs))"
proof
  have "map se_TokenHash (sessions (snd sample_login)) = [''token'']" and "map se_TokenHash (sessions sample_admin) = []"
    by code_simp+
  then have "sessions (snd sample_login) \<noteq> sessions sample_admin" by auto
  note both = login_uses_both_factors [OF this [unfolded sample_login_def], folded sample_login_def]
  have "ce_HashToken sample_env = id" and "li_Password sample_input = ''a good password''"
    by (simp_all add: sample_env_def sample_input_def)
  with both show "\<exists>a cs. Admin sample_admin = Inr a \<and> ce_VerifyPassword sample_env (ad_PasswordHash a) ''a good password'' \<and>
    calls_lead id sample_admin cs (snd sample_login) \<and>
    list_ex (factor_event sample_env minute a sample_input) (history id sample_admin cs)"
    by (simp only:)
qed code_simp

subsection \<open>Sensitive requests\<close>

text \<open>The events that give out the token with a digest, elevated until a point in time.\<close>

fun opens :: "(string \<Rightarrow> string) \<Rightarrow> string \<Rightarrow> time \<Rightarrow> auth_event \<Rightarrow> bool" where
  "opens H h until (t, NewSession u token csrf m a at until' expires, ok) \<longleftrightarrow>
     ok \<and> H token = h \<and> until = t + recentAuthenticationLifetime"
| "opens H h until (t, Elevate current replacement m a at until', ok) \<longleftrightarrow>
     ok \<and> H replacement = h \<and> until = t + recentAuthenticationLifetime"
| "opens H h until _ \<longleftrightarrow> False"

definition sessions_opened :: "(string \<Rightarrow> string) \<Rightarrow> auth_event list \<Rightarrow> store \<Rightarrow> bool" where
  "sessions_opened H es s \<longleftrightarrow> (\<forall>r \<in> set (sessions s). \<forall>until. se_ElevatedUntil r = Some until \<longrightarrow>
     list_ex (opens H (se_TokenHash r) until) es)"

lemma sessions_opened_subset:
  "sessions_opened H es s \<Longrightarrow> set (sessions s') \<subseteq> set (sessions s) \<Longrightarrow> sessions_opened H (es @ ds) s'"
  by (fastforce simp: sessions_opened_def)

fun session_call :: "auth_op \<Rightarrow> bool" where
  "session_call (NewSession u token csrf m a at until expires) = True"
| "session_call (Elevate current replacement m a at until) = True"
| "session_call _ = False"

lemma fewer_sessions:
  assumes "\<not> session_call x"
  shows "set (sessions (snd (exec H t x s))) \<subseteq> set (sessions s)"
proof (cases x)
  case (ClearAttempts limits)
  with quiet_sessions(2) [of H limits s] show ?thesis by simp
qed (use assms in \<open>auto simp: attempt_store map_sum_Inr auth_call_defs Let_def
    split: sum.splits option.splits prod.splits if_splits\<close>)

lemma sessions_opened_step:
  assumes old: "sessions_opened H es s" and call: "authentication_call (t, x)"
  shows "sessions_opened H (es @ [(t, x, fst (exec H t x s))]) (snd (exec H t x s))"
proof (cases "session_call x \<and> fst (exec H t x s)")
  case True
  then show ?thesis
  proof (cases x)
    case (NewSession u token csrf m a at until expires)
    with True old call show ?thesis
      by (auto simp: is_ok_iff CreateAuthenticatedSession_def insert_session_def sessions_opened_def attempt_store)
  next
    case (Elevate current replacement m a at until)
    with True old call show ?thesis
      by (auto simp: is_ok_iff ElevateSession_def sessions_opened_def attempt_store set_update_rows split: if_splits)
  qed auto
next
  case False
  have "set (sessions (snd (exec H t x s))) \<subseteq> set (sessions s)"
  proof (cases "session_call x")
    case True
    with False show ?thesis by (cases x) (auto simp: attempt_store is_ok_iff split: sum.splits)
  qed (rule fewer_sessions)
  with old show ?thesis by (rule sessions_opened_subset)
qed

lemma sessions_opened_history:
  "sessions_opened H es s \<Longrightarrow> list_all authentication_call cs \<Longrightarrow> sessions_opened H (es @ history H s cs) (final H s cs)"
proof (induction H s cs arbitrary: es rule: history.induct)
  case (2 H s t x cs)
  from "2.prems" have "authentication_call (t, x)" "list_all authentication_call cs" by simp_all
  with "2.IH" [OF sessions_opened_step [OF "2.prems"(1)]] show ?case by simp
qed simp

text \<open>
  C40: After every history of calls that handlers make, a sensitive request is let through only with a token that
  an event of the history gave out: a login or a repeated authentication less than five minutes ago.
\<close>

theorem sensitive_requests_follow_an_authentication:
  assumes "list_all authentication_call cs"
    and "requireRecentAdmin env now rq (final (ce_HashToken env) empty_store cs) = (Inr found, s')"
  shows "\<exists>token until. rq_Cookie rq = Some token \<and> now < until \<and>
    list_ex (opens (ce_HashToken env) (ce_HashToken env token) until) (history (ce_HashToken env) empty_store cs)"
proof -
  let ?H = "ce_HashToken env"
  have "sessions_opened ?H [] empty_store" by (simp add: sessions_opened_def empty_store_def)
  from sessions_opened_history [OF this assms(1)]
  have opened: "sessions_opened ?H (history ?H empty_store cs) (final ?H empty_store cs)" by simp
  from assms(2) obtain token s1 where cookie: "rq_Cookie rq = Some token"
    and found: "Session ?H now token (final ?H empty_store cs) = (Inr found, s1)"
    and recent: "sessionRecentlyAuthenticated found now"
    by (auto simp: requireRecentAdmin_def requireAdmin_def refuse_def split: prod.splits sum.splits option.splits if_splits)
  from found obtain r where r: "find_row (\<lambda>r. se_TokenHash r = ?H token) (sessions (final ?H empty_store cs)) = Some r"
    and f: "ss_ElevatedUntil found = se_ElevatedUntil r"
    by (auto simp: Session_def split: option.splits if_splits)
  from recent f obtain until where until: "se_ElevatedUntil r = Some until" "now < until"
    by (auto simp: sessionRecentlyAuthenticated_def split: option.splits)
  from find_row_SomeD [OF r] opened until(1)
  have "list_ex (opens ?H (?H token) until) (history ?H empty_store cs)" by (fastforce simp: sessions_opened_def)
  with cookie until(2) show ?thesis by blast
qed

definition sample_calls :: "auth_call list" where
  "sample_calls = [sample_first, (minute, NewSession ''admin'' ''token'' ''csrf'' ''totp'' [] minute
     (minute + recentAuthenticationLifetime) (minute + adminSessionLifetime))]"

theorem sensitive_requests_follow_an_authentication_witness:
  "is_ok (fst (requireRecentAdmin sample_env (2 * minute) sample_request (final id empty_store sample_calls))) \<and>
   (\<exists>token until. Some ''token'' = Some token \<and> 2 * minute < until \<and>
     list_ex (opens id token until) (history id empty_store sample_calls))"
proof -
  have ok: "is_ok (fst (requireRecentAdmin sample_env (2 * minute) sample_request (final id empty_store sample_calls)))"
    by code_simp
  then obtain found s' where "requireRecentAdmin sample_env (2 * minute) sample_request (final id empty_store sample_calls)
      = (Inr found, s')" by (metis is_ok_iff prod.collapse)
  moreover have "list_all authentication_call sample_calls" by (simp add: sample_calls_def sample_first_def)
  moreover have "ce_HashToken sample_env = id" "rq_Cookie sample_request = Some ''token''"
    by (simp_all add: sample_env_def sample_request_def)
  ultimately show ?thesis
    using ok sensitive_requests_follow_an_authentication [of sample_calls sample_env "2 * minute" sample_request found s']
    by simp
qed

end
