(* ===== verification/Node_Store.thy ===== *)
theory Node_Store
  imports Smart_Routing Upgrades Limits Go_Net
begin

section \<open>Nodes (internal/store/store.go)\<close>

text \<open>
  A node is created pending, enrolls once with a token that an administrator made, gets a client
  certificate, and reports heartbeats. An administrator pauses (drains) it, revokes its
  authorization, or prepares its removal (\<open>Node_Removal\<close>). \<open>H\<close> is the digest of tokens; the identifier
  of a new node is an argument.
\<close>

subsection \<open>Addresses\<close>

text \<open>The predicates of \<open>net.IP\<close> that the checks use.\<close>

definition IsLoopback :: "ip \<Rightarrow> bool" where
  "IsLoopback a \<longleftrightarrow> (if is_v4 a then a ! 6 div 256 = 127 else a = [0, 0, 0, 0, 0, 0, 0, 1])"

definition IsPrivate :: "ip \<Rightarrow> bool" where
  "IsPrivate a \<longleftrightarrow>
     (if is_v4 a then a ! 6 div 256 = 10 \<or> a ! 6 div 16 = 172 * 16 + 1 \<or> a ! 6 = 192 * 256 + 168
      else a ! 0 div 512 = 126)"

definition IsLinkLocalUnicast :: "ip \<Rightarrow> bool" where
  "IsLinkLocalUnicast a \<longleftrightarrow> (if is_v4 a then a ! 6 = 169 * 256 + 254 else a ! 0 div 64 = 1018)"

definition special_address :: "ip \<Rightarrow> bool" where
  "special_address a \<longleftrightarrow>
     IsUnspecified a \<or> IsLoopback a \<or> IsLinkLocalUnicast a \<or> IsMulticast a \<or> IsPrivate a"

definition normalizePublicIPv6 :: "string \<Rightarrow> string result" where
  "normalizePublicIPv6 value0 =
     (let value = TrimSpace value0 in
      if value = [] then Inr []
      else (case ParseIP value of
          None \<Rightarrow> Inl (err ''public IPv6 must be empty or a valid public IPv6 address'')
        | Some a \<Rightarrow>
            if is_v4 a \<or> special_address a
            then Inl (err ''public IPv6 must be empty or a valid public IPv6 address'')
            else Inr (IP_String a)))"

definition public_ipv4 :: "string \<Rightarrow> string result" where
  "public_ipv4 value =
     (case ParseIP (TrimSpace value) of
        None \<Rightarrow> Inl (err ''a valid public IPv4 address is required'')
      | Some a \<Rightarrow>
          if \<not> is_v4 a \<or> special_address a then Inl (err ''a valid public IPv4 address is required'')
          else Inr (IP_String a))"

subsection \<open>Creating and reading\<close>

definition new_node :: "string \<Rightarrow> string \<Rightarrow> string \<Rightarrow> string \<Rightarrow> time \<Rightarrow> node_row" where
  "new_node fresh name ipv4 ipv6 created =
     \<lparr>nd_ID = fresh, nd_Name = name, nd_PublicIPv4 = ipv4, nd_PublicIPv6 = ipv6, nd_CacheMaxSizeGB = None,
      nd_NginxCapacity = DefaultNginxCapacity, nd_Status = NodePending, nd_MonitorAutoPaused = False,
      nd_Capabilities = [], nd_AgentVersion = [], nd_AgentSHA256 = [], nd_NginxVersion = [],
      nd_NginxSHA256 = [], nd_ActiveUpgradeID = [], nd_LastHeartbeatAt = None, nd_AppliedVersion = 0,
      nd_LastError = [], nd_CreatedAt = created, nd_UpdatedAt = created, nd_CertFingerprint = None\<rparr>"

text \<open>Identifier, name and addresses are unique; the index on \<open>public_ipv6\<close> leaves empty values out.\<close>

definition node_conflict :: "node_row \<Rightarrow> node_row \<Rightarrow> bool" where
  "node_conflict a b \<longleftrightarrow> nd_ID a = nd_ID b \<or> nd_Name a = nd_Name b \<or> nd_PublicIPv4 a = nd_PublicIPv4 b
     \<or> nd_PublicIPv6 a \<noteq> [] \<and> nd_PublicIPv6 a = nd_PublicIPv6 b"

definition CreateNodeWithAddresses :: "store \<Rightarrow> string \<Rightarrow> string \<Rightarrow> string \<Rightarrow> string \<Rightarrow> time
    \<Rightarrow> (store \<times> node) result" where
  "CreateNodeWithAddresses s name publicIPv4 publicIPv6 fresh now =
     (if TrimSpace name = [] then Inl (err ''node name is required'')
      else case public_ipv4 publicIPv4 of Inl e \<Rightarrow> Inl e | Inr ipv4 \<Rightarrow>
      case normalizePublicIPv6 publicIPv6 of Inl e \<Rightarrow> Inl e | Inr ipv6 \<Rightarrow>
      (let n = new_node fresh (TrimSpace name) ipv4 ipv6 now in
       if list_ex (node_conflict n) (nodes s) then Inl (Errorf ''create node: %w'' [ArgE constraint_error])
       else Inr (insertDefaultSmartRoutingPolicyTx (s\<lparr>nodes := nodes s @ [n]\<rparr>) fresh now, node.truncate n)))"

definition CreateNode :: "store \<Rightarrow> string \<Rightarrow> string \<Rightarrow> string \<Rightarrow> time \<Rightarrow> (store \<times> node) result" where
  "CreateNode s name publicIPv4 fresh now = CreateNodeWithAddresses s name publicIPv4 [] fresh now"

definition GetNode :: "store \<Rightarrow> string \<Rightarrow> node result" where
  "GetNode s nodeID = (case find_node s nodeID of None \<Rightarrow> Inl ErrNotFound | Some n \<Rightarrow> Inr (node.truncate n))"

definition ListNodes :: "store \<Rightarrow> node list" where
  "ListNodes s = map node.truncate (sort_key nd_Name (nodes s))"

subsection \<open>Settings of a node\<close>

text \<open>\<open>UPDATE nodes SET ... WHERE id = ?\<close>, which has to change one row.\<close>

definition update_node :: "store \<Rightarrow> string \<Rightarrow> (node_row \<Rightarrow> node_row) \<Rightarrow> store" where
  "update_node s nodeID f = s\<lparr>nodes := update_rows (\<lambda>n. nd_ID n = nodeID) f (nodes s)\<rparr>"

definition update_one_node :: "store \<Rightarrow> string \<Rightarrow> (node_row \<Rightarrow> node_row) \<Rightarrow> store result" where
  "update_one_node s nodeID f =
     (if count_rows (\<lambda>n. nd_ID n = nodeID) (nodes s) \<noteq> 1 then Inl ErrNotFound
      else Inr (update_node s nodeID f))"

definition and_read :: "string \<Rightarrow> store result \<Rightarrow> (store \<times> node) result" where
  "and_read nodeID r = (case r of Inl e \<Rightarrow> Inl e | Inr s \<Rightarrow>
     (case GetNode s nodeID of Inl e \<Rightarrow> Inl e | Inr n \<Rightarrow> Inr (s, n)))"

definition reset_node_ipv6_health :: "store \<Rightarrow> string \<Rightarrow> store" where
  "reset_node_ipv6_health s nodeID = s\<lparr>site_healths := update_rows (\<lambda>h. sh_NodeID h = nodeID)
     (\<lambda>h. h\<lparr>sh6_ConsecutiveFailures := 0, sh6_ConsecutiveSuccesses := 0, sh6_DNSEligible := False,
            sh6_LastCheckedAt := None, sh6_LastError := []\<rparr>) (site_healths s)\<rparr>"

definition SetNodePublicIPv6 :: "store \<Rightarrow> string \<Rightarrow> string \<Rightarrow> time \<Rightarrow> (store \<times> node) result" where
  "SetNodePublicIPv6 s nodeID publicIPv6 now =
     (case normalizePublicIPv6 publicIPv6 of Inl e \<Rightarrow> Inl e | Inr v \<Rightarrow>
      case GetNode s nodeID of Inl e \<Rightarrow> Inl e | Inr current \<Rightarrow>
      if nd_PublicIPv6 current = v then Inr (s, current)
      else if v \<noteq> [] \<and> list_ex (\<lambda>n. nd_ID n \<noteq> nodeID \<and> nd_PublicIPv6 n = v) (nodes s) then Inl constraint_error
      else case update_one_node s nodeID (\<lambda>n. n\<lparr>nd_PublicIPv6 := v, nd_UpdatedAt := now\<rparr>) of Inl e \<Rightarrow> Inl e
      | Inr s1 \<Rightarrow> and_read nodeID (Inr (reset_node_ipv6_health s1 nodeID)))"

definition SetNodeCacheMaxSizeGB :: "store \<Rightarrow> string \<Rightarrow> int option \<Rightarrow> time \<Rightarrow> (store \<times> node) result" where
  "SetNodeCacheMaxSizeGB s nodeID size_gb now =
     (case (case size_gb of None \<Rightarrow> Inr () | Some n \<Rightarrow> ValidateCacheMaxSizeGB n) of Inl e \<Rightarrow> Inl e | Inr _ \<Rightarrow>
      and_read nodeID
        (update_one_node s nodeID (\<lambda>n. n\<lparr>nd_CacheMaxSizeGB := size_gb, nd_UpdatedAt := now\<rparr>)))"

definition SetNodeNginxCapacity :: "store \<Rightarrow> string \<Rightarrow> nginx_capacity \<Rightarrow> time \<Rightarrow> (store \<times> node) result" where
  "SetNodeNginxCapacity s nodeID capacity0 now =
     (case NormalizeNginxCapacity capacity0 of Inl e \<Rightarrow> Inl e | Inr capacity \<Rightarrow>
      and_read nodeID
        (update_one_node s nodeID (\<lambda>n. n\<lparr>nd_NginxCapacity := capacity, nd_UpdatedAt := now\<rparr>)))"

subsection \<open>Enrollment\<close>

definition barred :: "node_status \<Rightarrow> bool" where
  "barred st \<longleftrightarrow> st = NodeRevoked \<or> st = NodeUninstalling \<or> st = NodeUninstalled"

definition CreateEnrollmentToken :: "(string \<Rightarrow> string) \<Rightarrow> store \<Rightarrow> string \<Rightarrow> string \<Rightarrow> time \<Rightarrow> time
    \<Rightarrow> store result" where
  "CreateEnrollmentToken H s nodeID token expiresAt now =
     (case find_node s nodeID of None \<Rightarrow> Inl ErrNotFound | Some n \<Rightarrow>
      if barred (nd_Status n) then Inl (err ''cannot enroll a revoked, uninstalling, or uninstalled node'')
      else if active_uninstall s nodeID then Inl ErrUninstallActive
      else if list_ex (\<lambda>t. et_TokenHash t = H token) (enrollment_tokens s) then Inl constraint_error
      else Inr (s\<lparr>enrollment_tokens := enrollment_tokens s @ [\<lparr>et_TokenHash = H token, et_NodeID = nodeID,
             et_ExpiresAt = expiresAt, et_UsedAt = None, et_CreatedAt = now\<rparr>]\<rparr>))"

definition NodeRequiresEnrollment :: "store \<Rightarrow> string \<Rightarrow> bool result" where
  "NodeRequiresEnrollment s nodeID =
     (case find_node s nodeID of None \<Rightarrow> Inl ErrNotFound | Some n \<Rightarrow>
      if barred (nd_Status n) then Inl (err ''cannot deploy a revoked, uninstalling, or uninstalled node'')
      else if active_uninstall s nodeID then Inl ErrUninstallActive
      else Inr (case nd_CertFingerprint n of None \<Rightarrow> True | Some f \<Rightarrow> TrimSpace f = []))"

definition ConsumeEnrollmentToken :: "(string \<Rightarrow> string) \<Rightarrow> store \<Rightarrow> string \<Rightarrow> time \<Rightarrow> (store \<times> string) result" where
  "ConsumeEnrollmentToken H s token now =
     (let unused = (\<lambda>t. et_TokenHash t = H token \<and> et_UsedAt t = None) in
      case find_row (\<lambda>t. et_TokenHash t = H token) (enrollment_tokens s) of None \<Rightarrow> Inl ErrTokenInvalid | Some t \<Rightarrow>
      case find_node s (et_NodeID t) of None \<Rightarrow> Inl ErrTokenInvalid | Some n \<Rightarrow>
      if barred (nd_Status n) \<or> active_uninstall s (et_NodeID t) \<or> et_UsedAt t \<noteq> None \<or> \<not> et_ExpiresAt t > now
      then Inl ErrTokenInvalid
      else if count_rows unused (enrollment_tokens s) \<noteq> 1 then Inl ErrTokenInvalid
      else Inr (s\<lparr>enrollment_tokens := update_rows unused (\<lambda>t. t\<lparr>et_UsedAt := Some now\<rparr>) (enrollment_tokens s)\<rparr>,
                et_NodeID t))"

definition may_be_certified :: "store \<Rightarrow> string \<Rightarrow> node_row \<Rightarrow> bool" where
  "may_be_certified s nodeID n \<longleftrightarrow> nd_ID n = nodeID \<and> \<not> barred (nd_Status n) \<and> \<not> active_uninstall s nodeID"

definition SetNodeCertificate :: "store \<Rightarrow> string \<Rightarrow> string \<Rightarrow> time \<Rightarrow> store result" where
  "SetNodeCertificate s nodeID fingerprint now =
     (if count_rows (may_be_certified s nodeID) (nodes s) \<noteq> 1 then Inl ErrNotFound
      else Inr (s\<lparr>nodes := update_rows (may_be_certified s nodeID)
             (\<lambda>n. n\<lparr>nd_CertFingerprint := Some fingerprint, nd_UpdatedAt := now\<rparr>) (nodes s)\<rparr>))"

definition NodeIDByFingerprint :: "store \<Rightarrow> string \<Rightarrow> string result" where
  "NodeIDByFingerprint s fingerprint =
     (case find_row (\<lambda>n. nd_CertFingerprint n = Some fingerprint \<and> \<not> barred (nd_Status n)) (nodes s) of
        None \<Rightarrow> Inl ErrNotFound
      | Some n \<Rightarrow> Inr (nd_ID n))"

subsection \<open>Reports of a node\<close>

definition capability_char :: "char \<Rightarrow> bool" where
  "capability_char c \<longleftrightarrow> is_lower c \<or> is_digit c \<or> c = CHR ''_'' \<or> c = CHR ''-''"

fun normalize_capabilities :: "string set \<Rightarrow> string list \<Rightarrow> string list result" where
  "normalize_capabilities seen [] = Inr []"
| "normalize_capabilities seen (c0 # cs) =
     (let c = TrimSpace c0 in
      if c = [] \<or> length c > 64 then Inl (err ''invalid edge capability'')
      else if \<not> list_all capability_char c then Inl (err ''invalid edge capability'')
      else if c \<in> seen then normalize_capabilities seen cs
      else case normalize_capabilities (insert c seen) cs of Inl e \<Rightarrow> Inl e | Inr cs' \<Rightarrow> Inr (c # cs'))"

definition SetNodeCapabilities :: "store \<Rightarrow> string \<Rightarrow> string list \<Rightarrow> time \<Rightarrow> store result" where
  "SetNodeCapabilities s nodeID capabilities now =
     (if length capabilities > 32 then Inl (err ''too many edge capabilities'')
      else case normalize_capabilities {} capabilities of Inl e \<Rightarrow> Inl e | Inr cs \<Rightarrow>
      update_one_node s nodeID (\<lambda>n. n\<lparr>nd_Capabilities := cs, nd_UpdatedAt := now\<rparr>))"

definition beat :: "int \<Rightarrow> string \<Rightarrow> string \<Rightarrow> string \<Rightarrow> string \<Rightarrow> string \<Rightarrow> string \<Rightarrow> time \<Rightarrow> node_row \<Rightarrow> node_row" where
  "beat appliedVersion lastError agentVersion agentSHA256 nginxVersion nginxSHA256 activeUpgradeID now n =
     n\<lparr>nd_Status := (if nd_Status n = NodePending then NodeActive else nd_Status n),
       nd_LastHeartbeatAt := Some now,
       nd_AppliedVersion := (if appliedVersion > nd_AppliedVersion n then appliedVersion else nd_AppliedVersion n),
       nd_AgentVersion := agentVersion,
       nd_AgentSHA256 := (if agentSHA256 = [] then nd_AgentSHA256 n else agentSHA256),
       nd_NginxVersion := (if nginxVersion = [] then nd_NginxVersion n else nginxVersion),
       nd_NginxSHA256 := (if nginxSHA256 = [] then nd_NginxSHA256 n else nginxSHA256),
       nd_ActiveUpgradeID := activeUpgradeID, nd_LastError := lastError, nd_UpdatedAt := now\<rparr>"

text \<open>
  A heartbeat is not one transaction: what its first statements wrote stays when a later one fails.
\<close>

definition HeartbeatWithArtifacts :: "store \<Rightarrow> string \<Rightarrow> int \<Rightarrow> string \<Rightarrow> apply_report option \<Rightarrow> string \<Rightarrow> string
    \<Rightarrow> string \<Rightarrow> string \<Rightarrow> string \<Rightarrow> time \<Rightarrow> store \<times> unit result" where
  "HeartbeatWithArtifacts s nodeID appliedVersion lastError report agentVersion agentSHA256 nginxVersion nginxSHA256
       activeUpgradeID now =
     (case (case report of None \<Rightarrow> Inr s | Some r \<Rightarrow> RecordPublishApply s nodeID r now) of
        Inl e \<Rightarrow> (s, Inl e)
      | Inr s1 \<Rightarrow>
          (case update_one_node s1 nodeID (beat appliedVersion lastError agentVersion agentSHA256 nginxVersion
                  nginxSHA256 activeUpgradeID now) of
             Inl e \<Rightarrow> (s1, Inl e)
           | Inr s2 \<Rightarrow>
               (let s3 = ReconcileNodeUpgrades s2 now in
                case ReconcilePublishTasks s3 now of Inl e \<Rightarrow> (s3, Inl e) | Inr s4 \<Rightarrow> (s4, Inr ()))))"

definition HeartbeatWithAgentVersion :: "store \<Rightarrow> string \<Rightarrow> int \<Rightarrow> string \<Rightarrow> apply_report option \<Rightarrow> string \<Rightarrow> string
    \<Rightarrow> string \<Rightarrow> time \<Rightarrow> store \<times> unit result" where
  "HeartbeatWithAgentVersion s nodeID appliedVersion lastError report agentVersion agentSHA256 activeUpgradeID now =
     HeartbeatWithArtifacts s nodeID appliedVersion lastError report agentVersion agentSHA256 [] [] activeUpgradeID now"

definition Heartbeat :: "store \<Rightarrow> string \<Rightarrow> int \<Rightarrow> string \<Rightarrow> apply_report option \<Rightarrow> time \<Rightarrow> store \<times> unit result" where
  "Heartbeat s nodeID appliedVersion lastError report now =
     HeartbeatWithAgentVersion s nodeID appliedVersion lastError report [] [] [] now"

subsection \<open>The status that an administrator sets\<close>

definition disable_smart_routing :: "store \<Rightarrow> string \<Rightarrow> time \<Rightarrow> store \<times> bool" where
  "disable_smart_routing s nodeID now =
     (let hit = (\<lambda>p. sp_NodeID p = nodeID \<and> sp_Enabled p) in
      (s\<lparr>smart_routing := update_rows hit (\<lambda>p. p\<lparr>sp_Enabled := False, sp_UpdatedAt := now\<rparr>) (smart_routing s)\<rparr>,
       count_rows hit (smart_routing s) \<noteq> 0))"

definition blocking_status :: "uninstall_status \<Rightarrow> bool" where
  "blocking_status st \<longleftrightarrow> st = NodeUninstallPreparing \<or> st = NodeUninstallReady \<or> st = NodeUninstallRunning
     \<or> st = NodeUninstallFailed"

definition revoke_node :: "store \<Rightarrow> string \<Rightarrow> time \<Rightarrow> store result" where
  "revoke_node s nodeID now =
     (case update_one_node s nodeID (\<lambda>n. n\<lparr>nd_Status := NodeRevoked, nd_MonitorAutoPaused := False,
             nd_CertFingerprint := None, nd_ActiveUpgradeID := [], nd_UpdatedAt := now\<rparr>) of Inl e \<Rightarrow> Inl e
      | Inr s1 \<Rightarrow> Inr (FailActiveNodeUpgrade
          (s1\<lparr>enrollment_tokens := delete_rows (\<lambda>t. et_NodeID t = nodeID \<and> et_UsedAt t = None) (enrollment_tokens s1),
              uninstall_jobs := update_rows (\<lambda>j. uj_NodeID j = nodeID \<and> blocking_status (uj_Status j))
                (\<lambda>j. j\<lparr>uj_PreviousStatus := NodeRevoked, uj_UpdatedAt := now\<rparr>) (uninstall_jobs s1)\<rparr>)
          nodeID ''authorization_revoked'' ''node authorization was revoked during online upgrade'' now))"

definition reset_abnormal_rounds :: "store \<Rightarrow> string \<Rightarrow> time \<Rightarrow> store" where
  "reset_abnormal_rounds s nodeID now = s\<lparr>monitoring := update_rows (\<lambda>m. ms_NodeID m = nodeID)
     (\<lambda>m. m\<lparr>ms_ConsecutiveAbnormal := 0, ms_UpdatedAt := now\<rparr>) (monitoring s)\<rparr>"

definition setNodeStatus :: "store \<Rightarrow> string \<Rightarrow> node_status \<Rightarrow> bool \<Rightarrow> time \<Rightarrow> (store \<times> bool) result" where
  "setNodeStatus s nodeID status manual now =
     (if status \<noteq> NodeActive \<and> status \<noteq> NodeDraining \<and> status \<noteq> NodeRevoked \<and> status \<noteq> NodePending
      then Inl (err ''invalid node status'')
      else case find_node s nodeID of None \<Rightarrow> Inl ErrNotFound | Some n \<Rightarrow>
      if nd_Status n = NodeUninstalling \<or> nd_Status n = NodeUninstalled
        then Inl (err ''uninstalling or uninstalled nodes cannot change status'')
      else if active_uninstall s nodeID \<and> status \<noteq> nd_Status n \<and> status \<noteq> NodeRevoked then Inl ErrUninstallActive
      else
        (let (s1, disabled) = (if manual then disable_smart_routing s nodeID now else (s, False)) in
         case (if status = NodeRevoked then revoke_node s1 nodeID now
               else update_one_node s1 nodeID
                      (\<lambda>n. n\<lparr>nd_Status := status, nd_MonitorAutoPaused := False, nd_UpdatedAt := now\<rparr>)) of
           Inl e \<Rightarrow> Inl e
         | Inr s2 \<Rightarrow> Inr (reset_abnormal_rounds s2 nodeID now, disabled)))"

definition SetNodeStatus :: "store \<Rightarrow> string \<Rightarrow> node_status \<Rightarrow> time \<Rightarrow> store result" where
  "SetNodeStatus s nodeID status now = map_sum id fst (setNodeStatus s nodeID status False now)"

definition SetNodeStatusManual :: "store \<Rightarrow> string \<Rightarrow> node_status \<Rightarrow> time \<Rightarrow> (store \<times> bool) result" where
  "SetNodeStatusManual s nodeID status now = setNodeStatus s nodeID status True now"

end
