(* ===== verification/Node_Removal.thy ===== *)
theory Node_Removal
  imports Node_Store Publication
begin

section \<open>Removing a node (internal/store/uninstall.go)\<close>

text \<open>
  The removal of a node is a job with a row of its own. It is prepared for a paused or revoked node, an
  administrator issues a token for it, and the script on the node presents the token to start the
  removal, to report a failure or to report its end. An administrator may also cancel it, or end it
  by force when the node does not answer. Afterwards the row of the node may be deleted. The table
  \<open>dns_bindings\<close>, which no code of the program fills, is left out.
\<close>

definition uninstallJobBlocksStatus :: "uninstall_status \<Rightarrow> bool" where
  "uninstallJobBlocksStatus status \<longleftrightarrow> status = NodeUninstallPreparing \<or> status = NodeUninstallReady
     \<or> status = NodeUninstallRunning \<or> status = NodeUninstallFailed"

definition uniqueStrings :: "string list \<Rightarrow> string list" where
  "uniqueStrings values = dedup {[]} values"

definition find_job :: "store \<Rightarrow> string \<Rightarrow> uninstall_row option" where
  "find_job s nodeID = find_row (\<lambda>j. uj_NodeID j = nodeID) (uninstall_jobs s)"

definition read_job :: "uninstall_row \<Rightarrow> uninstall_job" where
  "read_job j = uninstall_job.truncate j"

definition NodeUninstallJob :: "store \<Rightarrow> string \<Rightarrow> uninstall_job result" where
  "NodeUninstallJob s nodeID = (case find_job s nodeID of None \<Rightarrow> Inl ErrNotFound | Some j \<Rightarrow> Inr (read_job j))"

definition and_read_job :: "string \<Rightarrow> store \<Rightarrow> (store \<times> uninstall_job) result" where
  "and_read_job nodeID s = (case NodeUninstallJob s nodeID of Inl e \<Rightarrow> Inl e | Inr j \<Rightarrow> Inr (s, j))"

definition HasActiveNodeUninstall :: "store \<Rightarrow> string \<Rightarrow> bool" where
  "HasActiveNodeUninstall s nodeID \<longleftrightarrow>
     count_rows (\<lambda>j. uj_NodeID j = nodeID \<and> uj_Status j \<in> {NodeUninstallPreparing, NodeUninstallReady,
       NodeUninstallRunning, NodeUninstallFailed}) (uninstall_jobs s) > 0"

subsection \<open>Preparing\<close>

definition sites_of_node :: "store \<Rightarrow> string \<Rightarrow> string list" where
  "sites_of_node s nodeID =
     map st_ID (filter (\<lambda>x. nodeID \<in> set (AssignedNodeIDs x)) (sites s))
     @ map (\<lambda>p. st_ID (sp_Site p)) (filter (\<lambda>p. nodeID \<in> set (AssignedNodeIDs (sp_Site p))) (publications s))"

definition new_job :: "string \<Rightarrow> node_status \<Rightarrow> string list \<Rightarrow> time \<Rightarrow> time \<Rightarrow> uninstall_row" where
  "new_job nodeID previous affected readyAt created =
     \<lparr>uj_NodeID = nodeID, uj_Status = NodeUninstallPreparing, uj_PreviousStatus = previous,
      uj_TokenExpiresAt = None, uj_ReadyAt = readyAt, uj_AffectedSiteIDs = affected, uj_Detail = [],
      uj_Forced = False, uj_StartedAt = None, uj_CompletedAt = None, uj_CreatedAt = created,
      uj_UpdatedAt = created, uj_TokenHash = None\<rparr>"

definition PrepareNodeUninstall :: "store \<Rightarrow> string \<Rightarrow> string list \<Rightarrow> time \<Rightarrow> time
    \<Rightarrow> (store \<times> uninstall_job) result" where
  "PrepareNodeUninstall s nodeID affectedSiteIDs readyAt now =
     (case find_node s nodeID of None \<Rightarrow> Inl ErrNotFound | Some n \<Rightarrow>
      if HasActiveNodeUpgrade s nodeID then Inl ErrNodeUpgradeActive
      else if nd_ActiveUpgradeID n \<noteq> [] then Inl ErrUpgradeRetryNotReady
      else if nd_Status n \<noteq> NodeDraining \<and> nd_Status n \<noteq> NodeRevoked
        then Inl (err ''node must be paused or revoked before uninstall'')
      else
        (case find_job s nodeID of
           Some j \<Rightarrow>
             if uninstallJobBlocksStatus (uj_Status j) then Inr (s, read_job j)
             else and_read_job nodeID (s\<lparr>uninstall_jobs := upsert uj_NodeID
                    (new_job nodeID (nd_Status n) (uniqueStrings (affectedSiteIDs @ sites_of_node s nodeID))
                       readyAt now) (uninstall_jobs s)\<rparr>)
         | None \<Rightarrow> and_read_job nodeID (s\<lparr>uninstall_jobs := upsert uj_NodeID
                    (new_job nodeID (nd_Status n) (uniqueStrings (affectedSiteIDs @ sites_of_node s nodeID))
                       readyAt now) (uninstall_jobs s)\<rparr>)))"

subsection \<open>Tokens\<close>

definition issuable :: "string \<Rightarrow> uninstall_row \<Rightarrow> bool" where
  "issuable nodeID j \<longleftrightarrow> uj_NodeID j = nodeID
     \<and> (uj_Status j = NodeUninstallPreparing \<or> uj_Status j = NodeUninstallReady \<or> uj_Status j = NodeUninstallFailed)"

definition IssueNodeUninstallToken :: "(string \<Rightarrow> string) \<Rightarrow> store \<Rightarrow> string \<Rightarrow> string \<Rightarrow> time \<Rightarrow> time
    \<Rightarrow> (store \<times> uninstall_job) result" where
  "IssueNodeUninstallToken H s nodeID token expiresAt now =
     (if TrimSpace token = [] then Inl (err ''uninstall token is required'')
      else if list_ex (issuable nodeID) (uninstall_jobs s)
          \<and> list_ex (\<lambda>j. \<not> issuable nodeID j \<and> uj_TokenHash j = Some (H token)) (uninstall_jobs s)
        then Inl constraint_error
      else if count_rows (issuable nodeID) (uninstall_jobs s) \<noteq> 1 then Inl ErrUninstallActive
      else and_read_job nodeID (s\<lparr>uninstall_jobs := update_rows (issuable nodeID)
             (\<lambda>j. j\<lparr>uj_Status := NodeUninstallReady, uj_TokenHash := Some (H token),
                    uj_TokenExpiresAt := Some expiresAt, uj_Detail := [], uj_UpdatedAt := now\<rparr>)
             (uninstall_jobs s)\<rparr>))"

definition uninstallJobByToken :: "(string \<Rightarrow> string) \<Rightarrow> store \<Rightarrow> string \<Rightarrow> uninstall_job result" where
  "uninstallJobByToken H s token =
     (if TrimSpace token = [] then Inl ErrTokenInvalid
      else case find_row (\<lambda>j. uj_TokenHash j = Some (H token)) (uninstall_jobs s) of
          None \<Rightarrow> Inl ErrTokenInvalid
        | Some j \<Rightarrow> Inr (read_job j))"

definition expired_token :: "time \<Rightarrow> uninstall_job \<Rightarrow> bool" where
  "expired_token now job = (case uj_TokenExpiresAt job of None \<Rightarrow> True | Some t \<Rightarrow> \<not> t > now)"

definition coalesce :: "time option \<Rightarrow> time \<Rightarrow> time option" where
  "coalesce t now = Some (case t of None \<Rightarrow> now | Some x \<Rightarrow> x)"

definition update_job :: "store \<Rightarrow> string \<Rightarrow> (uninstall_row \<Rightarrow> uninstall_row) \<Rightarrow> store" where
  "update_job s nodeID f = s\<lparr>uninstall_jobs := update_rows (\<lambda>j. uj_NodeID j = nodeID) f (uninstall_jobs s)\<rparr>"

subsection \<open>What the script on the node reports\<close>

definition StartNodeUninstall :: "(string \<Rightarrow> string) \<Rightarrow> store \<Rightarrow> string \<Rightarrow> time \<Rightarrow> (store \<times> uninstall_job) result" where
  "StartNodeUninstall H s token now =
     (case uninstallJobByToken H s token of Inl e \<Rightarrow> Inl e | Inr job \<Rightarrow>
      if expired_token now job then Inl ErrTokenInvalid
      else if uj_Status job = NodeUninstallSucceeded then Inr (s, job)
      else if uj_Status job = NodeUninstallForced
        then and_read_job (uj_NodeID job) (update_job s (uj_NodeID job)
               (\<lambda>j. j\<lparr>uj_StartedAt := coalesce (uj_StartedAt j) now, uj_UpdatedAt := now\<rparr>))
      else if uj_Status job \<noteq> NodeUninstallReady \<and> uj_Status job \<noteq> NodeUninstallRunning
          \<and> uj_Status job \<noteq> NodeUninstallFailed
        then Inl ErrTokenInvalid
      else and_read_job (uj_NodeID job) (update_node
             (update_job s (uj_NodeID job) (\<lambda>j. j\<lparr>uj_Status := NodeUninstallRunning,
                uj_StartedAt := coalesce (uj_StartedAt j) now, uj_Detail := [], uj_UpdatedAt := now\<rparr>))
             (uj_NodeID job) (\<lambda>n. n\<lparr>nd_Status := NodeUninstalling, nd_UpdatedAt := now\<rparr>)))"

definition FailNodeUninstall :: "(string \<Rightarrow> string) \<Rightarrow> store \<Rightarrow> string \<Rightarrow> string \<Rightarrow> time \<Rightarrow> (store \<times> uninstall_job) result" where
  "FailNodeUninstall H s token detail0 now =
     (let detail = take 2000 detail0 in
      case uninstallJobByToken H s token of Inl e \<Rightarrow> Inl e | Inr job \<Rightarrow>
      if expired_token now job then Inl ErrTokenInvalid
      else if uj_Status job = NodeUninstallSucceeded \<or> uj_Status job = NodeUninstallForced then Inr (s, job)
      else if uj_Status job \<noteq> NodeUninstallRunning \<and> uj_Status job \<noteq> NodeUninstallFailed then Inl ErrTokenInvalid
      else and_read_job (uj_NodeID job) (update_node
             (update_job s (uj_NodeID job) (\<lambda>j. j\<lparr>uj_Status := NodeUninstallFailed, uj_Detail := detail,
                uj_UpdatedAt := now\<rparr>))
             (uj_NodeID job) (\<lambda>n. n\<lparr>nd_Status := uj_PreviousStatus job, nd_LastError := detail,
                nd_UpdatedAt := now\<rparr>)))"

definition completeNodeUninstall :: "store \<Rightarrow> string \<Rightarrow> uninstall_status \<Rightarrow> bool \<Rightarrow> string \<Rightarrow> time \<Rightarrow> store" where
  "completeNodeUninstall s nodeID status forced detail now =
     (let s1 = update_node (update_job s nodeID (\<lambda>j. j\<lparr>uj_Status := status, uj_Detail := detail,
            uj_Forced := forced, uj_CompletedAt := Some now, uj_UpdatedAt := now\<rparr>))
          nodeID (\<lambda>n. n\<lparr>nd_Status := NodeUninstalled, nd_CertFingerprint := None, nd_LastError := [],
            nd_UpdatedAt := now\<rparr>)
      in s1\<lparr>enrollment_tokens := delete_rows (\<lambda>t. et_NodeID t = nodeID) (enrollment_tokens s1),
            node_states := delete_rows (\<lambda>r. ns_NodeID r = nodeID) (node_states s1),
            node_healths := delete_rows (\<lambda>h. nh_NodeID h = nodeID) (node_healths s1),
            site_healths := delete_rows (\<lambda>h. sh_NodeID h = nodeID) (site_healths s1)\<rparr>)"

definition CompleteNodeUninstall :: "(string \<Rightarrow> string) \<Rightarrow> store \<Rightarrow> string \<Rightarrow> time \<Rightarrow> (store \<times> uninstall_job) result" where
  "CompleteNodeUninstall H s token now =
     (case uninstallJobByToken H s token of Inl e \<Rightarrow> Inl e | Inr job \<Rightarrow>
      if expired_token now job then Inl ErrTokenInvalid
      else if uj_Status job = NodeUninstallSucceeded then Inr (s, job)
      else if uj_Status job = NodeUninstallForced
        then (if uj_StartedAt job = None then Inl ErrTokenInvalid
              else and_read_job (uj_NodeID job)
                     (completeNodeUninstall s (uj_NodeID job) NodeUninstallSucceeded False [] now))
      else if uj_Status job \<noteq> NodeUninstallRunning then Inl ErrTokenInvalid
      else and_read_job (uj_NodeID job)
             (completeNodeUninstall s (uj_NodeID job) NodeUninstallSucceeded False [] now))"

subsection \<open>What an administrator decides\<close>

definition ForceCompleteNodeUninstall :: "store \<Rightarrow> string \<Rightarrow> string \<Rightarrow> time \<Rightarrow> (store \<times> uninstall_job) result" where
  "ForceCompleteNodeUninstall s nodeID detail now =
     (case NodeUninstallJob s nodeID of Inl e \<Rightarrow> Inl e | Inr job \<Rightarrow>
      if \<not> uninstallJobBlocksStatus (uj_Status job) then Inl ErrUninstallNotActive
      else and_read_job nodeID (completeNodeUninstall s nodeID NodeUninstallForced True detail now))"

definition CancelNodeUninstall :: "store \<Rightarrow> string \<Rightarrow> time \<Rightarrow> (store \<times> uninstall_job) result" where
  "CancelNodeUninstall s nodeID now =
     (if count_rows (issuable nodeID) (uninstall_jobs s) \<noteq> 1
      then (case NodeUninstallJob s nodeID of Inl e \<Rightarrow> Inl e | Inr job \<Rightarrow>
        if \<not> uninstallJobBlocksStatus (uj_Status job) then Inl ErrUninstallNotActive else Inl ErrUninstallActive)
      else and_read_job nodeID (s\<lparr>uninstall_jobs := update_rows (issuable nodeID)
             (\<lambda>j. j\<lparr>uj_Status := NodeUninstallCanceled, uj_TokenHash := None, uj_TokenExpiresAt := None,
                    uj_Detail := [], uj_UpdatedAt := now\<rparr>) (uninstall_jobs s)\<rparr>))"

definition node_assigned :: "store \<Rightarrow> string \<Rightarrow> bool" where
  "node_assigned s nodeID \<longleftrightarrow>
     list_ex (\<lambda>x. nodeID \<in> set (AssignedNodeIDs x)) (sites s)
     \<or> list_ex (\<lambda>p. nodeID \<in> set (AssignedNodeIDs (sp_Site p))) (publications s)"

text \<open>Every table with a column \<open>REFERENCES nodes(id) ON DELETE CASCADE\<close> loses the rows of the node.\<close>

definition delete_node_rows :: "store \<Rightarrow> string \<Rightarrow> store" where
  "delete_node_rows s nodeID = s\<lparr>
     nodes := delete_rows (\<lambda>n. nd_ID n = nodeID) (nodes s),
     smart_routing := delete_rows (\<lambda>p. sp_NodeID p = nodeID) (smart_routing s),
     monitoring := delete_rows (\<lambda>m. ms_NodeID m = nodeID) (monitoring s),
     node_healths := delete_rows (\<lambda>h. nh_NodeID h = nodeID) (node_healths s),
     site_healths := delete_rows (\<lambda>h. sh_NodeID h = nodeID) (site_healths s),
     enrollment_tokens := delete_rows (\<lambda>t. et_NodeID t = nodeID) (enrollment_tokens s),
     uninstall_jobs := delete_rows (\<lambda>j. uj_NodeID j = nodeID) (uninstall_jobs s),
     upgrade_tasks := delete_rows (\<lambda>t. nu_NodeID t = nodeID) (upgrade_tasks s),
     publish_nodes := delete_rows (\<lambda>p. ptn_NodeID p = nodeID) (publish_nodes s),
     node_states := delete_rows (\<lambda>r. ns_NodeID r = nodeID) (node_states s),
     drains := delete_rows (\<lambda>d. dr_NodeID d = nodeID) (drains s)\<rparr>"

definition DeleteNode :: "store \<Rightarrow> string \<Rightarrow> store result" where
  "DeleteNode s nodeID =
     (if node_assigned s nodeID then Inl ErrNodeAssigned
      else if count_rows (\<lambda>n. nd_ID n = nodeID) (nodes s) \<noteq> 1 then Inl ErrNotFound
      else Inr (delete_node_rows s nodeID))"

definition PendingNodeCanBeDeleted :: "store \<Rightarrow> string \<Rightarrow> bool result" where
  "PendingNodeCanBeDeleted s nodeID =
     (case find_node s nodeID of None \<Rightarrow> Inl ErrNotFound | Some n \<Rightarrow>
      Inr (nd_Status n = NodePending \<and> nd_CertFingerprint n = None \<and> nd_LastHeartbeatAt n = None
        \<and> nd_AppliedVersion n = 0 \<and> \<not> list_ex (\<lambda>r. ns_NodeID r = nd_ID n) (node_states s)))"

end
