(* ===== verification/Node_Lifecycle.thy ===== *)
theory Node_Lifecycle
  imports Node_Removal Smart_Reconcile
begin

section \<open>The life of a node as a state machine\<close>

text \<open>
  Every call that writes the tables \<open>nodes\<close>, \<open>node_uninstall_jobs\<close> or \<open>enrollment_tokens\<close>, as a list of
  calls that arrive one after the other (a store call is one transaction on the only connection of
  the database, so concurrent requests interleave as such lists). \<open>cell s i\<close> is what matters of
  node \<open>i\<close>: its status, whether it holds a certificate, and its removal job. \<open>cell_step\<close> is the
  state machine that the code implements for one node; \<open>Node_Properties\<close> proves that it does.
  \<open>CallScored\<close> is the part of a round of measurements (\<open>store/monitoring.go\<close>) that writes these tables: it
  rules the node by the policy whose score gate it has moved.
\<close>

subsection \<open>Calls\<close>

datatype node_call =
    CallCreate string string string string
  | CallIPv6 string string
  | CallCacheSize string "int option"
  | CallCapacity string nginx_capacity
  | CallNewToken string string time
  | CallUseToken string
  | CallCertify string string
  | CallCapabilities string "string list"
  | CallHeartbeat string int string "apply_report option" string string string string string
  | CallSetStatus string node_status bool
  | CallPrepare string "string list" time
  | CallIssue string string time
  | CallStart string
  | CallFail string string
  | CallComplete string
  | CallForce string string
  | CallCancel string
  | CallDelete string
  | CallUpdateRouting string smart_config duration
  | CallReconcileRouting
  | CallScored smart_policy smart_transition

definition committed :: "store \<Rightarrow> ('a \<Rightarrow> store) \<Rightarrow> 'a result \<Rightarrow> store" where
  "committed s f r = (case r of Inl _ \<Rightarrow> s | Inr x \<Rightarrow> f x)"

fun node_exec :: "(string \<Rightarrow> string) \<Rightarrow> time \<Rightarrow> node_call \<Rightarrow> store \<Rightarrow> store" where
  "node_exec H t (CallCreate name v4 v6 fresh) s = committed s fst (CreateNodeWithAddresses s name v4 v6 fresh t)"
| "node_exec H t (CallIPv6 i v) s = committed s fst (SetNodePublicIPv6 s i v t)"
| "node_exec H t (CallCacheSize i v) s = committed s fst (SetNodeCacheMaxSizeGB s i v t)"
| "node_exec H t (CallCapacity i v) s = committed s fst (SetNodeNginxCapacity s i v t)"
| "node_exec H t (CallNewToken i tok ex) s = committed s id (CreateEnrollmentToken H s i tok ex t)"
| "node_exec H t (CallUseToken tok) s = committed s fst (ConsumeEnrollmentToken H s tok t)"
| "node_exec H t (CallCertify i fp) s = committed s id (SetNodeCertificate s i fp t)"
| "node_exec H t (CallCapabilities i v) s = committed s id (SetNodeCapabilities s i v t)"
| "node_exec H t (CallHeartbeat i v e r a b c d u) s = fst (HeartbeatWithArtifacts s i v e r a b c d u t)"
| "node_exec H t (CallSetStatus i st manual) s = committed s fst (setNodeStatus s i st manual t)"
| "node_exec H t (CallPrepare i affected ready) s = committed s fst (PrepareNodeUninstall s i affected ready t)"
| "node_exec H t (CallIssue i tok ex) s = committed s fst (IssueNodeUninstallToken H s i tok ex t)"
| "node_exec H t (CallStart tok) s = committed s fst (StartNodeUninstall H s tok t)"
| "node_exec H t (CallFail tok detail) s = committed s fst (FailNodeUninstall H s tok detail t)"
| "node_exec H t (CallComplete tok) s = committed s fst (CompleteNodeUninstall H s tok t)"
| "node_exec H t (CallForce i detail) s = committed s fst (ForceCompleteNodeUninstall s i detail t)"
| "node_exec H t (CallCancel i) s = committed s fst (CancelNodeUninstall s i t)"
| "node_exec H t (CallDelete i) s = committed s id (DeleteNode s i)"
| "node_exec H t (CallUpdateRouting i c fresh) s = committed s fst (UpdateSmartRoutingPolicy s i c t fresh)"
| "node_exec H t CallReconcileRouting s = committed s fst (ReconcileSmartRouting s t)"
| "node_exec H t (CallScored p tr) s = committed s fst (reconcileSmartRoutingNodeTx s p tr t)"

fun node_run :: "(string \<Rightarrow> string) \<Rightarrow> store \<Rightarrow> (time \<times> node_call) list \<Rightarrow> store" where
  "node_run H s [] = s"
| "node_run H s ((t, c) # cs) = node_run H (node_exec H t c s) cs"

subsection \<open>The machine of one node\<close>

record job_view =
  jv_Status :: uninstall_status
  jv_Previous :: node_status
  jv_Token :: "string option"
  jv_Started :: bool
  jv_Completed :: bool

type_synonym cell = "(node_status \<times> bool) option \<times> job_view option"

definition job_view_of :: "uninstall_row \<Rightarrow> job_view" where
  "job_view_of j = \<lparr>jv_Status = uj_Status j, jv_Previous = uj_PreviousStatus j, jv_Token = uj_TokenHash j,
     jv_Started = (uj_StartedAt j \<noteq> None), jv_Completed = (uj_CompletedAt j \<noteq> None)\<rparr>"

definition node_view_of :: "node_row \<Rightarrow> node_status \<times> bool" where
  "node_view_of n = (nd_Status n, nd_CertFingerprint n \<noteq> None)"

definition cell :: "store \<Rightarrow> string \<Rightarrow> cell" where
  "cell s i = (map_option node_view_of (find_node s i), map_option job_view_of (find_job s i))"

definition blocked :: "job_view option \<Rightarrow> bool" where
  "blocked j = (case j of None \<Rightarrow> False | Some v \<Rightarrow> uninstallJobBlocksStatus (jv_Status v))"

definition revoked_job :: "job_view \<Rightarrow> job_view" where
  "revoked_job v = (if uninstallJobBlocksStatus (jv_Status v) then v\<lparr>jv_Previous := NodeRevoked\<rparr> else v)"

definition prepared_job :: "node_status \<Rightarrow> job_view" where
  "prepared_job st = \<lparr>jv_Status = NodeUninstallPreparing, jv_Previous = st, jv_Token = None, jv_Started = False,
     jv_Completed = False\<rparr>"

fun routing_call :: "node_call \<Rightarrow> bool" where
  "routing_call (CallUpdateRouting i c fresh) = True"
| "routing_call CallReconcileRouting = True"
| "routing_call (CallScored p tr) = True"
| "routing_call _ = False"

inductive cell_step :: "(string \<Rightarrow> string) \<Rightarrow> string \<Rightarrow> node_call \<Rightarrow> cell \<Rightarrow> cell \<Rightarrow> bool" for H i where
  create: "cell_step H i (CallCreate name v4 v6 i) (None, j) (Some (NodePending, False), j)"
| first_heartbeat: "cell_step H i (CallHeartbeat i v e r a b d f u) (Some (NodePending, c), j) (Some (NodeActive, c), j)"
| certify: "\<not> barred st \<Longrightarrow> \<not> blocked j \<Longrightarrow> cell_step H i (CallCertify i fp) (Some (st, c), j) (Some (st, True), j)"
| set_status: "st \<noteq> NodeUninstalling \<Longrightarrow> st \<noteq> NodeUninstalled \<Longrightarrow> st' \<in> {NodeActive, NodeDraining, NodePending} \<Longrightarrow>
    \<not> blocked j \<Longrightarrow> cell_step H i (CallSetStatus i st' m) (Some (st, c), j) (Some (st', c), j)"
| revoke: "st \<noteq> NodeUninstalling \<Longrightarrow> st \<noteq> NodeUninstalled \<Longrightarrow>
    cell_step H i (CallSetStatus i NodeRevoked m) (Some (st, c), j) (Some (NodeRevoked, False), map_option revoked_job j)"
| route: "routing_call call \<Longrightarrow> st \<in> {NodeActive, NodeDraining} \<Longrightarrow> st' \<in> {NodeActive, NodeDraining} \<Longrightarrow>
    cell_step H i call (Some (st, c), j) (Some (st', c), j)"
| prepare: "st \<in> {NodeDraining, NodeRevoked} \<Longrightarrow> \<not> blocked j \<Longrightarrow>
    cell_step H i (CallPrepare i affected ready) (Some (st, c), j) (Some (st, c), Some (prepared_job st))"
| issue: "jv_Status v \<in> {NodeUninstallPreparing, NodeUninstallReady, NodeUninstallFailed} \<Longrightarrow>
    cell_step H i (CallIssue i tok ex) (x, Some v) (x, Some (v\<lparr>jv_Status := NodeUninstallReady, jv_Token := Some (H tok)\<rparr>))"
| start: "jv_Token v = Some (H tok) \<Longrightarrow> jv_Status v \<in> {NodeUninstallReady, NodeUninstallRunning, NodeUninstallFailed} \<Longrightarrow>
    cell_step H i (CallStart tok) (x, Some v) (map_option (\<lambda>(st, c). (NodeUninstalling, c)) x,
      Some (v\<lparr>jv_Status := NodeUninstallRunning, jv_Started := True\<rparr>))"
| start_late: "jv_Token v = Some (H tok) \<Longrightarrow> jv_Status v = NodeUninstallForced \<Longrightarrow>
    cell_step H i (CallStart tok) (x, Some v) (x, Some (v\<lparr>jv_Started := True\<rparr>))"
| fail: "jv_Token v = Some (H tok) \<Longrightarrow> jv_Status v \<in> {NodeUninstallRunning, NodeUninstallFailed} \<Longrightarrow>
    cell_step H i (CallFail tok detail) (x, Some v) (map_option (\<lambda>(st, c). (jv_Previous v, c)) x,
      Some (v\<lparr>jv_Status := NodeUninstallFailed\<rparr>))"
| complete: "jv_Token v = Some (H tok) \<Longrightarrow>
    jv_Status v = NodeUninstallRunning \<or> jv_Status v = NodeUninstallForced \<and> jv_Started v \<Longrightarrow>
    cell_step H i (CallComplete tok) (x, Some v) (map_option (\<lambda>_. (NodeUninstalled, False)) x,
      Some (v\<lparr>jv_Status := NodeUninstallSucceeded, jv_Completed := True\<rparr>))"
| force: "uninstallJobBlocksStatus (jv_Status v) \<Longrightarrow>
    cell_step H i (CallForce i detail) (x, Some v) (map_option (\<lambda>_. (NodeUninstalled, False)) x,
      Some (v\<lparr>jv_Status := NodeUninstallForced, jv_Completed := True\<rparr>))"
| cancel: "jv_Status v \<in> {NodeUninstallPreparing, NodeUninstallReady, NodeUninstallFailed} \<Longrightarrow>
    cell_step H i (CallCancel i) (x, Some v) (x, Some (v\<lparr>jv_Status := NodeUninstallCanceled, jv_Token := None\<rparr>))"
| delete: "cell_step H i (CallDelete i) (x, j) (None, None)"

subsection \<open>What holds of every node\<close>

text \<open>
  While a removal waits (for its token, for the script, or after a failure) the node has the status it
  had when the removal was prepared. Smart routing may have resumed a node it had paused: it does
  not look at removals.
\<close>

definition waiting :: "node_status \<Rightarrow> bool \<Rightarrow> job_view \<Rightarrow> bool" where
  "waiting st certified v \<longleftrightarrow> (st = jv_Previous v \<or> st = NodeActive \<and> jv_Previous v = NodeDraining)
     \<and> (jv_Previous v = NodeRevoked \<longrightarrow> \<not> certified) \<and> \<not> jv_Completed v"

fun job_ok :: "uninstall_status \<Rightarrow> node_status \<Rightarrow> bool \<Rightarrow> job_view \<Rightarrow> bool" where
  "job_ok NodeUninstallPreparing st certified v = (waiting st certified v \<and> jv_Token v = None)"
| "job_ok NodeUninstallReady st certified v = (waiting st certified v \<and> jv_Token v \<noteq> None)"
| "job_ok NodeUninstallFailed st certified v = (waiting st certified v \<and> jv_Token v \<noteq> None \<and> jv_Started v)"
| "job_ok NodeUninstallRunning st certified v = (st = NodeUninstalling \<and> (jv_Previous v = NodeRevoked \<longrightarrow> \<not> certified)
     \<and> jv_Token v \<noteq> None \<and> jv_Started v \<and> \<not> jv_Completed v)"
| "job_ok NodeUninstallSucceeded st certified v = (st = NodeUninstalled \<and> \<not> certified \<and> jv_Token v \<noteq> None \<and> jv_Started v
     \<and> jv_Completed v)"
| "job_ok NodeUninstallForced st certified v = (st = NodeUninstalled \<and> \<not> certified \<and> jv_Completed v)"
| "job_ok NodeUninstallCanceled st certified v = (st \<noteq> NodeUninstalling \<and> st \<noteq> NodeUninstalled
     \<and> (st = NodeRevoked \<longrightarrow> \<not> certified) \<and> jv_Token v = None \<and> \<not> jv_Completed v)"

fun cell_ok :: "cell \<Rightarrow> bool" where
  "cell_ok (None, j) = (j = None)"
| "cell_ok (Some (st, certified), None) =
     (st \<noteq> NodeUninstalling \<and> st \<noteq> NodeUninstalled \<and> (st = NodeRevoked \<longrightarrow> \<not> certified))"
| "cell_ok (Some (st, certified), Some v) =
     ((jv_Previous v = NodeDraining \<or> jv_Previous v = NodeRevoked) \<and> job_ok (jv_Status v) st certified v)"

lemmas cell_defs = waiting_def blocked_def revoked_job_def prepared_job_def barred_def uninstallJobBlocksStatus_def

lemma cell_step_ok: "cell_step H i call x y \<Longrightarrow> cell_ok x \<Longrightarrow> cell_ok y"
proof (induction rule: cell_step.induct)
  case (first_heartbeat v e r a b d f u c j)
  then show ?case by (cases j) (auto simp: cell_defs elim!: job_ok.elims)
next
  case (certify st j fp c)
  then show ?case by (cases j) (auto simp: cell_defs elim!: job_ok.elims)
next
  case (set_status st st' j m c)
  then show ?case by (cases j) (auto simp: cell_defs elim!: job_ok.elims)
next
  case (revoke st m c j)
  then show ?case by (cases j) (auto simp: cell_defs elim!: job_ok.elims)
next
  case (route call st st' c j)
  then show ?case by (cases j) (auto simp: cell_defs elim!: job_ok.elims)
next
  case (prepare st j affected ready c)
  then show ?case by (cases j) (auto simp: cell_defs elim!: job_ok.elims)
next
  case (issue v tok ex x)
  then show ?case by (cases x) (auto simp: cell_defs)
next
  case (start v tok x)
  then show ?case by (cases x) (auto simp: cell_defs)
next
  case (start_late v tok x)
  then show ?case by (cases x) (auto simp: cell_defs)
next
  case (fail v tok detail x)
  then show ?case by (cases x) (auto simp: cell_defs)
next
  case (complete v tok x)
  then show ?case by (cases x) (auto simp: cell_defs)
next
  case (force v detail x)
  then show ?case by (cases x) (auto simp: cell_defs)
next
  case (cancel v x)
  then show ?case by (cases x) (auto simp: cell_defs)
qed simp_all

end
