(* ===== verification/Node_Facts.thy ===== *)
theory Node_Facts
  imports Node_Lifecycle
begin

section \<open>Facts on the calls that write nodes\<close>

text \<open>
  \<open>find_node\<close> and \<open>find_job\<close> after each kind of update, the frame of the calls that leave nodes and
  removals alone, and the effect of each call of the life of a node on its cell.
\<close>

subsection \<open>Reading after writing\<close>

lemma find_node_update_node [simp]:
  "(\<And>n. nd_ID (f n) = nd_ID n) \<Longrightarrow>
    find_node (update_node s k f) i = (if i = k then map_option f (find_node s i) else find_node s i)"
proof -
  assume f: "\<And>n. nd_ID (f n) = nd_ID n"
  have *: "find_node (update_node s k f) i = map_option (\<lambda>r. if nd_ID r = k then f r else r) (find_node s i)"
    unfolding find_node_def update_node_def by (simp add: f find_row_update_rows)
  show ?thesis
  proof (cases "find_node s i")
    case (Some n)
    then have "nd_ID n = i" by (auto simp: find_node_def dest: find_row_SomeD)
    with * Some show ?thesis by auto
  qed (auto simp: *)
qed

lemma find_job_update_job [simp]:
  "(\<And>j. uj_NodeID (f j) = uj_NodeID j) \<Longrightarrow>
    find_job (update_job s k f) i = (if i = k then map_option f (find_job s i) else find_job s i)"
proof -
  assume f: "\<And>j. uj_NodeID (f j) = uj_NodeID j"
  have *: "find_job (update_job s k f) i = map_option (\<lambda>r. if uj_NodeID r = k then f r else r) (find_job s i)"
    unfolding find_job_def update_job_def by (simp add: f find_row_update_rows)
  show ?thesis
  proof (cases "find_job s i")
    case (Some j)
    then have "uj_NodeID j = i" by (auto simp: find_job_def dest: find_row_SomeD)
    with * Some show ?thesis by auto
  qed (auto simp: *)
qed

lemma find_node_update_job [simp]: "find_node (update_job s k f) i = find_node s i"
  by (simp add: find_node_def update_job_def)

lemma find_job_update_node [simp]: "find_job (update_node s k f) i = find_job s i"
  by (simp add: find_job_def update_node_def)

lemma find_node_ID: "find_node s i = Some n \<Longrightarrow> nd_ID n = i"
  by (auto simp: find_node_def dest: find_row_SomeD)

lemma find_job_ID: "find_job s i = Some j \<Longrightarrow> uj_NodeID j = i"
  by (auto simp: find_job_def dest: find_row_SomeD)

lemma cell_cong: "nodes s' = nodes s \<Longrightarrow> uninstall_jobs s' = uninstall_jobs s \<Longrightarrow> cell s' i = cell s i"
  by (simp add: cell_def find_node_def find_job_def)

lemma cell_frame [simp]:
  "cell (s\<lparr>smart_routing := a\<rparr>) i = cell s i" "cell (s\<lparr>monitoring := b\<rparr>) i = cell s i"
  "cell (s\<lparr>enrollment_tokens := c\<rparr>) i = cell s i" "cell (s\<lparr>upgrade_tasks := d\<rparr>) i = cell s i"
  "cell (s\<lparr>site_healths := e\<rparr>) i = cell s i" "cell (s\<lparr>node_healths := f\<rparr>) i = cell s i"
  "cell (s\<lparr>node_states := g\<rparr>) i = cell s i" "cell (s\<lparr>publish_nodes := h\<rparr>) i = cell s i"
  "cell (s\<lparr>deployment_tasks := k\<rparr>) i = cell s i" "cell (s\<lparr>drains := l\<rparr>) i = cell s i"
  by (simp_all add: cell_def find_node_def find_job_def)

definition jobs_keyed :: "store \<Rightarrow> bool" where
  "jobs_keyed s \<longleftrightarrow> distinct (map uj_NodeID (uninstall_jobs s))"

lemma keyed_find_job: "jobs_keyed s \<Longrightarrow> j \<in> set (uninstall_jobs s) \<Longrightarrow> find_job s (uj_NodeID j) = Some j"
  by (simp add: jobs_keyed_def find_job_def find_row_key_unique)

lemma active_uninstall_iff:
  "jobs_keyed s \<Longrightarrow> active_uninstall s i \<longleftrightarrow> blocked (snd (cell s i))"
proof -
  assume k: "jobs_keyed s"
  have "active_uninstall s i \<longleftrightarrow> (\<exists>j. find_job s i = Some j \<and> uninstallJobBlocksStatus (uj_Status j))"
    using keyed_find_job [OF k]
    by (fastforce simp: active_uninstall_def list_ex_iff uninstallJobBlocksStatus_def find_job_def dest: find_row_SomeD)
  then show ?thesis
    by (auto simp: cell_def blocked_def job_view_of_def split: option.split)
qed

text \<open>How a call that updates one node by a function changes its cell.\<close>

lemma cell_update_node:
  "(\<And>n. nd_ID (f n) = nd_ID n) \<Longrightarrow> (\<And>n. node_view_of (f n) = node_view_of n) \<Longrightarrow> cell (update_node s k f) i = cell s i"
  by (cases "find_node s i") (auto simp: cell_def)

lemma update_one_nodeD: "update_one_node s k f = Inr s' \<Longrightarrow> s' = update_node s k f"
  by (simp add: update_one_node_def split: if_splits)

lemma find_node_from_one: "update_one_node s k f = Inr s' \<Longrightarrow> \<exists>n. find_node s k = Some n"
  by (cases "find_node s k")
    (auto simp: update_one_node_def find_node_def find_row_None count_rows_0 [THEN iffD2] split: if_splits)

subsection \<open>The frame of reports and reconciliations\<close>

text \<open>Calls that write neither nodes nor removals nor enrollment tokens.\<close>

definition framed :: "store \<Rightarrow> store \<Rightarrow> bool" where
  "framed s s' \<longleftrightarrow> nodes s' = nodes s \<and> uninstall_jobs s' = uninstall_jobs s \<and> enrollment_tokens s' = enrollment_tokens s"

lemma framed_refl [simp]: "framed s s"
  by (simp add: framed_def)

lemma framed_trans: "framed a b \<Longrightarrow> framed b c \<Longrightarrow> framed a c"
  by (simp add: framed_def)

lemma framed_UpdateTask: "UpdateTask s i st d t = Inr s' \<Longrightarrow> framed s s'"
  by (auto simp: UpdateTask_def framed_def split: if_splits)

lemma framed_finish: "finishDrainCleanupTx s i st t = Inr s' \<Longrightarrow> framed s s'"
  by (auto simp: finishDrainCleanupTx_def framed_def Let_def split: if_splits)

lemma framed_complete: "completeDrainCleanup s i st d t = Inr s' \<Longrightarrow> framed s s'"
  using framed_finish by (fastforce simp: completeDrainCleanup_def framed_def Let_def split: if_splits)

lemma framed_close: "close_task s i k r t = Inr s' \<Longrightarrow> framed s s'"
  by (auto simp: close_task_def framed_UpdateTask framed_complete split: if_splits)

lemma framed_confirm: "framed s (confirm_applied s i t)" "framed s (time_out_pending s i)" "framed s (fst (confirm_late s x t))"
  by (simp_all add: confirm_applied_def time_out_pending_def confirm_late_def Let_def framed_def)

lemma framed_reconcilePublishTask: "reconcilePublishTask s i k d t = Inr s' \<Longrightarrow> framed s s'"
  using framed_confirm(1) [of s i t] framed_confirm(2) [of "confirm_applied s i t" i]
  by (auto simp: reconcilePublishTask_def Let_def split: if_splits option.splits
        dest!: framed_close intro: framed_trans)

lemma framed_reconcile_tasks: "reconcile_tasks s ts t = Inr s' \<Longrightarrow> framed s s'"
  by (induction s ts t rule: reconcile_tasks.induct) (auto dest: framed_reconcilePublishTask intro: framed_trans)

lemma framed_finish_each: "finish_each s ts t = Inr s' \<Longrightarrow> framed s s'"
  by (induction s ts t rule: finish_each.induct) (auto simp: FinishDrainCleanup_def dest: framed_finish intro: framed_trans)

lemma framed_late_one: "reconcileLatePublishConfirmations s x t = Inr r \<Longrightarrow> framed s (fst r)"
  using framed_confirm(3) [of s x t]
  by (auto simp: reconcileLatePublishConfirmations_def Let_def split: if_splits prod.splits
        dest!: framed_UpdateTask intro: framed_trans)

lemma framed_reconcile_late: "reconcile_late s ts t = Inr s' \<Longrightarrow> framed s s'"
proof (induction s ts t rule: reconcile_late.induct)
  case (2 s x ts now)
  then show ?case
    using framed_late_one [of s x now] by (auto split: sum.splits intro: framed_trans)
qed simp

lemma framed_ReconcilePublishTasks: "ReconcilePublishTasks s t = Inr s' \<Longrightarrow> framed s s'"
proof -
  assume "ReconcilePublishTasks s t = Inr s'"
  then obtain ts s1 s2 us where 1: "reconcile_tasks s ts t = Inr s1" and
    2: "reconcileDrainTaskFinalizations s1 t = Inr s2" and 3: "reconcile_late s2 us t = Inr s'"
    unfolding ReconcilePublishTasks_def call_eq_Inr by blast
  from 2 have "framed s1 s2"
    unfolding reconcileDrainTaskFinalizations_def by (rule framed_finish_each)
  with framed_reconcile_tasks [OF 1] framed_reconcile_late [OF 3] show ?thesis
    by (blast intro: framed_trans)
qed

lemma framed_RecordPublishApply: "RecordPublishApply s i r t = Inr s' \<Longrightarrow> framed s s'"
  by (auto simp: RecordPublishApply_def framed_def split: if_splits)

lemma framed_ReconcileNodeUpgrades [simp]: "framed s (ReconcileNodeUpgrades s t)"
  by (simp add: ReconcileNodeUpgrades_def recover_upgrades_def time_out_upgrades_def framed_def)

lemma cell_framed: "framed s s' \<Longrightarrow> cell s' i = cell s i"
  by (auto simp: framed_def intro: cell_cong)

end
