(* ===== verification/Node_Moves.thy ===== *)
theory Node_Moves
  imports Node_Facts
begin

section \<open>The calls move the cells of nodes\<close>

text \<open>
  Call by call: the cell of every node stays as it was or takes one step of \<open>cell_step\<close>, and the
  removal jobs stay keyed by their node.
\<close>

definition moves :: "(string \<Rightarrow> string) \<Rightarrow> node_call \<Rightarrow> store \<Rightarrow> store \<Rightarrow> bool" where
  "moves H call s s' \<longleftrightarrow> (jobs_keyed s \<longrightarrow> jobs_keyed s' \<and>
     (\<forall>i. cell s' i = cell s i \<or> cell_step H i call (cell s i) (cell s' i)))"

lemma moves_refl [simp]: "moves H call s s"
  by (simp add: moves_def)

lemma keyed_framed: "uninstall_jobs s' = uninstall_jobs s \<Longrightarrow> jobs_keyed s' = jobs_keyed s"
  by (simp add: jobs_keyed_def)

lemma moves_framed: "framed s s' \<Longrightarrow> moves H call s s'"
  by (auto simp: moves_def cell_framed) (simp add: framed_def jobs_keyed_def)

lemma moves_frame_right:
  "moves H call s s1 \<Longrightarrow> (\<And>i. cell s2 i = cell s1 i) \<Longrightarrow> uninstall_jobs s2 = uninstall_jobs s1 \<Longrightarrow> moves H call s s2"
  using keyed_framed [of s2 s1] by (simp add: moves_def)

lemma moves_frame_left:
  "moves H call s1 s2 \<Longrightarrow> (\<And>i. cell s1 i = cell s i) \<Longrightarrow> uninstall_jobs s1 = uninstall_jobs s \<Longrightarrow> moves H call s s2"
  using keyed_framed [of s1 s] by (simp add: moves_def)

lemma framed_jobs: "framed s s' \<Longrightarrow> uninstall_jobs s' = uninstall_jobs s"
  by (simp add: framed_def)

lemma moves_then_framed: "moves H call s s1 \<Longrightarrow> framed s1 s2 \<Longrightarrow> moves H call s s2"
  by (erule moves_frame_right) (erule cell_framed, erule framed_jobs)

lemma framed_then_moves: "framed s s1 \<Longrightarrow> moves H call s1 s2 \<Longrightarrow> moves H call s s2"
  by (erule moves_frame_left) (erule cell_framed, erule framed_jobs)

lemma committed_moves: "(\<And>x. r = Inr x \<Longrightarrow> moves H call s (f x)) \<Longrightarrow> moves H call s (committed s f r)"
  by (cases r) (auto simp: committed_def)

lemma keyed_update_node [simp]: "jobs_keyed (update_node s k f) = jobs_keyed s"
  by (simp add: jobs_keyed_def update_node_def)

lemma keyed_update_job [simp]: "(\<And>j. uj_NodeID (f j) = uj_NodeID j) \<Longrightarrow> jobs_keyed (update_job s k f) = jobs_keyed s"
  by (simp add: jobs_keyed_def update_job_def map_key_update_rows)

subsection \<open>Calls that write one node\<close>

lemma moves_update_node:
  assumes id: "\<And>n. nd_ID (f n) = nd_ID n"
    and step: "\<And>n. find_node s k = Some n \<Longrightarrow> node_view_of (f n) = node_view_of n \<or>
      cell_step H k call (Some (node_view_of n), snd (cell s k)) (Some (node_view_of (f n)), snd (cell s k))"
  shows "moves H call s (update_node s k f)"
  using step by (cases "find_node s k") (auto simp: moves_def cell_def id)

lemma moves_one_node:
  assumes "update_one_node s k f = Inr s'"
    and "\<And>n. nd_ID (f n) = nd_ID n"
    and "\<And>n. find_node s k = Some n \<Longrightarrow> node_view_of (f n) = node_view_of n \<or>
      cell_step H k call (Some (node_view_of n), snd (cell s k)) (Some (node_view_of (f n)), snd (cell s k))"
  shows "moves H call s s'"
  unfolding update_one_nodeD [OF assms(1)] by (rule moves_update_node) (use assms(2,3) in auto)

lemma and_readD: "and_read k r = Inr x \<Longrightarrow> r = Inr (fst x)"
  by (auto simp: and_read_def split: sum.splits)

lemma moves_create: "CreateNodeWithAddresses s name v4 v6 fresh t = Inr x \<Longrightarrow> moves H (CallCreate name v4 v6 fresh) s (fst x)"
proof -
  assume "CreateNodeWithAddresses s name v4 v6 fresh t = Inr x"
  then obtain ipv4 ipv6 where *: "\<not> list_ex (node_conflict (new_node fresh (TrimSpace name) ipv4 ipv6 t)) (nodes s)"
    "fst x = insertDefaultSmartRoutingPolicyTx
      (s\<lparr>nodes := nodes s @ [new_node fresh (TrimSpace name) ipv4 ipv6 t]\<rparr>) fresh t"
    by (auto simp: CreateNodeWithAddresses_def Let_def split: if_splits sum.splits)
  define n where "n = new_node fresh (TrimSpace name) ipv4 ipv6 t"
  have n: "nd_ID n = fresh" "node_view_of n = (NodePending, False)"
    by (simp_all add: n_def new_node_def node_view_of_def)
  have none: "find_node s fresh = None"
    using *(1) n(1) by (auto simp: find_node_def find_row_None list_ex_iff node_conflict_def simp flip: n_def)
  have tables: "nodes (fst x) = nodes s @ [n]" "uninstall_jobs (fst x) = uninstall_jobs s"
    unfolding *(2) n_def by (simp_all add: insertDefaultSmartRoutingPolicyTx_def split: option.split)
  have "find_node (fst x) i = (if i = fresh then Some n else find_node s i)" for i
    using none n(1) by (auto simp: find_node_def tables find_row_append split: option.split)
  moreover have "find_job (fst x) i = find_job s i" for i
    by (simp add: find_job_def tables)
  ultimately have "cell (fst x) i = cell s i \<or> cell_step H i (CallCreate name v4 v6 fresh) (cell s i) (cell (fst x) i)" for i
    using none n(2) cell_step.create [of H fresh name v4 v6 "map_option job_view_of (find_job s fresh)"]
    by (auto simp: cell_def)
  then show "moves H (CallCreate name v4 v6 fresh) s (fst x)" by (simp add: moves_def jobs_keyed_def tables)
qed

lemma moves_ipv6: "SetNodePublicIPv6 s k v t = Inr x \<Longrightarrow> moves H (CallIPv6 k v) s (fst x)"
proof -
  assume "SetNodePublicIPv6 s k v t = Inr x"
  then consider "fst x = s"
    | w s1 where "update_one_node s k (\<lambda>n. n\<lparr>nd_PublicIPv6 := w, nd_UpdatedAt := t\<rparr>) = Inr s1"
        "fst x = reset_node_ipv6_health s1 k"
    by (auto simp: SetNodePublicIPv6_def split: if_splits dest!: and_readD)
  then show ?thesis
  proof cases
    case 2
    have "moves H (CallIPv6 k v) s s1" by (rule moves_one_node [OF 2(1)]) (simp_all add: node_view_of_def)
    then show ?thesis unfolding 2(2) by (rule moves_frame_right) (simp_all add: reset_node_ipv6_health_def)
  qed simp
qed

lemma moves_cache_size: "SetNodeCacheMaxSizeGB s k v t = Inr x \<Longrightarrow> moves H (CallCacheSize k v) s (fst x)"
proof -
  assume "SetNodeCacheMaxSizeGB s k v t = Inr x"
  then have "update_one_node s k (\<lambda>n. n\<lparr>nd_CacheMaxSizeGB := v, nd_UpdatedAt := t\<rparr>) = Inr (fst x)"
    by (auto simp: SetNodeCacheMaxSizeGB_def split: sum.splits dest!: and_readD)
  then show ?thesis by (rule moves_one_node) (simp_all add: node_view_of_def)
qed

lemma moves_capacity: "SetNodeNginxCapacity s k v t = Inr x \<Longrightarrow> moves H (CallCapacity k v) s (fst x)"
proof -
  assume "SetNodeNginxCapacity s k v t = Inr x"
  then obtain c where "update_one_node s k (\<lambda>n. n\<lparr>nd_NginxCapacity := c, nd_UpdatedAt := t\<rparr>) = Inr (fst x)"
    by (auto simp: SetNodeNginxCapacity_def split: sum.splits dest!: and_readD)
  then show ?thesis by (rule moves_one_node) (simp_all add: node_view_of_def)
qed

lemma moves_capabilities: "SetNodeCapabilities s k v t = Inr s' \<Longrightarrow> moves H (CallCapabilities k v) s s'"
proof -
  assume "SetNodeCapabilities s k v t = Inr s'"
  then obtain cs where "update_one_node s k (\<lambda>n. n\<lparr>nd_Capabilities := cs, nd_UpdatedAt := t\<rparr>) = Inr s'"
    by (auto simp: SetNodeCapabilities_def split: sum.splits if_splits)
  then show ?thesis by (rule moves_one_node) (simp_all add: node_view_of_def)
qed

lemma moves_certify: "SetNodeCertificate s k fp t = Inr s' \<Longrightarrow> moves H (CallCertify k fp) s s'"
proof -
  assume "SetNodeCertificate s k fp t = Inr s'"
  then have s': "s' = s\<lparr>nodes := update_rows (may_be_certified s k)
      (\<lambda>n. n\<lparr>nd_CertFingerprint := Some fp, nd_UpdatedAt := t\<rparr>) (nodes s)\<rparr>"
    by (simp add: SetNodeCertificate_def split: if_splits)
  have find: "find_node s' i = map_option (\<lambda>n. if may_be_certified s k n
      then n\<lparr>nd_CertFingerprint := Some fp, nd_UpdatedAt := t\<rparr> else n) (find_node s i)" for i
    by (simp add: s' find_node_def find_row_update_rows)
  have job: "find_job s' i = find_job s i" for i
    by (simp add: s' find_job_def)
  have step: "cell s' i = cell s i \<or> cell_step H i (CallCertify k fp) (cell s i) (cell s' i)" if keyed: "jobs_keyed s" for i
  proof (cases "find_node s i")
    case None
    then show ?thesis by (simp add: cell_def find job)
  next
    case (Some n)
    show ?thesis
    proof (cases "may_be_certified s k n")
      case True
      then have ik: "i = k" using find_node_ID [OF Some] by (simp add: may_be_certified_def)
      with True have "\<not> barred (nd_Status n)" "\<not> blocked (snd (cell s i))"
        by (simp_all add: may_be_certified_def active_uninstall_iff [OF keyed])
      then show ?thesis
        using Some True cell_step.certify [of "nd_Status n" "snd (cell s i)" H i fp "nd_CertFingerprint n \<noteq> None"]
        by (simp add: cell_def find job node_view_of_def ik)
    qed (simp add: cell_def find job Some)
  qed
  then show ?thesis by (simp add: moves_def jobs_keyed_def s')
qed

lemma moves_tokens:
  "CreateEnrollmentToken H s k tok ex t = Inr s1 \<Longrightarrow> moves H call s s1"
  "ConsumeEnrollmentToken H s tok t = Inr x \<Longrightarrow> moves H call s (fst x)"
  by (auto simp: CreateEnrollmentToken_def ConsumeEnrollmentToken_def Let_def split: if_splits option.splits
        intro!: moves_frame_right [OF moves_refl])

lemma moves_heartbeat: "moves H (CallHeartbeat k v e r a b c d u) s (fst (HeartbeatWithArtifacts s k v e r a b c d u t))"
proof -
  define f where "f = beat v e a b c d u t"
  have one: "moves H (CallHeartbeat k v e r a b c d u) s (ReconcileNodeUpgrades s2 t)" if "update_one_node s k f = Inr s2" for s s2
  proof -
    have "moves H (CallHeartbeat k v e r a b c d u) s s2"
    proof (rule moves_one_node [OF that])
      fix n assume n: "find_node s k = Some n"
      show "node_view_of (f n) = node_view_of n \<or>
          cell_step H k (CallHeartbeat k v e r a b c d u) (Some (node_view_of n), snd (cell s k)) (Some (node_view_of (f n)), snd (cell s k))"
      proof (cases "nd_Status n = NodePending")
        case True
        with cell_step.first_heartbeat [of H k v e r a b c d u "nd_CertFingerprint n \<noteq> None" "snd (cell s k)"]
        show ?thesis by (simp add: f_def beat_def node_view_of_def)
      qed (simp add: f_def beat_def node_view_of_def)
    qed (simp add: f_def beat_def)
    then show ?thesis by (rule moves_then_framed) (rule framed_ReconcileNodeUpgrades)
  qed
  have two: "moves H (CallHeartbeat k v e r a b c d u) s (fst (case update_one_node s k f of Inl e \<Rightarrow> (s, Inl e) | Inr s2 \<Rightarrow>
      (let s3 = ReconcileNodeUpgrades s2 t in
       case ReconcilePublishTasks s3 t of Inl e \<Rightarrow> (s3, Inl e) | Inr s4 \<Rightarrow> (s4, Inr ()))))" for s
  proof (cases "update_one_node s k f")
    case (Inr s2)
    show ?thesis
    proof (cases "ReconcilePublishTasks (ReconcileNodeUpgrades s2 t) t")
      case (Inr s4)
      have "moves H (CallHeartbeat k v e r a b c d u) s s4"
        by (rule moves_then_framed [OF one framed_ReconcilePublishTasks [OF Inr]]) fact
      with Inr \<open>update_one_node s k f = Inr s2\<close> show ?thesis by simp
    qed (simp add: Inr one)
  qed simp
  show ?thesis
  proof (cases r)
    case None
    with two [of s] show ?thesis by (simp add: HeartbeatWithArtifacts_def f_def)
  next
    case (Some rep)
    show ?thesis
    proof (cases "RecordPublishApply s k rep t")
      case (Inr s1)
      from framed_then_moves [OF framed_RecordPublishApply [OF Inr] two] show ?thesis
        by (simp add: HeartbeatWithArtifacts_def f_def Some Inr)
    qed (simp add: HeartbeatWithArtifacts_def Some)
  qed
qed

subsection \<open>The status that an administrator sets\<close>

lemma find_job_update_rows:
  "(\<And>j. uj_NodeID (f j) = uj_NodeID j) \<Longrightarrow>
    find_job (s\<lparr>uninstall_jobs := update_rows P f (uninstall_jobs s)\<rparr>) i
      = map_option (\<lambda>j. if P j then f j else j) (find_job s i)"
  by (simp add: find_job_def find_row_update_rows)

lemma find_node_jobs [simp]: "find_node (s\<lparr>uninstall_jobs := js\<rparr>) i = find_node s i"
  by (simp add: find_node_def)

lemma blocking_status_iff: "blocking_status st = uninstallJobBlocksStatus st"
  by (simp add: blocking_status_def uninstallJobBlocksStatus_def)

lemma moves_revoke:
  assumes r: "revoke_node s k t = Inr s'" and n: "find_node s k = Some n"
    and st: "nd_Status n \<noteq> NodeUninstalling" "nd_Status n \<noteq> NodeUninstalled"
  shows "moves H (CallSetStatus k NodeRevoked m) s s'"
proof -
  define f where "f = (\<lambda>n::node_row. n\<lparr>nd_Status := NodeRevoked, nd_MonitorAutoPaused := False,
             nd_CertFingerprint := None, nd_ActiveUpgradeID := [], nd_UpdatedAt := t\<rparr>)"
  define P where "P = (\<lambda>j::uninstall_row. uj_NodeID j = k \<and> blocking_status (uj_Status j))"
  define g where "g = (\<lambda>j::uninstall_row. j\<lparr>uj_PreviousStatus := NodeRevoked, uj_UpdatedAt := t\<rparr>)"
  from r have tables: "nodes s' = nodes (update_node s k f)" "uninstall_jobs s' = update_rows P g (uninstall_jobs s)"
    by (auto simp: revoke_node_def FailActiveNodeUpgrade_def f_def P_def g_def update_node_def
          dest!: update_one_nodeD)
  have fn: "find_node s' i = (if i = k then map_option f (find_node s i) else find_node s i)" for i
  proof -
    have "find_node s' i = find_node (update_node s k f) i" by (simp add: find_node_def tables)
    then show ?thesis by (simp add: f_def)
  qed
  have fj: "find_job s' i = map_option (\<lambda>j. if P j then g j else j) (find_job s i)" for i
    unfolding find_job_def tables by (rule find_row_update_rows) (simp add: g_def)
  have keyed: "jobs_keyed s \<Longrightarrow> jobs_keyed s'"
    by (simp add: jobs_keyed_def tables map_key_update_rows g_def)
  have "cell s' i = cell s i \<or> cell_step H i (CallSetStatus k NodeRevoked m) (cell s i) (cell s' i)" for i
  proof (cases "i = k")
    case True
    have "map_option job_view_of (find_job s' k) = map_option revoked_job (map_option job_view_of (find_job s k))"
      unfolding fj using find_job_ID [of s k]
      by (cases "find_job s k")
        (auto simp: P_def g_def blocking_status_iff revoked_job_def job_view_of_def)
    then show ?thesis
      using True n cell_step.revoke [OF st, of H k m "nd_CertFingerprint n \<noteq> None" "map_option job_view_of (find_job s k)"]
      by (simp add: cell_def fn node_view_of_def f_def)
  next
    case False
    then have "find_job s' i = find_job s i"
      unfolding fj using find_job_ID [of s i] by (cases "find_job s i") (auto simp: P_def)
    with False show ?thesis by (simp add: cell_def fn)
  qed
  with keyed show ?thesis by (simp add: moves_def)
qed

lemma moves_set_status: "setNodeStatus s k st manual t = Inr x \<Longrightarrow> moves H (CallSetStatus k st manual) s (fst x)"
proof -
  assume a: "setNodeStatus s k st manual t = Inr x"
  define s1 where "s1 = fst (if manual then disable_smart_routing s k t else (s, False))"
  have frame: "framed s s1" by (simp add: s1_def disable_smart_routing_def framed_def Let_def)
  from a obtain n s2 where n: "find_node s k = Some n" and
    st: "nd_Status n \<noteq> NodeUninstalling" "nd_Status n \<noteq> NodeUninstalled"
      "st = NodeActive \<or> st = NodeDraining \<or> st = NodeRevoked \<or> st = NodePending"
      "active_uninstall s k \<longrightarrow> st = nd_Status n \<or> st = NodeRevoked" and
    s2: "(if st = NodeRevoked then revoke_node s1 k t
           else update_one_node s1 k (\<lambda>n. n\<lparr>nd_Status := st, nd_MonitorAutoPaused := False, nd_UpdatedAt := t\<rparr>)) = Inr s2" and
    x: "fst x = reset_abnormal_rounds s2 k t"
    by (auto simp: setNodeStatus_def s1_def split_beta split: if_splits)
  have n1: "find_node s1 k = Some n" using n frame by (simp add: framed_def find_node_def)
  have cells: "cell s1 i = cell s i" for i using frame by (rule cell_framed)
  have jobs: "uninstall_jobs s1 = uninstall_jobs s" using frame by (simp add: framed_def)
  have "moves H (CallSetStatus k st manual) s1 s2" if "jobs_keyed s"
  proof (cases "st = NodeRevoked")
    case True
    with s2 show ?thesis by (auto intro: moves_revoke [OF _ n1 st(1,2)])
  next
    case False
    with s2 have "update_one_node s1 k (\<lambda>n. n\<lparr>nd_Status := st, nd_MonitorAutoPaused := False, nd_UpdatedAt := t\<rparr>) = Inr s2"
      by simp
    then show ?thesis
    proof (rule moves_one_node)
      fix m assume "find_node s1 k = Some m"
      then have m: "m = n" using n1 by simp
      have "st = nd_Status n \<or> \<not> blocked (snd (cell s1 k))"
        using st(4) False active_uninstall_iff [OF that] cells by auto
      then show "node_view_of (m\<lparr>nd_Status := st, nd_MonitorAutoPaused := False, nd_UpdatedAt := t\<rparr>) = node_view_of m \<or>
          cell_step H k (CallSetStatus k st manual) (Some (node_view_of m), snd (cell s1 k)) (Some (node_view_of (m\<lparr>nd_Status := st, nd_MonitorAutoPaused := False,
            nd_UpdatedAt := t\<rparr>)), snd (cell s1 k))"
        using False st(1-3) cell_step.set_status [of "nd_Status n" st "snd (cell s1 k)" H k manual "nd_CertFingerprint n \<noteq> None"]
        by (auto simp: m node_view_of_def)
    qed simp
  qed
  then have "moves H (CallSetStatus k st manual) s1 s2" unfolding moves_def keyed_framed [OF jobs] by blast
  then have "moves H (CallSetStatus k st manual) s s2" by (rule framed_then_moves [OF frame])
  then show ?thesis
    unfolding x by (rule moves_frame_right) (simp_all add: reset_abnormal_rounds_def)
qed

subsection \<open>Removal\<close>

lemma read_job_fields [simp]:
  "uj_NodeID (read_job j) = uj_NodeID j" "uj_Status (read_job j) = uj_Status j"
  "uj_PreviousStatus (read_job j) = uj_PreviousStatus j" "uj_StartedAt (read_job j) = uj_StartedAt j"
  "uj_TokenExpiresAt (read_job j) = uj_TokenExpiresAt j" "uj_ReadyAt (read_job j) = uj_ReadyAt j"
  "uj_AffectedSiteIDs (read_job j) = uj_AffectedSiteIDs j" "uj_CompletedAt (read_job j) = uj_CompletedAt j"
  "uj_Forced (read_job j) = uj_Forced j"
  by (simp_all add: read_job_def uninstall_job.defs)

lemma and_read_jobD: "and_read_job k s = Inr x \<Longrightarrow> fst x = s"
  by (auto simp: and_read_job_def)

lemma token_job:
  "uninstallJobByToken H s tok = Inr job \<Longrightarrow> jobs_keyed s \<Longrightarrow>
    \<exists>j. find_job s (uj_NodeID job) = Some j \<and> job = read_job j \<and> uj_TokenHash j = Some (H tok)"
  by (auto simp: uninstallJobByToken_def keyed_find_job split: if_splits dest!: find_row_SomeD)

text \<open>A step that changes one job and the node of the same name.\<close>

lemma moves_job_and_node:
  assumes j: "find_job s k = Some j"
    and f: "\<And>j. uj_NodeID (f j) = uj_NodeID j" and g: "\<And>n. nd_ID (g n) = nd_ID n"
    and view: "\<And>n. node_view_of (g n) = v (node_view_of n)"
    and step: "\<And>x. cell_step H k call (x, Some (job_view_of j)) (map_option v x, Some (job_view_of (f j)))"
  shows "moves H call s (update_node (update_job s k f) k g)"
proof -
  have "cell (update_node (update_job s k f) k g) k = (map_option v (fst (cell s k)), Some (job_view_of (f j)))"
    using j by (simp add: cell_def f g view option.map_comp comp_def)
  moreover have "cell s k = (fst (cell s k), Some (job_view_of j))"
    using j by (simp add: cell_def)
  ultimately have "cell_step H k call (cell s k) (cell (update_node (update_job s k f) k g) k)"
    using step [of "fst (cell s k)"] by simp
  moreover have "cell (update_node (update_job s k f) k g) i = cell s i" if "i \<noteq> k" for i
    using that by (simp add: cell_def f g)
  ultimately have "cell (update_node (update_job s k f) k g) i = cell s i
      \<or> cell_step H i call (cell s i) (cell (update_node (update_job s k f) k g) i)" for i
    by (cases "i = k") simp_all
  then show ?thesis by (simp add: moves_def f)
qed

lemma moves_job:
  assumes j: "find_job s k = Some j"
    and f: "\<And>j. uj_NodeID (f j) = uj_NodeID j"
    and step: "\<And>x. cell_step H k call (x, Some (job_view_of j)) (x, Some (job_view_of (f j)))"
  shows "moves H call s (update_job s k f)"
proof -
  have "cell s k = (fst (cell s k), Some (job_view_of j))"
    using j by (simp add: cell_def)
  then have "cell_step H k call (cell s k) (cell (update_job s k f) k)"
    using step [of "fst (cell s k)"] j by (simp add: cell_def f)
  moreover have "cell (update_job s k f) i = cell s i" if "i \<noteq> k" for i
    using that by (simp add: cell_def f)
  ultimately have "cell (update_job s k f) i = cell s i \<or> cell_step H i call (cell s i) (cell (update_job s k f) i)" for i
    by (cases "i = k") simp_all
  then show ?thesis by (simp add: moves_def f)
qed

lemma moves_prepare: "PrepareNodeUninstall s k affected ready t = Inr x \<Longrightarrow> moves H (CallPrepare k affected ready) s (fst x)"
proof -
  assume a: "PrepareNodeUninstall s k affected ready t = Inr x"
  then obtain n where n: "find_node s k = Some n" "nd_Status n \<in> {NodeDraining, NodeRevoked}"
    by (auto simp: PrepareNodeUninstall_def split: if_splits)
  from a consider "fst x = s" | sites where "\<not> blocked (map_option job_view_of (find_job s k))"
      "fst x = s\<lparr>uninstall_jobs := upsert uj_NodeID (new_job k (nd_Status n) sites ready t) (uninstall_jobs s)\<rparr>"
    using n(1) by (fastforce simp: PrepareNodeUninstall_def blocked_def job_view_of_def
        split: if_splits option.splits dest!: and_read_jobD)
  then show ?thesis
  proof cases
    case 2
    define j where "j = new_job k (nd_Status n) sites ready t"
    have j: "uj_NodeID j = k" "job_view_of j = prepared_job (nd_Status n)"
      by (simp_all add: j_def new_job_def job_view_of_def prepared_job_def)
    have find: "find_job (fst x) i = (if i = k then Some j else find_job s i)" for i
      using find_row_upsert_same [of uj_NodeID j "uninstall_jobs s"]
        find_row_upsert_other [of i uj_NodeID j "uninstall_jobs s"]
      by (auto simp: 2(2) find_job_def j(1) simp flip: j_def)
    have nodes: "find_node (fst x) i = find_node s i" for i
      by (simp add: 2(2))
    have "cell (fst x) i = cell s i \<or> cell_step H i (CallPrepare k affected ready) (cell s i) (cell (fst x) i)" for i
      using n cell_step.prepare [OF n(2) 2(1), of H k affected ready "nd_CertFingerprint n \<noteq> None"]
      by (auto simp: cell_def find nodes j(2) node_view_of_def)
    moreover have "jobs_keyed s \<Longrightarrow> jobs_keyed (fst x)"
      by (simp add: jobs_keyed_def 2(2) distinct_upsert)
    ultimately show ?thesis by (simp add: moves_def)
  qed simp
qed

text \<open>An update of the rows that a token may be issued for is an update of the job of the node.\<close>

lemma issuable_rows:
  assumes keyed: "jobs_keyed s" and one: "count_rows (issuable k) (uninstall_jobs s) = 1"
    and f: "\<And>j. uj_NodeID (f j) = uj_NodeID j"
  obtains j where "find_job s k = Some j" "issuable k j"
    "s\<lparr>uninstall_jobs := update_rows (issuable k) f (uninstall_jobs s)\<rparr> = update_job s k f"
proof -
  from one obtain j where j: "j \<in> set (uninstall_jobs s)" "issuable k j"
    using count_rows_0 [of "issuable k" "uninstall_jobs s"] by auto
  then have k: "uj_NodeID j = k" by (simp add: issuable_def)
  have "r = j" if "r \<in> set (uninstall_jobs s)" "uj_NodeID r = k" for r
    using keyed_find_job [OF keyed that(1)] keyed_find_job [OF keyed j(1)] k that(2) by simp
  then have "update_rows (issuable k) f (uninstall_jobs s) = update_rows (\<lambda>j. uj_NodeID j = k) f (uninstall_jobs s)"
    using j(2) unfolding update_rows_def by (intro map_cong) (auto simp: issuable_def)
  with keyed_find_job [OF keyed j(1)] k j(2) show ?thesis
    by (intro that) (simp_all add: update_job_def)
qed

lemma moves_issue: "IssueNodeUninstallToken H s k tok ex t = Inr x \<Longrightarrow> moves H (CallIssue k tok ex) s (fst x)"
proof -
  assume a: "IssueNodeUninstallToken H s k tok ex t = Inr x"
  define f where "f = (\<lambda>j::uninstall_row. j\<lparr>uj_Status := NodeUninstallReady, uj_TokenHash := Some (H tok),
      uj_TokenExpiresAt := Some ex, uj_Detail := [], uj_UpdatedAt := t\<rparr>)"
  have x: "fst x = s\<lparr>uninstall_jobs := update_rows (issuable k) f (uninstall_jobs s)\<rparr>"
    "count_rows (issuable k) (uninstall_jobs s) = 1"
    using a by (auto simp: IssueNodeUninstallToken_def f_def split: if_splits dest!: and_read_jobD)
  show ?thesis
  proof (cases "jobs_keyed s")
    case True
    have id: "\<And>j. uj_NodeID (f j) = uj_NodeID j" by (simp add: f_def)
    from issuable_rows [OF True x(2) id] obtain j where j: "find_job s k = Some j" "issuable k j"
      "fst x = update_job s k f" unfolding x(1) by metis
    have "moves H (CallIssue k tok ex) s (update_job s k f)"
    proof (rule moves_job [OF j(1) id])
      fix y
      show "cell_step H k (CallIssue k tok ex) (y, Some (job_view_of j)) (y, Some (job_view_of (f j)))"
        using j(2) cell_step.issue [of "job_view_of j" H k tok ex y]
        by (auto simp: job_view_of_def f_def issuable_def)
    qed
    with j(3) show ?thesis by simp
  qed (simp add: moves_def)
qed

lemma moves_cancel: "CancelNodeUninstall s k t = Inr x \<Longrightarrow> moves H (CallCancel k) s (fst x)"
proof -
  assume a: "CancelNodeUninstall s k t = Inr x"
  define f where "f = (\<lambda>j::uninstall_row. j\<lparr>uj_Status := NodeUninstallCanceled, uj_TokenHash := None,
      uj_TokenExpiresAt := None, uj_Detail := [], uj_UpdatedAt := t\<rparr>)"
  have x: "fst x = s\<lparr>uninstall_jobs := update_rows (issuable k) f (uninstall_jobs s)\<rparr>"
    "count_rows (issuable k) (uninstall_jobs s) = 1"
    using a by (auto simp: CancelNodeUninstall_def f_def split: if_splits dest!: and_read_jobD)
  show ?thesis
  proof (cases "jobs_keyed s")
    case True
    have id: "\<And>j. uj_NodeID (f j) = uj_NodeID j" by (simp add: f_def)
    from issuable_rows [OF True x(2) id] obtain j where j: "find_job s k = Some j" "issuable k j"
      "fst x = update_job s k f" unfolding x(1) by metis
    have "moves H (CallCancel k) s (update_job s k f)"
    proof (rule moves_job [OF j(1) id])
      fix y
      show "cell_step H k (CallCancel k) (y, Some (job_view_of j)) (y, Some (job_view_of (f j)))"
        using j(2) cell_step.cancel [of "job_view_of j" H k y]
        by (auto simp: job_view_of_def f_def issuable_def)
    qed
    with j(3) show ?thesis by simp
  qed (simp add: moves_def)
qed

lemma moves_start: "StartNodeUninstall H s tok t = Inr x \<Longrightarrow> moves H (CallStart tok) s (fst x)"
proof (cases "jobs_keyed s")
  case True
  assume a: "StartNodeUninstall H s tok t = Inr x"
  then obtain job where "uninstallJobByToken H s tok = Inr job"
    by (auto simp: StartNodeUninstall_def)
  with token_job [OF _ True] obtain j where j: "find_job s (uj_NodeID job) = Some j" "job = read_job j"
    "uj_TokenHash j = Some (H tok)" "uninstallJobByToken H s tok = Inr (read_job j)" by metis
  define k where "k = uj_NodeID j"
  have find: "find_job s k = Some j" using j(1,2) by (simp add: k_def)
  define f where "f = (\<lambda>j::uninstall_row. j\<lparr>uj_Status := NodeUninstallRunning,
      uj_StartedAt := coalesce (uj_StartedAt j) t, uj_Detail := [], uj_UpdatedAt := t\<rparr>)"
  define f' where "f' = (\<lambda>j::uninstall_row. j\<lparr>uj_StartedAt := coalesce (uj_StartedAt j) t, uj_UpdatedAt := t\<rparr>)"
  define g where "g = (\<lambda>n::node_row. n\<lparr>nd_Status := NodeUninstalling, nd_UpdatedAt := t\<rparr>)"
  from a consider "fst x = s"
    | "uj_Status j = NodeUninstallForced" "fst x = update_job s k f'"
    | "uj_Status j \<in> {NodeUninstallReady, NodeUninstallRunning, NodeUninstallFailed}"
      "fst x = update_node (update_job s k f) k g"
    by (auto simp: StartNodeUninstall_def j(4) k_def f_def f'_def g_def split: if_splits dest!: and_read_jobD)
  then show ?thesis
  proof cases
    case 2
    have "moves H (CallStart tok) s (update_job s k f')"
      using 2(1) j(3) cell_step.start_late [of "job_view_of j" H tok k]
      by (intro moves_job [OF find]) (auto simp: f'_def job_view_of_def coalesce_def)
    with 2(2) show ?thesis by simp
  next
    case 3
    have "moves H (CallStart tok) s (update_node (update_job s k f) k g)"
      using 3(1) j(3) cell_step.start [of "job_view_of j" H tok k]
      by (intro moves_job_and_node [OF find, where v = "\<lambda>(st, c). (NodeUninstalling, c)"])
        (auto simp: f_def g_def job_view_of_def node_view_of_def coalesce_def)
    with 3(2) show ?thesis by simp
  qed simp
qed (simp add: moves_def)

lemma moves_fail: "FailNodeUninstall H s tok detail t = Inr x \<Longrightarrow> moves H (CallFail tok detail) s (fst x)"
proof (cases "jobs_keyed s")
  case True
  assume a: "FailNodeUninstall H s tok detail t = Inr x"
  then obtain job where "uninstallJobByToken H s tok = Inr job"
    by (auto simp: FailNodeUninstall_def Let_def)
  with token_job [OF _ True] obtain j where j: "find_job s (uj_NodeID job) = Some j" "job = read_job j"
    "uj_TokenHash j = Some (H tok)" "uninstallJobByToken H s tok = Inr (read_job j)" by metis
  define k where "k = uj_NodeID j"
  have find: "find_job s k = Some j" using j(1,2) by (simp add: k_def)
  define f where "f = (\<lambda>j::uninstall_row. j\<lparr>uj_Status := NodeUninstallFailed, uj_Detail := take 2000 detail,
      uj_UpdatedAt := t\<rparr>)"
  define g where "g = (\<lambda>n::node_row. n\<lparr>nd_Status := uj_PreviousStatus j, nd_LastError := take 2000 detail,
      nd_UpdatedAt := t\<rparr>)"
  from a consider "fst x = s"
    | "uj_Status j \<in> {NodeUninstallRunning, NodeUninstallFailed}" "fst x = update_node (update_job s k f) k g"
    by (auto simp: FailNodeUninstall_def Let_def j(4) k_def f_def g_def split: if_splits dest!: and_read_jobD)
  then show ?thesis
  proof cases
    case 2
    have "moves H (CallFail tok detail) s (update_node (update_job s k f) k g)"
      using 2(1) j(3) cell_step.fail [of "job_view_of j" H tok k detail]
      by (intro moves_job_and_node [OF find, where v = "\<lambda>(st, c). (uj_PreviousStatus j, c)"])
        (auto simp: f_def g_def job_view_of_def node_view_of_def)
    with 2(2) show ?thesis by simp
  qed simp
qed (simp add: moves_def)

definition complete_job :: "uninstall_status \<Rightarrow> bool \<Rightarrow> string \<Rightarrow> time \<Rightarrow> uninstall_row \<Rightarrow> uninstall_row" where
  "complete_job status forced detail t j = j\<lparr>uj_Status := status, uj_Detail := detail, uj_Forced := forced,
     uj_CompletedAt := Some t, uj_UpdatedAt := t\<rparr>"

definition uninstalled_node :: "time \<Rightarrow> node_row \<Rightarrow> node_row" where
  "uninstalled_node t n = n\<lparr>nd_Status := NodeUninstalled, nd_CertFingerprint := None, nd_LastError := [], nd_UpdatedAt := t\<rparr>"

lemma complete_cell:
  "cell (completeNodeUninstall s k status forced detail t) i
     = cell (update_node (update_job s k (complete_job status forced detail t)) k (uninstalled_node t)) i"
  "uninstall_jobs (completeNodeUninstall s k status forced detail t)
     = uninstall_jobs (update_node (update_job s k (complete_job status forced detail t)) k (uninstalled_node t))"
proof -
  define s1 where "s1 = update_node (update_job s k (complete_job status forced detail t)) k (uninstalled_node t)"
  have *: "completeNodeUninstall s k status forced detail t
     = s1\<lparr>enrollment_tokens := delete_rows (\<lambda>t. et_NodeID t = k) (enrollment_tokens s1),
          node_states := delete_rows (\<lambda>r. ns_NodeID r = k) (node_states s1),
          node_healths := delete_rows (\<lambda>h. nh_NodeID h = k) (node_healths s1),
          site_healths := delete_rows (\<lambda>h. sh_NodeID h = k) (site_healths s1)\<rparr>"
    unfolding completeNodeUninstall_def Let_def s1_def complete_job_def [abs_def] uninstalled_node_def [abs_def] ..
  show "cell (completeNodeUninstall s k status forced detail t) i
     = cell (update_node (update_job s k (complete_job status forced detail t)) k (uninstalled_node t)) i"
    unfolding * s1_def [symmetric] by simp
  show "uninstall_jobs (completeNodeUninstall s k status forced detail t)
     = uninstall_jobs (update_node (update_job s k (complete_job status forced detail t)) k (uninstalled_node t))"
    unfolding * s1_def [symmetric] by simp
qed

lemma moves_completion:
  assumes j: "find_job s k = Some j"
    and step: "\<And>x. cell_step H k call (x, Some (job_view_of j)) (map_option (\<lambda>_. (NodeUninstalled, False)) x,
      Some (job_view_of (complete_job status forced detail t j)))"
  shows "moves H call s (completeNodeUninstall s k status forced detail t)"
proof -
  have "moves H call s (update_node (update_job s k (complete_job status forced detail t)) k (uninstalled_node t))"
    by (rule moves_job_and_node [OF j, where v = "\<lambda>_. (NodeUninstalled, False)"])
      (simp_all add: complete_job_def uninstalled_node_def node_view_of_def step [unfolded complete_job_def])
  then show ?thesis by (rule moves_frame_right) (simp_all only: complete_cell)
qed

lemma moves_complete: "CompleteNodeUninstall H s tok t = Inr x \<Longrightarrow> moves H (CallComplete tok) s (fst x)"
proof (cases "jobs_keyed s")
  case True
  assume a: "CompleteNodeUninstall H s tok t = Inr x"
  then obtain job where "uninstallJobByToken H s tok = Inr job"
    by (auto simp: CompleteNodeUninstall_def)
  with token_job [OF _ True] obtain j where j: "find_job s (uj_NodeID job) = Some j" "job = read_job j"
    "uj_TokenHash j = Some (H tok)" "uninstallJobByToken H s tok = Inr (read_job j)" by metis
  define k where "k = uj_NodeID j"
  have find: "find_job s k = Some j" using j(1,2) by (simp add: k_def)
  from a consider "fst x = s"
    | "uj_Status j = NodeUninstallRunning \<or> uj_Status j = NodeUninstallForced \<and> uj_StartedAt j \<noteq> None"
      "fst x = completeNodeUninstall s k NodeUninstallSucceeded False [] t"
    by (auto simp: CompleteNodeUninstall_def j(4) k_def split: if_splits dest!: and_read_jobD)
  then show ?thesis
  proof cases
    case 2
    then show ?thesis
      using j(3) cell_step.complete [of "job_view_of j" H tok k]
      by (auto intro!: moves_completion [OF find] simp: complete_job_def job_view_of_def)
  qed simp
qed (simp add: moves_def)

lemma moves_force: "ForceCompleteNodeUninstall s k detail t = Inr x \<Longrightarrow> moves H (CallForce k detail) s (fst x)"
proof -
  assume a: "ForceCompleteNodeUninstall s k detail t = Inr x"
  then obtain j where j: "find_job s k = Some j" "uninstallJobBlocksStatus (uj_Status j)"
    "fst x = completeNodeUninstall s k NodeUninstallForced True detail t"
    by (auto simp: ForceCompleteNodeUninstall_def NodeUninstallJob_def split: if_splits option.splits dest!: and_read_jobD)
  then show ?thesis
    using cell_step.force [of "job_view_of j" H k detail]
    by (auto intro!: moves_completion [OF j(1)] simp: complete_job_def job_view_of_def)
qed

lemma moves_delete: "DeleteNode s k = Inr s' \<Longrightarrow> moves H (CallDelete k) s s'"
proof -
  assume "DeleteNode s k = Inr s'"
  then have s': "s' = delete_node_rows s k" by (simp add: DeleteNode_def split: if_splits)
  have find_delete: "find_row (\<lambda>r. key r = i) (delete_rows (\<lambda>r. key r = k) rows)
      = (if i = k then None else find_row (\<lambda>r. key r = i) rows)" for i and key :: "'b \<Rightarrow> string" and rows
    by (induction rows) auto
  have "cell s' i = (if i = k then (None, None) else cell s i)" for i
    by (simp add: cell_def s' delete_node_rows_def find_node_def find_job_def find_delete)
  moreover have "cell_step H k (CallDelete k) (cell s k) (None, None)"
    using cell_step.delete [of H k "fst (cell s k)" "snd (cell s k)"] by simp
  ultimately show ?thesis
    by (auto simp: moves_def jobs_keyed_def s' delete_node_rows_def distinct_key_delete_rows)
qed

subsection \<open>Smart routing\<close>

definition routed_node :: "node_row \<Rightarrow> node_row \<Rightarrow> bool" where
  "routed_node n m \<longleftrightarrow> nd_CertFingerprint m = nd_CertFingerprint n \<and> (nd_Status m = nd_Status n \<or>
     nd_Status n \<in> {NodeActive, NodeDraining} \<and> nd_Status m \<in> {NodeActive, NodeDraining})"

definition routed :: "store \<Rightarrow> store \<Rightarrow> bool" where
  "routed s s' \<longleftrightarrow> uninstall_jobs s' = uninstall_jobs s
     \<and> (\<forall>i. rel_option routed_node (find_node s i) (find_node s' i))"

lemma routed_frame: "nodes s' = nodes s \<Longrightarrow> uninstall_jobs s' = uninstall_jobs s \<Longrightarrow> routed s s'"
  by (auto simp: routed_def find_node_def routed_node_def intro!: option.rel_refl)

lemma routed_trans: "routed a b \<Longrightarrow> routed b c \<Longrightarrow> routed a c"
proof -
  assume 1: "routed a b" and 2: "routed b c"
  have "rel_option routed_node (find_node a i) (find_node c i)" for i
  proof -
    have "rel_option routed_node (find_node a i) (find_node b i)" "rel_option routed_node (find_node b i) (find_node c i)"
      using 1 2 by (simp_all add: routed_def)
    then show ?thesis
      by (cases "find_node a i"; cases "find_node b i"; cases "find_node c i") (auto simp: routed_node_def)
  qed
  with 1 2 show ?thesis by (simp add: routed_def)
qed

lemma routed_moves: "routed s s' \<Longrightarrow> routing_call call \<Longrightarrow> moves H call s s'"
proof -
  assume r: "routed s s'" and call: "routing_call call"
  have "cell s' i = cell s i \<or> cell_step H i call (cell s i) (cell s' i)" for i
  proof -
    have j: "find_job s' i = find_job s i" using r by (simp add: routed_def find_job_def)
    have "rel_option routed_node (find_node s i) (find_node s' i)" using r by (simp add: routed_def)
    then show ?thesis
    proof cases
      case None
      with j show ?thesis by (simp add: cell_def)
    next
      case (Some n m)
      then show ?thesis
        using cell_step.route [OF call, of "nd_Status n" "nd_Status m" H i "nd_CertFingerprint n \<noteq> None"]
        by (auto simp: cell_def j node_view_of_def routed_node_def)
    qed
  qed
  with r show ?thesis by (simp add: moves_def routed_def jobs_keyed_def)
qed

lemma routed_tx: "reconcileSmartRoutingNodeTx s p tr t = Inr x \<Longrightarrow> routed s (fst x)"
proof -
  assume a: "reconcileSmartRoutingNodeTx s p tr t = Inr x"
  then obtain n where n: "find_node s (sp_NodeID p) = Some n"
    by (auto simp: reconcileSmartRoutingNodeTx_def)
  define nxt where "nxt = next_node_status (nd_Status n) (nd_MonitorAutoPaused n) (BlockedBy p)"
  define g where "g = (\<lambda>r::node_row. r\<lparr>nd_Status := fst nxt, nd_MonitorAutoPaused := snd nxt, nd_UpdatedAt := t\<rparr>)"
  from a have "fst x = s \<or> fst x = update_node s (sp_NodeID p) g"
    by (auto simp: reconcileSmartRoutingNodeTx_def n Let_def split_beta update_node_def g_def nxt_def split: if_splits)
  moreover have "routed s (update_node s (sp_NodeID p) g)"
  proof -
    have "routed_node n (g n)"
      by (auto simp: routed_node_def g_def nxt_def next_node_status_def split: node_status.splits)
    moreover have "rel_option routed_node y y" for y
      by (cases y) (simp_all add: routed_node_def)
    moreover have "\<And>n. nd_ID (g n) = nd_ID n" by (simp add: g_def)
    ultimately show ?thesis
      using n by (auto simp: routed_def) (simp add: update_node_def)
  qed
  ultimately show ?thesis by (auto intro: routed_frame)
qed

lemma routed_policies: "reconcile_policies s ps t = Inr x \<Longrightarrow> routed s (fst x)"
proof (induction s ps t arbitrary: x rule: reconcile_policies.induct)
  case (1 s at)
  then show ?case by (auto intro: routed_frame)
next
  case (2 s p ps at)
  then obtain y z where y: "reconcile_policy s p at = Inr y" and z: "reconcile_policies (fst y) ps at = Inr z"
    and x: "fst x = fst z" by (auto split: sum.splits prod.splits)
  have "routed s (fst y)"
  proof -
    from y obtain s1 q tr where "reconcileSmartRoutingNodeTx s1 q tr at = Inr y" "nodes s1 = nodes s"
      "uninstall_jobs s1 = uninstall_jobs s"
      by (auto simp: reconcile_policy_def Let_def split: if_splits)
    then show ?thesis by (blast intro: routed_trans routed_frame routed_tx)
  qed
  moreover have "routed (fst y) (fst z)" using 2(1) [of y "fst y" "snd y" z] y z by simp
  ultimately show ?case unfolding x by (rule routed_trans)
qed

lemma moves_routing: "ReconcileSmartRouting s t = Inr x \<Longrightarrow> moves H CallReconcileRouting s (fst x)"
  by (auto simp: ReconcileSmartRouting_def intro: routed_moves routed_policies)

lemma update_routing_tx:
  "UpdateSmartRoutingPolicy s k c t fresh = Inr x \<Longrightarrow>
    \<exists>s2 q tr y. reconcileSmartRoutingNodeTx s2 q tr t = Inr y \<and> fst x = fst y \<and> framed s s2"
proof -
  assume upd: "UpdateSmartRoutingPolicy s k c t fresh = Inr x"
  then obtain config s1 where config: "NormalizeSmartRoutingConfig c = Inr config"
    and ens: "ensureSmartRoutingPolicyTx s k t = Inr s1"
    unfolding UpdateSmartRoutingPolicy_def call_eq_Inr by blast
  from upd obtain current where cur: "find_policy s1 k = Some current"
    unfolding UpdateSmartRoutingPolicy_def config ens sum.case lookup_eq_Inr by blast
  define nxt where "nxt = next_policy s1 k current config t fresh"
  define tr0 where "tr0 = empty_transition k current nxt"
  define wr where "wr = (policy_Config current \<noteq> config \<or> tr_ScoreGateChanged tr0 \<or> tr_ScheduleGateChanged tr0)"
  define q where "q = (if wr then nxt\<lparr>sp_UpdatedAt := t\<rparr> else nxt)"
  define s2 where "s2 = (if wr then update_policy_row s1 k q else s1)"
  have tx: "(case reconcileSmartRoutingNodeTx s2 q tr0 t of Inl e \<Rightarrow> Inl e
      | Inr (s3, tr') \<Rightarrow> Inr (s3, q, tr', policy_Config current \<noteq> config)) = Inr x"
    using upd unfolding UpdateSmartRoutingPolicy_def config ens cur sum.case option.case Let_def
      nxt_def [symmetric] tr0_def [symmetric] wr_def [symmetric] q_def [symmetric]
      update_policy_row_def [symmetric] s2_def [symmetric] .
  then obtain y where y: "reconcileSmartRoutingNodeTx s2 q tr0 t = Inr y" "fst x = fst y"
    by (cases "reconcileSmartRoutingNodeTx s2 q tr0 t") (auto simp: split_beta)
  have "framed s s1"
    using ens by (auto simp: ensureSmartRoutingPolicyTx_def insertDefaultSmartRoutingPolicyTx_def framed_def
      split: if_splits option.splits)
  then have "framed s s2" by (simp add: s2_def update_policy_row_def framed_def)
  with y show ?thesis by blast
qed

lemma moves_update_routing: "UpdateSmartRoutingPolicy s k c t fresh = Inr x \<Longrightarrow> moves H (CallUpdateRouting k c fresh) s (fst x)"
proof -
  assume "UpdateSmartRoutingPolicy s k c t fresh = Inr x"
  from update_routing_tx [OF this] obtain s2 q tr y where y: "reconcileSmartRoutingNodeTx s2 q tr t = Inr y"
    "fst x = fst y" and "framed s s2" by blast
  then have "routed s s2" by (intro routed_frame) (simp_all add: framed_def)
  from routed_trans [OF this routed_tx [OF y(1)]] y(2) show ?thesis by (simp add: routed_moves)
qed

subsection \<open>Every call\<close>

lemma exec_moves: "moves H c s (node_exec H t c s)"
  by (cases c)
    (auto intro!: committed_moves intro: moves_create moves_ipv6 moves_cache_size moves_capacity moves_tokens
      moves_certify moves_capabilities moves_heartbeat moves_set_status moves_prepare moves_issue moves_start
      moves_fail moves_complete moves_force moves_cancel moves_delete moves_update_routing moves_routing
      routed_moves routed_tx)

lemma exec_keyed: "jobs_keyed s \<Longrightarrow> jobs_keyed (node_exec H t c s)"
  using exec_moves by (auto simp: moves_def)

lemma exec_cell:
  "jobs_keyed s \<Longrightarrow> cell (node_exec H t c s) i = cell s i \<or> cell_step H i c (cell s i) (cell (node_exec H t c s) i)"
  using exec_moves by (auto simp: moves_def)

text \<open>The invariant of the tables.\<close>

definition nodes_ok :: "store \<Rightarrow> bool" where
  "nodes_ok s \<longleftrightarrow> jobs_keyed s \<and> (\<forall>i. cell_ok (cell s i))"

lemma nodes_ok_empty [simp]: "nodes_ok empty_store"
  by (simp add: nodes_ok_def jobs_keyed_def cell_def find_node_def find_job_def empty_store_def)

lemma nodes_ok_exec: "nodes_ok s \<Longrightarrow> nodes_ok (node_exec H t c s)"
  unfolding nodes_ok_def using exec_keyed exec_cell cell_step_ok by metis

lemma nodes_ok_run: "nodes_ok s \<Longrightarrow> nodes_ok (node_run H s cs)"
  by (induction H s cs rule: node_run.induct) (auto intro: nodes_ok_exec)

end
