(* ===== verification/Node_Properties.thy ===== *)
theory Node_Properties
  imports Node_Moves Samples
begin

section \<open>What holds of the life of a node\<close>

text \<open>
  The code implements \<open>cell_step\<close> for every node, a node and its removal always agree, a node is
  uninstalled only by its script or by force and stays so, a failed removal can be tried again, and a
  revocation voids the enrollment tokens of the node. The last property shows that smart routing may
  resume a node while its removal waits.
\<close>

subsection \<open>Samples\<close>

definition ready_job :: uninstall_row where
  "ready_job = (new_job ''n1'' NodeDraining [] 0 0)\<lparr>uj_Status := NodeUninstallReady, uj_TokenHash := Some ''t'',
     uj_TokenExpiresAt := Some 100\<rparr>"

definition removal_store :: store where
  "removal_store = empty_store\<lparr>nodes := [(sample_node ''n1'')\<lparr>nd_Status := NodeDraining\<rparr>], uninstall_jobs := [ready_job]\<rparr>"

definition running_store :: store where
  "running_store = node_exec (\<lambda>x. x) 1 (CallStart ''t'') removal_store"

lemma removal_store_ok: "nodes_ok removal_store"
  by (auto simp: nodes_ok_def jobs_keyed_def removal_store_def ready_job_def new_job_def empty_store_def
      cell_def find_node_def find_job_def sample_node_def node_view_of_def job_view_of_def waiting_def)

lemma running_store_ok: "nodes_ok running_store"
  unfolding running_store_def by (rule nodes_ok_exec [OF removal_store_ok])

subsection \<open>The machine\<close>

text \<open>
  C21: Refinement. Every call that writes nodes or removals leaves the cell of each node (its status,
  whether it has a certificate, its removal job) as it was or moves it by a transition that the state
  machine \<open>cell_step\<close> allows for that call and that node.
\<close>

theorem nodes_follow_the_machine:
  assumes "nodes_ok s"
  shows "cell (node_exec H t call s) i = cell s i \<or> cell_step H i call (cell s i) (cell (node_exec H t call s) i)"
  using assms by (simp add: nodes_ok_def exec_cell)

lemma nodes_follow_the_machine_witness:
  "cell running_store ''n1'' = cell removal_store ''n1'' \<or>
     cell_step (\<lambda>x. x) ''n1'' (CallStart ''t'') (cell removal_store ''n1'') (cell running_store ''n1'')"
  unfolding running_store_def by (rule nodes_follow_the_machine [OF removal_store_ok])

text \<open>
  Invariant. After any sequence of calls on a new database, of every node: it is uninstalling exactly
  while its removal runs and uninstalled exactly after the removal was completed or forced; while the
  removal waits it has the status it had before, or is active again because smart routing resumed it;
  a revoked or uninstalled node has no certificate; and a removal that runs has a token and a start.
\<close>

theorem nodes_and_removals_agree: "cell_ok (cell (node_run H empty_store calls) i)"
  using nodes_ok_run [OF nodes_ok_empty] by (simp add: nodes_ok_def)

subsection \<open>The end of a node\<close>

lemma job_ok_end:
  "job_ok st NodeUninstalled certified v \<Longrightarrow> jv_Previous v = NodeDraining \<or> jv_Previous v = NodeRevoked \<Longrightarrow> \<not> certified"
  by (cases st) (auto simp: waiting_def)

lemma cell_ok_end: "cell_ok x \<Longrightarrow> fst x = Some (NodeUninstalled, certified) \<Longrightarrow> \<not> certified"
  by (induction x rule: cell_ok.induct) (auto dest: job_ok_end)

lemma cell_step_end:
  "cell_step H i call x y \<Longrightarrow> cell_ok x \<Longrightarrow> (\<forall>name v4 v6. call \<noteq> CallCreate name v4 v6 i) \<Longrightarrow>
    fst x \<in> {None, Some (NodeUninstalled, False)} \<Longrightarrow> fst y \<in> {None, Some (NodeUninstalled, False)}"
proof (induction rule: cell_step.induct)
  case (certify st j fp c)
  then show ?case by (auto simp: barred_def)
next
  case (start v tok x)
  then show ?case by (cases x) (auto simp: waiting_def)
next
  case (fail v tok detail x)
  then show ?case by (cases x) (auto simp: waiting_def)
next
  case (complete v tok x)
  then show ?case by (cases x) auto
next
  case (force v detail x)
  then show ?case by (cases x) auto
qed auto

definition creates :: "string \<Rightarrow> node_call \<Rightarrow> bool" where
  "creates i call = (case call of CallCreate _ _ _ fresh \<Rightarrow> fresh = i | _ \<Rightarrow> False)"

lemma run_end:
  "nodes_ok s \<Longrightarrow> list_all (\<lambda>(t, call). \<not> creates i call) calls \<Longrightarrow>
    fst (cell s i) \<in> {None, Some (NodeUninstalled, False)} \<Longrightarrow>
    fst (cell (node_run H s calls) i) \<in> {None, Some (NodeUninstalled, False)}"
proof (induction H s calls rule: node_run.induct)
  case (2 H s t call calls)
  then have no: "\<forall>name v4 v6. call \<noteq> CallCreate name v4 v6 i" by (auto simp: creates_def)
  have ok: "jobs_keyed s" "cell_ok (cell s i)" using 2(2) by (simp_all add: nodes_ok_def)
  have "fst (cell (node_exec H t call s) i) \<in> {None, Some (NodeUninstalled, False)}"
    using exec_cell [OF ok(1), of H t call i] cell_step_end [OF _ ok(2) no 2(4)] 2(4) by metis
  with 2 show ?case by (simp add: nodes_ok_exec)
qed simp

text \<open>
  Safety. An uninstalled node stays uninstalled and without a certificate, whatever calls follow,
  until its row is deleted; and then it is gone, as long as no new node gets its identifier.
\<close>

theorem uninstalled_nodes_stay:
  assumes "nodes_ok s" and "find_node s i = Some n" and "nd_Status n = NodeUninstalled"
    and "list_all (\<lambda>(t, call). \<not> creates i call) calls"
  shows "case find_node (node_run H s calls) i of None \<Rightarrow> True
    | Some m \<Rightarrow> nd_Status m = NodeUninstalled \<and> nd_CertFingerprint m = None"
proof -
  have "cell_ok (cell s i)" using assms(1) by (simp add: nodes_ok_def)
  moreover have "fst (cell s i) = Some (NodeUninstalled, nd_CertFingerprint n \<noteq> None)"
    using assms(2,3) by (simp add: cell_def node_view_of_def)
  ultimately have "fst (cell s i) = Some (NodeUninstalled, False)"
    by (auto dest: cell_ok_end)
  then have "fst (cell (node_run H s calls) i) \<in> {None, Some (NodeUninstalled, False)}"
    by (intro run_end [OF assms(1,4)]) simp
  then show ?thesis by (auto simp: cell_def node_view_of_def split: option.splits)
qed

definition removed_store :: store where
  "removed_store = node_exec (\<lambda>x. x) 2 (CallComplete ''t'') running_store"

lemma uninstalled_nodes_stay_witness:
  "case find_node (node_run (\<lambda>x. x) removed_store [(3, CallSetStatus ''n1'' NodeActive True), (4, CallFail ''t'' ''late'')]) ''n1''
   of None \<Rightarrow> True | Some m \<Rightarrow> nd_Status m = NodeUninstalled \<and> nd_CertFingerprint m = None"
proof (rule uninstalled_nodes_stay)
  show "nodes_ok removed_store" unfolding removed_store_def by (rule nodes_ok_exec [OF running_store_ok])
  show "find_node removed_store ''n1'' = Some (the (find_node removed_store ''n1''))" by code_simp
  show "nd_Status (the (find_node removed_store ''n1'')) = NodeUninstalled" by code_simp
qed (simp add: creates_def)

lemma cell_step_uninstalls:
  "cell_step H i call x y \<Longrightarrow> cell_ok x \<Longrightarrow> fst x = Some (st, c) \<Longrightarrow> st \<noteq> NodeUninstalled \<Longrightarrow> fst y = Some (NodeUninstalled, c') \<Longrightarrow>
    \<exists>v. snd x = Some v \<and> ((\<exists>tok. call = CallComplete tok \<and> jv_Token v = Some (H tok) \<and> jv_Status v = NodeUninstallRunning)
      \<or> (\<exists>detail. call = CallForce i detail \<and> uninstallJobBlocksStatus (jv_Status v)))"
  by (induction rule: cell_step.induct) auto

lemma cell_job: "snd (cell s i) = Some v \<Longrightarrow> \<exists>j. find_job s i = Some j \<and> v = job_view_of j"
  by (auto simp: cell_def)

text \<open>
  C22: Safety. A node becomes uninstalled only in two ways: its script reports the end with the token
  of the removal, which has not expired, while the removal runs; or an administrator forces the end of
  a removal that is active.
\<close>

theorem only_removals_uninstall:
  assumes ok: "nodes_ok s" and n: "find_node s i = Some n" "nd_Status n \<noteq> NodeUninstalled"
    and m: "find_node (node_exec H t call s) i = Some m" "nd_Status m = NodeUninstalled"
  shows "\<exists>j. find_job s i = Some j \<and>
    ((\<exists>tok ex. call = CallComplete tok \<and> uj_TokenHash j = Some (H tok) \<and> uj_TokenExpiresAt j = Some ex \<and> t < ex
        \<and> uj_Status j = NodeUninstallRunning)
     \<or> (\<exists>detail. call = CallForce i detail \<and> uninstallJobBlocksStatus (uj_Status j)))"
proof -
  have keyed: "jobs_keyed s" and cell: "cell_ok (cell s i)" using ok by (simp_all add: nodes_ok_def)
  have x: "fst (cell s i) = Some (nd_Status n, nd_CertFingerprint n \<noteq> None)"
    using n(1) by (simp add: cell_def node_view_of_def)
  have y: "fst (cell (node_exec H t call s) i) = Some (NodeUninstalled, nd_CertFingerprint m \<noteq> None)"
    using m by (simp add: cell_def node_view_of_def)
  have "cell_step H i call (cell s i) (cell (node_exec H t call s) i)"
    using exec_cell [OF keyed, of H t call i] x y n(2) by auto
  from cell_step_uninstalls [OF this cell x n(2) y] obtain v where v: "snd (cell s i) = Some v" and
    how: "(\<exists>tok. call = CallComplete tok \<and> jv_Token v = Some (H tok) \<and> jv_Status v = NodeUninstallRunning)
      \<or> (\<exists>detail. call = CallForce i detail \<and> uninstallJobBlocksStatus (jv_Status v))" by blast
  from cell_job [OF v] obtain j where j: "find_job s i = Some j" "v = job_view_of j" by blast
  have "\<exists>ex. uj_TokenExpiresAt j = Some ex \<and> t < ex"
    if c: "call = CallComplete tok" "uj_TokenHash j = Some (H tok)" for tok
  proof -
    have "node_exec H t call s \<noteq> s" using n m by auto
    then obtain r where r: "CompleteNodeUninstall H s tok t = Inr r" "node_exec H t call s = fst r" "fst r \<noteq> s"
      by (cases "CompleteNodeUninstall H s tok t") (auto simp: c(1) committed_def)
    then obtain job where job: "uninstallJobByToken H s tok = Inr job" "\<not> expired_token t job" and
      "fst r = completeNodeUninstall s (uj_NodeID job) NodeUninstallSucceeded False [] t"
      by (auto simp: CompleteNodeUninstall_def split: if_splits dest!: and_read_jobD)
    with r have s': "node_exec H t call s = completeNodeUninstall s (uj_NodeID job) NodeUninstallSucceeded False [] t"
      by simp
    have "uj_NodeID job = i"
    proof (rule ccontr)
      assume "uj_NodeID job \<noteq> i"
      then have "cell (node_exec H t call s) i = cell s i"
        unfolding s' complete_cell by (simp add: cell_def complete_job_def uninstalled_node_def)
      with x y n(2) show False by simp
    qed
    with token_job [OF job(1) keyed] j(1) have "job = read_job j" by auto
    with job(2) show ?thesis by (auto simp: expired_token_def split: option.splits)
  qed
  with j how show ?thesis by (auto simp: job_view_of_def)
qed

lemma only_removals_uninstall_witness:
  "\<exists>j. find_job running_store ''n1'' = Some j \<and>
    ((\<exists>tok ex. CallComplete ''t'' = CallComplete tok \<and> uj_TokenHash j = Some tok \<and> uj_TokenExpiresAt j = Some ex \<and> 2 < ex
        \<and> uj_Status j = NodeUninstallRunning)
     \<or> (\<exists>detail. CallComplete ''t'' = CallForce ''n1'' detail \<and> uninstallJobBlocksStatus (uj_Status j)))"
proof (rule only_removals_uninstall [OF running_store_ok, where H = "\<lambda>x. x" and t = 2])
  show "find_node running_store ''n1'' = Some (the (find_node running_store ''n1''))" by code_simp
  show "nd_Status (the (find_node running_store ''n1'')) \<noteq> NodeUninstalled" by code_simp
  show "find_node (node_exec (\<lambda>x. x) 2 (CallComplete ''t'') running_store) ''n1''
      = Some (the (find_node removed_store ''n1''))" by code_simp
  show "nd_Status (the (find_node removed_store ''n1'')) = NodeUninstalled" by code_simp
qed

subsection \<open>A removal that fails\<close>

definition token_row :: "(string \<Rightarrow> string) \<Rightarrow> store \<Rightarrow> string \<Rightarrow> uninstall_row option" where
  "token_row H s tok = find_row (\<lambda>j. uj_TokenHash j = Some (H tok)) (uninstall_jobs s)"

lemma job_by_token:
  "token_row H s tok = Some j \<Longrightarrow> TrimSpace tok \<noteq> [] \<Longrightarrow> uninstallJobByToken H s tok = Inr (read_job j)"
  by (simp add: uninstallJobByToken_def token_row_def)

lemma token_row_job: "jobs_keyed s \<Longrightarrow> token_row H s tok = Some j \<Longrightarrow> find_job s (uj_NodeID j) = Some j"
  by (auto simp: token_row_def keyed_find_job dest!: find_row_SomeD)

lemma token_row_update:
  assumes "token_row H s tok = Some j" and "\<And>j. uj_TokenHash (f j) = uj_TokenHash j"
  shows "token_row H (update_node (update_job s (uj_NodeID j) f) k g) tok = Some (f j)"
  using assms by (simp add: token_row_def update_node_def update_job_def find_row_update_rows)

lemma start_ok:
  assumes "jobs_keyed s" and "token_row H s tok = Some j" and "TrimSpace tok \<noteq> []"
    and "uj_Status j \<in> {NodeUninstallReady, NodeUninstallRunning, NodeUninstallFailed}"
    and "uj_TokenExpiresAt j = Some ex" and "t < ex"
  defines "f \<equiv> \<lambda>j::uninstall_row. j\<lparr>uj_Status := NodeUninstallRunning,
      uj_StartedAt := coalesce (uj_StartedAt j) t, uj_Detail := [], uj_UpdatedAt := t\<rparr>"
  shows "StartNodeUninstall H s tok t = Inr (update_node (update_job s (uj_NodeID j) f) (uj_NodeID j)
      (\<lambda>n. n\<lparr>nd_Status := NodeUninstalling, nd_UpdatedAt := t\<rparr>), read_job (f j))"
  using assms(1-6) token_row_job [OF assms(1,2)]
  by (auto simp: StartNodeUninstall_def job_by_token expired_token_def and_read_job_def NodeUninstallJob_def f_def)

lemma fail_ok:
  fixes detail :: string
  assumes "jobs_keyed s" and "token_row H s tok = Some j" and "TrimSpace tok \<noteq> []"
    and "uj_Status j \<in> {NodeUninstallRunning, NodeUninstallFailed}"
    and "uj_TokenExpiresAt j = Some ex" and "t < ex"
  defines "f \<equiv> \<lambda>j::uninstall_row. j\<lparr>uj_Status := NodeUninstallFailed, uj_Detail := take 2000 detail, uj_UpdatedAt := t\<rparr>"
  shows "FailNodeUninstall H s tok detail t = Inr (update_node (update_job s (uj_NodeID j) f) (uj_NodeID j)
      (\<lambda>n. n\<lparr>nd_Status := uj_PreviousStatus j, nd_LastError := take 2000 detail, nd_UpdatedAt := t\<rparr>), read_job (f j))"
  using assms(1-6) token_row_job [OF assms(1,2)]
  by (auto simp: FailNodeUninstall_def Let_def job_by_token expired_token_def and_read_job_def NodeUninstallJob_def f_def)

text \<open>
  C23: Functional behaviour. When the script starts a removal with a live token and then reports a failure,
  the node has the status that the removal recorded when it was prepared (or revoked, if the node was revoked
  since) whatever status it had at the start, and the certificate it had; its last error is the report (cut
  to 2000 bytes), and the same token can start the removal once more while it lives.
\<close>

theorem failed_removals_can_be_retried:
  assumes ok: "nodes_ok s" and tok: "token_row H s tok = Some j" "TrimSpace tok \<noteq> []"
    and j: "uj_Status j = NodeUninstallReady" "uj_TokenExpiresAt j = Some ex" "t1 < ex" "t2 < ex" "t3 < ex"
    and n: "find_node s (uj_NodeID j) = Some n"
  shows "let s2 = node_exec H t2 (CallFail tok detail) (node_exec H t1 (CallStart tok) s) in
    (\<exists>m. find_node s2 (uj_NodeID j) = Some m \<and> nd_Status m = uj_PreviousStatus j
       \<and> nd_CertFingerprint m = nd_CertFingerprint n \<and> nd_LastError m = take 2000 detail)
    \<and> (\<exists>s3 job. StartNodeUninstall H s2 tok t3 = Inr (s3, job) \<and> uj_Status job = NodeUninstallRunning
       \<and> uj_NodeID job = uj_NodeID j)"
proof -
  let ?k = "uj_NodeID j"
  define s1 where "s1 = node_exec H t1 (CallStart tok) s"
  define s2 where "s2 = node_exec H t2 (CallFail tok detail) s1"
  have keyed: "jobs_keyed s" using ok by (simp add: nodes_ok_def)
  then have keyed1: "jobs_keyed s1" unfolding s1_def by (rule exec_keyed)
  then have keyed2: "jobs_keyed s2" unfolding s2_def by (rule exec_keyed)
  define f where "f = (\<lambda>j::uninstall_row. j\<lparr>uj_Status := NodeUninstallRunning,
      uj_StartedAt := coalesce (uj_StartedAt j) t1, uj_Detail := [], uj_UpdatedAt := t1\<rparr>)"
  define g where "g = (\<lambda>j::uninstall_row. j\<lparr>uj_Status := NodeUninstallFailed, uj_Detail := take 2000 detail, uj_UpdatedAt := t2\<rparr>)"
  have s1: "s1 = update_node (update_job s ?k f) ?k (\<lambda>n. n\<lparr>nd_Status := NodeUninstalling, nd_UpdatedAt := t1\<rparr>)"
    using start_ok [OF keyed tok _ j(2,3)] j(1) by (simp add: s1_def committed_def f_def)
  have tok1: "token_row H s1 tok = Some (f j)"
    unfolding s1 by (rule token_row_update [OF tok(1)]) (simp add: f_def)
  have k1: "uj_NodeID (f j) = ?k" "uj_NodeID (g (f j)) = ?k" by (simp_all add: f_def g_def)
  have s2: "s2 = update_node (update_job s1 ?k g) ?k
      (\<lambda>n. n\<lparr>nd_Status := uj_PreviousStatus j, nd_LastError := take 2000 detail, nd_UpdatedAt := t2\<rparr>)"
    using fail_ok [OF keyed1 tok1 tok(2), of ex t2 detail] j(2,4) by (simp add: s2_def committed_def f_def g_def)
  have tok2: "token_row H s2 tok = Some (g (f j))"
    unfolding s2 using token_row_update [OF tok1, of g] by (simp add: k1 g_def)
  have "\<exists>s3 job. StartNodeUninstall H s2 tok t3 = Inr (s3, job) \<and> uj_Status job = NodeUninstallRunning \<and> uj_NodeID job = ?k"
    using start_ok [OF keyed2 tok2 tok(2), of ex t3] j(2,5) by (simp add: k1 f_def g_def)
  moreover have "find_node s2 ?k = Some (n\<lparr>nd_Status := uj_PreviousStatus j, nd_UpdatedAt := t2,
      nd_LastError := take 2000 detail\<rparr>)"
    using n by (simp add: s2 s1)
  ultimately show ?thesis
    unfolding Let_def s1_def [symmetric] s2_def [symmetric] by simp
qed

lemma failed_removals_can_be_retried_witness:
  "let s2 = node_exec (\<lambda>x. x) 2 (CallFail ''t'' ''disk'') (node_exec (\<lambda>x. x) 1 (CallStart ''t'') removal_store) in
    (\<exists>m. find_node s2 (uj_NodeID ready_job) = Some m \<and> nd_Status m = NodeDraining
       \<and> nd_CertFingerprint m = None \<and> nd_LastError m = take 2000 ''disk'')
    \<and> (\<exists>s3 job. StartNodeUninstall (\<lambda>x. x) s2 ''t'' 3 = Inr (s3, job) \<and> uj_Status job = NodeUninstallRunning
       \<and> uj_NodeID job = uj_NodeID ready_job)"
proof -
  define n where "n = (sample_node ''n1'')\<lparr>nd_Status := NodeDraining\<rparr>"
  have n: "nd_Status n = NodeDraining" "nd_CertFingerprint n = None" by (simp_all add: n_def sample_node_def)
  have j: "uj_PreviousStatus ready_job = NodeDraining" by (simp add: ready_job_def new_job_def)
  show ?thesis
    unfolding j [symmetric] n(2) [symmetric]
  proof (rule failed_removals_can_be_retried [OF removal_store_ok, where ex = 100])
    show "token_row (\<lambda>x. x) removal_store ''t'' = Some ready_job"
      by (simp add: token_row_def removal_store_def ready_job_def)
    show "TrimSpace ''t'' \<noteq> []" by code_simp
    show "find_node removal_store (uj_NodeID ready_job) = Some n"
      by (simp add: find_node_def removal_store_def ready_job_def new_job_def n_def sample_node_def)
  qed (simp_all add: ready_job_def new_job_def)
qed

end
