(* ===== verification/Node_Enrollment.thy ===== *)
theory Node_Enrollment
  imports Node_Properties
begin

section \<open>Enrollment tokens, and smart routing during a removal\<close>

subsection \<open>What calls do to the tokens\<close>

text \<open>Every call but the creation of a token drops tokens or marks them as used.\<close>

definition tokens_step :: "store \<Rightarrow> store \<Rightarrow> bool" where
  "tokens_step s s' \<longleftrightarrow> (\<forall>r' \<in> set (enrollment_tokens s'). \<exists>r \<in> set (enrollment_tokens s).
     et_TokenHash r' = et_TokenHash r \<and> (et_UsedAt r \<noteq> None \<longrightarrow> et_UsedAt r' \<noteq> None))"

lemma tokens_same: "enrollment_tokens s' = enrollment_tokens s \<Longrightarrow> tokens_step s s'"
  by (auto simp: tokens_step_def)

lemma tokens_refl [simp]: "tokens_step s s"
  by (rule tokens_same) simp

lemma tokens_framed: "framed s s' \<Longrightarrow> tokens_step s s'"
  by (rule tokens_same) (simp add: framed_def)

lemma tokens_subset: "set (enrollment_tokens s') \<subseteq> set (enrollment_tokens s) \<Longrightarrow> tokens_step s s'"
  by (auto simp: tokens_step_def)

lemma tokens_update_node [simp]: "enrollment_tokens (update_node s k f) = enrollment_tokens s"
  by (simp add: update_node_def)

lemma tokens_update_job [simp]: "enrollment_tokens (update_job s k f) = enrollment_tokens s"
  by (simp add: update_job_def)

lemma tokens_one_node: "update_one_node s k f = Inr s' \<Longrightarrow> enrollment_tokens s' = enrollment_tokens s"
  by (auto dest: update_one_nodeD)

lemma tokens_read: "and_read k r = Inr x \<Longrightarrow> \<exists>s. r = Inr s \<and> fst x = s"
  by (auto dest: and_readD)

lemma tokens_insert_policy [simp]: "enrollment_tokens (insertDefaultSmartRoutingPolicyTx s k t) = enrollment_tokens s"
  by (simp add: insertDefaultSmartRoutingPolicyTx_def split: option.split)

lemma tokens_create: "CreateNodeWithAddresses s name v4 v6 fresh t = Inr x \<Longrightarrow> tokens_step s (fst x)"
  by (auto simp: CreateNodeWithAddresses_def Let_def split: if_splits intro!: tokens_same)

lemma tokens_ipv6: "SetNodePublicIPv6 s k v t = Inr x \<Longrightarrow> tokens_step s (fst x)"
proof -
  assume "SetNodePublicIPv6 s k v t = Inr x"
  then consider "fst x = s" | f s1 where "update_one_node s k f = Inr s1" "fst x = reset_node_ipv6_health s1 k"
    by (auto simp: SetNodePublicIPv6_def split: if_splits dest!: and_readD)
  then show ?thesis
    by cases (auto intro!: tokens_same simp: reset_node_ipv6_health_def dest: tokens_one_node)
qed

lemma tokens_cache_size: "SetNodeCacheMaxSizeGB s k v t = Inr x \<Longrightarrow> tokens_step s (fst x)"
  by (auto simp: SetNodeCacheMaxSizeGB_def dest!: and_readD tokens_one_node intro!: tokens_same)

lemma tokens_capacity: "SetNodeNginxCapacity s k v t = Inr x \<Longrightarrow> tokens_step s (fst x)"
  by (auto simp: SetNodeNginxCapacity_def dest!: and_readD tokens_one_node intro!: tokens_same)

lemma tokens_capabilities: "SetNodeCapabilities s k v t = Inr s' \<Longrightarrow> tokens_step s s'"
  by (auto simp: SetNodeCapabilities_def split: if_splits dest!: tokens_one_node intro!: tokens_same)

lemma tokens_certify: "SetNodeCertificate s k fp t = Inr s' \<Longrightarrow> tokens_step s s'"
  by (auto simp: SetNodeCertificate_def split: if_splits intro!: tokens_same)

lemma tokens_consume: "ConsumeEnrollmentToken H s tok t = Inr x \<Longrightarrow> tokens_step s (fst x)"
proof -
  assume "ConsumeEnrollmentToken H s tok t = Inr x"
  then have *: "enrollment_tokens (fst x) = update_rows (\<lambda>r. et_TokenHash r = H tok \<and> et_UsedAt r = None)
      (\<lambda>r. r\<lparr>et_UsedAt := Some t\<rparr>) (enrollment_tokens s)"
    by (auto simp: ConsumeEnrollmentToken_def Let_def split: if_splits)
  show ?thesis unfolding tokens_step_def * by (force simp: set_update_rows)
qed

lemma tokens_heartbeat: "tokens_step s (fst (HeartbeatWithArtifacts s k v e r a b c d u t))"
proof -
  have *: "enrollment_tokens (ReconcileNodeUpgrades s t) = enrollment_tokens s" for s
    using framed_ReconcileNodeUpgrades [of s t] by (simp add: framed_def)
  have "enrollment_tokens s1 = enrollment_tokens s" if "RecordPublishApply s k rep t = Inr s1" for rep s1
    using framed_RecordPublishApply [OF that] by (simp add: framed_def)
  moreover have "enrollment_tokens s1 = enrollment_tokens s" if "ReconcilePublishTasks s t = Inr s1" for s s1
    using framed_ReconcilePublishTasks [OF that] by (simp add: framed_def)
  ultimately have "enrollment_tokens (fst (HeartbeatWithArtifacts s k v e r a b c d u t)) = enrollment_tokens s"
    by (auto simp: HeartbeatWithArtifacts_def Let_def * dest!: tokens_one_node split: sum.split option.split)
  then show ?thesis by (rule tokens_same)
qed

lemma tokens_revoke: "revoke_node s k t = Inr s' \<Longrightarrow>
    enrollment_tokens s' = delete_rows (\<lambda>r. et_NodeID r = k \<and> et_UsedAt r = None) (enrollment_tokens s)"
  by (auto simp: revoke_node_def FailActiveNodeUpgrade_def dest!: update_one_nodeD)

lemma tokens_set_status:
  assumes "setNodeStatus s k st manual t = Inr x"
  shows "enrollment_tokens (fst x) = (if st = NodeRevoked
    then delete_rows (\<lambda>r. et_NodeID r = k \<and> et_UsedAt r = None) (enrollment_tokens s) else enrollment_tokens s)"
proof -
  define s1 where "s1 = fst (if manual then disable_smart_routing s k t else (s, False))"
  have "enrollment_tokens s1 = enrollment_tokens s" by (simp add: s1_def disable_smart_routing_def Let_def)
  moreover from assms obtain s2 where
    "(if st = NodeRevoked then revoke_node s1 k t
        else update_one_node s1 k (\<lambda>n. n\<lparr>nd_Status := st, nd_MonitorAutoPaused := False, nd_UpdatedAt := t\<rparr>)) = Inr s2"
    "fst x = reset_abnormal_rounds s2 k t"
    by (auto simp: setNodeStatus_def s1_def split_beta split: if_splits)
  ultimately show ?thesis
    by (auto simp: reset_abnormal_rounds_def dest: tokens_revoke tokens_one_node split: if_splits)
qed

lemma tokens_set_status_step: "setNodeStatus s k st manual t = Inr x \<Longrightarrow> tokens_step s (fst x)"
proof (rule tokens_subset)
  assume "setNodeStatus s k st manual t = Inr x"
  from tokens_set_status [OF this] show "set (enrollment_tokens (fst x)) \<subseteq> set (enrollment_tokens s)"
    by (cases "st = NodeRevoked") auto
qed

lemma tokens_and_read_job: "and_read_job k s1 = Inr x \<Longrightarrow> fst x = s1"
  by (auto dest: and_read_jobD)

lemma tokens_prepare: "PrepareNodeUninstall s k affected ready t = Inr x \<Longrightarrow> tokens_step s (fst x)"
proof -
  assume a: "PrepareNodeUninstall s k affected ready t = Inr x"
  obtain n where n: "find_node s k = Some n"
    using a unfolding PrepareNodeUninstall_def by (cases "find_node s k") simp_all
  have read: "tokens_step s (fst x)" if "and_read_job k (s\<lparr>uninstall_jobs := js\<rparr>) = Inr x" for js
    using tokens_and_read_job [OF that] by (simp add: tokens_same)
  show ?thesis
  proof (cases "find_job s k")
    case None
    with a show ?thesis unfolding PrepareNodeUninstall_def n None option.case by (metis Inl_not_Inr read)
  next
    case (Some j)
    show ?thesis
    proof (cases "uninstallJobBlocksStatus (uj_Status j)")
      case True
      with a have "x = (s, read_job j)" unfolding PrepareNodeUninstall_def n Some option.case by (metis Inl_not_Inr sum.inject(2))
      then show ?thesis by simp
    next
      case False
      with a show ?thesis unfolding PrepareNodeUninstall_def n Some option.case by (metis Inl_not_Inr read)
    qed
  qed
qed

lemma tokens_issue: "IssueNodeUninstallToken H s k tok ex t = Inr x \<Longrightarrow> tokens_step s (fst x)"
  by (auto simp: IssueNodeUninstallToken_def split: if_splits dest!: and_read_jobD intro!: tokens_same)

lemma tokens_start: "StartNodeUninstall H s tok t = Inr x \<Longrightarrow> tokens_step s (fst x)"
  by (auto simp: StartNodeUninstall_def split: if_splits dest!: and_read_jobD intro!: tokens_same)

lemma tokens_fail: "FailNodeUninstall H s tok detail t = Inr x \<Longrightarrow> tokens_step s (fst x)"
  by (auto simp: FailNodeUninstall_def Let_def split: if_splits dest!: and_read_jobD intro!: tokens_same)

lemma tokens_completion: "tokens_step s (completeNodeUninstall s k st forced detail t)"
  by (rule tokens_subset) (auto simp: completeNodeUninstall_def Let_def)

lemma tokens_complete: "CompleteNodeUninstall H s tok t = Inr x \<Longrightarrow> tokens_step s (fst x)"
  by (auto simp: CompleteNodeUninstall_def tokens_completion split: if_splits dest!: and_read_jobD)

lemma tokens_force: "ForceCompleteNodeUninstall s k detail t = Inr x \<Longrightarrow> tokens_step s (fst x)"
  by (auto simp: ForceCompleteNodeUninstall_def tokens_completion split: if_splits dest!: and_read_jobD)

lemma tokens_cancel: "CancelNodeUninstall s k t = Inr x \<Longrightarrow> tokens_step s (fst x)"
  by (auto simp: CancelNodeUninstall_def split: if_splits dest!: and_read_jobD intro!: tokens_same)

lemma tokens_delete: "DeleteNode s k = Inr s' \<Longrightarrow> tokens_step s s'"
  by (rule tokens_subset) (auto simp: DeleteNode_def delete_node_rows_def split: if_splits)

lemma tokens_tx: "reconcileSmartRoutingNodeTx s p tr t = Inr x \<Longrightarrow> enrollment_tokens (fst x) = enrollment_tokens s"
  by (auto simp: reconcileSmartRoutingNodeTx_def Let_def split_beta split: option.splits if_splits)

lemma tokens_policies: "reconcile_policies s ps t = Inr x \<Longrightarrow> enrollment_tokens (fst x) = enrollment_tokens s"
proof (induction s ps t arbitrary: x rule: reconcile_policies.induct)
  case (2 s p ps at)
  from 2(2) obtain y z where y: "reconcile_policy s p at = Inr y" and z: "reconcile_policies (fst y) ps at = Inr z"
    and x: "fst x = fst z" by (auto split: sum.splits prod.splits)
  have "enrollment_tokens (fst y) = enrollment_tokens s"
    using tokens_tx [OF y [unfolded reconcile_policy_def Let_def]] unfolding if_distrib [of enrollment_tokens] by simp
  moreover have "enrollment_tokens (fst z) = enrollment_tokens (fst y)"
    using 2(1) [of y "fst y" "snd y" z] y z by simp
  ultimately show ?case unfolding x by (rule trans [rotated])
qed simp

lemma tokens_routing: "ReconcileSmartRouting s t = Inr x \<Longrightarrow> tokens_step s (fst x)"
  by (auto simp: ReconcileSmartRouting_def intro: tokens_same tokens_policies)

lemma tokens_update_routing: "UpdateSmartRoutingPolicy s k c t fresh = Inr x \<Longrightarrow> tokens_step s (fst x)"
proof -
  assume "UpdateSmartRoutingPolicy s k c t fresh = Inr x"
  from update_routing_tx [OF this] obtain s2 q tr y where y: "reconcileSmartRoutingNodeTx s2 q tr t = Inr y"
    "fst x = fst y" "framed s s2" by blast
  have "enrollment_tokens (fst x) = enrollment_tokens s"
    using tokens_tx [OF y(1)] y(2,3) by (simp add: framed_def)
  then show ?thesis by (rule tokens_same)
qed

definition renews :: "(string \<Rightarrow> string) \<Rightarrow> string \<Rightarrow> node_call \<Rightarrow> bool" where
  "renews H tok call = (case call of CallNewToken _ tok' _ \<Rightarrow> H tok' = H tok | _ \<Rightarrow> False)"

definition spent :: "(string \<Rightarrow> string) \<Rightarrow> string \<Rightarrow> store \<Rightarrow> bool" where
  "spent H tok s \<longleftrightarrow> (\<forall>r \<in> set (enrollment_tokens s). et_TokenHash r = H tok \<longrightarrow> et_UsedAt r \<noteq> None)"

lemma spent_step: "tokens_step s s' \<Longrightarrow> spent H tok s \<Longrightarrow> spent H tok s'"
  by (fastforce simp: tokens_step_def spent_def)

lemma spent_committed: "(\<And>x. r = Inr x \<Longrightarrow> tokens_step s (f x)) \<Longrightarrow> spent H tok s \<Longrightarrow> spent H tok (committed s f r)"
  by (cases r) (auto simp: committed_def intro: spent_step)

lemma spent_consumed: "ConsumeEnrollmentToken H s tok t = Inr x \<Longrightarrow> spent H tok (fst x)"
proof -
  define P where "P = (\<lambda>r::enrollment_token. et_TokenHash r = H tok \<and> et_UsedAt r = None)"
  assume "ConsumeEnrollmentToken H s tok t = Inr x"
  then have *: "enrollment_tokens (fst x) = update_rows P (\<lambda>r. r\<lparr>et_UsedAt := Some t\<rparr>) (enrollment_tokens s)"
    by (auto simp: ConsumeEnrollmentToken_def Let_def P_def split: if_splits)
  show ?thesis
    unfolding spent_def
  proof (intro ballI impI)
    fix r assume "r \<in> set (enrollment_tokens (fst x))" and h: "et_TokenHash r = H tok"
    then obtain q where "r = (if P q then q\<lparr>et_UsedAt := Some t\<rparr> else q)"
      by (auto simp: * set_update_rows)
    with h show "et_UsedAt r \<noteq> None" by (cases "P q") (auto simp: P_def)
  qed
qed

lemma spent_new: "CreateEnrollmentToken H s k tok' ex t = Inr s' \<Longrightarrow> H tok' \<noteq> H tok \<Longrightarrow> spent H tok s \<Longrightarrow> spent H tok s'"
  by (auto simp: CreateEnrollmentToken_def spent_def split: if_splits)

lemma spent_exec: "spent H tok s \<Longrightarrow> \<not> renews H tok call \<Longrightarrow> spent H tok (node_exec H t call s)"
proof (cases call)
  case (CallNewToken k tok' ex)
  then show "spent H tok s \<Longrightarrow> \<not> renews H tok call \<Longrightarrow> ?thesis"
    by (cases "CreateEnrollmentToken H s k tok' ex t") (auto simp: committed_def renews_def dest: spent_new)
next
  case (CallHeartbeat k v e r a b c d u)
  then show "spent H tok s \<Longrightarrow> \<not> renews H tok call \<Longrightarrow> ?thesis" by (auto intro: spent_step tokens_heartbeat)
qed (auto intro!: spent_committed intro: tokens_create tokens_ipv6 tokens_cache_size tokens_capacity
      tokens_capabilities tokens_certify tokens_consume tokens_set_status_step tokens_prepare tokens_issue tokens_start
      tokens_fail tokens_complete tokens_force tokens_cancel tokens_delete tokens_update_routing tokens_routing
      tokens_same tokens_tx)

lemma spent_run:
  "spent H tok s \<Longrightarrow> list_all (\<lambda>(t, call). \<not> renews H tok call) calls \<Longrightarrow> spent H tok (node_run H s calls)"
  by (induction H s calls rule: node_run.induct) (auto intro: spent_exec)

lemma spent_refused: "spent H tok s \<Longrightarrow> ConsumeEnrollmentToken H s tok t = Inl ErrTokenInvalid"
  by (auto simp: ConsumeEnrollmentToken_def spent_def Let_def split: option.split dest!: find_row_SomeD)

subsection \<open>Revocation and single use\<close>

text \<open>
  C24: Safety. Once a token has enrolled a node, or the node it was made for has been revoked, no later
  enrollment with the token succeeds, whatever calls come in between, unless an administrator creates a
  token with the same digest again.
\<close>

theorem enrollment_tokens_are_void_after:
  assumes "distinct (map et_TokenHash (enrollment_tokens s))"
    and "r \<in> set (enrollment_tokens s)" and "et_TokenHash r = H tok"
    and "(\<exists>i. ConsumeEnrollmentToken H s tok t = Inr (s1, i))
      \<or> (\<exists>manual b. setNodeStatus s (et_NodeID r) NodeRevoked manual t = Inr (s1, b))"
    and "list_all (\<lambda>(t, call). \<not> renews H tok call) calls"
  shows "ConsumeEnrollmentToken H (node_run H s1 calls) tok t' = Inl ErrTokenInvalid"
proof -
  have "spent H tok s1"
    using assms(4)
  proof
    assume "\<exists>i. ConsumeEnrollmentToken H s tok t = Inr (s1, i)"
    then show ?thesis using spent_consumed by fastforce
  next
    assume "\<exists>manual b. setNodeStatus s (et_NodeID r) NodeRevoked manual t = Inr (s1, b)"
    then have "enrollment_tokens s1
        = delete_rows (\<lambda>x. et_NodeID x = et_NodeID r \<and> et_UsedAt x = None) (enrollment_tokens s)"
      using tokens_set_status by fastforce
    moreover have "x = r" if "x \<in> set (enrollment_tokens s)" "et_TokenHash x = H tok" for x
      using assms(1-3) that by (metis distinct_map inj_onD)
    ultimately show ?thesis by (auto simp: spent_def)
  qed
  then show ?thesis by (intro spent_refused spent_run assms(5))
qed

definition invited_store :: store where
  "invited_store = empty_store\<lparr>nodes := [(sample_node ''n1'')\<lparr>nd_Status := NodePending\<rparr>], enrollment_tokens :=
     [\<lparr>et_TokenHash = ''e'', et_NodeID = ''n1'', et_ExpiresAt = 900, et_UsedAt = None, et_CreatedAt = 0\<rparr>]\<rparr>"

definition enrolled_store :: store where
  "enrolled_store = fst (projr (ConsumeEnrollmentToken (\<lambda>x. x) invited_store ''e'' 1))"

lemma enrollment_tokens_are_void_after_witness:
  "ConsumeEnrollmentToken (\<lambda>x. x) (node_run (\<lambda>x. x) enrolled_store
     [(2, CallCertify ''n1'' ''f''), (3, CallSetStatus ''n1'' NodeRevoked True), (4, CallSetStatus ''n1'' NodeActive True)])
     ''e'' 5 = Inl ErrTokenInvalid"
proof (rule enrollment_tokens_are_void_after [where s = invited_store and t = 1
      and r = "\<lparr>et_TokenHash = ''e'', et_NodeID = ''n1'', et_ExpiresAt = 900, et_UsedAt = None, et_CreatedAt = 0\<rparr>"])
  have "ConsumeEnrollmentToken (\<lambda>x. x) invited_store ''e'' 1 = Inr (enrolled_store, ''n1'')" by code_simp
  then show "(\<exists>i. ConsumeEnrollmentToken (\<lambda>x. x) invited_store ''e'' 1 = Inr (enrolled_store, i))
      \<or> (\<exists>manual b. setNodeStatus invited_store (et_NodeID \<lparr>et_TokenHash = ''e'', et_NodeID = ''n1'', et_ExpiresAt = 900,
           et_UsedAt = None, et_CreatedAt = 0\<rparr>) NodeRevoked manual 1 = Inr (enrolled_store, b))" by blast
qed (simp_all add: invited_store_def renews_def)

subsection \<open>Smart routing does not look at removals\<close>

text \<open>
  A node that smart routing has paused may be prepared for removal: \<open>PrepareNodeUninstall\<close> asks for a paused or a
  revoked node only.
\<close>

definition paused_store :: store where
  "paused_store = insertDefaultSmartRoutingPolicyTx
     (empty_store\<lparr>nodes := [(sample_node ''n1'')\<lparr>nd_Status := NodeDraining, nd_MonitorAutoPaused := True\<rparr>]\<rparr>) ''n1'' 0"

lemma prepared_removal:
  assumes "PrepareNodeUninstall s i affected ready t = Inr (s1, job)"
  shows "active_uninstall s1 i \<and> nodes s1 = nodes s \<and> smart_routing s1 = smart_routing s"
proof (cases "\<exists>j. find_job s i = Some j \<and> uninstallJobBlocksStatus (uj_Status j)")
  case True
  then obtain j where j: "find_job s i = Some j" "uninstallJobBlocksStatus (uj_Status j)" by blast
  with assms have "s1 = s" by (auto simp: PrepareNodeUninstall_def split: option.splits if_splits)
  moreover from j have "active_uninstall s i"
    by (auto simp: active_uninstall_def find_job_def list_ex_iff uninstallJobBlocksStatus_def dest!: find_row_SomeD)
  ultimately show ?thesis by simp
next
  case False
  then have "\<exists>st. s1 = s\<lparr>uninstall_jobs := upsert uj_NodeID (new_job i st
      (uniqueStrings (affected @ sites_of_node s i)) ready t) (uninstall_jobs s)\<rparr>"
    using assms by (auto simp: PrepareNodeUninstall_def and_read_job_def split: option.splits if_splits sum.splits)
  then obtain st where s1: "s1 = s\<lparr>uninstall_jobs := upsert uj_NodeID (new_job i st
      (uniqueStrings (affected @ sites_of_node s i)) ready t) (uninstall_jobs s)\<rparr>" by blast
  have "find_row (\<lambda>j. uj_NodeID j = i) (uninstall_jobs s1)
      = Some (new_job i st (uniqueStrings (affected @ sites_of_node s i)) ready t)"
    using find_row_upsert_same [of uj_NodeID "new_job i st (uniqueStrings (affected @ sites_of_node s i)) ready t"]
    by (simp add: s1 new_job_def)
  then have "active_uninstall s1 i"
    unfolding active_uninstall_def list_ex_iff by (intro bexI) (auto simp: new_job_def dest: find_row_SomeD)
  then show ?thesis by (simp add: s1)
qed

text \<open>
  C25: Safety gap. Take any node that smart routing has paused. When a removal has been prepared for it and
  the gates of its policy are open at the time of a reconciliation, the reconciliation puts the node back to
  serving although its removal is active; an administrator who asks for the same change is refused.
\<close>

theorem routing_resumes_a_node_under_removal:
  assumes "routing_wf s" and "find_node s i = Some n" and "nd_Status n = NodeDraining" and "nd_MonitorAutoPaused n"
    and "find_policy s i = Some p"
    and "BlockedBy (p\<lparr>sp_ScheduleGate := schedule_gate_at at (sp_ScheduleEnabled p) (sp_ScheduleWindows p)\<rparr>) = []"
    and "PrepareNodeUninstall s i affected ready t = Inr (s1, job)"
  shows "\<exists>s2 trs m. ReconcileSmartRouting s1 at = Inr (s2, trs) \<and> find_node s2 i = Some m \<and> nd_Status m = NodeActive
    \<and> active_uninstall s2 i \<and> setNodeStatus s1 i NodeActive manual at = Inl ErrUninstallActive"
proof -
  note s1 = prepared_removal [OF assms(7)]
  have wf: "routing_wf s1" using assms(1) s1 by (simp add: routing_wf_def)
  have found: "find_node s1 i = Some n" and policy: "find_policy s1 i = Some p"
    using assms(2,5) s1 by (simp_all add: find_node_def find_policy_def)
  obtain trs where run: "ReconcileSmartRouting s1 at = Inr (reconciled s1 at, trs)"
    using ReconcileSmartRouting_reconciled [OF wf, of at] by blast
  have id: "nd_ID n = i" using found by (auto simp: find_node_def dest: find_row_SomeD)
  have "BlockedBy (reconciled_policy at p) = []" using assms(6) by (auto simp: BlockedBy_def reconciled_policy_def Let_def split: if_splits)
  then have "nd_Status (reconciled_node s1 at n) = NodeActive"
    using assms(3,4) policy id by (simp add: reconciled_node_def ruled_node_fields next_node_status_def)
  moreover have "find_node (reconciled s1 at) i = Some (reconciled_node s1 at n)"
    using find_node_map [of "reconciled_node s1 at" "reconciled s1 at" s1 i] found by (simp add: reconciled_def)
  moreover have "active_uninstall (reconciled s1 at) i" using s1 by (simp add: active_uninstall_def reconciled_def)
  moreover have "setNodeStatus s1 i NodeActive manual at = Inl ErrUninstallActive"
    using found assms(3) s1 by (simp add: setNodeStatus_def)
  ultimately show ?thesis using run by blast
qed

lemma routing_resumes_a_node_under_removal_witness:
  "\<exists>s1 job s2 trs m. PrepareNodeUninstall paused_store ''n1'' [] 300 1 = Inr (s1, job)
     \<and> ReconcileSmartRouting s1 2 = Inr (s2, trs) \<and> find_node s2 ''n1'' = Some m \<and> nd_Status m = NodeActive
     \<and> active_uninstall s2 ''n1''"
proof -
  have "is_ok (PrepareNodeUninstall paused_store ''n1'' [] 300 1)" by code_simp
  then obtain s1 job where s1: "PrepareNodeUninstall paused_store ''n1'' [] 300 1 = Inr (s1, job)"
    unfolding is_ok_iff by (metis surj_pair)
  have wf: "routing_wf paused_store"
    by (simp add: routing_wf_def paused_store_def insertDefaultSmartRoutingPolicyTx_def find_policy_def
        default_policy_def Let_def empty_store_def sample_node_def)
  have node: "find_node paused_store ''n1'' = Some ((sample_node ''n1'')\<lparr>nd_Status := NodeDraining, nd_MonitorAutoPaused := True\<rparr>)"
    and policy: "find_policy paused_store ''n1'' = Some (default_policy ''n1'' 0)"
    by (simp_all add: paused_store_def insertDefaultSmartRoutingPolicyTx_def find_policy_def find_node_def
        default_policy_def Let_def empty_store_def sample_node_def)
  have open_gates: "BlockedBy ((default_policy ''n1'' 0)\<lparr>sp_ScheduleGate := schedule_gate_at 2
      (sp_ScheduleEnabled (default_policy ''n1'' 0)) (sp_ScheduleWindows (default_policy ''n1'' 0))\<rparr>) = []"
    by (simp add: BlockedBy_def default_policy_def Let_def DefaultSmartRoutingConfig_def schedule_gate_at_def)
  from routing_resumes_a_node_under_removal [OF wf node _ _ policy open_gates s1, of True] s1
  show ?thesis by auto
qed

end
