(* ===== verification/Site_Deletion.thy ===== *)
theory Site_Deletion
  imports Publisher DNS_Records
begin

section \<open>Deleting a site (internal/store/site\_deletion.go, internal/control/site\_deletion.go)\<close>

text \<open>
  A deletion is a task of its own kind with a job that records its phase: DNS is withdrawn, then the
  nodes get configurations without the site and have to confirm them, then the certificate is cleaned
  up and the row of the site goes with everything that refers to it. The manager carries a job as far
  as it gets in one call and is called again by the health loop and by the console until the task is
  closed. The DNS provider, the cleaner of certificates, the rendering of configurations and the clock
  are an environment; the entries of the audit log are left out.
\<close>

subsection \<open>The store: beginning and reading\<close>

definition active_deletion :: "store \<Rightarrow> string \<Rightarrow> deployment_task option" where
  "active_deletion s siteID = latest dt_CreatedAt (filter (\<lambda>t. dt_SiteID t = siteID \<and> dt_Kind t = KindDeleteSite
     \<and> active_task_status (dt_Status t)) (deployment_tasks s))"

definition conflicting_kinds :: "task_kind set" where
  "conflicting_kinds = {KindPublishSite, KindOther ''issue_certificate'', KindOther ''renew_certificate''}"

definition conflicting_tasks :: "store \<Rightarrow> string \<Rightarrow> nat" where
  "conflicting_tasks s siteID = count_rows (\<lambda>t. dt_SiteID t = siteID \<and> dt_Kind t \<in> conflicting_kinds
     \<and> active_task_status (dt_Status t)) (deployment_tasks s)"

definition deletion_task :: "string \<Rightarrow> string \<Rightarrow> time \<Rightarrow> time \<Rightarrow> deployment_task" where
  "deletion_task newID siteID deadline created =
     \<lparr>dt_ID = newID, dt_Kind = KindDeleteSite, dt_SiteID = siteID, dt_Status = TaskQueued,
      dt_Detail = err ''queued for safe site deletion'', dt_DeadlineAt = Some deadline,
      dt_CreatedAt = created, dt_UpdatedAt = created\<rparr>"

definition deletion_job :: "string \<Rightarrow> string \<Rightarrow> string \<Rightarrow> string \<Rightarrow> time \<Rightarrow> site_deletion_job" where
  "deletion_job siteID taskID actor remoteAddr created =
     \<lparr>sd_SiteID = siteID, sd_TaskID = taskID, sd_Phase = SiteDeletionWithdrawingDNS, sd_Actor = actor,
      sd_RemoteAddr = remoteAddr, sd_CreatedAt = created, sd_UpdatedAt = created\<rparr>"

text \<open>A job that is begun again keeps the time at which it was created first.\<close>

definition upsert_job :: "site_deletion_job \<Rightarrow> site_deletion_job list \<Rightarrow> site_deletion_job list" where
  "upsert_job j js =
     (if list_ex (\<lambda>x. sd_SiteID x = sd_SiteID j) js
      then update_rows (\<lambda>x. sd_SiteID x = sd_SiteID j) (\<lambda>x. j\<lparr>sd_CreatedAt := sd_CreatedAt x\<rparr>) js
      else js @ [j])"

definition BeginSiteDeletion :: "store \<Rightarrow> string \<Rightarrow> string \<Rightarrow> string \<Rightarrow> string \<Rightarrow> time \<Rightarrow> time
    \<Rightarrow> (store \<times> site \<times> deployment_task \<times> bool) result" where
  "BeginSiteDeletion s siteID actor remoteAddr newID deadline now =
     (case find_site s siteID of None \<Rightarrow> Inl ErrNotFound | Some x \<Rightarrow>
      case active_deletion s siteID of Some existing \<Rightarrow> Inr (s, x, existing, False) | None \<Rightarrow>
      if conflicting_tasks s siteID \<noteq> 0 then Inl ErrSiteTaskActive
      else if list_ex (\<lambda>t. dt_ID t = newID) (deployment_tasks s) then Inl constraint_error
      else if count_rows (\<lambda>x. st_ID x = siteID) (sites s) \<noteq> 1 then Inl ErrNotFound
      else Inr (s\<lparr>deployment_tasks := deployment_tasks s @ [deletion_task newID siteID deadline now],
                 sites := update_rows (\<lambda>x. st_ID x = siteID)
                   (\<lambda>x. x\<lparr>st_Enabled := False, st_Deleting := True, st_UpdatedAt := now\<rparr>) (sites s),
                 site_deletions := upsert_job (deletion_job siteID newID actor remoteAddr now) (site_deletions s)\<rparr>,
                x\<lparr>st_Enabled := False, st_Deleting := True, st_UpdatedAt := now\<rparr>,
                deletion_task newID siteID deadline now, True))"

definition SiteDeletionJobForTask :: "store \<Rightarrow> string \<Rightarrow> site_deletion_job option" where
  "SiteDeletionJobForTask s taskID = find_row (\<lambda>j. sd_TaskID j = taskID) (site_deletions s)"

definition ActiveSiteDeletionJobs :: "store \<Rightarrow> site_deletion_job list" where
  "ActiveSiteDeletionJobs s = sort_key (\<lambda>j. stamp (sd_CreatedAt j))
     (filter (\<lambda>j. list_ex (\<lambda>t. dt_ID t = sd_TaskID j \<and> active_task_status (dt_Status t)) (deployment_tasks s))
        (site_deletions s))"

definition LatestSiteDeletionTask :: "store \<Rightarrow> string \<Rightarrow> deployment_task option" where
  "LatestSiteDeletionTask s siteID = latest dt_CreatedAt
     (filter (\<lambda>t. dt_SiteID t = siteID \<and> dt_Kind t = KindDeleteSite) (deployment_tasks s))"

subsection \<open>The store: phases\<close>

definition set_phase :: "string \<Rightarrow> deletion_phase \<Rightarrow> time \<Rightarrow> site_deletion_job list \<Rightarrow> site_deletion_job list" where
  "set_phase taskID phase updatedAt =
     update_rows (\<lambda>j. sd_TaskID j = taskID) (\<lambda>j. j\<lparr>sd_Phase := phase, sd_UpdatedAt := updatedAt\<rparr>)"

definition set_task :: "string \<Rightarrow> task_status \<Rightarrow> fmt_text \<Rightarrow> time \<Rightarrow> deployment_task list \<Rightarrow> deployment_task list" where
  "set_task taskID status detail updatedAt = update_rows (\<lambda>t. dt_ID t = taskID)
     (\<lambda>t. t\<lparr>dt_Status := status, dt_Detail := detail, dt_UpdatedAt := updatedAt\<rparr>)"

definition SetSiteDeletionPhase :: "store \<Rightarrow> string \<Rightarrow> deletion_phase \<Rightarrow> task_status \<Rightarrow> fmt_text \<Rightarrow> time \<Rightarrow> store result" where
  "SetSiteDeletionPhase s taskID phase status detail now =
     (if count_rows (\<lambda>j. sd_TaskID j = taskID) (site_deletions s) \<noteq> 1 then Inl ErrNotFound
      else Inr (s\<lparr>site_deletions := set_phase taskID phase now (site_deletions s),
                  deployment_tasks := set_task taskID status detail now (deployment_tasks s)\<rparr>))"

fun insert_deletion_targets :: "store \<Rightarrow> string \<Rightarrow> publish_target list \<Rightarrow> store result" where
  "insert_deletion_targets s taskID [] = Inr s"
| "insert_deletion_targets s taskID (t # ts) =
     (if tg_NodeID t = [] \<or> tg_TargetVersion t < 1 then Inl (err ''invalid site deletion node target'')
      else if list_ex (\<lambda>p. ptn_TaskID p = taskID \<and> ptn_NodeID p = tg_NodeID t) (publish_nodes s)
          \<or> find_task s taskID = None \<or> find_node s (tg_NodeID t) = None
        then Inl constraint_error
      else insert_deletion_targets (s\<lparr>publish_nodes := publish_nodes s @ [pending_row taskID t]\<rparr>) taskID ts)"

definition StageSiteDeletion :: "store \<Rightarrow> string \<Rightarrow> node_state_update list \<Rightarrow> publish_target list \<Rightarrow> time \<Rightarrow> store result" where
  "StageSiteDeletion s taskID updates targets now =
     (case ensureNodesNotUpgradingTx s (upgradedNodeIDs updates targets) of Inl e \<Rightarrow> Inl e | Inr _ \<Rightarrow>
      case insert_deletion_targets s taskID targets of Inl e \<Rightarrow> Inl e | Inr s1 \<Rightarrow>
      case saveNodeStatesTx s1 updates now of Inl e \<Rightarrow> Inl e | Inr s2 \<Rightarrow>
      SetSiteDeletionPhase s2 taskID SiteDeletionWaitingForEdges TaskApplying
        (err ''waiting for active edge nodes to remove the site'') now)"

definition time_out_removal :: "store \<Rightarrow> string \<Rightarrow> store" where
  "time_out_removal s taskID = s\<lparr>publish_nodes := update_rows
     (\<lambda>p. ptn_TaskID p = taskID \<and> ptn_Status p = PublishNodePending)
     (\<lambda>p. p\<lparr>ptn_Status := PublishNodeTimedOut, ptn_ErrorCode := ''confirmation_timeout'',
            ptn_Detail := ''edge did not confirm site removal before the deletion deadline''\<rparr>)
     (publish_nodes s)\<rparr>"

definition failed_removal :: "nat \<Rightarrow> nat \<Rightarrow> nat \<Rightarrow> task_status \<times> fmt_text" where
  "failed_removal tot succeeded failed =
     (if succeeded > 0 then (TaskPartial,
        Errorf ''site removed by %d of %d active edge node(s)'' [ArgI (int succeeded), ArgI (int tot)])
      else (TaskFailed, Errorf ''%d active edge node(s) did not remove the site'' [ArgI (int failed)]))"

text \<open>
  Like a heartbeat this is no transaction: confirmations and timeouts that are recorded stay when
  a later statement fails.
\<close>

definition SiteDeletionReady :: "store \<Rightarrow> string \<Rightarrow> time \<Rightarrow> store \<times> bool result" where
  "SiteDeletionReady s taskID now =
     (case GetTask s taskID of Inl e \<Rightarrow> (s, Inl e) | Inr task \<Rightarrow>
      if \<not> active_task_status (dt_Status task) then (s, Inr False)
      else
        (let s1 = confirm_applied s taskID now;
             tot = task_total s1 taskID; pending = task_pending s1 taskID;
             succeeded = task_succeeded s1 taskID; failed = task_failed s1 taskID;
             expired = (case dt_DeadlineAt task of None \<Rightarrow> False | Some d \<Rightarrow> \<not> d > now)
         in if pending > 0 \<and> \<not> expired then (s1, Inr False)
            else
              (let s2 = (if pending > 0 then time_out_removal s1 taskID else s1);
                   failed' = (if pending > 0 then failed + pending else failed);
                   outcome = failed_removal tot succeeded failed'
               in if failed' > 0
                  then (case UpdateTask s2 taskID (fst outcome) (snd outcome) now of
                      Inl e \<Rightarrow> (s2, Inl e) | Inr s3 \<Rightarrow> (s3, Inr False))
                  else if tot = 0 \<or> succeeded = tot
                  then (case SetSiteDeletionPhase s2 taskID SiteDeletionFinalizing TaskApplying
                          (err ''edge removal confirmed; cleaning certificate material'') now of
                      Inl e \<Rightarrow> (s2, Inl e) | Inr s3 \<Rightarrow> (s3, Inr True))
                  else (s2, Inr False))))"

definition FailSiteDeletion :: "store \<Rightarrow> string \<Rightarrow> fmt_text \<Rightarrow> time \<Rightarrow> store result" where
  "FailSiteDeletion s taskID detail now = UpdateTask s taskID TaskFailed detail now"

text \<open>
  Every table with a column \<open>REFERENCES sites(id) ON DELETE CASCADE\<close> loses the rows of the site (the
  tables of static assets and cache operations are not part of the model).
\<close>

definition delete_site_rows :: "store \<Rightarrow> string \<Rightarrow> store" where
  "delete_site_rows s siteID = s\<lparr>
     sites := delete_rows (\<lambda>x. st_ID x = siteID) (sites s),
     site_domains := delete_rows (\<lambda>c. snd c = siteID) (site_domains s),
     certificates := delete_rows (\<lambda>c. ce_SiteID c = siteID) (certificates s),
     publications := delete_rows (\<lambda>p. st_ID (sp_Site p) = siteID) (publications s),
     site_deletions := delete_rows (\<lambda>j. sd_SiteID j = siteID) (site_deletions s),
     site_healths := delete_rows (\<lambda>h. sh_SiteID h = siteID) (site_healths s),
     drains := delete_rows (\<lambda>d. dr_SiteID d = siteID) (drains s)\<rparr>"

definition CompleteSiteDeletion :: "store \<Rightarrow> string \<Rightarrow> time \<Rightarrow> store result" where
  "CompleteSiteDeletion s taskID now =
     (case find_row (\<lambda>j. sd_TaskID j = taskID \<and> find_site s (sd_SiteID j) \<noteq> None) (site_deletions s) of
        None \<Rightarrow> Inl ErrNotFound
      | Some j \<Rightarrow>
          (let s1 = delete_site_rows s (sd_SiteID j);
               detail = Errorf ''site removed after confirmation from %d active edge node(s)''
                 [ArgI (int (task_succeeded s taskID))]
           in Inr (s1\<lparr>deployment_tasks := set_task taskID TaskSucceeded detail now (deployment_tasks s1)\<rparr>)))"

record publish_node_result =
  pr_NodeID :: string
  pr_NodeName :: string
  pr_Row :: publish_task_node

definition deploymentStatus :: "store \<Rightarrow> deployment_task \<Rightarrow> publish_node_result list" where
  "deploymentStatus s task = sort_key pr_NodeName (List.map_filter
     (\<lambda>p. map_option (\<lambda>n. \<lparr>pr_NodeID = ptn_NodeID p, pr_NodeName = nd_Name n, pr_Row = p\<rparr>) (find_node s (ptn_NodeID p)))
     (task_rows s (dt_ID task)))"

definition SiteDeletionStatus :: "store \<Rightarrow> string \<Rightarrow> (deployment_task \<times> publish_node_result list) option" where
  "SiteDeletionStatus s siteID =
     map_option (\<lambda>task. (task, deploymentStatus s task)) (LatestSiteDeletionTask s siteID)"

subsection \<open>The manager\<close>

record ('d, 'c) deletion_manager =
  dm_store :: store
  dm_dns :: 'd
  dm_certificates :: 'c

type_synonym 'c cleaner = "'c \<Rightarrow> string \<Rightarrow> 'c \<times> unit result"

record ('d, 'c) deletion_env =
  de_DNS :: "'d provider option"
  de_Certificates :: "'c cleaner option"
  de_render :: "prepared_publication \<Rightarrow> (node_state_update list \<times> publish_target list) result"
  de_clock :: "nat \<Rightarrow> time"

definition StageSiteRemoval :: "store \<Rightarrow> string \<Rightarrow> string \<Rightarrow>
    (prepared_publication \<Rightarrow> (node_state_update list \<times> publish_target list) result) \<Rightarrow> time \<Rightarrow> store result" where
  "StageSiteRemoval s taskID siteID renderNodeStateUpdates now =
     (case prepareNodeStatesWithDrains s siteID True of Inl e \<Rightarrow> Inl e | Inr p \<Rightarrow>
      case renderNodeStateUpdates p of Inl e \<Rightarrow> Inl e | Inr (updates, targets) \<Rightarrow>
      StageSiteDeletion s taskID updates targets now)"

text \<open>What one round of the loop in \<open>advance\<close> does; the flag tells whether the loop goes on.\<close>

definition withdraw :: "('d, 'c) deletion_env \<Rightarrow> time \<Rightarrow> ('d, 'c) deletion_manager \<Rightarrow> string \<Rightarrow> site_deletion_job
    \<Rightarrow> ('d, 'c) deletion_manager \<times> bool result" where
  "withdraw env now m taskID job =
     (case de_DNS env of None \<Rightarrow> (m, Inl (err ''DNS provider is not configured'')) | Some reconcile \<Rightarrow>
      case SetSiteDeletionPhase (dm_store m) taskID SiteDeletionWithdrawingDNS TaskDispatching
             (err ''withdrawing managed DNS records'') now of Inl e \<Rightarrow> (m, Inl e) | Inr s1 \<Rightarrow>
      case find_site s1 (sd_SiteID job) of None \<Rightarrow> (m\<lparr>dm_store := s1\<rparr>, Inl ErrNotFound) | Some x \<Rightarrow>
      case reconcile (dm_dns m) (st_ZoneID x) (site_owner (st_ID x)) [] of
        (d', Inl e) \<Rightarrow> (m\<lparr>dm_store := s1, dm_dns := d'\<rparr>,
           Inl (Errorf ''withdraw managed DNS for %s: %w'' [ArgS (st_Name x), ArgE e]))
      | (d', Inr _) \<Rightarrow>
          (case StageSiteRemoval s1 taskID (st_ID x) (de_render env) now of
             Inl e \<Rightarrow> (m\<lparr>dm_store := s1, dm_dns := d'\<rparr>,
               Inl (Errorf ''prepare edge removal for %s: %w'' [ArgS (st_Name x), ArgE e]))
           | Inr s2 \<Rightarrow> (m\<lparr>dm_store := s2, dm_dns := d'\<rparr>, Inr True)))"

definition await_edges :: "time \<Rightarrow> ('d, 'c) deletion_manager \<Rightarrow> string \<Rightarrow> ('d, 'c) deletion_manager \<times> bool result" where
  "await_edges now m taskID =
     (case SiteDeletionReady (dm_store m) taskID now of (s', r) \<Rightarrow> (m\<lparr>dm_store := s'\<rparr>, r))"

definition finalize :: "('d, 'c) deletion_env \<Rightarrow> time \<Rightarrow> ('d, 'c) deletion_manager \<Rightarrow> string \<Rightarrow> site_deletion_job
    \<Rightarrow> ('d, 'c) deletion_manager \<times> bool result" where
  "finalize env now m taskID job =
     (case de_Certificates env of None \<Rightarrow> (m, Inl (err ''certificate cleanup is not configured'')) | Some delete \<Rightarrow>
      case delete (dm_certificates m) (''site-'' @ sd_SiteID job) of
        (c', Inl e) \<Rightarrow> (m\<lparr>dm_certificates := c'\<rparr>, Inl (Errorf ''delete site certificate lineage: %w'' [ArgE e]))
      | (c', Inr _) \<Rightarrow>
          (case CompleteSiteDeletion (dm_store m) taskID now of
             Inl e \<Rightarrow> (m\<lparr>dm_certificates := c'\<rparr>, Inl e)
           | Inr s' \<Rightarrow> (m\<lparr>dm_store := s', dm_certificates := c'\<rparr>, Inr False)))"

definition phase_round :: "('d, 'c) deletion_env \<Rightarrow> time \<Rightarrow> ('d, 'c) deletion_manager \<Rightarrow> string
    \<Rightarrow> ('d, 'c) deletion_manager \<times> bool result" where
  "phase_round env now m taskID =
     (case SiteDeletionJobForTask (dm_store m) taskID of
        None \<Rightarrow> (m, Inr False)
      | Some job \<Rightarrow>
          (case sd_Phase job of
             SiteDeletionWithdrawingDNS \<Rightarrow> withdraw env now m taskID job
           | SiteDeletionWaitingForEdges \<Rightarrow> await_edges now m taskID
           | SiteDeletionFinalizing \<Rightarrow> finalize env now m taskID job
           | SiteDeletionPhaseOther p \<Rightarrow> (m, Inl (Errorf ''unknown site deletion phase %q'' [ArgS p]))))"

fun advance_rounds :: "('d, 'c) deletion_env \<Rightarrow> nat \<Rightarrow> nat \<Rightarrow> ('d, 'c) deletion_manager \<Rightarrow> string
    \<Rightarrow> ('d, 'c) deletion_manager \<times> unit result" where
  "advance_rounds env i 0 m taskID = (m, Inl (err ''site deletion did not converge''))"
| "advance_rounds env i (Suc n) m taskID =
     (case phase_round env (de_clock env i) m taskID of
        (m', Inl e) \<Rightarrow> (m', Inl e)
      | (m', Inr False) \<Rightarrow> (m', Inr ())
      | (m', Inr True) \<Rightarrow> advance_rounds env (Suc i) n m' taskID)"

definition advance_deletion :: "('d, 'c) deletion_env \<Rightarrow> ('d, 'c) deletion_manager \<Rightarrow> string
    \<Rightarrow> ('d, 'c) deletion_manager \<times> unit result" where
  "advance_deletion env m taskID = advance_rounds env 0 4 m taskID"

text \<open>All three callers record a failure in the task; an error of that write is dropped.\<close>

definition advance_or_fail :: "('d, 'c) deletion_env \<Rightarrow> time \<Rightarrow> ('d, 'c) deletion_manager \<Rightarrow> string
    \<Rightarrow> ('d, 'c) deletion_manager \<times> unit result" where
  "advance_or_fail env now m taskID =
     (case advance_deletion env m taskID of
        (m', Inr _) \<Rightarrow> (m', Inr ())
      | (m', Inl e) \<Rightarrow>
          (case FailSiteDeletion (dm_store m') taskID e now of
             Inl _ \<Rightarrow> (m', Inl e)
           | Inr s' \<Rightarrow> (m'\<lparr>dm_store := s'\<rparr>, Inl e)))"

definition StartSiteDeletion :: "('d, 'c) deletion_env \<Rightarrow> time \<Rightarrow> ('d, 'c) deletion_manager \<Rightarrow> string \<Rightarrow> string \<Rightarrow> string \<Rightarrow> string
    \<Rightarrow> ('d, 'c) deletion_manager \<times> unit result" where
  "StartSiteDeletion env now m siteID actor remoteAddr newID =
     (case BeginSiteDeletion (dm_store m) siteID actor remoteAddr newID (now + 90 * second) now of
        Inl e \<Rightarrow> (m, Inl e)
      | Inr (s', _, task, _) \<Rightarrow> advance_or_fail env now (m\<lparr>dm_store := s'\<rparr>) (dt_ID task))"

text \<open>The first job that fails ends a reconciliation.\<close>

fun advance_jobs :: "('d, 'c) deletion_env \<Rightarrow> time \<Rightarrow> ('d, 'c) deletion_manager \<Rightarrow> site_deletion_job list
    \<Rightarrow> ('d, 'c) deletion_manager \<times> unit result" where
  "advance_jobs env now m [] = (m, Inr ())"
| "advance_jobs env now m (job # jobs) =
     (case advance_or_fail env now m (sd_TaskID job) of
        (m', Inl e) \<Rightarrow> (m', Inl e)
      | (m', Inr _) \<Rightarrow> advance_jobs env now m' jobs)"

definition ReconcileSiteDeletions :: "('d, 'c) deletion_env \<Rightarrow> time \<Rightarrow> ('d, 'c) deletion_manager
    \<Rightarrow> ('d, 'c) deletion_manager \<times> unit result" where
  "ReconcileSiteDeletions env now m = advance_jobs env now m (ActiveSiteDeletionJobs (dm_store m))"

definition SiteDeletionProgress :: "('d, 'c) deletion_env \<Rightarrow> time \<Rightarrow> ('d, 'c) deletion_manager \<Rightarrow> string
    \<Rightarrow> ('d, 'c) deletion_manager \<times> (deployment_task \<times> publish_node_result list) option" where
  "SiteDeletionProgress env now m siteID =
     (case LatestSiteDeletionTask (dm_store m) siteID of
        None \<Rightarrow> (m, None)
      | Some task \<Rightarrow>
          (let m' = (if active_task_status (dt_Status task) then fst (advance_or_fail env now m (dt_ID task)) else m)
           in (m', SiteDeletionStatus (dm_store m') siteID)))"

end
