(* ===== verification/Site_Deletion_Facts.thy ===== *)
theory Site_Deletion_Facts
  imports Site_Deletion Publish_Properties
begin

section \<open>One round of a site deletion\<close>

text \<open>
  What a round leaves of the job, the task and its targets. Each lemma names the tables that a call
  writes; the rest follows from the record update.
\<close>

subsection \<open>Jobs and phases\<close>

lemma find_set_phase:
  "find_row (\<lambda>j. sd_TaskID j = k) (set_phase taskID p t js)
    = map_option (\<lambda>j. if k = taskID then j\<lparr>sd_Phase := p, sd_UpdatedAt := t\<rparr> else j) (find_row (\<lambda>j. sd_TaskID j = k) js)"
proof -
  have "find_row (\<lambda>j. sd_TaskID j = k) (set_phase taskID p t js)
      = map_option (\<lambda>j. if sd_TaskID j = taskID then j\<lparr>sd_Phase := p, sd_UpdatedAt := t\<rparr> else j)
          (find_row (\<lambda>j. sd_TaskID j = k) js)"
    by (simp add: set_phase_def find_row_update_rows)
  then show ?thesis
    by (cases "find_row (\<lambda>j. sd_TaskID j = k) js") (auto dest: find_row_SomeD)
qed

lemma SetSiteDeletionPhaseD:
  assumes "SetSiteDeletionPhase s taskID p st d t = Inr s'"
  shows "s' = s\<lparr>site_deletions := set_phase taskID p t (site_deletions s),
      deployment_tasks := set_task taskID st d t (deployment_tasks s)\<rparr>"
    and "\<exists>j. SiteDeletionJobForTask s taskID = Some j"
    and "SiteDeletionJobForTask s taskID = Some j \<Longrightarrow>
      SiteDeletionJobForTask s' taskID = Some (j\<lparr>sd_Phase := p, sd_UpdatedAt := t\<rparr>)"
proof -
  from assms have one: "count_rows (\<lambda>j. sd_TaskID j = taskID) (site_deletions s) = 1"
    and s': "s' = s\<lparr>site_deletions := set_phase taskID p t (site_deletions s),
      deployment_tasks := set_task taskID st d t (deployment_tasks s)\<rparr>"
    by (auto simp: SetSiteDeletionPhase_def split: if_splits)
  show "s' = s\<lparr>site_deletions := set_phase taskID p t (site_deletions s),
      deployment_tasks := set_task taskID st d t (deployment_tasks s)\<rparr>" by (rule s')
  show "\<exists>j. SiteDeletionJobForTask s taskID = Some j"
  proof (rule ccontr)
    assume "\<not> ?thesis"
    then have "\<forall>j \<in> set (site_deletions s). sd_TaskID j \<noteq> taskID"
      by (simp add: SiteDeletionJobForTask_def find_row_None)
    with one show False by (simp add: count_rows_0 [THEN iffD2])
  qed
  show "SiteDeletionJobForTask s taskID = Some j \<Longrightarrow>
      SiteDeletionJobForTask s' taskID = Some (j\<lparr>sd_Phase := p, sd_UpdatedAt := t\<rparr>)"
    by (simp add: s' SiteDeletionJobForTask_def find_set_phase)
qed

lemma insert_deletion_targetsD:
  "insert_deletion_targets s taskID ts = Inr s' \<Longrightarrow>
    \<exists>ps. s' = s\<lparr>publish_nodes := publish_nodes s @ ps\<rparr> \<and> (\<forall>p \<in> set ps. ptn_TaskID p = taskID)"
proof (induction s taskID ts rule: insert_deletion_targets.induct)
  case (1 s taskID)
  then show ?case by (intro exI [of _ "[]"]) simp
next
  case (2 s taskID t ts)
  from 2(2) have ok: "insert_deletion_targets (s\<lparr>publish_nodes := publish_nodes s @ [pending_row taskID t]\<rparr>) taskID ts = Inr s'"
    by (simp split: if_splits)
  from 2(2) have "\<not> (tg_NodeID t = [] \<or> tg_TargetVersion t < 1)"
    "\<not> (list_ex (\<lambda>p. ptn_TaskID p = taskID \<and> ptn_NodeID p = tg_NodeID t) (publish_nodes s)
       \<or> find_task s taskID = None \<or> find_node s (tg_NodeID t) = None)" by (simp_all split: if_splits)
  from 2(1) [OF this ok] obtain ps where ps: "s' = s\<lparr>publish_nodes := publish_nodes s @ [pending_row taskID t] @ ps\<rparr>"
    "\<forall>p \<in> set ps. ptn_TaskID p = taskID" by auto
  then show ?case by (intro exI [of _ "pending_row taskID t # ps"]) (simp add: pending_row_def)
qed

lemma StageSiteDeletionD:
  assumes "StageSiteDeletion s taskID us ts t = Inr s'"
  obtains ps ns where "\<forall>p \<in> set ps. ptn_TaskID p = taskID"
    "s' = s\<lparr>publish_nodes := publish_nodes s @ ps, node_states := ns,
       site_deletions := set_phase taskID SiteDeletionWaitingForEdges t (site_deletions s),
       deployment_tasks := set_task taskID TaskApplying
         (err ''waiting for active edge nodes to remove the site'') t (deployment_tasks s)\<rparr>"
    "\<exists>j. SiteDeletionJobForTask s taskID = Some j"
    "\<And>j. SiteDeletionJobForTask s taskID = Some j \<Longrightarrow>
      SiteDeletionJobForTask s' taskID = Some (j\<lparr>sd_Phase := SiteDeletionWaitingForEdges, sd_UpdatedAt := t\<rparr>)"
proof -
  from assms obtain s1 s2 where 1: "insert_deletion_targets s taskID ts = Inr s1" and 2: "saveNodeStatesTx s1 us t = Inr s2"
    and 3: "SetSiteDeletionPhase s2 taskID SiteDeletionWaitingForEdges TaskApplying
        (err ''waiting for active edge nodes to remove the site'') t = Inr s'"
    unfolding StageSiteDeletion_def call_eq_Inr by blast
  obtain ps where ps: "s1 = s\<lparr>publish_nodes := publish_nodes s @ ps\<rparr>" "\<forall>p \<in> set ps. ptn_TaskID p = taskID"
    using insert_deletion_targetsD [OF 1] by blast
  obtain ns where ns: "s2 = s1\<lparr>node_states := ns\<rparr>" using saveNodeStatesTx_frame [OF 2] by blast
  have job: "SiteDeletionJobForTask s2 taskID = SiteDeletionJobForTask s taskID"
    by (simp add: ns ps(1) SiteDeletionJobForTask_def)
  show thesis
  proof (rule that [OF ps(2)])
    show "s' = s\<lparr>publish_nodes := publish_nodes s @ ps, node_states := ns,
       site_deletions := set_phase taskID SiteDeletionWaitingForEdges t (site_deletions s),
       deployment_tasks := set_task taskID TaskApplying
         (err ''waiting for active edge nodes to remove the site'') t (deployment_tasks s)\<rparr>"
      using SetSiteDeletionPhaseD(1) [OF 3] by (simp add: ns ps(1))
  qed (use SetSiteDeletionPhaseD(2,3) [OF 3] job in auto)
qed

subsection \<open>The loop\<close>

text \<open>Each round that goes on lowers the rank of the phase, so the loop ends in its third round.\<close>

fun phase_rank :: "deletion_phase \<Rightarrow> nat" where
  "phase_rank SiteDeletionWithdrawingDNS = 2"
| "phase_rank SiteDeletionWaitingForEdges = 1"
| "phase_rank _ = 0"

definition job_rank :: "store \<Rightarrow> string \<Rightarrow> nat" where
  "job_rank s taskID = (case SiteDeletionJobForTask s taskID of None \<Rightarrow> 0 | Some j \<Rightarrow> phase_rank (sd_Phase j))"

lemma job_rank_le: "job_rank s taskID \<le> 2"
  unfolding job_rank_def by (cases "SiteDeletionJobForTask s taskID"; simp)
    (metis One_nat_def Suc_1 le_SucI order_refl phase_rank.elims zero_le)

lemma SiteDeletionReady_True:
  assumes "SiteDeletionReady s taskID t = (s', Inr True)"
  obtains s2 where "s2 = confirm_applied s taskID t" "task_pending s2 taskID = 0" "task_failed s2 taskID = 0"
    "task_total s2 taskID = 0 \<or> task_succeeded s2 taskID = task_total s2 taskID"
    "SetSiteDeletionPhase s2 taskID SiteDeletionFinalizing TaskApplying
       (err ''edge removal confirmed; cleaning certificate material'') t = Inr s'"
  using assms
  by (auto simp: SiteDeletionReady_def Let_def split: sum.splits if_splits)

lemma phase_round_goes_on:
  assumes "phase_round env t m taskID = (m', Inr True)"
  shows "job_rank (dm_store m') taskID < job_rank (dm_store m) taskID"
proof -
  obtain j where j: "SiteDeletionJobForTask (dm_store m) taskID = Some j"
    using assms by (cases "SiteDeletionJobForTask (dm_store m) taskID") (auto simp: phase_round_def)
  show ?thesis
  proof (cases "sd_Phase j")
    case SiteDeletionWithdrawingDNS
    with assms j have "withdraw env t m taskID j = (m', Inr True)" by (simp add: phase_round_def)
    then obtain s1 s2 x where 1: "SetSiteDeletionPhase (dm_store m) taskID SiteDeletionWithdrawingDNS TaskDispatching
          (err ''withdrawing managed DNS records'') t = Inr s1"
      and 2: "StageSiteRemoval s1 taskID x (de_render env) t = Inr s2" "dm_store m' = s2"
      by (auto simp: withdraw_def split: option.splits sum.splits prod.splits)
    from 2(1) obtain us ts where "StageSiteDeletion s1 taskID us ts t = Inr s2"
      by (auto simp: StageSiteRemoval_def split: sum.splits prod.splits)
    then show ?thesis
      using SetSiteDeletionPhaseD(3) [OF 1 j] j SiteDeletionWithdrawingDNS 2(2)
      by (elim StageSiteDeletionD) (simp add: job_rank_def)
  next
    case SiteDeletionWaitingForEdges
    with assms j have "SiteDeletionReady (dm_store m) taskID t = (dm_store m', Inr True)"
      by (auto simp: phase_round_def await_edges_def split: prod.splits)
    then obtain s2 where s2: "s2 = confirm_applied (dm_store m) taskID t"
      "SetSiteDeletionPhase s2 taskID SiteDeletionFinalizing TaskApplying
       (err ''edge removal confirmed; cleaning certificate material'') t = Inr (dm_store m')" by (rule SiteDeletionReady_True)
    have "SiteDeletionJobForTask s2 taskID = Some j"
      using j by (simp add: s2(1) SiteDeletionJobForTask_def confirm_applied_def)
    from SetSiteDeletionPhaseD(3) [OF s2(2) this] show ?thesis
      using j SiteDeletionWaitingForEdges by (simp add: job_rank_def)
  next
    case SiteDeletionFinalizing
    with assms j show ?thesis
      by (auto simp: phase_round_def finalize_def split: option.splits sum.splits prod.splits)
  next
    case (SiteDeletionPhaseOther p)
    with assms j show ?thesis by (simp add: phase_round_def)
  qed
qed

text \<open>No round reports the error of the exhausted loop.\<close>

lemma phase_round_errors: "phase_round env t m taskID = (m', Inl e) \<Longrightarrow> e \<noteq> err ''site deletion did not converge''"
proof -
  have ready: "e \<noteq> err ''site deletion did not converge''" if "SiteDeletionReady s taskID t = (s', Inl e)" for s s' e
    using that by (auto simp: SiteDeletionReady_def GetTask_def UpdateTask_def SetSiteDeletionPhase_def Let_def go_err
      split: option.splits if_splits sum.splits)
  assume "phase_round env t m taskID = (m', Inl e)"
  then show ?thesis
    by (auto simp: phase_round_def withdraw_def await_edges_def finalize_def SetSiteDeletionPhase_def
        CompleteSiteDeletion_def Let_def go_err dest: ready
        split: option.splits deletion_phase.splits sum.splits prod.splits if_splits)
qed

lemma advance_rounds_enough:
  "job_rank (dm_store m) taskID < n \<Longrightarrow>
    advance_rounds env i (n + k) m taskID = advance_rounds env i n m taskID
    \<and> snd (advance_rounds env i n m taskID) \<noteq> Inl (err ''site deletion did not converge'')"
proof (induction n arbitrary: i m)
  case (Suc n)
  obtain m' r where r: "phase_round env (de_clock env i) m taskID = (m', r)" by fastforce
  show ?case
  proof (cases r)
    case (Inl e)
    with r phase_round_errors [of env "de_clock env i" m taskID m' e] show ?thesis by simp
  next
    case (Inr b)
    show ?thesis
    proof (cases b)
      case True
      with r Inr phase_round_goes_on [of env "de_clock env i" m taskID m'] Suc.prems
      have "job_rank (dm_store m') taskID < n" by simp
      from Suc.IH [OF this] show ?thesis using r Inr True by simp
    next
      case False
      with r Inr show ?thesis by simp
    qed
  qed
qed simp

end
