(* ===== verification/Site_Deletion_History.thy ===== *)
theory Site_Deletion_History
  imports Site_Deletion_Facts Publication_Properties Node_Removal
begin

section \<open>Site deletions among the other operations\<close>

text \<open>
  The history of a control plane: deletions are begun and carried on while sites are created, changed
  and published, nodes report and are removed, and the health loop writes DNS. The invariant says what each
  phase of a deletion may rely on.
\<close>

subsection \<open>Operations that leave deletions alone\<close>

definition task_key :: "deployment_task \<Rightarrow> string \<times> task_kind \<times> string" where
  "task_key t = (dt_ID t, dt_Kind t, dt_SiteID t)"

definition site_key :: "site \<Rightarrow> string \<times> string \<times> bool" where
  "site_key x = (st_ID x, st_ZoneID x, st_Deleting x)"

definition tasks_grow :: "store \<Rightarrow> store \<Rightarrow> bool" where
  "tasks_grow s s' \<longleftrightarrow> (\<exists>new. map task_key (deployment_tasks s') = map task_key (deployment_tasks s) @ map task_key new
     \<and> (\<forall>t \<in> set new. dt_ID t \<notin> dt_ID ` set (deployment_tasks s)) \<and> distinct (map dt_ID new))"

definition targets_kept :: "store \<Rightarrow> store \<Rightarrow> bool" where
  "targets_kept s s' \<longleftrightarrow> (\<forall>p' \<in> set (publish_nodes s').
     ptn_TaskID p' \<notin> sd_TaskID ` set (site_deletions s)
     \<or> (\<exists>p \<in> set (publish_nodes s). ptn_TaskID p = ptn_TaskID p'
          \<and> (ptn_Status p = PublishNodeSucceeded \<longrightarrow> ptn_Status p' = PublishNodeSucceeded)))"

definition keeps :: "store \<Rightarrow> store \<Rightarrow> bool" where
  "keeps s s' \<longleftrightarrow> site_deletions s' = site_deletions s \<and> map site_key (sites s') = map site_key (sites s)
     \<and> tasks_grow s s' \<and> targets_kept s s'"

lemma tasks_grow_same: "map task_key (deployment_tasks s') = map task_key (deployment_tasks s) \<Longrightarrow> tasks_grow s s'"
  unfolding tasks_grow_def by (intro exI [of _ "[]"]) simp

lemma targets_kept_same [simp]: "publish_nodes s' = publish_nodes s \<Longrightarrow> targets_kept s s'"
  by (auto simp: targets_kept_def)

lemma targets_kept_subset: "set (publish_nodes s') \<subseteq> set (publish_nodes s) \<Longrightarrow> targets_kept s s'"
  by (auto simp: targets_kept_def)

lemma targets_kept_advance: "advance_targets s s' \<Longrightarrow> targets_kept s s'"
  unfolding advance_targets_def targets_kept_def same_target_def by fastforce

lemma targets_kept_append:
  "publish_nodes s' = publish_nodes s @ ps \<Longrightarrow> \<forall>p \<in> set ps. ptn_TaskID p \<notin> sd_TaskID ` set (site_deletions s) \<Longrightarrow> targets_kept s s'"
  by (auto simp: targets_kept_def)

lemma keeps_refl [simp]: "keeps s s"
  by (simp add: keeps_def tasks_grow_same)

lemma task_ids: "map task_key ts = map task_key us @ map task_key vs \<Longrightarrow> map dt_ID ts = map dt_ID us @ map dt_ID vs"
proof -
  assume "map task_key ts = map task_key us @ map task_key vs"
  then have "map fst (map task_key ts) = map fst (map task_key us @ map task_key vs)" by (rule arg_cong)
  then show ?thesis by (simp add: task_key_def comp_def)
qed

lemma keeps_trans:
  assumes "keeps s1 s2" and "keeps s2 s3"
  shows "keeps s1 s3"
proof -
  from assms obtain n1 n2 where
    n1: "map task_key (deployment_tasks s2) = map task_key (deployment_tasks s1) @ map task_key n1"
      "\<forall>t \<in> set n1. dt_ID t \<notin> dt_ID ` set (deployment_tasks s1)" "distinct (map dt_ID n1)"
    and n2: "map task_key (deployment_tasks s3) = map task_key (deployment_tasks s2) @ map task_key n2"
      "\<forall>t \<in> set n2. dt_ID t \<notin> dt_ID ` set (deployment_tasks s2)" "distinct (map dt_ID n2)"
    unfolding keeps_def tasks_grow_def by blast
  have ids: "dt_ID ` set (deployment_tasks s2) = dt_ID ` set (deployment_tasks s1) \<union> dt_ID ` set n1"
    using task_ids [OF n1(1)] by (metis list.set_map set_append)
  have "dt_ID ` set n1 \<inter> dt_ID ` set n2 = {}" 
  proof (intro equals0I)
    fix i assume "i \<in> dt_ID ` set n1 \<inter> dt_ID ` set n2"
    then obtain t where "t \<in> set n2" "i = dt_ID t" "i \<in> dt_ID ` set n1" by blast
    with n2(2) show False unfolding ids by blast
  qed
  then have "distinct (map dt_ID (n1 @ n2))" using n1(3) n2(3) by simp
  moreover have "\<forall>t \<in> set (n1 @ n2). dt_ID t \<notin> dt_ID ` set (deployment_tasks s1)" using n1(2) n2(2) ids by auto
  moreover have "map task_key (deployment_tasks s3) = map task_key (deployment_tasks s1) @ map task_key (n1 @ n2)"
    by (simp add: n1(1) n2(1))
  ultimately have "tasks_grow s1 s3" unfolding tasks_grow_def by blast
  moreover have "targets_kept s1 s3"
    using assms unfolding keeps_def targets_kept_def by metis
  ultimately show ?thesis using assms by (simp add: keeps_def)
qed

lemma keys_update_tasks [simp]:
  "map task_key (update_rows P (\<lambda>t. t\<lparr>dt_Status := st, dt_Detail := d, dt_UpdatedAt := at\<rparr>) ts) = map task_key ts"
  by (simp add: map_key_update_rows task_key_def)

lemma keys_set_task [simp]: "map task_key (set_task i st d t ts) = map task_key ts"
  by (simp add: set_task_def)

lemma keeps_advance: "advance now s s' \<Longrightarrow> untouched s s' \<Longrightarrow> keeps s s'"
proof -
  assume adv: "advance now s s'" and same: "untouched s s'"
  from adv obtain h where h: "deployment_tasks s' = map h (deployment_tasks s)" "\<forall>t. same_task t (h t)"
    unfolding advance_def advance_tasks_def by blast
  have "map task_key (deployment_tasks s') = map task_key (deployment_tasks s)"
    using h by (simp add: task_key_def same_task_def)
  moreover have "targets_kept s s'" using adv by (simp add: advance_def targets_kept_advance)
  ultimately show ?thesis using same by (simp add: keeps_def tasks_grow_same)
qed

lemma keeps_reconcile: "tasks_wf s \<Longrightarrow> ReconcilePublishTasks s t = Inr s' \<Longrightarrow> keeps s s'"
  using ReconcilePublishTasks_advance [of s t] ReconcilePublishTasks_pub [of s t s'] keeps_advance by auto

lemma keeps_report: "RecordPublishApply s n r t = Inr s' \<Longrightarrow> keeps s s'"
  by (rule keeps_advance [OF RecordPublishApply_advance]) (auto simp: RecordPublishApply_def split: if_splits)

lemma keeps_heartbeat: "keeps s (s\<lparr>nodes := ns\<rparr>)"
  by (simp add: keeps_def tasks_grow_same)

lemma keeps_remove_node: "DeleteNode s k = Inr s' \<Longrightarrow> keeps s s'"
  by (auto simp: DeleteNode_def delete_node_rows_def keeps_def delete_rows_def
      intro!: tasks_grow_same targets_kept_subset split: if_splits)

lemma keeps_task: "UpdateTask s i st d t = Inr s' \<Longrightarrow> keeps s s'"
  by (auto simp: UpdateTask_def keeps_def intro!: tasks_grow_same split: if_splits)

lemma keeps_queue_task: "queue_task kind d r s ids i dl t = Inr (s', x, b) \<Longrightarrow> keeps s s'"
proof (induction ids)
  case (Cons newID ids)
  let ?t = "queued_task kind d newID i dl t"
  obtain s1 ins where i1: "insert_task_or_ignore s ?t = (s1, ins)" by (metis surj_pair)
  have "keeps s s1"
  proof (cases "s1 = s")
    case False
    with i1 have "s1 = s\<lparr>deployment_tasks := deployment_tasks s @ [?t]\<rparr>" "dt_ID ?t \<notin> dt_ID ` set (deployment_tasks s)"
      by (auto simp: insert_task_or_ignore_def list_ex_iff split: if_splits)
    then show ?thesis
      unfolding keeps_def tasks_grow_def by (intro conjI exI [of _ "[?t]"]) simp_all
  qed simp
  with Cons i1 show ?case by (auto simp: Let_def split: if_splits option.splits)
qed simp

lemma keeps_queue: "tasks_wf s \<Longrightarrow> CreateOrGetActivePublishTask s ids i dl t = Inr (s', x, b) \<Longrightarrow> keeps s s'"
proof -
  assume wf: "tasks_wf s" and q: "CreateOrGetActivePublishTask s ids i dl t = Inr (s', x, b)"
  then obtain s1 where s1: "ReconcilePublishTasks s t = Inr s1"
    and q1: "queue_task KindPublishSite ''building node configurations''
            (err ''publish task changed while being queued; retry request'') s1 [fst ids, snd ids] i dl t = Inr (s', x, b)"
    unfolding CreateOrGetActivePublishTask_def check_eq_Inr call_eq_Inr by blast
  from keeps_trans [OF keeps_reconcile [OF wf s1] keeps_queue_task [OF q1]] show ?thesis .
qed

lemma keeps_targets:
  assumes "createPublishTaskNodesTx s i ts = Inr s'" and "i \<notin> sd_TaskID ` set (site_deletions s)"
  shows "keeps s s'"
proof -
  have "insert_targets s i ts = Inr s'" using assms(1) by (simp add: createPublishTaskNodesTx_def split: if_splits)
  from insert_targets_tables [OF this] obtain ps where ps: "publish_nodes s' = publish_nodes s @ ps"
    "\<forall>p \<in> set ps. ptn_TaskID p = i" by blast
  obtain qs where s': "s' = s\<lparr>publish_nodes := qs\<rparr>" using createPublishTaskNodesTx_frame [OF assms(1)] by blast
  have "targets_kept s s'" by (rule targets_kept_append [OF ps(1)]) (use ps(2) assms(2) in auto)
  then show ?thesis by (simp add: keeps_def s' tasks_grow_same)
qed

lemma keeps_publish_step:
  assumes "publish_step W s s'" and wf: "tasks_wf s" and out: "W \<inter> sd_TaskID ` set (site_deletions s) = {}"
  shows "keeps s s'"
  using assms(1)
proof cases
  case (targets i ts)
  have "i \<notin> sd_TaskID ` set (site_deletions s)" using out targets(2) by blast
  with targets(1) keeps_targets show ?thesis by (auto simp: CreatePublishTaskNodes_def split: if_splits)
next
  case (queue_drain ids i dl now t b)
  then show ?thesis unfolding CreateOrGetActiveDrainTask_def check_eq_Inr by (blast intro: keeps_queue_task)
next
  case (queue ids i dl now t b)
  from keeps_queue [OF wf this] show ?thesis .
next
  case (update i status detail now)
  from keeps_task [OF this(1)] show ?thesis .
next
  case (report n r now)
  from keeps_report [OF this] show ?thesis .
next
  case (heartbeat ns)
  show ?thesis unfolding heartbeat by (rule keeps_heartbeat)
next
  case (reconcile now)
  from keeps_reconcile [OF wf this] show ?thesis .
qed

lemma keeps_cutover:
  "MarkSiteNodeDrainsDNSReadyForPublication s i a b c d e = Inr (s', k, f) \<Longrightarrow> keeps s s'"
  by (auto simp: MarkSiteNodeDrainsDNSReadyForPublication_def Let_def keeps_def tasks_grow_same
      split: if_splits option.splits sum.splits prod.splits)

lemma keeps_prune: "PruneAppliedSiteNodeDrains s ids = (s', k) \<Longrightarrow> keeps s s'"
  by (auto simp: PruneAppliedSiteNodeDrains_def Let_def keeps_def tasks_grow_same)

lemma claim_drains_frame: "claim_drains s task ids now = Inr s' \<Longrightarrow> \<exists>ds. s' = s\<lparr>drains := ds\<rparr>"
proof (induction s task ids now rule: claim_drains.induct)
  case (1 s task now)
  then show ?case by (intro exI [of _ "drains s"]) simp
next
  case (2 s task i ids now)
  let ?s1 = "s\<lparr>drains := update_rows (\<lambda>d. dr_ID d = i \<and> due_drain now d)
             (\<lambda>d. d\<lparr>dr_CleanupTaskID := Some task, dr_UpdatedAt := now\<rparr>) (drains s)\<rparr>"
  from 2 have "\<exists>ds. s' = ?s1\<lparr>drains := ds\<rparr>" by (auto simp: Let_def split: if_splits)
  then show ?case by auto
qed

lemma keeps_stage_cleanup:
  assumes "StageDrainCleanup s task ids updates targets now = Inr s'" and out: "task \<notin> sd_TaskID ` set (site_deletions s)"
  shows "keeps s s'"
proof -
  obtain s1 s2 s3 where 1: "claim_drains s task ids now = Inr s1" "createPublishTaskNodesTx s1 task targets = Inr s2"
    "saveNodeStatesTx s2 updates now = Inr s3"
    and s': "s' = s3\<lparr>deployment_tasks := update_rows (\<lambda>t. dt_ID t = task \<and> active_task_status (dt_Status t))
             (\<lambda>t. t\<lparr>dt_Status := TaskApplying, dt_Detail := err ''waiting for edge confirmation of expired drain removal'',
                    dt_UpdatedAt := now\<rparr>) (deployment_tasks s3)\<rparr>"
    using assms(1) by (auto simp: StageDrainCleanup_def)
  obtain ds where s1: "s1 = s\<lparr>drains := ds\<rparr>" using claim_drains_frame [OF 1(1)] by blast
  have k1: "keeps s s1" by (simp add: s1 keeps_def tasks_grow_same)
  have k2: "keeps s1 s2" by (rule keeps_targets [OF 1(2)]) (use out s1 in simp)
  obtain ns where "s3 = s2\<lparr>node_states := ns\<rparr>" using saveNodeStatesTx_frame [OF 1(3)] by blast
  then have "keeps s2 s'" by (simp add: s' keeps_def tasks_grow_same map_key_update_rows task_key_def)
  with k1 k2 show ?thesis by (blast intro: keeps_trans)
qed

subsection \<open>Commits\<close>

lemma keys_cancel: "cancelSiteNodeDrainsTx s ks t = Inr s' \<Longrightarrow>
    map task_key (deployment_tasks s') = map task_key (deployment_tasks s)"
  by (induction s ks t rule: cancelSiteNodeDrainsTx.induct)
    (auto simp: cancel_drain_def Let_def split: if_splits option.splits)

lemma commit_task_keys:
  assumes "CommitSitePublicationWithDrains s siteID v task updates targets inps keys fresh now = Inr (s', x)"
  shows "map task_key (deployment_tasks s') = map task_key (deployment_tasks s)
    \<and> (\<exists>ps. publish_nodes s' = publish_nodes s @ ps \<and> (\<forall>p \<in> set ps. ptn_TaskID p = task))
    \<and> site_deletions s' = site_deletions s"
proof -
  obtain y s1 s2 s3 where st: "stage_publication s y task updates targets inps keys fresh now = Inr s1"
    and s2: "replaceSiteDomainClaims s1 (st_ID y) (st_Domains y) = Inr s2"
    and s3: "mark_published (if st_IPv6Enabled y \<noteq> previous_ipv6 s (st_ID y) then reset_ipv6_health s2 (st_ID y) else s2)
        (st_ID y) now = Inr s3" "s' = s3"
    using assms unfolding CommitSitePublicationWithDrains_def Let_def check_eq_Inr call_eq_Inr lookup_eq_Inr
      sum.inject prod.inject by (elim exE conjE) (rule that, assumption, assumption, assumption, erule sym)
  from st obtain sa sb sc where sa: "createPublishTaskNodesTx s task targets = Inr sa"
    and sb: "saveNodeStatesTx (saveSitePublicationTx sa y now) updates now = Inr sb"
    and sc: "cancelSiteNodeDrainsTx sb keys now = Inr sc" and sd: "createSiteNodeDrainsTx sc inps fresh now = Inr s1"
    unfolding stage_publication_def call_eq_Inr by blast
  obtain ps where a: "sa = s\<lparr>publish_nodes := ps\<rparr>" using createPublishTaskNodesTx_frame [OF sa] by blast
  have a': "\<exists>qs. ps = publish_nodes s @ qs \<and> (\<forall>p \<in> set qs. ptn_TaskID p = task)"
    using insert_targets_tables [of s task targets sa] sa a by (auto simp: createPublishTaskNodesTx_def split: if_splits)
  obtain ns where b: "sb = saveSitePublicationTx sa y now\<lparr>node_states := ns\<rparr>" using saveNodeStatesTx_frame [OF sb] by blast
  obtain ts where c: "sc = sb\<lparr>deployment_tasks := ts, drains := delete_rows (\<lambda>d. \<exists>k \<in> set keys. drain_at k d) (drains sb)\<rparr>"
    using cancelSiteNodeDrainsTx_frame [OF sc] by blast
  obtain ds where d: "s1 = sc\<lparr>drains := drains sc @ ds\<rparr>" using createSiteNodeDrainsTx_frame [OF sd] by blast
  obtain cs where "s2 = s1\<lparr>site_domains := cs\<rparr>" using replaceSiteDomainClaims_frame [OF s2] by blast
  then have e2: "deployment_tasks s2 = deployment_tasks s1" "publish_nodes s2 = publish_nodes s1"
    "site_deletions s2 = site_deletions s1" by simp_all
  have e: "deployment_tasks s' = deployment_tasks s1" "publish_nodes s' = publish_nodes s1"
    "site_deletions s' = site_deletions s1"
    using s3 e2 by (auto simp: mark_published_def reset_ipv6_health_def split: if_splits)
  have "map task_key ts = map task_key (deployment_tasks s)"
    using keys_cancel [OF sc] by (simp add: a b c saveSitePublicationTx_def)
  with a' show ?thesis by (simp add: e d c b a saveSitePublicationTx_def)
qed

lemma keeps_publish:
  assumes "publishSite s siteID task v render fresh now = Inr (s', targets)"
    and "task \<notin> sd_TaskID ` set (site_deletions s)"
  shows "keeps s s'"
proof -
  obtain p updates x where "prepareNodeStatesWithDrains s siteID False = Inr p"
    and c: "CommitSitePublicationWithDrains s siteID v task updates targets (pp_drains p) (pp_cancelDrains p) fresh now = Inr (s', x)"
    using publishSite_Inr [OF assms(1)] by blast
  obtain ss where "sites s' = update_rows (\<lambda>x. st_ID x = siteID \<and> \<not> st_Deleting x)
             (\<lambda>x. x\<lparr>st_Published := True, st_UpdatedAt := now\<rparr>) (sites s)"
    by (rule CommitSitePublicationWithDrains_Inr [OF c]) (rule that, simp)
  then have "map site_key (sites s') = map site_key (sites s)" by (simp add: map_key_update_rows site_key_def)
  with commit_task_keys [OF c] assms(2) show ?thesis
    by (auto simp: keeps_def intro!: tasks_grow_same targets_kept_append)
qed

end
