(* ===== verification/Site_Deletion_Invariant.thy ===== *)
theory Site_Deletion_Invariant
  imports Site_Deletion_History
begin

section \<open>What a site deletion may rely on in each phase\<close>

subsection \<open>The invariant\<close>

definition withdrawn :: "('d \<Rightarrow> string \<Rightarrow> dns_record list) \<Rightarrow> 'd \<Rightarrow> string \<times> string \<times> bool \<Rightarrow> bool" where
  "withdrawn records d k \<longleftrightarrow> (case k of (siteID, zoneID, _) \<Rightarrow>
     \<forall>r \<in> set (records d zoneID). \<not> owned (site_owner siteID) r)"

definition removal_confirmed :: "store \<Rightarrow> string \<Rightarrow> bool" where
  "removal_confirmed s taskID \<longleftrightarrow>
     (\<forall>p \<in> set (publish_nodes s). ptn_TaskID p = taskID \<longrightarrow> ptn_Status p = PublishNodeSucceeded)"

definition site_keys :: "store \<Rightarrow> (string \<times> string \<times> bool) list" where
  "site_keys s = map site_key (sites s)"

definition task_keys :: "store \<Rightarrow> (string \<times> task_kind \<times> string) set" where
  "task_keys s = task_key ` set (deployment_tasks s)"

definition tables_ok :: "store \<Rightarrow> bool" where
  "tables_ok s \<longleftrightarrow> tasks_wf s \<and> distinct (map fst (site_keys s))
     \<and> (\<forall>k \<in> set (site_keys s). CHR '';'' \<notin> set (fst k))
     \<and> (\<forall>j \<in> set (site_deletions s). (sd_TaskID j, KindDeleteSite, sd_SiteID j) \<in> task_keys s)"

text \<open>
  \<open>S\<close> has the sites for which nothing is known about their flag and their records: some writer has looked
  at the site before its deletion began and writes after it.
\<close>

definition phase_ok :: "string set \<Rightarrow> ('d \<Rightarrow> string \<Rightarrow> dns_record list) \<Rightarrow> 'd \<Rightarrow> store \<Rightarrow> site_deletion_job \<Rightarrow> bool" where
  "phase_ok S records d s j \<longleftrightarrow>
     (sd_Phase j = SiteDeletionFinalizing \<longrightarrow> removal_confirmed s (sd_TaskID j))
   \<and> (\<forall>k \<in> set (site_keys s). fst k = sd_SiteID j \<and> fst k \<notin> S \<longrightarrow>
        snd (snd k) \<and> (sd_Phase j \<noteq> SiteDeletionWithdrawingDNS \<longrightarrow> withdrawn records d k))"

definition deletion_inv :: "string set \<Rightarrow> ('d \<Rightarrow> string \<Rightarrow> dns_record list) \<Rightarrow> 'd \<Rightarrow> store \<Rightarrow> bool" where
  "deletion_inv S records d s \<longleftrightarrow> tables_ok s \<and> (\<forall>j \<in> set (site_deletions s). phase_ok S records d s j)"

lemma task_keys_wf:
  "tasks_wf s \<Longrightarrow> (i, a, b) \<in> task_keys s \<Longrightarrow> (i, c, d) \<in> task_keys s \<Longrightarrow> a = c \<and> b = d"
  unfolding tasks_wf_def task_keys_def task_key_def by (force simp: distinct_map dest: inj_onD)

lemma keeps_tables: "keeps s s' \<Longrightarrow> tables_ok s \<Longrightarrow> tables_ok s'"
proof -
  assume k: "keeps s s'" and ok: "tables_ok s"
  from k obtain new where new: "map task_key (deployment_tasks s') = map task_key (deployment_tasks s) @ map task_key new"
    "\<forall>t \<in> set new. dt_ID t \<notin> dt_ID ` set (deployment_tasks s)" "distinct (map dt_ID new)"
    unfolding keeps_def tasks_grow_def by blast
  have "dt_ID ` set (deployment_tasks s) \<inter> dt_ID ` set new = {}"
  proof (intro equals0I)
    fix i assume "i \<in> dt_ID ` set (deployment_tasks s) \<inter> dt_ID ` set new"
    then obtain t where "t \<in> set new" "i = dt_ID t" "i \<in> dt_ID ` set (deployment_tasks s)" by blast
    with new(2) show False by simp
  qed
  then have "tasks_wf s'"
    unfolding tasks_wf_def task_ids [OF new(1)] using ok new(3) by (simp add: tables_ok_def tasks_wf_def)
  moreover have "task_keys s \<subseteq> task_keys s'"
    using arg_cong [OF new(1), of set] by (auto simp: task_keys_def)
  ultimately show ?thesis using k ok by (auto simp: tables_ok_def keeps_def site_keys_def)
qed

lemma keeps_confirmed:
  "keeps s s' \<Longrightarrow> j \<in> set (site_deletions s) \<Longrightarrow> removal_confirmed s (sd_TaskID j) \<Longrightarrow> removal_confirmed s' (sd_TaskID j)"
  unfolding keeps_def targets_kept_def removal_confirmed_def by fastforce

lemma keeps_inv: "keeps s s' \<Longrightarrow> deletion_inv S records d s \<Longrightarrow> deletion_inv S records d s'"
  using keeps_tables keeps_confirmed
  by (fastforce simp: deletion_inv_def phase_ok_def keeps_def site_keys_def)

text \<open>Only sites that are being deleted matter for DNS.\<close>

lemma inv_dns:
  assumes "deletion_inv S records d s"
    and "\<And>k. k \<in> set (site_keys s) \<Longrightarrow> fst k \<notin> S \<Longrightarrow> snd (snd k) \<Longrightarrow> withdrawn records d k \<Longrightarrow> withdrawn records d' k"
  shows "deletion_inv S records d' s"
  using assms unfolding deletion_inv_def phase_ok_def by blast

subsection \<open>Owners of records\<close>

lemma owned_iff: "owned (site_owner i) r \<longleftrightarrow> (\<exists>rest. rec_Comment r = ManagedRecordPrefix @ ''site='' @ i @ '';'' @ rest)"
  by (auto simp: owned_def site_owner_def HasPrefix_iff)

lemma one_owner:
  assumes "owned (site_owner a) r" and "owned (site_owner b) r" and "CHR '';'' \<notin> set a" and "CHR '';'' \<notin> set b"
  shows "a = b"
proof -
  from assms(1) obtain u where "rec_Comment r = ManagedRecordPrefix @ ''site='' @ a @ '';'' @ u" by (auto simp: owned_iff)
  moreover from assms(2) obtain v where "rec_Comment r = ManagedRecordPrefix @ ''site='' @ b @ '';'' @ v"
    by (auto simp: owned_iff)
  ultimately have "a @ CHR '';'' # u = b @ CHR '';'' # v" by simp
  then have "takeWhile (\<lambda>c. c \<noteq> CHR '';'') (a @ CHR '';'' # u) = takeWhile (\<lambda>c. c \<noteq> CHR '';'') (b @ CHR '';'' # v)"
    by simp
  moreover have "takeWhile (\<lambda>c. c \<noteq> CHR '';'') (x @ CHR '';'' # y) = x" if "CHR '';'' \<notin> set x" for x y
    using that by (subst takeWhile_append2) auto
  ultimately show ?thesis using assms(3,4) by simp
qed

text \<open>A provider that creates no records but those it was asked for.\<close>

locale deletion_dns = dns_provider +
  assumes reconcile_only: "reconcile d zone owner desired = (d', r) \<Longrightarrow>
    set (records d' z) \<subseteq> set (records d z) \<union> set desired"
begin

lemma other_site_kept:
  assumes "reconcile d zone owner (desired_records y ttl v4 v6) = (d', r)"
    and "withdrawn records d (i, z, b)" and "i \<noteq> st_ID y" and "CHR '';'' \<notin> set i" and "CHR '';'' \<notin> set (st_ID y)"
  shows "withdrawn records d' (i, z, b)"
  unfolding withdrawn_def prod.case
proof (intro ballI notI)
  fix q assume q: "q \<in> set (records d' z)" and own: "owned (site_owner i) q"
  show False
  proof (cases "q \<in> set (records d z)")
    case True
    with assms(2) own show False by (simp add: withdrawn_def)
  next
    case False
    with q reconcile_only [OF assms(1)] have "q \<in> set (desired_records y ttl v4 v6)" by blast
    then have "owned (site_owner (st_ID y)) q" using desired_owned by blast
    from one_owner [OF own this assms(4,5)] assms(3) show False by simp
  qed
qed

lemma clear_kept: "reconcile d zone owner [] = (d', r) \<Longrightarrow> withdrawn records d k \<Longrightarrow> withdrawn records d' k"
  using reconcile_only [of d zone owner "[]" d' r] by (force simp: withdrawn_def split: prod.splits)

lemma clear_withdraws:
  "reconcile d zone (site_owner i) [] = (d', Inr ()) \<Longrightarrow> withdrawn records d' (i, zone, b)"
  using reconcile_exact [of d zone "site_owner i" "[]" d'] by (auto simp: withdrawn_def)

end

interpretation memory_deletion: deletion_dns MemoryDNS_Reconcile zone_records
  by unfold_locales (auto simp: MemoryDNS_Reconcile_def zone_records_def split: if_splits)

subsection \<open>Changing the phase of a job\<close>

lemma in_set_phase:
  "j' \<in> set (set_phase i p t js) \<longleftrightarrow>
    (\<exists>j \<in> set js. j' = (if sd_TaskID j = i then j\<lparr>sd_Phase := p, sd_UpdatedAt := t\<rparr> else j))"
  by (auto simp: set_phase_def set_update_rows)

lemma inv_set_phase:
  assumes inv: "deletion_inv S records d s"
    and jobs: "site_deletions s' = set_phase i p t (site_deletions s)"
    and keys: "site_keys s' = site_keys s" "map task_key (deployment_tasks s') = map task_key (deployment_tasks s)"
    and other: "\<And>j. j \<in> set (site_deletions s) \<Longrightarrow> sd_TaskID j \<noteq> i \<Longrightarrow> removal_confirmed s (sd_TaskID j)
      \<Longrightarrow> removal_confirmed s' (sd_TaskID j)"
    and final: "p = SiteDeletionFinalizing \<Longrightarrow> removal_confirmed s' i"
    and dns: "\<And>j k. p \<noteq> SiteDeletionWithdrawingDNS \<Longrightarrow> j \<in> set (site_deletions s) \<Longrightarrow> sd_TaskID j = i \<Longrightarrow>
      k \<in> set (site_keys s) \<Longrightarrow> fst k = sd_SiteID j \<Longrightarrow> fst k \<notin> S \<Longrightarrow> withdrawn records d k"
  shows "deletion_inv S records d s'"
proof -
  have "map dt_ID (deployment_tasks s') = map dt_ID (deployment_tasks s) @ map dt_ID ([] :: deployment_task list)"
    by (rule task_ids) (simp only: keys(2) list.map append_Nil2)
  then have "map dt_ID (deployment_tasks s') = map dt_ID (deployment_tasks s)" by (simp only: list.map append_Nil2)
  moreover have "task_keys s' = task_keys s" using arg_cong [OF keys(2), of set] by (simp add: task_keys_def)
  moreover have "(sd_TaskID j', KindDeleteSite, sd_SiteID j') \<in> task_keys s" if "j' \<in> set (site_deletions s')" for j'
  proof -
    from that obtain j where "j \<in> set (site_deletions s)" "sd_TaskID j' = sd_TaskID j" "sd_SiteID j' = sd_SiteID j"
      by (auto simp: jobs in_set_phase)
    with inv show ?thesis by (simp add: deletion_inv_def tables_ok_def)
  qed
  ultimately have "tables_ok s'"
    using inv unfolding deletion_inv_def tables_ok_def tasks_wf_def keys(1) by simp
  moreover have "phase_ok S records d s' j'" if "j' \<in> set (site_deletions s')" for j'
  proof -
    from that obtain j where j: "j \<in> set (site_deletions s)"
      "j' = (if sd_TaskID j = i then j\<lparr>sd_Phase := p, sd_UpdatedAt := t\<rparr> else j)" by (auto simp: jobs in_set_phase)
    have ok: "phase_ok S records d s j" using inv j(1) by (simp add: deletion_inv_def)
    show ?thesis
    proof (cases "sd_TaskID j = i")
      case True
      then show ?thesis using ok j final dns by (auto simp: phase_ok_def keys(1))
    next
      case False
      then show ?thesis using ok j other by (auto simp: phase_ok_def keys(1))
    qed
  qed
  ultimately show ?thesis by (simp add: deletion_inv_def)
qed

lemma same_job_site:
  assumes "tables_ok s" and "j \<in> set (site_deletions s)" and "j' \<in> set (site_deletions s)" and "sd_TaskID j = sd_TaskID j'"
  shows "sd_SiteID j = sd_SiteID j'"
  using assms task_keys_wf [of s "sd_TaskID j" KindDeleteSite "sd_SiteID j" KindDeleteSite "sd_SiteID j'"]
  by (auto simp: tables_ok_def)

lemma SiteDeletionJobForTaskD: "SiteDeletionJobForTask s i = Some j \<Longrightarrow> j \<in> set (site_deletions s) \<and> sd_TaskID j = i"
  unfolding SiteDeletionJobForTask_def by (drule find_row_SomeD) simp

subsection \<open>Waiting for the edges\<close>

lemma keeps_confirm: "keeps s (confirm_applied s i t)"
  unfolding confirm_applied_def by (rule keeps_advance [OF advance_only_targets]) (simp_all add: same_target_def)

lemma keeps_time_out: "keeps s (time_out_removal s i)"
  unfolding time_out_removal_def by (rule keeps_advance [OF advance_only_targets]) (simp_all add: same_target_def)

lemma counts_confirmed:
  assumes "task_pending s i = 0" and "task_failed s i = 0"
  shows "removal_confirmed s i"
proof -
  have "ptn_Status p = PublishNodeSucceeded" if "p \<in> set (task_rows s i)" for p
    using assms that by (cases "ptn_Status p") (auto simp: task_pending_def task_failed_def count_rows_0)
  then show ?thesis by (auto simp: removal_confirmed_def task_rows_def)
qed

lemma ready_inv:
  assumes inv: "deletion_inv S records d s" and job: "SiteDeletionJobForTask s i = Some j" "sd_Phase j = SiteDeletionWaitingForEdges"
    and ready: "SiteDeletionReady s i t = (s', r)"
  shows "deletion_inv S records d s' \<and> site_keys s' = site_keys s"
proof (cases "r = Inr True")
  case True
  with ready obtain s2 where s2: "s2 = confirm_applied s i t" "task_pending s2 i = 0" "task_failed s2 i = 0"
    and ph: "SetSiteDeletionPhase s2 i SiteDeletionFinalizing TaskApplying
       (err ''edge removal confirmed; cleaning certificate material'') t = Inr s'"
    by (auto elim: SiteDeletionReady_True)
  have k: "keeps s s2" unfolding s2(1) by (rule keeps_confirm)
  have inv2: "deletion_inv S records d s2" by (rule keeps_inv [OF k inv])
  have jobs: "site_deletions s2 = site_deletions s" and keys: "site_keys s2 = site_keys s"
    using k by (simp_all add: keeps_def site_keys_def)
  note s' = SetSiteDeletionPhaseD(1) [OF ph]
  have "deletion_inv S records d s'"
  proof (rule inv_set_phase [OF inv2])
    show "site_deletions s' = set_phase i SiteDeletionFinalizing t (site_deletions s2)" by (simp add: s')
    show "removal_confirmed s' i" using counts_confirmed [OF s2(2,3)] by (simp add: s' removal_confirmed_def)
    fix j' k assume "j' \<in> set (site_deletions s2)" "sd_TaskID j' = i" "k \<in> set (site_keys s2)" "fst k = sd_SiteID j'" "fst k \<notin> S"
    moreover from this have "sd_SiteID j' = sd_SiteID j"
      using same_job_site [of s j' j] inv SiteDeletionJobForTaskD [OF job(1)] by (simp add: jobs deletion_inv_def)
    ultimately show "withdrawn records d k"
      using inv SiteDeletionJobForTaskD [OF job(1)] job(2) by (auto simp: deletion_inv_def phase_ok_def jobs keys)
  qed (simp_all add: s' site_keys_def removal_confirmed_def)
  moreover have "site_keys s' = site_keys s" using keys by (simp add: s' site_keys_def)
  ultimately show ?thesis by blast
next
  case False
  have "keeps s s'"
    using ready False keeps_confirm [of s i t] keeps_trans [OF keeps_confirm keeps_time_out, of s i t i]
      keeps_trans [OF keeps_confirm keeps_task, of s i t i]
      keeps_trans [OF keeps_trans [OF keeps_confirm keeps_time_out] keeps_task, of s i t i i]
    by (auto simp: SiteDeletionReady_def Let_def SetSiteDeletionPhase_def split: sum.splits if_splits)
  with keeps_inv [OF this inv] show ?thesis by (simp add: keeps_def site_keys_def)
qed

end
