(* ===== verification/Site_Deletion_Rounds.thy ===== *)
theory Site_Deletion_Rounds
  imports Site_Deletion_Invariant Samples
begin

section \<open>Sites go only when nothing serves them\<close>

subsection \<open>Beginning\<close>

lemma upsert_job_in:
  assumes "j' \<in> set (upsert_job j js)"
  obtains "sd_SiteID j' = sd_SiteID j" "sd_TaskID j' = sd_TaskID j" "sd_Phase j' = sd_Phase j"
    | "j' \<in> set js" "sd_SiteID j' \<noteq> sd_SiteID j"
proof (cases "sd_SiteID j' = sd_SiteID j")
  case True
  with assms have "\<exists>at. j' = j\<lparr>sd_CreatedAt := at\<rparr>"
    unfolding upsert_job_def
    by (cases "list_ex (\<lambda>x. sd_SiteID x = sd_SiteID j) js")
      (auto simp: set_update_rows list_ex_iff intro: exI [of _ "sd_CreatedAt j"])
  then obtain at where "j' = j\<lparr>sd_CreatedAt := at\<rparr>" by blast
  then have "sd_SiteID j' = sd_SiteID j" "sd_TaskID j' = sd_TaskID j" "sd_Phase j' = sd_Phase j" by simp_all
  then show thesis by (rule that(1))
next
  case False
  with assms have "j' \<in> set js"
    unfolding upsert_job_def by (cases "list_ex (\<lambda>x. sd_SiteID x = sd_SiteID j) js") (auto simp: set_update_rows)
  from that(2) [OF this False] show thesis .
qed

lemma begin_inv:
  assumes inv: "deletion_inv S records d s" and b: "BeginSiteDeletion s i actor addr newID dl t = Inr (s', x, task, new)"
  shows "deletion_inv S records d s' \<and> map fst (site_keys s') = map fst (site_keys s)"
proof (cases new)
  case False
  then have "s' = s" using b by (auto simp: BeginSiteDeletion_def split: option.splits if_splits)
  with inv show ?thesis by simp
next
  case True
  define j where "j = deletion_job i newID actor addr t"
  define u where "u = deletion_task newID i dl t"
  have fresh: "newID \<notin> dt_ID ` set (deployment_tasks s)"
    and s': "s' = s\<lparr>deployment_tasks := deployment_tasks s @ [u],
       sites := update_rows (\<lambda>x. st_ID x = i) (\<lambda>x. x\<lparr>st_Enabled := False, st_Deleting := True, st_UpdatedAt := t\<rparr>) (sites s),
       site_deletions := upsert_job j (site_deletions s)\<rparr>"
    using b True by (auto simp: BeginSiteDeletion_def j_def u_def list_ex_iff split: option.splits if_splits)
  have keys: "site_keys s' = map (\<lambda>k. if fst k = i then (fst k, fst (snd k), True) else k) (site_keys s)"
    by (simp add: s' site_keys_def update_rows_def site_key_def)
  have ids: "map fst (site_keys s') = map fst (site_keys s)" by (simp add: keys)
  have tk: "task_keys s' = insert (newID, KindDeleteSite, i) (task_keys s)"
    by (auto simp: s' task_keys_def task_key_def u_def deletion_task_def)
  have wf: "tasks_wf s'" using inv fresh by (simp add: deletion_inv_def tables_ok_def tasks_wf_def s' u_def deletion_task_def)
  have job: "(sd_TaskID j', KindDeleteSite, sd_SiteID j') \<in> task_keys s' \<and> phase_ok S records d s' j'"
    if "j' \<in> set (site_deletions s')" for j'
  proof -
    from that have "j' \<in> set (upsert_job j (site_deletions s))" by (simp add: s')
    then show ?thesis
    proof (cases rule: upsert_job_in)
      case 1
      then show ?thesis by (auto simp: tk phase_ok_def keys j_def deletion_job_def)
    next
      case 2
      then have "phase_ok S records d s j'" "(sd_TaskID j', KindDeleteSite, sd_SiteID j') \<in> task_keys s"
        using inv by (simp_all add: deletion_inv_def tables_ok_def)
      moreover have "removal_confirmed s' k = removal_confirmed s k" for k by (simp add: removal_confirmed_def s')
      ultimately show ?thesis using 2(2) by (auto simp: tk phase_ok_def keys j_def deletion_job_def)
    qed
  qed
  have "\<forall>k \<in> set (site_keys s'). CHR '';'' \<notin> set (fst k)" using inv by (auto simp: deletion_inv_def tables_ok_def keys)
  with wf job ids inv show ?thesis by (simp add: deletion_inv_def tables_ok_def)
qed

subsection \<open>Completing\<close>

definition unreferenced :: "store \<Rightarrow> string \<Rightarrow> bool" where
  "unreferenced s siteID \<longleftrightarrow> siteID \<notin> snd ` set (site_domains s) \<and> siteID \<notin> ce_SiteID ` set (certificates s)
     \<and> siteID \<notin> (\<lambda>p. st_ID (sp_Site p)) ` set (publications s) \<and> siteID \<notin> dr_SiteID ` set (drains s)
     \<and> siteID \<notin> sh_SiteID ` set (site_healths s) \<and> siteID \<notin> sd_SiteID ` set (site_deletions s)"

definition well_deleted :: "string set \<Rightarrow> ('d \<Rightarrow> string \<Rightarrow> dns_record list) \<Rightarrow> 'd \<Rightarrow> store \<Rightarrow> site \<Rightarrow> bool" where
  "well_deleted S records d s x \<longleftrightarrow> unreferenced s (st_ID x)
     \<and> (st_ID x \<notin> S \<longrightarrow> (\<forall>r \<in> set (records d (st_ZoneID x)). \<not> owned (site_owner (st_ID x)) r))
     \<and> (\<exists>t \<in> set (deployment_tasks s). dt_Kind t = KindDeleteSite \<and> dt_SiteID t = st_ID x
          \<and> dt_Status t = TaskSucceeded \<and> removal_confirmed s (dt_ID t))"

lemma complete_inv:
  assumes inv: "deletion_inv S records d s" and job: "SiteDeletionJobForTask s i = Some j" "sd_Phase j = SiteDeletionFinalizing"
    and c: "CompleteSiteDeletion s i t = Inr s'"
  shows "deletion_inv S records d s'
    \<and> (\<forall>x \<in> set (sites s). st_ID x \<in> st_ID ` set (sites s') \<or> well_deleted S records d s' x)"
proof -
  obtain j0 detail where j0: "j0 \<in> set (site_deletions s)" "sd_TaskID j0 = i"
    and s': "s' = (delete_site_rows s (sd_SiteID j0))\<lparr>deployment_tasks := set_task i TaskSucceeded detail t (deployment_tasks s)\<rparr>"
    using c by (auto simp: CompleteSiteDeletion_def Let_def delete_site_rows_def split: option.splits dest!: find_row_SomeD)
  note j = SiteDeletionJobForTaskD [OF job(1)]
  have ok: "tables_ok s" using inv by (simp add: deletion_inv_def)
  have site: "sd_SiteID j0 = sd_SiteID j" using same_job_site [OF ok j0(1), of j] j j0(2) by simp
  have keys: "site_keys s' = filter (\<lambda>k. fst k \<noteq> sd_SiteID j) (site_keys s)"
    by (simp add: s' delete_site_rows_def site_keys_def delete_rows_def filter_map comp_def site_key_def site)
  have tkeys: "map task_key (deployment_tasks s') = map task_key (deployment_tasks s)" by (simp add: s')
  then have tk: "task_keys s' = task_keys s" unfolding task_keys_def by (metis list.set_map)
  have "map dt_ID (deployment_tasks s') = map dt_ID (deployment_tasks s)" by (simp add: s' set_task_def map_key_update_rows)
  then have wf: "tasks_wf s'" using ok by (simp add: tables_ok_def tasks_wf_def)
  have jobs: "set (site_deletions s') \<subseteq> set (site_deletions s)" by (auto simp: s' delete_site_rows_def delete_rows_def)
  have conf: "removal_confirmed s' k = removal_confirmed s k" for k
    by (simp add: removal_confirmed_def s' delete_site_rows_def)
  have sub: "set (site_keys s') \<subseteq> set (site_keys s)" by (auto simp: keys)
  have "tables_ok s'"
    using ok wf jobs by (auto simp: tables_ok_def keys tk distinct_map inj_on_def)
  moreover have "\<forall>j' \<in> set (site_deletions s'). phase_ok S records d s' j'"
    using inv jobs sub unfolding deletion_inv_def phase_ok_def conf by blast
  moreover have "well_deleted S records d s' x" if x: "x \<in> set (sites s)" "st_ID x \<notin> st_ID ` set (sites s')" for x
  proof -
    have id: "st_ID x = sd_SiteID j"
      using x site by (auto simp: s' delete_site_rows_def delete_rows_def image_iff)
    have "site_key x \<in> set (site_keys s)" using x(1) by (simp add: site_keys_def)
    then have "st_ID x \<notin> S \<longrightarrow> withdrawn records d (site_key x)"
      using inv j job(2) id by (auto simp: deletion_inv_def phase_ok_def site_key_def)
    moreover have "removal_confirmed s' i" using inv j job(2) by (auto simp: conf deletion_inv_def phase_ok_def)
    moreover have "(i, KindDeleteSite, st_ID x) \<in> task_keys s" using ok j id by (auto simp: tables_ok_def)
    then obtain u where "u \<in> set (deployment_tasks s)" "dt_ID u = i" "dt_Kind u = KindDeleteSite" "dt_SiteID u = st_ID x"
      by (auto simp: task_keys_def task_key_def)
    then have "\<exists>t \<in> set (deployment_tasks s'). dt_ID t = i \<and> dt_Kind t = KindDeleteSite \<and> dt_SiteID t = st_ID x
        \<and> dt_Status t = TaskSucceeded"
      by (intro bexI [of _ "u\<lparr>dt_Status := TaskSucceeded, dt_Detail := detail, dt_UpdatedAt := t\<rparr>"])
        (auto simp: s' set_task_def set_update_rows)
    moreover have "unreferenced s' (st_ID x)"
      by (auto simp: unreferenced_def s' delete_site_rows_def delete_rows_def id site)
    ultimately show ?thesis by (auto simp: well_deleted_def withdrawn_def site_key_def)
  qed
  ultimately show ?thesis unfolding deletion_inv_def by blast
qed

subsection \<open>One round\<close>

definition goes_well :: "string set \<Rightarrow> ('d \<Rightarrow> string \<Rightarrow> dns_record list) \<Rightarrow> ('d, 'c) deletion_manager \<Rightarrow> ('d, 'c) deletion_manager \<Rightarrow> bool" where
  "goes_well S records m m' \<longleftrightarrow> deletion_inv S records (dm_dns m') (dm_store m')
     \<and> (\<forall>x \<in> set (sites (dm_store m)). st_ID x \<in> st_ID ` set (sites (dm_store m'))
          \<or> well_deleted S records (dm_dns m') (dm_store m') x)"

lemma keys_ids: "map fst (site_keys s') = map fst (site_keys s) \<Longrightarrow> st_ID ` set (sites s') = st_ID ` set (sites s)"
proof -
  assume "map fst (site_keys s') = map fst (site_keys s)"
  then have "map st_ID (sites s') = map st_ID (sites s)" by (simp add: site_keys_def site_key_def comp_def)
  then show ?thesis by (metis list.set_map)
qed

lemma goes_well_keys:
  assumes "deletion_inv S records (dm_dns m') (dm_store m')"
    and "map fst (site_keys (dm_store m')) = map fst (site_keys (dm_store m))"
  shows "goes_well S records m m'"
  using assms keys_ids [OF assms(2)] by (auto simp: goes_well_def)

lemma goes_well_from:
  assumes "goes_well S records m1 m'" and "site_keys (dm_store m1) = site_keys (dm_store m)"
  shows "goes_well S records m m'"
  unfolding goes_well_def
proof (intro conjI ballI)
  show "deletion_inv S records (dm_dns m') (dm_store m')" using assms(1) by (simp add: goes_well_def)
  fix x assume "x \<in> set (sites (dm_store m))"
  then have "site_key x \<in> set (site_keys (dm_store m1))" by (simp add: assms(2)) (simp add: site_keys_def)
  then obtain y where y: "y \<in> set (sites (dm_store m1))" "st_ID y = st_ID x" "st_ZoneID y = st_ZoneID x"
    by (auto simp: site_keys_def site_key_def)
  with assms(1) have "st_ID y \<in> st_ID ` set (sites (dm_store m')) \<or> well_deleted S records (dm_dns m') (dm_store m') y"
    unfolding goes_well_def by blast
  then show "st_ID x \<in> st_ID ` set (sites (dm_store m')) \<or> well_deleted S records (dm_dns m') (dm_store m') x"
    by (simp add: well_deleted_def y)
qed

context deletion_dns
begin

lemma withdraw_inv:
  assumes inv: "deletion_inv S records (dm_dns m) (dm_store m)"
    and env: "de_DNS env = None \<or> de_DNS env = Some reconcile"
    and job: "SiteDeletionJobForTask (dm_store m) i = Some j" "sd_Phase j = SiteDeletionWithdrawingDNS"
    and w: "withdraw env t m i j = (m', r)"
  shows "deletion_inv S records (dm_dns m') (dm_store m') \<and> site_keys (dm_store m') = site_keys (dm_store m)"
proof (cases "m' = m")
  case False
  with w env have dns: "de_DNS env = Some reconcile" by (auto simp: withdraw_def)
  from w False obtain s1 where s1: "SetSiteDeletionPhase (dm_store m) i SiteDeletionWithdrawingDNS TaskDispatching
      (err ''withdrawing managed DNS records'') t = Inr s1"
    by (auto simp: withdraw_def dns split: sum.splits)
  note s1' = SetSiteDeletionPhaseD(1) [OF s1]
  have keys1: "site_keys s1 = site_keys (dm_store m)" by (simp add: s1' site_keys_def)
  have inv1: "deletion_inv S records (dm_dns m) s1"
    by (rule inv_set_phase [OF inv, of _ i SiteDeletionWithdrawingDNS t])
      (simp_all add: s1' site_keys_def removal_confirmed_def)
  show ?thesis
  proof (cases "find_site s1 (sd_SiteID j)")
    case None
    with w inv1 keys1 show ?thesis by (auto simp: withdraw_def dns s1)
  next
    case (Some x)
    then have x: "x \<in> set (sites s1)" "st_ID x = sd_SiteID j" by (auto simp: find_site_def dest: find_row_SomeD)
    obtain d' q where rec: "reconcile (dm_dns m) (st_ZoneID x) (site_owner (st_ID x)) [] = (d', q)" by fastforce
    have inv2: "deletion_inv S records d' s1" by (rule inv_dns [OF inv1 clear_kept [OF rec]])
    show ?thesis
    proof (cases "\<exists>s2. q = Inr () \<and> StageSiteRemoval s1 i (st_ID x) (de_render env) t = Inr s2")
      case False
      then have "dm_store m' = s1" "dm_dns m' = d'"
        using w by (auto simp: withdraw_def dns s1 Some rec split: sum.splits)
      with inv2 keys1 show ?thesis by simp
    next
      case True
      then obtain s2 where q: "q = Inr ()" and st: "StageSiteRemoval s1 i (st_ID x) (de_render env) t = Inr s2" by blast
      have m': "dm_store m' = s2" "dm_dns m' = d'" using w by (auto simp: withdraw_def dns s1 Some rec q st)
      from st obtain us ts where "StageSiteDeletion s1 i us ts t = Inr s2"
        by (auto simp: StageSiteRemoval_def split: sum.splits prod.splits)
      then obtain ps ns where ps: "\<forall>p \<in> set ps. ptn_TaskID p = i"
        and s2: "s2 = s1\<lparr>publish_nodes := publish_nodes s1 @ ps, node_states := ns,
           site_deletions := set_phase i SiteDeletionWaitingForEdges t (site_deletions s1),
           deployment_tasks := set_task i TaskApplying
             (err ''waiting for active edge nodes to remove the site'') t (deployment_tasks s1)\<rparr>"
        by (rule StageSiteDeletionD)
      have keys2: "site_keys s2 = site_keys s1" by (simp add: s2 site_keys_def)
      have "deletion_inv S records d' s2"
      proof (rule inv_set_phase [OF inv2, of _ i SiteDeletionWaitingForEdges t])
        fix j' assume "j' \<in> set (site_deletions s1)" "sd_TaskID j' \<noteq> i" "removal_confirmed s1 (sd_TaskID j')"
        with ps show "removal_confirmed s2 (sd_TaskID j')" by (auto simp: removal_confirmed_def s2)
      next
        fix j' k assume j': "j' \<in> set (site_deletions s1)" "sd_TaskID j' = i"
          and k: "k \<in> set (site_keys s1)" "fst k = sd_SiteID j'"
        have j1: "SiteDeletionJobForTask s1 i = Some (j\<lparr>sd_Phase := SiteDeletionWithdrawingDNS, sd_UpdatedAt := t\<rparr>)"
          by (rule SetSiteDeletionPhaseD(3) [OF s1 job(1)])
        have "sd_SiteID j' = sd_SiteID j"
          using same_job_site [of s1 j' "j\<lparr>sd_Phase := SiteDeletionWithdrawingDNS, sd_UpdatedAt := t\<rparr>"] inv1 j'
            SiteDeletionJobForTaskD [OF j1] by (simp add: deletion_inv_def)
        with k x have "fst k = fst (site_key x)" by (simp add: site_key_def)
        moreover have "site_key x \<in> set (site_keys s1)" using x(1) by (simp add: site_keys_def)
        moreover have "distinct (map fst (site_keys s1))" using inv1 by (simp add: deletion_inv_def tables_ok_def)
        ultimately have "k = site_key x" using k(1) by (metis distinct_map inj_onD)
        then show "withdrawn records d' k" using clear_withdraws [OF rec [unfolded q]] by (simp add: site_key_def)
      qed (simp_all add: s2 site_keys_def)
      with keys1 keys2 show ?thesis by (simp add: m')
    qed
  qed
qed (use inv in simp)

lemma phase_round_well:
  assumes inv: "deletion_inv S records (dm_dns m) (dm_store m)"
    and env: "de_DNS env = None \<or> de_DNS env = Some reconcile"
    and round: "phase_round env t m i = (m', r)"
  shows "goes_well S records m m'
    \<and> (r = Inr True \<longrightarrow> site_keys (dm_store m') = site_keys (dm_store m))"
proof (cases "SiteDeletionJobForTask (dm_store m) i")
  case None
  with round inv show ?thesis by (auto simp: phase_round_def intro: goes_well_keys)
next
  case (Some j)
  show ?thesis
  proof (cases "sd_Phase j")
    case SiteDeletionWithdrawingDNS
    with round Some have w: "withdraw env t m i j = (m', r)" by (simp add: phase_round_def)
    from withdraw_inv [OF inv env Some SiteDeletionWithdrawingDNS w] show ?thesis by (simp add: goes_well_keys)
  next
    case SiteDeletionWaitingForEdges
    with round Some obtain s' where s': "SiteDeletionReady (dm_store m) i t = (s', r)" "m' = m\<lparr>dm_store := s'\<rparr>"
      by (auto simp: phase_round_def await_edges_def split: prod.splits)
    from ready_inv [OF inv Some SiteDeletionWaitingForEdges s'(1)] s'(2) show ?thesis by (simp add: goes_well_keys)
  next
    case SiteDeletionFinalizing
    with round Some have f: "finalize env t m i j = (m', r)" by (simp add: phase_round_def)
    then have dns: "dm_dns m' = dm_dns m" and no: "r \<noteq> Inr True"
      by (auto simp: finalize_def split: option.splits sum.splits prod.splits)
    show ?thesis
    proof (cases "dm_store m' = dm_store m")
      case True
      with inv dns no show ?thesis by (auto intro: goes_well_keys)
    next
      case False
      with f have "CompleteSiteDeletion (dm_store m) i t = Inr (dm_store m')"
        by (auto simp: finalize_def split: option.splits sum.splits prod.splits)
      from complete_inv [OF inv Some SiteDeletionFinalizing this] no show ?thesis by (simp add: goes_well_def dns)
    qed
  next
    case (SiteDeletionPhaseOther p)
    with round Some inv show ?thesis by (auto simp: phase_round_def intro: goes_well_keys)
  qed
qed

lemma advance_rounds_well:
  assumes "de_DNS env = None \<or> de_DNS env = Some reconcile"
  shows "deletion_inv S records (dm_dns m) (dm_store m) \<Longrightarrow> advance_rounds env k n m i = (m', r) \<Longrightarrow> goes_well S records m m'"
proof (induction n arbitrary: k m)
  case 0
  then show ?case by (auto intro: goes_well_keys)
next
  case (Suc n)
  obtain m1 q where q: "phase_round env (de_clock env k) m i = (m1, q)" by fastforce
  note 1 = phase_round_well [OF Suc.prems(1) assms q]
  show ?case
  proof (cases "q = Inr True")
    case True
    with Suc.prems(2) q have "advance_rounds env (Suc k) n m1 i = (m', r)" by simp
    moreover have "deletion_inv S records (dm_dns m1) (dm_store m1)" using 1 by (simp add: goes_well_def)
    ultimately have "goes_well S records m1 m'" by (rule Suc.IH [rotated])
    then show ?thesis by (rule goes_well_from) (use 1 True in simp)
  next
    case False
    then have "m1 = m'" using Suc.prems(2) q by (auto split: sum.splits bool.splits)
    with 1 show ?thesis by simp
  qed
qed

end

end
