(* ===== verification/Site_Deletion_Properties.thy ===== *)
theory Site_Deletion_Properties
  imports Site_Deletion_Rounds DNS_Properties
begin

section \<open>Properties of site deletions\<close>

subsection \<open>Histories\<close>

text \<open>
  The steps of a history. A deletion is begun, carried on and recorded as failed; sites are created (with an
  unused identifier), changed (\<open>UpdateSite\<close> keeps identifier and zone, and refuses a site that is being
  deleted) and published; the tables of publications take any \<open>publish_step\<close>, where the publisher writes
  only tasks that are no deletions; DNS cutovers and the cleanup of drains go on; nodes report, change and
  are removed; the health loop writes the DNS of a site that is not being deleted, and clears that of any
  site. \<open>provider\<close> is the DNS provider, which a control plane may also lack.

  Both \<open>UpdateSite\<close> and the health loop look at the flag of a site before they write (\<open>store.go\<close> outside of
  the transaction, \<open>health.go\<close> at the beginning of a round), so a deletion may begin in between. \<open>S\<close> has
  the sites for which a history contains such late writes: their flag and their DNS may be written at any time.
\<close>

definition of_health :: "('d, 'c) deletion_manager \<Rightarrow> 'd health_manager \<Rightarrow> ('d, 'c) deletion_manager" where
  "of_health m h = m\<lparr>dm_store := hm_store h, dm_dns := hm_dns h\<rparr>"

definition to_health :: "('d, 'c) deletion_manager \<Rightarrow> (string \<rightharpoonup> time) \<Rightarrow> 'd health_manager" where
  "to_health m alerts = \<lparr>hm_store = dm_store m, hm_dns = dm_dns m, hm_noHealthyAlerts = alerts\<rparr>"

definition unused_id :: "store \<Rightarrow> string \<Rightarrow> bool" where
  "unused_id s siteID \<longleftrightarrow> siteID \<notin> st_ID ` set (sites s) \<and> siteID \<notin> sd_SiteID ` set (site_deletions s)
     \<and> CHR '';'' \<notin> set siteID"

definition not_deletion_task :: "store \<Rightarrow> string \<Rightarrow> bool" where
  "not_deletion_task s task \<longleftrightarrow> (\<forall>u \<in> set (deployment_tasks s). dt_ID u = task \<longrightarrow> dt_Kind u \<noteq> KindDeleteSite)"

inductive deletion_step :: "string set \<Rightarrow> 'd provider \<Rightarrow> ('d, 'c) deletion_manager \<Rightarrow> ('d, 'c) deletion_manager \<Rightarrow> bool"
  for S :: "string set" and provider :: "'d provider" where
  begin_deletion: "BeginSiteDeletion (dm_store m) i actor addr newID dl t = Inr (s', x, task, new) \<Longrightarrow>
    deletion_step S provider m (m\<lparr>dm_store := s'\<rparr>)"
| carry_on: "de_DNS env = None \<or> de_DNS env = Some provider \<Longrightarrow> advance_deletion env m i = (m', r) \<Longrightarrow>
    deletion_step S provider m m'"
| give_up: "FailSiteDeletion (dm_store m) i d t = Inr s' \<Longrightarrow> deletion_step S provider m (m\<lparr>dm_store := s'\<rparr>)"
| create: "unused_id (dm_store m) (st_ID x) \<Longrightarrow> \<not> st_Deleting x \<Longrightarrow>
    deletion_step S provider m (m\<lparr>dm_store := (dm_store m)\<lparr>sites := sites (dm_store m) @ [x]\<rparr>\<rparr>)"
| change: "st_ID y = st_ID x \<Longrightarrow> st_ZoneID y = st_ZoneID x \<Longrightarrow> \<not> st_Deleting x \<and> \<not> st_Deleting y \<or> st_ID x \<in> S \<Longrightarrow>
    deletion_step S provider m (m\<lparr>dm_store := (dm_store m)\<lparr>sites := map (\<lambda>z. if z = x then y else z) (sites (dm_store m))\<rparr>\<rparr>)"
| publish: "publishSite (dm_store m) i task v render fresh t = Inr (s', targets) \<Longrightarrow>
    not_deletion_task (dm_store m) task \<Longrightarrow> deletion_step S provider m (m\<lparr>dm_store := s'\<rparr>)"
| tables: "publish_step W (dm_store m) s' \<Longrightarrow> \<forall>task \<in> W. not_deletion_task (dm_store m) task \<Longrightarrow>
    deletion_step S provider m (m\<lparr>dm_store := s'\<rparr>)"
| cutover: "MarkSiteNodeDrainsDNSReadyForPublication (dm_store m) i at readyAt p d grace = Inr (s', k, b) \<Longrightarrow>
    deletion_step S provider m (m\<lparr>dm_store := s'\<rparr>)"
| cleanup: "StageDrainCleanup (dm_store m) task ids updates targets t = Inr s' \<Longrightarrow>
    not_deletion_task (dm_store m) task \<Longrightarrow> deletion_step S provider m (m\<lparr>dm_store := s'\<rparr>)"
| prune: "PruneAppliedSiteNodeDrains (dm_store m) ids = (s', k) \<Longrightarrow> deletion_step S provider m (m\<lparr>dm_store := s'\<rparr>)"
| remove_node: "DeleteNode (dm_store m) n = Inr s' \<Longrightarrow> deletion_step S provider m (m\<lparr>dm_store := s'\<rparr>)"
| health: "(\<exists>draft. find_site (dm_store m) (st_ID (sp_Site p)) = Some draft \<and> \<not> st_Deleting draft) \<or> st_ID (sp_Site p) \<in> S \<Longrightarrow>
    CHR '';'' \<notin> set (st_ID (sp_Site p)) \<Longrightarrow>
    reconcileSiteDNSOutcomeForPublication provider dflt c0 c1 (to_health m alerts) p ns t = (h, r) \<Longrightarrow>
    deletion_step S provider m (of_health m h)"
| clear: "clearSiteDNS provider dflt c0 (to_health m alerts) x p t = (h, r) \<Longrightarrow> deletion_step S provider m (of_health m h)"

lemma keeps_start_clocks:
  "start_clocks h p ttl t = (h', r) \<Longrightarrow> keeps (hm_store h) (hm_store h') \<and> hm_dns h' = hm_dns h"
  by (auto simp: start_clocks_def markSiteNodeDrainsDNSReady_def dest: keeps_cutover split: if_splits sum.splits)

lemma goes_well_keeps: "deletion_inv S records (dm_dns m) (dm_store m) \<Longrightarrow> keeps (dm_store m) s' \<Longrightarrow>
    goes_well S records m (m\<lparr>dm_store := s'\<rparr>)"
  by (rule goes_well_keys) (simp_all add: keeps_inv, simp add: keeps_def site_keys_def)

context deletion_dns
begin

lemma health_inv:
  assumes inv: "deletion_inv S records (dm_dns m) (dm_store m)"
    and draft: "(\<exists>draft. find_site (dm_store m) (st_ID (sp_Site p)) = Some draft \<and> \<not> st_Deleting draft) \<or> st_ID (sp_Site p) \<in> S"
    and semi: "CHR '';'' \<notin> set (st_ID (sp_Site p))"
    and run: "reconcileSiteDNSOutcomeForPublication reconcile dflt c0 c1 (to_health m alerts) p ns t = (h, r)"
  shows "deletion_inv S records (hm_dns h) (dm_store m) \<and> keeps (dm_store m) (hm_store h)"
proof -
  let ?x = "sp_Site p"
  have ok: "tables_ok (dm_store m)" using inv by (simp add: deletion_inv_def)
  have other: "fst k \<noteq> st_ID ?x" if k: "k \<in> set (site_keys (dm_store m))" "fst k \<notin> S" "snd (snd k)" for k
  proof
    assume id: "fst k = st_ID ?x"
    with k(2) draft obtain draft where "find_site (dm_store m) (st_ID ?x) = Some draft" "\<not> st_Deleting draft" by auto
    then have d: "site_key draft \<in> set (site_keys (dm_store m))" "fst (site_key draft) = fst k" "\<not> snd (snd (site_key draft))"
      using id by (auto simp: find_site_def site_keys_def site_key_def dest: find_row_SomeD)
    moreover have "distinct (map fst (site_keys (dm_store m)))" using ok by (simp add: tables_ok_def)
    ultimately have "k = site_key draft" using k(1) by (metis distinct_map inj_onD)
    with k(3) d(3) show False by simp
  qed
  have point: "deletion_inv S records d' (dm_store m)"
    if rec: "reconcile (dm_dns m) z (site_owner (st_ID ?x)) (desired_records ?x ttl v4 v6) = (d', q)" for z ttl v4 v6 d' q
  proof (rule inv_dns [OF inv])
    fix k assume k: "k \<in> set (site_keys (dm_store m))" "fst k \<notin> S" "snd (snd k)" "withdrawn records (dm_dns m) k"
    obtain i zone b where kk: "k = (i, zone, b)" by (cases k)
    have "CHR '';'' \<notin> set i" using ok k(1) kk by (auto simp: tables_ok_def)
    with other_site_kept [OF rec, of i zone b] other [OF k(1-3)] k(4) semi kk show "withdrawn records d' k" by simp
  qed
  have clear: "deletion_inv S records d' (dm_store m)" if "reconcile (dm_dns m) z o' [] = (d', q)" for z o' d' q
    by (rule inv_dns [OF inv clear_kept [OF that]])
  have clr: "deletion_inv S records (hm_dns h') (dm_store m) \<and> keeps (dm_store m) (hm_store h')"
    if "clearSiteDNS reconcile dflt c (to_health m alerts) y q t = (h', r')" for dflt c y q h' r'
    using that inv clear by (auto simp: clearSiteDNS_def to_health_def dest!: keeps_start_clocks
        split: option.splits sum.splits prod.splits if_splits)
  have store: "hm_store (clearNoHealthyAlert a i) = hm_store a" "hm_dns (clearNoHealthyAlert a i) = hm_dns a" for a i
    by (simp_all add: clearNoHealthyAlert_def)
  show ?thesis
    using run inv point clr
    by (auto simp: reconcileSiteDNSOutcomeForPublication_def Let_def store to_health_def dest!: keeps_start_clocks
        split: option.splits sum.splits prod.splits dns_decision.splits)
qed

lemma step_well:
  assumes step: "deletion_step S reconcile m m'" and inv: "deletion_inv S records (dm_dns m) (dm_store m)"
  shows "goes_well S records m m'"
proof -
  have not_deletion: "task \<notin> sd_TaskID ` set (site_deletions (dm_store m))" if "not_deletion_task (dm_store m) task" for task
    using inv that by (force simp: not_deletion_task_def deletion_inv_def tables_ok_def task_keys_def task_key_def)
  show ?thesis
  using step
proof cases
  case (begin_deletion i actor addr newID dl t s' x task new)
  from begin_inv [OF inv begin_deletion(2)] show ?thesis by (simp add: begin_deletion(1) goes_well_keys)
next
  case (carry_on env i r)
  from advance_rounds_well [OF carry_on(1) inv carry_on(2) [unfolded advance_deletion_def]] show ?thesis .
next
  case (give_up i d t s')
  with goes_well_keeps [OF inv keeps_task] show ?thesis by (simp add: FailSiteDeletion_def)
next
  case (create x)
  define s1 where "s1 = (dm_store m)\<lparr>sites := sites (dm_store m) @ [x]\<rparr>"
  have keys: "site_keys s1 = site_keys (dm_store m) @ [site_key x]" by (simp add: s1_def site_keys_def)
  have new: "fst (site_key x) \<notin> fst ` set (site_keys (dm_store m))" "CHR '';'' \<notin> set (fst (site_key x))"
    "fst (site_key x) \<notin> sd_SiteID ` set (site_deletions (dm_store m))"
    using create(2) by (auto simp: unused_id_def site_keys_def site_key_def)
  have same: "site_deletions s1 = site_deletions (dm_store m)" "task_keys s1 = task_keys (dm_store m)"
    "tasks_wf s1 = tasks_wf (dm_store m)" "removal_confirmed s1 i = removal_confirmed (dm_store m) i" for i
    by (simp_all add: s1_def task_keys_def tasks_wf_def removal_confirmed_def)
  have "tables_ok s1" using inv new(1,2) by (auto simp: deletion_inv_def tables_ok_def keys same)
  moreover have "phase_ok S records (dm_dns m) s1 j" if "j \<in> set (site_deletions s1)" for j
  proof -
    have "phase_ok S records (dm_dns m) (dm_store m) j" using inv that by (simp add: deletion_inv_def same)
    moreover have "fst (site_key x) \<noteq> sd_SiteID j" using new(3) that by (auto simp: same)
    ultimately show ?thesis unfolding phase_ok_def keys same by auto
  qed
  ultimately have "deletion_inv S records (dm_dns m') (dm_store m')"
    by (simp add: deletion_inv_def create(1) s1_def)
  with create show ?thesis by (auto simp: goes_well_def)
next
  case (change y x)
  define s1 where "s1 = (dm_store m)\<lparr>sites := map (\<lambda>z. if z = x then y else z) (sites (dm_store m))\<rparr>"
  have m': "m' = m\<lparr>dm_store := s1\<rparr>" by (simp add: change(1) s1_def)
  have "map fst (map site_key (map (\<lambda>z. if z = x then y else z) ss)) = map fst (map site_key ss)" for ss
    using change(2) by (induction ss) (auto simp: site_key_def)
  then have ids: "map fst (site_keys s1) = map fst (site_keys (dm_store m))" by (simp add: s1_def site_keys_def)
  have key: "k \<in> set (site_keys (dm_store m))" if "k \<in> set (site_keys s1)" "fst k \<notin> S" for k
    using that change(2-4) by (force simp: s1_def site_keys_def site_key_def split: if_splits)
  have same: "site_deletions s1 = site_deletions (dm_store m)" "task_keys s1 = task_keys (dm_store m)"
    "tasks_wf s1 = tasks_wf (dm_store m)" "removal_confirmed s1 i = removal_confirmed (dm_store m) i" for i
    by (simp_all add: s1_def task_keys_def tasks_wf_def removal_confirmed_def)
  have "fst ` set (site_keys s1) = fst ` set (site_keys (dm_store m))" using ids by (metis list.set_map)
  moreover have "\<forall>i \<in> fst ` set (site_keys (dm_store m)). CHR '';'' \<notin> set i"
    using inv by (simp add: deletion_inv_def tables_ok_def)
  ultimately have "\<forall>k \<in> set (site_keys s1). CHR '';'' \<notin> set (fst k)" by blast
  then have "tables_ok s1" using inv by (simp add: deletion_inv_def tables_ok_def ids same)
  moreover have "\<forall>j \<in> set (site_deletions s1). phase_ok S records (dm_dns m) s1 j"
    using inv key unfolding deletion_inv_def phase_ok_def same by blast
  ultimately show ?thesis by (intro goes_well_keys) (simp_all add: m' ids deletion_inv_def)
next
  case (publish i task v render fresh t s' targets)
  from goes_well_keeps [OF inv keeps_publish [OF publish(2) not_deletion [OF publish(3)]]] show ?thesis by (simp add: publish(1))
next
  case (tables W s')
  have "tasks_wf (dm_store m)" using inv by (simp add: deletion_inv_def tables_ok_def)
  moreover have "W \<inter> sd_TaskID ` set (site_deletions (dm_store m)) = {}" using tables(3) not_deletion by blast
  ultimately show ?thesis using goes_well_keeps [OF inv keeps_publish_step [OF tables(2)]] by (simp add: tables(1))
next
  case (cutover i at readyAt p d grace s' k b)
  from goes_well_keeps [OF inv keeps_cutover [OF cutover(2)]] show ?thesis by (simp add: cutover(1))
next
  case (cleanup task ids updates targets t s')
  from goes_well_keeps [OF inv keeps_stage_cleanup [OF cleanup(2) not_deletion [OF cleanup(3)]]]
  show ?thesis by (simp add: cleanup(1))
next
  case (prune ids s' k)
  from goes_well_keeps [OF inv keeps_prune [OF prune(2)]] show ?thesis by (simp add: prune(1))
next
  case (remove_node n s')
  from goes_well_keeps [OF inv keeps_remove_node [OF remove_node(2)]] show ?thesis by (simp add: remove_node(1))
next
  case (health p dflt c0 c1 alerts ns t h r)
  note 1 = health_inv [OF inv health(2-4)]
  then have "deletion_inv S records (dm_dns m') (dm_store m')" by (auto simp: health(1) of_health_def intro: keeps_inv)
  moreover have "site_keys (dm_store m') = site_keys (dm_store m)"
    using 1 by (simp add: health(1) of_health_def keeps_def site_keys_def)
  ultimately show ?thesis by (simp add: goes_well_keys)
next
  case (clear dflt c0 alerts x p t h r)
  have 1: "deletion_inv S records (hm_dns h) (dm_store m) \<and> keeps (dm_store m) (hm_store h)"
    using clear(2) inv inv_dns [OF inv clear_kept]
    by (auto simp: clearSiteDNS_def to_health_def dest!: keeps_start_clocks
        split: option.splits sum.splits prod.splits if_splits)
  then have "deletion_inv S records (dm_dns m') (dm_store m')" by (auto simp: clear(1) of_health_def intro: keeps_inv)
  moreover have "site_keys (dm_store m') = site_keys (dm_store m)"
    using 1 by (simp add: clear(1) of_health_def keeps_def site_keys_def)
  ultimately show ?thesis by (simp add: goes_well_keys)
qed
qed

lemma history_inv:
  "(deletion_step S reconcile)\<^sup>*\<^sup>* m0 m \<Longrightarrow> dm_store m0 = empty_store \<Longrightarrow> deletion_inv S records (dm_dns m) (dm_store m)"
proof (induction rule: rtranclp_induct)
  case base
  then show ?case by (simp add: deletion_inv_def tables_ok_def tasks_wf_def site_keys_def empty_store_def)
next
  case (step m m')
  then have "deletion_inv S records (dm_dns m) (dm_store m)" by simp
  from step_well [OF step(2) this] show ?case by (simp add: goes_well_def)
qed

end

subsection \<open>The calls of the manager are histories\<close>

lemma advance_or_fail_run:
  assumes "de_DNS env = None \<or> de_DNS env = Some P" and "advance_or_fail env t m i = (m', r)"
  shows "(deletion_step S P)\<^sup>*\<^sup>* m m'"
proof -
  obtain m1 q where q: "advance_deletion env m i = (m1, q)" by fastforce
  have 1: "deletion_step S P m m1" by (rule deletion_step.carry_on [OF assms(1) q])
  have "m' = m1 \<or> (\<exists>e s'. FailSiteDeletion (dm_store m1) i e t = Inr s' \<and> m' = m1\<lparr>dm_store := s'\<rparr>)"
    using assms(2) q by (auto simp: advance_or_fail_def split: sum.splits)
  then show ?thesis
  proof (elim disjE exE conjE)
    fix e s' assume f: "FailSiteDeletion (dm_store m1) i e t = Inr s'" "m' = m1\<lparr>dm_store := s'\<rparr>"
    have "deletion_step S P m1 m'" unfolding f(2) by (rule deletion_step.give_up [OF f(1)])
    with 1 show ?thesis by (meson converse_rtranclp_into_rtranclp r_into_rtranclp)
  qed (use 1 in blast)
qed

lemma advance_jobs_run:
  assumes "de_DNS env = None \<or> de_DNS env = Some P"
  shows "advance_jobs env t m js = (m', r) \<Longrightarrow> (deletion_step S P)\<^sup>*\<^sup>* m m'"
proof (induction js arbitrary: m)
  case (Cons j js)
  obtain m1 q where q: "advance_or_fail env t m (sd_TaskID j) = (m1, q)" by fastforce
  note 1 = advance_or_fail_run [OF assms q]
  show ?case
  proof (cases q)
    case (Inl e)
    with Cons.prems q 1 show ?thesis by simp
  next
    case (Inr u)
    with Cons.prems q have "advance_jobs env t m1 js = (m', r)" by simp
    from rtranclp_trans [OF 1 Cons.IH [OF this]] show ?thesis .
  qed
qed simp

lemma deletion_calls_run:
  assumes "de_DNS env = None \<or> de_DNS env = Some P"
    and "m' = fst (StartSiteDeletion env t m i actor addr newID) \<or> m' = fst (ReconcileSiteDeletions env t m)
      \<or> m' = fst (SiteDeletionProgress env t m i)"
  shows "(deletion_step S P)\<^sup>*\<^sup>* m m'"
  using assms(2)
proof (elim disjE)
  assume m': "m' = fst (StartSiteDeletion env t m i actor addr newID)"
  show ?thesis
  proof (cases "BeginSiteDeletion (dm_store m) i actor addr newID (t + 90 * second) t")
    case (Inl e)
    then show ?thesis by (simp add: m' StartSiteDeletion_def)
  next
    case (Inr y)
    then obtain s' x task new where b: "BeginSiteDeletion (dm_store m) i actor addr newID (t + 90 * second) t = Inr (s', x, task, new)"
      by (cases y) auto
    have 1: "deletion_step S P m (m\<lparr>dm_store := s'\<rparr>)" by (rule deletion_step.begin_deletion [OF b])
    have "advance_or_fail env t (m\<lparr>dm_store := s'\<rparr>) (dt_ID task) = (m', snd (advance_or_fail env t (m\<lparr>dm_store := s'\<rparr>) (dt_ID task)))"
      by (simp add: m' StartSiteDeletion_def b)
    from converse_rtranclp_into_rtranclp [of "deletion_step S P", OF 1 advance_or_fail_run [OF assms(1) this]]
    show ?thesis .
  qed
next
  assume "m' = fst (ReconcileSiteDeletions env t m)"
  with advance_jobs_run [OF assms(1), of t m "ActiveSiteDeletionJobs (dm_store m)" m'
      "snd (ReconcileSiteDeletions env t m)"] show ?thesis by (simp add: ReconcileSiteDeletions_def)
next
  assume m': "m' = fst (SiteDeletionProgress env t m i)"
  show ?thesis
  proof (cases "LatestSiteDeletionTask (dm_store m) i")
    case None
    then show ?thesis by (simp add: m' SiteDeletionProgress_def)
  next
    case (Some task)
    with advance_or_fail_run [OF assms(1), of t m "dt_ID task" m' "snd (advance_or_fail env t m (dt_ID task))"]
    show ?thesis by (cases "active_task_status (dt_Status task)") (simp_all add: m' SiteDeletionProgress_def Let_def)
  qed
qed

subsection \<open>The loop ends\<close>

text \<open>
  C19: Termination. The loop of \<open>advance\<close> never runs out of its four rounds: the error that would
  report it is never returned, whatever the provider, the renderer and the cleaner answer, and a bound
  of three rounds gives the same result as any larger one.
\<close>

theorem site_deletion_converges:
  "snd (advance_deletion env m taskID) \<noteq> Inl (err ''site deletion did not converge'')
   \<and> advance_rounds env 0 (3 + k) m taskID = advance_rounds env 0 3 m taskID"
proof -
  have rank: "job_rank (dm_store m) taskID < 3" using job_rank_le [of "dm_store m" taskID] by simp
  note 1 = advance_rounds_enough [OF rank, of env 0]
  have "advance_deletion env m taskID = advance_rounds env 0 3 m taskID"
    using 1 [of 1] by (simp add: advance_deletion_def)
  with 1 [of k] show ?thesis by simp
qed

subsection \<open>What has happened when a site is gone\<close>

text \<open>
  C18: Safety. Take any DNS provider that keeps the contract \<open>deletion_dns\<close> and any history of a
  control plane started with an empty database. The row of a site disappears only when nothing in the
  database refers to the site any more, its deletion task is recorded as succeeded, and every node that was
  asked to remove the site has confirmed. If moreover the site is not one of those (\<open>S\<close>) whose row or DNS was
  written in this history by somebody who had looked at it before its deletion began, then DNS holds
  no record of it.
\<close>

theorem sites_go_only_when_confirmed:
  assumes "deletion_dns provider records"
    and "(deletion_step S provider)\<^sup>*\<^sup>* m0 m" and "dm_store m0 = empty_store"
    and "deletion_step S provider m m'"
    and "x \<in> set (sites (dm_store m))" and "st_ID x \<notin> st_ID ` set (sites (dm_store m'))"
  shows "unreferenced (dm_store m') (st_ID x)
    \<and> (\<exists>t \<in> set (deployment_tasks (dm_store m')). dt_Kind t = KindDeleteSite \<and> dt_SiteID t = st_ID x
         \<and> dt_Status t = TaskSucceeded
         \<and> list_all (\<lambda>p. ptn_Status p = PublishNodeSucceeded) (task_rows (dm_store m') (dt_ID t)))
    \<and> (st_ID x \<notin> S \<longrightarrow> \<not> list_ex (owned (site_owner (st_ID x))) (records (dm_dns m') (st_ZoneID x)))"
proof -
  have "deletion_inv S records (dm_dns m) (dm_store m)"
    by (rule deletion_dns.history_inv [OF assms(1-3)])
  from deletion_dns.step_well [OF assms(1,4) this] assms(5,6)
  have "well_deleted S records (dm_dns m') (dm_store m') x" by (auto simp: goes_well_def)
  then show ?thesis
    unfolding well_deleted_def by (intro conjI) (blast, auto simp: removal_confirmed_def list_all_iff list_ex_iff set_task_rows)
qed

definition fresh_manager :: "(memory_dns, unit) deletion_manager" where
  "fresh_manager = \<lparr>dm_store = empty_store, dm_dns = Map.empty(''z1'' \<mapsto> []), dm_certificates = ()\<rparr>"

definition with_site :: "(memory_dns, unit) deletion_manager" where
  "with_site = fresh_manager\<lparr>dm_store := empty_store\<lparr>sites := [sample_site]\<rparr>\<rparr>"

definition willing_env :: "(memory_dns, unit) deletion_env" where
  "willing_env = \<lparr>de_DNS = Some MemoryDNS_Reconcile, de_Certificates = Some (\<lambda>c _. (c, Inr ())),
     de_render = (\<lambda>_. Inr ([], [])), de_clock = (\<lambda>_. 5)\<rparr>"

definition begun_deletion :: "(memory_dns, unit) deletion_manager" where
  "begun_deletion = with_site\<lparr>dm_store :=
     fst (projr (BeginSiteDeletion (dm_store with_site) ''s1'' ''admin'' [] ''d1'' 90 0))\<rparr>"

definition gone_manager :: "(memory_dns, unit) deletion_manager" where
  "gone_manager = fst (advance_deletion willing_env begun_deletion ''d1'')"

lemma begun_history: "(deletion_step {} MemoryDNS_Reconcile)\<^sup>*\<^sup>* fresh_manager begun_deletion"
proof -
  have "unused_id (dm_store fresh_manager) (st_ID sample_site)" "\<not> st_Deleting sample_site"
    by (simp_all add: unused_id_def fresh_manager_def sample_site_def empty_store_def)
  from deletion_step.create [OF this, of _ MemoryDNS_Reconcile]
  have 1: "deletion_step {} MemoryDNS_Reconcile fresh_manager with_site"
    by (simp add: with_site_def fresh_manager_def empty_store_def)
  have "case BeginSiteDeletion (dm_store with_site) ''s1'' ''admin'' [] ''d1'' 90 0 of Inl _ \<Rightarrow> False | Inr _ \<Rightarrow> True"
    by code_simp
  then obtain s' x task new where b: "BeginSiteDeletion (dm_store with_site) ''s1'' ''admin'' [] ''d1'' 90 0 = Inr (s', x, task, new)"
    by (auto split: sum.splits)
  from deletion_step.begin_deletion [OF b, of _ MemoryDNS_Reconcile]
  have 2: "deletion_step {} MemoryDNS_Reconcile with_site begun_deletion" by (simp add: begun_deletion_def b)
  from 1 2 show ?thesis by (meson converse_rtranclp_into_rtranclp r_into_rtranclp)
qed

lemma gone_step: "deletion_step {} MemoryDNS_Reconcile begun_deletion gone_manager"
proof -
  have "advance_deletion willing_env begun_deletion ''d1''
      = (gone_manager, snd (advance_deletion willing_env begun_deletion ''d1''))" by (simp add: gone_manager_def)
  from deletion_step.carry_on [OF _ this, of MemoryDNS_Reconcile] show ?thesis by (simp add: willing_env_def)
qed

lemma sites_go_only_when_confirmed_witness:
  "unreferenced (dm_store gone_manager) ''s1''
    \<and> (\<exists>t \<in> set (deployment_tasks (dm_store gone_manager)). dt_Kind t = KindDeleteSite \<and> dt_SiteID t = ''s1''
         \<and> dt_Status t = TaskSucceeded
         \<and> list_all (\<lambda>p. ptn_Status p = PublishNodeSucceeded) (task_rows (dm_store gone_manager) (dt_ID t)))
    \<and> \<not> list_ex (owned (site_owner ''s1'')) (zone_records (dm_dns gone_manager) ''z1'')"
proof -
  have sites: "map (\<lambda>x. (st_ID x, st_ZoneID x)) (sites (dm_store begun_deletion)) = [(''s1'', ''z1'')]" by code_simp
  then obtain x where x: "x \<in> set (sites (dm_store begun_deletion))" "st_ID x = ''s1''" "st_ZoneID x = ''z1''" by auto
  have "sites (dm_store gone_manager) = []"
  proof -
    have "map st_ID (sites (dm_store gone_manager)) = []" by code_simp
    then show ?thesis by simp
  qed
  then have gone: "st_ID x \<notin> st_ID ` set (sites (dm_store gone_manager))" by simp
  have "dm_store fresh_manager = empty_store" by (simp add: fresh_manager_def)
  from sites_go_only_when_confirmed [OF memory_deletion.deletion_dns_axioms begun_history this gone_step x(1) gone]
  show ?thesis unfolding x(2,3) by simp
qed

subsection \<open>A round that began before the deletion\<close>

text \<open>
  Why the sites of \<open>S\<close> are excepted. The health loop looks at the deletion flag in a list of drafts that
  it read at the beginning of its round, and the function that writes DNS looks at the publication only, which
  a deletion leaves as it is. In this history the round read its drafts before the deletion, whose DNS
  withdrawal succeeded and whose staging failed: the round puts the records back.
\<close>

definition unstaged_manager :: "(memory_dns, unit) deletion_manager" where
  "unstaged_manager = fst (StartSiteDeletion
     \<lparr>de_DNS = Some MemoryDNS_Reconcile, de_Certificates = None, de_render = (\<lambda>_. Inl ErrNodeUpgradeActive),
      de_clock = (\<lambda>_. 50 * second)\<rparr> (50 * second)
     \<lparr>dm_store = live_store, dm_dns = Map.empty, dm_certificates = ()\<rparr> ''s1'' ''admin'' [] ''d1'')"

definition stale_round :: "memory_dns health_manager" where
  "stale_round = fst (reconcileSiteDNSOutcomeForPublication MemoryDNS_Reconcile None None None
     (to_health unstaged_manager Map.empty) live_publication (nodes live_store) (51 * second))"

lemma stale_round_restores_records:
  "map st_Deleting (sites (dm_store unstaged_manager)) = [True]
   \<and> zone_records (dm_dns unstaged_manager) ''z1'' = []
   \<and> map rec_Content (zone_records (hm_dns stale_round) ''z1'') = [''192.0.2.1'']"
  by code_simp

end
