(* ===== verification/Site_Deletion_Deadlines.thy ===== *)
theory Site_Deletion_Deadlines
  imports Site_Deletion_Properties
begin

section \<open>Deadlines of site deletions\<close>

text \<open>
  No round adds or removes a task or moves a deadline, so a task that is overdue stays overdue until a
  round closes it.
\<close>

definition deadline_of :: "deployment_task \<Rightarrow> string \<times> time option" where
  "deadline_of t = (dt_ID t, dt_DeadlineAt t)"

definition closed_task :: "store \<Rightarrow> string \<Rightarrow> bool" where
  "closed_task s i \<longleftrightarrow> (\<forall>t \<in> set (deployment_tasks s). dt_ID t = i \<longrightarrow> \<not> active_task_status (dt_Status t))"

definition task_due :: "store \<Rightarrow> string \<Rightarrow> time \<Rightarrow> bool" where
  "task_due s i d \<longleftrightarrow> tasks_wf s \<and> (i, Some d) \<in> deadline_of ` set (deployment_tasks s)"

lemma task_due_same: "map deadline_of (deployment_tasks s') = map deadline_of (deployment_tasks s) \<Longrightarrow>
    task_due s i d \<Longrightarrow> task_due s' i d"
proof -
  assume same: "map deadline_of (deployment_tasks s') = map deadline_of (deployment_tasks s)" and due: "task_due s i d"
  have "map fst (map deadline_of (deployment_tasks s')) = map fst (map deadline_of (deployment_tasks s))"
    unfolding same ..
  then have "map dt_ID (deployment_tasks s') = map dt_ID (deployment_tasks s)" by (simp add: deadline_of_def comp_def)
  moreover have "deadline_of ` set (deployment_tasks s') = deadline_of ` set (deployment_tasks s)"
    using same by (metis list.set_map)
  ultimately show ?thesis using due unfolding task_due_def tasks_wf_def by simp
qed

lemma deadlines_set_task [simp]: "map deadline_of (set_task i st d t ts) = map deadline_of ts"
  by (simp add: set_task_def map_key_update_rows deadline_of_def)

lemma closed_set_task:
  "\<not> active_task_status st \<Longrightarrow> t \<in> set (set_task i st d at ts) \<Longrightarrow> dt_ID t = i \<Longrightarrow> \<not> active_task_status (dt_Status t)"
proof -
  assume "\<not> active_task_status st"
  then have "\<forall>u \<in> set (set_task i st d at ts). dt_ID u = i \<longrightarrow> \<not> active_task_status (dt_Status u)"
    by (induction ts) (simp_all add: set_task_def)
  then show "t \<in> set (set_task i st d at ts) \<Longrightarrow> dt_ID t = i \<Longrightarrow> \<not> active_task_status (dt_Status t)" by blast
qed

lemma update_due:
  assumes "task_due s i d" and "\<not> active_task_status st"
  shows "\<exists>s'. UpdateTask s i st detail t = Inr s' \<and> closed_task s' i"
proof -
  from assms(1) obtain u where u: "u \<in> set (deployment_tasks s)" "dt_ID u = i" and wf: "tasks_wf s"
    by (auto simp: task_due_def deadline_of_def)
  have "count_rows (\<lambda>t. dt_ID t = i) (deployment_tasks s) = 1" using count_one [OF wf u(1)] u(2) by simp
  then have "UpdateTask s i st detail t = Inr (s\<lparr>deployment_tasks := set_task i st detail t (deployment_tasks s)\<rparr>)"
    by (simp add: UpdateTask_def set_task_def)
  moreover have "closed_task (s\<lparr>deployment_tasks := set_task i st detail t (deployment_tasks s)\<rparr>) i"
    unfolding closed_task_def using closed_set_task [OF assms(2)] by simp
  ultimately show ?thesis by blast
qed

lemma find_due: "task_due s i d \<Longrightarrow> \<exists>u. find_task s i = Some u \<and> dt_DeadlineAt u = Some d
    \<and> (\<not> active_task_status (dt_Status u) \<longrightarrow> closed_task s i)"
proof -
  assume due: "task_due s i d"
  then obtain u where u: "u \<in> set (deployment_tasks s)" "dt_ID u = i" "dt_DeadlineAt u = Some d" and wf: "tasks_wf s"
    by (auto simp: task_due_def deadline_of_def)
  have "find_task s i = Some u"
    using find_row_key_unique [of dt_ID "deployment_tasks s" u] wf u by (simp add: find_task_def tasks_wf_def)
  moreover have "t = u" if "t \<in> set (deployment_tasks s)" "dt_ID t = i" for t
    using wf u that by (metis tasks_wf_def distinct_map inj_onD)
  ultimately show ?thesis using u unfolding closed_task_def by blast
qed

lemma counts_total: "task_total s i = task_pending s i + task_succeeded s i + task_failed s i"
proof -
  have "length ps = count_rows (\<lambda>p. ptn_Status p = PublishNodePending) ps
      + count_rows (\<lambda>p. ptn_Status p = PublishNodeSucceeded) ps
      + count_rows (\<lambda>p. ptn_Status p \<in> {PublishNodeFailed, PublishNodeTimedOut}) ps" for ps
  proof (induction ps)
    case (Cons p ps)
    then show ?case by (cases "ptn_Status p") simp_all
  qed simp
  then show ?thesis by (simp add: task_total_def task_pending_def task_succeeded_def task_failed_def)
qed

lemma complete_tasks: "CompleteSiteDeletion s i t = Inr s' \<Longrightarrow>
    \<exists>detail. deployment_tasks s' = set_task i TaskSucceeded detail t (deployment_tasks s)"
  by (auto simp: CompleteSiteDeletion_def Let_def delete_site_rows_def split: option.splits)

text \<open>Once its deadline has passed, a deletion that waits for the edges is closed or goes on.\<close>

lemma ready_due:
  assumes due: "task_due s i d" "d \<le> t" and r: "SiteDeletionReady s i t = (s', r)"
  shows "task_due s' i d \<and> (r = Inr False \<longrightarrow> closed_task s' i)"
proof -
  from find_due [OF due(1)] obtain u where u: "find_task s i = Some u" "dt_DeadlineAt u = Some d"
    "\<not> active_task_status (dt_Status u) \<Longrightarrow> closed_task s i" by blast
  show ?thesis
  proof (cases "active_task_status (dt_Status u)")
    case False
    with r u due show ?thesis by (simp add: SiteDeletionReady_def GetTask_def)
  next
    case True
    define s1 where "s1 = confirm_applied s i t"
    define s2 where "s2 = (if task_pending s1 i > 0 then time_out_removal s1 i else s1)"
    define failed where "failed = (if task_pending s1 i > 0 then task_failed s1 i + task_pending s1 i else task_failed s1 i)"
    define outcome where "outcome = failed_removal (task_total s1 i) (task_succeeded s1 i) failed"
    have tasks: "deployment_tasks s2 = deployment_tasks s"
      by (simp add: s2_def s1_def confirm_applied_def time_out_removal_def)
    have due2: "task_due s2 i d" using due(1) by (simp add: task_due_def tasks_wf_def tasks)
    have eq: "(s', r) = (if failed > 0
          then (case UpdateTask s2 i (fst outcome) (snd outcome) t of Inl e \<Rightarrow> (s2, Inl e) | Inr s3 \<Rightarrow> (s3, Inr False))
          else if task_total s1 i = 0 \<or> task_succeeded s1 i = task_total s1 i
          then (case SetSiteDeletionPhase s2 i SiteDeletionFinalizing TaskApplying
                  (err ''edge removal confirmed; cleaning certificate material'') t of
              Inl e \<Rightarrow> (s2, Inl e) | Inr s3 \<Rightarrow> (s3, Inr True))
          else (s2, Inr False))"
      using True due(2) unfolding r [symmetric] SiteDeletionReady_def GetTask_def u(1,2) option.case sum.case Let_def
        s1_def [symmetric] s2_def [symmetric] failed_def [symmetric] outcome_def [symmetric] by simp
    show ?thesis
    proof (cases "failed > 0")
      case True
      have "\<not> active_task_status (fst outcome)" by (simp add: outcome_def failed_removal_def active_task_status_def)
      from update_due [OF due2 this] obtain s3 where s3: "UpdateTask s2 i (fst outcome) (snd outcome) t = Inr s3"
        "closed_task s3 i" by blast
      have "task_due s3 i d"
        using s3(1) by (intro task_due_same [OF _ due2])
          (auto simp: UpdateTask_def map_key_update_rows deadline_of_def split: if_splits)
      with s3 eq True show ?thesis by simp
    next
      case False
      then have "task_succeeded s1 i = task_total s1 i" using counts_total [of s1 i] by (simp add: failed_def split: if_splits)
      with eq False have "(s', r) = (case SetSiteDeletionPhase s2 i SiteDeletionFinalizing TaskApplying
                  (err ''edge removal confirmed; cleaning certificate material'') t of
              Inl e \<Rightarrow> (s2, Inl e) | Inr s3 \<Rightarrow> (s3, Inr True))" by simp
      then consider "s' = s2" "\<exists>e. r = Inl e" | "r = Inr True" "SetSiteDeletionPhase s2 i SiteDeletionFinalizing TaskApplying
                  (err ''edge removal confirmed; cleaning certificate material'') t = Inr s'"
        by (auto split: sum.splits)
      then show ?thesis
      proof cases
        case 2
        have "task_due s' i d" by (rule task_due_same [OF _ due2]) (simp add: SetSiteDeletionPhaseD(1) [OF 2(2)])
        with 2(1) show ?thesis by simp
      qed (use due2 in auto)
    qed
  qed
qed

lemma phase_round_due:
  assumes due: "task_due (dm_store m) i d" "d \<le> t" and job: "SiteDeletionJobForTask (dm_store m) i \<noteq> None"
    and r: "phase_round env t m i = (m', r)"
  shows "task_due (dm_store m') i d
    \<and> (r = Inr False \<longrightarrow> closed_task (dm_store m') i)
    \<and> (r = Inr True \<longrightarrow> SiteDeletionJobForTask (dm_store m') i \<noteq> None)"
proof -
  obtain j where j: "SiteDeletionJobForTask (dm_store m) i = Some j" using job by blast
  show ?thesis
  proof (cases "sd_Phase j")
    case SiteDeletionWithdrawingDNS
    with r j have w: "withdraw env t m i j = (m', r)" by (simp add: phase_round_def)
    show ?thesis
    proof (cases "dm_store m' = dm_store m")
      case True
      have "r \<noteq> Inr False" using w by (auto simp: withdraw_def split: option.splits sum.splits prod.splits)
      with True due j show ?thesis by simp
    next
      case False
      with w obtain s1 where s1: "SetSiteDeletionPhase (dm_store m) i SiteDeletionWithdrawingDNS TaskDispatching
          (err ''withdrawing managed DNS records'') t = Inr s1"
        by (auto simp: withdraw_def split: sum.splits option.splits)
      have due1: "task_due s1 i d" by (rule task_due_same [OF _ due(1)]) (simp add: SetSiteDeletionPhaseD(1) [OF s1])
      have "(dm_store m' = s1 \<and> (\<exists>e. r = Inl e)) \<or> (r = Inr True \<and>
          (\<exists>x. StageSiteRemoval s1 i x (de_render env) t = Inr (dm_store m')))"
        using w False s1 by (auto simp: withdraw_def split: option.splits sum.splits prod.splits)
      then show ?thesis
      proof (elim disjE conjE exE)
        fix x assume st: "r = Inr True" "StageSiteRemoval s1 i x (de_render env) t = Inr (dm_store m')"
        then obtain us ts where "StageSiteDeletion s1 i us ts t = Inr (dm_store m')"
          by (auto simp: StageSiteRemoval_def split: sum.splits prod.splits)
        then show ?thesis
        proof (rule StageSiteDeletionD)
          fix ps ns assume s2: "dm_store m' = s1\<lparr>publish_nodes := publish_nodes s1 @ ps, node_states := ns,
             site_deletions := set_phase i SiteDeletionWaitingForEdges t (site_deletions s1),
             deployment_tasks := set_task i TaskApplying
               (err ''waiting for active edge nodes to remove the site'') t (deployment_tasks s1)\<rparr>"
            and "\<exists>j. SiteDeletionJobForTask s1 i = Some j"
            and "\<And>j. SiteDeletionJobForTask s1 i = Some j \<Longrightarrow> SiteDeletionJobForTask (dm_store m') i
              = Some (j\<lparr>sd_Phase := SiteDeletionWaitingForEdges, sd_UpdatedAt := t\<rparr>)"
          moreover have "task_due (dm_store m') i d" by (rule task_due_same [OF _ due1]) (simp add: s2)
          ultimately show ?thesis using st(1) by auto
        qed
      qed (use due1 in simp)
    qed
  next
    case SiteDeletionWaitingForEdges
    with r j obtain s' where s': "SiteDeletionReady (dm_store m) i t = (s', r)" "m' = m\<lparr>dm_store := s'\<rparr>"
      by (auto simp: phase_round_def await_edges_def split: prod.splits)
    have "SiteDeletionJobForTask s' i \<noteq> None" if "r = Inr True"
    proof -
      from s'(1) that obtain s2 where s2: "s2 = confirm_applied (dm_store m) i t"
        "SetSiteDeletionPhase s2 i SiteDeletionFinalizing TaskApplying
          (err ''edge removal confirmed; cleaning certificate material'') t = Inr s'" by (auto elim: SiteDeletionReady_True)
      then have "SiteDeletionJobForTask s2 i = Some j" using j by (simp add: SiteDeletionJobForTask_def confirm_applied_def)
      from SetSiteDeletionPhaseD(3) [OF s2(2) this] show ?thesis by simp
    qed
    with ready_due [OF due s'(1)] s'(2) show ?thesis by simp
  next
    case SiteDeletionFinalizing
    with r j have f: "finalize env t m i j = (m', r)" by (simp add: phase_round_def)
    show ?thesis
    proof (cases "r = Inr False")
      case False
      then have "dm_store m' = dm_store m \<and> r \<noteq> Inr True"
        using f by (auto simp: finalize_def split: option.splits sum.splits prod.splits)
      with False due show ?thesis by simp
    next
      case True
      with f have "CompleteSiteDeletion (dm_store m) i t = Inr (dm_store m')"
        by (auto simp: finalize_def split: option.splits sum.splits prod.splits)
      then obtain detail where tasks:
          "deployment_tasks (dm_store m') = set_task i TaskSucceeded detail t (deployment_tasks (dm_store m))"
        using complete_tasks by blast
      have "closed_task (dm_store m') i"
        unfolding closed_task_def tasks using closed_set_task [of TaskSucceeded] by (simp add: active_task_status_def)
      moreover have "task_due (dm_store m') i d" by (rule task_due_same [OF _ due(1)]) (simp add: tasks)
      ultimately show ?thesis using True by simp
    qed
  next
    case (SiteDeletionPhaseOther p)
    with r j due show ?thesis by (auto simp: phase_round_def)
  qed
qed

lemma advance_rounds_due:
  assumes "\<And>k. d \<le> de_clock env k"
  shows "task_due (dm_store m) i d \<Longrightarrow> SiteDeletionJobForTask (dm_store m) i \<noteq> None \<Longrightarrow>
    advance_rounds env k n m i = (m', r) \<Longrightarrow> task_due (dm_store m') i d \<and> (r = Inr () \<longrightarrow> closed_task (dm_store m') i)"
proof (induction n arbitrary: k m)
  case (Suc n)
  obtain m1 q where q: "phase_round env (de_clock env k) m i = (m1, q)" by fastforce
  note 1 = phase_round_due [OF Suc.prems(1) assms Suc.prems(2) q]
  show ?case
  proof (cases "q = Inr True")
    case True
    with Suc.prems(3) q have "advance_rounds env (Suc k) n m1 i = (m', r)" by simp
    with Suc.IH 1 True show ?thesis by blast
  next
    case False
    then have "m1 = m' \<and> (r = Inr () \<longrightarrow> q = Inr False)" using Suc.prems(3) q by (auto split: sum.splits bool.splits)
    with 1 show ?thesis by auto
  qed
qed auto

text \<open>
  C20: Liveness. When the deadline of a site deletion has passed, one further call closes its task,
  whatever the DNS provider, the rendering, the nodes and the cleaner do: it succeeds, or it is recorded
  as failed or partial.
\<close>

theorem overdue_site_deletions_close:
  assumes "tasks_wf s" and "u \<in> set (deployment_tasks s)" and "dt_DeadlineAt u = Some d"
    and "SiteDeletionJobForTask s (dt_ID u) \<noteq> None"
    and "\<And>k. d \<le> de_clock env k"
  shows "closed_task (dm_store (fst (advance_or_fail env now \<lparr>dm_store = s, dm_dns = dns, dm_certificates = cs\<rparr> (dt_ID u))))
    (dt_ID u)"
proof -
  let ?i = "dt_ID u" and ?m = "\<lparr>dm_store = s, dm_dns = dns, dm_certificates = cs\<rparr>"
  have due: "task_due (dm_store ?m) ?i d"
    using assms(1,3) image_eqI [OF _ assms(2), of "(?i, Some d)" deadline_of] by (simp add: task_due_def deadline_of_def)
  obtain m1 r where r: "advance_deletion env ?m ?i = (m1, r)" by fastforce
  have 1: "task_due (dm_store m1) ?i d \<and> (r = Inr () \<longrightarrow> closed_task (dm_store m1) ?i)"
    by (rule advance_rounds_due [OF assms(5) due _ r [unfolded advance_deletion_def]]) (use assms(4) in simp)
  show ?thesis
  proof (cases r)
    case (Inl e)
    have "\<not> active_task_status TaskFailed" by (simp add: active_task_status_def)
    from update_due [OF conjunct1 [OF 1] this, of e now] obtain s' where
      "UpdateTask (dm_store m1) ?i TaskFailed e now = Inr s'" "closed_task s' ?i" by blast
    then show ?thesis by (simp add: advance_or_fail_def r Inl FailSiteDeletion_def)
  next
    case (Inr x)
    with 1 show ?thesis by (simp add: advance_or_fail_def r)
  qed
qed

lemma overdue_site_deletions_close_witness:
  "closed_task (dm_store (fst (advance_or_fail (willing_env\<lparr>de_DNS := None, de_clock := \<lambda>_. 100\<rparr>) 100 begun_deletion ''d1''))) ''d1''"
proof -
  let ?s = "dm_store begun_deletion"
  have tasks: "map (\<lambda>t. (dt_ID t, dt_DeadlineAt t)) (deployment_tasks ?s) = [(''d1'', Some 90)]" by code_simp
  then obtain u where u: "deployment_tasks ?s = [u]" "dt_ID u = ''d1''" "dt_DeadlineAt u = Some 90" by auto
  have "SiteDeletionJobForTask ?s (dt_ID u) \<noteq> None" unfolding u(2) by code_simp
  from overdue_site_deletions_close [of ?s u 90 "willing_env\<lparr>de_DNS := None, de_clock := \<lambda>_. 100\<rparr>" 100
      "dm_dns begun_deletion" "dm_certificates begun_deletion", OF _ _ u(3) this]
  have "closed_task (dm_store (fst (advance_or_fail (willing_env\<lparr>de_DNS := None, de_clock := \<lambda>_. 100\<rparr>) 100
      \<lparr>dm_store = ?s, dm_dns = dm_dns begun_deletion, dm_certificates = dm_certificates begun_deletion\<rparr> (dt_ID u)))) (dt_ID u)"
    by (simp add: u(1) tasks_wf_def)
  moreover have "\<lparr>dm_store = ?s, dm_dns = dm_dns begun_deletion, dm_certificates = dm_certificates begun_deletion\<rparr>
      = begun_deletion" by (rule deletion_manager.equality) simp_all
  ultimately show ?thesis by (simp only: u(2))
qed

end
