(* ===== verification/Spec2Isabelle.thy ===== *)
theory Spec2Isabelle
  imports Smart_Reconcile Publication_Properties DNS_Properties Rollout_Properties Hostname_Properties
    Origin_Reports Schedule_Properties Auth_Properties Auth_Limits Auth_Guards Node_Enrollment
    Site_Deletion_Deadlines
begin

text \<open>
  A verification development for simple\_cdn, the control plane and the edge agent of a small CDN.

  \<^bold>\<open>The program.\<close> One control plane keeps everything it knows in a SQLite database
  (\<open>internal/store\<close>): nodes, sites, desired states, publications, drains, health counters, upgrade
  tasks. Administrators change drafts of sites; the publisher (\<open>internal/control/publisher.go\<close>) turns
  a draft into a publication, that is a configuration for each node concerned and a row of confirmation
  targets; the edge agents (\<open>internal/edge\<close>) fetch the desired state, write files, test and reload
  nginx and report back; the health loop (\<open>internal/control/health.go\<close>) points DNS at the nodes that
  are healthy, scheduled and converged. A node that leaves a site keeps a drain, a copy of its old
  configuration, until DNS has moved away and the answers in caches have run out. Smart routing drains
  and resumes nodes by score and by schedule. Upgrades of the agents go through a table of tasks and
  through rollouts that put a canary first. A node is removed by a script that runs on it and reports with a
  token; a site is deleted in phases, DNS first, then the edges, then its certificate and its rows. One
  administrator logs in with a password and a second factor, or with a passkey.

  \<^bold>\<open>How the code is modelled.\<close> A Go struct is a record with the fields of the struct, prefixed with
  the initials of the type; a Go string enumeration is a datatype; a slice is a list, a pointer an option, a
  Go string the list of its bytes, an \<open>int\<close> an \<open>int\<close>, and a time the number of its nanoseconds.
  The record \<open>store\<close> of \<open>Store_State\<close> has one list of rows for each table; a method of \<open>*Store\<close> is
  a function from a store to a result and a store. An error is a value: a method that fails returns
  \<open>Inl\<close> of a \<open>go_error\<close>, and since its transaction is rolled back there is no new store; an operation
  that is not a transaction returns the state as far as it came along with its error. Readings of the
  clock, generated identifiers, digests, network answers, and what the operating system and nginx answer
  are arguments, so a theorem holds for all of them.

  \<^bold>\<open>The theories.\<close>

  \<^item> Foundations. \<open>Prelude\<close>: errors, results, tables as lists of rows, time stamps and the text form in
    which SQLite compares them, the contract \<open>normalizer\<close>. \<open>Domain_Types\<close> (\<open>internal/domain/domain.go\<close>)
    and \<open>Store_State\<close> (the rows of \<open>internal/store/store.go\<close>). \<open>Samples\<close>: the states the witnesses
    evaluate. \<open>Go_Strings\<close>, \<open>Go_Runes\<close>, \<open>Go_Net\<close> and \<open>Go_Net_Facts\<close>: what the program uses of the packages
    strings, strconv, unicode, utf8, net and path. \<open>Hysteresis\<close>: the contract of a gate with two
    thresholds, with the exact sequences of observations that move it.

  \<^item> Smart routing (\<open>internal/store/smart_routing.go\<close>). \<open>Smart_Routing\<close> has the operations,
    \<open>Monitoring_Rounds\<close> the rounds that move the score gate (\<open>internal/store/monitoring.go\<close>),
    \<open>Smart_Schedule\<close> shows that the minute arithmetic of the windows decides membership in a union of
    intervals of absolute time, \<open>Smart_Reconcile\<close> says row by row what one round of reconciliation leaves, that a
    second one changes nothing, and which nodes it may drain or resume.

  \<^item> Health (\<open>RecordHealth\<close> and its two siblings in \<open>store.go\<close>): \<open>Node_Health\<close>, three instances of the
    gate of \<open>Hysteresis\<close>.

  \<^item> Publications. \<open>Publish_Tasks\<close> (tasks, targets, edge reports and deadlines of \<open>store.go\<close>),
    \<open>Publish_Facts\<close> (every operation is an \<open>advance\<close>), \<open>Publish_Properties\<close>; \<open>Publication\<close> (the commit
    transaction of \<open>publication.go\<close> and the stages of \<open>site_node_drains.go\<close>), \<open>Publisher\<close> (what
    \<open>control/publisher.go\<close> collects before it), \<open>Publication_Facts\<close> and \<open>Publication_Properties\<close>: no node
    leaves a site without a drain, no serving node drains, a domain name has one owner.

  \<^item> DNS. \<open>Site_DNS\<close> (\<open>control/health.go\<close>: which nodes a site points at), \<open>DNS_Records\<close>
    (\<open>integrations/cloudflare.go\<close>: the provider in memory, an instance of the contract \<open>dns_provider\<close>, and the
    comments of managed records), \<open>DNS_Properties\<close>.

  \<^item> Upgrades. \<open>Upgrades\<close> and \<open>Upgrade_Properties\<close> (\<open>store/upgrade.go\<close>); \<open>Rollouts\<close>
    (\<open>store/upgrade_rollout.go\<close>, \<open>domain/upgrade_rollout.go\<close>), \<open>Rollout_Round\<close>
    (\<open>control/upgrade_rollout.go\<close>) and \<open>Rollout_Properties\<close>.

  \<^item> Validation (\<open>domain/validate.go\<close>, \<open>domain/monitoring.go\<close>). \<open>Limits\<close> for the settings that are
    numbers; \<open>Hostnames\<close>, \<open>Hostname_Facts\<close> and \<open>Hostname_Properties\<close> for names, addresses and TCP forwards.
    Each normalisation is an interpretation of \<open>normalizer\<close>.

  \<^item> Origin pools on the edge. \<open>Origin_Pools\<close> (\<open>domain/origin.go\<close>), \<open>Origin_Circuit\<close> (the circuit
    breaker of \<open>edge/origin_health.go\<close>, its files and its saved state), \<open>Circuit_History\<close> (a reference
    definition without counters), \<open>Origin_Stage\<close> (replacing the set of pools), \<open>Origin_Tables\<close>
    (facts on the table of circuits), \<open>Origin_Schedule\<close> and \<open>Schedule_Properties\<close> (when probes are due and
    what their answers mean), \<open>Origin_Reports\<close> (the reports pass the validation of the control plane).

  \<^item> Applying a desired state (\<open>edge/agent.go\<close>). \<open>Edge_Apply\<close> (ports and listeners), \<open>Edge_Files\<close>
    (certificates and configuration files), \<open>Edge_Locked\<close> (\<open>applyLocked\<close> as a whole); \<open>Edge_Facts\<close>,
    \<open>Edge_Atomic\<close> and \<open>Edge_Properties\<close>: a failed apply is undone. \<open>Edge_Agreement\<close>, \<open>Edge_Steps\<close> and
    \<open>Edge_Invariants\<close> compose applies, probes and restarts: the circuit in memory, in the file nginx
    includes, in what nginx has loaded and in the state file agree after every sequence of them.

  \<^item> Authentication. \<open>Auth_Store\<close> (administrator, sessions, one-time passwords, recovery codes and the
    limits on attempts of \<open>store.go\<close> and \<open>store/authentication.go\<close>), \<open>Passkey_Store\<close>
    (\<open>store/passkeys.go\<close>), \<open>Auth_Credentials\<close> (\<open>auth/auth.go\<close>, \<open>control/initialization_token.go\<close>),
    \<open>Auth_Handlers\<close> (setup and the secret of one-time passwords), \<open>Auth_Login\<close> (login, guards and repeated
    authentication of \<open>control/server.go\<close>, \<open>control/authentication_security.go\<close> and
    \<open>control/authentication_settings.go\<close>), \<open>Passkey_Login\<close> (\<open>control/passkeys.go\<close>). \<open>Auth_Trace\<close> is the
    datatype of store calls with their runs as labelled steps; \<open>Auth_Facts\<close>, \<open>Auth_Properties\<close>,
    \<open>Auth_Limits\<close> and \<open>Auth_Guards\<close> hold what is true of every interleaving of them.

  \<^item> Nodes and their removal. \<open>Node_Store\<close> (registration, enrolment tokens, certificates, heartbeats and
    changes of status of \<open>store.go\<close>), \<open>Node_Removal\<close> (\<open>store/uninstall.go\<close>). \<open>Node_Lifecycle\<close> has the
    calls as a datatype and, as their abstract specification, a state machine on the cell of a node: status,
    certificate and removal job. \<open>Node_Facts\<close> and \<open>Node_Moves\<close> show call by call that the store moves along it;
    \<open>Node_Properties\<close> and \<open>Node_Enrollment\<close> draw the consequences.

  \<^item> Deleting a site. \<open>Site_Deletion\<close> (\<open>store/site_deletion.go\<close>, \<open>control/site_deletion.go\<close> and
    \<open>StageSiteRemoval\<close> of \<open>control/publisher.go\<close>). \<open>Site_Deletion_Facts\<close>: what each operation changes.
    \<open>Site_Deletion_History\<close>: what the publication steps keep of a deletion. \<open>Site_Deletion_Invariant\<close>: the
    invariant, inside the contract \<open>deletion_dns\<close>, which extends \<open>dns_provider\<close> and is interpreted on the
    provider in memory. \<open>Site_Deletion_Rounds\<close>, \<open>Site_Deletion_Properties\<close> and
    \<open>Site_Deletion_Deadlines\<close>: a site goes only when everything else is gone, the loop ends, a
    deadline closes the task.

  \<^bold>\<open>Interactions.\<close> Smart routing changes \<open>ns_DNSStatus\<close> of nodes, which the health loop reads; the health
  counters gate the same decision. A commit writes desired states and targets, which edge reports (applies of
  \<open>Edge_Locked\<close>) confirm; confirmed tasks release drains, and the health loop starts the clocks of the
  drains that the commit made. A rollout works on the upgrade tasks of its members. A site deletion uses the
  tasks, targets and edge reports of the publications and the provider of the health loop; the removal
  of a node is guarded in every operation that would enrol it, certify it or change its status, with the one
  exception (smart routing) that ends \<open>Node_Enrollment\<close>. The properties
  that follow sequences of operations of several components are stated over step relations on the whole
  store (\<open>routing_step\<close>, \<open>publish_step\<close>, \<open>drain_step\<close>, \<open>upgrade_step\<close>, \<open>rollout_step\<close>,
  \<open>agent_step\<close>, \<open>deletion_step\<close>, \<open>cell_step\<close>), as inductive relations, or over runs of lists of calls
  (\<open>node_run\<close> and the runs of \<open>Auth_Trace\<close>). Where the code checks a row and writes it later, others may come in
  between, and the step relation says for whom this may happen: \<open>publish_step W\<close> lets the publisher write the
  tasks of \<open>W\<close> whatever their status has become, and \<open>deletion_step S\<close> lets edits and rounds of DNS write the sites
  of \<open>S\<close> although their deletion has begun; \<open>Site_Deletion_Properties.stale_round_restores_records\<close> evaluates
  what such a round does. Methods that run several statements without a transaction
  (\<open>ReconcilePublishTasks\<close>) are one step, with one reading of the clock. \<open>agent_step\<close> asks that the calls
  that undo a failed step work; \<open>Edge_Invariants\<close> shows what happens when a backup cannot be read.

  \<^bold>\<open>Bounds, loops and fuel.\<close> No definition uses fuel. Loops over slices are structural recursions. The loop that waits
  for listeners (\<open>poll_listeners\<close>) ends since the time left until its timeout is a measure; text scanners
  recurse on the rest of the text with its length as measure. The loop that advances a site deletion has the
  source's own bound of four rounds as its counter; three are enough, since each round that goes on raises the
  phase (\<open>job_rank\<close>). Integers are unbounded where the
  program's values stay far from the limits of an \<open>int64\<close> (counters, ports, seconds, nanoseconds of this
  century), and kept in their checked ranges where the code checks them. The text form of times is kept
  where the code compares texts, with its one oddity stated below.

  \<^bold>\<open>Parameters.\<close> The DNS provider is known through contracts on the records that carry the comments of the program,
  without the identifiers a provider assigns: \<open>dns_provider\<close> and \<open>deletion_dns\<close>, which the repository's provider
  in memory satisfies, so that both can hold. The state file of the edge agent is the value that is encoded into
  it: JSON and back is the identity, and the checks on loading are modelled.

  \<^bold>\<open>Not modelled.\<close> The text of nginx configurations (\<open>internal/nginx\<close>): its meaning is that of nginx, which is
  not part of the repository; \<open>Publisher\<close> takes the rendered states as arguments. Digests, HMAC, argon2, AES and
  the verification of WebAuthn answers are arguments too, so is what the DNS provider and the cleaner of certificates
  answer. The audit log is left out: no modelled operation reads it. HTTP handlers outside authentication, JSON, TLS
  and network calls (\<open>control/server.go\<close>, the \<open>_api\<close> files and \<open>control/uninstall.go\<close>; enrolment,
  heartbeats and downloads of \<open>edge/agent.go\<close>; the Cloudflare client, certbot, SMTP); schema migrations;
  listings for the user interface; cache operations; backups and restores (restic, ClickHouse); WireGuard,
  security rules and log processing.
\<close>

section \<open>Time stamps\<close>

text \<open>
  The text of a time at a whole second sorts after the text of any later time in the same second,
  since \<open>time.RFC3339Nano\<close> drops the fraction and the letter Z sorts after the decimal point.
\<close>

lemma text_le_not_monotone: "0 < (500000000::time) \<and> \<not> text_le 0 500000000"
  by code_simp

end
